(* ===== verification/Prelude.thy ===== *)
theory Prelude
  imports Main "HOL-Library.Multiset"
begin

text \<open>
  Shared vocabulary of the development: the error values of the hub, clock readings, signed
  64-bit wrap-around, the insertion sort the Go code writes out by hand in two packages, and the
  contracts (locales) that several components have in common:
  \<^item> \<open>sort_order\<close>: the strict weak order a comparison has to be for that sort to be right;
  \<^item> \<open>slot_lock\<close>: one holder per key (a machine in the pool, a task of the scheduler);
  \<^item> \<open>single_use\<close>: a code that is spent at most once (enrollment codes, invites, CLI grants,
    sign-in ceremonies).
\<close>

section \<open>Collections of facts\<close>

named_theorems db_simps \<open>unfolding rules of the table operations\<close>
named_theorems guard_defs \<open>definitions of the admission guards\<close>

section \<open>Errors and results\<close>

text \<open>
  The Go code returns an \<open>error\<close> beside its result. The kinds a caller can tell apart are
  constructors of their own; all the others are \<open>Err\<close> with their message.
\<close>

datatype err =
    Err string
  | Refusal string
  | Offline string
  | NoHost
  | NoRows
  | NoPeer
  | TokenExists
  | NoSecret
  | CatalogNotFound
  | SqlUnique
  | SqlCheck
  | SqlForeignKey

type_synonym 'a res = "err + 'a"

definition is_ok :: "'a res \<Rightarrow> bool" where
  "is_ok r = (case r of Inl _ \<Rightarrow> False | Inr _ \<Rightarrow> True)"

lemma is_ok_simps [simp]: "is_ok (Inl e) = False" "is_ok (Inr x) = True"
  by (simp_all add: is_ok_def)

lemma is_ok_iff: "is_ok r \<longleftrightarrow> (\<exists>x. r = Inr x)"
  by (cases r) auto

section \<open>Clock readings\<close>

text \<open>
  An instant is a number of nanoseconds since the epoch, as \<open>time.Time\<close> carries. The database
  compares formatted strings; both formats used order as the truncated numbers do: RFC 3339 keeps
  whole seconds, SQLite's \<open>%f\<close> keeps milliseconds.
\<close>

type_synonym instant = int

definition second :: int where "second = 1000000000"
definition minute :: int where "minute = 60 * second"
definition hour :: int where "hour = 60 * minute"
definition day :: int where "day = 24 * hour"

lemmas clock_defs = second_def minute_def hour_def day_def

definition rfc3339 :: "instant \<Rightarrow> int" where
  "rfc3339 t = t div second"

definition sql_stamp :: "instant \<Rightarrow> int" where
  "sql_stamp t = t div 1000000"

lemma rfc3339_mono: "s \<le> t \<Longrightarrow> rfc3339 s \<le> rfc3339 t"
  by (simp add: rfc3339_def second_def zdiv_mono1)

lemma sql_stamp_mono: "s \<le> t \<Longrightarrow> sql_stamp s \<le> sql_stamp t"
  by (simp add: sql_stamp_def zdiv_mono1)

section \<open>Signed 64-bit arithmetic\<close>

text \<open>What an \<open>int64\<close> holds after an operation whose mathematical result is \<open>x\<close>.\<close>

definition i64 :: "int \<Rightarrow> int" where
  "i64 x = (x + 2 ^ 63) mod 2 ^ 64 - 2 ^ 63"

definition in_i64 :: "int \<Rightarrow> bool" where
  "in_i64 x \<longleftrightarrow> - (2 ^ 63) \<le> x \<and> x < 2 ^ 63"

lemma i64_id: "in_i64 x \<Longrightarrow> i64 x = x"
  by (simp add: i64_def in_i64_def)

lemma in_i64_i64: "in_i64 (i64 x)"
  using pos_mod_bound [of "2 ^ 64 :: int" "x + 2 ^ 63"] pos_mod_sign [of "2 ^ 64 :: int" "x + 2 ^ 63"]
  by (simp add: i64_def in_i64_def)

text \<open>Go's integer division truncates towards zero.\<close>

definition go_div :: "int \<Rightarrow> int \<Rightarrow> int" where
  "go_div a b = sgn a * sgn b * (\<bar>a\<bar> div \<bar>b\<bar>)"

lemma go_div_nonneg: "0 \<le> a \<Longrightarrow> 0 < b \<Longrightarrow> go_div a b = a div b"
  by (cases "a = 0") (auto simp: go_div_def sgn_if)

section \<open>The hand-written insertion sort\<close>

text \<open>
  \<open>sortStrings\<close> (pool.go) and \<open>sortCands\<close> (peers.go) are the same loop: element \<open>i\<close> is
  swapped down while it is less than its left neighbour. \<open>sink\<close> is the inner loop on the sorted
  prefix held in reverse, so that the neighbour to compare with is its head.
\<close>

fun sink :: "('a \<Rightarrow> 'a \<Rightarrow> bool) \<Rightarrow> 'a \<Rightarrow> 'a list \<Rightarrow> 'a list" where
  "sink lt x [] = [x]"
| "sink lt x (y # ys) = (if lt x y then y # sink lt x ys else x # y # ys)"

definition insertion_sort :: "('a \<Rightarrow> 'a \<Rightarrow> bool) \<Rightarrow> 'a list \<Rightarrow> 'a list" where
  "insertion_sort lt xs = rev (fold (sink lt) xs [])"

lemma mset_sink [simp]: "mset (sink lt x ys) = add_mset x (mset ys)"
  by (induction ys) auto

lemma mset_fold_sink: "mset (fold (sink lt) xs acc) = mset xs + mset acc"
  by (induction xs arbitrary: acc) auto

lemma mset_insertion_sort [simp]: "mset (insertion_sort lt xs) = mset xs"
  by (simp add: insertion_sort_def mset_fold_sink)

lemma set_insertion_sort [simp]: "set (insertion_sort lt xs) = set xs"
  by (metis mset_insertion_sort set_mset_mset)

lemma length_insertion_sort [simp]: "length (insertion_sort lt xs) = length xs"
  by (metis mset_insertion_sort size_mset)

lemma distinct_insertion_sort [simp]: "distinct (insertion_sort lt xs) = distinct xs"
  by (metis mset_insertion_sort mset_eq_imp_distinct_iff)

locale sort_order =
  fixes lt :: "'a \<Rightarrow> 'a \<Rightarrow> bool"
  assumes lt_asym: "lt x y \<Longrightarrow> \<not> lt y x"
    and not_lt_trans: "\<not> lt y x \<Longrightarrow> \<not> lt z y \<Longrightarrow> \<not> lt z x"
begin

definition ordered :: "'a list \<Rightarrow> bool" where
  "ordered xs \<longleftrightarrow> sorted_wrt (\<lambda>a b. \<not> lt b a) xs"

lemma sink_descending:
  "sorted_wrt (\<lambda>a b. \<not> lt a b) ys \<Longrightarrow> sorted_wrt (\<lambda>a b. \<not> lt a b) (sink lt x ys)"
proof (induction ys)
  case Nil
  then show ?case by simp
next
  case (Cons y ys)
  have members: "set (sink lt x ys) = insert x (set ys)"
    by (metis mset_sink set_mset_add_mset_insert set_mset_mset)
  show ?case
  proof (cases "lt x y")
    case True
    with Cons members show ?thesis by (auto dest: lt_asym)
  next
    case False
    with Cons.prems not_lt_trans show ?thesis by (auto; blast)
  qed
qed

lemma fold_sink_descending:
  "sorted_wrt (\<lambda>a b. \<not> lt a b) acc \<Longrightarrow>
   sorted_wrt (\<lambda>a b. \<not> lt a b) (fold (sink lt) xs acc)"
  by (induction xs arbitrary: acc) (auto intro: sink_descending)

lemma insertion_sort_ordered: "ordered (insertion_sort lt xs)"
  using fold_sink_descending [of "[]" xs]
  by (simp add: ordered_def insertion_sort_def sorted_wrt_rev)

lemma first_is_least:
  assumes "insertion_sort lt xs = x # rest" and "y \<in> set xs"
  shows "\<not> lt y x"
proof -
  have "y = x \<or> y \<in> set rest"
    using assms set_insertion_sort [of lt xs] by auto
  then show ?thesis
    using insertion_sort_ordered [of xs] assms(1) lt_asym [of x x] by (auto simp: ordered_def)
qed

end

text \<open>A strictly sorted list is determined by the set of its elements.\<close>

lemma strictly_sorted_unique:
  assumes asym: "\<And>a b. R a b \<Longrightarrow> \<not> R b a"
  shows "sorted_wrt R xs \<Longrightarrow> sorted_wrt R ys \<Longrightarrow> set xs = set ys \<Longrightarrow> xs = ys"
proof (induction xs arbitrary: ys)
  case (Cons x xs)
  then obtain y zs where ys: "ys = y # zs" by (cases ys) auto
  have "x = y" using Cons.prems asym by (simp add: ys) (metis insertE insertI1)
  moreover have "x \<notin> set xs" "y \<notin> set zs" using Cons.prems by (auto simp: ys) (metis asym)+
  ultimately show ?case using Cons.IH [of zs] Cons.prems by (auto simp: ys insert_eq_iff)
qed simp

section \<open>One holder per key\<close>

text \<open>
  A slot is taken by at most one holder: \<open>take\<close> answers whether it got the slot, \<open>release\<close>
  gives it back. The pool's busy set and the scheduler's running set promise this.
\<close>

locale slot_lock =
  fixes held :: "'s \<Rightarrow> 'k \<Rightarrow> bool"
    and acq :: "'k \<Rightarrow> 's \<Rightarrow> bool \<times> 's"
    and rel :: "'k \<Rightarrow> 's \<Rightarrow> 's"
  assumes acq_answer: "fst (acq k s) \<longleftrightarrow> \<not> held s k"
    and acq_held: "held (snd (acq k s)) j \<longleftrightarrow> j = k \<or> held s j"
    and rel_held: "held (rel k s) j \<longleftrightarrow> j \<noteq> k \<and> held s j"
begin

lemma no_double_acquire: "\<not> fst (acq k (snd (acq k s)))"
  by (simp add: acq_answer acq_held)

lemma acquire_after_release: "fst (acq k (rel k s))"
  by (simp add: acq_answer rel_held)

lemma release_acquire_other: "j \<noteq> k \<Longrightarrow> held (rel k (snd (acq k s))) j \<longleftrightarrow> held s j"
  by (simp add: acq_held rel_held)

lemma acquire_release_frame: "\<not> held s k \<Longrightarrow> held (rel k (snd (acq k s))) j \<longleftrightarrow> held s j"
  by (auto simp: acq_held rel_held)

end

section \<open>Codes that are spent once\<close>

text \<open>
  \<open>live t s c\<close> says a code can be spent at time \<open>t\<close>; \<open>spend t c s\<close> answers whether this call
  spent it; \<open>ok\<close> is the invariant of the store that holds the codes. Once a code is spent, no
  later call spends it again, at whatever clock reading and whatever other codes are spent between.
\<close>

locale single_use =
  fixes ok :: "'s \<Rightarrow> bool"
    and live :: "'t \<Rightarrow> 's \<Rightarrow> 'c \<Rightarrow> bool"
    and spend :: "'t \<Rightarrow> 'c \<Rightarrow> 's \<Rightarrow> bool \<times> 's"
  assumes spend_ok: "ok s \<Longrightarrow> ok (snd (spend t c s))"
    and spend_live: "ok s \<Longrightarrow> fst (spend t c s) \<longleftrightarrow> live t s c"
    and spend_dead: "ok s \<Longrightarrow> fst (spend t c s) \<Longrightarrow> \<not> live u (snd (spend t c s)) c"
    and spend_frame: "ok s \<Longrightarrow> live u (snd (spend t c s)) d \<Longrightarrow> live u s d"
begin

fun spend_all :: "('t \<times> 'c) list \<Rightarrow> 's \<Rightarrow> bool list" where
  "spend_all [] s = []"
| "spend_all (tc # cs) s =
     fst (spend (fst tc) (snd tc) s) # spend_all cs (snd (spend (fst tc) (snd tc) s))"

lemma dead_never_spent:
  "ok s \<Longrightarrow> \<forall>u. \<not> live u s c \<Longrightarrow> i < length cs \<Longrightarrow> snd (cs ! i) = c \<Longrightarrow> \<not> spend_all cs s ! i"
proof (induction cs arbitrary: s i)
  case Nil
  then show ?case by simp
next
  case (Cons d cs)
  let ?s = "snd (spend (fst d) (snd d) s)"
  show ?case
  proof (cases i)
    case 0
    with Cons.prems show ?thesis by (simp add: spend_live)
  next
    case (Suc j)
    have "\<forall>u. \<not> live u ?s c" using Cons.prems(1,2) spend_frame by blast
    moreover have "ok ?s" using Cons.prems(1) by (rule spend_ok)
    ultimately have "\<not> spend_all cs ?s ! j" using Cons.IH Cons.prems(3,4) Suc by simp
    with Suc show ?thesis by simp
  qed
qed

lemma spent_at_most_once:
  "ok s \<Longrightarrow> i < j \<Longrightarrow> j < length cs \<Longrightarrow> snd (cs ! i) = snd (cs ! j) \<Longrightarrow> spend_all cs s ! i \<Longrightarrow>
   \<not> spend_all cs s ! j"
proof (induction cs arbitrary: s i j)
  case Nil
  then show ?case by simp
next
  case (Cons d cs)
  then obtain j' where j: "j = Suc j'" by (cases j) auto
  let ?s = "snd (spend (fst d) (snd d) s)"
  show ?case
  proof (cases i)
    case 0
    then have "fst (spend (fst d) (snd d) s)" using Cons.prems by simp
    then have "\<forall>u. \<not> live u ?s (snd d)" using spend_dead Cons.prems(1) by blast
    moreover have "ok ?s" using Cons.prems(1) by (rule spend_ok)
    ultimately have "\<not> spend_all cs ?s ! j'"
      using dead_never_spent [of ?s "snd d" j' cs] Cons.prems 0 j by simp
    with j show ?thesis by simp
  next
    case (Suc i')
    with Cons.prems j have "\<not> spend_all cs ?s ! j'"
      by (intro Cons.IH [of ?s i' j']) (simp_all add: spend_ok)
    with j show ?thesis by simp
  qed
qed

end

end
