(* ===== verification/GoStrings.thy ===== *)
theory GoStrings
  imports Prelude
begin

text \<open>
  The functions of Go's \<open>strings\<close>, \<open>strconv\<close> and \<open>fmt\<close> that the modelled code calls, on
  byte strings (lists of \<open>char\<close>). Case folding and white space are those of the ASCII range,
  which is what the inputs at stake (settings, host names, paths, shell commands) are written in.
\<close>

section \<open>Character classes\<close>

abbreviation code :: "char \<Rightarrow> nat" where
  "code c \<equiv> of_char c"

definition newline :: char where "newline = CHR 0x0A"

definition is_space :: "char \<Rightarrow> bool" where
  "is_space c \<longleftrightarrow> c \<in> {CHR '' '', CHR 0x09, CHR 0x0A, CHR 0x0B, CHR 0x0C, CHR 0x0D}"

definition is_digit :: "char \<Rightarrow> bool" where
  "is_digit c \<longleftrightarrow> 48 \<le> code c \<and> code c \<le> 57"

definition is_lower :: "char \<Rightarrow> bool" where
  "is_lower c \<longleftrightarrow> 97 \<le> code c \<and> code c \<le> 122"

definition is_upper :: "char \<Rightarrow> bool" where
  "is_upper c \<longleftrightarrow> 65 \<le> code c \<and> code c \<le> 90"

definition lower_char :: "char \<Rightarrow> char" where
  "lower_char c = (if is_upper c then char_of (code c + 32) else c)"

definition upper_char :: "char \<Rightarrow> char" where
  "upper_char c = (if is_lower c then char_of (code c - 32) else c)"

definition to_lower :: "string \<Rightarrow> string" where
  "to_lower = map lower_char"

definition to_upper :: "string \<Rightarrow> string" where
  "to_upper = map upper_char"

definition equal_fold :: "string \<Rightarrow> string \<Rightarrow> bool" where
  "equal_fold a b \<longleftrightarrow> to_lower a = to_lower b"

lemmas char_class_defs = is_space_def is_digit_def is_lower_def is_upper_def

lemma lower_idem [simp]: "to_lower (to_lower s) = to_lower s"
  by (auto simp: to_lower_def lower_char_def is_upper_def)

section \<open>Prefixes, suffixes, substrings\<close>

fun strip_prefix :: "string \<Rightarrow> string \<Rightarrow> string option" where
  "strip_prefix [] s = Some s"
| "strip_prefix (p # ps) [] = None"
| "strip_prefix (p # ps) (c # cs) = (if p = c then strip_prefix ps cs else None)"

definition has_prefix :: "string \<Rightarrow> string \<Rightarrow> bool" where
  "has_prefix s p \<longleftrightarrow> strip_prefix p s \<noteq> None"

definition trim_prefix :: "string \<Rightarrow> string \<Rightarrow> string" where
  "trim_prefix s p = (case strip_prefix p s of None \<Rightarrow> s | Some r \<Rightarrow> r)"

definition has_suffix :: "string \<Rightarrow> string \<Rightarrow> bool" where
  "has_suffix s p \<longleftrightarrow> has_prefix (rev s) (rev p)"

definition trim_suffix :: "string \<Rightarrow> string \<Rightarrow> string" where
  "trim_suffix s p = rev (trim_prefix (rev s) (rev p))"

fun contains_str :: "string \<Rightarrow> string \<Rightarrow> bool" where
  "contains_str [] p = (p = [])"
| "contains_str (c # cs) p = (has_prefix (c # cs) p \<or> contains_str cs p)"

definition contains_any :: "string \<Rightarrow> string \<Rightarrow> bool" where
  "contains_any s chars \<longleftrightarrow> list_ex (\<lambda>c. c \<in> set chars) s"

lemma strip_prefix_iff: "strip_prefix p s = Some r \<longleftrightarrow> s = p @ r"
  by (induction p s rule: strip_prefix.induct) auto

lemma has_prefix_iff: "has_prefix s p \<longleftrightarrow> (\<exists>r. s = p @ r)"
  by (auto simp: has_prefix_def strip_prefix_iff)

lemma has_suffix_iff: "has_suffix s p \<longleftrightarrow> (\<exists>r. s = r @ p)"
  by (simp add: has_suffix_def has_prefix_iff) (metis rev_append rev_rev_ident)

lemma has_prefix_Nil [simp]: "has_prefix s []"
  by (simp add: has_prefix_iff)

lemma has_prefix_Cons [simp]: "has_prefix (c # cs) (p # ps) \<longleftrightarrow> c = p \<and> has_prefix cs ps"
  by (auto simp: has_prefix_iff)

lemma has_prefix_Nil_Cons [simp]: "\<not> has_prefix [] (p # ps)"
  by (simp add: has_prefix_iff)

lemma trim_prefix_append [simp]: "trim_prefix (p @ r) p = r"
proof -
  have "strip_prefix p (p @ r) = Some r" by (simp add: strip_prefix_iff)
  then show ?thesis by (simp add: trim_prefix_def)
qed

lemma contains_str_iff: "contains_str s p \<longleftrightarrow> (\<exists>a b. s = a @ p @ b)"
proof (induction s)
  case Nil
  then show ?case by simp
next
  case (Cons c cs)
  show ?case
  proof
    assume "contains_str (c # cs) p"
    then consider b where "c # cs = p @ b" | a b where "cs = a @ p @ b"
      using Cons by (auto simp: has_prefix_iff)
    then show "\<exists>a b. c # cs = a @ p @ b"
      by cases (metis append_Nil, metis append_Cons)
  next
    assume "\<exists>a b. c # cs = a @ p @ b"
    then obtain a b where "c # cs = a @ p @ b" by blast
    then have "has_prefix (c # cs) p \<or> (\<exists>a b. cs = a @ p @ b)"
      by (cases a) (auto simp: has_prefix_iff simp del: has_prefix_Cons)
    with Cons show "contains_str (c # cs) p"
      by (simp del: has_prefix_Cons)
  qed
qed

section \<open>Trimming and splitting\<close>

definition trim_left :: "(char \<Rightarrow> bool) \<Rightarrow> string \<Rightarrow> string" where
  "trim_left p s = dropWhile p s"

definition trim_right :: "(char \<Rightarrow> bool) \<Rightarrow> string \<Rightarrow> string" where
  "trim_right p s = rev (dropWhile p (rev s))"

definition trim :: "(char \<Rightarrow> bool) \<Rightarrow> string \<Rightarrow> string" where
  "trim p s = trim_right p (trim_left p s)"

definition trim_space :: "string \<Rightarrow> string" where
  "trim_space s = trim is_space s"

fun split_on :: "char \<Rightarrow> string \<Rightarrow> string list" where
  "split_on d [] = [[]]"
| "split_on d (c # cs) =
     (if c = d then [] # split_on d cs
      else case split_on d cs of [] \<Rightarrow> [[c]] | w # ws \<Rightarrow> (c # w) # ws)"

fun join :: "string \<Rightarrow> string list \<Rightarrow> string" where
  "join sep [] = []"
| "join sep [x] = x"
| "join sep (x # y # xs) = x @ sep @ join sep (y # xs)"

fun fields_by :: "(char \<Rightarrow> bool) \<Rightarrow> string \<Rightarrow> string \<Rightarrow> string list" where
  "fields_by p [] w = (if w = [] then [] else [rev w])"
| "fields_by p (c # cs) w =
     (if p c then (if w = [] then fields_by p cs [] else rev w # fields_by p cs [])
      else fields_by p cs (c # w))"

definition fields :: "string \<Rightarrow> string list" where
  "fields s = fields_by is_space s []"

fun replace_char :: "char \<Rightarrow> string \<Rightarrow> string \<Rightarrow> string" where
  "replace_char d r [] = []"
| "replace_char d r (c # cs) = (if c = d then r @ replace_char d r cs else c # replace_char d r cs)"

text \<open>\<open>s[strings.LastIndex(s, d)+1:]\<close>, the whole string when \<open>d\<close> does not occur.\<close>

definition after_last :: "char \<Rightarrow> string \<Rightarrow> string" where
  "after_last d s = rev (takeWhile (\<lambda>c. c \<noteq> d) (rev s))"

lemma split_on_not_Nil [simp]: "split_on d s \<noteq> []"
  by (induction s) (auto split: list.splits)

lemma join_split_on: "join [d] (split_on d s) = s"
proof (induction s)
  case Nil
  then show ?case by simp
next
  case (Cons c cs)
  obtain w ws where "split_on d cs = w # ws" by (cases "split_on d cs") auto
  with Cons show ?case by (cases ws) auto
qed

lemma split_on_no_sep: "d \<notin> set s \<Longrightarrow> split_on d s = [s]"
  by (induction s) auto

lemma split_on_append: "d \<notin> set a \<Longrightarrow> split_on d (a @ d # b) = a # split_on d b"
  by (induction a) auto

lemma split_on_pieces: "w \<in> set (split_on d s) \<Longrightarrow> d \<notin> set w"
  by (induction s arbitrary: w) (auto split: list.splits if_splits)

lemma split_on_join:
  "ws \<noteq> [] \<Longrightarrow> \<forall>w \<in> set ws. d \<notin> set w \<Longrightarrow> split_on d (join [d] ws) = ws"
  by (induction "[d]" ws rule: join.induct) (auto simp: split_on_no_sep split_on_append)

lemma trim_space_Nil [simp]: "trim_space [] = []"
  by (simp add: trim_space_def trim_def trim_left_def trim_right_def)

lemma dropWhile_not: "dropWhile p xs \<noteq> [] \<Longrightarrow> \<not> p (hd (dropWhile p xs))"
  by (rule hd_dropWhile)

lemma trim_idem: "trim p (trim p s) = trim p s"
proof -
  define t where "t = rev (dropWhile p (rev (dropWhile p s)))"
  have last: "t = [] \<or> \<not> p (last t)"
    by (metis dropWhile_not hd_rev rev_rev_ident t_def rev.simps(1))
  have head: "t = [] \<or> \<not> p (hd t)"
  proof (cases "t = []")
    case False
    obtain u where "dropWhile p s = t @ u"
      by (metis t_def rev_append rev_rev_ident takeWhile_dropWhile_id)
    with False have "hd t = hd (dropWhile p s)" "dropWhile p s \<noteq> []" by auto
    then show ?thesis by (metis dropWhile_not)
  qed simp
  have "dropWhile p t = t" using head by (cases t) auto
  moreover have "dropWhile p (rev t) = rev t"
    using last by (cases "rev t") (auto simp: last_rev [symmetric])
  ultimately show ?thesis
    by (simp add: trim_def trim_left_def trim_right_def flip: t_def)
qed

lemma trim_space_idem [simp]: "trim_space (trim_space s) = trim_space s"
  by (simp add: trim_space_def trim_idem)

lemma set_trim: "c \<in> set (trim p s) \<Longrightarrow> c \<in> set s"
  unfolding trim_def trim_left_def trim_right_def
  by (metis set_dropWhileD set_rev)

lemma set_trim_space: "c \<in> set (trim_space s) \<Longrightarrow> c \<in> set s"
  unfolding trim_space_def by (rule set_trim)

lemma dropWhile_none: "\<forall>c \<in> set s. \<not> p c \<Longrightarrow> dropWhile p s = s"
  by (cases s) auto

lemma trim_space_id: "\<forall>c \<in> set s. \<not> is_space c \<Longrightarrow> trim_space s = s"
  by (simp add: trim_space_def trim_def trim_left_def trim_right_def dropWhile_none)

section \<open>Decimal numbers\<close>

definition digit_char :: "nat \<Rightarrow> char" where
  "digit_char n = char_of (48 + n)"

fun digits :: "nat \<Rightarrow> string" where
  "digits n = (if n < 10 then [digit_char n] else digits (n div 10) @ [digit_char (n mod 10)])"

declare digits.simps [simp del]

definition itoa :: "int \<Rightarrow> string" where
  "itoa i = (if i < 0 then CHR ''-'' # digits (nat (- i)) else digits (nat i))"

definition digit_val :: "char \<Rightarrow> nat" where
  "digit_val c = code c - 48"

definition parse_nat :: "string \<Rightarrow> nat option" where
  "parse_nat s =
     (if s \<noteq> [] \<and> list_all is_digit s then Some (foldl (\<lambda>n c. 10 * n + digit_val c) 0 s) else None)"

text \<open>\<open>strconv.ParseInt(s, 10, 64)\<close> and \<open>strconv.Atoi\<close>: a sign, digits, and the int64 range.\<close>

definition parse_int :: "string \<Rightarrow> int option" where
  "parse_int s =
     (let r = (case s of
                 [] \<Rightarrow> None
               | c # cs \<Rightarrow>
                   if c = CHR ''-'' then map_option (\<lambda>n. - int n) (parse_nat cs)
                   else if c = CHR ''+'' then map_option int (parse_nat cs)
                   else map_option int (parse_nat s))
      in case r of None \<Rightarrow> None | Some i \<Rightarrow> if in_i64 i then Some i else None)"

lemma code_digit_char: "n < 10 \<Longrightarrow> code (digit_char n) = 48 + n"
  by (simp add: digit_char_def of_char_of)

lemma is_digit_digit_char [simp]: "n < 10 \<Longrightarrow> is_digit (digit_char n)"
  by (simp add: is_digit_def code_digit_char)

lemma digit_val_digit_char [simp]: "n < 10 \<Longrightarrow> digit_val (digit_char n) = n"
  by (simp add: digit_val_def code_digit_char)

lemma digits_not_Nil [simp]: "digits n \<noteq> []"
  by (subst digits.simps) simp

lemma digits_all_digit: "list_all is_digit (digits n)"
proof (induction n rule: digits.induct)
  case (1 n)
  then show ?case by (subst digits.simps) auto
qed

lemma foldl_digits: "foldl (\<lambda>n c. 10 * n + digit_val c) 0 (digits n) = n"
proof (induction n rule: digits.induct)
  case (1 n)
  then show ?case by (subst digits.simps) auto
qed

lemma parse_nat_digits [simp]: "parse_nat (digits n) = Some n"
  by (simp add: parse_nat_def digits_all_digit foldl_digits)

lemma hd_digits: "is_digit (hd (digits n))"
  using digits_all_digit [of n] by (cases "digits n") auto

lemma parse_int_itoa: "in_i64 i \<Longrightarrow> parse_int (itoa i) = Some i"
proof -
  assume i: "in_i64 i"
  obtain c cs where d: "digits (nat i) = c # cs" by (cases "digits (nat i)") auto
  have "is_digit c" using hd_digits [of "nat i"] d by simp
  then have "c \<noteq> CHR ''-''" "c \<noteq> CHR ''+''" by (auto simp: is_digit_def)
  then show ?thesis
    using i d parse_nat_digits [of "nat i"] by (auto simp: parse_int_def itoa_def split: list.splits)
qed

lemma itoa_inj: "in_i64 i \<Longrightarrow> in_i64 j \<Longrightarrow> itoa i = itoa j \<Longrightarrow> i = j"
  by (metis option.inject parse_int_itoa)

section \<open>Quoting (\<open>%q\<close>)\<close>

definition hex_digit :: "nat \<Rightarrow> char" where
  "hex_digit n = char_of (if n < 10 then 48 + n else 87 + n)"

definition go_quote_char :: "char \<Rightarrow> string" where
  "go_quote_char c =
     (if c = CHR 0x22 then [CHR 0x5C, CHR 0x22]
      else if c = CHR 0x5C then [CHR 0x5C, CHR 0x5C]
      else if c = newline then [CHR 0x5C, CHR ''n'']
      else if c = CHR 0x09 then [CHR 0x5C, CHR ''t'']
      else if c = CHR 0x0D then [CHR 0x5C, CHR ''r'']
      else if c = CHR 0x07 then [CHR 0x5C, CHR ''a'']
      else if c = CHR 0x08 then [CHR 0x5C, CHR ''b'']
      else if c = CHR 0x0C then [CHR 0x5C, CHR ''f'']
      else if c = CHR 0x0B then [CHR 0x5C, CHR ''v'']
      else if code c < 32 \<or> code c = 127
      then [CHR 0x5C, CHR ''x'', hex_digit (code c div 16), hex_digit (code c mod 16)]
      else [c])"

definition go_quote :: "string \<Rightarrow> string" where
  "go_quote s = [CHR 0x22] @ concat (map go_quote_char s) @ [CHR 0x22]"

end
