(* ===== verification/Regex.thy ===== *)
theory Regex
  imports GoStrings
begin

text \<open>
  The part of Go's \<open>regexp\<close> the hub uses. An expression is a datatype, a position is the
  character before it (none at the start of the text) with the rest of the text, and \<open>ends\<close>
  lists the positions a match can end at in the order the leftmost-first semantics prefers them:
  the first is the match Go reports. \<open>rx_run\<close> states the same relation without an order, and
  \<open>ends_iff\<close> shows the matcher complete and sound for it.
\<close>

section \<open>Expressions and positions\<close>

datatype rx =
    Cls "char \<Rightarrow> bool"
  | Eps
  | Bot
  | Bol
  | Eol
  | Eot
  | Cat rx rx
  | Or rx rx
  | Star rx

type_synonym pos = "char option \<times> string"

fun shorter :: "'a list \<Rightarrow> 'b list \<Rightarrow> bool" where
  "shorter xs [] = False"
| "shorter [] (y # ys) = True"
| "shorter (x # xs) (y # ys) = shorter xs ys"

lemma shorter_iff: "shorter xs ys \<longleftrightarrow> length xs < length ys"
  by (induction xs ys rule: shorter.induct) auto

fun star_ends :: "(pos \<Rightarrow> pos list) \<Rightarrow> string \<Rightarrow> pos \<Rightarrow> pos list" where
  "star_ends f [] p = [p]"
| "star_ends f (x # fuel) p =
     concat (map (\<lambda>q. if shorter (snd q) (snd p) then star_ends f fuel q else []) (f p)) @ [p]"

primrec ends :: "rx \<Rightarrow> pos \<Rightarrow> pos list" where
  "ends (Cls c) p = (case snd p of [] \<Rightarrow> [] | x # xs \<Rightarrow> if c x then [(Some x, xs)] else [])"
| "ends Eps p = [p]"
| "ends Bot p = (if fst p = None then [p] else [])"
| "ends Bol p = (if fst p = None \<or> fst p = Some newline then [p] else [])"
| "ends Eol p = (case snd p of [] \<Rightarrow> [p] | x # xs \<Rightarrow> if x = newline then [p] else [])"
| "ends Eot p = (if snd p = [] then [p] else [])"
| "ends (Cat a b) p = concat (map (ends b) (ends a p))"
| "ends (Or a b) p = ends a p @ ends b p"
| "ends (Star a) p = star_ends (ends a) (snd p) p"

fun starts :: "char option \<Rightarrow> string \<Rightarrow> pos list" where
  "starts c [] = [(c, [])]"
| "starts c (x # xs) = (c, x # xs) # starts (Some x) xs"

definition rx_match :: "rx \<Rightarrow> string \<Rightarrow> bool" where
  "rx_match r s \<longleftrightarrow> list_ex (\<lambda>p. ends r p \<noteq> []) (starts None s)"

text \<open>
  \<open>FindStringSubmatch\<close> for an expression \<open>pre(grp)\<close>: the text of the group in the leftmost,
  preferred match.
\<close>

definition group_at :: "rx \<Rightarrow> rx \<Rightarrow> pos \<Rightarrow> string list" where
  "group_at pre grp p =
     concat (map (\<lambda>q. map (\<lambda>e. take (length (snd q) - length (snd e)) (snd q)) (ends grp q)) (ends pre p))"

definition rx_group :: "rx \<Rightarrow> rx \<Rightarrow> string \<Rightarrow> string option" where
  "rx_group pre grp s =
     (case concat (map (group_at pre grp) (starts None s)) of [] \<Rightarrow> None | g # _ \<Rightarrow> Some g)"

section \<open>Shorthands for the source's syntax\<close>

definition re_space :: "char \<Rightarrow> bool" where
  "re_space c \<longleftrightarrow> c \<in> {CHR '' '', CHR 0x09, CHR 0x0A, CHR 0x0C, CHR 0x0D}"

abbreviation Spaces :: rx where "Spaces \<equiv> Star (Cls re_space)"
abbreviation NonSpaces :: rx where "NonSpaces \<equiv> Star (Cls (\<lambda>c. \<not> re_space c))"
abbreviation Chr :: "char \<Rightarrow> rx" where "Chr c \<equiv> Cls (\<lambda>x. x = c)"
abbreviation Opt :: "rx \<Rightarrow> rx" where "Opt r \<equiv> Or r Eps"

fun Seq :: "rx list \<Rightarrow> rx" where
  "Seq [] = Eps"
| "Seq [r] = r"
| "Seq (r # s # rs) = Cat r (Seq (s # rs))"

definition Lit :: "string \<Rightarrow> rx" where
  "Lit w = Seq (map (\<lambda>c. Cls (\<lambda>x. x = c)) w)"

definition LitI :: "string \<Rightarrow> rx" where
  "LitI w = Seq (map (\<lambda>c. Cls (\<lambda>x. lower_char x = lower_char c)) w)"

section \<open>The relation the matcher decides\<close>

inductive rx_run :: "rx \<Rightarrow> pos \<Rightarrow> pos \<Rightarrow> bool" where
  run_cls: "c x \<Longrightarrow> rx_run (Cls c) (a, x # xs) (Some x, xs)"
| run_eps: "rx_run Eps p p"
| run_bot: "rx_run Bot (None, s) (None, s)"
| run_bol0: "rx_run Bol (None, s) (None, s)"
| run_bol: "rx_run Bol (Some newline, s) (Some newline, s)"
| run_eol0: "rx_run Eol (a, []) (a, [])"
| run_eol: "rx_run Eol (a, newline # s) (a, newline # s)"
| run_eot: "rx_run Eot (a, []) (a, [])"
| run_cat: "rx_run r p q \<Longrightarrow> rx_run s q t \<Longrightarrow> rx_run (Cat r s) p t"
| run_or1: "rx_run r p q \<Longrightarrow> rx_run (Or r s) p q"
| run_or2: "rx_run s p q \<Longrightarrow> rx_run (Or r s) p q"
| run_star0: "rx_run (Star r) p p"
| run_star: "rx_run r p q \<Longrightarrow> rx_run (Star r) q t \<Longrightarrow> rx_run (Star r) p t"

inductive_cases run_cls_E: "rx_run (Cls c) p q"
inductive_cases run_eps_E: "rx_run Eps p q"
inductive_cases run_bot_E: "rx_run Bot p q"
inductive_cases run_bol_E: "rx_run Bol p q"
inductive_cases run_eol_E: "rx_run Eol p q"
inductive_cases run_eot_E: "rx_run Eot p q"
inductive_cases run_cat_E: "rx_run (Cat r s) p q"
inductive_cases run_or_E: "rx_run (Or r s) p q"

lemmas run_elims = run_cls_E run_eps_E run_bot_E run_bol_E run_eol_E run_eot_E run_cat_E run_or_E

text \<open>A run consumes a prefix of the rest; in particular the rest never grows.\<close>

lemma rx_run_suffix: "rx_run r p q \<Longrightarrow> \<exists>w. snd p = w @ snd q \<and> (w = [] \<longrightarrow> p = q)"
  by (induction rule: rx_run.induct) force+

lemma rx_run_shorter: "rx_run r p q \<Longrightarrow> p \<noteq> q \<Longrightarrow> length (snd q) < length (snd p)"
  by (drule rx_run_suffix) auto

lemma star_ends_sound:
  shows "(\<And>p q. q \<in> set (f p) \<Longrightarrow> rx_run r p q) \<Longrightarrow>
    q \<in> set (star_ends f fuel p) \<Longrightarrow> rx_run (Star r) p q"
proof (induction f fuel p arbitrary: q rule: star_ends.induct)
  case (1 f p)
  then show ?case by (auto intro: run_star0)
next
  case (2 f x fuel p)
  from "2.prems"(2) consider "q = p"
    | m where "m \<in> set (f p)" "shorter (snd m) (snd p)" "q \<in> set (star_ends f fuel m)"
    by (auto split: if_splits)
  then show ?case
  proof cases
    case 1
    then show ?thesis by (simp add: run_star0)
  next
    case 2
    then have "rx_run (Star r) m q" using "2.IH" "2.prems"(1) by blast
    moreover have "rx_run r p m" using 2(1) "2.prems"(1) by blast
    ultimately show ?thesis by (rule run_star [rotated])
  qed
qed

lemma star_ends_complete:
  assumes f: "\<And>p q. rx_run r p q \<Longrightarrow> q \<in> set (f p)"
  shows "rx_run s p q \<Longrightarrow> s = Star r \<Longrightarrow> length (snd p) \<le> length fuel \<Longrightarrow>
    q \<in> set (star_ends f fuel p)"
proof (induction arbitrary: fuel rule: rx_run.induct)
  case (run_star0 r' p)
  then show ?case by (cases fuel) auto
next
  case (run_star r' p m t)
  show ?case
  proof (cases "p = m")
    case True
    with run_star show ?thesis by auto
  next
    case False
    with run_star.hyps(1) have less: "length (snd m) < length (snd p)"
      by (rule rx_run_shorter)
    with run_star.prems obtain x fuel' where fuel: "fuel = x # fuel'" by (cases fuel) auto
    with less run_star have "t \<in> set (star_ends f fuel' m)" by auto
    moreover have "m \<in> set (f p)" using f run_star by auto
    ultimately show ?thesis using fuel less by (auto simp: shorter_iff)
  qed
qed simp_all

lemma ends_iff: "q \<in> set (ends r p) \<longleftrightarrow> rx_run r p q"
proof (induction r arbitrary: p q)
  case (Cls c)
  then show ?case
    by (cases p) (auto intro: run_cls elim: run_cls_E split: list.splits)
next
  case (Star r)
  have "q \<in> set (star_ends (ends r) (snd p) p) \<Longrightarrow> rx_run (Star r) p q"
    by (rule star_ends_sound) (simp_all add: Star.IH)
  moreover have "rx_run (Star r) p q \<Longrightarrow> q \<in> set (star_ends (ends r) (snd p) p)"
    by (rule star_ends_complete) (simp_all add: Star.IH)
  ultimately show ?case by auto
next
  case (Cat r s)
  have "q \<in> set (ends (Cat r s) p) \<longleftrightarrow> (\<exists>m \<in> set (ends r p). q \<in> set (ends s m))"
    by simp
  also have "\<dots> \<longleftrightarrow> rx_run (Cat r s) p q"
    unfolding Bex_def Cat.IH by (blast intro: run_cat elim: run_cat_E)
  finally show ?case .
next
  case (Or r s)
  then show ?case by (auto intro: run_or1 run_or2 elim!: run_or_E)
next
  case Eol
  show ?case
    by (cases p) (auto intro: run_eol0 run_eol elim: run_eol_E split: list.splits)
qed (cases p; auto intro: rx_run.intros elim: run_elims)+

lemma rx_match_iff: "rx_match r s \<longleftrightarrow> (\<exists>p \<in> set (starts None s). \<exists>q. rx_run r p q)"
proof -
  have "ends r p \<noteq> [] \<longleftrightarrow> (\<exists>q. rx_run r p q)" for p
    using ends_iff [of _ r p] by (metis empty_iff list.set(1) list.set_intros(1) neq_Nil_conv)
  then show ?thesis by (simp add: rx_match_def list_ex_iff)
qed

text \<open>Every suffix of the text is a start, with the character before it.\<close>

lemma starts_append: "(if a = [] then c else Some (last a), b) \<in> set (starts c (a @ b))"
proof (induction a arbitrary: c)
  case Nil
  show ?case by (cases b) auto
next
  case (Cons x xs)
  have "(if xs = [] then Some x else Some (last xs), b) \<in> set (starts (Some x) (xs @ b))"
    by (rule Cons.IH)
  then show ?case by auto
qed

lemma starts_suffix: "p \<in> set (starts c s) \<Longrightarrow> \<exists>a. s = a @ snd p"
proof (induction s arbitrary: c)
  case Nil
  then show ?case by auto
next
  case (Cons x xs)
  then show ?case by (metis append_Cons append_Nil set_ConsD snd_conv starts.simps(2))
qed

section \<open>Runs of literals\<close>

lemma rx_run_Eps [simp]: "rx_run Eps p q \<longleftrightarrow> p = q"
  by (auto intro: run_eps elim: run_eps_E)

lemma rx_run_Cat: "rx_run (Cat r s) p q \<longleftrightarrow> (\<exists>m. rx_run r p m \<and> rx_run s m q)"
  by (blast intro: run_cat elim: run_cat_E)

lemma rx_run_Seq_Cons: "rx_run (Seq (r # rs)) p q \<longleftrightarrow> (\<exists>m. rx_run r p m \<and> rx_run (Seq rs) m q)"
  by (cases rs) (simp_all add: rx_run_Cat del: split_paired_Ex)

lemma rx_run_Lit: "rx_run (Lit w) (a, w @ s) (if w = [] then a else Some (last w), s)"
proof (induction w arbitrary: a)
  case Nil
  then show ?case by (simp add: Lit_def run_eps)
next
  case (Cons c w)
  have "rx_run (Cls (\<lambda>x. x = c)) (a, (c # w) @ s) (Some c, w @ s)"
    by (simp add: run_cls)
  moreover have "rx_run (Lit w) (Some c, w @ s) (if w = [] then Some c else Some (last w), s)"
    by (rule Cons.IH)
  ultimately have "rx_run (Lit (c # w)) (a, (c # w) @ s) (if w = [] then Some c else Some (last w), s)"
    unfolding Lit_def list.map rx_run_Seq_Cons by blast
  then show ?case by (cases "w = []") simp_all
qed

lemma rx_run_Lit_text: "rx_run (Lit w) p q \<Longrightarrow> snd p = w @ snd q"
proof (induction w arbitrary: p)
  case Nil
  then show ?case by (auto simp: Lit_def elim: run_eps_E)
next
  case (Cons c w)
  then show ?case
    by (fastforce simp: Lit_def rx_run_Seq_Cons simp del: Seq.simps elim: run_cls_E)
qed

lemma rx_match_Lit: "rx_match (Lit w) s \<longleftrightarrow> contains_str s w"
proof
  assume "rx_match (Lit w) s"
  then obtain p q where "p \<in> set (starts None s)" "rx_run (Lit w) p q"
    by (auto simp: rx_match_iff)
  then show "contains_str s w"
    using starts_suffix [of p None s] by (auto simp: contains_str_iff dest!: rx_run_Lit_text)
next
  assume "contains_str s w"
  then obtain a b where s: "s = a @ w @ b" by (auto simp: contains_str_iff)
  then show "rx_match (Lit w) s"
    using starts_append [of a None "w @ b"] rx_run_Lit [of w _ b] by (auto simp: rx_match_iff)
qed

end
