(* ===== verification/Gate.thy ===== *)
theory Gate
  imports Regex
begin

text \<open>
  \<open>internal/gate/gate.go\<close>: the refusal list every remote command is checked against, and the
  compose gate. \<open>check_on\<close> is \<open>CheckOn\<close>, \<open>check\<close> is \<open>Check\<close>; a rule answers the reason it
  refuses a program and its arguments for, or the empty string. The regular expressions of the
  source are the \<open>rx\<close> values below, in the source's order.
\<close>

section \<open>The rules\<close>

definition has :: "string list \<Rightarrow> string list \<Rightarrow> bool" where
  "has xs ys \<longleftrightarrow> list_ex (\<lambda>x. list_ex (\<lambda>a. x = a) ys) xs"

definition any_path :: "string list \<Rightarrow> string list \<Rightarrow> bool" where
  "any_path xs subs \<longleftrightarrow> list_ex (\<lambda>x. list_ex (\<lambda>s. contains_str x s) subs) xs"

definition agent_account :: string where
  "agent_account = ''homedash-agent''"

definition agent_home :: string where
  "agent_home = ''/home/'' @ agent_account"

definition system_paths :: "string list" where
  "system_paths =
     [''/'', ''/*'', ''/etc'', ''/etc/*'', ''/usr'', ''/usr/*'', ''/var'', ''/var/*'', ''/boot'',
      ''/lib'', ''/lib64'', ''/bin'', ''/sbin'', ''/home'', ''/home/*'', ''/root'', ''/dev'',
      ''/proc'', ''/sys'', ''/opt'', ''/srv'']"

definition rule_firewall :: "string \<Rightarrow> string list \<Rightarrow> string" where
  "rule_firewall p a =
     (if p = ''ufw'' \<and> a \<noteq> [] \<and> (hd a = ''disable'' \<or> hd a = ''reset'')
       \<or> p = ''iptables'' \<and> has a [''-F'', ''--flush'']
       \<or> p = ''nft'' \<and> join '' '' a = ''flush ruleset''
       \<or> p = ''systemctl'' \<and> 1 < length a \<and> has (take 1 a) [''stop'', ''disable'', ''mask'']
           \<and> has (drop 1 a) [''ufw'', ''firewalld'', ''nftables'']
      then ''switching off the firewall'' else '''')"

definition rule_ssh_access :: "string \<Rightarrow> string list \<Rightarrow> string" where
  "rule_ssh_access p a =
     (if p = ''systemctl'' \<and> 1 < length a \<and> has (take 1 a) [''stop'', ''disable'', ''mask'']
           \<and> has (drop 1 a) [''ssh'', ''sshd'', ''ssh.socket'', ''ssh.service'', ''sshd.service'']
       \<or> has [p] [''rm'', ''mv'', ''truncate'', ''shred''] \<and> any_path a [''/etc/ssh/'', ''authorized_keys'']
       \<or> has [p] [''deluser'', ''userdel''] \<and> has a [''homedash'', agent_account]
       \<or> p = ''passwd'' \<and> has a [''-l''] \<and> has a [''homedash'', agent_account]
       \<or> p = ''usermod'' \<and> has a [''-L''] \<and> has a [''homedash'', agent_account]
      then ''cutting the hub's own SSH access'' else '''')"

definition rule_ssh_config :: "string \<Rightarrow> string list \<Rightarrow> string" where
  "rule_ssh_config p a =
     (if has [p] [''sed'', ''perl'', ''ed'', ''python'', ''python3'', ''tee''] \<and> any_path a [''/etc/ssh/'']
      then ''editing SSH config by hand'' else '''')"

definition rm_recursive :: "string list \<Rightarrow> bool" where
  "rm_recursive a \<longleftrightarrow>
     list_ex (\<lambda>x. x = ''--recursive'' \<or>
                  has_prefix x ''-'' \<and> \<not> has_prefix x ''--'' \<and> contains_any x ''rR'') a"

definition rule_rm :: "string \<Rightarrow> string list \<Rightarrow> string" where
  "rule_rm p a =
     (if p \<noteq> ''rm'' then ''''
      else if \<not> rm_recursive a then ''''
      else if list_ex (\<lambda>x. trim_suffix x ''/'' \<in> set system_paths \<or> x \<in> set system_paths) a
      then ''deleting a system path'' else '''')"

definition rule_power :: "string \<Rightarrow> string list \<Rightarrow> string" where
  "rule_power p a =
     (if has [p] [''shutdown'', ''poweroff'', ''halt'', ''reboot'']
       \<or> p = ''init'' \<and> has a [''0'', ''6'']
       \<or> p = ''systemctl'' \<and> has a [''poweroff'', ''halt'', ''reboot'', ''kexec'']
      then ''shutting down or rebooting a machine'' else '''')"

definition rules :: "(string \<Rightarrow> string list \<Rightarrow> string) list" where
  "rules = [rule_firewall, rule_ssh_access, rule_ssh_config, rule_rm, rule_power]"

section \<open>Disks\<close>

definition disk_tools :: "string list" where
  "disk_tools =
     [''fdisk'', ''sfdisk'', ''parted'', ''gdisk'', ''sgdisk'', ''cfdisk'', ''wipefs'', ''mkswap'',
      ''dd'', ''tune2fs'', ''resize2fs'', ''mdadm'', ''pvcreate'', ''vgcreate'', ''lvcreate'',
      ''pvremove'', ''vgremove'', ''lvremove'', ''cryptsetup'']"

definition system_disk_reason :: string where
  "system_disk_reason = ''repartitioning or wiping the system disk''"

definition pseudo_devices :: "string list" where
  "pseudo_devices =
     [''/dev/null'', ''/dev/zero'', ''/dev/random'', ''/dev/urandom'', ''/dev/stdin'',
      ''/dev/stdout'', ''/dev/stderr'', ''/dev/tty'']"

text \<open>Does the kernel name \<open>name\<close> belong to the system source \<open>src\<close>: itself or a partition of it?\<close>

definition on_system_source :: "string \<Rightarrow> string \<Rightarrow> bool" where
  "on_system_source name src =
     (let s = after_last (CHR ''/'') src
      in name = s \<or>
         (case strip_prefix s name of
            None \<Rightarrow> False
          | Some rest \<Rightarrow>
              let r = trim_prefix rest ''p''
              in r \<noteq> [] \<and> trim is_digit r = []))"

definition device_word :: "string \<Rightarrow> string" where
  "device_word w =
     (let v = after_last (CHR ''='') w
      in if CHR ''='' \<in> set w \<and> has_prefix v ''/'' then v else w)"

definition system_device :: "string \<Rightarrow> string list option \<Rightarrow> string" where
  "system_device word system =
     (let w0 = trim (\<lambda>c. c = CHR 0x22 \<or> c = CHR 0x27) word
      in if has_prefix w0 ''if='' then ''''
         else let w = device_word w0
         in if \<not> has_prefix w ''/dev/'' \<or> w \<in> set pseudo_devices \<or> has_prefix w ''/dev/fd/'' then ''''
            else case system of
              None \<Rightarrow> system_disk_reason @ '' (this remote has not reported which disk carries its system)''
            | Some srcs \<Rightarrow>
                let name = trim_prefix (trim_prefix w ''/dev/mapper/'') ''/dev/''
                in if contains_str name ''/''
                   then system_disk_reason @ '' (name the device by its kernel name, not '' @ w @ '')''
                   else if list_ex (on_system_source name) srcs then system_disk_reason
                   else '''')"

section \<open>Splitting a command line\<close>

fun segments_from :: "string \<Rightarrow> string \<Rightarrow> string list" where
  "segments_from w [] = [rev w]"
| "segments_from w (c # cs) =
     (if (c = CHR ''|'' \<or> c = CHR ''&'') \<and> cs \<noteq> [] \<and> hd cs = c then rev w # segments_from [] (tl cs)
      else if c = CHR '';'' \<or> c = CHR ''|'' \<or> c = newline then rev w # segments_from [] cs
      else segments_from (c # w) cs)"

definition segments :: "string \<Rightarrow> string list" where
  "segments s = segments_from [] s"

definition redirect_rx :: rx where
  "redirect_rx = Seq [Chr (CHR ''>''), Opt (Chr (CHR ''>'')), Spaces, Lit ''/etc/ssh/'', NonSpaces]"

definition assign_rx :: rx where
  "assign_rx =
     Seq [Bot, Cls (\<lambda>c. is_lower c \<or> is_upper c \<or> c = CHR ''_''),
          Star (Cls (\<lambda>c. is_lower c \<or> is_upper c \<or> is_digit c \<or> c = CHR ''_'')), Chr (CHR ''='')]"

definition fork_bomb_rx :: rx where
  "fork_bomb_rx =
     Seq [Lit '':()'', Spaces, Lit ''{'', Spaces, Lit '':'', Spaces, Lit ''|'', Spaces, Lit '':'',
          Spaces, Lit ''&'', Spaces, Lit ''}'', Spaces, Lit '';'', Spaces, Lit '':'']"

lemma dev_writes_tail:
  assumes "strip_prefix p (dropWhile re_space (if cs \<noteq> [] \<and> hd cs = CHR ''>'' then tl cs else cs)) = Some r"
  shows "length (dropWhile q r) < Suc (length cs)"
proof -
  have "length (dropWhile q r) \<le> length r"
    by (rule length_dropWhile_le)
  also have "\<dots> \<le> length (dropWhile re_space (if cs \<noteq> [] \<and> hd cs = CHR ''>'' then tl cs else cs))"
    using assms by (simp add: strip_prefix_iff)
  also have "\<dots> \<le> length (if cs \<noteq> [] \<and> hd cs = CHR ''>'' then tl cs else cs)"
    by (rule length_dropWhile_le)
  also have "\<dots> \<le> length cs"
    by simp
  finally show ?thesis by simp
qed

text \<open>
  The first groups of \<open>devWrite.FindAllStringSubmatch\<close>: a redirection, white space, then
  \<open>/dev/\<close> and at least one more non-space character, taken greedily.
\<close>

function dev_writes :: "string \<Rightarrow> string list" where
  "dev_writes [] = []"
| "dev_writes (c # cs) =
     (if c \<noteq> CHR ''>'' then dev_writes cs
      else let rest = (if cs \<noteq> [] \<and> hd cs = CHR ''>'' then tl cs else cs)
           in case strip_prefix ''/dev/'' (dropWhile re_space rest) of
                None \<Rightarrow> dev_writes cs
              | Some r \<Rightarrow>
                  let w = takeWhile (\<lambda>x. \<not> re_space x) r
                  in if w = [] then dev_writes cs
                     else (''/dev/'' @ w) # dev_writes (dropWhile (\<lambda>x. \<not> re_space x) r))"
  by pat_completeness auto

termination
  by (relation "measure length") (auto dest: dev_writes_tail)

definition wrappers :: "string list" where
  "wrappers = [''sudo'', ''doas'', ''nohup'', ''env'', ''command'', ''exec'', ''time'', ''nice'']"

section \<open>The check\<close>

definition short :: "string \<Rightarrow> string" where
  "short s =
     (let t = trim_space s; u = (if length t > 80 then take 77 t @ ''...'' else t)
      in go_quote u)"

definition strip_wrappers :: "string list \<Rightarrow> string list" where
  "strip_wrappers words =
     dropWhile (\<lambda>w. w \<in> set wrappers \<or> rx_match assign_rx w \<or> has_prefix w ''-'') words"

text \<open>The first non-empty answer of a list of checks, as the nested loops return it.\<close>

fun first_reason :: "string list \<Rightarrow> string" where
  "first_reason [] = ''''"
| "first_reason (r # rs) = (if r \<noteq> '''' then r else first_reason rs)"

definition segment_reason :: "string list option \<Rightarrow> string \<Rightarrow> string" where
  "segment_reason system seg =
     (case strip_wrappers (fields seg) of
        [] \<Rightarrow> ''''
      | w # args \<Rightarrow>
          let prog = after_last (CHR ''/'') w
          in first_reason (map (\<lambda>r. r prog args) rules @
               (if prog \<in> set disk_tools \<or> has_prefix prog ''mkfs''
                then map (\<lambda>x. system_device x system) args else [])))"

definition check_on :: "string \<Rightarrow> string list option \<Rightarrow> err option" where
  "check_on command system =
     (if rx_match fork_bomb_rx command then Some (Refusal (''a fork bomb: '' @ short command))
      else if rx_match redirect_rx command
      then Some (Refusal (''editing SSH config by hand: '' @ short command))
      else let r = first_reason (map (\<lambda>w. system_device w system) (dev_writes command))
      in if r \<noteq> '''' then Some (Refusal (r @ '': '' @ short command))
         else let q = first_reason (map (segment_reason system) (segments command))
         in if q \<noteq> '''' then Some (Refusal (q @ '': '' @ short command)) else None)"

definition check :: "string \<Rightarrow> err option" where
  "check command = check_on command None"

definition reasons :: "string list" where
  "reasons =
     [''switching off the firewall'', ''cutting the hub's own SSH access'',
      ''editing SSH config by hand'', system_disk_reason, ''deleting a system path'',
      ''shutting down or rebooting a machine'']"

section \<open>First reasons\<close>

lemma first_reason_iff: "first_reason rs \<noteq> '''' \<longleftrightarrow> (\<exists>r \<in> set rs. r \<noteq> '''')"
  by (induction rs) auto

lemma check_on_None_iff:
  "check_on command system = None \<longleftrightarrow>
     \<not> rx_match fork_bomb_rx command \<and> \<not> rx_match redirect_rx command \<and>
     (\<forall>w \<in> set (dev_writes command). system_device w system = '''') \<and>
     (\<forall>seg \<in> set (segments command). segment_reason system seg = '''')"
  using first_reason_iff [of "map (\<lambda>w. system_device w system) (dev_writes command)"]
    first_reason_iff [of "map (segment_reason system) (segments command)"]
  by (auto simp: check_on_def Let_def)

section \<open>Sequences of commands\<close>

lemma segments_from_seq:
  "segments_from w (a @ CHR '';'' # b) = segments_from w a @ segments_from [] b"
proof (induction w a rule: segments_from.induct)
  case (1 w)
  show ?case by simp
next
  case (2 w c cs)
  have head: "(c = CHR ''|'' \<or> c = CHR ''&'') \<and> cs @ CHR '';'' # b \<noteq> [] \<and> hd (cs @ CHR '';'' # b) = c
    \<longleftrightarrow> (c = CHR ''|'' \<or> c = CHR ''&'') \<and> cs \<noteq> [] \<and> hd cs = c"
    by (cases cs) auto
  consider (pair) "(c = CHR ''|'' \<or> c = CHR ''&'') \<and> cs \<noteq> [] \<and> hd cs = c"
    | (sep) "\<not> ((c = CHR ''|'' \<or> c = CHR ''&'') \<and> cs \<noteq> [] \<and> hd cs = c)"
        "c = CHR '';'' \<or> c = CHR ''|'' \<or> c = newline"
    | (other) "\<not> ((c = CHR ''|'' \<or> c = CHR ''&'') \<and> cs \<noteq> [] \<and> hd cs = c)"
        "\<not> (c = CHR '';'' \<or> c = CHR ''|'' \<or> c = newline)"
    by blast
  then show ?case
  proof cases
    case pair
    then have "tl (cs @ CHR '';'' # b) = tl cs @ CHR '';'' # b" by simp
    with pair "2.IH"(1) show ?thesis
      unfolding append_Cons segments_from.simps(2) [of w c] head by simp
  next
    case sep
    with "2.IH"(2) show ?thesis
      unfolding append_Cons segments_from.simps(2) [of w c] head by auto
  next
    case other
    with "2.IH"(3) show ?thesis
      unfolding append_Cons segments_from.simps(2) [of w c] head by auto
  qed
qed

lemma segments_seq: "segments (a @ CHR '';'' # b) = segments a @ segments b"
  by (simp add: segments_def segments_from_seq)

lemma refused_segment:
  "seg \<in> set (segments command) \<Longrightarrow> segment_reason system seg \<noteq> '''' \<Longrightarrow> check_on command system \<noteq> None"
  by (auto simp: check_on_None_iff)

section \<open>Machines that have not reported\<close>

lemma system_device_mono: "system_device w (Some srcs) \<noteq> '''' \<Longrightarrow> system_device w None \<noteq> ''''"
  by (auto simp: system_device_def Let_def system_disk_reason_def split: if_splits)

lemma segment_reason_mono:
  "segment_reason (Some srcs) seg \<noteq> '''' \<Longrightarrow> segment_reason None seg \<noteq> ''''"
  unfolding segment_reason_def Let_def
  by (cases "strip_wrappers (fields seg)") (auto simp: first_reason_iff dest: system_device_mono)

section \<open>Words of a simple command\<close>

lemma fields_by_word:
  "\<forall>c \<in> set w. \<not> p c \<Longrightarrow> fields_by p (w @ s) acc = fields_by p s (rev w @ acc)"
  by (induction w arbitrary: acc) auto

lemma fields_by_Cons_word:
  "w \<noteq> [] \<Longrightarrow> \<forall>c \<in> set w. \<not> is_space c \<Longrightarrow> fields (w @ CHR '' '' # s) = w # fields s"
  using fields_by_word [of w is_space "CHR '' '' # s" "[]"]
  by (simp add: fields_def is_space_def)

lemma fields_one: "w \<noteq> [] \<Longrightarrow> \<forall>c \<in> set w. \<not> is_space c \<Longrightarrow> fields w = [w]"
  using fields_by_word [of w is_space "[]" "[]"] by (simp add: fields_def)

lemma wrapper_transparent:
  assumes "w \<in> set wrappers"
  shows "segment_reason system (w @ CHR '' '' # seg) = segment_reason system seg"
proof -
  have "w \<noteq> []" "\<forall>c \<in> set w. \<not> is_space c"
    using assms by (auto simp: wrappers_def is_space_def)
  then have "fields (w @ CHR '' '' # seg) = w # fields seg" by (rule fields_by_Cons_word)
  then show ?thesis
    using assms by (simp add: segment_reason_def strip_wrappers_def)
qed

section \<open>The system disk\<close>

lemma after_last_no_sep: "d \<notin> set s \<Longrightarrow> after_last d s = s"
proof -
  assume "d \<notin> set s"
  then have "takeWhile (\<lambda>c. c \<noteq> d) (rev s) = rev s" by (auto simp: takeWhile_eq_all_conv)
  then show ?thesis by (simp only: after_last_def rev_rev_ident)
qed

lemma after_last_sep_free: "d \<notin> set (after_last d s)"
  by (auto simp: after_last_def dest: set_takeWhileD)

lemma after_last_subset: "set (after_last d s) \<subseteq> set s"
  by (auto simp: after_last_def dest: set_takeWhileD)

lemma trim_none: "\<forall>c \<in> set s. \<not> p c \<Longrightarrow> trim p s = s"
proof -
  assume *: "\<forall>c \<in> set s. \<not> p c"
  then have "dropWhile p s = s" "dropWhile p (rev s) = rev s"
    by (simp_all add: dropWhile_eq_self_iff) (metis hd_in_set rev_is_Nil_conv set_rev)
  then show ?thesis by (simp add: trim_def trim_left_def trim_right_def)
qed

lemma trim_all: "list_all p s \<Longrightarrow> trim p s = []"
  by (simp add: trim_def trim_left_def trim_right_def list_all_iff dropWhile_eq_Nil_conv [THEN iffD2])

lemma contains_slash: "contains_str s ''/'' \<longleftrightarrow> CHR ''/'' \<in> set s"
  by (auto simp: contains_str_iff in_set_conv_decomp)

text \<open>A partition suffix: digits, or \<open>p\<close> and digits.\<close>

definition partition_suffix :: "string \<Rightarrow> bool" where
  "partition_suffix s \<longleftrightarrow>
     s = [] \<or> list_all is_digit s \<or> (hd s = CHR ''p'' \<and> tl s \<noteq> [] \<and> list_all is_digit (tl s))"

lemma on_system_source_partition:
  assumes "partition_suffix suf"
  shows "on_system_source (after_last (CHR ''/'') src @ suf) src"
proof -
  let ?s = "after_last (CHR ''/'') src"
  have strip: "strip_prefix ?s (?s @ suf) = Some suf" by (simp add: strip_prefix_iff)
  have digits: "trim_prefix suf ''p'' = suf" if "list_all is_digit suf"
    using that by (cases suf) (auto simp: trim_prefix_def is_digit_def)
  have p: "trim_prefix suf ''p'' = tl suf" if "suf \<noteq> []" "hd suf = CHR ''p''"
    using that by (cases suf) (auto simp: trim_prefix_def)
  show ?thesis
    using assms digits p trim_all [of is_digit suf] trim_all [of is_digit "tl suf"]
    by (auto simp: partition_suffix_def on_system_source_def strip Let_def)
qed

lemma system_device_of_partition:
  assumes src: "src \<in> set srcs" and suf: "partition_suffix suf"
    and name: "name = after_last (CHR ''/'') src @ suf"
    and plain: "\<forall>c \<in> set name. c \<noteq> CHR ''='' \<and> c \<noteq> CHR 0x22 \<and> c \<noteq> CHR 0x27"
    and real: "''/dev/'' @ name \<notin> set pseudo_devices"
  shows "system_device (''/dev/'' @ name) (Some srcs) = system_disk_reason"
proof -
  have slash: "CHR ''/'' \<notin> set name"
    using suf after_last_sep_free [of "CHR ''/''" src]
    by (cases suf) (auto simp: name partition_suffix_def list_all_iff is_digit_def)
  let ?w = "''/dev/'' @ name"
  have w: "trim (\<lambda>c. c = CHR 0x22 \<or> c = CHR 0x27) ?w = ?w"
    using plain by (intro trim_none) auto
  have d: "device_word ?w = ?w"
    using plain by (auto simp: device_word_def Let_def)
  have "list_ex (on_system_source name) srcs"
    using src on_system_source_partition [OF suf] by (auto simp: list_ex_iff name)
  moreover have "\<not> has_prefix ?w ''/dev/fd/''"
    using slash by (auto simp: has_prefix_iff)
  moreover have "trim_prefix (trim_prefix ?w ''/dev/mapper/'') ''/dev/'' = name"
  proof -
    have "strip_prefix ''/dev/mapper/'' ?w = None"
      using slash strip_prefix_iff [of "''/dev/mapper/''" ?w]
      by (cases "strip_prefix ''/dev/mapper/'' ?w") auto
    then show ?thesis using trim_prefix_append [of "''/dev/''" name] by (simp add: trim_prefix_def)
  qed
  moreover have "\<not> has_prefix ?w ''if=''" and "has_prefix ?w ''/dev/''"
    by (auto simp: has_prefix_iff)
  ultimately show ?thesis
    using real slash contains_slash [of name]
    unfolding system_device_def Let_def w d by simp
qed

section \<open>What the list guarantees\<close>

definition kernel_char :: "char \<Rightarrow> bool" where
  "kernel_char c \<longleftrightarrow> is_lower c \<or> is_upper c \<or> is_digit c \<or> c = CHR ''-'' \<or> c = CHR ''_'' \<or> c = CHR ''.''"

lemma kernel_char_plain:
  "kernel_char c \<Longrightarrow> c \<noteq> CHR ''='' \<and> c \<noteq> CHR 0x22 \<and> c \<noteq> CHR 0x27 \<and> \<not> is_space c \<and>
     c \<noteq> CHR '';'' \<and> c \<noteq> CHR ''|'' \<and> c \<noteq> CHR ''&'' \<and> c \<noteq> newline"
  by (auto simp: kernel_char_def char_class_defs newline_def)

lemma segments_from_plain:
  "\<forall>c \<in> set s. c \<noteq> CHR '';'' \<and> c \<noteq> CHR ''|'' \<and> c \<noteq> CHR ''&'' \<and> c \<noteq> newline \<Longrightarrow>
   segments_from w s = [rev w @ s]"
  by (induction s arbitrary: w) auto

lemma disk_tool_word:
  "prog \<in> set disk_tools \<Longrightarrow>
     prog \<noteq> [] \<and> (\<forall>c \<in> set prog. kernel_char c \<and> c \<noteq> CHR ''/'') \<and> prog \<notin> set wrappers \<and>
     \<not> rx_match assign_rx prog \<and> \<not> has_prefix prog ''-''"
  unfolding disk_tools_def list.set insert_iff empty_iff
  by (elim disjE FalseE; hypsubst; code_simp)

text \<open>
  C1: Hiding a refused command in a sequence does not help: if one simple command of \<open>b\<close> is
  refused on a machine, then so is every line that runs \<open>b\<close> before or after anything else.
\<close>

theorem refusal_survives_sequencing:
  assumes "seg \<in> set (segments b)" and "segment_reason system seg \<noteq> ''''"
  shows "check_on (a @ CHR '';'' # b) system \<noteq> None \<and> check_on (b @ CHR '';'' # a) system \<noteq> None"
proof -
  have "seg \<in> set (segments (a @ CHR '';'' # b))" "seg \<in> set (segments (b @ CHR '';'' # a))"
    using assms(1) by (simp_all add: segments_seq)
  then show ?thesis using assms(2) refused_segment by metis
qed

theorem refusal_survives_sequencing_witness:
  "check_on (''ls'' @ CHR '';'' # ''apt update && systemctl reboot'') None \<noteq> None \<and>
   check_on (''apt update && systemctl reboot'' @ CHR '';'' # ''ls'') None \<noteq> None"
  by (rule refusal_survives_sequencing [of "'' systemctl reboot''"]) code_simp+

text \<open>
  A machine that has not reported its system devices is treated most strictly: whatever is
  refused with a report in hand is refused by \<open>Check\<close>, the check without one.
\<close>

theorem unreported_machine_is_strictest:
  assumes "check_on command (Some srcs) \<noteq> None"
  shows "check command \<noteq> None"
  using assms system_device_mono segment_reason_mono
  unfolding check_def check_on_None_iff by blast

theorem unreported_machine_is_strictest_witness: "check ''mkfs.ext4 /dev/sda'' \<noteq> None"
  by (rule unreported_machine_is_strictest [of _ "[''/dev/sda'']"]) code_simp

text \<open>
  Every tool of the disk list, run with or without \<open>sudo\<close> against a device the machine runs
  from or a partition of one (\<open>sda1\<close>, \<open>nvme0n1p3\<close>), is refused.
\<close>

theorem disk_tool_on_system_disk_refused:
  assumes "prog \<in> set disk_tools" and "src \<in> set srcs" and "partition_suffix suf"
    and "name = after_last (CHR ''/'') src @ suf" and "\<forall>c \<in> set name. kernel_char c"
    and "''/dev/'' @ name \<notin> set pseudo_devices"
  shows "check_on (prog @ '' /dev/'' @ name) (Some srcs) \<noteq> None \<and>
         check_on (''sudo '' @ prog @ '' /dev/'' @ name) (Some srcs) \<noteq> None"
proof -
  note prog = disk_tool_word [OF assms(1)]
  let ?w = "''/dev/'' @ name" let ?cmd = "prog @ CHR '' '' # ?w"
  have plain: "\<forall>c \<in> set ?w. \<not> is_space c \<and> c \<noteq> CHR '';'' \<and> c \<noteq> CHR ''|'' \<and> c \<noteq> CHR ''&'' \<and> c \<noteq> newline"
    using assms(5) kernel_char_plain by (auto simp: is_space_def newline_def)
  have "fields ?cmd = [prog, ?w]"
    using prog plain fields_by_Cons_word [of prog ?w] fields_one [of ?w] kernel_char_plain by simp
  moreover have "strip_wrappers [prog, ?w] = [prog, ?w]"
    using prog by (simp add: strip_wrappers_def)
  moreover have "after_last (CHR ''/'') prog = prog"
    using prog by (intro after_last_no_sep) auto
  moreover have "system_device ?w (Some srcs) \<noteq> ''''"
    using system_device_of_partition [OF assms(2-4) _ assms(6)] assms(5) kernel_char_plain
    by (auto simp: system_disk_reason_def)
  ultimately have reason: "segment_reason (Some srcs) ?cmd \<noteq> ''''"
    using assms(1) by (auto simp: segment_reason_def first_reason_iff)
  then have reason': "segment_reason (Some srcs) (''sudo'' @ CHR '' '' # ?cmd) \<noteq> ''''"
    by (subst wrapper_transparent) (simp_all add: wrappers_def)
  have "\<forall>c \<in> set prog. c \<noteq> CHR '';'' \<and> c \<noteq> CHR ''|'' \<and> c \<noteq> CHR ''&'' \<and> c \<noteq> newline"
    using prog kernel_char_plain by blast
  with plain have free: "\<forall>c \<in> set (''sudo'' @ CHR '' '' # ?cmd). c \<noteq> CHR '';'' \<and> c \<noteq> CHR ''|'' \<and> c \<noteq> CHR ''&'' \<and> c \<noteq> newline"
    by (auto simp: newline_def)
  then have "segments ?cmd = [?cmd]" "segments (''sudo'' @ CHR '' '' # ?cmd) = [''sudo'' @ CHR '' '' # ?cmd]"
    using segments_from_plain [of ?cmd "[]"] segments_from_plain [of "''sudo'' @ CHR '' '' # ?cmd" "[]"]
    by (simp_all add: segments_def)
  with reason reason' show ?thesis
    using refused_segment [of ?cmd ?cmd] refused_segment [of "''sudo'' @ CHR '' '' # ?cmd" "''sudo'' @ CHR '' '' # ?cmd"]
    by simp
qed

theorem disk_tool_on_system_disk_refused_witness:
  "check_on (''wipefs'' @ '' /dev/'' @ ''nvme0n1p3'') (Some [''/dev/nvme0n1'']) \<noteq> None \<and>
   check_on (''sudo '' @ ''wipefs'' @ '' /dev/'' @ ''nvme0n1p3'') (Some [''/dev/nvme0n1'']) \<noteq> None"
  by (rule disk_tool_on_system_disk_refused [of _ "''/dev/nvme0n1''" _ "''p3''"]) code_simp+

end
