(* ===== verification/ComposeGate.thy ===== *)
theory ComposeGate
  imports Gate
begin

text \<open>
  The compose half of \<open>internal/gate/gate.go\<close>: what an agent's \<open>deploy_stack\<close> may not bring
  up. The expressions carry the flags \<open>(?im)\<close>: letters match in either case (\<open>LitI\<close>), and the
  anchors are those of a line (\<open>Bol\<close>, \<open>Eol\<close>); \<open>composeCapItem\<close> alone is anchored to its whole
  text. White space in an expression includes the line feed, as it does in Go.
\<close>

section \<open>The expressions\<close>

abbreviation OptQuote :: rx where
  "OptQuote \<equiv> Opt (Cls (\<lambda>c. c = CHR 0x22 \<or> c = CHR 0x27))"

definition privileged_rx :: rx where
  "privileged_rx =
     Seq [Bol, Spaces, LitI ''privileged'', Spaces, Chr (CHR '':''), Spaces, OptQuote, LitI ''true'',
          OptQuote, Spaces, Eol]"

definition pid_host_rx :: rx where
  "pid_host_rx =
     Seq [Bol, Spaces, LitI ''pid'', Spaces, Chr (CHR '':''), Spaces, OptQuote, LitI ''host'',
          OptQuote, Spaces, Eol]"

definition net_host_rx :: rx where
  "net_host_rx =
     Seq [Bol, Spaces, LitI ''network_mode'', Spaces, Chr (CHR '':''), Spaces, OptQuote, LitI ''host'',
          OptQuote, Spaces, Eol]"

definition cap_add_pre_rx :: rx where
  "cap_add_pre_rx = Seq [Bol, Spaces, LitI ''cap_add'', Spaces, Chr (CHR '':''), Spaces]"

definition rest_of_line_rx :: rx where
  "rest_of_line_rx = Star (Cls (\<lambda>c. c \<noteq> newline))"

definition cap_item_rx :: rx where
  "cap_item_rx =
     Seq [Bot, Opt (Chr (CHR ''-'')), Spaces, OptQuote, Or (LitI ''SYS_ADMIN'') (LitI ''ALL''),
          OptQuote, Spaces, Eot]"

definition docker_sock_or_root_rx :: rx where
  "docker_sock_or_root_rx = Or (LitI ''/var/run/docker.sock'') (LitI ''/'')"

definition bind_item_rx :: rx where
  "bind_item_rx =
     Seq [Bol, Spaces, Chr (CHR ''-''), Spaces, OptQuote, docker_sock_or_root_rx, OptQuote, Spaces,
          Chr (CHR '':'')]"

definition bind_source_rx :: rx where
  "bind_source_rx =
     Seq [Bol, Spaces, LitI ''source'', Spaces, Chr (CHR '':''), Spaces, OptQuote,
          docker_sock_or_root_rx, OptQuote, Spaces, Eol]"

section \<open>The refusal\<close>

definition leading_space :: "string \<Rightarrow> nat" where
  "leading_space s = length (takeWhile (\<lambda>c. c = CHR '' '' \<or> c = CHR 0x09) s)"

definition cap_reason :: string where
  "cap_reason = ''adding a dangerous capability (cap_add)''"

text \<open>
  \<open>composeCapAdd\<close> ends in \<open>(.*)$\<close>: after the greedy \<open>.*\<close> the position is always the end of a
  line, so the group is \<open>rest_of_line_rx\<close>.
\<close>

definition cap_add_line :: "string \<Rightarrow> bool" where
  "cap_add_line l \<longleftrightarrow> rx_group cap_add_pre_rx rest_of_line_rx l \<noteq> None"

fun cap_block :: "nat \<Rightarrow> string list \<Rightarrow> string" where
  "cap_block indent [] = ''''"
| "cap_block indent (l # ls) =
     (if trim_space l = [] then cap_block indent ls
      else if leading_space l \<le> indent then ''''
      else if rx_match cap_item_rx (trim_space l) then cap_reason
      else cap_block indent ls)"

fun from_first :: "('a \<Rightarrow> bool) \<Rightarrow> 'a list \<Rightarrow> 'a list" where
  "from_first p [] = []"
| "from_first p (x # xs) = (if p x then x # xs else from_first p xs)"

definition cap_add_reason :: "string \<Rightarrow> string \<Rightarrow> string" where
  "cap_add_reason compose m =
     (let inl = trim_space m
      in if inl \<noteq> [] \<and> inl \<noteq> ''[]'' then
           (if rx_match cap_item_rx (trim (\<lambda>c. c = CHR ''['' \<or> c = CHR '']'') inl)
              \<or> contains_str (to_upper inl) ''SYS_ADMIN'' \<or> contains_str (to_upper inl) ''ALL''
            then cap_reason else '''')
         else
           let lines = split_on newline compose;
               at = (case from_first cap_add_line lines of [] \<Rightarrow> lines | ls \<Rightarrow> ls)
           in cap_block (leading_space (hd at)) (tl at))"

definition compose_refusal :: "string \<Rightarrow> string" where
  "compose_refusal compose =
     (if rx_match privileged_rx compose then ''a privileged container (privileged: true)''
      else if rx_match pid_host_rx compose then ''sharing the host's PID namespace (pid: host)''
      else if rx_match net_host_rx compose then ''sharing the host's network (network_mode: host)''
      else
        let cap = (case rx_group cap_add_pre_rx rest_of_line_rx compose of
                     None \<Rightarrow> '''' | Some m \<Rightarrow> cap_add_reason compose m)
        in if cap \<noteq> '''' then cap
           else if rx_match bind_item_rx compose \<or> rx_match bind_source_rx compose
           then ''a bind mount of / or the docker socket''
           else '''')"

section \<open>Lines that are refused wherever they stand\<close>

text \<open>
  \<open>run_text r w\<close>: \<open>r\<close> matches the text \<open>w\<close> in any surroundings whose next character (if any)
  is a line feed; enough for the stanzas, which end at a line's end.
\<close>

definition adv :: "string \<Rightarrow> char option \<Rightarrow> char option" where
  "adv w a = (if w = [] then a else Some (last w))"

lemma adv_simps [simp]: "adv [] a = a" "adv (v @ w) a = adv w (adv v a)" "adv [x] a = Some x"
  by (simp_all add: adv_def)

definition run_text :: "rx \<Rightarrow> string \<Rightarrow> bool" where
  "run_text r w \<longleftrightarrow> (\<forall>a s. rx_run r (a, w @ s) (adv w a, s))"

lemma run_textD: "run_text r w \<Longrightarrow> rx_run r (a, w @ s) (adv w a, s)"
  by (simp add: run_text_def)

lemma run_textI: "(\<And>a s. rx_run r (a, w @ s) (adv w a, s)) \<Longrightarrow> run_text r w"
  by (simp add: run_text_def)

lemma run_text_Cls: "c x \<Longrightarrow> run_text (Cls c) [x]"
  by (rule run_textI) (simp add: run_cls)

lemma run_text_Eps: "run_text Eps []"
  by (rule run_textI) simp

lemma run_text_Cat:
  assumes "run_text r v" and "run_text s w"
  shows "run_text (Cat r s) (v @ w)"
proof (rule run_textI)
  fix a t
  have "rx_run r (a, v @ (w @ t)) (adv v a, w @ t)" using assms(1) by (rule run_textD)
  moreover have "rx_run s (adv v a, w @ t) (adv w (adv v a), t)" using assms(2) by (rule run_textD)
  ultimately show "rx_run (Cat r s) (a, (v @ w) @ t) (adv (v @ w) a, t)"
    by (simp add: run_cat)
qed

lemma run_text_Seq_Cons: "run_text r v \<Longrightarrow> run_text (Seq rs) w \<Longrightarrow> run_text (Seq (r # rs)) (v @ w)"
proof (cases rs)
  case Nil
  assume "run_text r v" "run_text (Seq rs) w"
  moreover from this Nil have "w = []"
    using run_textD [of Eps w None "[]"] by simp
  ultimately show ?thesis using Nil by simp
qed (simp add: run_text_Cat)

lemma run_text_Or1: "run_text r w \<Longrightarrow> run_text (Or r s) w"
  by (simp add: run_text_def run_or1)

lemma run_text_Or2: "run_text s w \<Longrightarrow> run_text (Or r s) w"
  by (simp add: run_text_def run_or2)

lemma run_text_Star: "\<forall>x \<in> set w. c x \<Longrightarrow> run_text (Star (Cls c)) w"
proof (induction w)
  case Nil
  show ?case by (rule run_textI) (simp add: run_star0)
next
  case (Cons x w)
  show ?case
  proof (rule run_textI)
    fix a s
    have "rx_run (Cls c) (a, x # w @ s) (Some x, w @ s)"
      using Cons.prems by (simp add: run_cls)
    moreover have "rx_run (Star (Cls c)) (Some x, w @ s) (adv w (Some x), s)"
      using Cons by (intro run_textD) auto
    ultimately show "rx_run (Star (Cls c)) (a, (x # w) @ s) (adv (x # w) a, s)"
      using adv_simps(2) [of "[x]" w a] by (simp add: run_star)
  qed
qed

lemma run_text_LitI: "map lower_char w = map lower_char v \<Longrightarrow> run_text (LitI v) w"
proof (induction v arbitrary: w)
  case Nil
  then show ?case by (simp add: LitI_def run_text_Eps)
next
  case (Cons c v)
  then obtain x w' where w: "w = [x] @ w'" "lower_char x = lower_char c" "map lower_char w' = map lower_char v"
    by (cases w) auto
  have "run_text (Cls (\<lambda>x. lower_char x = lower_char c)) [x]"
    using w(2) by (rule run_text_Cls)
  moreover have "run_text (LitI v) w'" using w(3) by (rule Cons.IH)
  ultimately show ?case
    unfolding w(1) LitI_def list.map by (rule run_text_Seq_Cons)
qed

lemma rx_match_from:
  assumes "rx_run r (adv a None, b) q"
  shows "rx_match r (a @ b)"
  using assms starts_append [of a None b] unfolding rx_match_iff adv_def by blast

lemma rx_run_Seq_append:
  "rx_run (Seq (rs @ ss)) p q \<longleftrightarrow> (\<exists>m. rx_run (Seq rs) p m \<and> rx_run (Seq ss) m q)"
proof (induction rs arbitrary: p)
  case Nil
  show ?case by simp
next
  case (Cons r rs)
  show ?case unfolding append_Cons rx_run_Seq_Cons Cons.IH by blast
qed

lemma run_text_Spaces: "\<forall>c \<in> set w. re_space c \<Longrightarrow> run_text Spaces w"
  by (rule run_text_Star)

lemma run_text_OptQuote: "q \<in> {[], [CHR 0x22], [CHR 0x27]} \<Longrightarrow> run_text OptQuote q"
  by (auto intro: run_text_Or1 run_text_Or2 run_text_Cls run_text_Eps)

text \<open>The stanza \<open>key: value\<close> on a line of its own, with any indentation, quotes and case.\<close>

definition stanza_line :: "string \<Rightarrow> string \<Rightarrow> string \<Rightarrow> bool" where
  "stanza_line key val l \<longleftrightarrow>
     (\<exists>i k s1 s2 q1 v q2 s3. l = i @ k @ s1 @ '':'' @ s2 @ q1 @ v @ q2 @ s3 \<and>
        (\<forall>c \<in> set (i @ s1 @ s2 @ s3). re_space c) \<and> to_lower k = key \<and> to_lower v = val \<and>
        q1 \<in> {[], [CHR 0x22], [CHR 0x27]} \<and> q2 \<in> {[], [CHR 0x22], [CHR 0x27]})"

lemma stanza_matches:
  assumes "stanza_line key val l" and "map lower_char key = key" and "map lower_char val = val"
    and a: "a = [] \<or> last a = newline" and b: "b = [] \<or> hd b = newline"
  shows "rx_match (Seq [Bol, Spaces, LitI key, Spaces, Chr (CHR '':''), Spaces, OptQuote, LitI val,
          OptQuote, Spaces, Eol]) (a @ l @ b)"
proof -
  obtain i k s1 s2 q1 v q2 s3 where l: "l = i @ k @ s1 @ '':'' @ s2 @ q1 @ v @ q2 @ s3"
    and sp: "\<forall>c \<in> set (i @ s1 @ s2 @ s3). re_space c" and kv: "to_lower k = key" "to_lower v = val"
    and q: "q1 \<in> {[], [CHR 0x22], [CHR 0x27]}" "q2 \<in> {[], [CHR 0x22], [CHR 0x27]}"
    using assms(1) unfolding stanza_line_def by blast
  let ?mid = "[Spaces, LitI key, Spaces, Chr (CHR '':''), Spaces, OptQuote, LitI val, OptQuote, Spaces]"
  have "run_text (Seq ?mid) (i @ k @ s1 @ '':'' @ s2 @ q1 @ v @ q2 @ s3 @ [])"
    using sp kv q assms(2,3)
    by (intro run_text_Seq_Cons run_text_Spaces run_text_LitI run_text_Cls run_text_OptQuote)
      (auto simp: to_lower_def run_text_Eps)
  then have mid: "rx_run (Seq ?mid) (adv a None, l @ b) (adv l (adv a None), b)"
    using run_textD [of "Seq ?mid" l "adv a None" b] by (simp add: l)
  have bol: "rx_run Bol (adv a None, l @ b) (adv a None, l @ b)"
    using a by (auto simp: adv_def intro: run_bol0 run_bol)
  have eol: "rx_run Eol (adv l (adv a None), b) (adv l (adv a None), b)"
    using b by (cases b) (auto intro: run_eol0 run_eol)
  have "rx_run (Seq ([Bol] @ ?mid @ [Eol])) (adv a None, l @ b) (adv l (adv a None), b)"
    unfolding rx_run_Seq_append using bol mid eol by (auto simp del: Seq.simps(3) split_paired_Ex)
  then show ?thesis using rx_match_from [of _ a "l @ b"] by simp
qed

text \<open>
  A compose file with a \<open>privileged: true\<close>, \<open>pid: host\<close> or \<open>network_mode: host\<close> line is
  refused wherever the line stands, however it is indented, quoted or capitalised.
\<close>

theorem compose_host_stanzas_refused:
  assumes "stanza_line key val l"
    and "(key, val) \<in> {(''privileged'', ''true''), (''pid'', ''host''), (''network_mode'', ''host'')}"
    and "a = [] \<or> last a = newline" and "b = [] \<or> hd b = newline"
  shows "compose_refusal (a @ l @ b) \<noteq> ''''"
proof -
  have "map lower_char key = key" "map lower_char val = val"
    using assms(2) by (auto simp: lower_char_def is_upper_def)
  note m = stanza_matches [OF assms(1) this assms(3,4)]
  from assms(2) m have "rx_match privileged_rx (a @ l @ b) \<or> rx_match pid_host_rx (a @ l @ b) \<or>
      rx_match net_host_rx (a @ l @ b)"
    unfolding privileged_rx_def pid_host_rx_def net_host_rx_def by auto
  then show ?thesis by (auto simp: compose_refusal_def)
qed

theorem compose_host_stanzas_refused_witness:
  "compose_refusal ((''x:'' @ [newline]) @ ''  pid: \"Host\"'' @ [newline]) \<noteq> ''''"
proof -
  have "stanza_line ''pid'' ''host'' ''  pid: \"Host\"''"
    unfolding stanza_line_def
    by (rule exI [of _ "''  ''"], rule exI [of _ "''pid''"], rule exI [of _ "[]"], rule exI [of _ "'' ''"],
        rule exI [of _ "[CHR 0x22]"], rule exI [of _ "''Host''"], rule exI [of _ "[CHR 0x22]"],
        rule exI [of _ "[]"])
      code_simp
  then show ?thesis by (rule compose_host_stanzas_refused) simp_all
qed

text \<open>
  The block list of \<open>cap_add\<close> is not read past its first item: the white space after the
  colon runs over the line feed, so the first item is taken for an inline list and the items below
  it are never looked at. A stack adding \<open>SYS_ADMIN\<close> second is not refused, although the same
  capability alone is.
\<close>

theorem cap_add_block_reads_first_item_only:
  "compose_refusal (''cap_add:'' @ [newline] @ '' - A'' @ [newline] @ '' - SYS_ADMIN'') = '''' \<and>
   compose_refusal (''cap_add:'' @ [newline] @ '' - SYS_ADMIN'') = cap_reason"
  by code_simp

end
