(* ===== verification/Tables.thy ===== *)
theory Tables
  imports Complex_Main GoStrings
begin

text \<open>
  The one database file (\<open>internal/store\<close>): a record type per table, with the columns of the
  schema, and \<open>db\<close>, the file. A table is the list of its rows in insertion order. Columns that
  may be NULL are options. Columns that hold JSON hold the decoded value: \<open>facts\<close> is what
  \<open>fleet.Facts\<close> and the anonymous structs beside it read out of a host's facts. Timestamps are
  numbers: \<open>sql_stamp\<close> (milliseconds) for SQLite's \<open>now\<close>, \<open>rfc3339\<close> (seconds) for Go's.
\<close>

section \<open>Facts\<close>

record mount =
  m_path :: string
  m_fs :: string
  m_size :: int
  m_free :: int
  m_source :: string

record agent_facts =
  ag_version :: string
  ag_model :: string
  ag_account :: bool

record facts =
  f_cores :: int
  f_mem_total :: int
  f_mem_used :: int
  f_load1 :: real
  f_mounts :: "mount list"
  f_gpu :: "bool option"
  f_docker :: "string option"
  f_ollama :: bool
  f_agent :: "agent_facts option"
  f_system_devices :: "string list"
  f_system_sources :: "string list"
  f_macs :: "string list"
  f_phone_model :: string
  f_android :: string

definition no_facts :: facts where
  "no_facts = \<lparr>f_cores = 0, f_mem_total = 0, f_mem_used = 0, f_load1 = 0, f_mounts = [], f_gpu = None,
     f_docker = None, f_ollama = False, f_agent = None, f_system_devices = [], f_system_sources = [],
     f_macs = [], f_phone_model = '''', f_android = ''''\<rparr>"

section \<open>Rows\<close>

record event_row =
  e_id :: int
  e_at :: int
  e_kind :: string
  e_subject :: string
  e_message :: string

record window_row =
  w_id :: int
  w_name :: string
  w_created :: int
  w_last :: int
  w_ended :: "int option"
  w_scroll :: "string option"

record host_row =
  h_id :: int
  h_name :: string
  h_kind :: string
  h_addr :: string
  h_port :: int
  h_user :: string
  h_key :: string
  h_status :: string
  h_facts :: facts
  h_model :: string
  h_rebuild :: string
  h_vault :: string
  h_revoked :: string
  h_enrolled :: int
  h_last_seen :: "int option"

record code_row =
  c_code :: string
  c_name :: string
  c_kind :: string
  c_rebuild :: "int option"
  c_expires :: int
  c_used :: bool

record job_row =
  j_id :: int
  j_host :: int
  j_cwd :: string
  j_window :: "int option"
  j_model :: string
  j_text :: string
  j_rounds :: int
  j_state :: string
  j_timeout :: int
  j_session :: string
  j_snapshot :: string
  j_report :: string
  j_changes :: string
  j_reason :: string
  j_started :: int
  j_ended :: "int option"

record job_event_row =
  je_id :: int
  je_job :: int
  je_at :: int
  je_line :: string

record proposal_row =
  pr_title :: string
  pr_url :: string
  pr_created :: int

record usage_row =
  u_host :: int
  u_job :: int
  u_at :: int
  u_model :: string
  u_input :: int
  u_output :: int
  u_cread :: int
  u_cwrite :: int
  u_cost :: real

record usage_hour_row =
  uh_host :: int
  uh_hour :: int
  uh_input :: int
  uh_output :: int
  uh_cread :: int
  uh_cwrite :: int
  uh_cost :: real
  uh_calls :: int

record metric_row =
  me_host :: int
  me_at :: int
  me_used :: int
  me_total :: int
  me_load :: real
  me_gpu :: real
  me_mounts :: "(string \<times> real) list"

record hub_usage_row =
  hu_at :: int
  hu_model :: string
  hu_input :: int
  hu_output :: int
  hu_cread :: int
  hu_cwrite :: int
  hu_cost :: real

record task_row =
  t_id :: int
  t_name :: string
  t_host :: "int option"
  t_command :: string
  t_schedule :: string
  t_timeout :: int
  t_enabled :: bool
  t_failing :: bool
  t_created :: int

record run_row =
  r_id :: int
  r_task :: int
  r_host :: "int option"
  r_hostname :: string
  r_started :: int
  r_ended :: "int option"
  r_exit :: "int option"
  r_output :: string
  r_skipped :: string

record cluster_row =
  cl_id :: int
  cl_name :: string
  cl_gateway :: int
  cl_path :: string

record member_row =
  cm_id :: int
  cm_cluster :: int
  cm_host :: int
  cm_path :: string

record workspace_row =
  ws_id :: int
  ws_name :: string
  ws_cluster :: int

record user_row =
  us_id :: string
  us_name :: string
  us_role :: string
  us_created :: int

record credential_row =
  cr_id :: string
  cr_user :: string
  cr_json :: string
  cr_created :: int

record session_row =
  se_token :: string
  se_user :: string
  se_expires :: int

record invite_row =
  iv_code :: string
  iv_role :: string
  iv_user :: "string option"
  iv_expires :: int
  iv_used :: bool

record token_row =
  tk_hash :: string
  tk_name :: string
  tk_role :: string
  tk_created :: int

record peer_row =
  p_id :: string
  p_name :: string
  p_approved :: bool
  p_max :: int
  p_hour :: int
  p_first :: int
  p_last :: int

record peer_job_row =
  pj_id :: int
  pj_peer :: string
  pj_dir :: string
  pj_model :: string
  pj_at :: int
  pj_accepted :: bool
  pj_finished :: bool
  pj_ttft :: "int option"
  pj_reason :: string

record service_row =
  sv_name :: string
  sv_host :: int
  sv_port :: int
  sv_peers :: string

record front_row =
  fr_peer :: string
  fr_service :: string
  fr_approved :: bool
  fr_hostname :: string

record peer_bytes_row =
  pb_peer :: string
  pb_service :: string
  pb_dir :: string
  pb_hour :: int
  pb_bytes :: int

record device_row =
  dv_id :: int
  dv_kind :: string
  dv_addr :: string
  dv_guess_name :: string
  dv_guess_kind :: string
  dv_vendor :: string
  dv_name :: string
  dv_user_kind :: string
  dv_first :: int
  dv_last :: int

record sighting_row =
  sg_device :: int
  sg_host :: int
  sg_seen :: int
  sg_detail :: string

record scan_row =
  sc_host :: int
  sc_at :: int
  sc_lan :: bool
  sc_wifi :: bool
  sc_bt :: bool
  sc_error :: string

record secret_row =
  sx_name :: string
  sx_cipher :: string
  sx_nonce :: string
  sx_hosts :: string
  sx_created :: int
  sx_updated :: int

record served_row =
  sr_at :: int
  sr_server :: string
  sr_peer :: bool
  sr_caller :: string
  sr_model :: string
  sr_input :: int
  sr_output :: int

section \<open>The file\<close>

record db =
  tb_events :: "event_row list"
  tb_settings :: "(string \<times> string) list"
  tb_windows :: "window_row list"
  tb_hosts :: "host_row list"
  tb_codes :: "code_row list"
  tb_jobs :: "job_row list"
  tb_job_events :: "job_event_row list"
  tb_proposals :: "proposal_row list"
  tb_usage :: "usage_row list"
  tb_usage_hourly :: "usage_hour_row list"
  tb_metrics :: "metric_row list"
  tb_metrics_hourly :: "metric_row list"
  tb_hub_usage :: "hub_usage_row list"
  tb_usage_files :: "(string \<times> int) list"
  tb_tasks :: "task_row list"
  tb_runs :: "run_row list"
  tb_catalog :: "(string \<times> string) list"
  tb_clusters :: "cluster_row list"
  tb_members :: "member_row list"
  tb_workspaces :: "workspace_row list"
  tb_ws_members :: "(int \<times> int) list"
  tb_users :: "user_row list"
  tb_credentials :: "credential_row list"
  tb_sessions :: "session_row list"
  tb_invites :: "invite_row list"
  tb_tokens :: "token_row list"
  tb_peers :: "peer_row list"
  tb_peer_jobs :: "peer_job_row list"
  tb_services :: "service_row list"
  tb_fronts :: "front_row list"
  tb_peer_bytes :: "peer_bytes_row list"
  tb_devices :: "device_row list"
  tb_sightings :: "sighting_row list"
  tb_scans :: "scan_row list"
  tb_secrets :: "secret_row list"
  tb_served :: "served_row list"

definition empty_db :: db where
  "empty_db = \<lparr>tb_events = [], tb_settings = [], tb_windows = [], tb_hosts = [], tb_codes = [], tb_jobs = [],
     tb_job_events = [], tb_proposals = [], tb_usage = [], tb_usage_hourly = [], tb_metrics = [],
     tb_metrics_hourly = [], tb_hub_usage = [], tb_usage_files = [], tb_tasks = [], tb_runs = [],
     tb_catalog = [], tb_clusters = [], tb_members = [], tb_workspaces = [], tb_ws_members = [], tb_users = [],
     tb_credentials = [], tb_sessions = [], tb_invites = [], tb_tokens = [], tb_peers = [], tb_peer_jobs = [],
     tb_services = [], tb_fronts = [], tb_peer_bytes = [], tb_devices = [], tb_sightings = [], tb_scans = [],
     tb_secrets = [], tb_served = []\<rparr>"

section \<open>Statements\<close>

text \<open>
  A SELECT is a filter in row order (\<open>order_by\<close> where the query orders), an UPDATE rewrites the
  rows its WHERE clause names, a DELETE drops them; \<open>affected\<close> is \<open>RowsAffected\<close>. An
  \<open>INTEGER PRIMARY KEY\<close> left out of an INSERT is one more than the largest in the table.
\<close>

definition update_where :: "('r \<Rightarrow> bool) \<Rightarrow> ('r \<Rightarrow> 'r) \<Rightarrow> 'r list \<Rightarrow> 'r list" where
  "update_where p f rows = map (\<lambda>r. if p r then f r else r) rows"

definition delete_where :: "('r \<Rightarrow> bool) \<Rightarrow> 'r list \<Rightarrow> 'r list" where
  "delete_where p rows = filter (\<lambda>r. \<not> p r) rows"

definition affected :: "('r \<Rightarrow> bool) \<Rightarrow> 'r list \<Rightarrow> nat" where
  "affected p rows = length (filter p rows)"

definition next_id :: "int list \<Rightarrow> int" where
  "next_id ids = 1 + fold max ids 0"

definition order_by :: "('r \<Rightarrow> 'r \<Rightarrow> bool) \<Rightarrow> 'r list \<Rightarrow> 'r list" where
  "order_by lt rows = insertion_sort lt rows"

fun str_less :: "string \<Rightarrow> string \<Rightarrow> bool" where
  "str_less [] [] = False"
| "str_less [] (y # ys) = True"
| "str_less (x # xs) [] = False"
| "str_less (x # xs) (y # ys) = (code x < code y \<or> x = y \<and> str_less xs ys)"

lemma set_update_where: "set (update_where p f rows) = f ` {r \<in> set rows. p r} \<union> {r \<in> set rows. \<not> p r}"
  by (auto simp: update_where_def)

lemma map_update_where: "(\<And>r. g (f r) = g r) \<Longrightarrow> map g (update_where p f rows) = map g rows"
  by (simp add: update_where_def)

lemma length_update_where [simp]: "length (update_where p f rows) = length rows"
  by (simp add: update_where_def)

lemma update_where_none: "\<forall>r \<in> set rows. \<not> p r \<Longrightarrow> update_where p f rows = rows"
  by (simp add: update_where_def map_idI)

lemma set_delete_where [simp]: "set (delete_where p rows) = {r \<in> set rows. \<not> p r}"
  by (auto simp: delete_where_def)

lemma affected_pos: "0 < affected p rows \<longleftrightarrow> (\<exists>r \<in> set rows. p r)"
  by (auto simp: affected_def filter_empty_conv)

lemma affected_zero: "affected p rows = 0 \<longleftrightarrow> (\<forall>r \<in> set rows. \<not> p r)"
  by (auto simp: affected_def filter_empty_conv)

lemma fold_max_ge: "x \<in> set xs \<or> x \<le> a \<Longrightarrow> (x :: int) \<le> fold max xs a"
  by (induction xs arbitrary: a) (auto simp: le_max_iff_disj)

lemma fold_max_le: "\<forall>x \<in> set xs. x \<le> b \<Longrightarrow> a \<le> b \<Longrightarrow> fold max xs a \<le> (b :: int)"
  by (induction xs arbitrary: a) auto

lemma next_id_fresh: "next_id ids \<notin> set ids"
  using fold_max_ge [of "next_id ids" ids 0] by (auto simp: next_id_def)

lemma next_id_pos: "0 < next_id ids"
  using fold_max_ge [of 0 ids 0] by (simp add: next_id_def)

lemma set_order_by [simp]: "set (order_by lt rows) = set rows"
  by (simp add: order_by_def)

lemma str_less_irrefl [simp]: "\<not> str_less x x"
  by (induction x) auto

lemma str_less_asym: "str_less x y \<Longrightarrow> \<not> str_less y x"
  by (induction x y rule: str_less.induct) auto

lemma code_inj: "code x = code y \<Longrightarrow> x = y"
  by (simp add: of_char_eq_iff)

lemma str_less_total: "\<not> str_less x y \<Longrightarrow> \<not> str_less y x \<Longrightarrow> x = y"
  by (induction x y rule: str_less.induct) (auto dest: code_inj)

lemma str_less_trans: "str_less x y \<Longrightarrow> str_less y z \<Longrightarrow> str_less x z"
proof (induction x y arbitrary: z rule: str_less.induct)
  case (2 y ys)
  then show ?case by (cases z) auto
next
  case (4 x xs y ys)
  then show ?case by (cases z) auto
qed auto

interpretation str_order: sort_order str_less
proof
  show "str_less x y \<Longrightarrow> \<not> str_less y x" for x y by (rule str_less_asym)
  show "\<not> str_less y x \<Longrightarrow> \<not> str_less z y \<Longrightarrow> \<not> str_less z x" for x y z
    using str_less_total str_less_trans by metis
qed

text \<open>
  \<open>INSERT ... ON CONFLICT(key) DO UPDATE\<close> is \<open>upsert\<close>; \<open>keyed\<close> is a PRIMARY KEY or UNIQUE
  constraint and \<open>refers\<close> a FOREIGN KEY, as predicates on the rows. \<open>by_desc\<close> and \<open>by_asc\<close> are
  the orders of one and two ORDER BY terms.
\<close>

definition upsert :: "('r \<Rightarrow> bool) \<Rightarrow> 'r \<Rightarrow> ('r \<Rightarrow> 'r) \<Rightarrow> 'r list \<Rightarrow> 'r list" where
  "upsert p ins upd rows = (if list_ex p rows then update_where p upd rows else rows @ [ins])"

definition keyed :: "('r \<Rightarrow> 'k) \<Rightarrow> 'r list \<Rightarrow> bool" where
  "keyed k rows = distinct (map k rows)"

definition refers :: "('r \<Rightarrow> 'k) \<Rightarrow> 'k set \<Rightarrow> 'r list \<Rightarrow> bool" where
  "refers f ks rows = (\<forall>r \<in> set rows. f r \<in> ks)"

definition refers_opt :: "('r \<Rightarrow> 'k option) \<Rightarrow> 'k set \<Rightarrow> 'r list \<Rightarrow> bool" where
  "refers_opt f ks rows = (\<forall>r \<in> set rows. case f r of None \<Rightarrow> True | Some k \<Rightarrow> k \<in> ks)"

definition by_asc :: "('r \<Rightarrow> int) \<Rightarrow> 'r \<Rightarrow> 'r \<Rightarrow> bool" where
  "by_asc f a b = (f a < f b)"

definition by_desc :: "('r \<Rightarrow> int) \<Rightarrow> 'r \<Rightarrow> 'r \<Rightarrow> bool" where
  "by_desc f a b = (f b < f a)"

definition by_name :: "('r \<Rightarrow> string) \<Rightarrow> 'r \<Rightarrow> 'r \<Rightarrow> bool" where
  "by_name f a b = str_less (f a) (f b)"

definition then_by :: "('r \<Rightarrow> 'r \<Rightarrow> bool) \<Rightarrow> ('r \<Rightarrow> 'r \<Rightarrow> bool) \<Rightarrow> 'r \<Rightarrow> 'r \<Rightarrow> bool" where
  "then_by lt1 lt2 a b = (lt1 a b \<or> \<not> lt1 b a \<and> lt2 a b)"

lemma set_upsert:
  "set (upsert p ins upd rows) \<subseteq> insert ins (set rows \<union> upd ` set rows)"
  by (auto simp: upsert_def update_where_def)

lemma keyed_update: "(\<And>r. k (f r) = k r) \<Longrightarrow> keyed k rows \<Longrightarrow> keyed k (update_where p f rows)"
  by (simp add: keyed_def map_update_where)

lemma keyed_delete: "keyed k rows \<Longrightarrow> keyed k (delete_where p rows)"
  by (simp add: keyed_def delete_where_def distinct_map_filter)

lemma keyed_append: "keyed k rows \<Longrightarrow> k r \<notin> k ` set rows \<Longrightarrow> keyed k (rows @ [r])"
  by (auto simp: keyed_def)

lemma keyed_next_id: "keyed k rows \<Longrightarrow> k r = next_id (map k rows) \<Longrightarrow> keyed k (rows @ [r])"
  using next_id_fresh [of "map k rows"] by (intro keyed_append) auto

lemma keyed_upsert:
  assumes "keyed k rows" and "\<And>r. k (upd r) = k r" and "\<And>r. p r = (k r = k ins)"
  shows "keyed k (upsert p ins upd rows)"
  using assms by (auto simp: upsert_def list_ex_iff intro!: keyed_update keyed_append)

lemma keyed_Nil [simp]: "keyed k []"
  by (simp add: keyed_def)

lemma keyed_eqD: "keyed k rows \<Longrightarrow> a \<in> set rows \<Longrightarrow> b \<in> set rows \<Longrightarrow> k a = k b \<Longrightarrow> a = b"
  by (auto simp: keyed_def distinct_map dest: inj_onD)

lemma refers_update: "(\<And>r. f (g r) = f r) \<Longrightarrow> refers f ks rows \<Longrightarrow> refers f ks (update_where p g rows)"
  by (auto simp: refers_def update_where_def)

lemma refers_opt_update:
  "(\<And>r. f (g r) = f r) \<Longrightarrow> refers_opt f ks rows \<Longrightarrow> refers_opt f ks (update_where p g rows)"
  by (auto simp: refers_opt_def update_where_def)

lemma refers_delete: "refers f ks rows \<Longrightarrow> refers f ks (delete_where p rows)"
  by (auto simp: refers_def)

lemma refers_opt_delete: "refers_opt f ks rows \<Longrightarrow> refers_opt f ks (delete_where p rows)"
  by (auto simp: refers_opt_def)

lemma refers_append: "refers f ks rows \<Longrightarrow> f r \<in> ks \<Longrightarrow> refers f ks (rows @ [r])"
  by (auto simp: refers_def)

lemma refers_opt_append:
  "refers_opt f ks rows \<Longrightarrow> (\<And>k. f r = Some k \<Longrightarrow> k \<in> ks) \<Longrightarrow> refers_opt f ks (rows @ [r])"
  by (auto simp: refers_opt_def split: option.splits)

lemma refers_mono: "refers f ks rows \<Longrightarrow> ks \<subseteq> ks' \<Longrightarrow> refers f ks' rows"
  by (auto simp: refers_def)

lemma refers_opt_mono: "refers_opt f ks rows \<Longrightarrow> ks \<subseteq> ks' \<Longrightarrow> refers_opt f ks' rows"
  by (fastforce simp: refers_opt_def split: option.splits)

lemma sort_order_then:
  assumes "sort_order lt1" and "sort_order lt2"
  shows "sort_order (then_by lt1 lt2)"
proof -
  show ?thesis
  proof
    show "then_by lt1 lt2 x y \<Longrightarrow> \<not> then_by lt1 lt2 y x" for x y
      using sort_order.lt_asym [OF assms(1)] sort_order.lt_asym [OF assms(2)]
      by (auto simp: then_by_def)
    show "\<not> then_by lt1 lt2 z x" if a: "\<not> then_by lt1 lt2 y x" and b: "\<not> then_by lt1 lt2 z y"
      for x y z
    proof -
      note tr1 = sort_order.not_lt_trans [OF assms(1)] and tr2 = sort_order.not_lt_trans [OF assms(2)]
      from a b have n: "\<not> lt1 y x" "\<not> lt1 z y" by (auto simp: then_by_def)
      then have "\<not> lt1 z x" by (rule tr1)
      moreover have "\<not> lt2 z x" if "\<not> lt1 x z"
      proof -
        have "\<not> lt1 x y" using n(2) that by (rule tr1)
        moreover have "\<not> lt1 y z" using that n(1) by (rule tr1)
        ultimately have "\<not> lt2 y x" "\<not> lt2 z y" using a b n by (auto simp: then_by_def)
        then show ?thesis by (rule tr2)
      qed
      ultimately show ?thesis by (auto simp: then_by_def)
    qed
  qed
qed

lemma sort_order_asc: "sort_order (by_asc f)"
  by unfold_locales (auto simp: by_asc_def)

lemma sort_order_desc: "sort_order (by_desc f)"
  by unfold_locales (auto simp: by_desc_def)

lemma sort_order_name: "sort_order (by_name f)"
  by unfold_locales
    (auto simp: by_name_def dest: str_less_asym str_order.not_lt_trans)

lemma bex_update_where:
  "(\<exists>r \<in> set (update_where p f rows). q r) \<longleftrightarrow> (\<exists>r \<in> set rows. if p r then q (f r) else q r)"
  by (induction rows) (auto simp: update_where_def)

lemma ball_update_where:
  "(\<forall>r \<in> set (update_where p f rows). q r) \<longleftrightarrow> (\<forall>r \<in> set rows. if p r then q (f r) else q r)"
  by (induction rows) (auto simp: update_where_def)

lemma keyed_affected_le:
  "keyed k rows \<Longrightarrow> (\<And>r. p r \<Longrightarrow> k r = v) \<Longrightarrow> affected p rows \<le> 1"
proof (induction rows)
  case Nil
  then show ?case by (simp add: affected_def)
next
  case (Cons r rows)
  show ?case
  proof (cases "p r")
    case True
    with Cons.prems have "\<forall>x \<in> set rows. \<not> p x" by (force simp: keyed_def)
    then show ?thesis by (simp add: affected_def filter_empty_conv)
  next
    case False
    with Cons show ?thesis by (auto simp: affected_def keyed_def)
  qed
qed

lemma affected_one_iff:
  "keyed k rows \<Longrightarrow> (\<And>r. p r \<Longrightarrow> k r = v) \<Longrightarrow> affected p rows = 1 \<longleftrightarrow> (\<exists>r \<in> set rows. p r)"
  using keyed_affected_le [of k rows p v] affected_pos [of p rows] by auto

lemma find_snoc:
  "List.find p (xs @ [x]) =
     (case List.find p xs of None \<Rightarrow> if p x then Some x else None | Some y \<Rightarrow> Some y)"
  by (induction xs) auto

lemma find_some_iff: "List.find p xs \<noteq> None \<longleftrightarrow> (\<exists>x \<in> set xs. p x)"
  by (auto simp: find_None_iff)

lemma find_none_iff: "List.find p xs = None \<longleftrightarrow> (\<forall>x \<in> set xs. \<not> p x)"
  by (auto simp: find_None_iff)

lemma find_set: "List.find p xs = Some x \<Longrightarrow> x \<in> set xs \<and> p x"
  by (induction xs) (auto split: if_splits)

end
