(* ===== verification/StoreHosts.thy ===== *)
theory StoreHosts
  imports Tables
begin

text \<open>
  \<open>internal/store/store.go\<close>, \<open>hosts.go\<close> and \<open>proposals.go\<close>: the event log, settings, windows,
  the enrolled machines with what goes when one is removed, enrollment codes, and filed proposals.
  An operation takes the clock reading \<open>now\<close> where the statement reads one. The codes are an
  instance of \<open>single_use\<close>.
\<close>

section \<open>Events and settings\<close>

definition record_event :: "instant \<Rightarrow> string \<Rightarrow> string \<Rightarrow> string \<Rightarrow> db \<Rightarrow> db" where
  "record_event now kind subject message s =
     s\<lparr>tb_events := tb_events s @ [\<lparr>e_id = next_id (map e_id (tb_events s)), e_at = sql_stamp now,
         e_kind = kind, e_subject = subject, e_message = message\<rparr>]\<rparr>"

definition event_newer :: "event_row \<Rightarrow> event_row \<Rightarrow> bool" where
  "event_newer = then_by (by_desc e_at) (by_desc e_id)"

definition events :: "int \<Rightarrow> nat \<Rightarrow> db \<Rightarrow> event_row list" where
  "events before limit s =
     take limit (order_by event_newer
       (if before > 0 then filter (\<lambda>e. e_id e < before) (tb_events s) else tb_events s))"

definition str_upto :: "string \<Rightarrow> string \<Rightarrow> bool" where
  "str_upto a b = (\<not> str_less b a)"

definition settings_with_prefix :: "string \<Rightarrow> db \<Rightarrow> (string \<times> string) list" where
  "settings_with_prefix prefix s =
     filter (\<lambda>(k, v). str_upto prefix k \<and> str_less k (prefix @ [CHR 0xFF])) (tb_settings s)"

definition setting :: "string \<Rightarrow> db \<Rightarrow> string" where
  "setting key s = (case map_of (tb_settings s) key of None \<Rightarrow> '''' | Some v \<Rightarrow> v)"

definition set_setting :: "string \<Rightarrow> string \<Rightarrow> db \<Rightarrow> db" where
  "set_setting key v s =
     s\<lparr>tb_settings := upsert (\<lambda>r. fst r = key) (key, v) (\<lambda>r. (fst r, v)) (tb_settings s)\<rparr>"

section \<open>Windows\<close>

definition create_window :: "instant \<Rightarrow> string \<Rightarrow> db \<Rightarrow> int \<times> db" where
  "create_window now name s =
     (let i = next_id (map w_id (tb_windows s))
      in (i, s\<lparr>tb_windows := tb_windows s @ [\<lparr>w_id = i, w_name = name, w_created = sql_stamp now,
                w_last = sql_stamp now, w_ended = None, w_scroll = None\<rparr>]\<rparr>))"

definition touch_window :: "instant \<Rightarrow> int \<Rightarrow> db \<Rightarrow> db" where
  "touch_window now i s =
     s\<lparr>tb_windows := update_where (\<lambda>w. w_id w = i) (\<lambda>w. w\<lparr>w_last := sql_stamp now\<rparr>) (tb_windows s)\<rparr>"

definition end_window :: "instant \<Rightarrow> int \<Rightarrow> string option \<Rightarrow> db \<Rightarrow> db" where
  "end_window now i scrollback s =
     s\<lparr>tb_windows := update_where (\<lambda>w. w_id w = i \<and> w_ended w = None)
         (\<lambda>w. w\<lparr>w_ended := Some (sql_stamp now), w_scroll := scrollback\<rparr>) (tb_windows s)\<rparr>"

definition window :: "int \<Rightarrow> db \<Rightarrow> window_row res" where
  "window i s = (case List.find (\<lambda>w. w_id w = i) (tb_windows s) of None \<Rightarrow> Inl NoRows | Some w \<Rightarrow> Inr w)"

definition window_scrollback :: "int \<Rightarrow> db \<Rightarrow> string option res" where
  "window_scrollback i s =
     (case List.find (\<lambda>w. w_id w = i) (tb_windows s) of None \<Rightarrow> Inl NoRows | Some w \<Rightarrow> Inr (w_scroll w))"

definition end_all_windows :: "instant \<Rightarrow> db \<Rightarrow> window_row list \<times> db" where
  "end_all_windows now s =
     (filter (\<lambda>w. w_ended w = None) (tb_windows s),
      s\<lparr>tb_windows := update_where (\<lambda>w. w_ended w = None)
          (\<lambda>w. w\<lparr>w_ended := Some (sql_stamp now)\<rparr>) (tb_windows s)\<rparr>)"

text \<open>Deleting a window clears the \<open>window_id\<close> of its jobs (ON DELETE SET NULL).\<close>

definition drop_windows :: "(window_row \<Rightarrow> bool) \<Rightarrow> db \<Rightarrow> db" where
  "drop_windows p s =
     (let gone = map w_id (filter p (tb_windows s))
      in s\<lparr>tb_windows := delete_where p (tb_windows s),
           tb_jobs := update_where (\<lambda>j. case j_window j of None \<Rightarrow> False | Some w \<Rightarrow> w \<in> set gone)
             (\<lambda>j. j\<lparr>j_window := None\<rparr>) (tb_jobs s)\<rparr>)"

definition delete_window :: "int \<Rightarrow> db \<Rightarrow> db res" where
  "delete_window i s =
     (if affected (\<lambda>w. w_id w = i) (tb_windows s) = 0 then Inl NoRows
      else Inr (drop_windows (\<lambda>w. w_id w = i) s))"

definition clear_windows :: "db \<Rightarrow> nat \<times> db" where
  "clear_windows s =
     (affected (\<lambda>w. w_ended w \<noteq> None) (tb_windows s), drop_windows (\<lambda>w. w_ended w \<noteq> None) s)"

definition windows :: "db \<Rightarrow> window_row list" where
  "windows s = order_by (then_by (by_desc w_last) (by_desc w_id)) (tb_windows s)"

section \<open>The rebuild script as it is read\<close>

text \<open>
  A script stored JSON-encoded is unwrapped on every read: \<open>json_body\<close> reads the string literal
  after its opening quote and gives what follows it, as \<open>json.Unmarshal\<close> does.
\<close>

definition utf8 :: "nat \<Rightarrow> string" where
  "utf8 n =
     (if n < 0x80 then [char_of n]
      else if n < 0x800 then [char_of (0xC0 + n div 64), char_of (0x80 + n mod 64)]
      else if n < 0x10000 then [char_of (0xE0 + n div 4096), char_of (0x80 + n div 64 mod 64),
        char_of (0x80 + n mod 64)]
      else [char_of (0xF0 + n div 262144), char_of (0x80 + n div 4096 mod 64),
        char_of (0x80 + n div 64 mod 64), char_of (0x80 + n mod 64)])"

definition hex_val :: "char \<Rightarrow> nat option" where
  "hex_val c =
     (if is_digit c then Some (code c - 48)
      else if 97 \<le> code c \<and> code c \<le> 102 then Some (code c - 87)
      else if 65 \<le> code c \<and> code c \<le> 70 then Some (code c - 55) else None)"

fun hex4 :: "string \<Rightarrow> (nat \<times> string) option" where
  "hex4 (a # b # c # d # rest) =
     (case (hex_val a, hex_val b, hex_val c, hex_val d) of
        (Some w, Some x, Some y, Some z) \<Rightarrow> Some (4096 * w + 256 * x + 16 * y + z, rest)
      | _ \<Rightarrow> None)"
| "hex4 _ = None"

definition simple_escape :: "char \<Rightarrow> char option" where
  "simple_escape c =
     map_of [(CHR 0x22, CHR 0x22), (CHR 0x5C, CHR 0x5C), (CHR ''/'', CHR ''/''), (CHR ''b'', CHR 0x08),
       (CHR ''f'', CHR 0x0C), (CHR ''n'', newline), (CHR ''r'', CHR 0x0D), (CHR ''t'', CHR 0x09)] c"

text \<open>One \<open>\u\<close> escape: a surrogate pair is one character, a lone surrogate is U+FFFD.\<close>

definition unicode_escape :: "string \<Rightarrow> (string \<times> string) option" where
  "unicode_escape s =
     (case hex4 s of
        None \<Rightarrow> None
      | Some (n, rest) \<Rightarrow>
          if 0xD800 \<le> n \<and> n < 0xE000
          then (case strip_prefix [CHR 0x5C, CHR ''u''] rest of
                  Some low \<Rightarrow>
                    (case hex4 low of
                       Some (m, rest2) \<Rightarrow>
                         if n < 0xDC00 \<and> 0xDC00 \<le> m \<and> m < 0xE000
                         then Some (utf8 (0x10000 + (n - 0xD800) * 1024 + (m - 0xDC00)), rest2)
                         else Some (utf8 0xFFFD, rest)
                     | None \<Rightarrow> Some (utf8 0xFFFD, rest))
                | None \<Rightarrow> Some (utf8 0xFFFD, rest))
          else Some (utf8 n, rest))"

fun json_body :: "nat \<Rightarrow> string \<Rightarrow> (string \<times> string) option" where
  "json_body 0 s = None"
| "json_body (Suc n) [] = None"
| "json_body (Suc n) (c # cs) =
     (if c = CHR 0x22 then Some ('''', cs)
      else if c = CHR 0x5C
      then (case cs of
              [] \<Rightarrow> None
            | e # rest \<Rightarrow>
                if e = CHR ''u''
                then (case unicode_escape rest of
                        None \<Rightarrow> None
                      | Some (u, rest2) \<Rightarrow> map_option (\<lambda>(b, r). (u @ b, r)) (json_body n rest2))
                else (case simple_escape e of
                        None \<Rightarrow> None
                      | Some u \<Rightarrow> map_option (\<lambda>(b, r). (u # b, r)) (json_body n rest)))
      else if code c < 32 then None
      else map_option (\<lambda>(b, r). (c # b, r)) (json_body n cs))"

definition unwrap_rebuild_script :: "string \<Rightarrow> string" where
  "unwrap_rebuild_script script =
     (case script of
        [] \<Rightarrow> script
      | q # body \<Rightarrow>
          if q \<noteq> CHR 0x22 then script
          else (case json_body (length script) body of
                  None \<Rightarrow> script
                | Some (b, rest) \<Rightarrow>
                    if list_all (\<lambda>c. c \<in> {CHR '' '', CHR 0x09, newline, CHR 0x0D}) rest then b
                    else script))"

section \<open>Hosts\<close>

definition scan_host :: "host_row \<Rightarrow> host_row" where
  "scan_host h = h\<lparr>h_rebuild := unwrap_rebuild_script (h_rebuild h)\<rparr>"

definition hosts :: "db \<Rightarrow> host_row list" where
  "hosts s = map scan_host (order_by (by_name h_name) (tb_hosts s))"

definition host_matches :: "string \<Rightarrow> host_row \<Rightarrow> bool" where
  "host_matches ref h =
     (h_name h = ref \<or> itoa (h_id h) = ref \<and> ref \<noteq> '''' \<and> is_digit (hd ref))"

definition host :: "string \<Rightarrow> db \<Rightarrow> host_row res" where
  "host ref0 s =
     (let ref = trim_space ref0
      in if ref = '''' then Inl NoHost
         else (case List.find (host_matches ref) (tb_hosts s) of
                 None \<Rightarrow> Inl NoHost
               | Some h \<Rightarrow> Inr (scan_host h)))"

definition host_kinds :: "string list" where
  "host_kinds = [''compute'', ''mobile'']"

definition host_statuses :: "string list" where
  "host_statuses = [''unknown'', ''online'', ''offline'', ''mismatch'']"

definition add_host :: "instant \<Rightarrow> host_row \<Rightarrow> db \<Rightarrow> (int \<times> db) res" where
  "add_host now h s =
     (let kind = (if h_kind h = '''' then ''compute'' else h_kind h);
          i = next_id (map h_id (tb_hosts s))
      in if kind \<notin> set host_kinds then Inl SqlCheck
         else if h_name h \<in> set (map h_name (tb_hosts s))
         then Inl (Err (''a host named '' @ go_quote (h_name h) @ '' is already enrolled''))
         else Inr (i, s\<lparr>tb_hosts := tb_hosts s @ [\<lparr>h_id = i, h_name = h_name h, h_kind = kind,
                     h_addr = h_addr h, h_port = h_port h, h_user = h_user h, h_key = h_key h,
                     h_status = ''unknown'', h_facts = h_facts h, h_model = '''', h_rebuild = h_rebuild h,
                     h_vault = '''', h_revoked = '''', h_enrolled = sql_stamp now,
                     h_last_seen = None\<rparr>]\<rparr>))"

definition set_host_status ::
  "instant \<Rightarrow> int \<Rightarrow> string \<Rightarrow> facts option \<Rightarrow> string \<Rightarrow> db \<Rightarrow> (string \<times> db) res" where
  "set_host_status now i status fs model s =
     (case List.find (\<lambda>h. h_id h = i) (tb_hosts s) of
        None \<Rightarrow> Inl NoRows
      | Some h \<Rightarrow>
          if status \<notin> set host_statuses then Inl SqlCheck
          else Inr (h_status h, s\<lparr>tb_hosts := update_where (\<lambda>h. h_id h = i)
                 (case fs of
                    Some f \<Rightarrow> (\<lambda>h. h\<lparr>h_status := status, h_facts := f, h_model := model,
                                  h_last_seen := Some (sql_stamp now)\<rparr>)
                  | None \<Rightarrow> (\<lambda>h. h\<lparr>h_status := status\<rparr>)) (tb_hosts s)\<rparr>))"

definition update_host :: "int \<Rightarrow> (host_row \<Rightarrow> host_row) \<Rightarrow> db \<Rightarrow> db" where
  "update_host i f s = s\<lparr>tb_hosts := update_where (\<lambda>h. h_id h = i) f (tb_hosts s)\<rparr>"

definition set_rebuild_script :: "int \<Rightarrow> string \<Rightarrow> db \<Rightarrow> db" where
  "set_rebuild_script i script = update_host i (\<lambda>h. h\<lparr>h_rebuild := script\<rparr>)"

definition append_rebuild_script :: "int \<Rightarrow> string \<Rightarrow> db \<Rightarrow> db" where
  "append_rebuild_script i ls =
     update_host i (\<lambda>h. h\<lparr>h_rebuild :=
       trim_right (\<lambda>c. c = newline) (h_rebuild h) @ [newline] @ ls @ [newline]\<rparr>)"

definition set_vault_token :: "int \<Rightarrow> string \<Rightarrow> db \<Rightarrow> db" where
  "set_vault_token i token = update_host i (\<lambda>h. h\<lparr>h_vault := token\<rparr>)"

definition set_credentials_revoked :: "int \<Rightarrow> string \<Rightarrow> db \<Rightarrow> db" where
  "set_credentials_revoked i stamp = update_host i (\<lambda>h. h\<lparr>h_revoked := stamp\<rparr>)"

definition set_host_addr :: "int \<Rightarrow> string \<Rightarrow> db \<Rightarrow> db" where
  "set_host_addr i addr = update_host i (\<lambda>h. h\<lparr>h_addr := addr\<rparr>)"

section \<open>What goes with a row (ON DELETE CASCADE)\<close>

definition drop_jobs :: "(job_row \<Rightarrow> bool) \<Rightarrow> db \<Rightarrow> db" where
  "drop_jobs p s =
     (let gone = map j_id (filter p (tb_jobs s))
      in s\<lparr>tb_jobs := delete_where p (tb_jobs s),
           tb_job_events := delete_where (\<lambda>e. je_job e \<in> set gone) (tb_job_events s),
           tb_usage := delete_where (\<lambda>u. u_job u \<in> set gone) (tb_usage s)\<rparr>)"

definition drop_tasks :: "(task_row \<Rightarrow> bool) \<Rightarrow> db \<Rightarrow> db" where
  "drop_tasks p s =
     (let gone = map t_id (filter p (tb_tasks s))
      in s\<lparr>tb_tasks := delete_where p (tb_tasks s),
           tb_runs := delete_where (\<lambda>r. r_task r \<in> set gone) (tb_runs s)\<rparr>)"

definition drop_workspaces :: "(workspace_row \<Rightarrow> bool) \<Rightarrow> db \<Rightarrow> db" where
  "drop_workspaces p s =
     (let gone = map ws_id (filter p (tb_workspaces s))
      in s\<lparr>tb_workspaces := delete_where p (tb_workspaces s),
           tb_ws_members := delete_where (\<lambda>m. fst m \<in> set gone) (tb_ws_members s)\<rparr>)"

definition drop_clusters :: "(cluster_row \<Rightarrow> bool) \<Rightarrow> db \<Rightarrow> db" where
  "drop_clusters p s =
     (let gone = map cl_id (filter p (tb_clusters s));
          s1 = drop_workspaces (\<lambda>w. ws_cluster w \<in> set gone) s
      in s1\<lparr>tb_clusters := delete_where p (tb_clusters s1),
            tb_members := delete_where (\<lambda>m. cm_cluster m \<in> set gone) (tb_members s1)\<rparr>)"

definition remove_host :: "int \<Rightarrow> db \<Rightarrow> db" where
  "remove_host i s =
     (let s1 = drop_jobs (\<lambda>j. j_host j = i) s;
          s2 = drop_tasks (\<lambda>t. t_host t = Some i) s1;
          s3 = drop_clusters (\<lambda>c. cl_gateway c = i) s2
      in s3\<lparr>tb_hosts := delete_where (\<lambda>h. h_id h = i) (tb_hosts s3),
            tb_codes := update_where (\<lambda>c. c_rebuild c = Some i) (\<lambda>c. c\<lparr>c_rebuild := None\<rparr>) (tb_codes s3),
            tb_metrics := delete_where (\<lambda>m. me_host m = i) (tb_metrics s3),
            tb_metrics_hourly := delete_where (\<lambda>m. me_host m = i) (tb_metrics_hourly s3),
            tb_usage := delete_where (\<lambda>u. u_host u = i) (tb_usage s3),
            tb_usage_hourly := delete_where (\<lambda>u. uh_host u = i) (tb_usage_hourly s3),
            tb_runs := update_where (\<lambda>r. r_host r = Some i) (\<lambda>r. r\<lparr>r_host := None\<rparr>) (tb_runs s3),
            tb_members := delete_where (\<lambda>m. cm_host m = i) (tb_members s3),
            tb_ws_members := delete_where (\<lambda>m. snd m = i) (tb_ws_members s3),
            tb_services := delete_where (\<lambda>v. sv_host v = i) (tb_services s3),
            tb_sightings := delete_where (\<lambda>g. sg_host g = i) (tb_sightings s3),
            tb_scans := delete_where (\<lambda>c. sc_host c = i) (tb_scans s3)\<rparr>)"

section \<open>Enrollment codes\<close>

definition new_enroll_code ::
  "instant \<Rightarrow> string \<Rightarrow> string \<Rightarrow> string \<Rightarrow> int \<Rightarrow> db \<Rightarrow> (code_row \<times> db) res" where
  "new_enroll_code now c name kind0 rebuild s =
     (let kind = (if kind0 = '''' then ''compute'' else kind0);
          row = \<lparr>c_code = c, c_name = name, c_kind = kind,
                 c_rebuild = (if rebuild \<noteq> 0 then Some rebuild else None),
                 c_expires = rfc3339 (now + 15 * minute), c_used = False\<rparr>
      in if kind \<notin> set host_kinds then Inl SqlCheck
         else if c \<in> set (map c_code (tb_codes s)) then Inl SqlUnique
         else if rebuild \<noteq> 0 \<and> rebuild \<notin> set (map h_id (tb_hosts s)) then Inl SqlForeignKey
         else Inr (row, s\<lparr>tb_codes := tb_codes s @ [row]\<rparr>))"

definition code_live :: "instant \<Rightarrow> string \<Rightarrow> code_row \<Rightarrow> bool" where
  "code_live now c r = (c_code r = c \<and> \<not> c_used r \<and> c_expires r > rfc3339 now)"

definition enroll_code :: "instant \<Rightarrow> string \<Rightarrow> db \<Rightarrow> code_row option" where
  "enroll_code now c s = List.find (code_live now c) (tb_codes s)"

definition use_enroll_code :: "instant \<Rightarrow> string \<Rightarrow> db \<Rightarrow> bool \<times> db" where
  "use_enroll_code now c s =
     (affected (code_live now c) (tb_codes s) = 1,
      s\<lparr>tb_codes := update_where (code_live now c) (\<lambda>r. r\<lparr>c_used := True\<rparr>) (tb_codes s)\<rparr>)"

section \<open>Proposals\<close>

definition add_proposal :: "instant \<Rightarrow> string \<Rightarrow> string \<Rightarrow> db \<Rightarrow> db" where
  "add_proposal now title url s =
     s\<lparr>tb_proposals := tb_proposals s @ [\<lparr>pr_title = title, pr_url = url, pr_created = sql_stamp now\<rparr>]\<rparr>"

definition proposals_today :: "instant \<Rightarrow> db \<Rightarrow> nat" where
  "proposals_today now s = affected (\<lambda>p. pr_created p > sql_stamp (now - day)) (tb_proposals s)"

section \<open>Codes are spent at most once\<close>

text \<open>
  A primary key keeps at most one row per code, so \<open>RowsAffected = 1\<close> says exactly that the code
  was live. The clock may differ from call to call: it is part of what is spent.
\<close>

lemma keyed_codes_use: "keyed c_code (tb_codes s) \<Longrightarrow> keyed c_code (tb_codes (snd (use_enroll_code now c s)))"
  by (auto simp: use_enroll_code_def intro: keyed_update)

lemma enroll_code_iff: "enroll_code now c s \<noteq> None \<longleftrightarrow> (\<exists>r \<in> set (tb_codes s). code_live now c r)"
  by (simp only: enroll_code_def find_some_iff)

lemma use_code_answer:
  assumes "keyed c_code (tb_codes s)"
  shows "fst (use_enroll_code now c s) \<longleftrightarrow> enroll_code now c s \<noteq> None"
  unfolding enroll_code_iff use_enroll_code_def fst_conv
  by (rule affected_one_iff [OF assms]) (simp add: code_live_def)

lemma live_after_use:
  "enroll_code u d (snd (use_enroll_code now c s)) \<noteq> None \<longleftrightarrow>
   (\<exists>r \<in> set (tb_codes s). code_live u d r \<and> \<not> code_live now c r)"
proof -
  have used: "\<not> code_live u d (r\<lparr>c_used := True\<rparr>)" for r by (simp add: code_live_def)
  have tables: "tb_codes (snd (use_enroll_code now c s)) =
      update_where (code_live now c) (\<lambda>r. r\<lparr>c_used := True\<rparr>) (tb_codes s)"
    by (simp add: use_enroll_code_def)
  show ?thesis
    unfolding enroll_code_iff tables bex_update_where by (rule bex_cong) (simp_all add: used)
qed

interpretation codes: single_use "\<lambda>s. keyed c_code (tb_codes s)"
  "\<lambda>now s c. enroll_code now c s \<noteq> None" use_enroll_code
proof
  fix s :: db and t u :: instant and c d :: string
  assume k: "keyed c_code (tb_codes s)"
  show "keyed c_code (tb_codes (snd (use_enroll_code t c s)))"
    using k by (rule keyed_codes_use)
  show "fst (use_enroll_code t c s) = (enroll_code t c s \<noteq> None)"
    using k by (rule use_code_answer)
  show "\<not> enroll_code u c (snd (use_enroll_code t c s)) \<noteq> None" if used: "fst (use_enroll_code t c s)"
  proof -
    obtain r where r: "r \<in> set (tb_codes s)" "code_live t c r"
      using used unfolding use_code_answer [OF k] enroll_code_iff by blast
    have "x = r" if "x \<in> set (tb_codes s)" "code_live u c x" for x
      using keyed_eqD [OF k that(1) r(1)] that(2) r(2) by (simp add: code_live_def)
    with r show ?thesis unfolding live_after_use by blast
  qed
  show "enroll_code u d s \<noteq> None" if "enroll_code u d (snd (use_enroll_code t c s)) \<noteq> None"
    using that unfolding live_after_use unfolding enroll_code_iff by blast
qed

end
