(* ===== verification/StoreJobs.thy ===== *)
theory StoreJobs
  imports StoreHosts
begin

text \<open>
  \<open>internal/store/jobs.go\<close> and \<open>tasks.go\<close>: jobs with their event lines and retention, scheduled
  tasks with their runs, and the catalog entries a person added. The CHECK constraint on a job's
  state and the foreign keys are branches of the operations that can violate them.
\<close>

section \<open>Jobs\<close>

definition host_name_of :: "db \<Rightarrow> int \<Rightarrow> string option" where
  "host_name_of s i = map_option h_name (List.find (\<lambda>h. h_id h = i) (tb_hosts s))"

definition host_known :: "db \<Rightarrow> int \<Rightarrow> bool" where
  "host_known s i = (i \<in> set (map h_id (tb_hosts s)))"

text \<open>A JOIN with \<open>hosts\<close>: a row beside the name of its machine; rows without one drop out.\<close>

definition with_host :: "db \<Rightarrow> ('r \<Rightarrow> int) \<Rightarrow> 'r list \<Rightarrow> ('r \<times> string) list" where
  "with_host s f rows =
     concat (map (\<lambda>r. case host_name_of s (f r) of None \<Rightarrow> [] | Some n \<Rightarrow> [(r, n)]) rows)"

definition job_states :: "string list" where
  "job_states = [''running'', ''done'', ''failed'', ''needs_you'']"

definition create_job ::
  "instant \<Rightarrow> int \<Rightarrow> int \<Rightarrow> string \<Rightarrow> string \<Rightarrow> string \<Rightarrow> int \<Rightarrow> db \<Rightarrow> (int \<times> db) res" where
  "create_job now host_id window_id cwd model txt timeout s =
     (let i = next_id (map j_id (tb_jobs s))
      in if \<not> host_known s host_id \<or> window_id \<noteq> 0 \<and> window_id \<notin> set (map w_id (tb_windows s))
         then Inl SqlForeignKey
         else Inr (i, s\<lparr>tb_jobs := tb_jobs s @ [\<lparr>j_id = i, j_host = host_id, j_cwd = cwd,
             j_window = (if window_id \<noteq> 0 then Some window_id else None), j_model = model, j_text = txt,
             j_rounds = 1, j_state = ''running'', j_timeout = timeout, j_session = '''', j_snapshot = '''',
             j_report = '''', j_changes = '''', j_reason = '''', j_started = sql_stamp now,
             j_ended = None\<rparr>]\<rparr>))"

definition job :: "int \<Rightarrow> db \<Rightarrow> (job_row \<times> string) res" where
  "job i s =
     (case with_host s j_host (filter (\<lambda>j. j_id j = i) (tb_jobs s)) of
        [] \<Rightarrow> Inl (Err ''no such job'')
      | r # _ \<Rightarrow> Inr r)"

definition jobs :: "int \<Rightarrow> nat \<Rightarrow> db \<Rightarrow> (job_row \<times> string) list" where
  "jobs host_id limit s =
     take limit (with_host s j_host (order_by (by_desc j_id)
       (if host_id \<noteq> 0 then filter (\<lambda>j. j_host j = host_id) (tb_jobs s) else tb_jobs s)))"

definition update_job :: "(job_row \<Rightarrow> bool) \<Rightarrow> (job_row \<Rightarrow> job_row) \<Rightarrow> db \<Rightarrow> db" where
  "update_job p f s = s\<lparr>tb_jobs := update_where p f (tb_jobs s)\<rparr>"

definition set_job_session :: "int \<Rightarrow> string \<Rightarrow> db \<Rightarrow> db" where
  "set_job_session i sess = update_job (\<lambda>j. j_id j = i \<and> j_session j = '''') (\<lambda>j. j\<lparr>j_session := sess\<rparr>)"

definition set_job_snapshot :: "int \<Rightarrow> string \<Rightarrow> db \<Rightarrow> db" where
  "set_job_snapshot i kind = update_job (\<lambda>j. j_id j = i) (\<lambda>j. j\<lparr>j_snapshot := kind\<rparr>)"

definition set_job_changes :: "int \<Rightarrow> string \<Rightarrow> db \<Rightarrow> db" where
  "set_job_changes i changes = update_job (\<lambda>j. j_id j = i) (\<lambda>j. j\<lparr>j_changes := changes\<rparr>)"

definition start_round :: "int \<Rightarrow> db \<Rightarrow> db" where
  "start_round i = update_job (\<lambda>j. j_id j = i)
     (\<lambda>j. j\<lparr>j_rounds := j_rounds j + 1, j_state := ''running'', j_ended := None, j_reason := ''''\<rparr>)"

definition running_job :: "int \<Rightarrow> job_row \<Rightarrow> bool" where
  "running_job i j = (j_id j = i \<and> j_state j = ''running'')"

definition end_job :: "instant \<Rightarrow> int \<Rightarrow> string \<Rightarrow> string \<Rightarrow> string \<Rightarrow> db \<Rightarrow> db res" where
  "end_job now i state report reason s =
     (if 0 < affected (running_job i) (tb_jobs s) \<and> state \<notin> set job_states then Inl SqlCheck
      else Inr (update_job (running_job i) (\<lambda>j. j\<lparr>j_state := state, j_report := report,
             j_reason := reason, j_ended := Some (sql_stamp now)\<rparr>) s))"

definition kill_job :: "instant \<Rightarrow> int \<Rightarrow> string \<Rightarrow> db \<Rightarrow> (bool \<times> db) res" where
  "kill_job now i reason s =
     (let n = affected (running_job i) (tb_jobs s)
      in if 0 < n \<and> ''killed'' \<notin> set job_states then Inl SqlCheck
         else Inr (0 < n, update_job (running_job i) (\<lambda>j. j\<lparr>j_state := ''killed'',
                j_reason := reason, j_ended := Some (sql_stamp now)\<rparr>) s))"

definition append_job_event :: "instant \<Rightarrow> int \<Rightarrow> string \<Rightarrow> db \<Rightarrow> db res" where
  "append_job_event now i line s =
     (if i \<notin> set (map j_id (tb_jobs s)) then Inl SqlForeignKey
      else Inr (s\<lparr>tb_job_events := tb_job_events s @
             [\<lparr>je_id = next_id (map je_id (tb_job_events s)), je_job = i, je_at = sql_stamp now,
               je_line = line\<rparr>]\<rparr>))"

text \<open>One transaction: an insert that fails takes the earlier ones back.\<close>

fun append_job_events :: "instant \<Rightarrow> int \<Rightarrow> string list \<Rightarrow> db \<Rightarrow> db res" where
  "append_job_events now i [] s = Inr s"
| "append_job_events now i (l # ls) s =
     (case append_job_event now i l s of
        Inl e \<Rightarrow> Inl e
      | Inr s1 \<Rightarrow> append_job_events now i ls s1)"

definition job_events :: "int \<Rightarrow> int \<Rightarrow> nat \<Rightarrow> db \<Rightarrow> job_event_row list" where
  "job_events i after limit s =
     take limit (order_by (by_asc je_id)
       (filter (\<lambda>e. je_job e = i \<and> je_id e > after) (tb_job_events s)))"

definition newest_jobs :: "int \<Rightarrow> nat \<Rightarrow> db \<Rightarrow> int list" where
  "newest_jobs host_id n s =
     map j_id (take n (order_by (by_desc j_id) (filter (\<lambda>j. j_host j = host_id) (tb_jobs s))))"

definition trimmed :: "int \<Rightarrow> int \<Rightarrow> db \<Rightarrow> job_row \<Rightarrow> bool" where
  "trimmed host_id keep0 s j =
     (j_host j = host_id \<and> j_state j \<noteq> ''running'' \<and>
      j_id j \<notin> set (newest_jobs host_id (nat (max 5 keep0)) s))"

definition trim_jobs :: "int \<Rightarrow> int \<Rightarrow> db \<Rightarrow> int list \<times> db" where
  "trim_jobs host_id keep s =
     (map j_id (filter (trimmed host_id keep s) (tb_jobs s)), drop_jobs (trimmed host_id keep s) s)"

definition clear_jobs :: "db \<Rightarrow> (int \<times> int list) list \<times> db" where
  "clear_jobs s =
     (let gone = filter (\<lambda>j. j_state j \<noteq> ''running'') (tb_jobs s)
      in (map (\<lambda>h. (h, map j_id (filter (\<lambda>j. j_host j = h) gone))) (remdups (map j_host gone)),
          drop_jobs (\<lambda>j. j_state j \<noteq> ''running'') s))"

section \<open>Tasks\<close>

text \<open>A task with \<open>HostID\<close> 0 runs on every machine; the column is NULL then.\<close>

definition task_view :: "db \<Rightarrow> task_row \<Rightarrow> task_row \<times> string" where
  "task_view s t =
     (t, case t_host t of None \<Rightarrow> '''' | Some i \<Rightarrow> (case host_name_of s i of None \<Rightarrow> '''' | Some n \<Rightarrow> n))"

definition tasks :: "db \<Rightarrow> (task_row \<times> string) list" where
  "tasks s = map (task_view s) (order_by (by_name t_name) (tb_tasks s))"

definition task :: "int \<Rightarrow> db \<Rightarrow> (task_row \<times> string) res" where
  "task i s = (case List.find (\<lambda>t. t_id t = i) (tb_tasks s) of
     None \<Rightarrow> Inl (Err ''no such task'') | Some t \<Rightarrow> Inr (task_view s t))"

definition save_task ::
  "instant \<Rightarrow> int \<Rightarrow> string \<Rightarrow> int \<Rightarrow> string \<Rightarrow> string \<Rightarrow> int \<Rightarrow> bool \<Rightarrow> db \<Rightarrow> (int \<times> db) res" where
  "save_task now i name host_id command schedule timeout enabled s =
     (let h = (if host_id \<noteq> 0 then Some host_id else None);
          fk = (host_id \<noteq> 0 \<and> \<not> host_known s host_id)
      in if i = 0
         then (if fk then Inl SqlForeignKey
               else let n = next_id (map t_id (tb_tasks s))
                    in Inr (n, s\<lparr>tb_tasks := tb_tasks s @ [\<lparr>t_id = n, t_name = name, t_host = h,
                         t_command = command, t_schedule = schedule, t_timeout = timeout,
                         t_enabled = enabled, t_failing = False, t_created = sql_stamp now\<rparr>]\<rparr>))
         else if fk \<and> 0 < affected (\<lambda>t. t_id t = i) (tb_tasks s) then Inl SqlForeignKey
         else Inr (i, s\<lparr>tb_tasks := update_where (\<lambda>t. t_id t = i)
                (\<lambda>t. t\<lparr>t_name := name, t_host := h, t_command := command, t_schedule := schedule,
                      t_timeout := timeout, t_enabled := enabled\<rparr>) (tb_tasks s)\<rparr>))"

definition delete_task :: "int \<Rightarrow> db \<Rightarrow> db" where
  "delete_task i s = drop_tasks (\<lambda>t. t_id t = i) s"

definition set_task_failing :: "int \<Rightarrow> bool \<Rightarrow> db \<Rightarrow> bool \<times> db" where
  "set_task_failing i failing s =
     (affected (\<lambda>t. t_id t = i \<and> t_failing t \<noteq> failing) (tb_tasks s) = 1,
      s\<lparr>tb_tasks := update_where (\<lambda>t. t_id t = i \<and> t_failing t \<noteq> failing)
          (\<lambda>t. t\<lparr>t_failing := failing\<rparr>) (tb_tasks s)\<rparr>)"

definition start_run :: "instant \<Rightarrow> int \<Rightarrow> int \<Rightarrow> string \<Rightarrow> string \<Rightarrow> db \<Rightarrow> (int \<times> db) res" where
  "start_run now task_id host_id hostname skipped s =
     (let i = next_id (map r_id (tb_runs s))
      in if task_id \<notin> set (map t_id (tb_tasks s)) \<or> host_id \<noteq> 0 \<and> \<not> host_known s host_id
         then Inl SqlForeignKey
         else Inr (i, s\<lparr>tb_runs := tb_runs s @ [\<lparr>r_id = i, r_task = task_id,
                r_host = (if host_id \<noteq> 0 then Some host_id else None), r_hostname = hostname,
                r_started = sql_stamp now,
                r_ended = (if skipped \<noteq> '''' then Some (sql_stamp now) else None), r_exit = None,
                r_output = '''', r_skipped = skipped\<rparr>]\<rparr>))"

text \<open>The last 64 KiB of the output are kept.\<close>

definition run_output :: "string \<Rightarrow> string" where
  "run_output output = (if length output > 65536 then drop (length output - 65536) output else output)"

definition end_run :: "instant \<Rightarrow> int \<Rightarrow> int \<Rightarrow> string \<Rightarrow> db \<Rightarrow> db" where
  "end_run now i exit_code output s =
     s\<lparr>tb_runs := update_where (\<lambda>r. r_id r = i)
         (\<lambda>r. r\<lparr>r_ended := Some (sql_stamp now), r_exit := Some exit_code, r_output := run_output output\<rparr>)
         (tb_runs s)\<rparr>"

definition task_runs :: "int \<Rightarrow> nat \<Rightarrow> db \<Rightarrow> run_row list" where
  "task_runs i limit s = take limit (order_by (by_desc r_id) (filter (\<lambda>r. r_task r = i) (tb_runs s)))"

definition trim_runs :: "int \<Rightarrow> nat \<Rightarrow> db \<Rightarrow> db" where
  "trim_runs i keep s =
     (let kept = map r_id (task_runs i keep s)
      in s\<lparr>tb_runs := delete_where (\<lambda>r. r_task r = i \<and> r_id r \<notin> set kept) (tb_runs s)\<rparr>)"

section \<open>The catalog\<close>

definition catalog_entries :: "db \<Rightarrow> string list" where
  "catalog_entries s = map snd (order_by (by_name fst) (tb_catalog s))"

definition set_catalog_entry :: "string \<Rightarrow> string \<Rightarrow> db \<Rightarrow> db" where
  "set_catalog_entry name entry s =
     s\<lparr>tb_catalog := upsert (\<lambda>r. fst r = name) (name, entry) (\<lambda>r. (fst r, entry)) (tb_catalog s)\<rparr>"

definition delete_catalog_entry :: "string \<Rightarrow> db \<Rightarrow> db" where
  "delete_catalog_entry name s = s\<lparr>tb_catalog := delete_where (\<lambda>r. fst r = name) (tb_catalog s)\<rparr>"

end
