(* ===== verification/StoreClusters.thy ===== *)
theory StoreClusters
  imports StoreJobs
begin

text \<open>
  \<open>internal/store/clusters.go\<close>: storage clusters with their members, and the workspaces on them.
  The creating operations run in one transaction; a constraint violated by any row takes all of
  it back.
\<close>

record cluster =
  k_id :: int
  k_name :: string
  k_gateway :: int
  k_gateway_name :: string
  k_path :: string
  k_members :: "(member_row \<times> string) list"

record workspace =
  wk_id :: int
  wk_name :: string
  wk_cluster :: int
  wk_cluster_name :: string
  wk_path :: string
  wk_members :: "(int \<times> string) list"

definition members :: "int \<Rightarrow> db \<Rightarrow> (member_row \<times> string) list" where
  "members c s = with_host s cm_host (order_by (by_asc cm_id) (filter (\<lambda>m. cm_cluster m = c) (tb_members s)))"

definition cluster_view :: "db \<Rightarrow> cluster_row \<times> string \<Rightarrow> cluster" where
  "cluster_view s = (\<lambda>(c, gw). \<lparr>k_id = cl_id c, k_name = cl_name c, k_gateway = cl_gateway c,
     k_gateway_name = gw, k_path = cl_path c, k_members = members (cl_id c) s\<rparr>)"

definition clusters :: "db \<Rightarrow> cluster list" where
  "clusters s = map (cluster_view s) (with_host s cl_gateway (order_by (by_name cl_name) (tb_clusters s)))"

definition cluster_by_name :: "string \<Rightarrow> db \<Rightarrow> cluster res" where
  "cluster_by_name name s = (case List.find (\<lambda>c. k_name c = name) (clusters s) of
     None \<Rightarrow> Inl (Err ''no such cluster'') | Some c \<Rightarrow> Inr c)"

definition cluster :: "int \<Rightarrow> db \<Rightarrow> cluster res" where
  "cluster i s =
     (case with_host s cl_gateway (filter (\<lambda>c. cl_id c = i) (tb_clusters s)) of
        [] \<Rightarrow> Inl (Err ''no such cluster'')
      | c # _ \<Rightarrow> Inr (cluster_view s c))"

definition insert_member :: "int \<Rightarrow> int \<Rightarrow> string \<Rightarrow> db \<Rightarrow> db res" where
  "insert_member c host_id path s =
     (if (host_id, path) \<in> set (map (\<lambda>m. (cm_host m, cm_path m)) (tb_members s)) then Inl SqlUnique
      else if c \<notin> set (map cl_id (tb_clusters s)) \<or> \<not> host_known s host_id then Inl SqlForeignKey
      else Inr (s\<lparr>tb_members := tb_members s @ [\<lparr>cm_id = next_id (map cm_id (tb_members s)),
             cm_cluster = c, cm_host = host_id, cm_path = path\<rparr>]\<rparr>))"

fun insert_members :: "int \<Rightarrow> (int \<times> string) list \<Rightarrow> db \<Rightarrow> db res" where
  "insert_members c [] s = Inr s"
| "insert_members c (m # ms) s =
     (case insert_member c (fst m) (snd m) s of Inl e \<Rightarrow> Inl e | Inr s1 \<Rightarrow> insert_members c ms s1)"

definition create_cluster ::
  "string \<Rightarrow> int \<Rightarrow> string \<Rightarrow> (int \<times> string) list \<Rightarrow> db \<Rightarrow> (int \<times> db) res" where
  "create_cluster name gateway path ms s =
     (let i = next_id (map cl_id (tb_clusters s))
      in if name \<in> set (map cl_name (tb_clusters s)) then Inl SqlUnique
         else if \<not> host_known s gateway then Inl SqlForeignKey
         else (case insert_members i ms (s\<lparr>tb_clusters := tb_clusters s @
                      [\<lparr>cl_id = i, cl_name = name, cl_gateway = gateway, cl_path = path\<rparr>]\<rparr>) of
                 Inl e \<Rightarrow> Inl e
               | Inr s1 \<Rightarrow> Inr (i, s1)))"

definition add_member :: "int \<Rightarrow> int \<Rightarrow> string \<Rightarrow> db \<Rightarrow> db res" where
  "add_member c host_id path s = insert_member c host_id path s"

definition remove_member :: "int \<Rightarrow> db \<Rightarrow> db" where
  "remove_member i s = s\<lparr>tb_members := delete_where (\<lambda>m. cm_id m = i) (tb_members s)\<rparr>"

definition delete_cluster :: "int \<Rightarrow> db \<Rightarrow> db" where
  "delete_cluster i s = drop_clusters (\<lambda>c. cl_id c = i) s"

section \<open>Workspaces\<close>

definition workspace_members :: "int \<Rightarrow> db \<Rightarrow> (int \<times> string) list" where
  "workspace_members i s =
     order_by (by_name snd)
       (map (\<lambda>(m, n). (snd m, n)) (with_host s snd (filter (\<lambda>m. fst m = i) (tb_ws_members s))))"

definition workspace_views :: "db \<Rightarrow> workspace_row list \<Rightarrow> workspace list" where
  "workspace_views s rows =
     concat (map (\<lambda>w. case List.find (\<lambda>c. cl_id c = ws_cluster w) (tb_clusters s) of
                        None \<Rightarrow> []
                      | Some c \<Rightarrow> [\<lparr>wk_id = ws_id w, wk_name = ws_name w, wk_cluster = ws_cluster w,
                          wk_cluster_name = cl_name c, wk_path = cl_path c @ ''/'' @ ws_name w,
                          wk_members = workspace_members (ws_id w) s\<rparr>]) rows)"

definition workspaces :: "int \<Rightarrow> db \<Rightarrow> workspace list" where
  "workspaces c s =
     workspace_views s (order_by (by_name ws_name)
       (if c \<noteq> 0 then filter (\<lambda>w. ws_cluster w = c) (tb_workspaces s) else tb_workspaces s))"

definition workspace :: "int \<Rightarrow> db \<Rightarrow> workspace res" where
  "workspace i s = (case workspace_views s (filter (\<lambda>w. ws_id w = i) (tb_workspaces s)) of
     [] \<Rightarrow> Inl (Err ''no such workspace'') | w # _ \<Rightarrow> Inr w)"

text \<open>\<open>INSERT OR IGNORE\<close> passes over a row already there; a foreign key still fails.\<close>

definition add_workspace_member :: "int \<Rightarrow> int \<Rightarrow> db \<Rightarrow> db res" where
  "add_workspace_member i host_id s =
     (if (i, host_id) \<in> set (tb_ws_members s) then Inr s
      else if i \<notin> set (map ws_id (tb_workspaces s)) \<or> \<not> host_known s host_id then Inl SqlForeignKey
      else Inr (s\<lparr>tb_ws_members := tb_ws_members s @ [(i, host_id)]\<rparr>))"

fun add_workspace_members :: "int \<Rightarrow> int list \<Rightarrow> db \<Rightarrow> db res" where
  "add_workspace_members i [] s = Inr s"
| "add_workspace_members i (h # hs) s =
     (case add_workspace_member i h s of Inl e \<Rightarrow> Inl e | Inr s1 \<Rightarrow> add_workspace_members i hs s1)"

definition create_workspace :: "string \<Rightarrow> int \<Rightarrow> int list \<Rightarrow> db \<Rightarrow> (int \<times> db) res" where
  "create_workspace name c host_ids s =
     (let i = next_id (map ws_id (tb_workspaces s))
      in if name \<in> set (map ws_name (tb_workspaces s)) then Inl SqlUnique
         else if c \<notin> set (map cl_id (tb_clusters s)) then Inl SqlForeignKey
         else (case add_workspace_members i host_ids (s\<lparr>tb_workspaces := tb_workspaces s @
                      [\<lparr>ws_id = i, ws_name = name, ws_cluster = c\<rparr>]\<rparr>) of
                 Inl e \<Rightarrow> Inl e
               | Inr s1 \<Rightarrow> Inr (i, s1)))"

definition remove_workspace_member :: "int \<Rightarrow> int \<Rightarrow> db \<Rightarrow> db" where
  "remove_workspace_member i host_id s =
     s\<lparr>tb_ws_members := delete_where (\<lambda>m. m = (i, host_id)) (tb_ws_members s)\<rparr>"

definition delete_workspace :: "int \<Rightarrow> db \<Rightarrow> db" where
  "delete_workspace i s = drop_workspaces (\<lambda>w. ws_id w = i) s"

end
