(* ===== verification/StoreAuth.thy ===== *)
theory StoreAuth
  imports StoreHosts
begin

text \<open>
  \<open>internal/store/auth.go\<close>: accounts with their passkeys, sessions (30 days), invites (24 hours,
  spent once) and API tokens. \<open>hash\<close> stands for SHA-256 in hexadecimal; what \<open>crypto/rand\<close> draws
  is an argument (\<open>handle\<close>, \<open>tok\<close>). Invites are an instance of \<open>single_use\<close>.
\<close>

section \<open>Accounts\<close>

definition roles :: "string list" where
  "roles = [''admin'', ''viewer'']"

definition user_count :: "db \<Rightarrow> nat" where
  "user_count s = length (tb_users s)"

definition credentials_of :: "string \<Rightarrow> db \<Rightarrow> credential_row list" where
  "credentials_of u s = order_by (by_asc cr_created) (filter (\<lambda>c. cr_user c = u) (tb_credentials s))"

text \<open>An account with its passkeys.\<close>

definition users :: "db \<Rightarrow> (user_row \<times> nat) list" where
  "users s = map (\<lambda>u. (u, length (filter (\<lambda>c. cr_user c = us_id u) (tb_credentials s))))
     (order_by (by_asc us_created) (tb_users s))"

definition user_by_id :: "string \<Rightarrow> db \<Rightarrow> (user_row \<times> string list) res" where
  "user_by_id i s =
     (case List.find (\<lambda>u. us_id u = i) (tb_users s) of
        None \<Rightarrow> Inl (Err ''no such user'')
      | Some u \<Rightarrow> Inr (u, map cr_json (credentials_of i s)))"

definition user_by_name :: "string \<Rightarrow> db \<Rightarrow> (user_row \<times> string list) res" where
  "user_by_name n s =
     (case List.find (\<lambda>u. us_name u = n) (tb_users s) of
        None \<Rightarrow> Inl (Err ''no such user'')
      | Some u \<Rightarrow> user_by_id (us_id u) s)"

definition create_user ::
  "instant \<Rightarrow> string \<Rightarrow> string \<Rightarrow> string \<Rightarrow> db \<Rightarrow> ((user_row \<times> string list) \<times> db) res" where
  "create_user now handle name role s =
     (if role \<notin> set roles then Inl SqlCheck
      else if handle \<in> set (map us_id (tb_users s)) \<or> name \<in> set (map us_name (tb_users s))
      then Inl SqlUnique
      else let s1 = s\<lparr>tb_users := tb_users s @
                      [\<lparr>us_id = handle, us_name = name, us_role = role, us_created = sql_stamp now\<rparr>]\<rparr>
           in (case user_by_id handle s1 of Inl e \<Rightarrow> Inl e | Inr u \<Rightarrow> Inr (u, s1)))"

definition add_credential :: "instant \<Rightarrow> string \<Rightarrow> string \<Rightarrow> string \<Rightarrow> db \<Rightarrow> db res" where
  "add_credential now u c json s =
     (if c \<in> set (map cr_id (tb_credentials s)) then Inl SqlUnique
      else if u \<notin> set (map us_id (tb_users s)) then Inl SqlForeignKey
      else Inr (s\<lparr>tb_credentials := tb_credentials s @
             [\<lparr>cr_id = c, cr_user = u, cr_json = json, cr_created = sql_stamp now\<rparr>]\<rparr>))"

definition update_credential :: "string \<Rightarrow> string \<Rightarrow> db \<Rightarrow> db" where
  "update_credential c json s =
     s\<lparr>tb_credentials := update_where (\<lambda>r. cr_id r = c) (\<lambda>r. r\<lparr>cr_json := json\<rparr>) (tb_credentials s)\<rparr>"

definition set_role :: "string \<Rightarrow> string \<Rightarrow> db \<Rightarrow> db res" where
  "set_role name role s =
     (if role \<notin> set roles \<and> 0 < affected (\<lambda>u. us_name u = name) (tb_users s) then Inl SqlCheck
      else Inr (s\<lparr>tb_users := update_where (\<lambda>u. us_name u = name) (\<lambda>u. u\<lparr>us_role := role\<rparr>)
             (tb_users s)\<rparr>))"

text \<open>Passkeys, sessions and invites go with their account.\<close>

definition drop_users :: "(user_row \<Rightarrow> bool) \<Rightarrow> db \<Rightarrow> db" where
  "drop_users p s =
     (let gone = map us_id (filter p (tb_users s))
      in s\<lparr>tb_users := delete_where p (tb_users s),
           tb_credentials := delete_where (\<lambda>c. cr_user c \<in> set gone) (tb_credentials s),
           tb_sessions := delete_where (\<lambda>e. se_user e \<in> set gone) (tb_sessions s),
           tb_invites := delete_where (\<lambda>i. case iv_user i of None \<Rightarrow> False | Some u \<Rightarrow> u \<in> set gone)
             (tb_invites s)\<rparr>)"

definition delete_user :: "string \<Rightarrow> db \<Rightarrow> db" where
  "delete_user name s = drop_users (\<lambda>u. us_name u = name) s"

definition abandoned :: "instant \<Rightarrow> db \<Rightarrow> user_row \<Rightarrow> bool" where
  "abandoned now s u =
     (us_id u \<notin> set (map cr_user (tb_credentials s)) \<and> us_created u < sql_stamp (now - 5 * minute))"

definition prune_empty_users :: "instant \<Rightarrow> db \<Rightarrow> db" where
  "prune_empty_users now s = drop_users (abandoned now s) s"

definition user_by_credential :: "string \<Rightarrow> db \<Rightarrow> (user_row \<times> string list) res" where
  "user_by_credential c s =
     (case List.find (\<lambda>r. cr_id r = c) (tb_credentials s) of
        None \<Rightarrow> Inl (Err ''unknown passkey'')
      | Some r \<Rightarrow> user_by_id (cr_user r) s)"

section \<open>Sessions\<close>

definition new_session ::
  "(string \<Rightarrow> string) \<Rightarrow> instant \<Rightarrow> string \<Rightarrow> string \<Rightarrow> db \<Rightarrow> (string \<times> db) res" where
  "new_session hash now tok u s =
     (if hash tok \<in> set (map se_token (tb_sessions s)) then Inl SqlUnique
      else if u \<notin> set (map us_id (tb_users s)) then Inl SqlForeignKey
      else Inr (tok, s\<lparr>tb_sessions := tb_sessions s @
             [\<lparr>se_token = hash tok, se_user = u, se_expires = rfc3339 (now + 30 * day)\<rparr>]\<rparr>))"

definition session_live :: "instant \<Rightarrow> string \<Rightarrow> session_row \<Rightarrow> bool" where
  "session_live now h e = (se_token e = h \<and> se_expires e > rfc3339 now)"

definition session_user ::
  "(string \<Rightarrow> string) \<Rightarrow> instant \<Rightarrow> string \<Rightarrow> db \<Rightarrow> (user_row \<times> string list) res" where
  "session_user hash now tok s =
     (case List.find (session_live now (hash tok)) (tb_sessions s) of
        None \<Rightarrow> Inl (Err ''no session'')
      | Some e \<Rightarrow> user_by_id (se_user e) s)"

definition delete_session :: "(string \<Rightarrow> string) \<Rightarrow> string \<Rightarrow> db \<Rightarrow> db" where
  "delete_session hash tok s = s\<lparr>tb_sessions := delete_where (\<lambda>e. se_token e = hash tok) (tb_sessions s)\<rparr>"

section \<open>Invites\<close>

definition new_invite ::
  "instant \<Rightarrow> string \<Rightarrow> string \<Rightarrow> string option \<Rightarrow> db \<Rightarrow> (invite_row \<times> db) res" where
  "new_invite now tok role u s =
     (let row = \<lparr>iv_code = take 16 tok, iv_role = role, iv_user = u, iv_expires = rfc3339 (now + 24 * hour),
                 iv_used = False\<rparr>
      in if take 16 tok \<in> set (map iv_code (tb_invites s)) then Inl SqlUnique
         else if (case u of None \<Rightarrow> False | Some i \<Rightarrow> i \<notin> set (map us_id (tb_users s)))
         then Inl SqlForeignKey
         else Inr (row, s\<lparr>tb_invites := tb_invites s @ [row]\<rparr>))"

definition delete_invite :: "string \<Rightarrow> db \<Rightarrow> db" where
  "delete_invite c s = s\<lparr>tb_invites := delete_where (\<lambda>i. iv_code i = c) (tb_invites s)\<rparr>"

definition invite_open :: "instant \<Rightarrow> invite_row \<Rightarrow> bool" where
  "invite_open now i = (\<not> iv_used i \<and> iv_expires i > rfc3339 now)"

definition invites :: "instant \<Rightarrow> db \<Rightarrow> (invite_row \<times> string) list" where
  "invites now s =
     map (\<lambda>i. (i, case iv_user i of
                    None \<Rightarrow> ''''
                  | Some u \<Rightarrow> (case List.find (\<lambda>r. us_id r = u) (tb_users s) of
                                None \<Rightarrow> '''' | Some r \<Rightarrow> us_name r)))
       (order_by (by_asc iv_expires) (filter (invite_open now) (tb_invites s)))"

definition invite_live :: "instant \<Rightarrow> string \<Rightarrow> invite_row \<Rightarrow> bool" where
  "invite_live now c i = (iv_code i = c \<and> invite_open now i)"

definition peek_invite :: "instant \<Rightarrow> string \<Rightarrow> db \<Rightarrow> (string \<times> string option) res" where
  "peek_invite now c s =
     (case List.find (invite_live now c) (tb_invites s) of
        None \<Rightarrow> Inl (Err ''the code is not live'')
      | Some i \<Rightarrow> Inr (iv_role i, iv_user i))"

definition use_invite :: "instant \<Rightarrow> string \<Rightarrow> db \<Rightarrow> ((string \<times> string option) \<times> db) res" where
  "use_invite now c s =
     (case List.find (invite_live now c) (tb_invites s) of
        None \<Rightarrow> Inl (Err ''the code is not live'')
      | Some i \<Rightarrow> Inr ((iv_role i, iv_user i),
          s\<lparr>tb_invites := update_where (\<lambda>r. iv_code r = c) (\<lambda>r. r\<lparr>iv_used := True\<rparr>) (tb_invites s)\<rparr>))"

text \<open>\<open>use_invite\<close> as the contract of codes spent once sees it: whether it spent, and the state.\<close>

definition spend_invite :: "instant \<Rightarrow> string \<Rightarrow> db \<Rightarrow> bool \<times> db" where
  "spend_invite now c s = (case use_invite now c s of Inl _ \<Rightarrow> (False, s) | Inr (_, s1) \<Rightarrow> (True, s1))"

definition invite_spendable :: "instant \<Rightarrow> db \<Rightarrow> string \<Rightarrow> bool" where
  "invite_spendable now s c = (\<exists>i \<in> set (tb_invites s). invite_live now c i)"

lemma spend_invite_cases:
  "spend_invite now c s =
     (if invite_spendable now s c
      then (True, s\<lparr>tb_invites := update_where (\<lambda>r. iv_code r = c) (\<lambda>r. r\<lparr>iv_used := True\<rparr>) (tb_invites s)\<rparr>)
      else (False, s))"
proof (cases "List.find (invite_live now c) (tb_invites s)")
  case None
  then have "\<not> invite_spendable now s c" by (simp add: find_none_iff invite_spendable_def)
  with None show ?thesis by (simp add: spend_invite_def use_invite_def)
next
  case (Some i)
  then have "invite_spendable now s c" using find_set invite_spendable_def by metis
  with Some show ?thesis by (simp add: spend_invite_def use_invite_def)
qed

lemma spendable_after:
  "invite_spendable u (s\<lparr>tb_invites := update_where (\<lambda>r. iv_code r = c) (\<lambda>r. r\<lparr>iv_used := True\<rparr>) (tb_invites s)\<rparr>) d
   \<longleftrightarrow> d \<noteq> c \<and> invite_spendable u s d"
proof -
  have used: "\<not> invite_live u d (r\<lparr>iv_used := True\<rparr>)" for r
    by (simp add: invite_live_def invite_open_def)
  show ?thesis
    by (simp add: invite_spendable_def bex_update_where used) (auto simp: invite_live_def)
qed

interpretation invite_codes: single_use "\<lambda>s :: db. True" invite_spendable spend_invite
  by unfold_locales (auto simp: spend_invite_cases spendable_after split: if_splits)

section \<open>API tokens\<close>

definition new_token ::
  "(string \<Rightarrow> string) \<Rightarrow> instant \<Rightarrow> string \<Rightarrow> string \<Rightarrow> string \<Rightarrow> db \<Rightarrow> (string \<times> db) res" where
  "new_token hash now rnd name role s =
     (let tok = ''hd_'' @ rnd
      in if 0 < affected (\<lambda>t. tk_name t = name) (tb_tokens s) then Inl TokenExists
         else if hash tok \<in> set (map tk_hash (tb_tokens s)) then Inl SqlUnique
         else Inr (tok, s\<lparr>tb_tokens := tb_tokens s @
                [\<lparr>tk_hash = hash tok, tk_name = name, tk_role = role, tk_created = sql_stamp now\<rparr>]\<rparr>))"

definition token_role :: "(string \<Rightarrow> string) \<Rightarrow> string \<Rightarrow> db \<Rightarrow> (string \<times> string) res" where
  "token_role hash tok s =
     (case List.find (\<lambda>t. tk_hash t = hash tok) (tb_tokens s) of
        None \<Rightarrow> Inl (Err ''no such token'')
      | Some t \<Rightarrow> Inr (tk_name t, tk_role t))"

definition tokens :: "db \<Rightarrow> token_row list" where
  "tokens s = order_by (by_asc tk_created) (tb_tokens s)"

definition delete_token :: "string \<Rightarrow> db \<Rightarrow> db" where
  "delete_token name s = s\<lparr>tb_tokens := delete_where (\<lambda>t. tk_name t = name) (tb_tokens s)\<rparr>"

text \<open>The row with the largest rowid of each name stays: the last one, in insertion order.\<close>

fun last_per_name :: "token_row list \<Rightarrow> token_row list" where
  "last_per_name [] = []"
| "last_per_name (t # ts) =
     (if tk_name t \<in> set (map tk_name ts) then last_per_name ts else t # last_per_name ts)"

definition dedupe_token_names :: "db \<Rightarrow> db" where
  "dedupe_token_names s = s\<lparr>tb_tokens := last_per_name (tb_tokens s)\<rparr>"

lemma names_last_per_name [simp]: "tk_name ` set (last_per_name ts) = tk_name ` set ts"
  by (induction ts) auto

lemma set_last_per_name: "set (last_per_name ts) \<subseteq> set ts"
  by (induction ts) auto

lemma keyed_last_per_name: "keyed tk_name (last_per_name ts)"
proof (induction ts)
  case (Cons t ts)
  then show ?case using names_last_per_name [of ts] by (auto simp: keyed_def)
qed simp

lemma keyed_hash_last_per_name: "keyed tk_hash ts \<Longrightarrow> keyed tk_hash (last_per_name ts)"
  using set_last_per_name by (induction ts) (force simp: keyed_def)+

end
