(* ===== verification/StorePeers.thy ===== *)
theory StorePeers
  imports StoreJobs
begin

text \<open>
  \<open>internal/store/peers.go\<close>: the hubs met in the space and the controls over each, the exchanges
  with them and the record the router chooses by, published services and fronts, and the bytes
  carried.
\<close>

section \<open>Peers\<close>

definition seen_peer :: "instant \<Rightarrow> string \<Rightarrow> string \<Rightarrow> bool \<Rightarrow> int \<Rightarrow> int \<Rightarrow> db \<Rightarrow> db" where
  "seen_peer now i name approve max_conc per_hour s =
     s\<lparr>tb_peers := upsert (\<lambda>p. p_id p = i)
         \<lparr>p_id = i, p_name = name, p_approved = approve, p_max = max_conc, p_hour = per_hour,
          p_first = sql_stamp now, p_last = sql_stamp now\<rparr>
         (\<lambda>p. p\<lparr>p_name := (if name \<noteq> '''' then name else p_name p), p_last := sql_stamp now\<rparr>)
         (tb_peers s)\<rparr>"

definition peers :: "db \<Rightarrow> peer_row list" where
  "peers s = order_by (by_desc p_last) (tb_peers s)"

definition peer :: "string \<Rightarrow> db \<Rightarrow> peer_row res" where
  "peer i s = (case List.find (\<lambda>p. p_id p = i) (tb_peers s) of
     None \<Rightarrow> Inl (Err ''unknown peer'') | Some p \<Rightarrow> Inr p)"

definition set_peer :: "string \<Rightarrow> bool \<Rightarrow> int \<Rightarrow> int \<Rightarrow> db \<Rightarrow> db" where
  "set_peer i approved max_conc per_hour s =
     s\<lparr>tb_peers := update_where (\<lambda>p. p_id p = i)
         (\<lambda>p. p\<lparr>p_approved := approved, p_max := max_conc, p_hour := per_hour\<rparr>) (tb_peers s)\<rparr>"

definition forget_peer :: "string \<Rightarrow> db \<Rightarrow> db" where
  "forget_peer i s =
     s\<lparr>tb_fronts := delete_where (\<lambda>f. fr_peer f = i) (tb_fronts s),
       tb_peers := delete_where (\<lambda>p. p_id p = i) (tb_peers s)\<rparr>"

section \<open>Exchanges\<close>

definition record_peer_job ::
  "instant \<Rightarrow> string \<Rightarrow> string \<Rightarrow> string \<Rightarrow> bool \<Rightarrow> string \<Rightarrow> db \<Rightarrow> (int \<times> db) res" where
  "record_peer_job now p dir model accepted reason s =
     (let i = next_id (map pj_id (tb_peer_jobs s))
      in if dir \<notin> {''sent'', ''served''} then Inl SqlCheck
         else Inr (i, s\<lparr>tb_peer_jobs := tb_peer_jobs s @ [\<lparr>pj_id = i, pj_peer = p, pj_dir = dir,
                pj_model = model, pj_at = sql_stamp now, pj_accepted = accepted, pj_finished = False,
                pj_ttft = None, pj_reason = reason\<rparr>]\<rparr>))"

definition finish_peer_job :: "int \<Rightarrow> bool \<Rightarrow> int \<Rightarrow> db \<Rightarrow> db" where
  "finish_peer_job i finished ttft s =
     s\<lparr>tb_peer_jobs := update_where (\<lambda>j. pj_id j = i)
         (\<lambda>j. j\<lparr>pj_finished := finished,
               pj_ttft := (if ttft > 0 then Some (ttft div 1000000) else pj_ttft j)\<rparr>) (tb_peer_jobs s)\<rparr>"

definition served_since :: "int \<Rightarrow> peer_job_row \<Rightarrow> bool" where
  "served_since t j = (pj_dir j = ''served'' \<and> pj_accepted j \<and> pj_at j > t)"

definition served_in_last_hour :: "instant \<Rightarrow> string \<Rightarrow> db \<Rightarrow> nat" where
  "served_in_last_hour now p s =
     affected (\<lambda>j. pj_peer j = p \<and> served_since (sql_stamp (now - hour)) j) (tb_peer_jobs s)"

definition served_in_last_hour_all :: "instant \<Rightarrow> db \<Rightarrow> nat" where
  "served_in_last_hour_all now s = affected (served_since (sql_stamp (now - hour))) (tb_peer_jobs s)"

section \<open>The record\<close>

record peer_record =
  rec_accepted :: real
  rec_finished :: real
  rec_ttft :: real
  rec_samples :: nat

text \<open>Half the weight per two days of age.\<close>

definition decay :: "instant \<Rightarrow> peer_job_row \<Rightarrow> real" where
  "decay now j = (1 / 2) powr (real_of_int (now - pj_at j * 1000000) / real_of_int hour / 48)"

definition recent_sent :: "instant \<Rightarrow> string \<Rightarrow> db \<Rightarrow> peer_job_row list" where
  "recent_sent now p s =
     filter (\<lambda>j. pj_peer j = p \<and> pj_dir j = ''sent'' \<and> pj_at j > sql_stamp (now - 7 * day)) (tb_peer_jobs s)"

definition ttft_samples :: "instant \<Rightarrow> peer_job_row list \<Rightarrow> (real \<times> real) list" where
  "ttft_samples now js =
     concat (map (\<lambda>j. case pj_ttft j of
                       None \<Rightarrow> []
                     | Some ms \<Rightarrow> if pj_accepted j then [(real_of_int ms, decay now j)] else []) js)"

fun median_at :: "real \<Rightarrow> real \<Rightarrow> (real \<times> real) list \<Rightarrow> real" where
  "median_at half acc [] = 0"
| "median_at half acc ((ms, w) # xs) = (if acc + w \<ge> half then ms else median_at half (acc + w) xs)"

definition weighted_median :: "(real \<times> real) list \<Rightarrow> real" where
  "weighted_median xs =
     (let sorted_xs = insertion_sort (\<lambda>a b. fst a < fst b) xs
      in median_at (sum_list (map snd sorted_xs) / 2) 0 sorted_xs)"

definition peer_record :: "instant \<Rightarrow> string \<Rightarrow> db \<Rightarrow> peer_record" where
  "peer_record now p s =
     (let js = recent_sent now p s;
          w_all = sum_list (map (decay now) js);
          w_acc = sum_list (map (decay now) (filter pj_accepted js));
          w_fin = sum_list (map (decay now) (filter (\<lambda>j. pj_accepted j \<and> pj_finished j) js));
          ts = ttft_samples now js
      in \<lparr>rec_accepted = (if w_all > 0 then w_acc / w_all else 0),
          rec_finished = (if w_acc > 0 then w_fin / w_acc else 0),
          rec_ttft = (if ts \<noteq> [] then weighted_median ts else 0),
          rec_samples = length ts\<rparr>)"

lemma decay_pos [simp]: "0 < decay now j"
  by (simp add: decay_def)

lemma sum_decay_nonneg [simp]: "0 \<le> sum_list (map (decay now) js)"
  by (rule sum_list_nonneg) (auto intro: less_imp_le)

lemma sum_decay_filter_le: "sum_list (map (decay now) (filter p js)) \<le> sum_list (map (decay now) js)"
proof (induction js)
  case (Cons j js)
  then show ?case by (auto intro: add_increasing [OF less_imp_le [OF decay_pos]])
qed simp

lemma filter_accepted_finished:
  "filter (\<lambda>j. pj_accepted j \<and> pj_finished j) js = filter pj_finished (filter pj_accepted js)"
  by (simp add: filter_filter conj_commute)

lemma peer_record_bounds:
  "0 \<le> rec_accepted (peer_record now p s)" "rec_accepted (peer_record now p s) \<le> 1"
  "0 \<le> rec_finished (peer_record now p s)" "rec_finished (peer_record now p s) \<le> 1"
  by (auto simp: peer_record_def Let_def filter_accepted_finished sum_decay_filter_le
      simp del: filter_filter intro!: divide_nonneg_nonneg)

section \<open>Counts\<close>

text \<open>A day, a week, all time.\<close>

definition bump :: "int \<Rightarrow> int \<Rightarrow> int \<times> int \<times> int \<Rightarrow> int \<times> int \<times> int" where
  "bump age n = (\<lambda>(d, w, a). (if age < 24 * hour then d + n else d,
     if age < 7 * 24 * hour then w + n else w, a + n))"

definition peer_counts ::
  "instant \<Rightarrow> string \<Rightarrow> string \<Rightarrow> string \<Rightarrow> db \<Rightarrow> int \<times> int \<times> int" where
  "peer_counts now p dir model s =
     fold (\<lambda>j. bump (now - pj_at j * 1000000) 1)
       (filter (\<lambda>j. pj_peer j = p \<and> pj_accepted j \<and> pj_dir j = dir \<and> pj_model j = model) (tb_peer_jobs s))
       (0, 0, 0)"

definition peer_byte_counts :: "instant \<Rightarrow> string \<Rightarrow> string \<Rightarrow> db \<Rightarrow> int \<times> int \<times> int" where
  "peer_byte_counts now p dir s =
     fold (\<lambda>b. bump (now - pb_hour b * hour) (pb_bytes b))
       (filter (\<lambda>b. pb_peer b = p \<and> (pb_dir b = ''origin'') = (dir = ''origin'')) (tb_peer_bytes s))
       (0, 0, 0)"

definition add_peer_bytes :: "instant \<Rightarrow> string \<Rightarrow> string \<Rightarrow> string \<Rightarrow> int \<Rightarrow> db \<Rightarrow> db res" where
  "add_peer_bytes now p svc dir n s =
     (if n \<le> 0 then Inr s
      else if dir \<notin> {''fronted'', ''origin''} then Inl SqlCheck
      else Inr (s\<lparr>tb_peer_bytes :=
             upsert (\<lambda>b. pb_peer b = p \<and> pb_service b = svc \<and> pb_dir b = dir \<and> pb_hour b = now div hour)
               \<lparr>pb_peer = p, pb_service = svc, pb_dir = dir, pb_hour = now div hour, pb_bytes = n\<rparr>
               (\<lambda>b. b\<lparr>pb_bytes := pb_bytes b + n\<rparr>) (tb_peer_bytes s)\<rparr>))"

section \<open>Published services\<close>

definition split_list :: "string \<Rightarrow> string list" where
  "split_list s = filter (\<lambda>x. x \<noteq> '''') (map trim_space (split_on (CHR '','') s))"

fun first_seen :: "string set \<Rightarrow> string list \<Rightarrow> string list" where
  "first_seen seen [] = []"
| "first_seen seen (x # xs) =
     (let y = trim_space x
      in if y \<noteq> '''' \<and> y \<notin> seen then y # first_seen (insert y seen) xs else first_seen seen xs)"

definition join_list :: "string list \<Rightarrow> string" where
  "join_list xs = join '','' (first_seen {} xs)"

record service =
  svc_name :: string
  svc_host :: int
  svc_host_name :: string
  svc_port :: int
  svc_peers :: "string list"

definition scan_service :: "service_row \<times> string \<Rightarrow> service" where
  "scan_service = (\<lambda>(v, h). \<lparr>svc_name = sv_name v, svc_host = sv_host v, svc_host_name = h,
     svc_port = sv_port v, svc_peers = split_list (sv_peers v)\<rparr>)"

definition services :: "db \<Rightarrow> service list" where
  "services s = map scan_service (with_host s sv_host (order_by (by_name sv_name) (tb_services s)))"

definition service :: "string \<Rightarrow> db \<Rightarrow> service res" where
  "service name s =
     (case with_host s sv_host (filter (\<lambda>v. sv_name v = name) (tb_services s)) of
        [] \<Rightarrow> Inl (Err ''no such service'')
      | r # _ \<Rightarrow> Inr (scan_service r))"

definition publish_service :: "string \<Rightarrow> int \<Rightarrow> int \<Rightarrow> string list \<Rightarrow> db \<Rightarrow> db res" where
  "publish_service name host_id port ps s =
     (if \<not> host_known s host_id then Inl SqlForeignKey
      else Inr (s\<lparr>tb_services := upsert (\<lambda>v. sv_name v = name)
             \<lparr>sv_name = name, sv_host = host_id, sv_port = port, sv_peers = join_list ps\<rparr>
             (\<lambda>v. v\<lparr>sv_host := host_id, sv_port := port, sv_peers := join_list ps\<rparr>) (tb_services s)\<rparr>))"

definition unpublish_service :: "string \<Rightarrow> db \<Rightarrow> db" where
  "unpublish_service name s = s\<lparr>tb_services := delete_where (\<lambda>v. sv_name v = name) (tb_services s)\<rparr>"

section \<open>Fronts\<close>

definition front_is :: "string \<Rightarrow> string \<Rightarrow> front_row \<Rightarrow> bool" where
  "front_is p svc f = (fr_peer f = p \<and> fr_service f = svc)"

definition seen_front :: "string \<Rightarrow> string \<Rightarrow> db \<Rightarrow> db" where
  "seen_front p svc s =
     s\<lparr>tb_fronts := upsert (front_is p svc)
         \<lparr>fr_peer = p, fr_service = svc, fr_approved = False, fr_hostname = ''''\<rparr> id (tb_fronts s)\<rparr>"

definition set_front :: "string \<Rightarrow> string \<Rightarrow> bool \<Rightarrow> string \<Rightarrow> db \<Rightarrow> db" where
  "set_front p svc approved hostname s =
     s\<lparr>tb_fronts := upsert (front_is p svc)
         \<lparr>fr_peer = p, fr_service = svc, fr_approved = approved, fr_hostname = hostname\<rparr>
         (\<lambda>f. f\<lparr>fr_approved := approved, fr_hostname := hostname\<rparr>) (tb_fronts s)\<rparr>"

definition front :: "string \<Rightarrow> string \<Rightarrow> db \<Rightarrow> front_row res" where
  "front p svc s = (case List.find (front_is p svc) (tb_fronts s) of
     None \<Rightarrow> Inl (Err ''no such front'') | Some f \<Rightarrow> Inr f)"

definition fronts :: "string \<Rightarrow> db \<Rightarrow> front_row list" where
  "fronts p s =
     order_by (then_by (by_name fr_peer) (by_name fr_service))
       (if p \<noteq> '''' then filter (\<lambda>f. fr_peer f = p) (tb_fronts s) else tb_fronts s)"

definition front_by_hostname :: "string \<Rightarrow> db \<Rightarrow> front_row res" where
  "front_by_hostname h s = (case List.find (\<lambda>f. fr_hostname f = h \<and> fr_approved f) (tb_fronts s) of
     None \<Rightarrow> Inl (Err ''no such front'') | Some f \<Rightarrow> Inr f)"

section \<open>The list of peers of a service\<close>

lemma first_seen_props:
  "distinct (first_seen seen xs) \<and> set (first_seen seen xs) = trim_space ` set xs - seen - {''''}"
proof (induction xs arbitrary: seen)
  case (Cons x xs)
  show ?case using Cons [of seen] Cons [of "insert (trim_space x) seen"] by (auto simp: Let_def)
qed simp

lemma first_seen_trimmed: "x \<in> set (first_seen seen xs) \<Longrightarrow> trim_space x = x"
  using first_seen_props by fastforce

lemma split_join_list:
  assumes "\<forall>x \<in> set xs. CHR '','' \<notin> set x"
  shows "split_list (join_list xs) = first_seen {} xs"
proof (cases "first_seen {} xs = []")
  case True
  then show ?thesis by (simp add: join_list_def split_list_def)
next
  case False
  have "\<forall>x \<in> set (first_seen {} xs). CHR '','' \<notin> set x"
    using assms first_seen_props [of "{}" xs] set_trim_space by fastforce
  then have "split_on (CHR '','') (join_list xs) = first_seen {} xs"
    using False by (simp add: join_list_def split_on_join)
  moreover have "map trim_space (first_seen {} xs) = first_seen {} xs"
    by (rule map_idI) (rule first_seen_trimmed)
  moreover have "filter (\<lambda>x. x \<noteq> []) (first_seen {} xs) = first_seen {} xs"
    using first_seen_props [of "{}" xs] by (auto intro!: filter_True)
  ultimately show ?thesis by (simp add: split_list_def)
qed

end
