(* ===== verification/StoreDevices.thy ===== *)
theory StoreDevices
  imports StoreJobs
begin

text \<open>
  \<open>internal/store/devices.go\<close>: what the scans saw, one sighting per device and machine, and your
  own word on a device, which a scan never overwrites.
\<close>

section \<open>Scans\<close>

definition set_host_scan ::
  "instant \<Rightarrow> int \<Rightarrow> bool \<Rightarrow> bool \<Rightarrow> bool \<Rightarrow> string \<Rightarrow> db \<Rightarrow> db res" where
  "set_host_scan now i lan wifi bt err_text s =
     (if \<not> host_known s i then Inl SqlForeignKey
      else Inr (s\<lparr>tb_scans := upsert (\<lambda>c. sc_host c = i)
             \<lparr>sc_host = i, sc_at = sql_stamp now, sc_lan = lan, sc_wifi = wifi, sc_bt = bt, sc_error = err_text\<rparr>
             (\<lambda>c. c\<lparr>sc_at := sql_stamp now, sc_lan := lan, sc_wifi := wifi, sc_bt := bt, sc_error := err_text\<rparr>)
             (tb_scans s)\<rparr>))"

definition host_scans :: "db \<Rightarrow> (scan_row \<times> string) list" where
  "host_scans s = order_by (by_name snd) (with_host s sc_host (tb_scans s))"

section \<open>Devices\<close>

record device =
  d_row :: device_row
  d_sightings :: "(sighting_row \<times> string) list"

definition sightings_of :: "int \<Rightarrow> db \<Rightarrow> (sighting_row \<times> string) list" where
  "sightings_of i s =
     map (\<lambda>g. (g, case host_name_of s (sg_host g) of None \<Rightarrow> '''' | Some n \<Rightarrow> n))
       (order_by (by_desc sg_seen) (filter (\<lambda>g. sg_device g = i) (tb_sightings s)))"

definition devices :: "db \<Rightarrow> device list" where
  "devices s = map (\<lambda>d. \<lparr>d_row = d, d_sightings = sightings_of (dv_id d) s\<rparr>)
     (order_by (then_by (by_desc dv_last) (by_asc dv_id)) (tb_devices s))"

definition device_ref :: "string \<Rightarrow> device \<Rightarrow> bool" where
  "device_ref ref d =
     (dv_id (d_row d) = (case parse_int ref of None \<Rightarrow> 0 | Some i \<Rightarrow> i) \<or>
      equal_fold (dv_kind (d_row d) @ '':'' @ dv_addr (d_row d)) ref)"

definition device :: "string \<Rightarrow> db \<Rightarrow> device res" where
  "device ref s = (case List.find (device_ref ref) (devices s) of
     None \<Rightarrow> Inl (Err (''no such device '' @ go_quote ref)) | Some d \<Rightarrow> Inr d)"

section \<open>Sightings\<close>

record seen =
  sn_kind :: string
  sn_addr :: string
  sn_detail :: string

definition device_kinds :: "string list" where
  "device_kinds = [''lan'', ''wifi'', ''bt'']"

definition sight_device :: "instant \<Rightarrow> string \<Rightarrow> string \<Rightarrow> db \<Rightarrow> (int \<times> bool \<times> db) res" where
  "sight_device now kind addr s =
     (case List.find (\<lambda>d. dv_kind d = kind \<and> dv_addr d = addr) (tb_devices s) of
        Some d \<Rightarrow> Inr (dv_id d, False,
          s\<lparr>tb_devices := update_where (\<lambda>r. dv_id r = dv_id d) (\<lambda>r. r\<lparr>dv_last := sql_stamp now\<rparr>)
              (tb_devices s)\<rparr>)
      | None \<Rightarrow>
          if kind \<notin> set device_kinds then Inl SqlCheck
          else let i = next_id (map dv_id (tb_devices s))
               in Inr (i, True, s\<lparr>tb_devices := tb_devices s @ [\<lparr>dv_id = i, dv_kind = kind, dv_addr = addr,
                     dv_guess_name = '''', dv_guess_kind = '''', dv_vendor = '''', dv_name = '''',
                     dv_user_kind = '''', dv_first = sql_stamp now, dv_last = sql_stamp now\<rparr>]\<rparr>))"

definition put_sighting :: "instant \<Rightarrow> int \<Rightarrow> int \<Rightarrow> string \<Rightarrow> db \<Rightarrow> db res" where
  "put_sighting now d i detail s =
     (if \<not> host_known s i then Inl SqlForeignKey
      else Inr (s\<lparr>tb_sightings := upsert (\<lambda>g. sg_device g = d \<and> sg_host g = i)
             \<lparr>sg_device = d, sg_host = i, sg_seen = sql_stamp now, sg_detail = detail\<rparr>
             (\<lambda>g. g\<lparr>sg_seen := sql_stamp now, sg_detail := detail\<rparr>) (tb_sightings s)\<rparr>))"

text \<open>One transaction for a scan: an error anywhere takes the whole scan back.\<close>

fun sight_all :: "instant \<Rightarrow> int \<Rightarrow> seen list \<Rightarrow> db \<Rightarrow> ((int \<times> bool) list \<times> db) res" where
  "sight_all now i [] s = Inr ([], s)"
| "sight_all now i (x # xs) s =
     (case sight_device now (sn_kind x) (to_lower (sn_addr x)) s of
        Inl e \<Rightarrow> Inl e
      | Inr (d, new, s1) \<Rightarrow>
          (case put_sighting now d i (if sn_detail x = '''' then ''{}'' else sn_detail x) s1 of
             Inl e \<Rightarrow> Inl e
           | Inr s2 \<Rightarrow>
               (case sight_all now i xs s2 of
                  Inl e \<Rightarrow> Inl e
                | Inr (rs, s3) \<Rightarrow> Inr ((d, new) # rs, s3))))"

definition sight :: "instant \<Rightarrow> string \<Rightarrow> string \<Rightarrow> int \<Rightarrow> string \<Rightarrow> db \<Rightarrow> ((int \<times> bool) \<times> db) res" where
  "sight now kind addr i detail s =
     (case sight_all now i [\<lparr>sn_kind = kind, sn_addr = addr, sn_detail = detail\<rparr>] s of
        Inl e \<Rightarrow> Inl e
      | Inr (rs, s1) \<Rightarrow> Inr (hd rs, s1))"

section \<open>What the hub and you say of a device\<close>

definition update_device :: "int \<Rightarrow> (device_row \<Rightarrow> device_row) \<Rightarrow> db \<Rightarrow> db" where
  "update_device i f s = s\<lparr>tb_devices := update_where (\<lambda>d. dv_id d = i) f (tb_devices s)\<rparr>"

definition set_guess :: "int \<Rightarrow> string \<Rightarrow> string \<Rightarrow> string \<Rightarrow> db \<Rightarrow> db" where
  "set_guess i name kind vendor =
     update_device i (\<lambda>d. d\<lparr>dv_guess_name := name, dv_guess_kind := kind, dv_vendor := vendor\<rparr>)"

definition name_device :: "int \<Rightarrow> string \<Rightarrow> string \<Rightarrow> db \<Rightarrow> db" where
  "name_device i name kind =
     update_device i (\<lambda>d. d\<lparr>dv_name := trim_space name, dv_user_kind := trim_space kind\<rparr>)"

definition drop_devices :: "(device_row \<Rightarrow> bool) \<Rightarrow> db \<Rightarrow> db" where
  "drop_devices p s =
     (let gone = map dv_id (filter p (tb_devices s))
      in s\<lparr>tb_devices := delete_where p (tb_devices s),
           tb_sightings := delete_where (\<lambda>g. sg_device g \<in> set gone) (tb_sightings s)\<rparr>)"

definition forget_device :: "int \<Rightarrow> db \<Rightarrow> db" where
  "forget_device i = drop_devices (\<lambda>d. dv_id d = i)"

definition forget_addrs :: "string list \<Rightarrow> db \<Rightarrow> db" where
  "forget_addrs addrs s =
     (if addrs = [] then s
      else drop_devices (\<lambda>d. to_lower (dv_addr d) \<in> set (map to_lower addrs)) s)"

definition forget_stale :: "instant \<Rightarrow> int \<Rightarrow> db \<Rightarrow> db" where
  "forget_stale now days = drop_devices (\<lambda>d. dv_name d = '''' \<and> dv_last d < sql_stamp (now - days * day))"

end
