(* ===== verification/StoreSecrets.thy ===== *)
theory StoreSecrets
  imports StoreJobs
begin

text \<open>
  \<open>internal/store/secrets.go\<close>: secrets sealed under the key file, each granted to every machine
  or to a list of them. \<open>seal\<close> and \<open>unseal\<close> stand for AES-256-GCM with the name as additional
  data; the nonce and a fresh key are arguments.
\<close>

text \<open>\<open>secrets.key\<close>: a file of any other length than 32 bytes is replaced by a fresh key.\<close>

definition secrets_key :: "string \<Rightarrow> string option \<Rightarrow> string \<times> string option" where
  "secrets_key fresh file =
     (case file of
        Some k \<Rightarrow> if length k = 32 then (k, file) else (fresh, Some fresh)
      | None \<Rightarrow> (fresh, Some fresh))"

definition parse_ids :: "string \<Rightarrow> int list" where
  "parse_ids s = List.map_filter (\<lambda>p. parse_int (trim_space p)) (split_on (CHR '','') s)"

definition granted :: "int list \<Rightarrow> int \<Rightarrow> bool" where
  "granted hs i = (hs = [] \<or> i \<in> set hs)"

definition set_secret ::
  "(string \<Rightarrow> string \<Rightarrow> string \<Rightarrow> string \<Rightarrow> string) \<Rightarrow> string \<Rightarrow> instant \<Rightarrow> string \<Rightarrow> string \<Rightarrow> string \<Rightarrow>
   int list \<Rightarrow> db \<Rightarrow> db res" where
  "set_secret seal key now nonce name0 v hs s =
     (let name = trim_space name0
      in if name = '''' \<or> contains_any name [CHR ''/'', CHR '' '', CHR 0x09, newline]
         then Inl (Err ''a secret name is one word with no slashes'')
         else Inr (s\<lparr>tb_secrets := upsert (\<lambda>x. sx_name x = name)
                \<lparr>sx_name = name, sx_cipher = seal key nonce v name, sx_nonce = nonce,
                 sx_hosts = join '','' (map itoa hs), sx_created = sql_stamp now, sx_updated = sql_stamp now\<rparr>
                (\<lambda>x. x\<lparr>sx_cipher := seal key nonce v name, sx_nonce := nonce,
                       sx_hosts := join '','' (map itoa hs), sx_updated := sql_stamp now\<rparr>)
                (tb_secrets s)\<rparr>))"

definition delete_secret :: "string \<Rightarrow> db \<Rightarrow> db" where
  "delete_secret name s = s\<lparr>tb_secrets := delete_where (\<lambda>x. sx_name x = name) (tb_secrets s)\<rparr>"

definition secrets :: "db \<Rightarrow> (string \<times> int list) list" where
  "secrets s = map (\<lambda>x. (sx_name x, parse_ids (sx_hosts x))) (order_by (by_name sx_name) (tb_secrets s))"

definition secret_names_for :: "int \<Rightarrow> db \<Rightarrow> string list" where
  "secret_names_for i s = map fst (filter (\<lambda>(n, hs). granted hs i) (secrets s))"

definition read_secret ::
  "(string \<Rightarrow> string \<Rightarrow> string \<Rightarrow> string \<Rightarrow> string option) \<Rightarrow> string \<Rightarrow> string \<Rightarrow> int \<Rightarrow> db \<Rightarrow> string res" where
  "read_secret unseal key name i s =
     (case List.find (\<lambda>x. sx_name x = name) (tb_secrets s) of
        None \<Rightarrow> Inl NoSecret
      | Some x \<Rightarrow>
          if \<not> granted (parse_ids (sx_hosts x)) i then Inl NoSecret
          else (case unseal key (sx_nonce x) (sx_cipher x) name of
                  None \<Rightarrow> Inl (Err (''secret '' @ name @ '': cipher: message authentication failed''))
                | Some v \<Rightarrow> Inr v))"

section \<open>Grants\<close>

lemma itoa_no_comma: "CHR '','' \<notin> set (itoa i)"
proof -
  have "CHR '','' \<notin> set (digits n)" for n
    using digits_all_digit [of n] by (auto simp: list_all_iff is_digit_def)
  then show ?thesis by (auto simp: itoa_def)
qed

lemma itoa_no_space: "c \<in> set (itoa i) \<Longrightarrow> \<not> is_space c"
proof -
  have "c \<in> set (digits n) \<Longrightarrow> \<not> is_space c" for n
    using digits_all_digit [of n] by (auto simp: list_all_iff is_digit_def is_space_def)
  moreover have "\<not> is_space (CHR ''-'')" by (simp add: is_space_def)
  ultimately show "c \<in> set (itoa i) \<Longrightarrow> \<not> is_space c" by (auto simp: itoa_def split: if_splits)
qed

lemma map_filter_all: "(\<And>x. x \<in> set xs \<Longrightarrow> f x = Some (g x)) \<Longrightarrow> List.map_filter f xs = map g xs"
  by (induction xs) (simp_all add: List.map_filter_simps)

lemma parse_ids_join:
  assumes "\<forall>h \<in> set hs. in_i64 h"
  shows "parse_ids (join '','' (map itoa hs)) = hs"
proof (cases "hs = []")
  case True
  then show ?thesis by (simp add: parse_ids_def List.map_filter_simps parse_int_def)
next
  case False
  have "split_on (CHR '','') (join '','' (map itoa hs)) = map itoa hs"
    using False by (intro split_on_join) (auto simp: itoa_no_comma)
  moreover have "List.map_filter (\<lambda>p. parse_int (trim_space p)) (map itoa hs) = hs"
    using assms by (induction hs)
      (auto simp: List.map_filter_simps parse_int_itoa trim_space_id itoa_no_space)
  ultimately show ?thesis by (simp add: parse_ids_def)
qed

end
