(* ===== verification/StoreUsage.thy ===== *)
theory StoreUsage
  imports StoreJobs
begin

text \<open>
  The measurements of \<open>internal/store/hosts.go\<close> and \<open>usage.go\<close>: raw rows, their hourly rollup, and
  the windows read back. The file compares time stamps as text. A row's stamp has milliseconds and
  an hour's has none, and \<open>'.'\<close> sorts before \<open>'Z'\<close>: a row is at or after an hour stamp only when its
  whole second is past it (\<open>not_before\<close>).
\<close>

section \<open>Stamps\<close>

definition hour_of :: "int \<Rightarrow> int" where
  "hour_of ms = ms div 3600000 * 3600"

definition not_before :: "int \<Rightarrow> int \<Rightarrow> bool" where
  "not_before ms sec = (sec < ms div 1000)"

definition since :: "instant \<Rightarrow> int \<Rightarrow> int" where
  "since now hours = rfc3339 (now - hours * hour)"

text \<open>The hours already rolled up for a machine end one hour after the last of them.\<close>

definition rolled_until :: "int list \<Rightarrow> int option" where
  "rolled_until hs = (if hs = [] then None else Some (fold max hs (hd hs) + 3600))"

definition to_roll :: "instant \<Rightarrow> int option \<Rightarrow> int \<Rightarrow> bool" where
  "to_roll now till ms =
     (\<not> not_before ms (hour_of (sql_stamp now)) \<and>
      (case till of None \<Rightarrow> True | Some u \<Rightarrow> not_before ms u))"

section \<open>Metrics\<close>

definition record_metric ::
  "instant \<Rightarrow> int \<Rightarrow> int \<Rightarrow> int \<Rightarrow> real \<Rightarrow> int \<Rightarrow> (string \<times> real) list \<Rightarrow> db \<Rightarrow> db res" where
  "record_metric now i used mem_total load gpu mounts s =
     (if \<not> host_known s i then Inl SqlForeignKey
      else Inr (s\<lparr>tb_metrics := tb_metrics s @ [\<lparr>me_host = i, me_at = sql_stamp now, me_used = used,
             me_total = mem_total, me_load = load, me_gpu = real_of_int gpu, me_mounts = mounts\<rparr>]\<rparr>))"

definition mean :: "('r \<Rightarrow> real) \<Rightarrow> 'r list \<Rightarrow> real" where
  "mean f rows = sum_list (map f rows) / real (length rows)"

text \<open>\<open>int64(x)\<close> of a float drops the fraction.\<close>

definition to_int :: "real \<Rightarrow> int" where
  "to_int x = (if x < 0 then - \<lfloor>- x\<rfloor> else \<lfloor>x\<rfloor>)"

definition mount_mean :: "metric_row list \<Rightarrow> (string \<times> real) list" where
  "mount_mean rows =
     map (\<lambda>p. (p, sum_list (map snd (filter (\<lambda>m. fst m = p) (concat (map me_mounts rows)))) / real (length rows)))
       (remdups (map fst (concat (map me_mounts rows))))"

definition hour_metric :: "int \<times> int \<Rightarrow> metric_row list \<Rightarrow> metric_row" where
  "hour_metric k rows =
     \<lparr>me_host = fst k, me_at = snd k, me_used = to_int (mean (\<lambda>r. real_of_int (me_used r)) rows),
      me_total = to_int (mean (\<lambda>r. real_of_int (me_total r)) rows), me_load = mean me_load rows,
      me_gpu = mean me_gpu rows, me_mounts = mount_mean rows\<rparr>"

definition metrics_to_roll :: "instant \<Rightarrow> db \<Rightarrow> metric_row list" where
  "metrics_to_roll now s =
     filter (\<lambda>m. to_roll now (rolled_until (map me_at (filter (\<lambda>h. me_host h = me_host m) (tb_metrics_hourly s))))
       (me_at m)) (tb_metrics s)"

text \<open>\<open>INSERT OR REPLACE\<close> drops the row of the same key and adds the new one.\<close>

definition replace_row :: "('r \<Rightarrow> 'k) \<Rightarrow> 'r \<Rightarrow> 'r list \<Rightarrow> 'r list" where
  "replace_row k r rows = delete_where (\<lambda>x. k x = k r) rows @ [r]"

definition groups :: "('r \<Rightarrow> 'k) \<Rightarrow> 'r list \<Rightarrow> ('k \<times> 'r list) list" where
  "groups k rows = map (\<lambda>x. (x, filter (\<lambda>r. k r = x) rows)) (remdups (map k rows))"

definition rollup_metrics :: "instant \<Rightarrow> db \<Rightarrow> db" where
  "rollup_metrics now s =
     s\<lparr>tb_metrics_hourly :=
         fold (\<lambda>(k, rows). replace_row (\<lambda>m. (me_host m, me_at m)) (hour_metric k rows))
           (groups (\<lambda>m. (me_host m, hour_of (me_at m))) (metrics_to_roll now s)) (tb_metrics_hourly s),
       tb_metrics := delete_where (\<lambda>m. me_at m < sql_stamp (now - 2 * day)) (tb_metrics s)\<rparr>"

text \<open>Hourly rows and raw rows as one series, ordered by their stamps' text.\<close>

definition metric_series :: "instant \<Rightarrow> int \<Rightarrow> int \<Rightarrow> db \<Rightarrow> ((int \<times> int) \<times> metric_row) list" where
  "metric_series now i hours s =
     (let b = since now hours
      in order_by (then_by (by_asc (\<lambda>(k, m). fst k)) (by_asc (\<lambda>(k, m). snd k)))
           (map (\<lambda>m. ((me_at m, 1000), m)) (filter (\<lambda>m. me_host m = i \<and> me_at m \<ge> b) (tb_metrics_hourly s)) @
            map (\<lambda>m. ((me_at m div 1000, me_at m mod 1000), m))
              (filter (\<lambda>m. me_host m = i \<and> not_before (me_at m) b) (tb_metrics s))))"

definition host_metrics :: "instant \<Rightarrow> int \<Rightarrow> int \<Rightarrow> db \<Rightarrow> metric_row list" where
  "host_metrics now i hours s = map snd (metric_series now i hours s)"

section \<open>Tokens spent by jobs\<close>

record usage =
  us_at :: int
  us_tokens :: "int \<times> int \<times> int \<times> int"
  us_cost :: real
  us_calls :: int

definition record_usage ::
  "instant \<Rightarrow> int \<Rightarrow> int \<Rightarrow> string \<Rightarrow> int \<Rightarrow> int \<Rightarrow> int \<Rightarrow> int \<Rightarrow> real \<Rightarrow> db \<Rightarrow> db res" where
  "record_usage now i j model inp out cread cwrite cost s =
     (if \<not> host_known s i \<or> j \<notin> set (map j_id (tb_jobs s)) then Inl SqlForeignKey
      else Inr (s\<lparr>tb_usage := tb_usage s @ [\<lparr>u_host = i, u_job = j, u_at = sql_stamp now, u_model = model,
             u_input = inp, u_output = out, u_cread = cread, u_cwrite = cwrite, u_cost = cost\<rparr>]\<rparr>))"

definition hour_usage :: "int \<times> int \<Rightarrow> usage_row list \<Rightarrow> usage_hour_row" where
  "hour_usage k rows =
     \<lparr>uh_host = fst k, uh_hour = snd k, uh_input = sum_list (map u_input rows),
      uh_output = sum_list (map u_output rows), uh_cread = sum_list (map u_cread rows),
      uh_cwrite = sum_list (map u_cwrite rows), uh_cost = sum_list (map u_cost rows),
      uh_calls = int (length rows)\<rparr>"

definition usage_to_roll :: "instant \<Rightarrow> db \<Rightarrow> usage_row list" where
  "usage_to_roll now s =
     filter (\<lambda>u. to_roll now (rolled_until (map uh_hour (filter (\<lambda>h. uh_host h = u_host u) (tb_usage_hourly s))))
       (u_at u)) (tb_usage s)"

definition prune_usage :: "instant \<Rightarrow> db \<Rightarrow> db" where
  "prune_usage now s =
     s\<lparr>tb_hub_usage := delete_where (\<lambda>u. hu_at u < sql_stamp (now - 31 * day)) (tb_hub_usage s),
       tb_served := delete_where (\<lambda>v. sr_at v < sql_stamp (now - 31 * day)) (tb_served s)\<rparr>"

definition rollup_usage :: "instant \<Rightarrow> db \<Rightarrow> db" where
  "rollup_usage now s =
     prune_usage now (s\<lparr>tb_usage_hourly :=
         fold (\<lambda>(k, rows). replace_row (\<lambda>h. (uh_host h, uh_hour h)) (hour_usage k rows))
           (groups (\<lambda>u. (u_host u, hour_of (u_at u))) (usage_to_roll now s)) (tb_usage_hourly s),
       tb_usage := delete_where (\<lambda>u. u_at u < sql_stamp (now - 2 * day)) (tb_usage s)\<rparr>)"

definition rolled_rows :: "int \<Rightarrow> int \<Rightarrow> db \<Rightarrow> usage_hour_row list" where
  "rolled_rows i b s = filter (\<lambda>h. uh_host h = i \<and> uh_hour h \<ge> b) (tb_usage_hourly s)"

definition raw_rows :: "int \<Rightarrow> int \<Rightarrow> db \<Rightarrow> usage_row list" where
  "raw_rows i b s = filter (\<lambda>u. u_host u = i \<and> not_before (u_at u) b) (tb_usage s)"

definition host_usage :: "instant \<Rightarrow> int \<Rightarrow> int \<Rightarrow> db \<Rightarrow> usage list" where
  "host_usage now i hours s =
     (let b = since now hours
      in order_by (by_asc us_at)
           (map (\<lambda>h. \<lparr>us_at = uh_hour h, us_tokens = (uh_input h, uh_output h, uh_cread h, uh_cwrite h),
                      us_cost = uh_cost h, us_calls = uh_calls h\<rparr>) (rolled_rows i b s) @
            map (\<lambda>u. \<lparr>us_at = hour_of (u_at u), us_tokens = (u_input u, u_output u, u_cread u, u_cwrite u),
                      us_cost = u_cost u, us_calls = 1\<rparr>) (raw_rows i b s)))"

record usage_total =
  ut_host :: int
  ut_name :: string
  ut_input :: int
  ut_output :: int
  ut_cread :: int
  ut_cwrite :: int
  ut_cost :: real
  ut_calls :: int

definition usage_total :: "int \<Rightarrow> db \<Rightarrow> host_row \<Rightarrow> usage_total" where
  "usage_total b s h =
     (let hs = rolled_rows (h_id h) b s; us = raw_rows (h_id h) b s
      in \<lparr>ut_host = h_id h, ut_name = h_name h,
          ut_input = sum_list (map uh_input hs) + sum_list (map u_input us),
          ut_output = sum_list (map uh_output hs) + sum_list (map u_output us),
          ut_cread = sum_list (map uh_cread hs) + sum_list (map u_cread us),
          ut_cwrite = sum_list (map uh_cwrite hs) + sum_list (map u_cwrite us),
          ut_cost = sum_list (map uh_cost hs) + sum_list (map u_cost us),
          ut_calls = sum_list (map uh_calls hs) + int (length us)\<rparr>)"

text \<open>
  \<open>ORDER BY 3 + 4 DESC\<close> is a constant expression, not the third and fourth column: the rows are
  ordered by name alone.
\<close>

definition usage_totals :: "instant \<Rightarrow> int \<Rightarrow> db \<Rightarrow> usage_total list" where
  "usage_totals now hours s =
     map (usage_total (since now hours) s) (order_by (by_name h_name) (tb_hosts s))"

section \<open>The hub's own replies and what the router served\<close>

definition hub_usage_offset :: "string \<Rightarrow> db \<Rightarrow> int" where
  "hub_usage_offset path s = (case map_of (tb_usage_files s) path of None \<Rightarrow> 0 | Some n \<Rightarrow> n)"

definition record_hub_usage :: "string \<Rightarrow> int \<Rightarrow> hub_usage_row list \<Rightarrow> db \<Rightarrow> db" where
  "record_hub_usage path offset us s =
     s\<lparr>tb_hub_usage := tb_hub_usage s @ us,
       tb_usage_files := replace_row fst (path, offset) (tb_usage_files s)\<rparr>"

definition hub_usage :: "instant \<Rightarrow> int \<Rightarrow> db \<Rightarrow> ((int \<times> string) \<times> usage) list" where
  "hub_usage now hours s =
     map (\<lambda>(k, us). (k, \<lparr>us_at = fst k,
            us_tokens = (sum_list (map hu_input us), sum_list (map hu_output us), sum_list (map hu_cread us),
              sum_list (map hu_cwrite us)), us_cost = sum_list (map hu_cost us), us_calls = int (length us)\<rparr>))
       (order_by (by_asc (\<lambda>g. fst (fst g)))
         (groups (\<lambda>u. (hour_of (hu_at u), hu_model u))
           (filter (\<lambda>u. not_before (hu_at u) (since now hours)) (tb_hub_usage s))))"

definition record_served ::
  "instant \<Rightarrow> string \<Rightarrow> bool \<Rightarrow> string \<Rightarrow> string \<Rightarrow> int \<Rightarrow> int \<Rightarrow> db \<Rightarrow> db" where
  "record_served now server is_peer caller model inp out s =
     s\<lparr>tb_served := tb_served s @ [\<lparr>sr_at = sql_stamp now, sr_server = server, sr_peer = is_peer,
         sr_caller = caller, sr_model = model, sr_input = inp, sr_output = out\<rparr>]\<rparr>"

definition served_key :: "served_row \<Rightarrow> int \<times> string \<times> bool \<times> string \<times> string" where
  "served_key v = (hour_of (sr_at v), sr_server v, sr_peer v, sr_caller v, sr_model v)"

definition served_usage ::
  "instant \<Rightarrow> int \<Rightarrow> db \<Rightarrow> ((int \<times> string \<times> bool \<times> string \<times> string) \<times> int \<times> int \<times> nat) list" where
  "served_usage now hours s =
     map (\<lambda>(k, vs). (k, sum_list (map sr_input vs), sum_list (map sr_output vs), length vs))
       (order_by (by_asc (\<lambda>g. fst (fst g)))
         (groups served_key (filter (\<lambda>v. not_before (sr_at v) (since now hours)) (tb_served s))))"

end
