(* ===== verification/StoreSchema.thy ===== *)
theory StoreSchema
  imports StoreClusters StoreAuth StorePeers StoreDevices StoreSecrets StoreUsage
begin

text \<open>
  The schema as an invariant of the store. \<open>refs_ok\<close> is every FOREIGN KEY, \<open>keys_ok\<close> every PRIMARY
  KEY and UNIQUE constraint of the tables; \<open>store_step\<close> is one call of any mutating operation of
  the package, and \<open>reachable\<close> the files a hub can get to from an empty one.
\<close>

section \<open>The constraints\<close>

definition host_ids :: "db \<Rightarrow> int set" where "host_ids s = h_id ` set (tb_hosts s)"
definition job_ids :: "db \<Rightarrow> int set" where "job_ids s = j_id ` set (tb_jobs s)"
definition task_ids :: "db \<Rightarrow> int set" where "task_ids s = t_id ` set (tb_tasks s)"
definition window_ids :: "db \<Rightarrow> int set" where "window_ids s = w_id ` set (tb_windows s)"
definition cluster_ids :: "db \<Rightarrow> int set" where "cluster_ids s = cl_id ` set (tb_clusters s)"
definition workspace_ids :: "db \<Rightarrow> int set" where "workspace_ids s = ws_id ` set (tb_workspaces s)"
definition user_ids :: "db \<Rightarrow> string set" where "user_ids s = us_id ` set (tb_users s)"
definition device_ids :: "db \<Rightarrow> int set" where "device_ids s = dv_id ` set (tb_devices s)"

lemmas id_defs = host_ids_def job_ids_def task_ids_def window_ids_def cluster_ids_def workspace_ids_def
  user_ids_def device_ids_def

definition host_refs :: "db \<Rightarrow> bool" where
  "host_refs s \<longleftrightarrow>
     refers j_host (host_ids s) (tb_jobs s) \<and> refers u_host (host_ids s) (tb_usage s) \<and>
     refers uh_host (host_ids s) (tb_usage_hourly s) \<and> refers me_host (host_ids s) (tb_metrics s) \<and>
     refers me_host (host_ids s) (tb_metrics_hourly s) \<and> refers_opt t_host (host_ids s) (tb_tasks s) \<and>
     refers_opt r_host (host_ids s) (tb_runs s) \<and> refers cl_gateway (host_ids s) (tb_clusters s) \<and>
     refers cm_host (host_ids s) (tb_members s) \<and> refers snd (host_ids s) (tb_ws_members s) \<and>
     refers_opt c_rebuild (host_ids s) (tb_codes s) \<and> refers sv_host (host_ids s) (tb_services s) \<and>
     refers sg_host (host_ids s) (tb_sightings s) \<and> refers sc_host (host_ids s) (tb_scans s)"

definition other_refs :: "db \<Rightarrow> bool" where
  "other_refs s \<longleftrightarrow>
     refers_opt j_window (window_ids s) (tb_jobs s) \<and> refers je_job (job_ids s) (tb_job_events s) \<and>
     refers u_job (job_ids s) (tb_usage s) \<and> refers r_task (task_ids s) (tb_runs s) \<and>
     refers cm_cluster (cluster_ids s) (tb_members s) \<and> refers ws_cluster (cluster_ids s) (tb_workspaces s) \<and>
     refers fst (workspace_ids s) (tb_ws_members s) \<and> refers cr_user (user_ids s) (tb_credentials s) \<and>
     refers se_user (user_ids s) (tb_sessions s) \<and> refers_opt iv_user (user_ids s) (tb_invites s) \<and>
     refers sg_device (device_ids s) (tb_sightings s)"

definition refs_ok :: "db \<Rightarrow> bool" where
  "refs_ok s \<longleftrightarrow> host_refs s \<and> other_refs s"

lemmas refs_defs = refs_ok_def host_refs_def other_refs_def

lemma refs_ok_empty: "refs_ok empty_db"
  by (simp add: refs_defs empty_db_def refers_def refers_opt_def)

section \<open>Foreign keys are kept\<close>

lemma refers_update_iff [simp]:
  "(\<And>r. f (g r) = f r) \<Longrightarrow> refers f ks (update_where p g rows) = refers f ks rows"
  by (simp add: refers_def ball_update_where)

lemma refers_opt_update_iff [simp]:
  "(\<And>r. f (g r) = f r) \<Longrightarrow> refers_opt f ks (update_where p g rows) = refers_opt f ks rows"
  by (simp add: refers_opt_def ball_update_where)

lemma refers_snoc [simp]: "refers f ks (rows @ [r]) \<longleftrightarrow> refers f ks rows \<and> f r \<in> ks"
  by (auto simp: refers_def)

lemma refers_opt_snoc [simp]:
  "refers_opt f ks (rows @ [r]) \<longleftrightarrow> refers_opt f ks rows \<and> (case f r of None \<Rightarrow> True | Some k \<Rightarrow> k \<in> ks)"
  by (auto simp: refers_opt_def)

lemma image_update_where [simp]: "(\<And>r. f (g r) = f r) \<Longrightarrow> f ` set (update_where p g rows) = f ` set rows"
  using map_update_where [of f g p rows] by (metis list.set_map)

lemma refers_upsert:
  "refers f ks rows \<Longrightarrow> f ins \<in> ks \<Longrightarrow> (\<And>r. f (upd r) = f r \<or> f (upd r) \<in> ks) \<Longrightarrow>
   refers f ks (upsert p ins upd rows)"
  by (auto simp: refers_def upsert_def update_where_def) metis

lemma refers_insert: "refers f ks rows \<Longrightarrow> refers f (insert k ks) rows"
  by (auto simp: refers_def)

lemma refers_opt_insert: "refers_opt f ks rows \<Longrightarrow> refers_opt f (insert k ks) rows"
  by (auto simp: refers_opt_def split: option.splits)

lemmas refers_intros = refers_update refers_opt_update refers_delete refers_opt_delete refers_upsert
  refers_insert refers_opt_insert

lemma refers_cascade:
  "refers f (k ` set rows) refs \<Longrightarrow>
   refers f (k ` set (delete_where p rows)) (delete_where (\<lambda>r. f r \<in> k ` {x \<in> set rows. p x}) refs)"
  by (fastforce simp: refers_def)

lemma refers_opt_cascade:
  "refers_opt f (k ` set rows) refs \<Longrightarrow>
   refers_opt f (k ` set (delete_where p rows))
     (delete_where (\<lambda>r. case f r of None \<Rightarrow> False | Some v \<Rightarrow> v \<in> k ` {x \<in> set rows. p x}) refs)"
  by (fastforce simp: refers_opt_def split: option.splits)

lemma refers_opt_set_null:
  "refers_opt f (k ` set rows) refs \<Longrightarrow> (\<And>r. f (g r) = None) \<Longrightarrow>
   refers_opt f (k ` set (delete_where p rows))
     (update_where (\<lambda>r. case f r of None \<Rightarrow> False | Some v \<Rightarrow> v \<in> k ` {x \<in> set rows. p x}) g refs)"
  by (fastforce simp: refers_opt_def ball_update_where split: option.splits)

lemma refers_minus: "refers f ks rows \<Longrightarrow> refers f (ks - {i}) (delete_where (\<lambda>r. f r = i) rows)"
  by (auto simp: refers_def)

lemma refers_minus_none: "refers f ks rows \<Longrightarrow> \<forall>r \<in> set rows. f r \<noteq> i \<Longrightarrow> refers f (ks - {i}) rows"
  by (auto simp: refers_def)

lemma refers_opt_minus_none:
  "refers_opt f ks rows \<Longrightarrow> \<forall>r \<in> set rows. f r \<noteq> Some i \<Longrightarrow> refers_opt f (ks - {i}) rows"
  by (auto simp: refers_opt_def split: option.splits)

lemma refers_opt_minus_null:
  "refers_opt f ks rows \<Longrightarrow> (\<And>r. f (g r) = None) \<Longrightarrow>
   refers_opt f (ks - {i}) (update_where (\<lambda>r. f r = Some i) g rows)"
  by (auto simp: refers_opt_def ball_update_where split: option.splits)

lemma image_delete_id: "k ` set (delete_where (\<lambda>r. k r = i) rows) = k ` set rows - {i}"
  by auto

text \<open>One lemma per mutating operation: first the ones that change one table.\<close>

lemma refs_update_host: "(\<And>h. h_id (f h) = h_id h) \<Longrightarrow> refs_ok s \<Longrightarrow> refs_ok (update_host i f s)"
  by (simp add: refs_defs id_defs update_host_def)

lemma refs_update_job:
  "(\<And>j. j_id (f j) = j_id j) \<Longrightarrow> (\<And>j. j_host (f j) = j_host j) \<Longrightarrow> (\<And>j. j_window (f j) = j_window j) \<Longrightarrow>
   refs_ok s \<Longrightarrow> refs_ok (update_job p f s)"
  by (simp add: refs_defs id_defs update_job_def)

lemma refs_update_device: "(\<And>d. dv_id (f d) = dv_id d) \<Longrightarrow> refs_ok s \<Longrightarrow> refs_ok (update_device i f s)"
  by (simp add: refs_defs id_defs update_device_def)

lemma refs_plain:
  assumes "refs_ok s"
  shows "refs_ok (record_event now kind subject message s)"
    "refs_ok (set_setting k v s)"
    "refs_ok (snd (create_window now n s))"
    "refs_ok (touch_window now i s)"
    "refs_ok (end_window now i sb s)"
    "refs_ok (snd (end_all_windows now s))"
    "refs_ok (snd (use_enroll_code now k s))"
    "refs_ok (add_proposal now k v s)"
    "refs_ok (snd (set_task_failing i b s))"
    "refs_ok (end_run now i x sb2 s)"
    "refs_ok (trim_runs i m s)"
    "refs_ok (set_catalog_entry k v s)"
    "refs_ok (delete_catalog_entry k s)"
    "refs_ok (remove_member i s)"
    "refs_ok (remove_workspace_member i x s)"
  using assms
  by (simp_all add: refs_defs id_defs record_event_def set_setting_def create_window_def touch_window_def
      end_window_def end_all_windows_def use_enroll_code_def add_proposal_def set_task_failing_def
      end_run_def trim_runs_def set_catalog_entry_def delete_catalog_entry_def remove_member_def
      remove_workspace_member_def Let_def refers_intros)

lemma refs_plain_auth:
  assumes "refs_ok s"
  shows "refs_ok (update_credential k v s)"
    "refs_ok (delete_session hash k s)"
    "refs_ok (delete_invite k s)"
    "refs_ok (snd (spend_invite now k s))"
    "refs_ok (delete_token k s)"
    "refs_ok (dedupe_token_names s)"
  using assms
  by (simp_all add: refs_defs id_defs update_credential_def delete_session_def delete_invite_def
      spend_invite_cases delete_token_def dedupe_token_names_def refers_intros)

lemma refs_plain_peers:
  assumes "refs_ok s"
  shows "refs_ok (seen_peer now p n b x y s)"
    "refs_ok (set_peer p b x y s)"
    "refs_ok (forget_peer p s)"
    "refs_ok (finish_peer_job i b t s)"
    "refs_ok (unpublish_service k s)"
    "refs_ok (seen_front p k s)"
    "refs_ok (set_front p k b n s)"
    "refs_ok (delete_secret k s)"
    "refs_ok (record_hub_usage k x us s)"
    "refs_ok (record_served now p b n k x y s)"
    "refs_ok (prune_usage now s)"
  using assms
  by (simp_all add: refs_defs id_defs seen_peer_def set_peer_def forget_peer_def finish_peer_job_def
      unpublish_service_def seen_front_def set_front_def delete_secret_def record_hub_usage_def
      record_served_def prune_usage_def refers_intros)

text \<open>Then the ones that can fail.\<close>

lemma refs_add_host: "refs_ok s \<Longrightarrow> add_host now h s = Inr (i, s1) \<Longrightarrow> refs_ok s1"
  by (clarsimp simp: refs_defs id_defs refers_upsert refers_insert refers_opt_insert add_host_def Let_def split: if_split_asm)

lemma refs_set_host_status:
  assumes "refs_ok s" and "set_host_status now i st fs m s = Inr (p, s1)"
  shows "refs_ok s1"
proof -
  from assms(2) have "s1 = update_host i (case fs of
      Some f \<Rightarrow> (\<lambda>h. h\<lparr>h_status := st, h_facts := f, h_model := m, h_last_seen := Some (sql_stamp now)\<rparr>)
    | None \<Rightarrow> (\<lambda>h. h\<lparr>h_status := st\<rparr>)) s"
    unfolding set_host_status_def update_host_def by (simp split: option.split_asm if_split_asm)
  then show ?thesis
    using assms(1) by (simp add: refs_update_host split: option.split)
qed

lemma refs_new_code:
  "refs_ok s \<Longrightarrow> refers_opt c_rebuild (host_ids s) [c] \<Longrightarrow> refs_ok (s\<lparr>tb_codes := tb_codes s @ [c]\<rparr>)"
  by (simp add: refs_defs id_defs refers_opt_def)

lemma refs_new_enroll_code:
  assumes "refs_ok s" and "new_enroll_code now c n k r s = Inr (x, s1)"
  shows "refs_ok s1"
proof -
  have "s1 = s\<lparr>tb_codes := tb_codes s @ [x]\<rparr>" and "refers_opt c_rebuild (host_ids s) [x]"
    using assms(2) by (auto simp: new_enroll_code_def host_ids_def refers_opt_def Let_def split: if_split_asm)
  with assms(1) refs_new_code show ?thesis by simp
qed

lemma refs_new_job:
  "refs_ok s \<Longrightarrow> j_host j \<in> host_ids s \<Longrightarrow> refers_opt j_window (window_ids s) [j] \<Longrightarrow>
   refs_ok (s\<lparr>tb_jobs := tb_jobs s @ [j]\<rparr>)"
  by (simp add: refs_defs id_defs refers_insert refers_opt_def)

lemma refs_create_job:
  assumes "refs_ok s" and "create_job now h w c m t x s = Inr (i, s1)"
  shows "refs_ok s1"
proof -
  let ?j = "\<lparr>j_id = i, j_host = h, j_cwd = c, j_window = (if w \<noteq> 0 then Some w else None), j_model = m,
    j_text = t, j_rounds = 1, j_state = ''running'', j_timeout = x, j_session = '''', j_snapshot = '''',
    j_report = '''', j_changes = '''', j_reason = '''', j_started = sql_stamp now, j_ended = None\<rparr>"
  have "s1 = s\<lparr>tb_jobs := tb_jobs s @ [?j]\<rparr>"
    using assms(2) by (simp only: create_job_def Let_def split: if_split_asm) auto
  moreover have "h \<in> host_ids s" "w \<noteq> 0 \<longrightarrow> w \<in> window_ids s"
    using assms(2) by (simp_all add: create_job_def window_ids_def host_ids_def host_known_def Let_def split: if_split_asm)
  ultimately show ?thesis
    using assms(1) refs_new_job [of s ?j] by (simp add: refers_opt_def)
qed

lemma refs_end_job: "refs_ok s \<Longrightarrow> end_job now i st rp rs s = Inr s1 \<Longrightarrow> refs_ok s1"
  by (auto simp: end_job_def intro!: refs_update_job split: if_splits)

lemma refs_kill_job: "refs_ok s \<Longrightarrow> kill_job now i rs s = Inr (b, s1) \<Longrightarrow> refs_ok s1"
  by (auto simp: kill_job_def Let_def intro!: refs_update_job split: if_splits)

lemma refs_append_job_event: "refs_ok s \<Longrightarrow> append_job_event now i l s = Inr s1 \<Longrightarrow> refs_ok s1"
  by (clarsimp simp: refs_defs id_defs refers_upsert refers_insert refers_opt_insert append_job_event_def split: if_split_asm)

lemma refs_append_job_events: "refs_ok s \<Longrightarrow> append_job_events now i ls s = Inr s1 \<Longrightarrow> refs_ok s1"
proof (induction ls arbitrary: s)
  case (Cons l ls)
  then obtain s2 where "append_job_event now i l s = Inr s2" "append_job_events now i ls s2 = Inr s1"
    by (simp split: sum.splits)
  with Cons.IH Cons.prems(1) refs_append_job_event show ?case by metis
qed simp

lemma refs_opt_update_to:
  "refers_opt f ks rows \<Longrightarrow> (\<exists>r \<in> set rows. p r) \<longrightarrow> v = None \<or> the v \<in> ks \<Longrightarrow> (\<And>r. f (g r) = v) \<Longrightarrow>
   refers_opt f ks (update_where p g rows)"
  by (auto simp: refers_opt_def ball_update_where split: option.splits)

lemma refs_save_task: "refs_ok s \<Longrightarrow> save_task now i n h c sc t e s = Inr (x, s1) \<Longrightarrow> refs_ok s1"
proof (cases "i = 0")
  case True
  assume "refs_ok s" and "save_task now i n h c sc t e s = Inr (x, s1)"
  with True show ?thesis
    by (clarsimp simp: refs_defs id_defs refers_upsert refers_insert refers_opt_insert save_task_def host_known_def Let_def split: if_split_asm)
next
  case False
  assume ok: "refs_ok s" and saved: "save_task now i n h c sc t e s = Inr (x, s1)"
  let ?g = "\<lambda>t'. t'\<lparr>t_name := n, t_host := if h \<noteq> 0 then Some h else None, t_command := c,
    t_schedule := sc, t_timeout := t, t_enabled := e\<rparr>"
  have s1: "s1 = s\<lparr>tb_tasks := update_where (\<lambda>t. t_id t = i) ?g (tb_tasks s)\<rparr>"
    and fk: "(\<exists>t \<in> set (tb_tasks s). t_id t = i) \<longrightarrow> h = 0 \<or> h \<in> host_ids s"
    using saved False affected_pos [of "\<lambda>t. t_id t = i" "tb_tasks s"]
    by (auto simp: save_task_def host_known_def host_ids_def Let_def split: if_splits)
  have "refers_opt t_host (host_ids s) (update_where (\<lambda>t. t_id t = i) ?g (tb_tasks s))"
    using ok fk by (intro refs_opt_update_to [where v = "if h \<noteq> 0 then Some h else None"])
      (auto simp: refs_ok_def host_refs_def)
  with ok show ?thesis
    unfolding s1 by (simp add: refs_defs id_defs)
qed

lemma refs_new_run:
  "refs_ok s \<Longrightarrow> r_task r \<in> task_ids s \<Longrightarrow> refers_opt r_host (host_ids s) [r] \<Longrightarrow>
   refs_ok (s\<lparr>tb_runs := tb_runs s @ [r]\<rparr>)"
  by (simp add: refs_defs id_defs refers_opt_def)

lemma refs_start_run:
  assumes "refs_ok s" and "start_run now t h n sk s = Inr (x, s1)"
  shows "refs_ok s1"
proof -
  let ?r = "\<lparr>r_id = x, r_task = t, r_host = (if h \<noteq> 0 then Some h else None), r_hostname = n,
    r_started = sql_stamp now, r_ended = (if sk \<noteq> '''' then Some (sql_stamp now) else None), r_exit = None,
    r_output = '''', r_skipped = sk\<rparr>"
  have "s1 = s\<lparr>tb_runs := tb_runs s @ [?r]\<rparr>"
    using assms(2) by (simp only: start_run_def Let_def split: if_split_asm) auto
  moreover have "t \<in> task_ids s" "h \<noteq> 0 \<longrightarrow> h \<in> host_ids s"
    using assms(2) by (simp_all add: start_run_def task_ids_def host_ids_def host_known_def Let_def split: if_split_asm)
  ultimately show ?thesis
    using assms(1) refs_new_run [of s ?r] by (simp add: refers_opt_def)
qed

lemma refs_insert_member: "refs_ok s \<Longrightarrow> insert_member c h p s = Inr s1 \<Longrightarrow> refs_ok s1"
  by (clarsimp simp: refs_defs id_defs refers_upsert refers_insert refers_opt_insert insert_member_def host_known_def split: if_split_asm)

lemma refs_insert_members: "refs_ok s \<Longrightarrow> insert_members c ms s = Inr s1 \<Longrightarrow> refs_ok s1"
  by (induction ms arbitrary: s) (auto dest: refs_insert_member split: sum.splits)

lemma refs_add_workspace_member: "refs_ok s \<Longrightarrow> add_workspace_member i h s = Inr s1 \<Longrightarrow> refs_ok s1"
  by (clarsimp simp: refs_defs id_defs refers_upsert refers_insert refers_opt_insert add_workspace_member_def host_known_def split: if_split_asm)

lemma refs_add_workspace_members: "refs_ok s \<Longrightarrow> add_workspace_members i hs s = Inr s1 \<Longrightarrow> refs_ok s1"
  by (induction hs arbitrary: s) (auto dest: refs_add_workspace_member split: sum.splits)

lemma refs_new_cluster:
  "refs_ok s \<Longrightarrow> host_known s (cl_gateway c) \<Longrightarrow> refs_ok (s\<lparr>tb_clusters := tb_clusters s @ [c]\<rparr>)"
  by (clarsimp simp: refs_defs id_defs refers_upsert refers_insert refers_opt_insert host_known_def)

lemma refs_new_workspace:
  "refs_ok s \<Longrightarrow> ws_cluster w \<in> cluster_ids s \<Longrightarrow> refs_ok (s\<lparr>tb_workspaces := tb_workspaces s @ [w]\<rparr>)"
  by (clarsimp simp: refs_defs id_defs refers_upsert refers_insert refers_opt_insert)

lemma refs_create_cluster:
  assumes "refs_ok s" and "create_cluster n g p ms s = Inr (i, s1)"
  shows "refs_ok s1"
proof -
  let ?c = "\<lparr>cl_id = i, cl_name = n, cl_gateway = g, cl_path = p\<rparr>"
  have "host_known s g" "insert_members i ms (s\<lparr>tb_clusters := tb_clusters s @ [?c]\<rparr>) = Inr s1"
    using assms(2) by (simp_all add: create_cluster_def Let_def split: if_split_asm sum.split_asm)
  then show ?thesis
    using refs_insert_members refs_new_cluster [of s ?c] assms(1) by simp
qed

lemma refs_create_workspace:
  assumes "refs_ok s" and "create_workspace n c hs s = Inr (i, s1)"
  shows "refs_ok s1"
proof -
  let ?w = "\<lparr>ws_id = i, ws_name = n, ws_cluster = c\<rparr>"
  have "c \<in> cluster_ids s" "add_workspace_members i hs (s\<lparr>tb_workspaces := tb_workspaces s @ [?w]\<rparr>) = Inr s1"
    using assms(2)
    by (simp_all add: create_workspace_def cluster_ids_def Let_def split: if_split_asm sum.split_asm)
  then show ?thesis
    using refs_add_workspace_members refs_new_workspace [of s ?w] assms(1) by simp
qed

lemma refs_create_user: "refs_ok s \<Longrightarrow> create_user now u0 n r s = Inr (u, s1) \<Longrightarrow> refs_ok s1"
  by (clarsimp simp: refs_defs id_defs refers_upsert refers_insert refers_opt_insert create_user_def Let_def split: if_split_asm sum.split_asm)

lemma refs_add_credential: "refs_ok s \<Longrightarrow> add_credential now u c j s = Inr s1 \<Longrightarrow> refs_ok s1"
  by (clarsimp simp: refs_defs id_defs refers_upsert refers_insert refers_opt_insert add_credential_def split: if_split_asm)

lemma refs_set_role: "refs_ok s \<Longrightarrow> set_role n r s = Inr s1 \<Longrightarrow> refs_ok s1"
  by (clarsimp simp: refs_defs id_defs refers_upsert refers_insert refers_opt_insert set_role_def split: if_split_asm)

lemma refs_new_session: "refs_ok s \<Longrightarrow> new_session hash now t u s = Inr (x, s1) \<Longrightarrow> refs_ok s1"
  by (clarsimp simp: refs_defs id_defs refers_upsert refers_insert refers_opt_insert new_session_def split: if_split_asm)

lemma refs_new_invite: "refs_ok s \<Longrightarrow> new_invite now t r u s = Inr (x, s1) \<Longrightarrow> refs_ok s1"
  by (clarsimp simp: refs_defs id_defs refers_upsert refers_insert refers_opt_insert new_invite_def Let_def split: if_split_asm option.split_asm option.split)

lemma refs_new_token: "refs_ok s \<Longrightarrow> new_token hash now t n r s = Inr (x, s1) \<Longrightarrow> refs_ok s1"
  by (clarsimp simp: refs_defs id_defs refers_upsert refers_insert refers_opt_insert new_token_def Let_def split: if_split_asm)

lemma refs_record_peer_job: "refs_ok s \<Longrightarrow> record_peer_job now p d m a r s = Inr (x, s1) \<Longrightarrow> refs_ok s1"
  by (clarsimp simp: refs_defs id_defs refers_upsert refers_insert refers_opt_insert record_peer_job_def Let_def split: if_split_asm)

lemma refs_add_peer_bytes: "refs_ok s \<Longrightarrow> add_peer_bytes now p v d n s = Inr s1 \<Longrightarrow> refs_ok s1"
  by (clarsimp simp: refs_defs id_defs refers_upsert refers_insert refers_opt_insert add_peer_bytes_def split: if_split_asm)

lemma refs_publish_service: "refs_ok s \<Longrightarrow> publish_service n h p ps s = Inr s1 \<Longrightarrow> refs_ok s1"
  by (clarsimp simp: refs_defs id_defs refers_upsert refers_insert refers_opt_insert publish_service_def host_known_def split: if_split_asm)

lemma refs_set_host_scan: "refs_ok s \<Longrightarrow> set_host_scan now i a b c e s = Inr s1 \<Longrightarrow> refs_ok s1"
  by (clarsimp simp: refs_defs id_defs refers_upsert refers_insert refers_opt_insert set_host_scan_def host_known_def split: if_split_asm)

lemma refs_set_secret: "refs_ok s \<Longrightarrow> set_secret seal k now n nm v hs s = Inr s1 \<Longrightarrow> refs_ok s1"
  by (clarsimp simp: refs_defs id_defs refers_upsert refers_insert refers_opt_insert set_secret_def Let_def split: if_split_asm)

lemma refs_record_metric: "refs_ok s \<Longrightarrow> record_metric now i u t l g m s = Inr s1 \<Longrightarrow> refs_ok s1"
  by (clarsimp simp: refs_defs id_defs refers_upsert refers_insert refers_opt_insert record_metric_def host_known_def split: if_split_asm)

lemma refs_record_usage: "refs_ok s \<Longrightarrow> record_usage now i j m a b c d e s = Inr s1 \<Longrightarrow> refs_ok s1"
  by (clarsimp simp: refs_defs id_defs refers_upsert refers_insert refers_opt_insert record_usage_def host_known_def split: if_split_asm)

text \<open>Then the ones that take other rows with them.\<close>

lemma cascade_set: "set (map k (filter p rows)) = k ` {x \<in> set rows. p x}"
  by simp

lemma refs_drop_jobs: "refs_ok s \<Longrightarrow> refs_ok (drop_jobs p s)"
  unfolding refs_defs id_defs drop_jobs_def Let_def cascade_set
  by (simp del: set_delete_where add: refers_cascade refers_delete refers_opt_delete)

lemma refs_drop_tasks: "refs_ok s \<Longrightarrow> refs_ok (drop_tasks p s)"
  unfolding refs_defs id_defs drop_tasks_def Let_def cascade_set
  by (simp del: set_delete_where add: refers_cascade refers_delete refers_opt_delete)

lemma refs_drop_workspaces: "refs_ok s \<Longrightarrow> refs_ok (drop_workspaces p s)"
  unfolding refs_defs id_defs drop_workspaces_def Let_def cascade_set
  by (simp del: set_delete_where add: refers_cascade refers_delete refers_opt_delete)

lemma refs_drop_devices: "refs_ok s \<Longrightarrow> refs_ok (drop_devices p s)"
  unfolding refs_defs id_defs drop_devices_def Let_def cascade_set
  by (simp del: set_delete_where add: refers_cascade refers_delete refers_opt_delete)

lemma refs_drop_users: "refs_ok s \<Longrightarrow> refs_ok (drop_users p s)"
  unfolding refs_defs id_defs drop_users_def Let_def cascade_set
  by (simp del: set_delete_where add: refers_cascade refers_opt_cascade refers_delete refers_opt_delete)

lemma refs_drop_windows: "refs_ok s \<Longrightarrow> refs_ok (drop_windows p s)"
  unfolding refs_defs id_defs drop_windows_def Let_def cascade_set
  by (simp del: set_delete_where add: refers_opt_set_null)

lemma refers_keep:
  "refers f (k ` set rows) refs \<Longrightarrow> \<forall>r \<in> set refs. f r \<notin> k ` {x \<in> set rows. p x} \<Longrightarrow>
   refers f (k ` set (delete_where p rows)) refs"
  by (fastforce simp: refers_def)

lemma refs_drop_cluster_rows:
  "refs_ok s \<Longrightarrow> \<forall>w \<in> set (tb_workspaces s). ws_cluster w \<notin> cl_id ` {c \<in> set (tb_clusters s). p c} \<Longrightarrow>
   refs_ok (s\<lparr>tb_clusters := delete_where p (tb_clusters s),
     tb_members := delete_where (\<lambda>m. cm_cluster m \<in> cl_id ` {c \<in> set (tb_clusters s). p c}) (tb_members s)\<rparr>)"
  unfolding refs_defs id_defs
  by (simp del: set_delete_where add: refers_cascade refers_delete refers_keep)

lemma refs_drop_clusters: "refs_ok s \<Longrightarrow> refs_ok (drop_clusters p s)"
proof -
  assume ok: "refs_ok s"
  let ?gone = "cl_id ` {c \<in> set (tb_clusters s). p c}"
  let ?s1 = "drop_workspaces (\<lambda>w. ws_cluster w \<in> ?gone) s"
  have "tb_clusters ?s1 = tb_clusters s" "\<forall>w \<in> set (tb_workspaces ?s1). ws_cluster w \<notin> ?gone"
    by (simp_all add: drop_workspaces_def Let_def)
  with refs_drop_workspaces [OF ok] show ?thesis
    using refs_drop_cluster_rows [of ?s1 p]
    unfolding drop_clusters_def Let_def cascade_set by simp
qed

text \<open>What is left of a machine when its jobs, tasks and clusters are gone.\<close>

definition detached :: "int \<Rightarrow> db \<Rightarrow> bool" where
  "detached i s \<longleftrightarrow> (\<forall>j \<in> set (tb_jobs s). j_host j \<noteq> i) \<and> (\<forall>t \<in> set (tb_tasks s). t_host t \<noteq> Some i) \<and>
     (\<forall>c \<in> set (tb_clusters s). cl_gateway c \<noteq> i)"

lemma refs_drop_host_row:
  assumes "refs_ok s" and "detached i s"
  shows "refs_ok (s\<lparr>tb_hosts := delete_where (\<lambda>h. h_id h = i) (tb_hosts s),
            tb_codes := update_where (\<lambda>c. c_rebuild c = Some i) (\<lambda>c. c\<lparr>c_rebuild := None\<rparr>) (tb_codes s),
            tb_metrics := delete_where (\<lambda>m. me_host m = i) (tb_metrics s),
            tb_metrics_hourly := delete_where (\<lambda>m. me_host m = i) (tb_metrics_hourly s),
            tb_usage := delete_where (\<lambda>u. u_host u = i) (tb_usage s),
            tb_usage_hourly := delete_where (\<lambda>u. uh_host u = i) (tb_usage_hourly s),
            tb_runs := update_where (\<lambda>r. r_host r = Some i) (\<lambda>r. r\<lparr>r_host := None\<rparr>) (tb_runs s),
            tb_members := delete_where (\<lambda>m. cm_host m = i) (tb_members s),
            tb_ws_members := delete_where (\<lambda>m. snd m = i) (tb_ws_members s),
            tb_services := delete_where (\<lambda>v. sv_host v = i) (tb_services s),
            tb_sightings := delete_where (\<lambda>g. sg_host g = i) (tb_sightings s),
            tb_scans := delete_where (\<lambda>c. sc_host c = i) (tb_scans s)\<rparr>)"
  using assms unfolding refs_defs detached_def
  by (simp del: set_delete_where add: id_defs image_delete_id refers_minus refers_minus_none
      refers_opt_minus_none refers_opt_minus_null refers_delete)

lemma detached_after_drops:
  "detached i (drop_clusters (\<lambda>c. cl_gateway c = i) (drop_tasks (\<lambda>t. t_host t = Some i) (drop_jobs (\<lambda>j. j_host j = i) s)))"
  by (simp add: detached_def drop_clusters_def drop_workspaces_def drop_tasks_def drop_jobs_def Let_def)

lemma refs_remove_host: "refs_ok s \<Longrightarrow> refs_ok (remove_host i s)"
  unfolding remove_host_def Let_def
  by (intro refs_drop_host_row refs_drop_clusters refs_drop_tasks refs_drop_jobs detached_after_drops)

end
