(* ===== verification/StoreKeys.thy ===== *)
theory StoreKeys
  imports StoreClusters StoreAuth StorePeers StoreDevices StoreSecrets StoreUsage
begin

text \<open>
  \<open>keys_ok\<close>: every PRIMARY KEY and UNIQUE constraint of the schema as an invariant of the store,
  kept by every operation that changes a table.
\<close>

definition keys_core :: "db \<Rightarrow> bool" where
  "keys_core s \<longleftrightarrow>
     keyed e_id (tb_events s) \<and> keyed fst (tb_settings s) \<and> keyed w_id (tb_windows s) \<and>
     keyed h_id (tb_hosts s) \<and> keyed h_name (tb_hosts s) \<and> keyed c_code (tb_codes s) \<and>
     keyed j_id (tb_jobs s) \<and> keyed je_id (tb_job_events s) \<and> keyed t_id (tb_tasks s) \<and>
     keyed r_id (tb_runs s) \<and> keyed fst (tb_catalog s) \<and> keyed cl_id (tb_clusters s) \<and>
     keyed cl_name (tb_clusters s) \<and> keyed cm_id (tb_members s) \<and>
     keyed (\<lambda>m. (cm_host m, cm_path m)) (tb_members s) \<and> keyed ws_id (tb_workspaces s) \<and>
     keyed ws_name (tb_workspaces s) \<and> keyed id (tb_ws_members s)"

definition keys_more :: "db \<Rightarrow> bool" where
  "keys_more s \<longleftrightarrow>
     keyed us_id (tb_users s) \<and> keyed us_name (tb_users s) \<and> keyed cr_id (tb_credentials s) \<and>
     keyed se_token (tb_sessions s) \<and> keyed iv_code (tb_invites s) \<and> keyed tk_hash (tb_tokens s) \<and>
     keyed tk_name (tb_tokens s) \<and> keyed p_id (tb_peers s) \<and> keyed pj_id (tb_peer_jobs s) \<and>
     keyed sv_name (tb_services s) \<and> keyed (\<lambda>f. (fr_peer f, fr_service f)) (tb_fronts s) \<and>
     keyed (\<lambda>b. (pb_peer b, pb_service b, pb_dir b, pb_hour b)) (tb_peer_bytes s) \<and>
     keyed dv_id (tb_devices s) \<and> keyed (\<lambda>d. (dv_kind d, dv_addr d)) (tb_devices s) \<and>
     keyed (\<lambda>g. (sg_device g, sg_host g)) (tb_sightings s) \<and> keyed sc_host (tb_scans s) \<and>
     keyed sx_name (tb_secrets s) \<and> keyed (\<lambda>h. (uh_host h, uh_hour h)) (tb_usage_hourly s) \<and>
     keyed (\<lambda>m. (me_host m, me_at m)) (tb_metrics_hourly s) \<and> keyed fst (tb_usage_files s)"

definition keys_ok :: "db \<Rightarrow> bool" where
  "keys_ok s \<longleftrightarrow> keys_core s \<and> keys_more s"

lemmas keys_defs = keys_ok_def keys_core_def keys_more_def

lemma keys_ok_empty: "keys_ok empty_db"
  by (simp add: keys_defs empty_db_def)

lemma keyed_update_iff [simp]:
  "(\<And>r. k (f r) = k r) \<Longrightarrow> keyed k (update_where p f rows) = keyed k rows"
  by (simp add: keyed_def map_update_where)

lemma keyed_snoc [simp]: "keyed k (rows @ [r]) \<longleftrightarrow> keyed k rows \<and> k r \<notin> k ` set rows"
  by (auto simp: keyed_def)

lemma next_id_new [simp]: "next_id (map f rows) \<notin> f ` set rows"
  using next_id_fresh [of "map f rows"] by simp

lemma keyed_replace_row: "keyed k rows \<Longrightarrow> keyed k (replace_row k r rows)"
  by (auto simp: replace_row_def keyed_delete)

lemma keyed_fold_replace:
  "keyed k rows \<Longrightarrow> keyed k (fold (\<lambda>(x, rs). replace_row k (f x rs)) gs rows)"
  by (induction gs arbitrary: rows) (auto intro: keyed_replace_row)

lemma keys_update_host:
  "(\<And>h. h_id (f h) = h_id h) \<Longrightarrow> (\<And>h. h_name (f h) = h_name h) \<Longrightarrow> keys_ok s \<Longrightarrow> keys_ok (update_host i f s)"
  by (simp add: keys_defs update_host_def)

lemma keys_update_job: "(\<And>j. j_id (f j) = j_id j) \<Longrightarrow> keys_ok s \<Longrightarrow> keys_ok (update_job p f s)"
  by (simp add: keys_defs update_job_def)

lemma keys_update_device:
  "(\<And>d. dv_id (f d) = dv_id d) \<Longrightarrow> (\<And>d. dv_kind (f d) = dv_kind d) \<Longrightarrow> (\<And>d. dv_addr (f d) = dv_addr d) \<Longrightarrow>
   keys_ok s \<Longrightarrow> keys_ok (update_device i f s)"
  by (simp add: keys_defs update_device_def)

lemma keys_plain:
  assumes "keys_ok s"
  shows "keys_ok (record_event now kind subject message s)"
    "keys_ok (set_setting k v s)"
    "keys_ok (snd (create_window now n s))"
    "keys_ok (touch_window now i s)"
    "keys_ok (end_window now i sb s)"
    "keys_ok (snd (end_all_windows now s))"
    "keys_ok (snd (use_enroll_code now k s))"
    "keys_ok (add_proposal now k v s)"
    "keys_ok (snd (set_task_failing i b s))"
    "keys_ok (end_run now i x sb2 s)"
    "keys_ok (trim_runs i m s)"
    "keys_ok (set_catalog_entry k v s)"
    "keys_ok (delete_catalog_entry k s)"
    "keys_ok (remove_member i s)"
    "keys_ok (remove_workspace_member i x s)"
  using assms
  by (simp_all add: keys_defs record_event_def set_setting_def create_window_def touch_window_def
      end_window_def end_all_windows_def use_enroll_code_def add_proposal_def set_task_failing_def
      end_run_def trim_runs_def set_catalog_entry_def delete_catalog_entry_def remove_member_def
      remove_workspace_member_def Let_def keyed_upsert keyed_delete)

lemma keys_plain_auth:
  assumes "keys_ok s"
  shows "keys_ok (update_credential k v s)"
    "keys_ok (delete_session hash k s)"
    "keys_ok (delete_invite k s)"
    "keys_ok (snd (spend_invite now k s))"
    "keys_ok (delete_token k s)"
    "keys_ok (dedupe_token_names s)"
  using assms
  by (simp_all add: keys_defs update_credential_def delete_session_def delete_invite_def
      spend_invite_cases delete_token_def dedupe_token_names_def keyed_delete keyed_last_per_name
      keyed_hash_last_per_name)

lemma keys_plain_peers:
  assumes "keys_ok s"
  shows "keys_ok (seen_peer now p n b x y s)"
    "keys_ok (set_peer p b x y s)"
    "keys_ok (forget_peer p s)"
    "keys_ok (finish_peer_job i b t s)"
    "keys_ok (unpublish_service k s)"
    "keys_ok (seen_front p k s)"
    "keys_ok (set_front p k b n s)"
    "keys_ok (delete_secret k s)"
    "keys_ok (record_hub_usage k x us s)"
    "keys_ok (record_served now p b n k x y s)"
    "keys_ok (prune_usage now s)"
    "keys_ok (rollup_usage now s)"
    "keys_ok (rollup_metrics now s)"
  using assms
  by (simp_all add: keys_defs seen_peer_def set_peer_def forget_peer_def finish_peer_job_def
      unpublish_service_def seen_front_def set_front_def delete_secret_def record_hub_usage_def
      record_served_def prune_usage_def rollup_usage_def rollup_metrics_def keyed_upsert keyed_delete
      keyed_replace_row keyed_fold_replace front_is_def)

lemma keys_drops:
  assumes "keys_ok s"
  shows "keys_ok (drop_jobs pj s)" "keys_ok (drop_tasks pt s)" "keys_ok (drop_workspaces pw s)"
    "keys_ok (drop_clusters pc s)" "keys_ok (drop_windows pn s)" "keys_ok (drop_users pu s)"
    "keys_ok (drop_devices pd s)" "keys_ok (remove_host i s)"
  using assms
  by (simp_all add: keys_defs drop_jobs_def drop_tasks_def drop_workspaces_def drop_clusters_def
      drop_windows_def drop_users_def drop_devices_def remove_host_def Let_def keyed_delete)

section \<open>The operations that can fail\<close>

text \<open>Each changes at most one table, on the branch that succeeds.\<close>

lemma keys_add_host: "keys_ok s \<Longrightarrow> add_host now h s = Inr (i, s1) \<Longrightarrow> keys_ok s1"
  by (simp only: add_host_def Let_def split: if_split_asm) (clarsimp simp: keys_defs)+

lemma keys_set_host_status: "keys_ok s \<Longrightarrow> set_host_status now i st fs m s = Inr (p, s1) \<Longrightarrow> keys_ok s1"
proof -
  assume ok: "keys_ok s" and set: "set_host_status now i st fs m s = Inr (p, s1)"
  from set have "s1 = update_host i (case fs of
      Some f \<Rightarrow> (\<lambda>h. h\<lparr>h_status := st, h_facts := f, h_model := m, h_last_seen := Some (sql_stamp now)\<rparr>)
    | None \<Rightarrow> (\<lambda>h. h\<lparr>h_status := st\<rparr>)) s"
    unfolding set_host_status_def update_host_def by (simp split: option.split_asm if_split_asm)
  with ok show ?thesis by (simp add: keys_update_host split: option.split)
qed

lemma keys_new_enroll_code: "keys_ok s \<Longrightarrow> new_enroll_code now c n k r s = Inr (x, s1) \<Longrightarrow> keys_ok s1"
  by (simp only: new_enroll_code_def Let_def split: if_split_asm) (clarsimp simp: keys_defs)+

lemma keys_create_job: "keys_ok s \<Longrightarrow> create_job now h w c m t x s = Inr (i, s1) \<Longrightarrow> keys_ok s1"
  by (simp only: create_job_def Let_def split: if_split_asm) (clarsimp simp: keys_defs)+

lemma keys_end_job: "keys_ok s \<Longrightarrow> end_job now i st rp rs s = Inr s1 \<Longrightarrow> keys_ok s1"
  by (auto simp: end_job_def intro!: keys_update_job split: if_split_asm)

lemma keys_kill_job: "keys_ok s \<Longrightarrow> kill_job now i rs s = Inr (b, s1) \<Longrightarrow> keys_ok s1"
  by (auto simp: kill_job_def Let_def intro!: keys_update_job split: if_split_asm)

lemma keys_append_job_event: "keys_ok s \<Longrightarrow> append_job_event now i l s = Inr s1 \<Longrightarrow> keys_ok s1"
  by (simp only: append_job_event_def split: if_split_asm) (clarsimp simp: keys_defs)+

lemma keys_append_job_events: "keys_ok s \<Longrightarrow> append_job_events now i ls s = Inr s1 \<Longrightarrow> keys_ok s1"
proof (induction ls arbitrary: s)
  case (Cons l ls)
  then obtain s2 where "append_job_event now i l s = Inr s2" "append_job_events now i ls s2 = Inr s1"
    by (simp split: sum.splits)
  with Cons.IH Cons.prems(1) keys_append_job_event show ?case by metis
qed simp

lemma keys_save_task: "keys_ok s \<Longrightarrow> save_task now i n h c sc t e s = Inr (x, s1) \<Longrightarrow> keys_ok s1"
  by (simp only: save_task_def Let_def split: if_split_asm) (clarsimp simp: keys_defs)+

lemma keys_start_run: "keys_ok s \<Longrightarrow> start_run now t h n sk s = Inr (x, s1) \<Longrightarrow> keys_ok s1"
  by (simp only: start_run_def Let_def split: if_split_asm) (clarsimp simp: keys_defs)+

lemma keys_insert_member: "keys_ok s \<Longrightarrow> insert_member c h p s = Inr s1 \<Longrightarrow> keys_ok s1"
  by (simp only: insert_member_def split: if_split_asm) (clarsimp simp: keys_defs)+

lemma keys_insert_members: "keys_ok s \<Longrightarrow> insert_members c ms s = Inr s1 \<Longrightarrow> keys_ok s1"
proof (induction ms arbitrary: s)
  case (Cons m ms)
  then obtain s2 where "insert_member c (fst m) (snd m) s = Inr s2" "insert_members c ms s2 = Inr s1"
    by (simp split: sum.splits)
  with Cons.IH Cons.prems(1) keys_insert_member show ?case by metis
qed simp

lemma keys_create_cluster: "keys_ok s \<Longrightarrow> create_cluster n g p ms s = Inr (i, s1) \<Longrightarrow> keys_ok s1"
proof -
  assume ok: "keys_ok s" and made: "create_cluster n g p ms s = Inr (i, s1)"
  let ?s = "s\<lparr>tb_clusters := tb_clusters s @ [\<lparr>cl_id = next_id (map cl_id (tb_clusters s)), cl_name = n,
    cl_gateway = g, cl_path = p\<rparr>]\<rparr>"
  have "insert_members (next_id (map cl_id (tb_clusters s))) ms ?s = Inr s1" "n \<notin> cl_name ` set (tb_clusters s)"
    using made by (simp_all add: create_cluster_def Let_def split: if_split_asm sum.split_asm)
  moreover from this ok have "keys_ok ?s" by (simp add: keys_defs)
  ultimately show ?thesis using keys_insert_members by metis
qed

lemma keys_add_workspace_member: "keys_ok s \<Longrightarrow> add_workspace_member i h s = Inr s1 \<Longrightarrow> keys_ok s1"
  by (simp only: add_workspace_member_def split: if_split_asm) (clarsimp simp: keys_defs)+

lemma keys_add_workspace_members: "keys_ok s \<Longrightarrow> add_workspace_members i hs s = Inr s1 \<Longrightarrow> keys_ok s1"
proof (induction hs arbitrary: s)
  case (Cons h hs)
  then obtain s2 where "add_workspace_member i h s = Inr s2" "add_workspace_members i hs s2 = Inr s1"
    by (simp split: sum.splits)
  with Cons.IH Cons.prems(1) keys_add_workspace_member show ?case by metis
qed simp

lemma keys_create_workspace: "keys_ok s \<Longrightarrow> create_workspace n c hs s = Inr (i, s1) \<Longrightarrow> keys_ok s1"
proof -
  assume ok: "keys_ok s" and made: "create_workspace n c hs s = Inr (i, s1)"
  let ?s = "s\<lparr>tb_workspaces := tb_workspaces s @ [\<lparr>ws_id = next_id (map ws_id (tb_workspaces s)), ws_name = n,
    ws_cluster = c\<rparr>]\<rparr>"
  have "add_workspace_members (next_id (map ws_id (tb_workspaces s))) hs ?s = Inr s1" "n \<notin> ws_name ` set (tb_workspaces s)"
    using made by (simp_all add: create_workspace_def Let_def split: if_split_asm sum.split_asm)
  moreover from this ok have "keys_ok ?s" by (simp add: keys_defs)
  ultimately show ?thesis using keys_add_workspace_members by metis
qed

lemma keys_create_user: "keys_ok s \<Longrightarrow> create_user now u0 n r s = Inr (u, s1) \<Longrightarrow> keys_ok s1"
  by (simp only: create_user_def Let_def split: if_split_asm sum.split_asm) (clarsimp simp: keys_defs)+

lemma keys_add_credential: "keys_ok s \<Longrightarrow> add_credential now u c j s = Inr s1 \<Longrightarrow> keys_ok s1"
  by (simp only: add_credential_def split: if_split_asm) (clarsimp simp: keys_defs)+

lemma keys_set_role: "keys_ok s \<Longrightarrow> set_role n r s = Inr s1 \<Longrightarrow> keys_ok s1"
  by (simp only: set_role_def split: if_split_asm) (clarsimp simp: keys_defs)+

lemma keys_new_session: "keys_ok s \<Longrightarrow> new_session hash now t u s = Inr (x, s1) \<Longrightarrow> keys_ok s1"
  by (simp only: new_session_def split: if_split_asm) (clarsimp simp: keys_defs)+

lemma keys_new_invite: "keys_ok s \<Longrightarrow> new_invite now t r u s = Inr (x, s1) \<Longrightarrow> keys_ok s1"
  by (simp only: new_invite_def Let_def split: if_split_asm) (clarsimp simp: keys_defs)+

lemma no_row_no_key: "affected (\<lambda>t. k t = v) rows = 0 \<Longrightarrow> v \<notin> k ` set rows"
  by (auto simp: affected_zero)

lemma keys_new_token: "keys_ok s \<Longrightarrow> new_token hash now t n r s = Inr (x, s1) \<Longrightarrow> keys_ok s1"
  by (simp only: new_token_def Let_def split: if_split_asm) (clarsimp simp: keys_defs dest!: no_row_no_key)+

lemma keys_record_peer_job: "keys_ok s \<Longrightarrow> record_peer_job now p d m a r s = Inr (x, s1) \<Longrightarrow> keys_ok s1"
  by (simp only: record_peer_job_def Let_def split: if_split_asm) (clarsimp simp: keys_defs)+

lemma keys_add_peer_bytes: "keys_ok s \<Longrightarrow> add_peer_bytes now p v d n s = Inr s1 \<Longrightarrow> keys_ok s1"
  by (simp only: add_peer_bytes_def split: if_split_asm) (clarsimp simp: keys_defs keyed_upsert)+

lemma keys_publish_service: "keys_ok s \<Longrightarrow> publish_service n h p ps s = Inr s1 \<Longrightarrow> keys_ok s1"
  by (simp only: publish_service_def split: if_split_asm) (clarsimp simp: keys_defs keyed_upsert)+

lemma keys_set_host_scan: "keys_ok s \<Longrightarrow> set_host_scan now i a b c e s = Inr s1 \<Longrightarrow> keys_ok s1"
  by (simp only: set_host_scan_def split: if_split_asm) (clarsimp simp: keys_defs keyed_upsert)+

lemma keys_set_secret: "keys_ok s \<Longrightarrow> set_secret seal k now n nm v hs s = Inr s1 \<Longrightarrow> keys_ok s1"
  by (simp only: set_secret_def Let_def split: if_split_asm) (clarsimp simp: keys_defs keyed_upsert)+

lemma keys_record_metric: "keys_ok s \<Longrightarrow> record_metric now i u t l g m s = Inr s1 \<Longrightarrow> keys_ok s1"
  by (simp only: record_metric_def split: if_split_asm) (clarsimp simp: keys_defs)+

lemma keys_record_usage: "keys_ok s \<Longrightarrow> record_usage now i j m a b c d e s = Inr s1 \<Longrightarrow> keys_ok s1"
  by (simp only: record_usage_def split: if_split_asm) (clarsimp simp: keys_defs)+

lemma no_pair_no_key: "List.find (\<lambda>d. f d = x \<and> g d = y) rows = None \<Longrightarrow> (x, y) \<notin> (\<lambda>d. (f d, g d)) ` set rows"
  by (auto simp: find_none_iff)

lemma keys_sight_device: "keys_ok s \<Longrightarrow> sight_device now k a s = Inr (d, b, s1) \<Longrightarrow> keys_ok s1"
  by (cases "List.find (\<lambda>d. dv_kind d = k \<and> dv_addr d = a) (tb_devices s)")
    (clarsimp simp: keys_defs sight_device_def Let_def dest!: no_pair_no_key split: if_split_asm)+

lemma keys_put_sighting: "keys_ok s \<Longrightarrow> put_sighting now d i x s = Inr s1 \<Longrightarrow> keys_ok s1"
  by (simp only: put_sighting_def split: if_split_asm) (clarsimp simp: keys_defs keyed_upsert)+

lemma sight_all_Cons:
  assumes "sight_all now i (x # xs) s = Inr (rs, s3)"
  obtains d new s1 s2 rs' where "sight_device now (sn_kind x) (to_lower (sn_addr x)) s = Inr (d, new, s1)"
    "put_sighting now d i (if sn_detail x = '''' then ''{}'' else sn_detail x) s1 = Inr s2"
    "sight_all now i xs s2 = Inr (rs', s3)" "rs = (d, new) # rs'"
  using assms by (auto split: sum.split_asm prod.split_asm)

lemma keys_sight_all: "keys_ok s \<Longrightarrow> sight_all now i xs s = Inr (rs, s1) \<Longrightarrow> keys_ok s1"
proof (induction xs arbitrary: s rs)
  case (Cons x xs)
  then show ?case by (metis sight_all_Cons keys_sight_device keys_put_sighting)
qed simp

end
