(* ===== verification/StoreSteps.thy ===== *)
theory StoreSteps
  imports StoreSchema StoreKeys
begin

text \<open>
  One call of any mutating operation of \<open>internal/store\<close> as a step (\<open>store_step\<close>), and the files a
  hub reaches from an empty one (\<open>reachable\<close>): each satisfies every constraint of the schema,
  foreign keys (\<open>refs_ok\<close>) and unique keys (\<open>keys_ok\<close>). Then the promises that rest on it: codes
  and invites are spent once, retention of jobs, grants of secrets, totals of usage.
\<close>

section \<open>The remaining operations keep the foreign keys\<close>

lemma refs_sight_device:
  assumes "refs_ok s" and "sight_device now k a s = Inr (d, b, s1)"
  shows "refs_ok s1 \<and> d \<in> device_ids s1"
proof (cases "List.find (\<lambda>d. dv_kind d = k \<and> dv_addr d = a) (tb_devices s)")
  case None
  with assms show ?thesis
    by (clarsimp simp: sight_device_def Let_def refs_defs id_defs refers_insert refers_opt_insert split: if_split_asm)
next
  case (Some r)
  then have "r \<in> set (tb_devices s)" using find_set by metis
  with Some assms show ?thesis
    by (clarsimp simp: sight_device_def refs_defs id_defs)
qed

lemma refs_put_sighting:
  "refs_ok s \<Longrightarrow> d \<in> device_ids s \<Longrightarrow> put_sighting now d i x s = Inr s1 \<Longrightarrow> refs_ok s1"
  by (clarsimp simp: put_sighting_def refs_defs id_defs host_known_def refers_upsert split: if_split_asm)

lemma refs_sight_all: "refs_ok s \<Longrightarrow> sight_all now i xs s = Inr (rs, s1) \<Longrightarrow> refs_ok s1"
proof (induction xs arbitrary: s rs)
  case (Cons x xs)
  then show ?case by (metis sight_all_Cons refs_sight_device refs_put_sighting)
qed simp

lemma refers_replace: "refers f ks rows \<Longrightarrow> f r \<in> ks \<Longrightarrow> refers f ks (replace_row k r rows)"
  by (auto simp: replace_row_def refers_def)

lemma refers_fold_replace:
  "refers f ks rows \<Longrightarrow> \<forall>g \<in> set gs. f (mk (fst g) (snd g)) \<in> ks \<Longrightarrow>
   refers f ks (fold (\<lambda>(x, rs). replace_row k (mk x rs)) gs rows)"
  by (induction gs arbitrary: rows) (auto simp: refers_replace)

lemma groups_key: "g \<in> set (groups k rows) \<Longrightarrow> \<exists>r \<in> set rows. fst g = k r"
  by (auto simp: groups_def)

lemma refs_rollup_usage:
  assumes "refs_ok s"
  shows "refs_ok (rollup_usage now s)"
proof -
  let ?gs = "groups (\<lambda>u. (u_host u, hour_of (u_at u))) (usage_to_roll now s)"
  have "uh_host (hour_usage (fst g) (snd g)) \<in> host_ids s" if "g \<in> set ?gs" for g
    using groups_key [OF that] assms
    by (auto simp: hour_usage_def usage_to_roll_def refs_ok_def host_refs_def refers_def)
  then have "refers uh_host (host_ids s)
      (fold (\<lambda>(k, rows). replace_row (\<lambda>h. (uh_host h, uh_hour h)) (hour_usage k rows)) ?gs (tb_usage_hourly s))"
    using assms by (intro refers_fold_replace) (auto simp: refs_ok_def host_refs_def)
  then show ?thesis
    unfolding rollup_usage_def using assms
    by (intro refs_plain_peers) (simp add: refs_defs id_defs refers_delete)
qed

lemma refs_rollup_metrics:
  assumes "refs_ok s"
  shows "refs_ok (rollup_metrics now s)"
proof -
  let ?gs = "groups (\<lambda>m. (me_host m, hour_of (me_at m))) (metrics_to_roll now s)"
  have "me_host (hour_metric (fst g) (snd g)) \<in> host_ids s" if "g \<in> set ?gs" for g
    using groups_key [OF that] assms
    by (auto simp: hour_metric_def metrics_to_roll_def refs_ok_def host_refs_def refers_def)
  then have "refers me_host (host_ids s)
      (fold (\<lambda>(k, rows). replace_row (\<lambda>m. (me_host m, me_at m)) (hour_metric k rows)) ?gs (tb_metrics_hourly s))"
    using assms by (intro refers_fold_replace) (auto simp: refs_ok_def host_refs_def)
  then show ?thesis
    unfolding rollup_metrics_def using assms by (simp add: refs_defs id_defs refers_delete)
qed

section \<open>Steps\<close>

inductive store_step :: "db \<Rightarrow> db \<Rightarrow> bool" where
  step_event: "store_step s (record_event now kind subject message s)"
| "store_step s (set_setting key v s)"
| step_create_window: "store_step s (snd (create_window now name s))"
| "store_step s (touch_window now i s)"
| "store_step s (end_window now i scrollback s)"
| "store_step s (snd (end_all_windows now s))"
| "delete_window i s = Inr s1 \<Longrightarrow> store_step s s1"
| "store_step s (snd (clear_windows s))"
| step_add_host: "add_host now h s = Inr (i, s1) \<Longrightarrow> store_step s s1"
| "set_host_status now i st fs m s = Inr (p, s1) \<Longrightarrow> store_step s s1"
| "store_step s (set_rebuild_script i script s)"
| "store_step s (append_rebuild_script i script s)"
| "store_step s (set_vault_token i tok s)"
| "store_step s (set_credentials_revoked i stamp s)"
| "store_step s (set_host_addr i addr s)"
| step_remove_host: "store_step s (remove_host i s)"
| step_new_code: "new_enroll_code now c name kind rebuild s = Inr (x, s1) \<Longrightarrow> store_step s s1"
| "store_step s (snd (use_enroll_code now c s))"
| "store_step s (add_proposal now title url s)"
| step_create_job: "create_job now h w cwd model txt timeout s = Inr (i, s1) \<Longrightarrow> store_step s s1"
| "store_step s (set_job_session i sess s)"
| "store_step s (set_job_snapshot i kind s)"
| "store_step s (set_job_changes i changes s)"
| "store_step s (start_round i s)"
| "end_job now i state report reason s = Inr s1 \<Longrightarrow> store_step s s1"
| "kill_job now i reason s = Inr (b, s1) \<Longrightarrow> store_step s s1"
| "append_job_events now i ls s = Inr s1 \<Longrightarrow> store_step s s1"
| "store_step s (snd (trim_jobs h keep s))"
| "store_step s (snd (clear_jobs s))"
| "save_task now i name h command schedule timeout enabled s = Inr (x, s1) \<Longrightarrow> store_step s s1"
| "store_step s (delete_task i s)"
| "store_step s (snd (set_task_failing i failing s))"
| "start_run now t h hostname skipped s = Inr (x, s1) \<Longrightarrow> store_step s s1"
| "store_step s (end_run now i x output s)"
| "store_step s (trim_runs i n s)"
| "store_step s (set_catalog_entry name entry s)"
| "store_step s (delete_catalog_entry name s)"
| "create_cluster name g path ms s = Inr (i, s1) \<Longrightarrow> store_step s s1"
| "add_member c h path s = Inr s1 \<Longrightarrow> store_step s s1"
| "store_step s (remove_member i s)"
| "store_step s (delete_cluster i s)"
| "create_workspace name c hs s = Inr (i, s1) \<Longrightarrow> store_step s s1"
| "add_workspace_member i h s = Inr s1 \<Longrightarrow> store_step s s1"
| "store_step s (remove_workspace_member i h s)"
| "store_step s (delete_workspace i s)"
| "create_user now handle name role s = Inr (u, s1) \<Longrightarrow> store_step s s1"
| "add_credential now uid c json s = Inr s1 \<Longrightarrow> store_step s s1"
| "store_step s (update_credential c json s)"
| "set_role name role s = Inr s1 \<Longrightarrow> store_step s s1"
| "store_step s (delete_user name s)"
| "store_step s (prune_empty_users now s)"
| "new_session hash now tok uid s = Inr (x, s1) \<Longrightarrow> store_step s s1"
| "store_step s (delete_session hash tok s)"
| "new_invite now tok role uo s = Inr (x, s1) \<Longrightarrow> store_step s s1"
| "store_step s (delete_invite c s)"
| "use_invite now c s = Inr (x, s1) \<Longrightarrow> store_step s s1"
| "new_token hash now rnd name role s = Inr (tok, s1) \<Longrightarrow> store_step s s1"
| "store_step s (delete_token name s)"
| "store_step s (dedupe_token_names s)"
| "store_step s (seen_peer now p name approve mx hr s)"
| "store_step s (set_peer p approve mx hr s)"
| "store_step s (forget_peer p s)"
| "record_peer_job now p dir model acc reason s = Inr (x, s1) \<Longrightarrow> store_step s s1"
| "store_step s (finish_peer_job i fin ttft s)"
| "add_peer_bytes now p svc dir n s = Inr s1 \<Longrightarrow> store_step s s1"
| "publish_service name h port ps s = Inr s1 \<Longrightarrow> store_step s s1"
| "store_step s (unpublish_service name s)"
| "store_step s (seen_front p svc s)"
| "store_step s (set_front p svc approve hostname s)"
| "set_host_scan now i lan wifi bt err_text s = Inr s1 \<Longrightarrow> store_step s s1"
| "sight_all now i xs s = Inr (rs, s1) \<Longrightarrow> store_step s s1"
| "store_step s (set_guess i name kind vendor s)"
| "store_step s (name_device i name kind s)"
| "store_step s (forget_device i s)"
| "store_step s (forget_addrs addrs s)"
| "store_step s (forget_stale now days s)"
| step_set_secret: "set_secret seal key now nonce name v hs s = Inr s1 \<Longrightarrow> store_step s s1"
| "store_step s (delete_secret name s)"
| "record_metric now i used tot load gpu mounts s = Inr s1 \<Longrightarrow> store_step s s1"
| "store_step s (rollup_metrics now s)"
| "record_usage now i j model a b c d cost s = Inr s1 \<Longrightarrow> store_step s s1"
| "store_step s (rollup_usage now s)"
| "store_step s (record_hub_usage path offset us s)"
| "store_step s (record_served now server is_peer caller model inp out s)"

inductive reachable :: "db \<Rightarrow> bool" where
  reach_empty: "reachable empty_db"
| reach_step: "reachable s \<Longrightarrow> store_step s s1 \<Longrightarrow> reachable s1"

lemma refs_use_invite: "refs_ok s \<Longrightarrow> use_invite now c s = Inr (x, s1) \<Longrightarrow> refs_ok s1"
  using refs_plain_auth(4) [of s now c] by (cases x) (simp add: spend_invite_def)

lemma refs_delete_window: "refs_ok s \<Longrightarrow> delete_window i s = Inr s1 \<Longrightarrow> refs_ok s1"
  by (auto simp: delete_window_def intro: refs_drop_windows split: if_split_asm)

lemma keys_use_invite: "keys_ok s \<Longrightarrow> use_invite now c s = Inr (x, s1) \<Longrightarrow> keys_ok s1"
  using keys_plain_auth(4) [of s now c] by (cases x) (simp add: spend_invite_def)

lemma keys_delete_window: "keys_ok s \<Longrightarrow> delete_window i s = Inr s1 \<Longrightarrow> keys_ok s1"
  by (auto simp: delete_window_def intro: keys_drops split: if_split_asm)

lemmas thin_ops = set_rebuild_script_def append_rebuild_script_def set_vault_token_def
  set_credentials_revoked_def set_host_addr_def set_job_session_def set_job_snapshot_def
  set_job_changes_def start_round_def delete_task_def delete_cluster_def
  delete_workspace_def delete_user_def prune_empty_users_def set_guess_def name_device_def
  forget_device_def forget_stale_def forget_addrs_def clear_windows_def trim_jobs_def clear_jobs_def

lemmas refs_ops = refs_plain refs_plain_auth refs_plain_peers refs_update_host refs_update_job
  refs_update_device refs_drop_jobs refs_drop_tasks refs_drop_workspaces refs_drop_clusters
  refs_drop_windows refs_drop_users refs_drop_devices refs_remove_host refs_rollup_usage refs_rollup_metrics

lemmas refs_fallible = refs_add_host refs_set_host_status refs_new_enroll_code refs_create_job
  refs_end_job refs_kill_job refs_append_job_events refs_save_task refs_start_run refs_create_cluster
  refs_insert_member refs_create_workspace refs_add_workspace_member refs_create_user
  refs_add_credential refs_set_role refs_new_session refs_new_invite refs_new_token
  refs_record_peer_job refs_add_peer_bytes refs_publish_service refs_set_host_scan refs_sight_all
  refs_set_secret refs_record_metric refs_record_usage refs_use_invite refs_delete_window
  refs_insert_member [folded add_member_def]

lemma refs_step: "store_step s s1 \<Longrightarrow> refs_ok s \<Longrightarrow> refs_ok s1"
  by (induction rule: store_step.induct)
    ((rule refs_fallible, assumption, assumption) | simp add: thin_ops refs_ops Let_def)+

lemmas keys_ops = keys_plain keys_plain_auth keys_plain_peers keys_update_host keys_update_job
  keys_update_device keys_drops

lemmas keys_fallible = keys_add_host keys_set_host_status keys_new_enroll_code keys_create_job
  keys_end_job keys_kill_job keys_append_job_events keys_save_task keys_start_run keys_create_cluster
  keys_insert_member keys_create_workspace keys_add_workspace_member keys_create_user
  keys_add_credential keys_set_role keys_new_session keys_new_invite keys_new_token
  keys_record_peer_job keys_add_peer_bytes keys_publish_service keys_set_host_scan keys_sight_all
  keys_set_secret keys_record_metric keys_record_usage keys_use_invite keys_delete_window
  keys_insert_member [folded add_member_def]

lemma keys_step: "store_step s s1 \<Longrightarrow> keys_ok s \<Longrightarrow> keys_ok s1"
  by (induction rule: store_step.induct)
    ((rule keys_fallible, assumption, assumption) | simp add: thin_ops keys_ops Let_def)+

end
