(* ===== verification/StoreLaws.thy ===== *)
theory StoreLaws
  imports StoreSteps
begin

text \<open>
  What the store promises its callers: the schema's constraints in every reachable file, codes that
  are spent once, what removing a machine takes with it and what it leaves behind, secrets read
  only where they are granted, retention of jobs, what a scan may change, and the lists that are
  stored joined.
\<close>

lemma upsert_in: "r \<in> set rows \<Longrightarrow> (if p r then upd r else r) \<in> set (upsert p ins upd rows)"
  by (auto simp: upsert_def update_where_def list_ex_iff)

lemma upsert_hit: "r \<in> set (upsert p ins upd rows) \<Longrightarrow> p r \<Longrightarrow> r = ins \<or> (\<exists>x. r = upd x)"
  by (auto simp: upsert_def update_where_def list_ex_iff split: if_split_asm)

section \<open>The constraints hold\<close>

text \<open>SQLite refuses what would break them; what is shown is that cascades and clearings leave nothing dangling.\<close>

lemma reachable_ok: "reachable s \<Longrightarrow> refs_ok s \<and> keys_ok s"
  by (induction rule: reachable.induct) (auto intro: refs_ok_empty keys_ok_empty refs_step keys_step)

lemma reachable_codes: "reachable s \<Longrightarrow> keyed c_code (tb_codes s)"
  using reachable_ok by (simp add: keys_ok_def keys_core_def)

section \<open>Enrollment codes\<close>

text \<open>A run of attempts to spend codes, each at its own clock reading; the answers in order.\<close>

fun redeem_codes :: "(instant \<times> string) list \<Rightarrow> db \<Rightarrow> bool list" where
  "redeem_codes [] s = []"
| "redeem_codes ((now, c) # cs) s =
     fst (use_enroll_code now c s) # redeem_codes cs (snd (use_enroll_code now c s))"

lemma redeem_codes_spend_all: "redeem_codes cs s = codes.spend_all cs s"
  by (induction cs s rule: redeem_codes.induct) simp_all

text \<open>
  C15: However enrollment codes are presented to a reachable store, by whomever, in whatever order and at
  whatever clock readings, no code is accepted twice.
\<close>

theorem enroll_code_accepted_once:
  "reachable s \<Longrightarrow> i < j \<Longrightarrow> j < length cs \<Longrightarrow> snd (cs ! i) = snd (cs ! j) \<Longrightarrow> redeem_codes cs s ! i \<Longrightarrow>
   \<not> redeem_codes cs s ! j"
  unfolding redeem_codes_spend_all using codes.spent_at_most_once reachable_codes by blast

definition one_code :: db where
  "one_code = empty_db\<lparr>tb_codes := [\<lparr>c_code = ''k7'', c_name = ''nas'', c_kind = ''compute'',
     c_rebuild = None, c_expires = 900, c_used = False\<rparr>]\<rparr>"

lemma one_code_minted: "new_enroll_code 0 ''k7'' ''nas'' '''' 0 empty_db = Inr (hd (tb_codes one_code), one_code)"
  by (simp add: new_enroll_code_def one_code_def empty_db_def host_kinds_def rfc3339_def clock_defs Let_def)

theorem enroll_code_accepted_once_witness:
  "redeem_codes [(5, ''k7''), (6, ''k7'')] one_code ! 0 \<and> \<not> redeem_codes [(5, ''k7''), (6, ''k7'')] one_code ! 1"
proof -
  have reach: "reachable one_code"
    by (rule reach_step [OF reach_empty]) (rule step_new_code [OF one_code_minted])
  have first: "redeem_codes [(5, ''k7''), (6, ''k7'')] one_code ! 0"
    by (simp add: one_code_def use_enroll_code_def code_live_def affected_def rfc3339_def second_def)
  then show ?thesis
    using enroll_code_accepted_once [OF reach, of 0 1 "[(5, ''k7''), (6, ''k7'')]"] by simp
qed

text \<open>
  A code just minted is accepted exactly while the clock, in whole seconds, is before fifteen minutes
  after minting, and it carries the name it was minted for.
\<close>

theorem enroll_code_fifteen_minutes:
  assumes "new_enroll_code now c name kind rebuild s = Inr (row, s1)"
  shows "enroll_code t c s1 = (if rfc3339 t < rfc3339 (now + 15 * minute) then Some row else None) \<and>
    c_name row = name"
proof -
  have s1: "s1 = s\<lparr>tb_codes := tb_codes s @ [row]\<rparr>" and row: "c_code row = c" "\<not> c_used row"
    "c_expires row = rfc3339 (now + 15 * minute)" "c_name row = name" and new: "c \<notin> set (map c_code (tb_codes s))"
    using assms by (auto simp: new_enroll_code_def Let_def split: if_split_asm)
  have "List.find (code_live t c) (tb_codes s) = None"
    using new by (auto simp: find_none_iff code_live_def)
  then show ?thesis
    using row by (simp add: s1 enroll_code_def find_snoc code_live_def)
qed

theorem enroll_code_fifteen_minutes_witness:
  "enroll_code (899 * second) ''k7'' one_code = Some (hd (tb_codes one_code))"
  using enroll_code_fifteen_minutes [OF one_code_minted, of "899 * second"]
  by (simp add: rfc3339_def clock_defs)

section \<open>Removing a machine\<close>

lemma remove_host_tables:
  "tb_hosts (remove_host i s) = filter (\<lambda>h. h_id h \<noteq> i) (tb_hosts s)"
  "tb_jobs (remove_host i s) = filter (\<lambda>j. j_host j \<noteq> i) (tb_jobs s)"
  "tb_tasks (remove_host i s) = filter (\<lambda>t. t_host t \<noteq> Some i) (tb_tasks s)"
  "tb_services (remove_host i s) = filter (\<lambda>v. sv_host v \<noteq> i) (tb_services s)"
  "tb_users (remove_host i s) = tb_users s" "tb_tokens (remove_host i s) = tb_tokens s"
  "tb_peers (remove_host i s) = tb_peers s" "tb_secrets (remove_host i s) = tb_secrets s"
  by (simp_all add: remove_host_def drop_jobs_def drop_tasks_def drop_clusters_def drop_workspaces_def
      delete_where_def Let_def)

text \<open>
  Removing a machine forgets the machine and everything that was only about it, and nothing else:
  afterwards no row of any table refers to it, the jobs, tasks and services left are exactly those of
  the other machines, and accounts, tokens, peers and secrets are as they were.
\<close>

theorem remove_host_forgets_only_it:
  assumes "reachable s"
  shows "i \<notin> host_ids (remove_host i s) \<and> host_refs (remove_host i s) \<and>
    tb_jobs (remove_host i s) = filter (\<lambda>j. j_host j \<noteq> i) (tb_jobs s) \<and>
    tb_tasks (remove_host i s) = filter (\<lambda>t. t_host t \<noteq> Some i) (tb_tasks s) \<and>
    tb_services (remove_host i s) = filter (\<lambda>v. sv_host v \<noteq> i) (tb_services s) \<and>
    tb_users (remove_host i s) = tb_users s \<and> tb_tokens (remove_host i s) = tb_tokens s \<and>
    tb_peers (remove_host i s) = tb_peers s \<and> tb_secrets (remove_host i s) = tb_secrets s"
proof -
  have "refs_ok (remove_host i s)"
    using assms reachable_ok refs_remove_host by blast
  then show ?thesis
    by (auto simp: refs_ok_def remove_host_tables host_ids_def)
qed

text \<open>A file with one machine and a running job, reached by enrolling the one and starting the other.\<close>

definition nas_row :: host_row where
  "nas_row = \<lparr>h_id = 0, h_name = ''nas'', h_kind = ''compute'', h_addr = ''nas'', h_port = 22, h_user = ''homedash'',
     h_key = '''', h_status = '''', h_facts = no_facts, h_model = '''', h_rebuild = '''', h_vault = '''', h_revoked = '''',
     h_enrolled = 0, h_last_seen = None\<rparr>"

lemma nas_job:
  "\<exists>s j. reachable s \<and> host_ids s = {1} \<and> tb_jobs s = [j] \<and> j_host j = 1 \<and> j_state j = ''running''"
proof -
  obtain s1 where s1: "add_host 0 nas_row empty_db = Inr (1, s1)"
    and tabs: "host_ids s1 = {1}" "map h_id (tb_hosts s1) = [1]" "tb_jobs s1 = []"
    by (simp add: add_host_def nas_row_def host_kinds_def next_id_def empty_db_def host_ids_def Let_def)
  obtain s2 where s2: "create_job 0 1 0 '''' '''' ''fix it'' 60 s1 = Inr (1, s2)"
    and rows: "host_ids s2 = {1}" "length (tb_jobs s2) = 1" "\<forall>j \<in> set (tb_jobs s2). j_host j = 1 \<and> j_state j = ''running''"
    using tabs by (auto simp: create_job_def host_known_def next_id_def host_ids_def Let_def)
  have "reachable s2"
    by (rule reach_step [OF reach_step [OF reach_empty step_add_host [OF s1]] step_create_job [OF s2]])
  with rows show ?thesis by (cases "tb_jobs s2") auto
qed

theorem remove_host_forgets_only_it_witness:
  "\<exists>s. reachable s \<and> 1 \<in> host_ids s \<and> tb_jobs s \<noteq> [] \<and> 1 \<notin> host_ids (remove_host 1 s) \<and> tb_jobs (remove_host 1 s) = []"
proof -
  obtain s j where s: "reachable s" "host_ids s = {1}" "tb_jobs s = [j]" "j_host j = 1"
    using nas_job by blast
  with remove_host_forgets_only_it [OF s(1), of 1] show ?thesis by (intro exI [of _ s]) simp
qed

section \<open>Secrets\<close>

text \<open>
  C34: A value stored for some machines is read back by exactly those (by every machine when the list is
  empty); for any other machine the answer is the one for a name the hub does not hold. \<open>unseal\<close> is
  the inverse of \<open>seal\<close> under the same key, nonce and name.
\<close>

theorem secret_read_where_granted:
  assumes law: "\<And>k n v a. unseal k n (seal k n v a) a = Some v"
    and set: "set_secret seal key now nonce name v hs s = Inr s1"
    and keyed: "keyed sx_name (tb_secrets s)"
    and range: "\<forall>h \<in> set hs. in_i64 h"
  shows "read_secret unseal key (trim_space name) i s1 = (if hs = [] \<or> i \<in> set hs then Inr v else Inl NoSecret)"
proof -
  let ?n = "trim_space name"
  define upd where "upd = (\<lambda>x :: secret_row. x\<lparr>sx_cipher := seal key nonce v ?n, sx_nonce := nonce,
    sx_hosts := join '','' (map itoa hs), sx_updated := sql_stamp now\<rparr>)"
  define ins where "ins = \<lparr>sx_name = ?n, sx_cipher = seal key nonce v ?n, sx_nonce = nonce,
    sx_hosts = join '','' (map itoa hs), sx_created = sql_stamp now, sx_updated = sql_stamp now\<rparr>"
  let ?t = "upsert (\<lambda>x. sx_name x = ?n) ins upd (tb_secrets s)"
  have s1: "tb_secrets s1 = ?t"
    using set by (auto simp: set_secret_def upd_def ins_def Let_def split: if_split_asm)
  have "\<exists>x \<in> set ?t. sx_name x = ?n"
    by (auto simp: upsert_def list_ex_iff bex_update_where upd_def ins_def)
  then obtain x where x: "List.find (\<lambda>x. sx_name x = ?n) ?t = Some x"
    unfolding find_some_iff [symmetric] by blast
  then have "x \<in> set ?t" "sx_name x = ?n" using find_set by fast+
  then have "x = ins \<or> (\<exists>y. x = upd y)" using upsert_hit [of x "\<lambda>x. sx_name x = ?n" ins upd] by blast
  then have "sx_cipher x = seal key nonce v ?n \<and> sx_nonce x = nonce \<and> sx_hosts x = join '','' (map itoa hs)"
    by (auto simp: upd_def ins_def)
  then show ?thesis
    using law by (simp add: read_secret_def s1 x parse_ids_join [OF range] granted_def)
qed

theorem secret_read_where_granted_witness:
  "read_secret (\<lambda>k n c a. Some c) ''key'' ''db'' 2 (empty_db\<lparr>tb_secrets := [\<lparr>sx_name = ''db'', sx_cipher = ''pw'',
      sx_nonce = ''n'', sx_hosts = ''2'', sx_created = 0, sx_updated = 0\<rparr>]\<rparr>) = Inr ''pw''"
proof -
  have n: "trim_space ''db'' = ''db''"
    by (simp add: trim_space_def trim_def trim_left_def trim_right_def is_space_def)
  moreover have "itoa 2 = ''2''" by code_simp
  ultimately have "set_secret (\<lambda>k n v a. v) ''key'' 0 ''n'' ''db'' ''pw'' [2] empty_db =
      Inr (empty_db\<lparr>tb_secrets := [\<lparr>sx_name = ''db'', sx_cipher = ''pw'', sx_nonce = ''n'',
        sx_hosts = ''2'', sx_created = 0, sx_updated = 0\<rparr>]\<rparr>)"
    by (simp add: set_secret_def empty_db_def upsert_def contains_any_def newline_def sql_stamp_def Let_def)
  with n show ?thesis
    using secret_read_where_granted [of "\<lambda>k n c a. Some c" "\<lambda>k n v a. v" "''key''" 0 "''n''" "''db''" "''pw''" "[2]"
        empty_db _ 2]
    by (simp add: in_i64_def empty_db_def)
qed

text \<open>
  A grant outlives its machine. Identifiers are one more than the largest in use, so when the newest
  machine is removed the next one enrolled takes its identifier, and with it every secret that was
  granted to the removed machine alone.
\<close>

theorem removed_host_grants_pass_on:
  assumes "i \<in> host_ids s" and "\<forall>j \<in> host_ids s. j \<le> i" and "i = 1 \<or> 1 < i \<and> i - 1 \<in> host_ids s"
    and "add_host now h (remove_host i s) = Inr (i', s1)"
  shows "i' = i \<and> read_secret unseal key name i' s1 = read_secret unseal key name i s"
proof -
  let ?rest = "map h_id (filter (\<lambda>h. h_id h \<noteq> i) (tb_hosts s))"
  have le: "\<forall>j \<in> set ?rest. j \<le> i - 1"
    using assms(2) by (fastforce simp: host_ids_def)
  have "1 < i \<Longrightarrow> i - 1 \<in> set ?rest" using assms(3) by (auto simp: host_ids_def)
  then have "next_id ?rest = i"
    using assms(3) le fold_max_ge [of "i - 1" ?rest 0] fold_max_le [of ?rest "i - 1" 0]
    by (auto simp: next_id_def)
  then have "i' = i" and "tb_secrets s1 = tb_secrets s"
    using assms(4) by (auto simp: add_host_def remove_host_tables Let_def split: if_split_asm)
  then show ?thesis by (simp add: read_secret_def)
qed

definition nas_and_pi :: db where
  "nas_and_pi = empty_db\<lparr>tb_hosts := map (\<lambda>(i, n). \<lparr>h_id = i, h_name = n, h_kind = ''compute'', h_addr = n,
     h_port = 22, h_user = ''homedash'', h_key = '''', h_status = ''online'', h_facts = no_facts, h_model = '''',
     h_rebuild = '''', h_vault = '''', h_revoked = '''', h_enrolled = 0, h_last_seen = None\<rparr>)
     [(1, ''nas''), (2, ''pi'')]\<rparr>"

theorem removed_host_grants_pass_on_witness:
  "\<forall>unseal key name. \<exists>s1.
     add_host 0 (hd (tb_hosts nas_and_pi)\<lparr>h_name := ''new''\<rparr>) (remove_host 2 nas_and_pi) = Inr (2, s1) \<and>
     read_secret unseal key name 2 s1 = read_secret unseal key name 2 nas_and_pi"
proof -
  let ?h = "hd (tb_hosts nas_and_pi)\<lparr>h_name := ''new''\<rparr>"
  have "is_ok (add_host 0 ?h (remove_host 2 nas_and_pi))"
    by (simp add: add_host_def remove_host_tables nas_and_pi_def host_kinds_def Let_def)
  then obtain i' s1 where "add_host 0 ?h (remove_host 2 nas_and_pi) = Inr (i', s1)"
    by (auto simp: is_ok_iff)
  moreover have "host_ids nas_and_pi = {1, 2}" by (auto simp: host_ids_def nas_and_pi_def)
  ultimately show ?thesis
    using removed_host_grants_pass_on [of 2 nas_and_pi 0 ?h i' s1] by auto
qed

section \<open>Jobs\<close>

text \<open>
  Killing a running job always fails: the state the statement writes is not one the schema allows, so
  the job stays running; killing any other job changes nothing.
\<close>

theorem kill_job_never_takes_effect:
  "kill_job now i reason s =
     (if \<exists>j \<in> set (tb_jobs s). running_job i j then Inl SqlCheck else Inr (False, s))"
  by (simp add: kill_job_def affected_pos update_job_def update_where_none job_states_def)

lemma take_newest:
  "sorted_wrt (\<lambda>a b. k b < k a) xs \<Longrightarrow> x \<in> set xs \<Longrightarrow>
   x \<in> set (take n xs) \<longleftrightarrow> card {y \<in> set xs. (k x :: int) < k y} < n"
proof (induction xs arbitrary: n)
  case (Cons y ys)
  show ?case
  proof (cases n)
    case (Suc m)
    show ?thesis
    proof (cases "x = y")
      case True
      with Cons.prems have "{z \<in> set (y # ys). k x < k z} = {}" by auto
      then have "card {z \<in> set (y # ys). k x < k z} < n" unfolding Suc by (simp only: card.empty zero_less_Suc)
      moreover have "x \<in> set (take n (y # ys))" using True Suc by simp
      ultimately show ?thesis by blast
    next
      case False
      with Cons.prems have x: "x \<in> set ys" "k x < k y" by auto
      have "{z \<in> set (y # ys). k x < k z} = insert y {z \<in> set ys. k x < k z}" using x by auto
      moreover have "y \<notin> {z \<in> set ys. k x < k z}" using Cons.prems by auto
      ultimately have "card {z \<in> set (y # ys). k x < k z} = Suc (card {z \<in> set ys. k x < k z})" by simp
      with Cons.IH [of m] Cons.prems x False Suc show ?thesis by simp
    qed
  qed simp
qed simp

lemma desc_strict:
  "sorted_wrt (\<lambda>a b. k b \<le> k a) xs \<Longrightarrow> distinct (map k xs) \<Longrightarrow> sorted_wrt (\<lambda>a b. (k b :: int) < k a) xs"
proof (induction xs)
  case (Cons a xs)
  have "k b < k a" if "b \<in> set xs" for b
  proof -
    have "k b \<le> k a" "k a \<notin> k ` set xs" using Cons.prems that by auto
    moreover have "k b \<in> k ` set xs" using that by simp
    ultimately show ?thesis by (metis order_le_imp_less_or_eq)
  qed
  with Cons show ?case by simp
qed simp

lemma order_desc_strict:
  assumes "keyed k rows"
  shows "sorted_wrt (\<lambda>a b. (k b :: int) < k a) (order_by (by_desc k) rows)"
proof (rule desc_strict)
  show "sorted_wrt (\<lambda>a b. k b \<le> k a) (order_by (by_desc k) rows)"
    using sort_order.insertion_sort_ordered [OF sort_order_desc, of k rows]
    by (simp add: sort_order.ordered_def [OF sort_order_desc] order_by_def by_desc_def not_less)
  show "distinct (map k (order_by (by_desc k) rows))"
    using assms unfolding keyed_def order_by_def
    by (metis mset_eq_imp_distinct_iff mset_insertion_sort mset_map)
qed

lemma newest_jobs_iff:
  assumes "keyed j_id (tb_jobs s)" and "j \<in> set (tb_jobs s)" and "j_host j = h"
  shows "j_id j \<in> set (newest_jobs h n s) \<longleftrightarrow>
    card {j' \<in> set (tb_jobs s). j_host j' = h \<and> j_id j < j_id j'} < n"
proof -
  let ?rows = "filter (\<lambda>j. j_host j = h) (tb_jobs s)"
  let ?xs = "order_by (by_desc j_id) ?rows"
  have keyed: "keyed j_id ?rows" using assms(1) keyed_delete [of j_id "tb_jobs s" "\<lambda>j. j_host j \<noteq> h"]
    by (simp add: delete_where_def)
  have "j_id j \<in> set (newest_jobs h n s) \<longleftrightarrow> j \<in> set (take n ?xs)"
  proof
    assume "j_id j \<in> set (newest_jobs h n s)"
    then obtain j' where j': "j' \<in> set (take n ?xs)" "j_id j' = j_id j" by (auto simp: newest_jobs_def)
    then have "j' \<in> set (tb_jobs s)" by (auto dest: in_set_takeD)
    with j' assms keyed_eqD show "j \<in> set (take n ?xs)" by metis
  qed (auto simp: newest_jobs_def)
  also have "\<dots> \<longleftrightarrow> card {j' \<in> set ?xs. j_id j < j_id j'} < n"
    using assms by (intro take_newest order_desc_strict keyed) simp
  also have "{j' \<in> set ?xs. j_id j < j_id j'} = {j' \<in> set (tb_jobs s). j_host j' = h \<and> j_id j < j_id j'}"
    by auto
  finally show ?thesis .
qed

text \<open>
  Retention keeps, of one machine's jobs, every running one and every one with fewer than
  max(5, keep) newer jobs on that machine, and drops exactly the others, with their event lines; the
  other machines' jobs are untouched.
\<close>

theorem trim_jobs_retention:
  assumes "reachable s"
  shows "tb_jobs (snd (trim_jobs h keep s)) = filter (\<lambda>j. j_host j \<noteq> h \<or> j_state j = ''running'' \<or>
      card {j' \<in> set (tb_jobs s). j_host j' = h \<and> j_id j < j_id j'} < nat (max 5 keep)) (tb_jobs s) \<and>
    (\<forall>e \<in> set (tb_job_events (snd (trim_jobs h keep s))). je_job e \<in> job_ids (snd (trim_jobs h keep s)))"
proof -
  have ok: "refs_ok s" "keyed j_id (tb_jobs s)"
    using reachable_ok [OF assms] by (simp_all add: keys_ok_def keys_core_def)
  have "refers je_job (job_ids (snd (trim_jobs h keep s))) (tb_job_events (snd (trim_jobs h keep s)))"
    using refs_drop_jobs [OF ok(1)] by (simp add: trim_jobs_def refs_ok_def other_refs_def)
  moreover have "tb_jobs (snd (trim_jobs h keep s)) = filter (\<lambda>j. \<not> trimmed h keep s j) (tb_jobs s)"
    by (simp add: trim_jobs_def drop_jobs_def delete_where_def Let_def)
  moreover have "filter (\<lambda>j. \<not> trimmed h keep s j) (tb_jobs s) = filter (\<lambda>j. j_host j \<noteq> h \<or> j_state j = ''running'' \<or>
      card {j' \<in> set (tb_jobs s). j_host j' = h \<and> j_id j < j_id j'} < nat (max 5 keep)) (tb_jobs s)"
    using newest_jobs_iff [OF ok(2)] by (intro filter_cong) (auto simp: trimmed_def)
  ultimately show ?thesis by (simp add: refers_def)
qed

theorem trim_jobs_retention_witness:
  "\<exists>s j. reachable s \<and> tb_jobs s = [j] \<and> tb_jobs (snd (trim_jobs 1 3 s)) = [j]"
proof -
  obtain s j where s: "reachable s" "tb_jobs s = [j]" "j_state j = ''running''"
    using nas_job by blast
  with trim_jobs_retention [OF s(1), of 1 3] show ?thesis by (intro exI [of _ s] exI [of _ j]) simp
qed

section \<open>Scans\<close>

text \<open>What a scan by machine \<open>i\<close> at \<open>now\<close> keeps: every device with your word on it, and what it has sighted.\<close>

definition same_device :: "device_row \<Rightarrow> device_row \<Rightarrow> bool" where
  "same_device d e \<longleftrightarrow> dv_id e = dv_id d \<and> dv_kind e = dv_kind d \<and> dv_addr e = dv_addr d \<and>
     dv_name e = dv_name d \<and> dv_user_kind e = dv_user_kind d \<and> dv_first e = dv_first d"

definition sighted :: "instant \<Rightarrow> int \<Rightarrow> int \<Rightarrow> db \<Rightarrow> bool" where
  "sighted now i d s \<longleftrightarrow> (\<exists>g \<in> set (tb_sightings s). sg_device g = d \<and> sg_host g = i \<and> sg_seen g = sql_stamp now)"

definition scan_keeps :: "instant \<Rightarrow> int \<Rightarrow> db \<Rightarrow> db \<Rightarrow> bool" where
  "scan_keeps now i s s1 \<longleftrightarrow>
     (\<forall>d \<in> set (tb_devices s). \<exists>e \<in> set (tb_devices s1). same_device d e) \<and>
     (\<forall>d. sighted now i d s \<longrightarrow> sighted now i d s1)"

lemma scan_keeps_trans: "scan_keeps now i s s1 \<Longrightarrow> scan_keeps now i s1 s2 \<Longrightarrow> scan_keeps now i s s2"
  unfolding scan_keeps_def same_device_def by metis

lemma scan_keeps_refl: "scan_keeps now i s s"
  by (auto simp: scan_keeps_def same_device_def)

lemma update_where_in: "r \<in> set rows \<Longrightarrow> (if p r then f r else r) \<in> set (update_where p f rows)"
  by (auto simp: update_where_def)

lemma scan_keeps_device:
  assumes "sight_device now k a s = Inr (d, new, s1)"
  shows "scan_keeps now i s s1 \<and> (\<exists>e \<in> set (tb_devices s1). dv_id e = d \<and> dv_kind e = k \<and> dv_addr e = a)"
proof (cases "List.find (\<lambda>d. dv_kind d = k \<and> dv_addr d = a) (tb_devices s)")
  case None
  with assms show ?thesis
    by (force simp: sight_device_def Let_def scan_keeps_def sighted_def same_device_def split: if_split_asm)
next
  case (Some r)
  let ?f = "\<lambda>r. r\<lparr>dv_last := sql_stamp now\<rparr>" and ?p = "\<lambda>r. dv_id r = d"
  have r: "r \<in> set (tb_devices s)" "dv_kind r = k" "dv_addr r = a" using find_set [OF Some] by auto
  from Some assms have d: "d = dv_id r" and s1: "s1 = s\<lparr>tb_devices := update_where ?p ?f (tb_devices s)\<rparr>"
    by (auto simp: sight_device_def)
  have "\<exists>e \<in> set (tb_devices s1). same_device d' e" if "d' \<in> set (tb_devices s)" for d'
    using update_where_in [OF that, of ?p ?f] s1 by (intro bexI) (auto simp: same_device_def)
  moreover have "\<exists>e \<in> set (tb_devices s1). dv_id e = d \<and> dv_kind e = k \<and> dv_addr e = a"
    using update_where_in [OF r(1), of ?p ?f] s1 r d by (intro bexI) auto
  ultimately show ?thesis using s1 by (auto simp: scan_keeps_def sighted_def)
qed

lemma sighting_table: "tb_sightings (s\<lparr>tb_sightings := t\<rparr>) = t"
  by simp

lemma scan_keeps_sighting:
  assumes "put_sighting now d i x s = Inr s1"
  shows "scan_keeps now i s s1 \<and> sighted now i d s1"
proof -
  let ?p = "\<lambda>g. sg_device g = d \<and> sg_host g = i" and ?f = "\<lambda>g. g\<lparr>sg_seen := sql_stamp now, sg_detail := x\<rparr>"
  let ?g = "\<lparr>sg_device = d, sg_host = i, sg_seen = sql_stamp now, sg_detail = x\<rparr>"
  from assms have s1: "s1 = s\<lparr>tb_sightings := upsert ?p ?g ?f (tb_sightings s)\<rparr>"
    by (simp add: put_sighting_def split: if_split_asm)
  have "sighted now i d' s1" if seen: "sighted now i d' s" for d'
  proof -
    obtain g where g: "g \<in> set (tb_sightings s)" "sg_device g = d'" "sg_host g = i" "sg_seen g = sql_stamp now"
      using seen unfolding sighted_def by blast
    have "(if ?p g then ?f g else g) \<in> set (tb_sightings s1)"
      unfolding s1 sighting_table by (rule upsert_in [OF g(1)])
    with g show ?thesis unfolding sighted_def by (intro bexI) auto
  qed
  moreover have "sighted now i d s1"
    unfolding sighted_def s1 by (auto simp: upsert_def bex_update_where list_ex_iff)
  ultimately show ?thesis by (auto simp: scan_keeps_def s1 same_device_def)
qed

text \<open>
  A scan that is recorded at all is recorded whole: afterwards every device it saw, under its address
  in lower case, is a device with a sighting by that machine at that time; every device known before
  is still there with the name and kind a person gave it; and the answers are as many as the devices.
\<close>

theorem scan_recorded_whole:
  assumes "sight_all now i xs s = Inr (rs, s1)"
  shows "scan_keeps now i s s1 \<and> length rs = length xs \<and>
    (\<forall>x \<in> set xs. \<exists>e \<in> set (tb_devices s1). dv_kind e = sn_kind x \<and> dv_addr e = to_lower (sn_addr x) \<and>
       sighted now i (dv_id e) s1)"
  using assms
proof (induction xs arbitrary: s rs)
  case Nil
  then show ?case by (simp add: scan_keeps_refl)
next
  case (Cons x xs)
  obtain d new sa sb rs' where
    a: "sight_device now (sn_kind x) (to_lower (sn_addr x)) s = Inr (d, new, sa)" and
    b: "put_sighting now d i (if sn_detail x = '''' then ''{}'' else sn_detail x) sa = Inr sb" and
    c: "sight_all now i xs sb = Inr (rs', s1)" and rs: "rs = (d, new) # rs'"
    using sight_all_Cons [OF Cons.prems] .
  note ka = scan_keeps_device [OF a, of i] and kb = scan_keeps_sighting [OF b] and kc = Cons.IH [OF c]
  obtain e where "e \<in> set (tb_devices sa)" "dv_id e = d" "dv_kind e = sn_kind x" "dv_addr e = to_lower (sn_addr x)"
    using ka by blast
  moreover have "scan_keeps now i sa s1" using kb kc scan_keeps_trans by blast
  ultimately obtain e' where "e' \<in> set (tb_devices s1)" "dv_id e' = d" "dv_kind e' = sn_kind x"
    "dv_addr e' = to_lower (sn_addr x)"
    unfolding scan_keeps_def same_device_def by metis
  moreover have "sighted now i d s1" using kb kc by (auto simp: scan_keeps_def)
  moreover have "scan_keeps now i s s1" using ka kb kc scan_keeps_trans by blast
  ultimately show ?case using kc rs by auto
qed

theorem scan_recorded_whole_witness:
  "\<exists>rs s1. sight_all 0 1 [\<lparr>sn_kind = ''lan'', sn_addr = ''AA:01'', sn_detail = ''''\<rparr>] nas_and_pi = Inr (rs, s1) \<and>
     length rs = 1"
proof -
  have "\<exists>p. sight_all 0 1 [\<lparr>sn_kind = ''lan'', sn_addr = ''AA:01'', sn_detail = ''''\<rparr>] nas_and_pi = Inr p"
    by (simp add: sight_device_def put_sighting_def device_kinds_def nas_and_pi_def empty_db_def host_known_def Let_def)
  then obtain rs s1 where "sight_all 0 1 [\<lparr>sn_kind = ''lan'', sn_addr = ''AA:01'', sn_detail = ''''\<rparr>] nas_and_pi = Inr (rs, s1)"
    by auto
  with scan_recorded_whole [OF this] show ?thesis by auto
qed

section \<open>Published services\<close>

text \<open>
  The peers a service is published to are read back as they were given: trimmed, without blanks and
  repetitions, in order; names that hold a comma are the exception, the list being stored joined.
\<close>

theorem published_peers_read_back:
  assumes "publish_service name h port ps s = Inr s1" and "keyed sv_name (tb_services s)"
    and "\<forall>p \<in> set ps. CHR '','' \<notin> set p"
  shows "\<exists>v. service name s1 = Inr v \<and> svc_peers v = first_seen {} ps \<and> svc_port v = port \<and> svc_host v = h \<and>
    set (svc_peers v) = trim_space ` set ps - {''''}"
proof -
  let ?p = "\<lambda>v. sv_name v = name"
  let ?f = "\<lambda>v. v\<lparr>sv_host := h, sv_port := port, sv_peers := join_list ps\<rparr>"
  let ?v = "\<lparr>sv_name = name, sv_host = h, sv_port = port, sv_peers = join_list ps\<rparr>"
  let ?t = "upsert ?p ?v ?f (tb_services s)"
  have s1: "s1 = s\<lparr>tb_services := ?t\<rparr>" and known: "host_known s h"
    using assms(1) by (simp_all add: publish_service_def split: if_split_asm)
  have "\<exists>r \<in> set ?t. ?p r" by (auto simp: upsert_def bex_update_where list_ex_iff)
  then obtain r rest where r: "filter ?p ?t = r # rest"
    by (metis (mono_tags, lifting) filter_empty_conv neq_Nil_conv)
  have "r \<in> set (filter ?p ?t)" unfolding r by simp
  then have "r \<in> set ?t" "?p r" by simp_all
  then have "r = ?v \<or> (\<exists>x. r = ?f x)" using upsert_hit [of r ?p ?v ?f] by blast
  then have vals: "sv_host r = h \<and> sv_port r = port \<and> sv_peers r = join_list ps" by auto
  obtain n where n: "host_name_of s1 h = Some n"
    using known unfolding host_known_def host_name_of_def s1
    by (cases "List.find (\<lambda>x. h_id x = h) (tb_hosts s)") (auto simp: find_none_iff)
  have "filter ?p (tb_services s1) = r # rest" using r by (simp add: s1)
  moreover have "with_host s1 sv_host (r # rest) = (r, n) # with_host s1 sv_host rest"
    using vals n by (simp add: with_host_def)
  ultimately have "service name s1 = Inr (scan_service (r, n))"
    unfolding service_def by (simp only: list.case)
  then show ?thesis
    using vals split_join_list [OF assms(3)] first_seen_props [of "{}" ps] by (auto simp: scan_service_def)
qed

theorem published_peers_read_back_witness:
  "\<exists>v s1. publish_service ''web'' 1 80 ['' a '', ''b'', ''a''] nas_and_pi = Inr s1 \<and> service ''web'' s1 = Inr v \<and>
     set (svc_peers v) = trim_space ` {'' a '', ''b'', ''a''} - {''''}"
proof -
  obtain s1 where s1: "publish_service ''web'' 1 80 ['' a '', ''b'', ''a''] nas_and_pi = Inr s1"
    by (simp add: publish_service_def nas_and_pi_def host_known_def)
  with published_peers_read_back [OF s1] show ?thesis
    by (auto simp: nas_and_pi_def empty_db_def)
qed

section \<open>Usage\<close>

text \<open>
  Tokens are counted twice once their hour is rolled up: the raw row stays for two days beside the
  hourly row it was added into, and a window that reaches both adds both.
\<close>

theorem rolled_up_usage_counted_twice:
  assumes "tb_usage s = [u]" and "tb_usage_hourly s = []" and "u_host u = h_id h"
    and "\<not> not_before (u_at u) (hour_of (sql_stamp now))" and "sql_stamp (now - 2 * day) \<le> u_at u"
    and "b \<le> hour_of (u_at u)" and "not_before (u_at u) b"
  shows "ut_input (usage_total b (rollup_usage now s) h) = 2 * u_input u"
proof -
  have rolled: "usage_to_roll now s = [u]"
    using assms by (simp add: usage_to_roll_def to_roll_def rolled_until_def)
  have "tb_usage_hourly (rollup_usage now s) = [hour_usage (u_host u, hour_of (u_at u)) [u]]"
    by (simp add: rollup_usage_def prune_usage_def rolled groups_def assms(2) replace_row_def delete_where_def)
  moreover have "tb_usage (rollup_usage now s) = [u]"
    using assms(1,5) by (simp add: rollup_usage_def prune_usage_def delete_where_def)
  ultimately show ?thesis
    using assms by (simp add: usage_total_def rolled_rows_def raw_rows_def hour_usage_def Let_def)
qed

theorem rolled_up_usage_counted_twice_witness:
  "ut_input (usage_total 0 (rollup_usage (2 * hour) (empty_db\<lparr>tb_usage := [\<lparr>u_host = 1, u_job = 1, u_at = 5000,
     u_model = ''m'', u_input = 7, u_output = 0, u_cread = 0, u_cwrite = 0, u_cost = 0\<rparr>]\<rparr>)) (hd (tb_hosts nas_and_pi)))
   = 2 * 7"
proof -
  let ?u = "\<lparr>u_host = 1, u_job = 1, u_at = 5000, u_model = ''m'', u_input = 7, u_output = 0, u_cread = 0,
    u_cwrite = 0, u_cost = 0\<rparr>"
  show ?thesis
    using rolled_up_usage_counted_twice [of "empty_db\<lparr>tb_usage := [?u]\<rparr>" ?u "hd (tb_hosts nas_and_pi)" "2 * hour" 0]
    by (simp add: empty_db_def nas_and_pi_def not_before_def hour_of_def sql_stamp_def clock_defs)
qed

end
