(* ===== verification/Pool.thy ===== *)
theory Pool
  imports StoreJobs StoreUsage
begin

text \<open>
  The router of \<open>internal/pool/pool.go\<close> and the meter of \<open>meter.go\<close>. The state is the pool's own
  (\<open>pool\<close>): which machines are serving, where conversations went, what machines were last heard to
  hold, and how many requests are queued. The hash of a conversation (\<open>hash\<close>), what a machine
  answers to \<open>/api/tags\<close> (\<open>fetch\<close>), what a peer answers and what a machine answers to a proxied
  request are parameters: they come over the network. The busy set is an instance of \<open>slot_lock\<close>.
\<close>

section \<open>State\<close>

record model =
  mo_name :: string
  mo_size :: int

record home =
  ho_host :: int
  ho_peer :: string
  ho_at :: instant

record pool =
  pl_busy :: "int set"
  pl_freed :: nat
  pl_homes :: "(string \<times> home) list"
  pl_tags :: "int \<Rightarrow> (instant \<times> model list) option"
  pl_queued :: nat

definition new_pool :: pool where
  "new_pool = \<lparr>pl_busy = {}, pl_freed = 0, pl_homes = [], pl_tags = (\<lambda>_. None), pl_queued = 0\<rparr>"

record decision =
  de_host :: string
  de_peer :: string
  de_reason :: string
  de_peer_error :: string

definition job_paths :: "string list" where
  "job_paths = [''/api/chat'', ''/api/generate'', ''/api/embed'', ''/api/embeddings'',
     ''/v1/chat/completions'', ''/v1/completions'', ''/v1/embeddings'']"

section \<open>Switches and settings\<close>

definition disabled_key :: string where
  "disabled_key = ''pool.disabled.''"

definition enabled :: "db \<Rightarrow> host_row \<Rightarrow> bool" where
  "enabled s h = (setting (disabled_key @ itoa (h_id h)) s \<noteq> ''1'')"

definition disabled :: "db \<Rightarrow> int list" where
  "disabled s =
     List.map_filter (\<lambda>(k, v). if v = ''1'' then parse_int (trim_prefix k disabled_key) else None)
       (settings_with_prefix disabled_key s)"

definition int_setting :: "db \<Rightarrow> string \<Rightarrow> int \<Rightarrow> int" where
  "int_setting s key def =
     (case parse_int (trim_space (setting key s)) of
        Some n \<Rightarrow> if n > 0 then n else def
      | None \<Rightarrow> def)"

section \<open>What machines hold\<close>

definition has_model :: "model list \<Rightarrow> string \<Rightarrow> bool" where
  "has_model ms name = list_ex (\<lambda>m. mo_name m = name \<or> mo_name m = name @ '':latest'') ms"

text \<open>A machine's models, asked again once the last answer is ten seconds old.\<close>

definition tags ::
  "instant \<Rightarrow> (host_row \<Rightarrow> model list res) \<Rightarrow> host_row \<Rightarrow> pool \<Rightarrow> model list res \<times> pool" where
  "tags now fetch h p =
     (case pl_tags p (h_id h) of
        Some (at', ms) \<Rightarrow>
          if now - at' < 10 * second then (Inr ms, p)
          else (case fetch h of
                  Inl e \<Rightarrow> (Inl e, p)
                | Inr ms' \<Rightarrow> (Inr ms', p\<lparr>pl_tags := (pl_tags p)(h_id h \<mapsto> (now, ms'))\<rparr>))
      | None \<Rightarrow>
          (case fetch h of
             Inl e \<Rightarrow> (Inl e, p)
           | Inr ms' \<Rightarrow> (Inr ms', p\<lparr>pl_tags := (pl_tags p)(h_id h \<mapsto> (now, ms'))\<rparr>)))"

record machine =
  mc_host :: string
  mc_id :: int
  mc_online :: bool
  mc_busy :: bool
  mc_models :: "model list"
  mc_error :: bool
  mc_enabled :: bool
  mc_free :: int

definition ollama_free :: "mount list \<Rightarrow> int" where
  "ollama_free ms = fold (\<lambda>m free. if m_path m = ''/'' \<or> m_path m = ''/usr'' then m_free m else free) ms 0"

definition grid_machine ::
  "db \<Rightarrow> instant \<Rightarrow> (host_row \<Rightarrow> model list res) \<Rightarrow> host_row \<Rightarrow> pool \<Rightarrow> machine \<times> pool" where
  "grid_machine s now fetch h p =
     (let (r, p1) = tags now fetch h p
      in (\<lparr>mc_host = h_name h, mc_id = h_id h, mc_online = (h_status h = ''online''),
           mc_busy = (h_id h \<in> pl_busy p), mc_models = (case r of Inl _ \<Rightarrow> [] | Inr ms \<Rightarrow> ms),
           mc_error = (\<not> is_ok r), mc_enabled = (h_id h \<notin> set (disabled s)),
           mc_free = ollama_free (f_mounts (h_facts h))\<rparr>, p1))"

text \<open>The machines answer in any order; here each in turn.\<close>

fun grid_from ::
  "db \<Rightarrow> instant \<Rightarrow> (host_row \<Rightarrow> model list res) \<Rightarrow> host_row list \<Rightarrow> pool \<Rightarrow> machine list \<times> pool" where
  "grid_from s now fetch [] p = ([], p)"
| "grid_from s now fetch (h # hs) p =
     (if \<not> f_ollama (h_facts h) then grid_from s now fetch hs p
      else let (m, p1) = grid_machine s now fetch h p; (ms, p2) = grid_from s now fetch hs p1
           in (m # ms, p2))"

definition grid :: "db \<Rightarrow> instant \<Rightarrow> (host_row \<Rightarrow> model list res) \<Rightarrow> pool \<Rightarrow> machine list \<times> pool" where
  "grid s now fetch p = grid_from s now fetch (hosts s) p"

definition sort_strings :: "string list \<Rightarrow> string list" where
  "sort_strings xs = insertion_sort str_less xs"

text \<open>The names in order of first appearance.\<close>

fun unseen :: "string set \<Rightarrow> string list \<Rightarrow> string list" where
  "unseen seen [] = []"
| "unseen seen (x # xs) = (if x \<in> seen then unseen seen xs else x # unseen (insert x seen) xs)"

definition model_names :: "machine list \<Rightarrow> string list" where
  "model_names ms =
     sort_strings (unseen {}
       (concat (map (\<lambda>m. map mo_name (mc_models m)) (filter (\<lambda>m. mc_online m \<and> mc_enabled m) ms))))"

definition models :: "db \<Rightarrow> instant \<Rightarrow> (host_row \<Rightarrow> model list res) \<Rightarrow> pool \<Rightarrow> string list \<times> pool" where
  "models s now fetch p = (let (g, p1) = grid s now fetch p in (model_names g, p1))"

definition union_names :: "string list \<Rightarrow> string list \<Rightarrow> string list" where
  "union_names a b = sort_strings (unseen {} (a @ b))"

definition serve_tags ::
  "db \<Rightarrow> instant \<Rightarrow> (host_row \<Rightarrow> model list res) \<Rightarrow> string list option \<Rightarrow> pool \<Rightarrow> string list \<times> pool" where
  "serve_tags s now fetch offered p =
     (let (names, p1) = models s now fetch p
      in (case offered of None \<Rightarrow> names | Some xs \<Rightarrow> union_names names xs, p1))"

section \<open>One request per machine\<close>

definition take_host :: "int \<Rightarrow> pool \<Rightarrow> bool \<times> pool" where
  "take_host i p = (if i \<in> pl_busy p then (False, p) else (True, p\<lparr>pl_busy := insert i (pl_busy p)\<rparr>))"

definition release :: "int \<Rightarrow> pool \<Rightarrow> pool" where
  "release i p = p\<lparr>pl_busy := pl_busy p - {i}, pl_freed := Suc (pl_freed p)\<rparr>"

interpretation machines: slot_lock "\<lambda>p i. i \<in> pl_busy p" take_host release
  by unfold_locales (auto simp: take_host_def release_def)

definition acquire :: "db \<Rightarrow> int \<Rightarrow> pool \<Rightarrow> host_row option \<times> pool" where
  "acquire s i p =
     (case host (itoa i) s of
        Inl _ \<Rightarrow> (None, p)
      | Inr h \<Rightarrow>
          if h_status h \<noteq> ''online'' \<or> \<not> enabled s h then (None, p)
          else let (ok, p1) = take_host (h_id h) p in (if ok then Some h else None, p1))"

definition serving :: "db \<Rightarrow> host_row \<Rightarrow> bool" where
  "serving s h = (f_ollama (h_facts h) \<and> h_status h = ''online'' \<and> h_id h \<notin> set (disabled s))"

fun pick_from ::
  "db \<Rightarrow> instant \<Rightarrow> (host_row \<Rightarrow> model list res) \<Rightarrow> string \<Rightarrow> nat \<Rightarrow> host_row list \<Rightarrow> bool \<Rightarrow> nat \<Rightarrow> pool \<Rightarrow>
   (host_row option \<times> string) \<times> pool" where
  "pick_from s now fetch mdl n_all [] busy_one holders p =
     ((None, if busy_one then ''busy''
             else if holders = 0 then ''nothing in the pool holds '' @ mdl else ''busy''), p)"
| "pick_from s now fetch mdl n_all (h # hs) busy_one holders p =
     (if \<not> serving s h then pick_from s now fetch mdl n_all hs busy_one holders p
      else let (r, p1) = tags now fetch h p
           in case r of
                Inl _ \<Rightarrow> pick_from s now fetch mdl n_all hs busy_one holders p1
              | Inr ms \<Rightarrow>
                  if \<not> has_model ms mdl then pick_from s now fetch mdl n_all hs busy_one holders p1
                  else let (ok, p2) = take_host (h_id h) p1
                       in if ok
                          then ((Some h, if Suc holders > 1 \<or> n_all > 1
                                         then h_name h @ '' was free and holds '' @ mdl
                                         else ''the only machine with '' @ mdl @ '' was free''), p2)
                          else pick_from s now fetch mdl n_all hs True (Suc holders) p2)"

definition pick ::
  "db \<Rightarrow> instant \<Rightarrow> (host_row \<Rightarrow> model list res) \<Rightarrow> string \<Rightarrow> pool \<Rightarrow> (host_row option \<times> string) \<times> pool" where
  "pick s now fetch mdl p = pick_from s now fetch mdl (length (hosts s)) (hosts s) False 0 p"

section \<open>The queue\<close>

definition queue_depth :: "db \<Rightarrow> int" where
  "queue_depth s = int_setting s ''router.queue'' 8"

definition enqueue :: "db \<Rightarrow> pool \<Rightarrow> bool \<times> pool" where
  "enqueue s p =
     (if int (pl_queued p) \<ge> queue_depth s then (False, p) else (True, p\<lparr>pl_queued := Suc (pl_queued p)\<rparr>))"

definition dequeue :: "pool \<Rightarrow> pool" where
  "dequeue p = (if pl_queued p > 0 then p\<lparr>pl_queued := pl_queued p - 1\<rparr> else p)"

section \<open>Conversations\<close>

text \<open>The running hash after each message: a message's bytes and a zero byte.\<close>

definition history_hash :: "(string \<Rightarrow> string) \<Rightarrow> string list \<Rightarrow> string" where
  "history_hash hash ms = hash (concat (map (\<lambda>m. m @ [CHR 0x00]) ms))"

definition conversation_keys :: "(string \<Rightarrow> string) \<Rightarrow> string list \<Rightarrow> string \<times> string list" where
  "conversation_keys hash ms =
     (if ms = [] then ('''', [])
      else (history_hash hash ms, map (\<lambda>n. history_hash hash (take n ms)) [1..<length ms]))"

definition fresh_home :: "instant \<Rightarrow> home \<Rightarrow> bool" where
  "fresh_home now hm = (now - ho_at hm < 2 * hour)"

fun find_home :: "instant \<Rightarrow> (string \<times> home) list \<Rightarrow> string list \<Rightarrow> home option" where
  "find_home now homes [] = None"
| "find_home now homes (k # ks) =
     (case map_of homes k of
        Some hm \<Rightarrow> if fresh_home now hm then Some hm else find_home now homes ks
      | None \<Rightarrow> find_home now homes ks)"

text \<open>The longest prefix first.\<close>

definition home_of :: "instant \<Rightarrow> string list \<Rightarrow> pool \<Rightarrow> home option" where
  "home_of now prefixes p = find_home now (pl_homes p) (rev prefixes)"

definition remember :: "instant \<Rightarrow> string \<Rightarrow> home \<Rightarrow> pool \<Rightarrow> pool" where
  "remember now key hm p =
     (let kept = (if length (pl_homes p) > 10000
                  then filter (\<lambda>(k, v). now - ho_at v \<le> hour) (pl_homes p) else pl_homes p)
      in p\<lparr>pl_homes := (key, hm) # filter (\<lambda>(k, v). k \<noteq> key) kept\<rparr>)"

definition parse_request :: "(string \<times> string list \<times> string option) option \<Rightarrow> string \<times> string list" where
  "parse_request body =
     (case body of
        None \<Rightarrow> ('''', [])
      | Some (mdl, ms, prompt) \<Rightarrow>
          (mdl, if ms = [] then (case prompt of None \<Rightarrow> [] | Some q \<Rightarrow> [q]) else ms))"

section \<open>Placing a request\<close>

record request =
  rq_path :: string
  rq_local_only :: bool
  rq_model :: string
  rq_msgs :: "string list"
  rq_caller :: string

text \<open>
  What asking the space comes to: nobody had the model free, the last peer asked refused or broke off
  before its first byte, or a peer answered (with the token counts its stream carried).
\<close>

datatype peer_answer =
    NobodyAsked
  | PeerRefused string string
  | PeerAnswered string int int

text \<open>
  The world during one turn of the placing loop: the clock, the store, what machines and peers answer
  (a turn asks peers at most twice), whether the caller is gone.
\<close>

record env =
  en_now :: instant
  en_db :: db
  en_fetch :: "host_row \<Rightarrow> model list res"
  en_peers :: "(nat \<Rightarrow> peer_answer) option"
  en_gone :: bool

datatype outcome =
    Proxied host_row decision
  | FromPeer decision int int
  | NotFound decision string
  | QueueFull
  | WaitedOut
  | Gone

definition home_reason :: string where
  "home_reason = ''this was the conversation's home from turn one''"

definition peers_of :: "request \<Rightarrow> env \<Rightarrow> (nat \<Rightarrow> peer_answer) option" where
  "peers_of rq en = (if rq_local_only rq \<or> rq_path rq \<notin> set job_paths then None else en_peers en)"

definition local_decision :: "host_row \<Rightarrow> string \<Rightarrow> decision" where
  "local_decision h reason = \<lparr>de_host = h_name h, de_peer = '''', de_reason = reason, de_peer_error = ''''\<rparr>"

definition peer_decision :: "string \<Rightarrow> string \<Rightarrow> decision" where
  "peer_decision n reason = \<lparr>de_host = '''', de_peer = n, de_reason = reason, de_peer_error = ''''\<rparr>"

definition try_peer ::
  "instant \<Rightarrow> peer_answer \<Rightarrow> string \<Rightarrow> string \<Rightarrow> pool \<Rightarrow> (outcome option \<times> (string \<times> string) option) \<times> pool" where
  "try_peer now ans key reason p =
     (case ans of
        NobodyAsked \<Rightarrow> ((None, None), p)
      | PeerRefused n e \<Rightarrow> ((None, Some (n, e)), p)
      | PeerAnswered n i out \<Rightarrow>
          ((Some (FromPeer (peer_decision n reason) i out), None),
           if key \<noteq> '''' then remember now key \<lparr>ho_host = 0, ho_peer = n, ho_at = now\<rparr> p else p))"

text \<open>1. The conversation's home, if it is still there and still says yes.\<close>

definition try_home ::
  "request \<Rightarrow> env \<Rightarrow> string \<Rightarrow> string list \<Rightarrow> pool \<Rightarrow> outcome option \<times> pool" where
  "try_home rq en key prefixes p =
     (case home_of (en_now en) prefixes p of
        None \<Rightarrow> (None, p)
      | Some hm \<Rightarrow>
          (case (ho_peer hm \<noteq> '''', peers_of rq en) of
             (True, Some ask) \<Rightarrow>
               let (r, p1) = try_peer (en_now en) (ask 0) key home_reason p in (fst r, p1)
           | _ \<Rightarrow>
               if ho_host hm \<noteq> 0
               then (case acquire (en_db en) (ho_host hm) p of
                       (Some h, p1) \<Rightarrow> (Some (Proxied h (local_decision h home_reason)), p1)
                     | (None, p1) \<Rightarrow> (None, p1))
               else (None, p)))"

definition refused_locally :: "string \<Rightarrow> string \<Rightarrow> (string \<times> string) option \<Rightarrow> outcome" where
  "refused_locally mdl reason peer_err =
     (let msg = ''no machine in the pool holds '' @ mdl @ '' ('' @ reason @ '')''
      in case peer_err of
           None \<Rightarrow> NotFound \<lparr>de_host = '''', de_peer = '''', de_reason = reason, de_peer_error = ''''\<rparr> msg
         | Some (n, e) \<Rightarrow>
             NotFound \<lparr>de_host = '''', de_peer = n, de_reason = reason, de_peer_error = e\<rparr>
               (n @ '' refused: '' @ e @ ''; '' @ msg))"

text \<open>4. The queue: a place in it once, then a wait, while the deadline has not passed.\<close>

definition wait_turn :: "env \<Rightarrow> instant \<Rightarrow> bool \<Rightarrow> pool \<Rightarrow> (outcome option \<times> bool) \<times> pool" where
  "wait_turn en deadline queued p =
     (let (ok, p1) = (if queued then (True, p) else enqueue (en_db en) p)
      in if \<not> ok then ((Some QueueFull, False), p1)
         else if en_now en > deadline then ((Some WaitedOut, True), p1)
         else if en_gone en then ((Some Gone, True), p1)
         else ((None, True), p1))"

text \<open>3. A peer gets first refusal before the queue.\<close>

definition ask_peers ::
  "request \<Rightarrow> env \<Rightarrow> string \<Rightarrow> string \<Rightarrow> pool \<Rightarrow> (outcome option \<times> (string \<times> string) option) \<times> pool" where
  "ask_peers rq en key reason p =
     (case peers_of rq en of
        None \<Rightarrow> ((None, None), p)
      | Some ask \<Rightarrow>
          try_peer (en_now en) (ask 1) key
            (if reason \<noteq> ''busy'' then reason else ''the local pool was busy'') p)"

text \<open>No machine and no peer took the request: it is refused, or it queues behind a busy machine.\<close>

definition refuse_or_wait ::
  "request \<Rightarrow> instant \<Rightarrow> env \<Rightarrow> bool \<Rightarrow> string \<Rightarrow> (string \<times> string) option \<Rightarrow> pool \<Rightarrow>
   (outcome option \<times> bool) \<times> pool" where
  "refuse_or_wait rq deadline en queued reason peer_err p =
     (if reason \<noteq> ''busy'' then ((Some (refused_locally (rq_model rq) reason peer_err), queued), p)
      else wait_turn en deadline queued p)"

text \<open>
  One turn of the loop: the outcome if it settles the request, whether the request holds a place in the
  queue, and the pool.
\<close>

definition place_turn ::
  "request \<Rightarrow> string \<Rightarrow> string list \<Rightarrow> instant \<Rightarrow> env \<Rightarrow> bool \<Rightarrow> pool \<Rightarrow> (outcome option \<times> bool) \<times> pool" where
  "place_turn rq key prefixes deadline en queued p =
     (case try_home rq en key prefixes p of
        (Some out, p1) \<Rightarrow> ((Some out, queued), p1)
      | (None, p1) \<Rightarrow>
          (case pick (en_db en) (en_now en) (en_fetch en) (rq_model rq) p1 of
             ((Some h, reason), p2) \<Rightarrow> ((Some (Proxied h (local_decision h reason)), queued), p2)
           | ((None, reason), p2) \<Rightarrow>
               (case ask_peers rq en key reason p2 of
                  ((Some out, _), p3) \<Rightarrow> ((Some out, queued), p3)
                | ((None, peer_err), p3) \<Rightarrow> refuse_or_wait rq deadline en queued reason peer_err p3)))"

definition queue_wait :: "db \<Rightarrow> instant" where
  "queue_wait s = int_setting s ''router.queue_wait'' 120 * second"

text \<open>The loop over the turns the world allows; the deferred \<open>dequeue\<close> is in \<open>settle\<close>.\<close>

fun place_turns ::
  "request \<Rightarrow> string \<Rightarrow> string list \<Rightarrow> instant \<Rightarrow> env list \<Rightarrow> bool \<Rightarrow> pool \<Rightarrow> (outcome option \<times> bool) \<times> pool" where
  "place_turns rq key prefixes deadline [] queued p = ((None, queued), p)"
| "place_turns rq key prefixes deadline (en # ens) queued p =
     (case place_turn rq key prefixes deadline en queued p of
        ((Some out, q), p1) \<Rightarrow> ((Some out, q), p1)
      | ((None, q), p1) \<Rightarrow> place_turns rq key prefixes deadline ens q p1)"

definition settle :: "bool \<Rightarrow> pool \<Rightarrow> pool" where
  "settle queued p = (if queued then dequeue p else p)"

text \<open>What a machine answers to the proxied request: nothing, or a status with its token counts.\<close>

definition proxy ::
  "instant \<Rightarrow> request \<Rightarrow> string \<Rightarrow> host_row \<Rightarrow> (int \<times> int \<times> int) option \<Rightarrow> pool \<Rightarrow> db \<Rightarrow> pool \<times> db" where
  "proxy now rq key h answer p s =
     (case answer of
        None \<Rightarrow> (release (h_id h) p, s)
      | Some (status, i, out) \<Rightarrow>
          (release (h_id h)
             (if key \<noteq> '''' then remember now key \<lparr>ho_host = h_id h, ho_peer = '''', ho_at = now\<rparr> p else p),
           if status < 400 then record_served now (h_name h) False (rq_caller rq) (rq_model rq) i out s else s))"

section \<open>The meter\<close>

record meter =
  mt_line :: string
  mt_skip :: bool
  mt_input :: int
  mt_output :: int

definition new_meter :: meter where
  "new_meter = \<lparr>mt_line = '''', mt_skip = False, mt_input = 0, mt_output = 0\<rparr>"

definition max_line :: nat where
  "max_line = 1048576"

text \<open>
  \<open>decode\<close> reads a line's JSON: the two Ollama counts and the OpenAI usage if there is one.
\<close>

definition flush ::
  "(string \<Rightarrow> (int \<times> int \<times> (int \<times> int) option) option) \<Rightarrow> meter \<Rightarrow> meter" where
  "flush decode m =
     (let line = trim_prefix (trim_space (mt_line m)) ''data:'';
          m1 = m\<lparr>mt_line := '''', mt_skip := False\<rparr>
      in if \<not> contains_str line ''_count'' \<and> \<not> contains_str line ([CHR 0x22] @ ''usage'' @ [CHR 0x22]) then m1
         else (case decode (trim_space line) of
                 None \<Rightarrow> m1
               | Some (prompt, eval, usage) \<Rightarrow>
                   (case usage of
                      Some (a, b) \<Rightarrow>
                        if a + b > 0 then m1\<lparr>mt_input := a, mt_output := b\<rparr>
                        else if prompt + eval > 0 then m1\<lparr>mt_input := prompt, mt_output := eval\<rparr> else m1
                    | None \<Rightarrow>
                        if prompt + eval > 0 then m1\<lparr>mt_input := prompt, mt_output := eval\<rparr> else m1)))"

definition meter_char ::
  "(string \<Rightarrow> (int \<times> int \<times> (int \<times> int) option) option) \<Rightarrow> char \<Rightarrow> meter \<Rightarrow> meter" where
  "meter_char decode c m =
     (if c = newline then flush decode m
      else if mt_skip m then m
      else if length (mt_line m) \<ge> max_line then m\<lparr>mt_line := '''', mt_skip := True\<rparr>
      else m\<lparr>mt_line := mt_line m @ [c]\<rparr>)"

definition meter_read ::
  "(string \<Rightarrow> (int \<times> int \<times> (int \<times> int) option) option) \<Rightarrow> string \<Rightarrow> bool \<Rightarrow> meter \<Rightarrow> meter" where
  "meter_read decode chunk ended m =
     (let m1 = fold (meter_char decode) chunk m in if ended then flush decode m1 else m1)"

fun meter_stream ::
  "(string \<Rightarrow> (int \<times> int \<times> (int \<times> int) option) option) \<Rightarrow> string list \<Rightarrow> meter \<Rightarrow> meter" where
  "meter_stream decode [] m = flush decode m"
| "meter_stream decode (x # xs) m = meter_stream decode xs (meter_read decode x False m)"

section \<open>Looking a model up, installing, removing\<close>

definition show_model :: "string \<times> string \<Rightarrow> string" where
  "show_model = (\<lambda>(mdl, name). if mdl = '''' then name else mdl)"

text \<open>The first serving machine that holds the model and answers; \<open>answer\<close> is its reply, if any.\<close>

fun show_from ::
  "db \<Rightarrow> instant \<Rightarrow> (host_row \<Rightarrow> model list res) \<Rightarrow> (host_row \<Rightarrow> 'a option) \<Rightarrow> string \<Rightarrow> host_row list \<Rightarrow> pool \<Rightarrow>
   'a option \<times> pool" where
  "show_from s now fetch answer mdl [] p = (None, p)"
| "show_from s now fetch answer mdl (h # hs) p =
     (if \<not> serving s h then show_from s now fetch answer mdl hs p
      else let (r, p1) = tags now fetch h p
           in (case r of
                 Inl _ \<Rightarrow> show_from s now fetch answer mdl hs p1
               | Inr ms \<Rightarrow>
                   if \<not> has_model ms mdl then show_from s now fetch answer mdl hs p1
                   else (case answer h of
                           None \<Rightarrow> show_from s now fetch answer mdl hs p1
                         | Some a \<Rightarrow> (Some a, p1))))"

definition serve_show ::
  "db \<Rightarrow> instant \<Rightarrow> (host_row \<Rightarrow> model list res) \<Rightarrow> (host_row \<Rightarrow> 'a option) \<Rightarrow> string \<times> string \<Rightarrow> pool \<Rightarrow>
   (string + 'a) \<times> pool" where
  "serve_show s now fetch answer body p =
     (let mdl = show_model body
      in if mdl = '''' then (Inl ''the request names no model'', p)
         else (case show_from s now fetch answer mdl (hosts s) p of
                 (None, p1) \<Rightarrow> (Inl (''model '' @ [CHR 0x27] @ mdl @ [CHR 0x27] @ '' not found''), p1)
               | (Some a, p1) \<Rightarrow> (Inr a, p1)))"

definition forget_tags :: "int \<Rightarrow> pool \<Rightarrow> pool" where
  "forget_tags i p = p\<lparr>pl_tags := (pl_tags p)(i := None)\<rparr>"

definition shell_quote :: "string \<Rightarrow> string" where
  "shell_quote s = [CHR 0x27] @ replace_char (CHR 0x27) [CHR 0x27, CHR 0x5C, CHR 0x27, CHR 0x27] s @ [CHR 0x27]"

definition pulled :: "host_row \<Rightarrow> string \<Rightarrow> pool \<Rightarrow> db \<Rightarrow> pool \<times> db" where
  "pulled h mdl p s =
     (forget_tags (h_id h) p, append_rebuild_script (h_id h) (''ollama pull '' @ shell_quote mdl) s)"

definition deleted :: "int \<Rightarrow> string \<Rightarrow> host_row \<Rightarrow> string \<Rightarrow> pool \<Rightarrow> db \<Rightarrow> (pool \<times> db) res" where
  "deleted status body h mdl p s =
     (if status \<ge> 300
      then Inl (Err (''delete '' @ mdl @ '' on '' @ h_name h @ '': '' @ trim_space body))
      else Inr (forget_tags (h_id h) p,
                append_rebuild_script (h_id h) (''ollama rm '' @ shell_quote mdl @ '' || true'') s))"

section \<open>The door\<close>

text \<open>Where a request under the prefix goes.\<close>

datatype routed = TooLarge | ToTags | ToVersion | ToShow | NoModel | ToPlace string "string list"

definition max_body :: nat where
  "max_body = 64 * 1048576"

definition serve :: "string \<Rightarrow> string \<Rightarrow> (string \<Rightarrow> (string \<times> string list \<times> string option) option) \<Rightarrow> routed" where
  "serve path body decode =
     (if length body > max_body then TooLarge
      else if path = ''/api/tags'' \<or> path = ''/v1/models'' then ToTags
      else if path = ''/api/version'' then ToVersion
      else if path = ''/api/show'' then ToShow
      else let (mdl, ms) = parse_request (decode body) in if mdl = '''' then NoModel else ToPlace mdl ms)"

text \<open>What a peer's answer leaves in the usage tables.\<close>

definition peer_served :: "instant \<Rightarrow> request \<Rightarrow> outcome \<Rightarrow> db \<Rightarrow> db" where
  "peer_served now rq out s =
     (case out of
        FromPeer d i n \<Rightarrow> record_served now (de_peer d) True (rq_caller rq) (rq_model rq) i n s
      | _ \<Rightarrow> s)"

end
