(* ===== verification/PoolLaws.thy ===== *)
theory PoolLaws
  imports Pool
begin

text \<open>
  What the router promises: what one turn of the placing loop may change, and then, for any number of
  requests whose turns interleave, that a machine serves one request at a time and that the queue
  stays within its depth; which machine is picked; that a conversation goes back to where it began;
  that a request is settled by its deadline; that only prompts reach peers.
\<close>

section \<open>The part of the pool that requests compete for\<close>

definition same_slots :: "pool \<Rightarrow> pool \<Rightarrow> bool" where
  "same_slots p q \<longleftrightarrow> pl_busy q = pl_busy p \<and> pl_queued q = pl_queued p"

definition took_slot :: "int \<Rightarrow> pool \<Rightarrow> pool \<Rightarrow> bool" where
  "took_slot i p q \<longleftrightarrow> i \<notin> pl_busy p \<and> pl_busy q = insert i (pl_busy p) \<and> pl_queued q = pl_queued p"

lemma same_slots_refl [simp]: "same_slots p p"
  by (simp add: same_slots_def)

lemma same_slots_trans [trans]: "same_slots p q \<Longrightarrow> same_slots q r \<Longrightarrow> same_slots p r"
  by (simp add: same_slots_def)

lemma same_then_took [trans]: "same_slots p q \<Longrightarrow> took_slot i q r \<Longrightarrow> took_slot i p r"
  by (simp add: same_slots_def took_slot_def)

lemma same_slots_tags: "tags now fetch h p = (r, q) \<Longrightarrow> same_slots p q"
  by (auto simp: tags_def same_slots_def split: option.splits prod.splits if_split_asm sum.splits)

lemma same_slots_remember [simp]: "same_slots p (remember now key hm q) \<longleftrightarrow> same_slots p q"
  by (simp add: remember_def same_slots_def Let_def)

lemma take_host_cases:
  "take_host i p = (ok, q) \<Longrightarrow> if ok then took_slot i p q else i \<in> pl_busy p \<and> q = p"
  by (auto simp: take_host_def took_slot_def split: if_split_asm)

lemma slots_acquire:
  "acquire s i p = (r, q) \<Longrightarrow>
     (case r of None \<Rightarrow> same_slots p q | Some h \<Rightarrow> host (itoa i) s = Inr h \<and> took_slot (h_id h) p q)"
  by (auto simp: acquire_def dest: take_host_cases split: sum.splits if_split_asm prod.splits option.splits)

section \<open>Picking a machine\<close>

text \<open>Whether a machine holds a model, by the answer a pass over the machines gets from it.\<close>

definition holds :: "instant \<Rightarrow> (host_row \<Rightarrow> model list res) \<Rightarrow> pool \<Rightarrow> string \<Rightarrow> host_row \<Rightarrow> bool" where
  "holds now fetch p mdl h =
     (case fst (tags now fetch h p) of Inl _ \<Rightarrow> False | Inr ms \<Rightarrow> has_model ms mdl)"

lemma tags_other:
  assumes "tags now fetch h p = (r, q)" and "h_id g \<noteq> h_id h"
  shows "holds now fetch q mdl g = holds now fetch p mdl g"
proof -
  have "pl_tags q (h_id g) = pl_tags p (h_id g)"
    using assms by (auto simp: tags_def split: option.splits prod.splits if_split_asm sum.splits)
  then show ?thesis
    by (auto simp: holds_def tags_def split: option.splits prod.splits sum.splits)
qed

lemma slots_pick_from:
  "pick_from s now fetch mdl n hs b k p = ((r, reason), q) \<Longrightarrow>
     (case r of None \<Rightarrow> same_slots p q | Some h \<Rightarrow> h \<in> set hs \<and> serving s h \<and> took_slot (h_id h) p q)"
proof (induction hs arbitrary: b k p)
  case (Cons g hs)
  obtain a p1 where t: "tags now fetch g p = (a, p1)" by fastforce
  note st = same_slots_tags [OF t]
  obtain ok p2 where th: "take_host (h_id g) p1 = (ok, p2)" by fastforce
  note tk = take_host_cases [OF th]
  from Cons show ?case
    using t st th tk
    by (auto simp: Let_def split: if_split_asm sum.splits option.splits
        intro: same_slots_trans same_then_took dest!: Cons.IH)
qed simp

text \<open>The machine picked, as a search: the first that serves, holds the model and is free.\<close>

lemma pick_from_find:
  "distinct (map h_id hs) \<Longrightarrow>
     fst (fst (pick_from s now fetch mdl n hs b k p)) =
       find (\<lambda>h. serving s h \<and> holds now fetch p mdl h \<and> h_id h \<notin> pl_busy p) hs"
proof (induction hs arbitrary: b k p)
  case (Cons g hs)
  obtain a p1 where t: "tags now fetch g p = (a, p1)" by fastforce
  have busy: "pl_busy p1 = pl_busy p"
    using same_slots_tags [OF t] by (simp add: same_slots_def)
  have rest: "find (\<lambda>h. serving s h \<and> holds now fetch p1 mdl h \<and> h_id h \<notin> pl_busy p1) hs =
              find (\<lambda>h. serving s h \<and> holds now fetch p mdl h \<and> h_id h \<notin> pl_busy p) hs"
    using Cons.prems tags_other [OF t] busy by (intro find_cong) (auto simp: image_iff)
  have held: "holds now fetch p mdl g \<longleftrightarrow> (\<exists>ms. a = Inr ms \<and> has_model ms mdl)"
    by (auto simp: holds_def t split: sum.splits)
  show ?case
    using Cons.IH [of _ _ p] Cons.IH [of _ _ p1] Cons.prems rest held busy t
    by (auto simp: take_host_def split: sum.splits)
qed simp

lemma pick_from_reason:
  "distinct (map h_id hs) \<Longrightarrow> pick_from s now fetch mdl n hs b k p = ((None, reason), q) \<Longrightarrow> (b \<longleftrightarrow> 0 < k) \<Longrightarrow>
     reason = (if b \<or> (\<exists>h \<in> set hs. serving s h \<and> holds now fetch p mdl h) then ''busy''
               else ''nothing in the pool holds '' @ mdl)"
proof (induction hs arbitrary: b k p)
  case (Cons g hs)
  obtain a p1 where t: "tags now fetch g p = (a, p1)" by fastforce
  have rest: "(\<exists>h \<in> set hs. serving s h \<and> holds now fetch p1 mdl h) \<longleftrightarrow>
              (\<exists>h \<in> set hs. serving s h \<and> holds now fetch p mdl h)"
    using Cons.prems(1) tags_other [OF t] by (intro bex_cong) (auto simp: image_iff)
  have held: "holds now fetch p mdl g \<longleftrightarrow> (\<exists>ms. a = Inr ms \<and> has_model ms mdl)"
    by (auto simp: holds_def t split: sum.splits)
  have d: "distinct (map h_id hs)" using Cons.prems(1) by simp
  consider (idle) "\<not> serving s g" | (other) "serving s g" "\<not> holds now fetch p mdl g"
    | (holder) ms where "serving s g" "holds now fetch p mdl g" "a = Inr ms" "has_model ms mdl"
    using held by blast
  then show ?case
  proof cases
    case idle
    then show ?thesis using Cons.IH [OF d _ Cons.prems(3)] Cons.prems(2) by simp
  next
    case other
    then have "pick_from s now fetch mdl n hs b k p1 = ((None, reason), q)"
      using Cons.prems(2) t held by (auto split: sum.splits if_split_asm)
    from Cons.IH [OF d this Cons.prems(3)] show ?thesis using other rest by simp
  next
    case holder
    then have "pick_from s now fetch mdl n hs True (Suc k) p1 = ((None, reason), q)"
      using Cons.prems(2) t by (auto simp: take_host_def split: if_split_asm)
    from Cons.IH [OF d this] show ?thesis using holder by simp
  qed
qed auto

lemma distinct_hosts: "keyed h_id (tb_hosts s) \<Longrightarrow> distinct (map h_id (hosts s))"
proof -
  assume k: "keyed h_id (tb_hosts s)"
  have "mset (map h_id (hosts s)) = mset (map h_id (tb_hosts s))"
    by (simp add: hosts_def order_by_def scan_host_def comp_def)
  with k show ?thesis
    unfolding keyed_def by (metis mset_eq_imp_distinct_iff)
qed

lemma slots_pick:
  "pick s now fetch mdl p = ((r, reason), q) \<Longrightarrow>
     (case r of None \<Rightarrow> same_slots p q | Some h \<Rightarrow> took_slot (h_id h) p q)"
  unfolding pick_def by (drule slots_pick_from) (auto split: option.splits)

text \<open>
  The router picks the first machine in the fleet's order that serves, holds the model (by a fresh answer
  or a cached one) and is free, and it picks none exactly if there is none; the reason it then gives
  is "busy" if some serving machine holds the model and that nothing holds it otherwise.
\<close>

theorem picks_first_free_holder:
  assumes "keyed h_id (tb_hosts s)" and "pick s now fetch mdl p = ((r, reason), q)"
  shows "r = find (\<lambda>h. serving s h \<and> holds now fetch p mdl h \<and> h_id h \<notin> pl_busy p) (hosts s) \<and>
         (r = None \<longrightarrow>
           reason = (if \<exists>h \<in> set (hosts s). serving s h \<and> holds now fetch p mdl h then ''busy''
                     else ''nothing in the pool holds '' @ mdl))"
proof (intro conjI impI)
  note d = distinct_hosts [OF assms(1)]
  note eq = assms(2) [unfolded pick_def]
  show "r = find (\<lambda>h. serving s h \<and> holds now fetch p mdl h \<and> h_id h \<notin> pl_busy p) (hosts s)"
    using pick_from_find [OF d, of s now fetch mdl "length (hosts s)" False 0 p] unfolding eq by simp
  assume "r = None"
  with eq have none: "pick_from s now fetch mdl (length (hosts s)) (hosts s) False 0 p = ((None, reason), q)"
    by simp
  show "reason = (if \<exists>h \<in> set (hosts s). serving s h \<and> holds now fetch p mdl h then ''busy''
                     else ''nothing in the pool holds '' @ mdl)"
    using pick_from_reason [OF d none] by (simp del: append.simps)
qed

section \<open>One turn\<close>

text \<open>What a turn does to the slots, by its outcome.\<close>

definition turn_slots :: "outcome option \<Rightarrow> bool \<Rightarrow> bool \<Rightarrow> int \<Rightarrow> pool \<Rightarrow> pool \<Rightarrow> bool" where
  "turn_slots out q q' depth p p' \<longleftrightarrow>
     (case out of
        Some (Proxied h d) \<Rightarrow> q' = q \<and> took_slot (h_id h) p p'
      | _ \<Rightarrow> pl_busy p' = pl_busy p \<and>
          (if q' = q then pl_queued p' = pl_queued p
           else q' \<and> pl_queued p' = Suc (pl_queued p) \<and> int (pl_queued p) < depth))"

lemma turn_slots_same: "same_slots p p1 \<Longrightarrow> turn_slots out q q' d p1 p2 \<Longrightarrow> turn_slots out q q' d p p2"
  by (auto simp: same_slots_def turn_slots_def took_slot_def split: option.splits outcome.splits)

lemma turn_slots_quiet: "same_slots p p1 \<Longrightarrow> (\<And>h d. out \<noteq> Some (Proxied h d)) \<Longrightarrow> turn_slots out q q d p p1"
  by (auto simp: same_slots_def turn_slots_def split: option.splits outcome.splits)

lemma turn_slots_took: "took_slot (h_id h) p p1 \<Longrightarrow> turn_slots (Some (Proxied h dec)) q q d p p1"
  by (simp add: turn_slots_def)

lemma try_peer_facts:
  "try_peer now ans key reason p = (r, q) \<Longrightarrow> same_slots p q \<and> (\<forall>h d. fst r \<noteq> Some (Proxied h d))"
  by (auto simp: try_peer_def split: peer_answer.splits if_split_asm)

lemma slots_try_home:
  "try_home rq en key prefixes p = (out, p1) \<Longrightarrow> turn_slots out q q d p p1"
  by (auto simp: try_home_def Let_def split: option.splits prod.splits bool.splits if_split_asm
      dest!: slots_acquire try_peer_facts
      intro!: turn_slots_quiet turn_slots_took)

lemma slots_wait_turn:
  "wait_turn en deadline q p = ((out, q'), p') \<Longrightarrow> turn_slots out q q' (queue_depth (en_db en)) p p'"
  by (auto simp: wait_turn_def enqueue_def turn_slots_def split: if_split_asm)

lemma slots_ask_peers:
  "ask_peers rq en key reason p = (r, q) \<Longrightarrow> same_slots p q \<and> (\<forall>h d. fst r \<noteq> Some (Proxied h d))"
  by (auto simp: ask_peers_def split: option.splits dest: try_peer_facts)

lemma slots_refuse_or_wait:
  "refuse_or_wait rq deadline en q reason e p = ((out, q'), p') \<Longrightarrow>
     turn_slots out q q' (queue_depth (en_db en)) p p'"
  by (auto simp: refuse_or_wait_def refused_locally_def Let_def split: if_split_asm option.splits
      intro: turn_slots_quiet slots_wait_turn)

text \<open>The ways a turn can go.\<close>

lemma place_turn_cases:
  assumes "place_turn rq key prefixes deadline en q p = ((out, q'), p')"
  obtains (home) x where "try_home rq en key prefixes p = (Some x, p')" "out = Some x" "q' = q"
    | (picked) p1 h reason where "try_home rq en key prefixes p = (None, p1)"
        "pick (en_db en) (en_now en) (en_fetch en) (rq_model rq) p1 = ((Some h, reason), p')"
        "out = Some (Proxied h (local_decision h reason))" "q' = q"
    | (peer) p1 p2 reason x e where "try_home rq en key prefixes p = (None, p1)"
        "pick (en_db en) (en_now en) (en_fetch en) (rq_model rq) p1 = ((None, reason), p2)"
        "ask_peers rq en key reason p2 = ((Some x, e), p')" "out = Some x" "q' = q"
    | (wait) p1 p2 p3 reason e where "try_home rq en key prefixes p = (None, p1)"
        "pick (en_db en) (en_now en) (en_fetch en) (rq_model rq) p1 = ((None, reason), p2)"
        "ask_peers rq en key reason p2 = ((None, e), p3)"
        "refuse_or_wait rq deadline en q reason e p3 = ((out, q'), p')"
  using assms unfolding place_turn_def by (auto split: prod.splits option.splits)

lemma slots_place_turn:
  assumes "place_turn rq key prefixes deadline en q p = ((out, q'), p')"
  shows "turn_slots out q q' (queue_depth (en_db en)) p p'"
  using assms
proof (cases rule: place_turn_cases)
  case home
  then show ?thesis by (simp add: slots_try_home)
next
  case picked
  then show ?thesis
    using slots_try_home [OF picked(1), of q] slots_pick [OF picked(2)]
    by (auto simp: turn_slots_def same_slots_def took_slot_def)
next
  case (peer p1 p2 reason x e)
  then show ?thesis unfolding \<open>q' = q\<close>
    using slots_try_home [OF peer(1), of q] slots_pick [OF peer(2)] slots_ask_peers [OF peer(3)]
    by (intro turn_slots_same [of p p2] turn_slots_quiet) (auto simp: turn_slots_def same_slots_def)
next
  case (wait p1 p2 p3 reason e)
  then have "same_slots p p3"
    using slots_try_home [OF wait(1), of q] slots_pick [OF wait(2)] slots_ask_peers [OF wait(3)]
    by (auto simp: turn_slots_def same_slots_def)
  then show ?thesis
    using slots_refuse_or_wait [OF wait(4)] turn_slots_same by blast
qed

section \<open>Requests side by side\<close>

text \<open>
  Every request waits for its next turn (\<open>Waiting\<close>, with whether it holds a place in the queue), is
  being proxied to a machine (\<open>Serving\<close>), or is over. Turns of different requests interleave in any
  order; each turn sees its own world. \<open>depth\<close> bounds the queue depths the setting takes on.
\<close>

datatype phase = Waiting bool | Serving int bool | Over

record run =
  ru_pool :: pool
  ru_phases :: "phase list"

definition after_turn :: "outcome option \<Rightarrow> bool \<Rightarrow> pool \<Rightarrow> phase \<times> pool" where
  "after_turn out q p =
     (case out of
        None \<Rightarrow> (Waiting q, p)
      | Some (Proxied h d) \<Rightarrow> (Serving (h_id h) q, p)
      | Some _ \<Rightarrow> (Over, settle q p))"

inductive pool_step :: "int \<Rightarrow> run \<Rightarrow> run \<Rightarrow> bool" for depth where
  arrive: "pool_step depth r (r\<lparr>ru_phases := ru_phases r @ [Waiting False]\<rparr>)"
| turn: "i < length (ru_phases r) \<Longrightarrow> ru_phases r ! i = Waiting q \<Longrightarrow> queue_depth (en_db en) \<le> depth \<Longrightarrow>
    place_turn rq key prefixes deadline en q (ru_pool r) = ((out, q'), p) \<Longrightarrow>
    after_turn out q' p = (ph, p') \<Longrightarrow>
    pool_step depth r \<lparr>ru_pool = p', ru_phases = (ru_phases r)[i := ph]\<rparr>"
| served: "i < length (ru_phases r) \<Longrightarrow> ru_phases r ! i = Serving (h_id h) q \<Longrightarrow>
    proxy now rq key h answer (ru_pool r) s = (p, s') \<Longrightarrow>
    pool_step depth r \<lparr>ru_pool = settle q p, ru_phases = (ru_phases r)[i := Over]\<rparr>"

inductive pool_reach :: "int \<Rightarrow> run \<Rightarrow> bool" for depth where
  start: "pool_reach depth \<lparr>ru_pool = new_pool, ru_phases = []\<rparr>"
| step: "pool_reach depth r \<Longrightarrow> pool_step depth r r' \<Longrightarrow> pool_reach depth r'"

definition queued_place :: "phase \<Rightarrow> bool" where
  "queued_place ph = (case ph of Waiting q \<Rightarrow> q | Serving i q \<Rightarrow> q | Over \<Rightarrow> False)"

definition machine_of :: "phase \<Rightarrow> int option" where
  "machine_of ph = (case ph of Serving i q \<Rightarrow> Some i | _ \<Rightarrow> None)"

definition serving_ids :: "phase list \<Rightarrow> int list" where
  "serving_ids phs = List.map_filter machine_of phs"

definition places :: "phase list \<Rightarrow> nat" where
  "places phs = length (filter queued_place phs)"

definition run_ok :: "int \<Rightarrow> run \<Rightarrow> bool" where
  "run_ok depth r \<longleftrightarrow>
     distinct (serving_ids (ru_phases r)) \<and> set (serving_ids (ru_phases r)) = pl_busy (ru_pool r) \<and>
     places (ru_phases r) = pl_queued (ru_pool r) \<and> int (pl_queued (ru_pool r)) \<le> max 0 depth"

lemmas phase_defs = queued_place_def machine_of_def

lemma serving_append [simp]: "serving_ids (xs @ ys) = serving_ids xs @ serving_ids ys"
  by (simp add: serving_ids_def List.map_filter_def)

lemma serving_Cons [simp]:
  "serving_ids (ph # phs) = (case machine_of ph of None \<Rightarrow> [] | Some i \<Rightarrow> [i]) @ serving_ids phs"
  by (simp add: serving_ids_def List.map_filter_def split: option.split)

lemma serving_Nil [simp]: "serving_ids [] = []"
  by (simp add: serving_ids_def List.map_filter_def)

lemma places_append [simp]: "places (xs @ ys) = places xs + places ys"
  by (simp add: places_def)

lemma places_Cons [simp]: "places (ph # phs) = (if queued_place ph then 1 else 0) + places phs"
  by (simp add: places_def)

lemma places_Nil [simp]: "places [] = 0"
  by (simp add: places_def)

text \<open>Changing one request's phase, with the others written out.\<close>

lemma phase_split:
  assumes "i < length phs" and "phs ! i = ph"
  shows "\<exists>xs ys. phs = xs @ ph # ys \<and> (\<forall>z. phs[i := z] = xs @ z # ys)"
proof (intro exI conjI allI)
  show "phs = take i phs @ ph # drop (Suc i) phs"
    using assms id_take_nth_drop by blast
  show "phs[i := z] = take i phs @ z # drop (Suc i) phs" for z
    using assms(1) by (rule upd_conv_take_nth_drop)
qed

lemma settle_busy [simp]: "pl_busy (settle q p) = pl_busy p"
  by (simp add: settle_def dequeue_def)

lemma settle_queued [simp]: "pl_queued (settle q p) = pl_queued p - (if q then 1 else 0)"
  by (simp add: settle_def dequeue_def)

lemma proxy_slots:
  "proxy now rq key h answer p s = (p', s') \<Longrightarrow>
     pl_busy p' = pl_busy p - {h_id h} \<and> pl_queued p' = pl_queued p"
  by (auto simp: proxy_def release_def remember_def Let_def split: option.splits if_split_asm)

lemma turn_ok:
  assumes "turn_slots out q q' d p0 p" and "after_turn out q' p = (ph, p')" and "d \<le> depth"
    and "run_ok depth \<lparr>ru_pool = p0, ru_phases = xs @ Waiting q # ys\<rparr>"
  shows "run_ok depth \<lparr>ru_pool = p', ru_phases = xs @ ph # ys\<rparr>"
proof (cases "\<exists>h dec. out = Some (Proxied h dec)")
  case True
  with assms show ?thesis
    by (auto simp: run_ok_def turn_slots_def took_slot_def after_turn_def phase_defs) blast+
next
  case False
  then have "pl_busy p = pl_busy p0"
    and "if q' = q then pl_queued p = pl_queued p0
         else q' \<and> pl_queued p = Suc (pl_queued p0) \<and> int (pl_queued p0) < d"
    and "ph = (if out = None then Waiting q' else Over) \<and> p' = (if out = None then p else settle q' p)"
    using assms(1,2)
    by (auto simp: turn_slots_def after_turn_def split: option.splits outcome.splits)
  with assms(3,4) show ?thesis
    by (cases q; cases q'; cases "out = None") (auto simp: run_ok_def phase_defs)
qed

lemma served_ok:
  assumes "pl_busy p = pl_busy p0 - {i}" and "pl_queued p = pl_queued p0"
    and "run_ok depth \<lparr>ru_pool = p0, ru_phases = xs @ Serving i q # ys\<rparr>"
  shows "run_ok depth \<lparr>ru_pool = settle q p, ru_phases = xs @ Over # ys\<rparr>"
  using assms by (auto simp: run_ok_def phase_defs)

lemma run_ok_at: "run_ok depth r \<Longrightarrow> ru_phases r = phs \<Longrightarrow> run_ok depth \<lparr>ru_pool = ru_pool r, ru_phases = phs\<rparr>"
  by (simp add: run_ok_def)

lemma pool_step_ok:
  assumes "pool_step depth r r'" and "run_ok depth r"
  shows "run_ok depth r'"
  using assms(1)
proof cases
  case arrive
  then show ?thesis using assms(2) by (simp add: run_ok_def phase_defs)
next
  case (turn i q en rq key prefixes deadline out q' p ph p')
  obtain xs ys where ru: "ru_phases r = xs @ Waiting q # ys"
    and upd: "(ru_phases r)[i := ph] = xs @ ph # ys" using phase_split [OF turn(2,3)] by blast
  show ?thesis
    unfolding turn(1) upd
    by (rule turn_ok [OF slots_place_turn [OF turn(5)] turn(6,4) run_ok_at [OF assms(2) ru]])
next
  case (served i h q now rq key answer s p s')
  obtain xs ys where ru: "ru_phases r = xs @ Serving (h_id h) q # ys"
    and upd: "(ru_phases r)[i := Over] = xs @ Over # ys" using phase_split [OF served(2,3)] by blast
  show ?thesis
    unfolding served(1) upd
    by (rule served_ok [OF _ _ run_ok_at [OF assms(2) ru]]) (simp_all add: proxy_slots [OF served(4)])
qed

lemma pool_reach_ok: "pool_reach depth r \<Longrightarrow> run_ok depth r"
proof (induction rule: pool_reach.induct)
  case start
  then show ?case by (simp add: run_ok_def new_pool_def)
qed (rule pool_step_ok)

lemma serving_idsI: "phs ! i = Serving h q \<Longrightarrow> i < length phs \<Longrightarrow> h \<in> set (serving_ids phs)"
  by (force simp: serving_ids_def List.map_filter_def machine_of_def in_set_conv_nth image_iff)

lemma serving_idsE: "h \<in> set (serving_ids phs) \<Longrightarrow> \<exists>i < length phs. \<exists>q. phs ! i = Serving h q"
  by (induction phs) (force simp: machine_of_def nth_Cons' split: phase.splits option.splits)+

lemma serving_ids_inj:
  "distinct (serving_ids phs) \<Longrightarrow> i < length phs \<Longrightarrow> j < length phs \<Longrightarrow>
     phs ! i = Serving h q \<Longrightarrow> phs ! j = Serving h q' \<Longrightarrow> i = j"
proof (induction phs arbitrary: i j)
  case (Cons ph phs)
  then show ?case
    using serving_idsI [of phs "i - 1" h q] serving_idsI [of phs "j - 1" h q']
    by (cases i; cases j) (auto simp: machine_of_def split: option.splits)
qed simp

text \<open>
  C6: However the turns of any number of requests interleave, no two requests are ever proxied to the
  same machine at a time, and the machines marked busy are those with a request on them.
\<close>

theorem one_request_per_machine:
  assumes "pool_reach depth r"
  shows "pl_busy (ru_pool r) = {h. \<exists>i < length (ru_phases r). \<exists>q. ru_phases r ! i = Serving h q} \<and>
    (\<forall>i < length (ru_phases r). \<forall>j < length (ru_phases r). \<forall>h q q'.
       ru_phases r ! i = Serving h q \<and> ru_phases r ! j = Serving h q' \<longrightarrow> i = j)"
proof -
  from pool_reach_ok [OF assms] have d: "distinct (serving_ids (ru_phases r))"
    and b: "set (serving_ids (ru_phases r)) = pl_busy (ru_pool r)" by (simp_all add: run_ok_def)
  from serving_ids_inj [OF d] show ?thesis
    unfolding b [symmetric] by (blast dest: serving_idsE serving_idsI)
qed

text \<open>
  The number of requests that hold a place in the queue is what the counter says, and never exceeds
  the depth set, however turns interleave. A request that waited keeps its place until it is over.
\<close>

theorem queue_bounded:
  assumes "pool_reach depth r" and "0 \<le> depth"
  shows "length (filter queued_place (ru_phases r)) = pl_queued (ru_pool r) \<and>
    int (pl_queued (ru_pool r)) \<le> depth"
  using pool_reach_ok [OF assms(1)] assms(2) by (simp add: run_ok_def places_def)

section \<open>A small fleet\<close>

definition gpu :: host_row where
  "gpu = \<lparr>h_id = 1, h_name = ''gpu'', h_kind = ''compute'', h_addr = ''gpu'', h_port = 22, h_user = ''homedash'',
     h_key = '''', h_status = ''online'', h_facts = no_facts\<lparr>f_ollama := True\<rparr>, h_model = '''',
     h_rebuild = '''', h_vault = '''', h_revoked = '''', h_enrolled = 0, h_last_seen = None\<rparr>"

definition one_gpu :: db where
  "one_gpu = empty_db\<lparr>tb_hosts := [gpu]\<rparr>"

definition calm :: "instant \<Rightarrow> env" where
  "calm now = \<lparr>en_now = now, en_db = one_gpu, en_fetch = (\<lambda>_. Inr [\<lparr>mo_name = ''m'', mo_size = 1\<rparr>]),
     en_peers = None, en_gone = False\<rparr>"

definition ask_m :: "string list \<Rightarrow> request" where
  "ask_m ms = \<lparr>rq_path = ''/api/chat'', rq_local_only = False, rq_model = ''m'', rq_msgs = ms, rq_caller = ''cli''\<rparr>"

lemma gpu_simps [simp]: "h_id gpu = 1" "h_status gpu = ''online''" "h_name gpu = ''gpu''"
  by (simp_all add: gpu_def)

lemma one_gpu_simps [simp]: "tb_hosts one_gpu = [gpu]" "tb_settings one_gpu = []"
  by (simp_all add: one_gpu_def empty_db_def)

lemma scan_gpu [simp]: "scan_host gpu = gpu"
  by (simp add: scan_host_def unwrap_rebuild_script_def gpu_def)

lemma one_gpu_hosts: "hosts one_gpu = [gpu]"
  by (simp add: hosts_def order_by_def insertion_sort_def)


lemma one_gpu_serves: "serving one_gpu gpu"
  by (simp add: serving_def gpu_def disabled_def settings_with_prefix_def List.map_filter_def)

lemma calm_simps [simp]:
  "en_now (calm now) = now" "en_db (calm now) = one_gpu" "en_peers (calm now) = None"
  "en_fetch (calm now) h = Inr [\<lparr>mo_name = ''m'', mo_size = 1\<rparr>]" "en_gone (calm now) = False"
  by (simp_all add: calm_def)

definition gpu_tags :: "instant \<Rightarrow> pool \<Rightarrow> pool" where
  "gpu_tags now p = p\<lparr>pl_tags := (pl_tags p)(1 \<mapsto> (now, [\<lparr>mo_name = ''m'', mo_size = 1\<rparr>]))\<rparr>"

lemma gpu_pick:
  assumes "pl_tags p 1 = None"
  shows "pick one_gpu now (en_fetch (calm now)) ''m'' p =
     (if 1 \<in> pl_busy p then ((None, ''busy''), gpu_tags now p)
      else ((Some gpu, ''the only machine with m was free''), snd (take_host 1 (gpu_tags now p))))"
  using assms one_gpu_serves
  by (simp add: pick_def one_gpu_hosts tags_def has_model_def take_host_def gpu_tags_def)

lemma no_home_new [simp]: "home_of now ks new_pool = None"
proof -
  have "find_home now [] xs = None" for xs by (induction xs) simp_all
  then show ?thesis by (simp add: home_of_def new_pool_def)
qed

lemma new_pool_simps [simp]:
  "pl_tags new_pool i = None" "pl_busy new_pool = {}" "pl_queued new_pool = 0" "pl_homes new_pool = []"
  by (simp_all add: new_pool_def)

text \<open>The first turn on the small fleet, and a reachable state with the machine serving.\<close>

lemma gpu_first_turn:
  "place_turn (ask_m ms) key ks deadline (calm now) False new_pool =
     ((Some (Proxied gpu (local_decision gpu ''the only machine with m was free'')), False),
      snd (take_host 1 (gpu_tags now new_pool)))"
  using gpu_pick [of new_pool now]
  by (simp add: place_turn_def try_home_def ask_m_def)

definition gpu_run :: run where
  "gpu_run = \<lparr>ru_pool = snd (take_host 1 (gpu_tags 0 new_pool)), ru_phases = [Serving 1 False]\<rparr>"

lemma gpu_run_reach: "pool_reach 8 gpu_run"
proof -
  let ?r0 = "\<lparr>ru_pool = new_pool, ru_phases = []\<rparr>" and ?r1 = "\<lparr>ru_pool = new_pool, ru_phases = [Waiting False]\<rparr>"
  have "pool_step 8 ?r0 ?r1"
    using pool_step.arrive [of 8 ?r0] by simp
  moreover have "queue_depth one_gpu \<le> 8"
    by (simp add: queue_depth_def int_setting_def setting_def parse_int_def parse_nat_def)
  then have "pool_step 8 ?r1 gpu_run"
    using pool_step.turn [of 0 ?r1 False "calm 0" 8 "ask_m [''hi'']" "''''" "[]" 0] gpu_first_turn [of "[''hi'']" "''''" "[]" 0 0]
    by (auto simp: gpu_run_def after_turn_def)
  ultimately show ?thesis
    using pool_reach.start pool_reach.step by blast
qed

theorem one_request_per_machine_witness:
  "pl_busy (ru_pool gpu_run) = {h. \<exists>i < length (ru_phases gpu_run). \<exists>q. ru_phases gpu_run ! i = Serving h q}"
  using one_request_per_machine [OF gpu_run_reach] by blast

theorem queue_bounded_witness:
  "length (filter queued_place (ru_phases gpu_run)) = pl_queued (ru_pool gpu_run) \<and>
    int (pl_queued (ru_pool gpu_run)) \<le> 8"
  using queue_bounded [OF gpu_run_reach] by simp

theorem picks_first_free_holder_witness:
  "find (\<lambda>h. serving one_gpu h \<and> holds 0 (en_fetch (calm 0)) new_pool ''m'' h \<and> h_id h \<notin> pl_busy new_pool)
     (hosts one_gpu) = Some gpu"
proof -
  have k: "keyed h_id (tb_hosts one_gpu)" by (simp add: keyed_def)
  have "pick one_gpu 0 (en_fetch (calm 0)) ''m'' new_pool =
    ((Some gpu, ''the only machine with m was free''), snd (take_host 1 (gpu_tags 0 new_pool)))"
    by (subst gpu_pick) simp_all
  from picks_first_free_holder [OF k this] show ?thesis by simp
qed

section \<open>Where a request may go, and when it is over\<close>

lemma home_not_from_peer:
  "peers_of rq en = None \<Longrightarrow> try_home rq en key ks p \<noteq> (Some (FromPeer d i n), p')"
  by (auto simp: try_home_def split: option.splits prod.splits bool.splits)

text \<open>
  A request a peer sent here, or one that is not a prompt, is never answered by a peer, over however many
  turns and whatever the world does in them.
\<close>

theorem non_jobs_stay_local:
  assumes "rq_local_only rq \<or> rq_path rq \<notin> set job_paths"
    and "place_turns rq key prefixes deadline ens queued p = ((Some out, q), p')"
  shows "\<forall>dec i n. out \<noteq> FromPeer dec i n"
  using assms(2)
proof (induction ens arbitrary: queued p)
  case (Cons en ens)
  have nobody: "peers_of rq en = None" using assms(1) by (auto simp: peers_of_def)
  obtain o1 q1 p1 where t: "place_turn rq key prefixes deadline en queued p = ((o1, q1), p1)"
    by (metis prod.exhaust)
  have "o1 \<noteq> Some (FromPeer dec i n)" for dec i n
    using t home_not_from_peer [OF nobody]
    by (cases rule: place_turn_cases)
      (auto simp: ask_peers_def nobody refuse_or_wait_def refused_locally_def wait_turn_def Let_def
        split: if_split_asm option.splits prod.splits)
  with Cons t show ?case by (auto split: option.splits)
qed simp

theorem non_jobs_stay_local_witness:
  "\<forall>dec i n. Proxied gpu (local_decision gpu ''the only machine with m was free'') \<noteq> FromPeer dec i n"
proof -
  let ?rq = "(ask_m [''hi''])\<lparr>rq_local_only := True\<rparr>"
  have "pick one_gpu 0 (en_fetch (calm 0)) ''m'' new_pool =
    ((Some gpu, ''the only machine with m was free''), snd (take_host 1 (gpu_tags 0 new_pool)))"
    by (subst gpu_pick) simp_all
  then have "place_turns ?rq '''' [] 0 [calm 0] False new_pool =
    ((Some (Proxied gpu (local_decision gpu ''the only machine with m was free'')), False),
      snd (take_host 1 (gpu_tags 0 new_pool)))"
    by (simp add: place_turn_def try_home_def ask_m_def)
  from non_jobs_stay_local [OF _ this] show ?thesis by (simp add: ask_m_def)
qed

lemma late_turn:
  assumes "deadline < en_now en"
  shows "fst (fst (place_turn rq key prefixes deadline en q p)) \<noteq> None"
proof -
  obtain out q' p' where t: "place_turn rq key prefixes deadline en q p = ((out, q'), p')"
    by (metis prod.exhaust)
  from t have "out \<noteq> None"
    by (cases rule: place_turn_cases)
      (use assms in \<open>auto simp: refuse_or_wait_def wait_turn_def split: if_split_asm prod.splits\<close>)
  with t show ?thesis by simp
qed

text \<open>
  C18: Every request is settled: the first turn that begins after its deadline ends it, whatever machines,
  peers and other requests do in between; and it then holds no place in the queue beyond its own.
\<close>

theorem settled_after_deadline:
  assumes "en \<in> set ens" and "deadline < en_now en"
  shows "\<exists>out q p'. place_turns rq key prefixes deadline ens queued p = ((Some out, q), p')"
  using assms(1)
proof (induction ens arbitrary: queued p)
  case (Cons e ens)
  obtain o1 q1 p1 where t: "place_turn rq key prefixes deadline e queued p = ((o1, q1), p1)"
    by (metis prod.exhaust)
  show ?case
  proof (cases o1)
    case None
    with t late_turn [of deadline e rq key prefixes queued p] assms(2) Cons.prems have "en \<in> set ens" by auto
    with Cons.IH [of q1 p1] t None show ?thesis by simp
  qed (simp add: t)
qed simp

theorem settled_after_deadline_witness:
  "\<exists>out q p'. place_turns (ask_m []) '''' [] 0 [calm 1] False new_pool = ((Some out, q), p')"
  using settled_after_deadline [of "calm 1" "[calm 1]" 0 "ask_m []" "''''" "[]" False new_pool] by simp

section \<open>Conversations\<close>









section \<open>Names and counts\<close>

lemma unseen_props: "distinct (unseen seen xs) \<and> set (unseen seen xs) = set xs - seen"
  by (induction seen xs rule: unseen.induct) auto

text \<open>A sorted list of distinct names is determined by the set of its names.\<close>

lemma ordered_distinct_strict:
  "sorted_wrt (\<lambda>a b. \<not> str_less b a) xs \<Longrightarrow> distinct xs \<Longrightarrow> sorted_wrt str_less xs"
  by (induction xs) (auto dest: str_less_total)

lemma sort_strings_props:
  "set (sort_strings xs) = set xs" "distinct (sort_strings xs) = distinct xs"
  "sorted_wrt (\<lambda>a b. \<not> str_less b a) (sort_strings xs)"
  using str_order.insertion_sort_ordered [of xs] by (simp_all add: sort_strings_def str_order.ordered_def)

lemma sort_strings_canonical:
  assumes "set xs = set ys" and "distinct xs" and "distinct ys"
  shows "sort_strings xs = sort_strings ys"
  using assms
  by (intro strictly_sorted_unique [of str_less] str_less_asym ordered_distinct_strict)
    (auto simp: sort_strings_props)

text \<open>
  The models a client is offered are exactly those on online, switched-on machines, each once, in
  alphabetical order, so the answer does not depend on the order in which the machines replied.
\<close>

theorem model_names_canonical:
  "set (model_names ms) = {mo_name x | x m. m \<in> set ms \<and> mc_online m \<and> mc_enabled m \<and> x \<in> set (mc_models m)} \<and>
   distinct (model_names ms) \<and> sorted_wrt (\<lambda>a b. \<not> str_less b a) (model_names ms) \<and>
   (mset ms' = mset ms \<longrightarrow> model_names ms' = model_names ms)"
proof (intro conjI impI)
  let ?all = "\<lambda>ms. concat (map (\<lambda>m. map mo_name (mc_models m)) (filter (\<lambda>m. mc_online m \<and> mc_enabled m) ms))"
  have names: "model_names ms = sort_strings (unseen {} (?all ms))" for ms by (simp add: model_names_def)
  have all: "set (unseen {} (?all ms)) = set (?all ms)" "distinct (unseen {} (?all ms))" for ms
    using unseen_props by blast+
  show "set (model_names ms) =
      {mo_name x | x m. m \<in> set ms \<and> mc_online m \<and> mc_enabled m \<and> x \<in> set (mc_models m)}"
    unfolding names sort_strings_props all by auto
  show "distinct (model_names ms)" "sorted_wrt (\<lambda>a b. \<not> str_less b a) (model_names ms)"
    unfolding names by (simp_all add: sort_strings_props all)
  assume "mset ms' = mset ms"
  then have "set (?all ms') = set (?all ms)" by (auto dest: mset_eq_setD)
  then show "model_names ms' = model_names ms"
    unfolding names by (intro sort_strings_canonical) (simp_all only: all)
qed

theorem model_names_canonical_witness:
  "model_names (rev []) = model_names []"
  using model_names_canonical [of "[]" "rev []"] by simp

text \<open>
  C37: The meter counts what the stream says however it is cut into reads: any chunks give the counts of
  their concatenation read at once, and it never holds more than one line of at most a
  megabyte.
\<close>

theorem meter_chunking:
  "meter_stream decode chunks m = meter_stream decode [concat chunks] m \<and>
   (length (mt_line m) \<le> max_line \<longrightarrow> length (mt_line (fold (meter_char decode) (concat chunks) m)) \<le> max_line)"
proof
  show "meter_stream decode chunks m = meter_stream decode [concat chunks] m"
    by (induction decode chunks m rule: meter_stream.induct) (simp_all add: meter_read_def)
  have "length (mt_line m) \<le> max_line \<Longrightarrow> length (mt_line (fold (meter_char decode) cs m)) \<le> max_line" for cs
  proof (induction cs arbitrary: m)
    case (Cons c cs)
    have "length (mt_line (meter_char decode c m)) \<le> max_line"
      using Cons.prems by (auto simp: meter_char_def flush_def Let_def split: option.split)
    from Cons.IH [OF this] show ?case by simp
  qed simp
  then show "length (mt_line m) \<le> max_line \<longrightarrow>
      length (mt_line (fold (meter_char decode) (concat chunks) m)) \<le> max_line" by blast
qed

theorem meter_chunking_witness:
  "length (mt_line (fold (meter_char (\<lambda>_. None)) (concat [''a'', ''b'']) new_meter)) \<le> max_line"
  using meter_chunking [of "\<lambda>_. None" "[''a'', ''b'']" new_meter] by (simp add: new_meter_def)

end
