(* ===== verification/TaskSched.thy ===== *)
theory TaskSched
  imports Gate StoreJobs StoreSchema
begin

text \<open>
  The scheduler of \<open>internal/tasks/tasks.go\<close>: what a task has to be to be saved, the clock's entries,
  and what a fire does on each machine. The cron library is a parameter: \<open>parses\<close> accepts a schedule,
  \<open>add\<close> puts one on the clock (or refuses it) and \<open>remove\<close> takes an entry off. What a machine answers
  to a command (\<open>exec\<close>), and when a run on it starts and ends (\<open>clocked\<close>), are parameters too. The set of
  running tasks is an instance of \<open>slot_lock\<close>.
\<close>

section \<open>State\<close>

record 'c sched =
  sc_db :: db
  sc_clock :: 'c
  sc_entries :: "int \<Rightarrow> nat option"
  sc_running :: "int set"
  sc_notes :: "(string \<times> string \<times> string) list"

definition new_sched :: "db \<Rightarrow> 'c \<Rightarrow> 'c sched" where
  "new_sched s clock =
     \<lparr>sc_db = s, sc_clock = clock, sc_entries = (\<lambda>_. None), sc_running = {}, sc_notes = []\<rparr>"

text \<open>What the panel sends to be saved: \<open>ti_id\<close> is 0 for a new task, \<open>ti_host\<close> 0 for every machine.\<close>

record task_input =
  ti_id :: int
  ti_name :: string
  ti_host :: int
  ti_command :: string
  ti_schedule :: string
  ti_timeout :: int
  ti_enabled :: bool

section \<open>Saving\<close>

text \<open>The input with its timeout filled in, or why it is not accepted.\<close>

definition validate :: "(string \<Rightarrow> string option) \<Rightarrow> task_input \<Rightarrow> task_input res" where
  "validate parses t =
     (if trim_space (ti_name t) = '''' then Inl (Err ''a task needs a name'')
      else if trim_space (ti_command t) = '''' then Inl (Err ''a task needs a command'')
      else case parses (ti_schedule t) of
             Some e \<Rightarrow> Inl (Err (''schedule: '' @ e))
           | None \<Rightarrow>
               if ti_timeout t > 86400 then Inl (Err ''timeout is at most 86400 seconds (a day)'')
               else let t1 = (if ti_timeout t \<le> 0 then t\<lparr>ti_timeout := 600\<rparr> else t)
                    in (case check (ti_command t1) of Some e \<Rightarrow> Inl e | None \<Rightarrow> Inr t1))"

definition unschedule :: "(nat \<Rightarrow> 'c \<Rightarrow> 'c) \<Rightarrow> int \<Rightarrow> 'c sched \<Rightarrow> 'c sched" where
  "unschedule remove i s =
     (case sc_entries s i of
        None \<Rightarrow> s
      | Some e \<Rightarrow> s\<lparr>sc_clock := remove e (sc_clock s), sc_entries := (sc_entries s)(i := None)\<rparr>)"

definition schedule ::
  "(string \<Rightarrow> int \<Rightarrow> 'c \<Rightarrow> (nat \<times> 'c) option) \<Rightarrow> (nat \<Rightarrow> 'c \<Rightarrow> 'c) \<Rightarrow> task_row \<Rightarrow> 'c sched \<Rightarrow> 'c sched" where
  "schedule add remove t s =
     (let s1 = unschedule remove (t_id t) s
      in if \<not> t_enabled t then s1
         else (case add (t_schedule t) (t_id t) (sc_clock s1) of
                 None \<Rightarrow> s1
               | Some (e, c) \<Rightarrow> s1\<lparr>sc_clock := c, sc_entries := (sc_entries s1)(t_id t \<mapsto> e)\<rparr>))"

definition start ::
  "(string \<Rightarrow> int \<Rightarrow> 'c \<Rightarrow> (nat \<times> 'c) option) \<Rightarrow> (nat \<Rightarrow> 'c \<Rightarrow> 'c) \<Rightarrow> 'c sched \<Rightarrow> 'c sched" where
  "start add remove s = fold (schedule add remove) (map fst (tasks (sc_db s))) s"

text \<open>
  \<open>calls\<close> is how many calls of the store the context of the request lasts for: of \<open>Save\<close> the machine
  (if the task is for one), the row written and the row read back; of \<open>Delete\<close> the row deleted.
\<close>

definition request_gone :: err where
  "request_gone = Err ''context canceled''"

definition save ::
  "(string \<Rightarrow> string option) \<Rightarrow> (string \<Rightarrow> int \<Rightarrow> 'c \<Rightarrow> (nat \<times> 'c) option) \<Rightarrow> (nat \<Rightarrow> 'c \<Rightarrow> 'c) \<Rightarrow>
   nat \<Rightarrow> instant \<Rightarrow> task_input \<Rightarrow> 'c sched \<Rightarrow> (task_row \<times> string) res \<times> 'c sched" where
  "save parses add remove calls now t0 s =
     (case validate parses t0 of
        Inl e \<Rightarrow> (Inl e, s)
      | Inr t \<Rightarrow>
          let asked = (if ti_host t \<noteq> 0 then 1 else 0) in
          if calls < asked then (Inl request_gone, s)
          else if ti_host t \<noteq> 0 \<and> \<not> is_ok (host (itoa (ti_host t)) (sc_db s)) then (Inl NoHost, s)
          else if calls < asked + 1 then (Inl request_gone, s)
          else (case save_task now (ti_id t) (ti_name t) (ti_host t) (ti_command t) (ti_schedule t)
                       (ti_timeout t) (ti_enabled t) (sc_db s) of
                  Inl e \<Rightarrow> (Inl e, s)
                | Inr (i, d) \<Rightarrow>
                    (case (if calls < asked + 2 then Inl request_gone else task i d) of
                       Inl e \<Rightarrow> (Inl e, s\<lparr>sc_db := d\<rparr>)
                     | Inr (saved, hn) \<Rightarrow>
                         (Inr (saved, hn), schedule add remove saved (s\<lparr>sc_db := d\<rparr>)))))"

definition delete :: "(nat \<Rightarrow> 'c \<Rightarrow> 'c) \<Rightarrow> nat \<Rightarrow> int \<Rightarrow> 'c sched \<Rightarrow> err option \<times> 'c sched" where
  "delete remove calls i s =
     (let s1 = unschedule remove i s
      in if calls < 1 then (Some request_gone, s1) else (None, s1\<lparr>sc_db := delete_task i (sc_db s1)\<rparr>))"

section \<open>Firing\<close>

text \<open>The lock on a task: acquired when a fire begins, released when it returns.\<close>

definition begin_fire :: "int \<Rightarrow> 'c sched \<Rightarrow> bool \<times> 'c sched" where
  "begin_fire i s =
     (if i \<in> sc_running s then (False, s) else (True, s\<lparr>sc_running := insert i (sc_running s)\<rparr>))"

definition end_fire :: "int \<Rightarrow> 'c sched \<Rightarrow> 'c sched" where
  "end_fire i s = s\<lparr>sc_running := sc_running s - {i}\<rparr>"

interpretation fires: slot_lock "\<lambda>s i. i \<in> sc_running s" begin_fire end_fire
  by unfold_locales (auto simp: begin_fire_def end_fire_def)

text \<open>What a machine makes of the command: an error on the way, or an exit status with its output.\<close>

type_synonym exec = "host_row \<Rightarrow> string \<Rightarrow> int \<Rightarrow> string + (int \<times> string \<times> string)"

definition fire_host ::
  "exec \<Rightarrow> (host_row \<Rightarrow> instant \<times> instant) \<Rightarrow> task_row \<Rightarrow> host_row \<Rightarrow> bool \<times> db \<Rightarrow> bool \<times> db" where
  "fire_host exec clocked t h = (\<lambda>(failed, s).
     if h_status h \<noteq> ''online''
     then (failed, case start_run (fst (clocked h)) (t_id t) (h_id h) (h_name h) (''host is '' @ h_status h) s of
                     Inl _ \<Rightarrow> s | Inr (_, s1) \<Rightarrow> s1)
     else (case start_run (fst (clocked h)) (t_id t) (h_id h) (h_name h) '''' s of
             Inl _ \<Rightarrow> (failed, s)
           | Inr (i, s1) \<Rightarrow>
               (case exec h (t_command t) (t_timeout t) of
                  Inl e \<Rightarrow> (True, end_run (snd (clocked h)) i (- 1) e s1)
                | Inr (status, out, err) \<Rightarrow>
                    (failed \<or> status \<noteq> 0, end_run (snd (clocked h)) i status (out @ err) s1))))"

definition fire_hosts ::
  "exec \<Rightarrow> (host_row \<Rightarrow> instant \<times> instant) \<Rightarrow> task_row \<Rightarrow> host_row list \<Rightarrow> db \<Rightarrow> bool \<times> db" where
  "fire_hosts exec clocked t hs s = fold (fire_host exec clocked t) hs (False, s)"

definition notify :: "string \<Rightarrow> string \<Rightarrow> string \<Rightarrow> 'c sched \<Rightarrow> 'c sched" where
  "notify kind subject msg s = s\<lparr>sc_notes := sc_notes s @ [(kind, subject, msg)]\<rparr>"

definition fire_done :: "task_row \<Rightarrow> bool \<Rightarrow> db \<Rightarrow> 'c sched \<Rightarrow> 'c sched" where
  "fire_done t failed d s =
     (let (changed, d1) = set_task_failing (t_id t) failed (trim_runs (t_id t) 50 d);
          s1 = s\<lparr>sc_db := d1\<rparr>
      in if \<not> changed then s1
         else if failed then notify ''task.failing'' (t_name t) (''task '' @ t_name t @ '' has started failing'') s1
         else notify ''task.ok'' (t_name t) (''task '' @ t_name t @ '' succeeded again'') s1)"

definition err_text :: "err \<Rightarrow> string" where
  "err_text e = (case e of Refusal r \<Rightarrow> ''refused: '' @ r | Err m \<Rightarrow> m | _ \<Rightarrow> '''')"

definition fire_task ::
  "exec \<Rightarrow> (host_row \<Rightarrow> instant \<times> instant) \<Rightarrow> instant \<Rightarrow> int \<Rightarrow> 'c sched \<Rightarrow> 'c sched" where
  "fire_task exec clocked now i s =
     (case task i (sc_db s) of
        Inl _ \<Rightarrow> s
      | Inr (t, _) \<Rightarrow>
          (case check (t_command t) of
             Some e \<Rightarrow>
               notify ''gate.refused'' (t_name t) (''task '' @ t_name t @ '': '' @ err_text e)
                 (s\<lparr>sc_db := (case start_run now (t_id t) 0 '''' (err_text e) (sc_db s) of
                                 Inl _ \<Rightarrow> sc_db s | Inr (_, d) \<Rightarrow> d)\<rparr>)
           | None \<Rightarrow>
               (case t_host t of
                  Some j \<Rightarrow>
                    (case host (itoa j) (sc_db s) of
                       Inl _ \<Rightarrow> s
                     | Inr h \<Rightarrow>
                         let (failed, d) = fire_hosts exec clocked t [h] (sc_db s) in fire_done t failed d s)
                | None \<Rightarrow>
                    let (failed, d) = fire_hosts exec clocked t (hosts (sc_db s)) (sc_db s)
                    in fire_done t failed d s)))"

definition fire ::
  "exec \<Rightarrow> (host_row \<Rightarrow> instant \<times> instant) \<Rightarrow> instant \<Rightarrow> int \<Rightarrow> 'c sched \<Rightarrow> 'c sched" where
  "fire exec clocked now i s =
     (let (ok, s1) = begin_fire i s
      in if ok then end_fire i (fire_task exec clocked now i s1) else s1)"

end
