(* ===== verification/TaskLaws.thy ===== *)
theory TaskLaws
  imports TaskSched
begin

text \<open>
  What the scheduler promises over saves, deletions, fires, removals of machines, restarts and restores: the
  tasks it holds are well formed; as long as no request is cut, the clock has one entry for each enabled one and
  no other entry does anything; a fire leaves one record per machine; what the panel is told about failing tasks; and the entries that a
  removed machine, two requests at once and a request that is cut leave on the clock, or off it.
\<close>

section \<open>A fire's records\<close>

definition run_view :: "run_row \<Rightarrow> int \<times> int option \<times> string \<times> int option \<times> string \<times> bool" where
  "run_view r = (r_task r, r_host r, r_hostname r, r_exit r, r_skipped r, r_ended r \<noteq> None)"

text \<open>What is to be recorded for a machine: skipped with its status, or run to an exit status (-1 for an error).\<close>

definition due_view :: "exec \<Rightarrow> task_row \<Rightarrow> host_row \<Rightarrow> int \<times> int option \<times> string \<times> int option \<times> string \<times> bool" where
  "due_view exec t h =
     (t_id t, Some (h_id h), h_name h,
      (if h_status h \<noteq> ''online'' then None
       else Some (case exec h (t_command t) (t_timeout t) of Inl _ \<Rightarrow> - 1 | Inr (status, _) \<Rightarrow> status)),
      (if h_status h \<noteq> ''online'' then ''host is '' @ h_status h else ''''), True)"

definition fails_on :: "exec \<Rightarrow> task_row \<Rightarrow> host_row \<Rightarrow> bool" where
  "fails_on exec t h \<longleftrightarrow> h_status h = ''online'' \<and>
     (case exec h (t_command t) (t_timeout t) of Inl _ \<Rightarrow> True | Inr (status, _) \<Rightarrow> status \<noteq> 0)"

definition run_allowed :: "task_row \<Rightarrow> host_row \<Rightarrow> db \<Rightarrow> bool" where
  "run_allowed t h s \<longleftrightarrow> t_id t \<in> set (map t_id (tb_tasks s)) \<and> host_known s (h_id h) \<and> h_id h \<noteq> 0"

lemma end_run_tables [simp]:
  "tb_tasks (end_run now i status out s) = tb_tasks s" "tb_hosts (end_run now i status out s) = tb_hosts s"
  by (simp_all add: end_run_def)

lemma start_run_new:
  assumes "run_allowed t h s"
  shows "\<exists>i s1 r. start_run now (t_id t) (h_id h) (h_name h) skip s = Inr (i, s1) \<and>
    tb_runs s1 = tb_runs s @ [r] \<and> r_id r = i \<and> i \<notin> r_id ` set (tb_runs s) \<and>
    tb_tasks s1 = tb_tasks s \<and> tb_hosts s1 = tb_hosts s \<and>
    run_view r = (t_id t, Some (h_id h), h_name h, None, skip, skip \<noteq> '''')"
  using assms next_id_fresh [of "map r_id (tb_runs s)"]
  by (simp add: start_run_def run_allowed_def run_view_def Let_def)

lemma end_run_last:
  assumes "tb_runs s = rs @ [r]" and "r_id r = i" and "i \<notin> r_id ` set rs"
  shows "tb_runs (end_run now i status out s) =
    rs @ [r\<lparr>r_ended := Some (sql_stamp now), r_exit := Some status, r_output := run_output out\<rparr>]"
proof -
  have "update_where (\<lambda>r. r_id r = i) f rs = rs" for f
    using assms(3) by (intro update_where_none) auto
  with assms show ?thesis by (simp add: end_run_def update_where_def)
qed

lemma fire_host_record:
  assumes "run_allowed t h s"
  shows "\<exists>d. fire_host exec clocked t h (failed, s) = (failed \<or> fails_on exec t h, d) \<and>
    map run_view (tb_runs d) = map run_view (tb_runs s) @ [due_view exec t h] \<and>
    tb_tasks d = tb_tasks s \<and> tb_hosts d = tb_hosts s"
proof (cases "h_status h = ''online''")
  case True
  obtain i r s1 where new: "start_run (fst (clocked h)) (t_id t) (h_id h) (h_name h) '''' s = Inr (i, s1)"
    "tb_runs s1 = tb_runs s @ [r]" "r_id r = i" "i \<notin> r_id ` set (tb_runs s)"
    and same: "tb_tasks s1 = tb_tasks s" "tb_hosts s1 = tb_hosts s"
    and v: "run_view r = (t_id t, Some (h_id h), h_name h, None, '''', False)"
    using start_run_new [OF assms, of "fst (clocked h)" "''''"] by auto
  note ended = end_run_last [OF new(2-4)]
  show ?thesis
  proof (cases "exec h (t_command t) (t_timeout t)")
    case (Inl e)
    with True new(1) same v show ?thesis
      by (simp add: fire_host_def fails_on_def due_view_def ended) (simp add: run_view_def)
  next
    case (Inr x)
    with True new(1) same v show ?thesis
      by (cases x) (simp add: fire_host_def fails_on_def due_view_def ended, simp add: run_view_def)
  qed
next
  case False
  obtain i r s1 where "start_run (fst (clocked h)) (t_id t) (h_id h) (h_name h) (''host is '' @ h_status h) s = Inr (i, s1)"
    "tb_runs s1 = tb_runs s @ [r]" "r_id r = i" "i \<notin> r_id ` set (tb_runs s)"
    "tb_tasks s1 = tb_tasks s" "tb_hosts s1 = tb_hosts s"
    "run_view r = (t_id t, Some (h_id h), h_name h, None, ''host is '' @ h_status h, ''host is '' @ h_status h \<noteq> '''')"
    using start_run_new [OF assms, of "fst (clocked h)" "''host is '' @ h_status h"] by blast
  with False show ?thesis by (simp add: fire_host_def fails_on_def due_view_def)
qed

lemma fire_hosts_record:
  assumes "\<forall>h \<in> set hs. run_allowed t h s"
  shows "\<exists>d. fold (fire_host exec clocked t) hs (failed, s) = (failed \<or> (\<exists>h \<in> set hs. fails_on exec t h), d) \<and>
    map run_view (tb_runs d) = map run_view (tb_runs s) @ map (due_view exec t) hs \<and>
    tb_tasks d = tb_tasks s \<and> tb_hosts d = tb_hosts s"
  using assms
proof (induction hs arbitrary: failed s)
  case (Cons h hs)
  obtain d where d: "fire_host exec clocked t h (failed, s) = (failed \<or> fails_on exec t h, d)"
    "map run_view (tb_runs d) = map run_view (tb_runs s) @ [due_view exec t h]"
    "tb_tasks d = tb_tasks s" "tb_hosts d = tb_hosts s"
    using fire_host_record [of t h s exec clocked failed] Cons.prems by auto
  then have "\<forall>g \<in> set hs. run_allowed t g d"
    using Cons.prems by (auto simp: run_allowed_def host_known_def)
  from Cons.IH [OF this, of "failed \<or> fails_on exec t h"] d show ?case by auto
qed simp
lemma task_found: "task i s = Inr (t, hn) \<Longrightarrow> t \<in> set (tb_tasks s) \<and> t_id t = i"
  by (auto simp: task_def task_view_def find_Some_iff split: option.splits)

lemma hosts_known: "h \<in> set (hosts s) \<Longrightarrow> host_known s (h_id h) \<and> h_id h \<in> host_ids s"
  by (auto simp: hosts_def scan_host_def host_known_def host_ids_def list_ex_iff)

text \<open>
  A fire of a task for every machine, whose command the gate accepts, records exactly one run per
  machine, in order: skipped with the machine's status if it is not online, else ended with its exit
  code (-1 if it could not be run); then it trims, and it counts as failed exactly if some
  machine that was online failed.
\<close>

theorem fire_records_every_machine:
  assumes "task i (sc_db s) = Inr (t, hn)" and "i \<notin> sc_running s" and "check (t_command t) = None"
    and "t_host t = None" and "0 \<notin> host_ids (sc_db s)"
  shows "\<exists>d. map run_view (tb_runs d) =
      map run_view (tb_runs (sc_db s)) @ map (due_view exec t) (hosts (sc_db s)) \<and>
    fire exec clocked now i s = fire_done t (\<exists>h \<in> set (hosts (sc_db s)). fails_on exec t h) d s"
proof -
  have "\<forall>h \<in> set (hosts (sc_db s)). run_allowed t h (sc_db s)"
    using task_found [OF assms(1)] hosts_known assms(5) by (fastforce simp: run_allowed_def)
  from fire_hosts_record [OF this, of exec clocked False]
  obtain d where d: "fire_hosts exec clocked t (hosts (sc_db s)) (sc_db s) =
      (\<exists>h \<in> set (hosts (sc_db s)). fails_on exec t h, d)"
    "map run_view (tb_runs d) = map run_view (tb_runs (sc_db s)) @ map (due_view exec t) (hosts (sc_db s))"
    by (auto simp: fire_hosts_def)
  have "fire exec clocked now i s = fire_done t (\<exists>h \<in> set (hosts (sc_db s)). fails_on exec t h) d s"
    using assms(1-4) d(1)
    by (simp add: fire_def begin_fire_def end_fire_def fire_task_def fire_done_def notify_def Let_def
        split: prod.splits if_splits)
  with d(2) show ?thesis by blast
qed

section \<open>The tasks in the table\<close>

definition task_ok :: "(string \<Rightarrow> string option) \<Rightarrow> task_row \<Rightarrow> bool" where
  "task_ok parses t \<longleftrightarrow> trim_space (t_name t) \<noteq> '''' \<and> trim_space (t_command t) \<noteq> '''' \<and>
     parses (t_schedule t) = None \<and> 0 < t_timeout t \<and> t_timeout t \<le> 86400 \<and> check (t_command t) = None"

lemma validate_ok:
  "validate parses t0 = Inr t \<Longrightarrow>
     trim_space (ti_name t) \<noteq> '''' \<and> trim_space (ti_command t) \<noteq> '''' \<and> parses (ti_schedule t) = None \<and>
     0 < ti_timeout t \<and> ti_timeout t \<le> 86400 \<and> check (ti_command t) = None"
  by (auto simp: validate_def Let_def split: if_split_asm option.splits)

lemma start_run_tasks: "start_run now i h n skip s = Inr (r, s1) \<Longrightarrow> tb_tasks s1 = tb_tasks s \<and> tb_hosts s1 = tb_hosts s"
  by (auto simp: start_run_def Let_def split: if_split_asm)

lemma fire_host_tasks: "tb_tasks (snd (fire_host exec clocked t h (b, s))) = tb_tasks s"
  by (auto simp: fire_host_def split: sum.splits prod.splits dest: start_run_tasks)

lemma fire_hosts_tasks: "tb_tasks (snd (fold (fire_host exec clocked t) hs (b, s))) = tb_tasks s"
proof (induction hs arbitrary: b s)
  case (Cons h hs)
  then show ?case
    using fire_host_tasks [of exec clocked t h b s] by (cases "fire_host exec clocked t h (b, s)") simp
qed simp

lemma fire_done_tasks:
  "tb_tasks (sc_db (fire_done t failed d s)) =
     update_where (\<lambda>t'. t_id t' = t_id t \<and> t_failing t' \<noteq> failed) (\<lambda>t'. t'\<lparr>t_failing := failed\<rparr>) (tb_tasks d)"
  by (simp add: fire_done_def notify_def set_task_failing_def trim_runs_def Let_def)

text \<open>A fire changes nothing of the tasks but whether they are failing.\<close>

definition only_failing :: "db \<Rightarrow> db \<Rightarrow> bool" where
  "only_failing d e \<longleftrightarrow> (\<exists>p b. tb_tasks e = update_where p (\<lambda>t. t\<lparr>t_failing := b\<rparr>) (tb_tasks d))"

lemma only_failing_same: "tb_tasks e = tb_tasks d \<Longrightarrow> only_failing d e"
  unfolding only_failing_def by (rule exI [of _ "\<lambda>_. False"]) (simp add: update_where_none)

lemma only_failing_done: "tb_tasks d = tb_tasks e \<Longrightarrow> only_failing e (sc_db (fire_done t failed d s))"
  unfolding only_failing_def fire_done_tasks by metis

lemma only_failing_hosts:
  "fire_hosts exec clocked t hs d = (failed, e) \<Longrightarrow> only_failing d (sc_db (fire_done t failed e s))"
  using fire_hosts_tasks [of exec clocked t hs False d] by (intro only_failing_done) (simp add: fire_hosts_def)

lemma only_failing_task: "only_failing (sc_db s) (sc_db (fire_task exec clocked now i s))"
  unfolding fire_task_def notify_def
  by (simp split: sum.split option.split prod.split)
    (auto intro: only_failing_same only_failing_hosts dest: start_run_tasks)

lemma only_failing_fire: "only_failing (sc_db s) (sc_db (fire exec clocked now i s))"
  using only_failing_task [of "s\<lparr>sc_running := insert i (sc_running s)\<rparr>" exec clocked now i]
  by (simp add: fire_def begin_fire_def end_fire_def only_failing_same)

section \<open>The clock and the table\<close>

text \<open>
  The abstract scheduler: for each task, the schedule it is due by (none if it is off). The cron library's
  clock is read by \<open>live\<close>: what each entry fires. Its documented behaviour:
  \<^item> \<open>AddFunc\<close> fails exactly on a schedule that does not parse, and otherwise adds one entry
    under an identifier not in use;
  \<^item> \<open>Remove\<close> takes that entry off and no other.
\<close>

definition due :: "task_row \<Rightarrow> string option" where
  "due t = (if t_enabled t then Some (t_schedule t) else None)"

definition cron_laws ::
  "(string \<Rightarrow> string option) \<Rightarrow> (string \<Rightarrow> int \<Rightarrow> 'c \<Rightarrow> (nat \<times> 'c) option) \<Rightarrow> (nat \<Rightarrow> 'c \<Rightarrow> 'c) \<Rightarrow>
   ('c \<Rightarrow> nat \<Rightarrow> (string \<times> int) option) \<Rightarrow> bool" where
  "cron_laws parses add remove live \<longleftrightarrow>
     (\<forall>sch i c. add sch i c = None \<longleftrightarrow> parses sch \<noteq> None) \<and>
     (\<forall>sch i c e c'. add sch i c = Some (e, c') \<longrightarrow> live c e = None \<and> live c' = (live c)(e \<mapsto> (sch, i))) \<and>
     (\<forall>e c. live (remove e c) = (live c)(e := None))"

definition clock_shows :: "('c \<Rightarrow> nat \<Rightarrow> (string \<times> int) option) \<Rightarrow> 'c sched \<Rightarrow> (int \<Rightarrow> string option) \<Rightarrow> bool" where
  "clock_shows live s m \<longleftrightarrow>
     (\<forall>e sch i. live (sc_clock s) e = Some (sch, i) \<longleftrightarrow> sc_entries s i = Some e \<and> m i = Some sch) \<and>
     (\<forall>i. sc_entries s i = None \<longleftrightarrow> m i = None)"

lemma unschedule_shows:
  assumes "cron_laws parses add remove live" and "clock_shows live s m"
  shows "clock_shows live (unschedule remove i s) (m(i := None))"
proof (cases "sc_entries s i")
  case None
  with assms(2) have "m(i := None) = m" by (auto simp: clock_shows_def)
  with None assms(2) show ?thesis by (simp add: unschedule_def)
next
  case (Some e)
  have e: "live (remove e (sc_clock s)) = (live (sc_clock s))(e := None)"
    using assms(1) by (simp add: cron_laws_def)
  have "m i \<noteq> None" using assms(2) Some by (metis clock_shows_def option.distinct(1))
  then obtain sch where here: "live (sc_clock s) e = Some (sch, i)"
    using assms(2) Some by (auto simp: clock_shows_def)
  with assms(2) have other: "sc_entries s j = Some e \<longrightarrow> j = i" for j
    using here by (auto simp: clock_shows_def) (metis Pair_inject not_None_eq option.inject)
  from assms(2) show ?thesis
    by (auto simp: unschedule_def Some clock_shows_def e dest: other[rule_format])
qed

lemma schedule_shows:
  assumes laws: "cron_laws parses add remove live" and "clock_shows live s m" and "parses (t_schedule t) = None"
  shows "clock_shows live (schedule add remove t s) (m(t_id t := due t))"
proof -
  let ?i = "t_id t" and ?s = "unschedule remove (t_id t) s"
  have u: "clock_shows live ?s (m(?i := None))" by (rule unschedule_shows [OF laws assms(2)])
  show ?thesis
  proof (cases "t_enabled t")
    case True
    obtain e c where a: "add (t_schedule t) ?i (sc_clock ?s) = Some (e, c)"
      using laws assms(3) by (metis cron_laws_def not_None_eq surj_pair)
    with laws have l: "live (sc_clock ?s) e = None" "live c = (live (sc_clock ?s))(e \<mapsto> (t_schedule t, ?i))"
      unfolding cron_laws_def by blast+
    have fresh: "sc_entries ?s j \<noteq> Some e" for j
      using u l(1) by (auto simp: clock_shows_def) (metis not_None_eq option.distinct(1))
    have "sc_entries ?s ?i = None" using u by (simp add: clock_shows_def)
    with u show ?thesis
      using a True fresh by (auto simp: schedule_def clock_shows_def l(2) Let_def due_def split: if_split_asm)
  next
    case False
    with u show ?thesis by (simp add: schedule_def Let_def fun_upd_def due_def)
  qed
qed

section \<open>Every history of the scheduler\<close>

lemma save_task_rows:
  "save_task now i0 n h c sch to en s = Inr (i, d) \<Longrightarrow> t \<in> set (tb_tasks d) \<Longrightarrow>
     t \<in> set (tb_tasks s) \<or> t_id t = i \<and> t_name t = n \<and> t_command t = c \<and> t_schedule t = sch \<and> t_timeout t = to \<and> t_enabled t = en"
  by (auto simp: save_task_def Let_def update_where_def split: if_split_asm)

lemma save_task_keyed:
  "save_task now i0 n h c sch to en s = Inr (i, d) \<Longrightarrow> keyed t_id (tb_tasks s) \<Longrightarrow> keyed t_id (tb_tasks d)"
  by (auto simp: save_task_def Let_def keyed_next_id keyed_update split: if_split_asm)

lemma unfound: "task i d = Inl e \<Longrightarrow> t \<in> set (tb_tasks d) \<Longrightarrow> t_id t \<noteq> i"
  by (auto simp: task_def find_none_iff split: option.splits)

lemma schedule_db [simp]: "sc_db (schedule add remove t s) = sc_db s"
  by (simp add: schedule_def unschedule_def Let_def split: option.split)

lemma unschedule_db [simp]: "sc_db (unschedule remove i s) = sc_db s"
  by (simp add: unschedule_def split: option.split)

lemma clock_shows_db [simp]: "clock_shows live (s\<lparr>sc_db := d\<rparr>) m = clock_shows live s m"
  by (simp add: clock_shows_def)

text \<open>The clock shows every task of the table as it is; it may show others besides, as they once were.\<close>

definition covers :: "(int \<Rightarrow> string option) \<Rightarrow> task_row list \<Rightarrow> bool" where
  "covers m ts = (\<forall>t \<in> set ts. m (t_id t) = due t)"

definition rows_ok :: "(string \<Rightarrow> string option) \<Rightarrow> db \<Rightarrow> bool" where
  "rows_ok parses d \<longleftrightarrow> (\<forall>t \<in> set (tb_tasks d). task_ok parses t) \<and> keyed t_id (tb_tasks d)"

text \<open>The tasks are well formed and the clock's own books agree; in a steady history it also follows the table.\<close>

definition sched_ok ::
  "bool \<Rightarrow> (string \<Rightarrow> string option) \<Rightarrow> ('c \<Rightarrow> nat \<Rightarrow> (string \<times> int) option) \<Rightarrow> 'c sched \<Rightarrow> bool" where
  "sched_ok steady parses live s \<longleftrightarrow> rows_ok parses (sc_db s) \<and>
     (\<exists>m. clock_shows live s m \<and> (steady \<longrightarrow> covers m (tb_tasks (sc_db s))))"

lemma sched_okI:
  "clock_shows live s m \<Longrightarrow> (steady \<Longrightarrow> covers m (tb_tasks (sc_db s))) \<Longrightarrow> rows_ok parses (sc_db s) \<Longrightarrow>
     sched_ok steady parses live s"
  by (auto simp: sched_ok_def)

text \<open>
  What happens to a scheduler: requests to save and to delete, one after the other; whole fires; and, in
  between, what the rest of the hub and the fires under way write to the state file: anything that leaves the
  table of the tasks alone, the flag of a failing task, and a machine's removal, which takes its tasks with it.
  In a steady history no request ends before the store has done its part.
\<close>

inductive sched_step ::
  "bool \<Rightarrow> (string \<Rightarrow> string option) \<Rightarrow> (string \<Rightarrow> int \<Rightarrow> 'c \<Rightarrow> (nat \<times> 'c) option) \<Rightarrow> (nat \<Rightarrow> 'c \<Rightarrow> 'c) \<Rightarrow>
   'c sched \<Rightarrow> 'c sched \<Rightarrow> bool" for steady parses add remove where
  step_save: "steady \<longrightarrow> 3 \<le> calls \<Longrightarrow> sched_step steady parses add remove s (snd (save parses add remove calls now t s))"
| step_delete: "steady \<longrightarrow> 1 \<le> calls \<Longrightarrow> sched_step steady parses add remove s (snd (delete remove calls i s))"
| step_fire: "sched_step steady parses add remove s (fire exec clocked now i s)"
| step_elsewhere: "tb_tasks d = tb_tasks (sc_db s) \<Longrightarrow> sched_step steady parses add remove s (s\<lparr>sc_db := d\<rparr>)"
| step_flag: "sched_step steady parses add remove s (s\<lparr>sc_db := snd (set_task_failing i b (sc_db s))\<rparr>)"
| step_host_gone: "sched_step steady parses add remove s (s\<lparr>sc_db := remove_host j (sc_db s)\<rparr>)"

text \<open>
  A history begins on an empty state file; a restart gives a new clock, on the state file as it is or on one
  exported at an earlier moment and restored.
\<close>

inductive sched_reach ::
  "bool \<Rightarrow> (string \<Rightarrow> string option) \<Rightarrow> (string \<Rightarrow> int \<Rightarrow> 'c \<Rightarrow> (nat \<times> 'c) option) \<Rightarrow> (nat \<Rightarrow> 'c \<Rightarrow> 'c) \<Rightarrow>
   'c \<Rightarrow> 'c sched \<Rightarrow> bool" for steady parses add remove clock where
  sched_new: "sched_reach steady parses add remove clock (new_sched empty_db clock)"
| sched_next: "sched_reach steady parses add remove clock s \<Longrightarrow> sched_step steady parses add remove s s' \<Longrightarrow>
    sched_reach steady parses add remove clock s'"
| sched_start: "sched_reach steady parses add remove clock s \<Longrightarrow>
    sched_reach steady parses add remove clock (start add remove (new_sched (sc_db s) clock))"

lemma save_cases:
  "snd (save parses add remove calls now t0 s) = s \<or>
   (\<exists>t i d. validate parses t0 = Inr t \<and>
      save_task now (ti_id t) (ti_name t) (ti_host t) (ti_command t) (ti_schedule t) (ti_timeout t)
        (ti_enabled t) (sc_db s) = Inr (i, d) \<and>
      (calls < 3 \<and> snd (save parses add remove calls now t0 s) = s\<lparr>sc_db := d\<rparr> \<or>
       snd (save parses add remove calls now t0 s) = (case task i d of
         Inl _ \<Rightarrow> s\<lparr>sc_db := d\<rparr> | Inr (row, _) \<Rightarrow> schedule add remove row (s\<lparr>sc_db := d\<rparr>))))"
proof (cases "validate parses t0")
  case (Inr t)
  let ?put = "save_task now (ti_id t) (ti_name t) (ti_host t) (ti_command t) (ti_schedule t) (ti_timeout t)
    (ti_enabled t) (sc_db s)"
  let ?asked = "if ti_host t \<noteq> 0 then 1 else 0 :: nat"
  show ?thesis
  proof (cases ?put)
    case (Inl e)
    then show ?thesis by (cases "ti_host t = 0") (auto simp: save_def Inr Let_def)
  next
    case put: (Inr x)
    obtain i d where x: "x = (i, d)" by fastforce
    show ?thesis
    proof (cases "calls < ?asked + 2")
      case True
      then have "calls < 3" by (simp split: if_split_asm)
      moreover have "snd (save parses add remove calls now t0 s) \<in> {s, s\<lparr>sc_db := d\<rparr>}"
        using True put x by (cases "ti_host t = 0") (simp_all add: save_def Inr Let_def)
      ultimately show ?thesis using Inr put x by auto
    next
      case False
      then have "snd (save parses add remove calls now t0 s) = s \<or>
          snd (save parses add remove calls now t0 s) = (case task i d of
            Inl _ \<Rightarrow> s\<lparr>sc_db := d\<rparr> | Inr (row, _) \<Rightarrow> schedule add remove row (s\<lparr>sc_db := d\<rparr>))"
        using put x by (cases "ti_host t = 0") (simp_all add: save_def Inr Let_def split: sum.split prod.split)
      then show ?thesis using Inr put x by auto
    qed
  qed
qed (simp add: save_def)

lemma save_ok:
  assumes laws: "cron_laws parses add remove live" and ok: "sched_ok steady parses live s" and "steady \<longrightarrow> 3 \<le> calls"
  shows "sched_ok steady parses live (snd (save parses add remove calls now t0 s))"
proof -
  let ?after = "snd (save parses add remove calls now t0 s)"
  consider (unchanged) "?after = s"
    | (saved) t i d where "validate parses t0 = Inr t"
        "save_task now (ti_id t) (ti_name t) (ti_host t) (ti_command t) (ti_schedule t) (ti_timeout t)
           (ti_enabled t) (sc_db s) = Inr (i, d)"
        "calls < 3 \<and> ?after = s\<lparr>sc_db := d\<rparr> \<or> ?after = (case task i d of
           Inl _ \<Rightarrow> s\<lparr>sc_db := d\<rparr> | Inr (row, _) \<Rightarrow> schedule add remove row (s\<lparr>sc_db := d\<rparr>))"
    using save_cases [of parses add remove calls now t0 s] by blast
  then show ?thesis
  proof cases
    case unchanged
    with ok show ?thesis by simp
  next
    case saved
    obtain m where m: "clock_shows live s m" "steady \<longrightarrow> covers m (tb_tasks (sc_db s))" using ok by (auto simp: sched_ok_def)
    note v = validate_ok [OF saved(1)]
    have "\<forall>r \<in> set (tb_tasks d). task_ok parses r"
      using ok v save_task_rows [OF saved(2)] by (fastforce simp: sched_ok_def rows_ok_def task_ok_def)
    moreover have keyed: "keyed t_id (tb_tasks d)"
      using save_task_keyed [OF saved(2)] ok by (simp add: sched_ok_def rows_ok_def)
    ultimately have rows: "rows_ok parses d" by (simp add: rows_ok_def)
    have others: "m (t_id r) = due r" if "r \<in> set (tb_tasks d)" "t_id r \<noteq> i" steady for r
      using save_task_rows [OF saved(2) that(1)] that(2,3) m(2) by (auto simp: covers_def)
    have db: ?thesis if "?after = s\<lparr>sc_db := d\<rparr>" "steady \<longrightarrow> covers m (tb_tasks d)"
      using that m(1) rows by (auto intro!: sched_okI [where m = m])
    show ?thesis
    proof (cases "task i d")
      case (Inl e)
      then have "steady \<longrightarrow> covers m (tb_tasks d)" using others unfound by (auto simp: covers_def)
      with saved(3) Inl show ?thesis by (intro db) auto
    next
      case (Inr x)
      obtain row hn where x: "x = (row, hn)" by fastforce
      show ?thesis
      proof (cases "calls < 3 \<and> ?after = s\<lparr>sc_db := d\<rparr>")
        case True
        with assms(3) show ?thesis by (intro db) auto
      next
        case False
        then have after: "?after = schedule add remove row (s\<lparr>sc_db := d\<rparr>)" using saved(3) Inr x by auto
        have row: "row \<in> set (tb_tasks d)" "t_id row = i" using task_found Inr x by auto
        have "steady \<longrightarrow> covers (m(i := due row)) (tb_tasks d)"
          using others row keyed_eqD [OF keyed] by (auto simp: covers_def)
        moreover have "parses (t_schedule row) = None" using rows row(1) by (simp add: rows_ok_def task_ok_def)
        ultimately show ?thesis
          using schedule_shows [OF laws, of "s\<lparr>sc_db := d\<rparr>" m row] m(1) rows row(2) unfolding after
          by (auto intro!: sched_okI)
      qed
    qed
  qed
qed

lemma fewer_ok:
  assumes "sched_ok steady parses live s" "clock_shows live s' m" "set (tb_tasks (sc_db s')) \<subseteq> set (tb_tasks (sc_db s))"
    and "keyed t_id (tb_tasks (sc_db s'))" "steady \<Longrightarrow> covers m (tb_tasks (sc_db s'))"
  shows "sched_ok steady parses live s'"
  using assms by (auto simp: sched_ok_def rows_ok_def)

lemma delete_ok:
  assumes laws: "cron_laws parses add remove live" and ok: "sched_ok steady parses live s" and "steady \<longrightarrow> 1 \<le> calls"
  shows "sched_ok steady parses live (snd (delete remove calls i s))"
proof -
  obtain m where m: "clock_shows live s m" "steady \<longrightarrow> covers m (tb_tasks (sc_db s))" using ok by (auto simp: sched_ok_def)
  have "clock_shows live (snd (delete remove calls i s)) (m(i := None))"
    using unschedule_shows [OF laws m(1), of i] by (simp add: delete_def Let_def)
  then show ?thesis
    using fewer_ok [OF ok] m(2) ok assms(3)
    by (auto simp: delete_def delete_task_def drop_tasks_def Let_def covers_def keyed_delete sched_ok_def rows_ok_def)
qed

lemma fire_same_clock:
  "sc_clock (fire exec clocked now i s) = sc_clock s" "sc_entries (fire exec clocked now i s) = sc_entries s"
  by (simp_all add: fire_def begin_fire_def end_fire_def fire_task_def fire_done_def notify_def Let_def
      split: sum.split option.split prod.split)

lemma flagged_ok:
  assumes "sched_ok steady parses live s" "only_failing (sc_db s) (sc_db s')" "sc_clock s' = sc_clock s" "sc_entries s' = sc_entries s"
  shows "sched_ok steady parses live s'"
proof -
  obtain p b where rows: "tb_tasks (sc_db s') = update_where p (\<lambda>t. t\<lparr>t_failing := b\<rparr>) (tb_tasks (sc_db s))"
    using assms(2) by (auto simp: only_failing_def)
  have "clock_shows live s' m = clock_shows live s m" for m by (simp add: clock_shows_def assms(3,4))
  then show ?thesis
    using assms(1) unfolding sched_ok_def rows_ok_def rows
    by (auto simp: keyed_update covers_def set_update_where task_ok_def due_def)
qed

lemma host_gone_ok: "sched_ok steady parses live s \<Longrightarrow> sched_ok steady parses live (s\<lparr>sc_db := remove_host j (sc_db s)\<rparr>)"
proof -
  assume ok: "sched_ok steady parses live s"
  have "tb_tasks (remove_host j (sc_db s)) = delete_where (\<lambda>t. t_host t = Some j) (tb_tasks (sc_db s))"
    by (simp add: remove_host_def drop_jobs_def drop_tasks_def drop_clusters_def drop_workspaces_def Let_def)
  with ok show ?thesis by (auto simp: sched_ok_def rows_ok_def covers_def keyed_delete)
qed

text \<open>A start puts every enabled task of the table on the clock.\<close>

lemma start_shows:
  assumes laws: "cron_laws parses add remove live"
  shows "clock_shows live s m \<Longrightarrow> distinct (map t_id ts) \<Longrightarrow> \<forall>t \<in> set ts. parses (t_schedule t) = None \<Longrightarrow>
    \<exists>m'. clock_shows live (fold (schedule add remove) ts s) m' \<and> covers m' ts \<and> (\<forall>i. i \<notin> t_id ` set ts \<longrightarrow> m' i = m i)"
proof (induction ts arbitrary: s m)
  case (Cons t ts)
  have "clock_shows live (schedule add remove t s) (m(t_id t := due t))"
    using Cons.prems by (intro schedule_shows [OF laws]) auto
  from Cons.IH [OF this] Cons.prems obtain m' where
    "clock_shows live (fold (schedule add remove) ts (schedule add remove t s)) m'" "covers m' ts"
    "\<forall>i. i \<notin> t_id ` set ts \<longrightarrow> m' i = (m(t_id t := due t)) i"
    by auto
  with Cons.prems(2) show ?case by (intro exI [of _ m']) (auto simp: covers_def)
qed (auto simp: covers_def)

lemma start_db: "sc_db (fold (schedule add remove) ts s) = sc_db s"
  by (induction ts arbitrary: s) simp_all

lemma start_ok:
  assumes laws: "cron_laws parses add remove live" and "live clock = (\<lambda>_. None)" and ok: "sched_ok steady parses live s"
  shows "sched_ok steady parses live (start add remove (new_sched (sc_db s) clock))"
proof -
  let ?ts = "map fst (tasks (sc_db s))"
  have ts: "?ts = order_by (by_name t_name) (tb_tasks (sc_db s))" by (simp add: tasks_def task_view_def comp_def)
  have same: "set ?ts = set (tb_tasks (sc_db s))" "distinct (map t_id ?ts)"
    using ok mset_eq_imp_distinct_iff [of "map t_id ?ts" "map t_id (tb_tasks (sc_db s))"]
    by (simp_all add: ts order_by_def mset_insertion_sort sched_ok_def rows_ok_def keyed_def)
  have "clock_shows live (new_sched (sc_db s) clock) (\<lambda>_. None)"
    by (simp add: clock_shows_def new_sched_def assms(2))
  moreover have "\<forall>t \<in> set ?ts. parses (t_schedule t) = None"
    using ok unfolding same(1) by (simp add: sched_ok_def rows_ok_def task_ok_def)
  ultimately obtain m where
    "clock_shows live (fold (schedule add remove) ?ts (new_sched (sc_db s) clock)) m" "covers m ?ts"
    using start_shows [OF laws _ same(2)] by blast
  moreover have "covers m (tb_tasks (sc_db s))" if "covers m ?ts" using that unfolding covers_def same(1) .
  ultimately have "clock_shows live (start add remove (new_sched (sc_db s) clock)) m" "covers m (tb_tasks (sc_db s))"
    by (simp_all add: start_def) (simp add: new_sched_def)
  with ok show ?thesis by (intro sched_okI) (auto simp: start_def start_db new_sched_def sched_ok_def rows_ok_def)
qed

lemma sched_reach_ok:
  assumes "cron_laws parses add remove live" and "live clock = (\<lambda>_. None)"
    and "sched_reach steady parses add remove clock s"
  shows "sched_ok steady parses live s"
  using assms(3)
proof (induction rule: sched_reach.induct)
  case sched_new
  show ?case
    using assms(2) by (auto simp: sched_ok_def rows_ok_def clock_shows_def new_sched_def covers_def empty_db_def intro!: exI [of _ "\<lambda>_. None"])
next
  case (sched_next s s')
  from sched_next.hyps(2) sched_next.IH show ?case
  proof cases
    case (step_fire exec clocked now i)
    with sched_next.IH show ?thesis by (auto intro!: flagged_ok [OF _ only_failing_fire] simp: fire_same_clock)
  next
    case (step_elsewhere d)
    with sched_next.IH show ?thesis by (simp add: sched_ok_def rows_ok_def)
  next
    case (step_flag i b)
    have "only_failing (sc_db s) (snd (set_task_failing i b (sc_db s)))"
      by (auto simp: only_failing_def set_task_failing_def)
    with sched_next.IH step_flag show ?thesis by (auto intro: flagged_ok)
  qed (auto intro: save_ok [OF assms(1)] delete_ok [OF assms(1)] host_gone_ok)
next
  case (sched_start s)
  from start_ok [OF assms(1,2) sched_start.IH] show ?case .
qed

text \<open>
  C39: Every task the scheduler ever holds, for one machine or for all, is well formed: it has a name, a command
  the gate accepts, a schedule that parses and a timeout of one second to a day. So it is after any requests, cut
  off or not, fires, removals of machines, restarts and restores.
\<close>

theorem saved_tasks_well_formed:
  assumes "cron_laws parses add remove live" and "live clock = (\<lambda>_. None)"
    and "sched_reach steady parses add remove clock s"
  shows "\<forall>t \<in> set (tb_tasks (sc_db s)). task_ok parses t"
  using sched_reach_ok [OF assms] by (simp add: sched_ok_def rows_ok_def)

lemma unknown_fire: "i \<notin> t_id ` set (tb_tasks (sc_db s)) \<Longrightarrow> fire exec clocked now i s = s"
proof -
  assume "i \<notin> t_id ` set (tb_tasks (sc_db s))"
  then have "List.find (\<lambda>t. t_id t = i) (tb_tasks (sc_db s)) = None" by (auto simp: find_none_iff)
  then have "task i (sc_db s) = Inl (Err ''no such task'')" by (simp add: task_def)
  then show ?thesis
    by (simp add: fire_def begin_fire_def end_fire_def fire_task_def insert_Diff_if Let_def)
qed

text \<open>
  C8: The clock follows the table. After any history of saves, deletions (one request at a time), fires, removals
  of machines, restarts and restores no task has two entries. And where no request was cut off before the
  store had done its part, every enabled task of the table has its entry, which fires it on its own schedule;
  any other entry is of a task that is no longer in the table, gone with its machine, and when it fires nothing
  happens at all.
\<close>

theorem clock_refines_table:
  assumes "cron_laws parses add remove live" and "live clock = (\<lambda>_. None)"
    and "sched_reach steady parses add remove clock s"
  shows "(\<forall>e e' sch sch' i. live (sc_clock s) e = Some (sch, i) \<and> live (sc_clock s) e' = Some (sch', i) \<longrightarrow> e = e') \<and>
   (steady \<longrightarrow>
    (\<forall>t \<in> set (tb_tasks (sc_db s)). t_enabled t \<longrightarrow>
      (\<exists>!e. \<exists>sch. live (sc_clock s) e = Some (sch, t_id t)) \<and>
      (\<exists>e. live (sc_clock s) e = Some (t_schedule t, t_id t))) \<and>
    (\<forall>e sch i. live (sc_clock s) e = Some (sch, i) \<longrightarrow>
      (\<exists>t \<in> set (tb_tasks (sc_db s)). t_id t = i \<and> t_enabled t \<and> t_schedule t = sch) \<or>
      i \<notin> t_id ` set (tb_tasks (sc_db s)) \<and> (\<forall>exec clocked now. fire exec clocked now i s = s)))"
proof -
  obtain m where m: "clock_shows live s m" "steady \<longrightarrow> covers m (tb_tasks (sc_db s))"
    using sched_reach_ok [OF assms] by (auto simp: sched_ok_def)
  have sh: "live (sc_clock s) e = Some (sch, i) \<longleftrightarrow> sc_entries s i = Some e \<and> m i = Some sch" for e sch i
    using m(1) by (simp add: clock_shows_def)
  have dom: "sc_entries s i = None \<longleftrightarrow> m i = None" for i using m(1) by (simp add: clock_shows_def)
  have row: "m (t_id t) = due t" if "t \<in> set (tb_tasks (sc_db s))" steady for t using m(2) that by (simp add: covers_def)
  have shown: "(\<exists>!e. \<exists>sch. live (sc_clock s) e = Some (sch, t_id t)) \<and> (\<exists>e. live (sc_clock s) e = Some (t_schedule t, t_id t))"
    if "t \<in> set (tb_tasks (sc_db s))" "t_enabled t" steady for t
  proof -
    have "m (t_id t) = Some (t_schedule t)" using row [OF that(1,3)] that(2) by (simp add: due_def)
    moreover from this obtain e where "sc_entries s (t_id t) = Some e" using dom [of "t_id t"] by auto
    ultimately show ?thesis by (simp add: sh)
  qed
  have gone: "(\<exists>t \<in> set (tb_tasks (sc_db s)). t_id t = i \<and> t_enabled t \<and> t_schedule t = sch) \<or>
      i \<notin> t_id ` set (tb_tasks (sc_db s))" if "m i = Some sch" steady for i sch
    using row that by (fastforce simp: due_def split: if_split_asm)
  have whole: "(\<exists>t \<in> set (tb_tasks (sc_db s)). t_id t = i \<and> t_enabled t \<and> t_schedule t = sch) \<or>
      i \<notin> t_id ` set (tb_tasks (sc_db s)) \<and> (\<forall>exec clocked now. fire exec clocked now i s = s)"
    if "live (sc_clock s) e = Some (sch, i)" steady for e sch i
    using gone [of i sch] unknown_fire [of i s] that by (auto simp: sh)
  show ?thesis
  proof (rule conjI)
    show "\<forall>e e' sch sch' i. live (sc_clock s) e = Some (sch, i) \<and> live (sc_clock s) e' = Some (sch', i) \<longrightarrow> e = e'"
      by (auto simp: sh)
  next
    show "steady \<longrightarrow>
      (\<forall>t \<in> set (tb_tasks (sc_db s)). t_enabled t \<longrightarrow>
        (\<exists>!e. \<exists>sch. live (sc_clock s) e = Some (sch, t_id t)) \<and>
        (\<exists>e. live (sc_clock s) e = Some (t_schedule t, t_id t))) \<and>
      (\<forall>e sch i. live (sc_clock s) e = Some (sch, i) \<longrightarrow>
        (\<exists>t \<in> set (tb_tasks (sc_db s)). t_id t = i \<and> t_enabled t \<and> t_schedule t = sch) \<or>
        i \<notin> t_id ` set (tb_tasks (sc_db s)) \<and> (\<forall>exec clocked now. fire exec clocked now i s = s))"
      using shown whole by (intro impI conjI [of "\<forall>t \<in> set _. _ t"] ballI allI)
  qed
qed

text \<open>
  A machine's removal takes its tasks out of the table and leaves their entries on the clock, until a restart.
\<close>

theorem removed_machine_leaves_entries:
  assumes "t \<in> set (tb_tasks (sc_db s))" and "t_host t = Some j"
  shows "t \<notin> set (tb_tasks (remove_host j (sc_db s))) \<and>
    sc_entries (s\<lparr>sc_db := remove_host j (sc_db s)\<rparr>) (t_id t) = sc_entries s (t_id t)"
  using assms(2)
  by (simp add: remove_host_def drop_jobs_def drop_tasks_def drop_clusters_def drop_workspaces_def delete_where_def Let_def)

text \<open>
  Two requests that save one task at the same time: the one that read the task enabled may come to the clock
  after the one that switched it off, and the clock goes on firing a task the table has off.
\<close>

theorem overlapping_saves_leave_entry:
  assumes "cron_laws parses add remove live" and "clock_shows live s m"
    and "task i d1 = Inr (a, hn)" "t_enabled a" "parses (t_schedule a) = None"
    and "save_task now i n h c sch to False d1 = Inr (i, d2)" "task i d2 = Inr (b, hn')" "parses (t_schedule b) = None"
    and "keyed t_id (tb_tasks d1)"
  shows "\<exists>e. live (sc_clock (schedule add remove a (schedule add remove b (s\<lparr>sc_db := d2\<rparr>)))) e = Some (t_schedule a, i)"
    and "\<not> t_enabled b"
proof -
  have ids: "t_id a = i" "t_id b = i" "b \<in> set (tb_tasks d2)" using task_found assms(3,7) by auto
  have "clock_shows live (s\<lparr>sc_db := d2\<rparr>) m" using assms(2) by simp
  from schedule_shows [OF assms(1) schedule_shows [OF assms(1) this assms(8)] assms(5)]
  show "\<exists>e. live (sc_clock (schedule add remove a (schedule add remove b (s\<lparr>sc_db := d2\<rparr>)))) e = Some (t_schedule a, i)"
    using assms(4) ids by (auto simp: clock_shows_def due_def fun_upd_def) (metis option.exhaust option.distinct(1))
  have "i \<noteq> 0 \<Longrightarrow> tb_tasks d2 = update_where (\<lambda>t. t_id t = i)
      (\<lambda>t. t\<lparr>t_name := n, t_host := (if h \<noteq> 0 then Some h else None), t_command := c, t_schedule := sch,
            t_timeout := to, t_enabled := False\<rparr>) (tb_tasks d1)"
    using assms(6) by (auto simp: save_task_def Let_def split: if_split_asm)
  moreover have "i \<noteq> 0" using assms(6) next_id_pos [of "map t_id (tb_tasks d1)"]
    by (auto simp: save_task_def Let_def split: if_split_asm)
  ultimately show "\<not> t_enabled b" using ids by (auto simp: update_where_def)
qed

text \<open>
  A task marked failing whose machines are all away is reported as having succeeded again: a fire that
  runs nowhere counts as a success.
\<close>

theorem skipped_everywhere_reported_ok:
  assumes "task i (sc_db s) = Inr (t, hn)" and "i \<notin> sc_running s" and "check (t_command t) = None"
    and "t_host t = None" and "\<forall>h \<in> set (hosts (sc_db s)). h_status h \<noteq> ''online''"
    and "keyed t_id (tb_tasks (sc_db s))" and "t_failing t"
  shows "sc_notes (fire exec clocked now i s) =
    sc_notes s @ [(''task.ok'', t_name t, ''task '' @ t_name t @ '' succeeded again'')]"
proof -
  have skip: "\<forall>h \<in> set hs. h_status h \<noteq> ''online'' \<Longrightarrow>
      fst (fold (fire_host exec clocked t) hs (b, d)) = b" for hs b d
  proof (induction hs arbitrary: b d)
    case (Cons h hs)
    then show ?case by (cases "fire_host exec clocked t h (b, d)") (auto simp: fire_host_def)
  qed simp
  obtain d where d: "fire_hosts exec clocked t (hosts (sc_db s)) (sc_db s) = (False, d)"
    using skip [OF assms(5), of False "sc_db s"]
    by (cases "fire_hosts exec clocked t (hosts (sc_db s)) (sc_db s)") (simp add: fire_hosts_def)
  have "tb_tasks d = tb_tasks (sc_db s)"
    using fire_hosts_tasks [of exec clocked t "hosts (sc_db s)" False "sc_db s"] d by (simp add: fire_hosts_def)
  moreover have "affected (\<lambda>t'. t_id t' = i \<and> t_failing t' \<noteq> False) (tb_tasks (sc_db s)) = 1"
    using task_found [OF assms(1)] assms(6,7)
      affected_one_iff [of t_id "tb_tasks (sc_db s)" "\<lambda>t'. t_id t' = i \<and> t_failing t' \<noteq> False" i]
    by auto
  ultimately have "fst (set_task_failing (t_id t) False (trim_runs (t_id t) 50 d))"
    using task_found [OF assms(1)] by (simp add: set_task_failing_def trim_runs_def Let_def)
  then obtain d1 where "set_task_failing (t_id t) False (trim_runs (t_id t) 50 d) = (True, d1)"
    by (metis prod.collapse)
  with assms(1-4) d show ?thesis
    by (simp add: fire_def begin_fire_def end_fire_def fire_task_def fire_done_def notify_def Let_def)
qed

section \<open>Concrete histories\<close>

text \<open>A clock as a list of entries, with every schedule but the empty one accepted.\<close>

definition list_add :: "string \<Rightarrow> int \<Rightarrow> (nat \<times> string \<times> int) list \<Rightarrow> (nat \<times> (nat \<times> string \<times> int) list) option" where
  "list_add sch i c =
     (if sch = '''' then None else let e = Suc (fold max (map fst c) 0) in Some (e, (e, sch, i) # c))"

definition list_remove :: "nat \<Rightarrow> (nat \<times> string \<times> int) list \<Rightarrow> (nat \<times> string \<times> int) list" where
  "list_remove e c = filter (\<lambda>x. fst x \<noteq> e) c"

definition list_parses :: "string \<Rightarrow> string option" where
  "list_parses sch = (if sch = '''' then Some ''empty spec string'' else None)"

lemma fold_max_nat: "x \<in> set xs \<or> x \<le> a \<Longrightarrow> (x :: nat) \<le> fold max xs a"
  by (induction xs arbitrary: a) (auto simp: le_max_iff_disj)

lemma list_cron: "cron_laws list_parses list_add list_remove map_of"
proof -
  have "map_of c (Suc (fold max (map fst c) 0)) = None" for c :: "(nat \<times> string \<times> int) list"
    using fold_max_nat [of "Suc (fold max (map fst c) 0)" "map fst c" 0] by (auto simp: map_of_eq_None_iff)
  moreover have "map_of (list_remove e c) = (map_of c)(e := None)" for e c
    unfolding list_remove_def by (induction c) auto
  ultimately show ?thesis
    by (auto simp: cron_laws_def list_add_def list_parses_def Let_def)
qed

definition nightly :: task_input where
  "nightly = \<lparr>ti_id = 0, ti_name = ''backup'', ti_host = 1, ti_command = ''true'', ti_schedule = ''@daily'',
     ti_timeout = 0, ti_enabled = True\<rparr>"

text \<open>A hub with one machine, and a task for that machine.\<close>

definition tower :: host_row where
  "tower = \<lparr>h_id = 1, h_name = ''nas'', h_kind = ''compute'', h_addr = ''nas'', h_port = 22,
     h_user = ''homedash'', h_key = '''', h_status = ''offline'', h_facts = no_facts, h_model = '''', h_rebuild = '''',
     h_vault = '''', h_revoked = '''', h_enrolled = 0, h_last_seen = None\<rparr>"

definition with_tower :: "(nat \<times> string \<times> int) list sched" where
  "with_tower = (new_sched empty_db [])\<lparr>sc_db := empty_db\<lparr>tb_hosts := [tower]\<rparr>\<rparr>"

lemma tower_reach: "sched_reach True list_parses list_add list_remove [] with_tower"
  unfolding with_tower_def
  by (rule sched_next [OF sched_new]) (rule step_elsewhere, simp add: new_sched_def)

abbreviation after_nightly :: "(nat \<times> string \<times> int) list sched" where
  "after_nightly \<equiv> snd (save list_parses list_add list_remove 3 0 nightly with_tower)"

lemma nightly_reach: "sched_reach True list_parses list_add list_remove [] after_nightly"
  by (rule sched_next [OF tower_reach step_save]) simp

lemma true_allowed: "check ''true'' = None"
  by code_simp

lemma one_known: "is_ok (host (itoa 1) (empty_db\<lparr>tb_hosts := [tower]\<rparr>))"
proof -
  have one: "itoa 1 = ''1''" by code_simp
  show ?thesis
    by (simp add: one host_def tower_def host_matches_def trim_space_id is_space_def is_digit_def Let_def is_ok_def one)
qed

lemma nightly_saved:
  "sc_db after_nightly = empty_db\<lparr>tb_hosts := [tower], tb_tasks := [\<lparr>t_id = 1, t_name = ''backup'', t_host = Some 1,
     t_command = ''true'', t_schedule = ''@daily'', t_timeout = 600, t_enabled = True, t_failing = False, t_created = 0\<rparr>]\<rparr>"
proof -
  have "trim_space ''backup'' = ''backup''" "trim_space ''true'' = ''true''"
    by (simp_all add: trim_space_id is_space_def)
  then show ?thesis
    using one_known
    by (simp add: save_def validate_def nightly_def list_parses_def true_allowed save_task_def with_tower_def new_sched_def
        empty_db_def next_id_def task_def task_view_def sql_stamp_def host_known_def tower_def)
qed

text \<open>
  A request to save that ends between the row written and the row read back leaves the clock as it was: the
  enabled task is in the table and not on the clock. One to delete that ends before the row is deleted takes
  the task off the clock and leaves it in the table.
\<close>

theorem cut_request_misses_clock:
  "sc_db (snd (save list_parses list_add list_remove 2 0 nightly with_tower)) = sc_db after_nightly \<and>
   sc_clock (snd (save list_parses list_add list_remove 2 0 nightly with_tower)) = [] \<and>
   (\<forall>s. sc_db (snd (delete list_remove 0 1 s)) = sc_db s \<and> sc_entries (snd (delete list_remove 0 1 s)) 1 = None)"
proof (intro conjI allI)
  note texts = trim_space_id is_space_def
  have "trim_space ''backup'' = ''backup''" "trim_space ''true'' = ''true''" by (simp_all add: texts)
  then show "sc_db (snd (save list_parses list_add list_remove 2 0 nightly with_tower)) = sc_db after_nightly"
    "sc_clock (snd (save list_parses list_add list_remove 2 0 nightly with_tower)) = []"
    unfolding nightly_saved using one_known
    by (simp_all add: save_def validate_def nightly_def list_parses_def true_allowed save_task_def with_tower_def
        new_sched_def empty_db_def next_id_def sql_stamp_def host_known_def tower_def request_gone_def)
qed (simp_all add: delete_def unschedule_def Let_def split: option.split)

theorem saved_tasks_well_formed_witness:
  "\<exists>t. tb_tasks (sc_db after_nightly) = [t] \<and> t_host t = Some 1 \<and> task_ok list_parses t"
  using saved_tasks_well_formed [OF list_cron _ nightly_reach] by (simp add: nightly_saved)

text \<open>The task has its entry; its machine removed, the entry is still there and its fire does nothing.\<close>

theorem clock_refines_table_witness:
  "\<exists>e. map_of (sc_clock after_nightly) e = Some (''@daily'', 1) \<and>
     map_of (sc_clock (after_nightly\<lparr>sc_db := remove_host 1 (sc_db after_nightly)\<rparr>)) e = Some (''@daily'', 1) \<and>
     (\<forall>exec clocked now. fire exec clocked now 1 (after_nightly\<lparr>sc_db := remove_host 1 (sc_db after_nightly)\<rparr>) =
        after_nightly\<lparr>sc_db := remove_host 1 (sc_db after_nightly)\<rparr>)"
proof -
  let ?t = "after_nightly\<lparr>sc_db := remove_host 1 (sc_db after_nightly)\<rparr>"
  have empty: "map_of ([] :: (nat \<times> string \<times> int) list) = (\<lambda>_. None)" by (rule map_of.simps(1))
  have gone: "tb_tasks (sc_db ?t) = []"
    by (simp add: nightly_saved remove_host_def drop_jobs_def drop_tasks_def drop_clusters_def drop_workspaces_def
        delete_where_def Let_def)
  obtain e where e: "map_of (sc_clock after_nightly) e = Some (''@daily'', 1)"
    using clock_refines_table [OF list_cron empty nightly_reach] by (auto simp: nightly_saved)
  then have "map_of (sc_clock ?t) e = Some (''@daily'', 1)" by simp
  moreover from this have "\<forall>exec clocked now. fire exec clocked now 1 ?t = ?t"
    using clock_refines_table [OF list_cron empty sched_next [OF nightly_reach step_host_gone [of _ _ _ _ _ 1]]] gone
    by (metis empty_iff list.set(1))
  ultimately show ?thesis using e by blast
qed

text \<open>A machine away, and a nightly task that was failing when it went.\<close>

definition away :: "unit sched" where
  "away = new_sched (empty_db\<lparr>
     tb_hosts := [\<lparr>h_id = 1, h_name = ''nas'', h_kind = ''compute'', h_addr = ''nas'', h_port = 22,
       h_user = ''homedash'', h_key = '''', h_status = ''offline'', h_facts = no_facts, h_model = '''', h_rebuild = '''',
       h_vault = '''', h_revoked = '''', h_enrolled = 0, h_last_seen = None\<rparr>],
     tb_tasks := [\<lparr>t_id = 1, t_name = ''backup'', t_host = None, t_command = ''true'', t_schedule = ''@daily'',
       t_timeout = 600, t_enabled = True, t_failing = True, t_created = 0\<rparr>]\<rparr>) ()"

lemma away_hosts: "map h_id (hosts (sc_db away)) = [1]" "\<forall>h \<in> set (hosts (sc_db away)). h_status h \<noteq> ''online''"
  by (simp_all add: away_def new_sched_def hosts_def order_by_def insertion_sort_def scan_host_def)

lemma away_task: "task 1 (sc_db away) = Inr (hd (tb_tasks (sc_db away)), '''')"
  by (simp add: away_def new_sched_def task_def task_view_def)

lemma away_row: "t_host (hd (tb_tasks (sc_db away))) = None" "check (t_command (hd (tb_tasks (sc_db away)))) = None"
  "t_name (hd (tb_tasks (sc_db away))) = ''backup''" "t_failing (hd (tb_tasks (sc_db away)))"
  "keyed t_id (tb_tasks (sc_db away))" "sc_running away = {}" "sc_notes away = []" "0 \<notin> host_ids (sc_db away)"
  by (simp_all add: away_def new_sched_def true_allowed keyed_def host_ids_def)

theorem fire_records_every_machine_witness:
  "\<exists>d. length (tb_runs d) = 1 \<and>
     fire (\<lambda>_ _ _. Inl '''') (\<lambda>_. (0, 0)) 0 1 away = fire_done (hd (tb_tasks (sc_db away))) False d away"
proof -
  let ?t = "hd (tb_tasks (sc_db away))" and ?exec = "\<lambda>_ _ _. Inl ''''"
  have len: "length (hosts (sc_db away)) = 1" "tb_runs (sc_db away) = []"
    using arg_cong [OF away_hosts(1), of length] by (simp_all add: away_def new_sched_def empty_db_def)
  have calm: "(\<exists>h \<in> set (hosts (sc_db away)). fails_on ?exec ?t h) = False"
    using away_hosts(2) by (auto simp: fails_on_def)
  have idle: "1 \<notin> sc_running away" by (simp add: away_row(6))
  obtain d where d: "map run_view (tb_runs d) = map run_view [] @ map (due_view ?exec ?t) (hosts (sc_db away))"
    "fire ?exec (\<lambda>_. (0, 0)) 0 1 away = fire_done ?t False d away"
    using fire_records_every_machine [OF away_task idle away_row(2,1,8), of ?exec "\<lambda>_. (0, 0)" 0]
    unfolding calm len(2) by blast
  from arg_cong [OF d(1), of length] len(1) have "length (tb_runs d) = 1" by simp
  with d(2) show ?thesis by blast
qed

theorem skipped_everywhere_reported_ok_witness:
  "sc_notes (fire (\<lambda>_ _ _. Inl '''') (\<lambda>_. (0, 0)) 0 1 away) =
     [(''task.ok'', ''backup'', ''task backup succeeded again'')]"
  using skipped_everywhere_reported_ok [OF away_task _ away_row(2,1) away_hosts(2) away_row(5,4),
      of "\<lambda>_ _ _. Inl ''''" "\<lambda>_. (0, 0)" 0] away_row(3,6,7)
  by simp

end
