(* ===== verification/Address.thy ===== *)
theory Address
  imports StoreHosts "HOL-Library.Word"
begin

text \<open>
  Holding a machine's interface at an address, from \<open>internal/fleet/address.go\<close>. An IP address is
  the 16 bytes Go keeps (a 128-bit word, IPv4 in its mapped form); IPv4 text is parsed here as
  \<open>net/netip\<close> does, text with a colon by the parameter \<open>six\<close>. The machine's answers to the hub's dials
  are a parameter, one per attempt.
\<close>

unbundle bit_operations_syntax

section \<open>Addresses\<close>

type_synonym ip = "128 word"
type_synonym ip4 = "32 word"

definition mapped :: "ip4 \<Rightarrow> ip" where
  "mapped w = push_bit 32 0xFFFF OR ucast w"

definition to4 :: "ip \<Rightarrow> ip4 option" where
  "to4 x = (if drop_bit 32 x = 0xFFFF then Some (ucast x) else None)"

text \<open>A decimal octet: one to three digits, no leading zero, at most 255.\<close>

definition octet :: "string \<Rightarrow> nat option" where
  "octet s =
     (case parse_nat s of
        None \<Rightarrow> None
      | Some n \<Rightarrow> if n > 255 \<or> (length s > 1 \<and> hd s = CHR ''0'') then None else Some n)"

definition join4 :: "nat \<Rightarrow> nat \<Rightarrow> nat \<Rightarrow> nat \<Rightarrow> ip4" where
  "join4 a b c d = word_of_nat (((a * 256 + b) * 256 + c) * 256 + d)"

definition parse_ip4 :: "string \<Rightarrow> ip4 option" where
  "parse_ip4 s =
     (case map octet (split_on (CHR ''.'') s) of
        [Some a, Some b, Some c, Some d] \<Rightarrow> Some (join4 a b c d)
      | _ \<Rightarrow> None)"

text \<open>The first of a dot, a colon and a percent sign says which kind of address it is.\<close>

definition first_mark :: "string \<Rightarrow> char option" where
  "first_mark s = List.find (\<lambda>c. c \<in> {CHR ''.'', CHR '':'', CHR 0x25}) s"

definition parse_ip :: "(string \<Rightarrow> ip option) \<Rightarrow> string \<Rightarrow> ip option" where
  "parse_ip six s =
     (if first_mark s = Some (CHR ''.'') then map_option mapped (parse_ip4 s)
      else if first_mark s = Some (CHR '':'') then six s
      else None)"

definition show_ip4 :: "ip4 \<Rightarrow> string" where
  "show_ip4 w =
     (let n = unat w
      in digits (n div 16777216) @ ''.'' @ digits (n div 65536 mod 256) @ ''.'' @
         digits (n div 256 mod 256) @ ''.'' @ digits (n mod 256))"

section \<open>Prefixes\<close>

text \<open>A CIDR: the address, the prefix length, and whether it was IPv4 text (a mask of 32 bits).\<close>

record cidr =
  ci_ip :: ip
  ci_ones :: nat
  ci_v4 :: bool

definition parse_cidr :: "(string \<Rightarrow> ip option) \<Rightarrow> string \<Rightarrow> cidr option" where
  "parse_cidr six s =
     (if CHR ''/'' \<notin> set s then None
      else let addr = takeWhile (\<lambda>c. c \<noteq> CHR ''/'') s; rest = tl (dropWhile (\<lambda>c. c \<noteq> CHR ''/'') s);
               v4 = (first_mark addr = Some (CHR ''.''))
           in case (parse_ip six addr, parse_nat rest) of
                (Some i, Some n) \<Rightarrow>
                  if n \<le> (if v4 then 32 else 128) then Some \<lparr>ci_ip = i, ci_ones = n, ci_v4 = v4\<rparr> else None
              | _ \<Rightarrow> None)"

definition mask4 :: "nat \<Rightarrow> ip4" where
  "mask4 n = push_bit (32 - n) (- 1)"

definition mask16 :: "nat \<Rightarrow> ip" where
  "mask16 n = push_bit (128 - n) (- 1)"

text \<open>The network's own address, in 16 bytes.\<close>

definition network :: "cidr \<Rightarrow> ip" where
  "network c =
     (if ci_v4 c then mapped (ucast (ci_ip c) AND mask4 (ci_ones c)) else ci_ip c AND mask16 (ci_ones c))"

text \<open>\<open>broadcast\<close> indexes the four bytes of the network's IPv4 form: none, and the code panics.\<close>

definition broadcast :: "cidr \<Rightarrow> ip option" where
  "broadcast c =
     map_option (\<lambda>w. mapped (w OR NOT (if ci_v4 c then mask4 (ci_ones c) else ucast (drop_bit 96 (mask16 (ci_ones c))))))
       (to4 (network c))"

text \<open>
  \<open>IPNet.Contains\<close> of an IPv4 address: a network with a 32-bit mask compares the four bytes; one with a
  128-bit mask has no IPv4 form, or compares under the last four mask bytes.
\<close>

definition contains :: "cidr \<Rightarrow> ip4 \<Rightarrow> bool" where
  "contains c w =
     (case to4 (network c) of
        None \<Rightarrow> False
      | Some n \<Rightarrow>
          let m = (if ci_v4 c then mask4 (ci_ones c) else ucast (mask16 (ci_ones c)))
          in n AND m = w AND m)"

section \<open>The hub's own check\<close>

record address =
  ad_iface :: string
  ad_cidr :: string
  ad_gateway :: string
  ad_dns :: "string list"

datatype verdict = Refused string | Panicked | Accepted address

definition iface_char :: "char \<Rightarrow> bool" where
  "iface_char c \<longleftrightarrow> is_lower c \<or> is_upper c \<or> is_digit c \<or> c \<in> {CHR ''_'', CHR ''.'', CHR '':'', CHR ''-''}"

definition iface_name :: "string \<Rightarrow> bool" where
  "iface_name s \<longleftrightarrow> 1 \<le> length s \<and> length s \<le> 15 \<and> list_all iface_char s"

definition is_ip4_text :: "(string \<Rightarrow> ip option) \<Rightarrow> string \<Rightarrow> bool" where
  "is_ip4_text six s = (case parse_ip six s of None \<Rightarrow> False | Some i \<Rightarrow> to4 i \<noteq> None)"

definition kept_dns :: "string list \<Rightarrow> string list" where
  "kept_dns ds = filter (\<lambda>d. d \<noteq> '''') (map trim_space ds)"

definition show_cidr :: "cidr \<Rightarrow> string" where
  "show_cidr c =
     (case to4 (network c) of None \<Rightarrow> '''' | Some n \<Rightarrow> show_ip4 n) @ ''/'' @ digits (ci_ones c)"

definition check_gateway :: "(string \<Rightarrow> ip option) \<Rightarrow> cidr \<Rightarrow> ip4 \<Rightarrow> address \<Rightarrow> verdict" where
  "check_gateway six c w a =
     (if ad_gateway a = '''' then Accepted a
      else case Option.bind (parse_ip six (ad_gateway a)) to4 of
             None \<Rightarrow> Refused ''gateway: an IPv4 address''
           | Some g \<Rightarrow>
               if \<not> contains c g then Refused (''gateway: '' @ ad_gateway a @ '' is not inside '' @ show_cidr c)
               else if g = w then Refused ''gateway: the same as the address'' else Accepted a)"

definition check_static :: "(string \<Rightarrow> ip option) \<Rightarrow> address \<Rightarrow> verdict" where
  "check_static six a =
     (let bad = Refused ''address: an IPv4 address with its prefix, such as 192.168.1.20/24''
      in case parse_cidr six (ad_cidr a) of
           None \<Rightarrow> bad
         | Some c \<Rightarrow>
             (case to4 (ci_ip c) of
                None \<Rightarrow> bad
              | Some w \<Rightarrow>
                  if ci_ones c < 1 \<or> ci_ones c > 30 then Refused ''address: a prefix between /1 and /30''
                  else if ci_ip c = network c
                  then Refused ''address: the network or broadcast address of its own prefix''
                  else case broadcast c of
                         None \<Rightarrow> Panicked
                       | Some b \<Rightarrow>
                           if ci_ip c = b
                           then Refused ''address: the network or broadcast address of its own prefix''
                           else check_gateway six c w a))"

definition validate :: "(string \<Rightarrow> ip option) \<Rightarrow> address \<Rightarrow> verdict" where
  "validate six a0 =
     (let a = \<lparr>ad_iface = trim_space (ad_iface a0), ad_cidr = trim_space (ad_cidr a0),
               ad_gateway = trim_space (ad_gateway a0), ad_dns = kept_dns (ad_dns a0)\<rparr>
      in if \<not> iface_name (ad_iface a) then Refused ''interface: a name such as eth0 or enp3s0''
         else case List.find (\<lambda>d. \<not> is_ip4_text six d) (ad_dns a) of
                Some d \<Rightarrow> Refused (''dns: '' @ go_quote d @ '' is not an IPv4 address'')
              | None \<Rightarrow>
                  if ad_cidr a = ''''
                  then (if ad_gateway a \<noteq> '''' \<or> ad_dns a \<noteq> [] then Refused ''back to DHCP takes no gateway or DNS''
                        else Accepted a)
                  else check_static six a)"
section \<open>Changing it\<close>

text \<open>
  One attempt to reach the machine where it should now be: refused because another key answers, no
  connection, reached without the guard's confirmation (with the error, if any), or confirmed.
\<close>

datatype dial = KeyMismatch | DialFailed string | Unconfirmed "string option" | Confirmed

text \<open>
  The attempts in order, each with the clock when the loop looks at its deadline and whether the caller
  has gone before the attempt.
\<close>

fun confirm_address ::
  "host_row \<Rightarrow> string \<Rightarrow> instant \<Rightarrow> string option \<Rightarrow> (instant \<times> bool \<times> dial) list \<Rightarrow> err option" where
  "confirm_address h addr deadline seen [] =
     Some (Err (''the hub could not reach '' @ h_name h @ '' at '' @ addr @ '' ('' @
       (case seen of None \<Rightarrow> ''no answer'' | Some e \<Rightarrow> e) @
       ''); the machine reverts to its previous address on its own''))"
| "confirm_address h addr deadline seen ((now, gone, d) # ds) =
     (if now \<ge> deadline then confirm_address h addr deadline seen []
      else if gone then Some (Err ''context canceled'')
      else case d of
             Confirmed \<Rightarrow> None
           | Unconfirmed e \<Rightarrow> confirm_address h addr deadline e ds
           | KeyMismatch \<Rightarrow>
               Some (Err (''a different host key answered at '' @ addr @ ''; '' @ h_name h @ '' will revert on its own''))
           | DialFailed e \<Rightarrow> confirm_address h addr deadline (Some e) ds)"

definition confirm_window :: instant where
  "confirm_window = 75 * second"

datatype changed = Done | Failed err | Crashed

definition wanted :: "(string \<Rightarrow> ip option) \<Rightarrow> host_row \<Rightarrow> address \<Rightarrow> string" where
  "wanted six h a =
     (if ad_cidr a = '''' then h_addr h
      else case Option.bind (parse_cidr six (ad_cidr a)) (\<lambda>c. to4 (ci_ip c)) of
             None \<Rightarrow> h_addr h | Some w \<Rightarrow> show_ip4 w)"

text \<open>\<open>launch\<close> is how writing the config and starting the guard went; the seen component says the connection is dropped.\<close>

definition set_address ::
  "(string \<Rightarrow> ip option) \<Rightarrow> instant \<Rightarrow> err option \<Rightarrow> (instant \<times> bool \<times> dial) list \<Rightarrow> host_row \<Rightarrow> address \<Rightarrow> db \<Rightarrow>
   changed \<times> host_row \<times> db \<times> bool" where
  "set_address six now launch dials h a0 s =
     (case validate six a0 of
        Refused e \<Rightarrow> (Failed (Err e), h, s, False)
      | Panicked \<Rightarrow> (Crashed, h, s, False)
      | Accepted a \<Rightarrow>
          (case launch of
             Some e \<Rightarrow> (Failed e, h, s, False)
           | None \<Rightarrow>
               let next = wanted six h a
               in (case confirm_address h next (now + confirm_window) None dials of
                     Some e \<Rightarrow> (Failed e, h, s, False)
                   | None \<Rightarrow>
                       if next \<noteq> h_addr h
                       then (Done, h\<lparr>h_addr := next\<rparr>, set_host_addr (h_id h) next s, True)
                       else (Done, h, s, False))))"

end
