(* ===== verification/AddressLaws.thy ===== *)
theory AddressLaws
  imports Address
begin

text \<open>
  What the address check guarantees in numbers: an accepted address is a host's own inside its prefix,
  a gateway shares the prefix; IPv4 text and addresses are inverse to each other; and the record of a
  machine's address only follows a confirmed dial.
\<close>

unbundle bit_operations_syntax

section \<open>Masks as arithmetic\<close>

lemma ffff: "(0xFFFF :: 128 word) = mask 16" by (simp add: mask_eq_exp_minus_1)
lemma to4_mapped [simp]: "to4 (mapped w) = Some w"
proof -
  have "drop_bit 32 (mapped w) = 0xFFFF"
    unfolding ffff mapped_def by (rule bit_word_eqI) (auto simp: bit_simps dest: bit_imp_le_length)
  moreover have "ucast (mapped w) = w"
    unfolding ffff mapped_def by (rule bit_word_eqI) (auto simp: bit_simps)
  ultimately show ?thesis by (simp add: to4_def)
qed
lemma to4_Some: "to4 x = Some w \<Longrightarrow> x = mapped w"
proof -
  assume a: "to4 x = Some w"
  then have "x = push_bit 32 (drop_bit 32 x) OR take_bit 32 x" by (intro bit_word_eqI) (auto simp: bit_simps)
  moreover have "drop_bit 32 x = 0xFFFF" "w = ucast x" using a by (auto simp: to4_def split: if_split_asm)
  moreover have "take_bit 32 x = ucast (ucast x :: 32 word)"
     by (rule bit_word_eqI) (auto simp: bit_simps)
  ultimately show ?thesis by (simp add: mapped_def)
qed
lemma mapped_inj [simp]: "mapped a = mapped b \<longleftrightarrow> a = b"
  by (metis option.inject to4_mapped)
lemma ucast_mapped [simp]: "ucast (mapped w) = w"
  using to4_mapped [of w] by (auto simp: to4_def split: if_split_asm)
lemma mask4_and: "w AND mask4 n = push_bit (32 - n) (drop_bit (32 - n) w)"
  unfolding mask4_def by (rule bit_word_eqI) (auto simp: bit_simps)
lemma unat_low: "unat (take_bit k w) = unat w mod 2 ^ k" for w :: "32 word"
  by (simp add: unsigned_take_bit_eq flip: take_bit_eq_mod)
lemma net_addr: "w AND mask4 n = w \<longleftrightarrow> unat w mod 2 ^ (32 - n) = 0"
proof -
  have "w AND mask4 n = w \<longleftrightarrow> take_bit (32 - n) w = 0"
    using bits_ident [of "32 - n" w] by (metis add_cancel_left_right mask4_and)
  then show ?thesis by (metis unat_low unsigned_0 unsigned_word_eqI)
qed
lemma bcast_or: "w OR NOT (mask4 n) = push_bit (32 - n) (drop_bit (32 - n) w) + mask (32 - n)"
proof -
  have "push_bit (32 - n) (drop_bit (32 - n) w) + mask (32 - n) = push_bit (32 - n) (drop_bit (32 - n) w) OR mask (32 - n)"
    by (rule disjunctive_add) (auto simp: bit_simps)
  also have "\<dots> = w OR NOT (mask4 n)" unfolding mask4_def by (rule bit_word_eqI) (auto simp: bit_simps)
  finally show ?thesis by simp
qed
lemma bcast_addr: "w OR NOT (mask4 n) = w \<longleftrightarrow> unat w mod 2 ^ (32 - n) = 2 ^ (32 - n) - 1"
proof -
  have "w OR NOT (mask4 n) = w \<longleftrightarrow> take_bit (32 - n) w = mask (32 - n)"
    unfolding bcast_or using bits_ident [of "32 - n" w] by (metis add_left_cancel)
  moreover have "unat (mask (32 - n) :: 32 word) = 2 ^ (32 - n) - 1"
    using uint_mask_eq [of "32 - n", where 'a = 32] by (simp add: unat_eq_nat_uint mask_eq_exp_minus_1 nat_diff_distrib nat_power_eq)
  ultimately show ?thesis by (metis unat_low word_eq_iff_unsigned)
qed
lemma same_net: "a AND mask4 n = b AND mask4 n \<longleftrightarrow> unat a div 2 ^ (32 - n) = unat b div 2 ^ (32 - n)"
proof -
  have "a AND mask4 n = b AND mask4 n \<longleftrightarrow> drop_bit (32 - n) a = drop_bit (32 - n) b"
    
  proof
    assume "a AND mask4 n = b AND mask4 n"
    then have "drop_bit (32 - n) (a AND mask4 n) = drop_bit (32 - n) (b AND mask4 n)" by simp
    moreover have "drop_bit (32 - n) (x AND mask4 n) = drop_bit (32 - n) x" for x
      unfolding mask4_def by (rule bit_word_eqI) (auto simp: bit_simps dest: bit_imp_le_length)
    ultimately show "drop_bit (32 - n) a = drop_bit (32 - n) b" by simp
  qed (simp add: mask4_and)
  also have "\<dots> \<longleftrightarrow> unat (drop_bit (32 - n) a) = unat (drop_bit (32 - n) b)" by (simp add: word_eq_iff_unsigned)
  finally show ?thesis by (simp only: unat_drop_bit_eq drop_bit_eq_div [where ?'a = nat])
qed

section \<open>The check\<close>

lemma network_v4: "ci_v4 c \<Longrightarrow> ci_ip c = mapped w \<Longrightarrow> network c = mapped (w AND mask4 (ci_ones c))"
  by (simp add: network_def)

lemma broadcast_v4:
  "ci_v4 c \<Longrightarrow> ci_ip c = mapped w \<Longrightarrow> broadcast c = Some (mapped (w OR NOT (mask4 (ci_ones c))))"
proof -
  have "w AND m OR NOT m = w OR NOT m" for m :: "32 word"
    by (rule bit_word_eqI) (auto simp: bit_simps)
  then show "ci_v4 c \<Longrightarrow> ci_ip c = mapped w \<Longrightarrow> ?thesis"
    by (simp add: broadcast_def network_v4)
qed

lemma contains_v4:
  assumes "ci_v4 c" and "ci_ip c = mapped w" and "contains c g"
  shows "unat g div 2 ^ (32 - ci_ones c) = unat w div 2 ^ (32 - ci_ones c)"
proof -
  have "w AND mask4 (ci_ones c) AND mask4 (ci_ones c) = g AND mask4 (ci_ones c)"
    using assms by (simp add: contains_def network_v4 Let_def)
  then have "w AND mask4 (ci_ones c) = g AND mask4 (ci_ones c)" by (simp add: and.assoc)
  then show ?thesis using same_net by metis
qed

text \<open>An IPv4 address written as IPv6 has no IPv4 network under a prefix of at most 30 bits.\<close>

lemma v6_network:
  assumes "\<not> ci_v4 c" and "ci_ones c \<le> 30"
  shows "to4 (network c) = None"
proof (rule ccontr)
  assume "to4 (network c) \<noteq> None"
  then have "drop_bit 32 (network c) = 0xFFFF" by (simp add: to4_def split: if_split_asm)
  then have "bit (drop_bit 32 (network c)) 0" by (simp add: ffff bit_simps)
  then have "bit (ci_ip c) 32 \<and> 128 - ci_ones c \<le> 32" using assms(1) by (simp add: network_def mask16_def bit_simps not_less)
  with assms(2) show False by linarith
qed

lemma accepted_static:
  assumes "check_static six a = Accepted a'"
  shows "\<exists>c w. parse_cidr six (ad_cidr a) = Some c \<and> ci_ip c = mapped w \<and> ci_v4 c \<and>
    1 \<le> ci_ones c \<and> ci_ones c \<le> 30 \<and> ci_ip c \<noteq> network c \<and> broadcast c \<noteq> Some (ci_ip c) \<and>
    check_gateway six c w a = Accepted a'"
proof -
  obtain c w where c: "parse_cidr six (ad_cidr a) = Some c" "to4 (ci_ip c) = Some w"
    "1 \<le> ci_ones c" "ci_ones c \<le> 30" "ci_ip c \<noteq> network c" "broadcast c \<noteq> Some (ci_ip c)"
    "broadcast c \<noteq> None" "check_gateway six c w a = Accepted a'"
    using assms by (auto simp: check_static_def Let_def split: option.splits if_split_asm)
  moreover have "ci_v4 c"
    using c(4,7) v6_network [of c] by (cases "ci_v4 c") (simp_all add: broadcast_def)
  ultimately show ?thesis using to4_Some by blast
qed

lemma accepted_gateway:
  "check_gateway six c w a = Accepted a' \<Longrightarrow> a' = a \<and>
     (ad_gateway a \<noteq> '''' \<longrightarrow> (\<exists>g. parse_ip six (ad_gateway a) = Some (mapped g) \<and> g \<noteq> w \<and> contains c g))"
  by (auto simp: check_gateway_def split: option.splits if_split_asm Option.bind_splits dest!: to4_Some)

lemma validate_trims:
  assumes "validate six a0 = Accepted a"
  shows "ad_cidr a = trim_space (ad_cidr a0)"
proof -
  let ?a = "\<lparr>ad_iface = trim_space (ad_iface a0), ad_cidr = trim_space (ad_cidr a0),
               ad_gateway = trim_space (ad_gateway a0), ad_dns = kept_dns (ad_dns a0)\<rparr>"
  have "a = ?a \<or> check_static six ?a = Accepted a"
    using assms by (auto simp: validate_def Let_def split: option.splits if_split_asm)
  moreover have "check_static six ?a = Accepted a \<Longrightarrow> a = ?a"
    using accepted_static accepted_gateway by blast
  ultimately show ?thesis by auto
qed

lemma validate_static:
  "validate six a0 = Accepted a \<Longrightarrow> ad_cidr a \<noteq> '''' \<Longrightarrow> check_static six a = Accepted a"
proof -
  assume v: "validate six a0 = Accepted a" and n: "ad_cidr a \<noteq> ''''"
  let ?a = "\<lparr>ad_iface = trim_space (ad_iface a0), ad_cidr = trim_space (ad_cidr a0),
               ad_gateway = trim_space (ad_gateway a0), ad_dns = kept_dns (ad_dns a0)\<rparr>"
  from v have "a = ?a \<or> check_static six ?a = Accepted a"
    by (auto simp: validate_def Let_def split: option.splits if_split_asm)
  moreover have "check_static six ?a = Accepted a \<Longrightarrow> a = ?a"
    using accepted_static accepted_gateway by blast
  ultimately have "a = ?a" by blast
  with v n show ?thesis by (auto simp: validate_def Let_def split: option.splits if_split_asm)
qed

text \<open>
  C23: An address the hub accepts to hold is a host's own address in its prefix: the prefix has 1 to 30
  bits, the host part is neither all zeros (the network) nor all ones (the broadcast address), and a
  gateway, if there is one, has the same network part and is another address.
\<close>

theorem accepted_address_in_prefix:
  assumes "validate six a0 = Accepted a" and "ad_cidr a \<noteq> ''''"
  shows "\<exists>c w. parse_cidr six (ad_cidr a) = Some c \<and> ci_ip c = mapped w \<and> ci_v4 c \<and>
    1 \<le> ci_ones c \<and> ci_ones c \<le> 30 \<and>
    0 < unat w mod 2 ^ (32 - ci_ones c) \<and> unat w mod 2 ^ (32 - ci_ones c) < 2 ^ (32 - ci_ones c) - 1 \<and>
    (ad_gateway a \<noteq> '''' \<longrightarrow> (\<exists>g. parse_ip six (ad_gateway a) = Some (mapped g) \<and> g \<noteq> w \<and>
       unat g div 2 ^ (32 - ci_ones c) = unat w div 2 ^ (32 - ci_ones c)))"
proof -
  obtain c w where c: "parse_cidr six (ad_cidr a) = Some c" "ci_ip c = mapped w" "ci_v4 c"
    "1 \<le> ci_ones c" "ci_ones c \<le> 30" "ci_ip c \<noteq> network c" "broadcast c \<noteq> Some (ci_ip c)"
    "check_gateway six c w a = Accepted a"
    using accepted_static [OF validate_static [OF assms]] by blast
  have "0 < unat w mod 2 ^ (32 - ci_ones c)"
    using c(2,6) network_v4 [OF c(3,2)] net_addr [of w "ci_ones c"] by (metis gr0I)
  moreover have "unat w mod 2 ^ (32 - ci_ones c) \<noteq> 2 ^ (32 - ci_ones c) - 1"
    using c(2,7) broadcast_v4 [OF c(3,2)] bcast_addr [of w "ci_ones c"] by metis
  moreover have "unat w mod 2 ^ (32 - ci_ones c) < 2 ^ (32 - ci_ones c)" by simp
  ultimately have "unat w mod 2 ^ (32 - ci_ones c) < 2 ^ (32 - ci_ones c) - 1"
    and "0 < unat w mod 2 ^ (32 - ci_ones c)" by linarith+
  with c accepted_gateway [OF c(8)] contains_v4 [OF c(3,2)] show ?thesis by metis
qed

definition no_six :: "string \<Rightarrow> ip option" where
  "no_six s = None"

definition lan_address :: address where
  "lan_address = \<lparr>ad_iface = ''eth0'', ad_cidr = ''192.168.1.20/24'', ad_gateway = ''192.168.1.1'', ad_dns = []\<rparr>"

lemmas parse_defs = parse_cidr_def parse_ip_def first_mark_def parse_ip4_def octet_def parse_nat_def
  is_digit_def digit_val_def join4_def

lemma lan_text [simp]:
  "trim_space ''eth0'' = ''eth0''" "trim_space ''192.168.1.20/24'' = ''192.168.1.20/24''"
  "trim_space ''192.168.1.1'' = ''192.168.1.1''"
  by (simp_all add: trim_space_id is_space_def)

lemma lan_cidr:
  "parse_cidr no_six ''192.168.1.20/24'' = Some \<lparr>ci_ip = mapped 0xC0A80114, ci_ones = 24, ci_v4 = True\<rparr>"
  by (simp add: parse_defs)

lemma lan_gateway: "parse_ip no_six ''192.168.1.1'' = Some (mapped 0xC0A80101)"
  by (simp add: parse_defs)

lemma lan_accepted: "validate no_six lan_address = Accepted lan_address"
proof -
  let ?c = "\<lparr>ci_ip = mapped 0xC0A80114, ci_ones = 24, ci_v4 = True\<rparr>"
  have "ci_ip ?c \<noteq> network ?c"
    using net_addr [of "0xC0A80114" 24] network_v4 [of ?c "0xC0A80114"] by simp
  moreover have "broadcast ?c = Some (mapped (0xC0A80114 OR NOT (mask4 24)))"
    by (rule trans [OF broadcast_v4]) simp_all
  moreover have "0xC0A80114 \<noteq> 0xC0A80114 OR NOT (mask4 24)"
    using bcast_addr [of "0xC0A80114" 24] by auto
  moreover have "contains ?c 0xC0A80101"
    using same_net [of "0xC0A80114" 24 "0xC0A80101"] network_v4 [of ?c "0xC0A80114"]
    by (simp add: contains_def and.assoc)
  ultimately show ?thesis
    by (simp add: validate_def lan_address_def iface_name_def iface_char_def is_lower_def is_digit_def kept_dns_def
        check_static_def lan_cidr check_gateway_def lan_gateway)
qed

theorem accepted_address_in_prefix_witness:
  "\<exists>c w. parse_cidr no_six ''192.168.1.20/24'' = Some c \<and> ci_ip c = mapped w \<and>
    0 < unat w mod 2 ^ (32 - ci_ones c) \<and> unat w mod 2 ^ (32 - ci_ones c) < 2 ^ (32 - ci_ones c) - 1"
  using accepted_address_in_prefix [OF lan_accepted] by (auto simp: lan_address_def)

text \<open>
  A prefix on an IPv4 address written as IPv6 (such as \<open>::ffff:10.0.0.5/24\<close>) passes every test up to
  the broadcast address, whose computation then indexes an empty slice.
\<close>

theorem mapped_ipv6_prefix_panics:
  assumes "iface_name (trim_space (ad_iface a))" and "kept_dns (ad_dns a) = []"
    and "parse_cidr six (trim_space (ad_cidr a)) = Some c" and "\<not> ci_v4 c"
    and "ci_ip c = mapped w" and "w \<noteq> 0" and "1 \<le> ci_ones c" and "ci_ones c \<le> 30"
  shows "validate six a = Panicked"
proof -
  have none: "to4 (network c) = None" using v6_network assms(4,8) by blast
  then have "ci_ip c \<noteq> network c" using assms(5) by (metis option.distinct(1) to4_mapped)
  moreover have "trim_space (ad_cidr a) \<noteq> ''''"
    using assms(3) by (auto simp: parse_cidr_def)
  ultimately show ?thesis
    using assms none by (simp add: validate_def check_static_def broadcast_def Let_def)
qed

theorem mapped_ipv6_prefix_panics_witness:
  "validate (\<lambda>_. Some (mapped 0x0A000005))
     \<lparr>ad_iface = ''eth0'', ad_cidr = ''::ffff:10.0.0.5/24'', ad_gateway = '''', ad_dns = []\<rparr> = Panicked"
proof -
  let ?six = "\<lambda>_. Some (mapped 0x0A000005)"
  have t: "trim_space ''::ffff:10.0.0.5/24'' = ''::ffff:10.0.0.5/24''"
    by (simp add: trim_space_id is_space_def)
  have p: "parse_cidr ?six ''::ffff:10.0.0.5/24'' = Some \<lparr>ci_ip = mapped 0x0A000005, ci_ones = 24, ci_v4 = False\<rparr>"
    by (simp add: parse_defs)
  show ?thesis
    by (rule mapped_ipv6_prefix_panics [where c = "\<lparr>ci_ip = mapped 0x0A000005, ci_ones = 24, ci_v4 = False\<rparr>"
          and w = "0x0A000005"])
      (simp_all add: t p iface_name_def iface_char_def is_lower_def is_digit_def kept_dns_def)
qed

section \<open>Text and addresses\<close>

lemma hd_digits_append: "hd (digits n @ xs) = hd (digits n)"
  by (cases "digits n") auto

lemma hd_digits_zero: "10 \<le> n \<Longrightarrow> hd (digits n) \<noteq> CHR ''0''"
proof (induction n rule: digits.induct)
  case (1 n)
  show ?case
  proof (cases "n div 10 < 10")
    case True
    then have "digits (n div 10) = [digit_char (n div 10)]" by (subst digits.simps) simp
    moreover have "code (digit_char (n div 10)) = 48 + n div 10" using True by (rule code_digit_char)
    moreover have "0 < n div 10" using 1 by (simp add: div_greater_zero_iff)
    ultimately show ?thesis
      using 1 by (subst digits.simps) (auto dest!: arg_cong [of _ _ code])
  next
    case False
    with 1 show ?thesis by (subst digits.simps) (simp add: hd_digits_append)
  qed
qed

lemma digits_small_length: "n < 10 \<Longrightarrow> length (digits n) = 1"
  by (subst digits.simps) simp

lemma octet_digits: "n \<le> 255 \<Longrightarrow> octet (digits n) = Some n"
  using hd_digits_zero [of n] digits_small_length [of n] by (cases "n < 10") (auto simp: octet_def)

lemma digit_char_val: "is_digit c \<Longrightarrow> digit_char (digit_val c) = c"
  by (simp add: digit_char_def digit_val_def is_digit_def)

text \<open>Digits without a leading zero are the digits of the number they stand for.\<close>

lemma digits_canonical:
  "s \<noteq> [] \<Longrightarrow> list_all is_digit s \<Longrightarrow> (1 < length s \<longrightarrow> hd s \<noteq> CHR ''0'') \<Longrightarrow>
     digits (foldl (\<lambda>n c. 10 * n + digit_val c) 0 s) = s"
proof (induction s rule: rev_induct)
  case (snoc c s)
  have c: "is_digit c" "digit_val c < 10" using snoc.prems by (auto simp: is_digit_def digit_val_def)
  show ?case
  proof (cases "s = []")
    case True
    with c show ?thesis by (subst digits.simps) (simp add: digit_char_val)
  next
    case False
    let ?v = "foldl (\<lambda>n c. 10 * n + digit_val c) 0 s"
    have z: "hd s \<noteq> CHR ''0''" using snoc.prems False by (cases s) auto
    then have v: "digits ?v = s" using snoc False by auto
    have "digits 0 = ''0''" by code_simp
    with v z have "?v \<noteq> 0" by (metis list.sel(1))
    with v c show ?thesis by (subst digits.simps) (simp add: digit_char_val)
  qed
qed simp

lemma digits_octet: "octet s = Some n \<Longrightarrow> digits n = s \<and> n \<le> 255"
  using digits_canonical [of s] by (auto simp: octet_def parse_nat_def split: option.splits if_split_asm)

lemma no_dot_digits: "CHR ''.'' \<notin> set (digits n)"
  using digits_all_digit [of n] by (auto simp: list_all_iff is_digit_def)

lemma four_parts:
  "split_on (CHR ''.'') (digits a @ ''.'' @ digits b @ ''.'' @ digits c @ ''.'' @ digits d) =
     [digits a, digits b, digits c, digits d]"
  by (simp add: split_on_append split_on_no_sep no_dot_digits)

lemma join4_bytes:
  assumes "a \<le> 255" "b \<le> 255" "c \<le> 255" "d \<le> 255"
  shows "show_ip4 (join4 a b c d) = digits a @ ''.'' @ digits b @ ''.'' @ digits c @ ''.'' @ digits d"
proof -
  have "unat (join4 a b c d) = ((a * 256 + b) * 256 + c) * 256 + d"
    unfolding join4_def unat_of_nat using assms by (intro mod_less) simp
  moreover have split: "(n * 256 + d) div 256 = n" "(n * 256 + d) mod 256 = d" if "d \<le> 255" for n d :: nat
    using that by simp_all
  moreover have "n div 65536 = n div 256 div 256" "n div 16777216 = n div 256 div 256 div 256" for n :: nat
    by (simp_all add: div_mult2_eq [symmetric])
  ultimately show ?thesis
    using assms by (simp only: show_ip4_def Let_def split)
qed

lemma bytes_join4:
  "join4 (unat w div 16777216) (unat w div 65536 mod 256) (unat w div 256 mod 256) (unat w mod 256) = w"
proof -
  have "((n div 16777216 * 256 + n div 65536 mod 256) * 256 + n div 256 mod 256) * 256 + n mod 256 = n" for n :: nat
  proof -
    have "n div 65536 = n div 256 div 256" "n div 16777216 = n div 256 div 256 div 256"
      by (simp_all add: div_mult2_eq [symmetric])
    then show ?thesis by (simp only: div_mult_mod_eq)
  qed
  then show ?thesis by (simp add: join4_def)
qed

lemma parse_show_ip4: "parse_ip4 (show_ip4 w) = Some w"
proof -
  have "unat w < 4294967296" using unsigned_less [of w] by simp
  then have "unat w div 16777216 \<le> 255" by linarith
  then show ?thesis
    using bytes_join4 [of w]
    unfolding show_ip4_def parse_ip4_def Let_def four_parts
    by (simp add: octet_digits)
qed

lemma show_parse_ip4:
  assumes "parse_ip4 s = Some v"
  shows "show_ip4 v = s"
proof -
  from assms obtain a b c d where o: "map octet (split_on (CHR ''.'') s) = [Some a, Some b, Some c, Some d]"
    and v: "v = join4 a b c d"
    by (auto simp: parse_ip4_def split: list.splits option.splits)
  from o obtain p q r t where s: "split_on (CHR ''.'') s = [p, q, r, t]"
    and oct: "octet p = Some a" "octet q = Some b" "octet r = Some c" "octet t = Some d"
    by (auto simp: map_eq_Cons_conv)
  have "s = join ''.'' [p, q, r, t]"
    using join_split_on [of "CHR ''.''" s] s by simp
  with oct [THEN digits_octet] v show ?thesis
    by (simp add: join4_bytes)
qed

text \<open>
  The address the hub dials, confirms and records is, digit for digit, the text that was asked for: what
  is before the slash, trimmed. (IPv4 text and addresses are inverse to each other.)
\<close>

theorem recorded_address_is_the_text:
  assumes "validate six a0 = Accepted a" and "ad_cidr a \<noteq> ''''"
  shows "wanted six h a = takeWhile (\<lambda>c. c \<noteq> CHR ''/'') (trim_space (ad_cidr a0)) \<and>
    (\<exists>w. parse_ip4 (wanted six h a) = Some w \<and> wanted six h a = show_ip4 w)"
proof -
  obtain c w where c: "parse_cidr six (ad_cidr a) = Some c" "ci_ip c = mapped w" "ci_v4 c"
    using accepted_static [OF validate_static [OF assms]] by blast
  let ?addr = "takeWhile (\<lambda>c. c \<noteq> CHR ''/'') (ad_cidr a)"
  have "parse_ip six ?addr = Some (mapped w)" "first_mark ?addr = Some (CHR ''.'')"
    using c by (auto simp: parse_cidr_def Let_def split: if_split_asm option.splits)
  then have "parse_ip4 ?addr = Some w" by (auto simp: parse_ip_def)
  moreover have "wanted six h a = show_ip4 w" using c assms(2) by (simp add: wanted_def)
  moreover have "ad_cidr a = trim_space (ad_cidr a0)" using validate_trims [OF assms(1)] by simp
  ultimately show ?thesis using show_parse_ip4 parse_show_ip4 by metis
qed

theorem recorded_address_is_the_text_witness:
  "\<forall>h. wanted no_six h lan_address = ''192.168.1.20''"
proof -
  have "ad_cidr lan_address \<noteq> ''''" by (simp add: lan_address_def)
  from recorded_address_is_the_text [OF lan_accepted this] show ?thesis by (simp add: lan_address_def)
qed

section \<open>The record of an address\<close>

lemma confirmed_dial:
  "confirm_address h addr deadline seen ds = None \<Longrightarrow>
     \<exists>k < length ds. (\<exists>t. ds ! k = (t, False, Confirmed) \<and> t < deadline) \<and>
       (\<forall>j < k. \<exists>t e. t < deadline \<and> (ds ! j = (t, False, DialFailed e) \<or> (\<exists>o'. ds ! j = (t, False, Unconfirmed o'))))"
proof (induction h addr deadline seen ds rule: confirm_address.induct)
  case (2 h addr deadline seen now gone d ds)
  show ?case
  proof (cases d)
    case Confirmed
    with 2(4) show ?thesis by (auto split: if_split_asm)
  next
    case KeyMismatch
    with 2(4) show ?thesis by (auto split: if_split_asm)
  next
    case (DialFailed e)
    with 2 obtain k where "k < length ds" "\<exists>t. ds ! k = (t, False, Confirmed) \<and> t < deadline"
      "\<forall>j < k. \<exists>t e. t < deadline \<and> (ds ! j = (t, False, DialFailed e) \<or> (\<exists>o'. ds ! j = (t, False, Unconfirmed o')))"
      by (auto split: if_split_asm)
    with DialFailed 2(4) show ?thesis
      by (intro exI [of _ "Suc k"]) (auto simp: nth_Cons' less_Suc_eq_0_disj split: if_split_asm)
  next
    case (Unconfirmed o')
    with 2 obtain k where "k < length ds" "\<exists>t. ds ! k = (t, False, Confirmed) \<and> t < deadline"
      "\<forall>j < k. \<exists>t e. t < deadline \<and> (ds ! j = (t, False, DialFailed e) \<or> (\<exists>o'. ds ! j = (t, False, Unconfirmed o')))"
      by (auto split: if_split_asm)
    with Unconfirmed 2(4) show ?thesis
      by (intro exI [of _ "Suc k"]) (auto simp: nth_Cons' less_Suc_eq_0_disj split: if_split_asm)
  qed
qed simp

text \<open>
  C24: The recorded address of a machine changes only after a confirmed dial: within the confirmation window
  the machine answered at the new address with its enrolled key and its guard had applied the
  change, no other key having answered there before; in every other case the record is as it was. A
  static address is recorded as the text of the host address that was checked.
\<close>

theorem address_follows_confirmed_dial:
  assumes "set_address six now launch dials h a0 s = (out, h', s', dropped)" and "h' \<noteq> h \<or> s' \<noteq> s"
  shows "out = Done \<and> dropped \<and> launch = None \<and> s' = set_host_addr (h_id h) (h_addr h') s \<and>
    (\<exists>a. validate six a0 = Accepted a \<and> h_addr h' = wanted six h a) \<and>
    (\<exists>k < length dials. (\<exists>t < now + confirm_window. dials ! k = (t, False, Confirmed)) \<and>
       (\<forall>j < k. snd (snd (dials ! j)) \<noteq> KeyMismatch))"
proof -
  obtain a where a: "validate six a0 = Accepted a" and l: "launch = None"
    and ok: "confirm_address h (wanted six h a) (now + confirm_window) None dials = None"
    and "wanted six h a \<noteq> h_addr h"
    and res: "out = Done" "h' = h\<lparr>h_addr := wanted six h a\<rparr>" "s' = set_host_addr (h_id h) (wanted six h a) s" dropped
    using assms by (auto simp: set_address_def Let_def split: verdict.splits option.splits if_split_asm)
  from confirmed_dial [OF ok] obtain k where k: "k < length dials"
    "\<exists>t. dials ! k = (t, False, Confirmed) \<and> t < now + confirm_window"
    "\<forall>j < k. \<exists>t e. dials ! j = (t, False, DialFailed e) \<or> (\<exists>o'. dials ! j = (t, False, Unconfirmed o'))"
    by blast
  have "\<forall>j < k. snd (snd (dials ! j)) \<noteq> KeyMismatch"
    using k(3) by (metis dial.distinct(1,3) snd_conv)
  with k(1,2) have dial: "\<exists>k < length dials. (\<exists>t < now + confirm_window. dials ! k = (t, False, Confirmed)) \<and>
       (\<forall>j < k. snd (snd (dials ! j)) \<noteq> KeyMismatch)" by blast
  have addr: "h_addr h' = wanted six h a" using res(2) by simp
  show ?thesis
    unfolding addr by (intro conjI exI [of _ a]) (fact res l a dial refl)+
qed

definition old_nas :: host_row where
  "old_nas = \<lparr>h_id = 1, h_name = ''nas'', h_kind = ''compute'', h_addr = ''10.0.0.9'', h_port = 22,
     h_user = ''homedash'', h_key = '''', h_status = ''online'', h_facts = no_facts, h_model = '''', h_rebuild = '''',
     h_vault = '''', h_revoked = '''', h_enrolled = 0, h_last_seen = None\<rparr>"

lemma lan_wanted: "wanted no_six old_nas lan_address = ''192.168.1.20''"
proof -
  have "parse_ip4 ''192.168.1.20'' = Some 0xC0A80114" by (simp add: parse_defs)
  then show ?thesis by (simp add: wanted_def lan_address_def lan_cidr show_parse_ip4)
qed

theorem address_follows_confirmed_dial_witness:
  "\<exists>h' s'. set_address no_six 0 None [(3 * second, False, DialFailed ''timeout''), (6 * second, False, Confirmed)]
      old_nas lan_address empty_db = (Done, h', s', True) \<and> h_addr h' = ''192.168.1.20'' \<and>
    s' = set_host_addr 1 ''192.168.1.20'' empty_db"
proof -
  let ?ds = "[(3 * second, False, DialFailed ''timeout''), (6 * second, False, Confirmed)]"
  obtain out h' s' dropped where r: "set_address no_six 0 None ?ds old_nas lan_address empty_db = (out, h', s', dropped)"
    by (metis prod_cases4)
  have moved: "h' \<noteq> old_nas"
    using r lan_wanted
    by (auto simp: set_address_def lan_accepted confirm_window_def second_def old_nas_def Let_def)
  show ?thesis
    using address_follows_confirmed_dial [OF r disjI1 [OF moved]] r lan_wanted lan_accepted
    by (auto simp: old_nas_def)
qed

end
