(* ===== verification/StorageClusters.thy ===== *)
theory StorageClusters
  imports StoreClusters
begin

text \<open>
  The clusters of \<open>internal/storage/storage.go\<close> and the workspaces of \<open>workspaces.go\<close>: which paths may be
  pooled, the order of store and machine operations, the shell scripts sent to the machines with
  their text, and what those scripts do to \<open>/etc/fstab\<close>. What a machine answers to a script is the
  parameter \<open>run\<close>: an error on the way, or an exit code with its standard error.
\<close>

section \<open>Text\<close>

definition dq :: string where "dq = [CHR 0x22]"
definition sq :: string where "sq = [CHR 0x27]"
definition bs :: string where "bs = [CHR 0x5C]"

definition shq :: "string \<Rightarrow> string" where
  "shq s = sq @ replace_char (CHR 0x27) (sq @ bs @ sq @ sq) s @ sq"

definition lines_of :: "string list \<Rightarrow> string" where
  "lines_of ls = concat (map (\<lambda>l. l @ [newline]) ls)"

definition last_line :: "string \<Rightarrow> string" where
  "last_line s = after_last newline (trim_space s)"

definition name_char :: "char \<Rightarrow> bool" where
  "name_char c \<longleftrightarrow> is_lower c \<or> is_digit c"

definition name_ok :: "string \<Rightarrow> bool" where
  "name_ok s =
     (case s of
        [] \<Rightarrow> False
      | c # cs \<Rightarrow> name_char c \<and> length cs \<le> 31 \<and> list_all (\<lambda>d. name_char d \<or> d = CHR ''_'' \<or> d = CHR ''-'') cs)"

section \<open>What may be pooled\<close>

definition branch_dir :: "string \<Rightarrow> member_row \<times> string \<Rightarrow> string" where
  "branch_dir name = (\<lambda>(m, hn). ''/mnt/homedash/'' @ name @ ''/'' @ hn @ ''-'' @ itoa (cm_id m))"

definition pooled_never :: "string list" where
  "pooled_never = [''/'', ''/boot'', ''/etc'', ''/usr'', ''/var'', ''/home'', ''/root'']"

definition refuse :: "host_row \<Rightarrow> string \<Rightarrow> string \<Rightarrow> err option" where
  "refuse h path cluster_path =
     (if \<not> has_prefix path ''/'' \<or> contains_str path ''..'' then Some (Err ''a member path is absolute'')
      else if path \<in> set pooled_never then Some (Refusal (''pooling a system path: '' @ h_name h @ '':'' @ path))
      else if path = cluster_path \<or> has_prefix path ''/mnt/homedash/''
      then Some (Refusal (''pooling a cluster's own mount: '' @ h_name h @ '':'' @ path))
      else case List.find (\<lambda>m. m_path m = path) (f_mounts (h_facts h)) of
             None \<Rightarrow> Some (Err (h_name h @ '' has no mountpoint at '' @ path @
               ''; members are mountpoints the machine reported''))
           | Some m \<Rightarrow>
               (case List.find (\<lambda>src. src = m_source m) (f_system_sources (h_facts h)) of
                  None \<Rightarrow> None
                | Some src \<Rightarrow> Some (Refusal (''pooling a disk that carries the system or swap: '' @ h_name h @ '':'' @
                    path @ '' is on '' @ src))))"

section \<open>Scripts\<close>

definition cluster_tag :: "string \<Rightarrow> string" where
  "cluster_tag name = ''homedash-cluster-'' @ name"

definition branch_line :: "string \<Rightarrow> string \<Rightarrow> string \<Rightarrow> string \<Rightarrow> string" where
  "branch_line addr path b name =
     addr @ '':'' @ path @ '' '' @ b @ '' nfs soft,timeo=30,retrans=2,_netdev,nofail 0 0 # '' @ cluster_tag name"

definition merge_line :: "string list \<Rightarrow> string \<Rightarrow> string \<Rightarrow> string" where
  "merge_line branches path name =
     join '':'' branches @ '' '' @ path @
     '' fuse.mergerfs defaults,allow_other,category.create=mfs,moveonenospc=true,minfreespace=1G,nofail 0 0 # '' @
     cluster_tag name"

definition frontend :: "string list" where
  "frontend = [''set -e'', ''export DEBIAN_FRONTEND=noninteractive'']"

definition drop_tag :: "string \<Rightarrow> string" where
  "drop_tag tag = ''sed -i '' @ sq @ bs @ ''#'' @ tag @ ''#d'' @ sq @ '' /etc/fstab''"

definition mount_script :: "string \<Rightarrow> string \<Rightarrow> string list \<Rightarrow> string list \<Rightarrow> string" where
  "mount_script name path branches fstab =
     lines_of (frontend @
       [''command -v mergerfs >/dev/null 2>&1 || apt-get -qq install -y mergerfs nfs-common >/dev/null'',
        ''dpkg -s nfs-common >/dev/null 2>&1 || apt-get -qq install -y nfs-common >/dev/null'',
        ''umount -l '' @ shq path @ '' 2>/dev/null || true'',
        drop_tag (cluster_tag name),
        ''mkdir -p '' @ shq path @ '' /mnt/homedash/'' @ name,
        ''cat >> /etc/fstab <<'' @ sq @ ''HOMEDASH_FSTAB'' @ sq] @ fstab @
       [''HOMEDASH_FSTAB'',
        ''systemctl daemon-reload'',
        ''for b in /mnt/homedash/'' @ name @ ''/*; do [ -d '' @ dq @ ''$b'' @ dq @ '' ] || continue; mountpoint -q '' @
          dq @ ''$b'' @ dq @ '' || timeout 20 mount '' @ dq @ ''$b'' @ dq @ '' || echo '' @ dq @
          ''member at $b did not mount (it reads as a hole until it does)'' @ dq @ '' >&2; done''] @
       map (\<lambda>b. ''mkdir -p '' @ shq b @ ''; mountpoint -q '' @ shq b @ '' || timeout 20 mount '' @ shq b @ '' || true'')
         (filter (\<lambda>b. has_prefix b ''/mnt/homedash/'') branches) @
       [''mount '' @ shq path, ''mountpoint -q '' @ shq path,
        ''chown homedash:homedash '' @ shq path @ '' && chmod 2775 '' @ shq path @ '' || true''])"

definition exports_of :: "string \<Rightarrow> int \<Rightarrow> string" where
  "exports_of name i = ''/etc/exports.d/homedash-'' @ name @ ''-'' @ itoa i @ ''.exports''"

definition export_script :: "string \<Rightarrow> member_row \<Rightarrow> string \<Rightarrow> string" where
  "export_script name m gateway_addr =
     lines_of (frontend @
       [''dpkg -s nfs-kernel-server >/dev/null 2>&1 || apt-get -qq install -y nfs-kernel-server >/dev/null'',
        ''mkdir -p /etc/exports.d'',
        ''printf '' @ sq @ ''%s %s(rw,sync,no_subtree_check,no_root_squash)'' @ bs @ ''n'' @ sq @ '' '' @
          shq (cm_path m) @ '' '' @ shq gateway_addr @ '' > '' @ exports_of name (cm_id m),
        ''systemctl enable --now nfs-server >/dev/null 2>&1 || true'',
        ''exportfs -ra''])"

definition unexport_script :: "string \<Rightarrow> int \<Rightarrow> string" where
  "unexport_script name i = ''rm -f '' @ exports_of name i @ ''; exportfs -ra''"

definition drop_branch_script :: "string \<Rightarrow> string" where
  "drop_branch_script b =
     ''umount -l '' @ shq b @ '' 2>/dev/null; rmdir '' @ shq b @ '' 2>/dev/null; sed -i '' @ sq @ bs @ ''# '' @ b @
     '' #d'' @ sq @ '' /etc/fstab''"

definition tear_down_script :: "cluster \<Rightarrow> string" where
  "tear_down_script c =
     ''umount -l '' @ shq (k_path c) @ '' 2>/dev/null; for b in /mnt/homedash/'' @ k_name c @
     ''/*; do umount -l '' @ dq @ ''$b'' @ dq @ '' 2>/dev/null; done; '' @ drop_tag (cluster_tag (k_name c)) @
     ''; rm -rf /mnt/homedash/'' @ k_name c"
section \<open>Operations\<close>

text \<open>The store, every script sent with the machine it went to, and what the panel was told.\<close>

record site =
  si_db :: db
  si_sent :: "(int \<times> string) list"
  si_notes :: "(string \<times> string \<times> string) list"

type_synonym run = "int \<Rightarrow> string \<Rightarrow> string + (int \<times> string)"

definition send :: "run \<Rightarrow> host_row \<Rightarrow> string \<Rightarrow> site \<Rightarrow> (string + (int \<times> string)) \<times> site" where
  "send run h script s = (run (h_id h) script, s\<lparr>si_sent := si_sent s @ [(h_id h, script)]\<rparr>)"

definition tell :: "string \<Rightarrow> string \<Rightarrow> string \<Rightarrow> site \<Rightarrow> site" where
  "tell kind subject msg s = s\<lparr>si_notes := si_notes s @ [(kind, subject, msg)]\<rparr>"

definition keep_script :: "int \<Rightarrow> string \<Rightarrow> site \<Rightarrow> site" where
  "keep_script i txt s = s\<lparr>si_db := append_rebuild_script i txt (si_db s)\<rparr>"

definition run_on_gateway :: "run \<Rightarrow> cluster \<Rightarrow> string \<Rightarrow> site \<Rightarrow> err option \<times> site" where
  "run_on_gateway run c script s =
     (case host (itoa (k_gateway c)) (si_db s) of
        Inl e \<Rightarrow> (Some e, s)
      | Inr gw \<Rightarrow>
          (case send run gw script s of
             (Inl e, s1) \<Rightarrow> (Some (Err (h_name gw @ '': '' @ e)), s1)
           | (Inr (status, errs), s1) \<Rightarrow>
               (if status \<noteq> 0 then Some (Err (''on '' @ h_name gw @ '': '' @ last_line errs)) else None, s1)))"

definition export_member :: "run \<Rightarrow> cluster \<Rightarrow> host_row \<Rightarrow> member_row \<Rightarrow> string \<Rightarrow> site \<Rightarrow> err option \<times> site" where
  "export_member run c mh m gateway_addr s =
     (let script = export_script (k_name c) m gateway_addr
      in case send run mh script s of
           (Inl e, s1) \<Rightarrow> (Some (Err (h_name mh @ '': '' @ e)), s1)
         | (Inr (status, errs), s1) \<Rightarrow>
             if status \<noteq> 0
             then (Some (Err (''export '' @ h_name mh @ '':'' @ cm_path m @ '': '' @ last_line errs)), s1)
             else (None, keep_script (h_id mh) (''# HomeDash: cluster '' @ k_name c @ '' export of '' @ cm_path m @
                     '' to '' @ gateway_addr @ [newline] @ script) s1))"

definition unexport :: "run \<Rightarrow> cluster \<Rightarrow> member_row \<Rightarrow> site \<Rightarrow> site" where
  "unexport run c m s =
     (case host (itoa (cm_host m)) (si_db s) of
        Inl _ \<Rightarrow> s
      | Inr mh \<Rightarrow>
          if cm_host m = k_gateway c then s
          else snd (send run mh (unexport_script (k_name c) (cm_id m)) s))"

text \<open>The members in order: the branch each is merged from, and the \<open>fstab\<close> line of those not on the gateway.\<close>

fun apply_members ::
  "run \<Rightarrow> cluster \<Rightarrow> string \<Rightarrow> (member_row \<times> string) list \<Rightarrow> site \<Rightarrow>
   (string list \<times> string list) res \<times> site" where
  "apply_members run c gw_addr [] s = (Inr ([], []), s)"
| "apply_members run c gw_addr (m # ms) s =
     (if cm_host (fst m) = k_gateway c
      then (case apply_members run c gw_addr ms s of
              (Inl e, s1) \<Rightarrow> (Inl e, s1)
            | (Inr (bs', ls), s1) \<Rightarrow> (Inr (cm_path (fst m) # bs', ls), s1))
      else case host (itoa (cm_host (fst m))) (si_db s) of
             Inl e \<Rightarrow> (Inl e, s)
           | Inr mh \<Rightarrow>
               (case export_member run c mh (fst m) gw_addr s of
                  (Some e, s1) \<Rightarrow> (Inl e, s1)
                | (None, s1) \<Rightarrow>
                    (case apply_members run c gw_addr ms s1 of
                       (Inl e, s2) \<Rightarrow> (Inl e, s2)
                     | (Inr (bs', ls), s2) \<Rightarrow>
                         let b = branch_dir (k_name c) m
                         in (Inr (b # bs', branch_line (h_addr mh) (cm_path (fst m)) b (k_name c) # ls), s2))))"

definition apply_cluster :: "run \<Rightarrow> cluster \<Rightarrow> site \<Rightarrow> err option \<times> site" where
  "apply_cluster run c s =
     (case host (itoa (k_gateway c)) (si_db s) of
        Inl e \<Rightarrow> (Some e, s)
      | Inr gw \<Rightarrow>
          (case apply_members run c (h_addr gw) (k_members c) s of
             (Inl e, s1) \<Rightarrow> (Some e, s1)
           | (Inr (branches, ls), s1) \<Rightarrow>
               let script = mount_script (k_name c) (k_path c) branches
                              (ls @ [merge_line branches (k_path c) (k_name c)])
               in (case run_on_gateway run c script s1 of
                     (Some e, s2) \<Rightarrow> (Some e, s2)
                   | (None, s2) \<Rightarrow>
                       (None, keep_script (h_id gw) (''# HomeDash: cluster '' @ k_name c @ '' gateway mount'' @
                                [newline] @ script) s2))))"

text \<open>The members asked for, each on its machine as the store has it now; the first refusal stops.\<close>

fun check_members :: "string \<Rightarrow> (int \<times> string) list \<Rightarrow> site \<Rightarrow> err option \<times> site" where
  "check_members path [] s = (None, s)"
| "check_members path (m # ms) s =
     (case host (itoa (fst m)) (si_db s) of
        Inl e \<Rightarrow> (Some e, s)
      | Inr h \<Rightarrow>
          (case refuse h (snd m) path of
             Some e \<Rightarrow> (Some e, tell ''gate.refused'' (h_name h) (case e of Err t \<Rightarrow> t | Refusal t \<Rightarrow> ''refused: '' @ t | _ \<Rightarrow> []) s)
           | None \<Rightarrow> check_members path ms s))"

definition create ::
  "run \<Rightarrow> string \<Rightarrow> host_row \<Rightarrow> string \<Rightarrow> (int \<times> string) list \<Rightarrow> site \<Rightarrow> cluster res \<times> site" where
  "create run name gateway path ms s =
     (if \<not> name_ok name then (Inl (Err ''a cluster name is lowercase letters, digits, - and _''), s)
      else if length ms < 2 then (Inl (Err ''a cluster is two or more members''), s)
      else if \<not> has_prefix path ''/'' \<or> has_prefix path ''/mnt/homedash/''
      then (Inl (Err ''the cluster path is absolute and not under /mnt/homedash''), s)
      else case check_members path ms s of
             (Some e, s1) \<Rightarrow> (Inl e, s1)
           | (None, s1) \<Rightarrow>
               (case create_cluster name (h_id gateway) path ms (si_db s1) of
                  Inl e \<Rightarrow> (Inl e, s1)
                | Inr (i, d) \<Rightarrow>
                    (case cluster i d of
                       Inl e \<Rightarrow> (Inl e, s1\<lparr>si_db := d\<rparr>)
                     | Inr c \<Rightarrow>
                         (case apply_cluster run c (s1\<lparr>si_db := d\<rparr>) of
                            (Some e, s2) \<Rightarrow> (Inl e, s2\<lparr>si_db := delete_cluster i (si_db s2)\<rparr>)
                          | (None, s2) \<Rightarrow>
                              (Inr c, tell ''cluster.created'' name (''cluster '' @ name @ '': '' @
                                 digits (length ms) @ '' members at '' @ path @ '' on '' @ h_name gateway) s2)))))"

definition grow :: "run \<Rightarrow> cluster \<Rightarrow> host_row \<Rightarrow> string \<Rightarrow> site \<Rightarrow> err option \<times> site" where
  "grow run c h path s =
     (case refuse h path (k_path c) of
        Some e \<Rightarrow> (Some e, tell ''gate.refused'' (h_name h) (case e of Err t \<Rightarrow> t | Refusal t \<Rightarrow> ''refused: '' @ t | _ \<Rightarrow> []) s)
      | None \<Rightarrow>
          (case add_member (k_id c) (h_id h) path (si_db s) of
             Inl e \<Rightarrow> (Some e, s)
           | Inr d \<Rightarrow>
               (case cluster (k_id c) d of
                  Inl e \<Rightarrow> (Some e, s\<lparr>si_db := d\<rparr>)
                | Inr c1 \<Rightarrow> apply_cluster run c1 (s\<lparr>si_db := d\<rparr>))))"

text \<open>The last member with the identifier, as the loop leaves it.\<close>

definition shrink :: "run \<Rightarrow> cluster \<Rightarrow> int \<Rightarrow> site \<Rightarrow> err option \<times> site" where
  "shrink run c i s =
     (case List.find (\<lambda>m. cm_id (fst m) = i) (rev (k_members c)) of
        None \<Rightarrow> (Some (Err ''no such member''), s)
      | Some gone \<Rightarrow>
          if length (k_members c) \<le> 2
          then (Some (Err ''a cluster keeps at least two members; delete the cluster instead''), s)
          else let d = remove_member i (si_db s)
               in (case cluster (k_id c) d of
                     Inl e \<Rightarrow> (Some e, s\<lparr>si_db := d\<rparr>)
                   | Inr c1 \<Rightarrow>
                       (case apply_cluster run c1 (s\<lparr>si_db := d\<rparr>) of
                          (Some e, s1) \<Rightarrow> (Some e, s1)
                        | (None, s1) \<Rightarrow>
                            (None, snd (run_on_gateway run c1 (drop_branch_script (branch_dir (k_name c1) gone))
                               (unexport run c1 (fst gone) s1))))))"

definition tear_down :: "run \<Rightarrow> cluster \<Rightarrow> site \<Rightarrow> site" where
  "tear_down run c s =
     (let s1 = snd (run_on_gateway run c (tear_down_script c) s);
          s2 = fold (\<lambda>m. unexport run c (fst m)) (k_members c) s1
      in tell ''cluster.deleted'' (k_name c) (''cluster '' @ k_name c @ '' torn down; every member keeps its files'')
           (s2\<lparr>si_db := delete_cluster (k_id c) (si_db s2)\<rparr>))"

definition gateway_of :: "string \<Rightarrow> db \<Rightarrow> host_row res" where
  "gateway_of name s = (case cluster_by_name name s of Inl e \<Rightarrow> Inl e | Inr c \<Rightarrow> host (itoa (k_gateway c)) s)"

section \<open>What a gateway reports\<close>

text \<open>
  \<open>ParseInt\<close> answers 0 with its error on text that is no number; for a number beyond 64 bits Go answers
  the largest one, the model 0, both with the error.
\<close>

definition parse_df :: "string \<Rightarrow> int \<times> int \<times> bool" where
  "parse_df line =
     (case GoStrings.fields line of
        a # b # _ \<Rightarrow>
          (case parse_int a of None \<Rightarrow> 0 | Some n \<Rightarrow> n, case parse_int b of None \<Rightarrow> 0 | Some n \<Rightarrow> n,
           parse_int a \<noteq> None \<and> parse_int b \<noteq> None)
      | _ \<Rightarrow> (0, 0, False))"

record member_status =
  ms_member :: "member_row \<times> string"
  ms_reachable :: bool
  ms_size :: int
  ms_free :: int

record status =
  ss_cluster :: cluster
  ss_mounted :: bool
  ss_degraded :: bool
  ss_size :: int
  ss_free :: int
  ss_members :: "member_status list"
  ss_error :: string

definition member_status_of :: "string list \<Rightarrow> nat \<Rightarrow> member_row \<times> string \<Rightarrow> member_status" where
  "member_status_of ls i m =
     (let (size, free, ok) = (if Suc i < length ls then parse_df (ls ! Suc i) else (0, 0, False))
      in \<lparr>ms_member = m, ms_reachable = ok, ms_size = size, ms_free = free\<rparr>)"

text \<open>A cluster's status from what its gateway printed: nothing if the gateway is away.\<close>

definition cluster_status :: "(string + string) option \<Rightarrow> cluster \<Rightarrow> status" where
  "cluster_status answer c =
     (let blank = \<lparr>ss_cluster = c, ss_mounted = False, ss_degraded = False, ss_size = 0, ss_free = 0,
                   ss_members = [], ss_error = ''gateway is not online''\<rparr>
      in case answer of
           None \<Rightarrow> blank
         | Some (Inl e) \<Rightarrow> blank\<lparr>ss_error := e\<rparr>
         | Some (Inr out) \<Rightarrow>
             let ls = split_on newline (trim_space out);
                 (size, free, mounted) = parse_df (hd ls);
                 ms = map (\<lambda>(i, m). member_status_of ls i m) (zip [0..<length (k_members c)] (k_members c))
             in blank\<lparr>ss_error := [], ss_size := size, ss_free := free, ss_mounted := mounted,
                      ss_members := ms, ss_degraded := list_ex (\<lambda>m. \<not> ms_reachable m) ms\<rparr>)"

definition statuses :: "(cluster \<Rightarrow> string + string) \<Rightarrow> db \<Rightarrow> status list" where
  "statuses ask s =
     map (\<lambda>c. case host (itoa (k_gateway c)) s of
                Inl _ \<Rightarrow> cluster_status None c
              | Inr gw \<Rightarrow> cluster_status (if h_status gw = ''online'' then Some (ask c) else None) c)
       (clusters s)"

section \<open>Workspaces\<close>

definition ws_exports :: "string \<Rightarrow> string" where
  "ws_exports name = ''/etc/exports.d/homedash-ws-'' @ name @ ''.exports''"

definition ws_tag :: "string \<Rightarrow> string" where
  "ws_tag name = ''homedash-workspace-'' @ name"

text \<open>\<open>sha\<close> is the first sixteen bytes of the SHA-256 in hexadecimal, 32 digits.\<close>

definition fsid :: "(string \<Rightarrow> string) \<Rightarrow> string \<Rightarrow> string" where
  "fsid sha name =
     (let h = sha (''homedash-ws/'' @ name)
      in take 8 h @ ''-'' @ take 4 (drop 8 h) @ ''-'' @ take 4 (drop 12 h) @ ''-'' @ take 4 (drop 16 h) @ ''-'' @
         take 12 (drop 20 h))"

definition client_entry :: "(string \<Rightarrow> string) \<Rightarrow> string \<Rightarrow> string \<Rightarrow> string" where
  "client_entry sha name addr =
     addr @ ''(rw,sync,no_subtree_check,all_squash,anonuid=$HD_UID,anongid=$HD_GID,fsid='' @ fsid sha name @ '')''"

definition share_script :: "workspace \<Rightarrow> string list \<Rightarrow> string" where
  "share_script w clients =
     lines_of (frontend @
       [''dpkg -s nfs-kernel-server >/dev/null 2>&1 || apt-get -qq install -y nfs-kernel-server >/dev/null'',
        ''HD_UID=$(id -u homedash); HD_GID=$(id -g homedash)'',
        ''mkdir -p '' @ shq (wk_path w), ''chown homedash:homedash '' @ shq (wk_path w),
        ''chmod 2775 '' @ shq (wk_path w), ''mkdir -p /etc/exports.d'',
        (if clients = [] then ''rm -f '' @ shq (ws_exports (wk_name w))
         else ''printf '' @ sq @ ''%s %s'' @ bs @ ''n'' @ sq @ '' '' @ shq (wk_path w) @ '' '' @ dq @
              join '' '' clients @ dq @ '' > '' @ shq (ws_exports (wk_name w))),
        ''systemctl enable --now nfs-server >/dev/null 2>&1 || true'', ''exportfs -ra''])"

definition ws_mount_script :: "workspace \<Rightarrow> string \<Rightarrow> string" where
  "ws_mount_script w gateway_addr =
     lines_of (frontend @
       [''dpkg -s nfs-common >/dev/null 2>&1 || apt-get -qq install -y nfs-common >/dev/null'',
        ''umount -l '' @ shq (wk_path w) @ '' 2>/dev/null || true'', drop_tag (ws_tag (wk_name w)),
        ''mkdir -p '' @ shq (wk_path w),
        ''printf '' @ sq @ ''%s:%s %s nfs soft,timeo=30,retrans=2,_netdev,nofail,x-systemd.automount 0 0 # '' @
          ws_tag (wk_name w) @ bs @ ''n'' @ sq @ '' '' @ shq gateway_addr @ '' '' @ shq (wk_path w) @ '' '' @
          shq (wk_path w) @ '' >> /etc/fstab'',
        ''systemctl daemon-reload'',
        ''timeout 20 mount '' @ shq (wk_path w) @ '' || echo '' @ dq @ wk_path w @
          '' did not mount yet (it reads as absent until it does)'' @ dq @ '' >&2''])"

definition ws_unmount_script :: "workspace \<Rightarrow> string" where
  "ws_unmount_script w =
     ''umount -l '' @ shq (wk_path w) @ '' 2>/dev/null; '' @ drop_tag (ws_tag (wk_name w)) @
     ''; systemctl daemon-reload; rmdir '' @ shq (wk_path w) @ '' 2>/dev/null || true''"

text \<open>The named remotes but the gateway, in the order of the workspace's members.\<close>

fun ws_remotes :: "int \<Rightarrow> (int \<times> string) list \<Rightarrow> db \<Rightarrow> host_row list res" where
  "ws_remotes gw [] s = Inr []"
| "ws_remotes gw (m # ms) s =
     (if fst m = gw then ws_remotes gw ms s
      else case host (itoa (fst m)) s of
             Inl e \<Rightarrow> Inl e
           | Inr h \<Rightarrow> (case ws_remotes gw ms s of Inl e \<Rightarrow> Inl e | Inr hs \<Rightarrow> Inr (h # hs)))"

definition mount_workspace :: "run \<Rightarrow> workspace \<Rightarrow> host_row \<Rightarrow> string \<Rightarrow> site \<Rightarrow> err option \<times> site" where
  "mount_workspace run w h gateway_addr s =
     (let script = ws_mount_script w gateway_addr
      in case send run h script s of
           (Inl e, s1) \<Rightarrow> (Some (Err (h_name h @ '': '' @ e)), s1)
         | (Inr (status, errs), s1) \<Rightarrow>
             if status \<noteq> 0
             then (Some (Err (''mount '' @ wk_path w @ '' on '' @ h_name h @ '': '' @ last_line errs)), s1)
             else (None, keep_script (h_id h) (''# HomeDash: workspace '' @ wk_name w @ '' mounted from '' @
                     gateway_addr @ [newline] @ script) s1))"

fun mount_all :: "run \<Rightarrow> workspace \<Rightarrow> string \<Rightarrow> host_row list \<Rightarrow> site \<Rightarrow> err option \<times> site" where
  "mount_all run w addr [] s = (None, s)"
| "mount_all run w addr (h # hs) s =
     (case mount_workspace run w h addr s of
        (Some e, s1) \<Rightarrow> (Some e, s1)
      | (None, s1) \<Rightarrow> mount_all run w addr hs s1)"

definition share :: "(string \<Rightarrow> string) \<Rightarrow> run \<Rightarrow> workspace \<Rightarrow> site \<Rightarrow> err option \<times> site" where
  "share sha run w s =
     (case cluster (wk_cluster w) (si_db s) of
        Inl e \<Rightarrow> (Some e, s)
      | Inr c \<Rightarrow>
          (case host (itoa (k_gateway c)) (si_db s) of
             Inl e \<Rightarrow> (Some e, s)
           | Inr gw \<Rightarrow>
               (case ws_remotes (k_gateway c) (wk_members w) (si_db s) of
                  Inl e \<Rightarrow> (Some e, s)
                | Inr hs \<Rightarrow>
                    let script = share_script w (map (\<lambda>h. client_entry sha (wk_name w) (h_addr h)) hs)
                    in (case run_on_gateway run c script s of
                          (Some e, s1) \<Rightarrow> (Some e, s1)
                        | (None, s1) \<Rightarrow>
                            mount_all run w (h_addr gw) hs
                              (keep_script (h_id gw) (''# HomeDash: workspace '' @ wk_name w @
                                 '' shared from the gateway'' @ [newline] @ script) s1)))))"

definition unmount_workspace :: "run \<Rightarrow> workspace \<Rightarrow> host_row \<Rightarrow> site \<Rightarrow> site" where
  "unmount_workspace run w h s =
     (case cluster (wk_cluster w) (si_db s) of
        Inl _ \<Rightarrow> s
      | Inr c \<Rightarrow> if h_id h = k_gateway c then s else snd (send run h (ws_unmount_script w) s))"

definition create_ws ::
  "(string \<Rightarrow> string) \<Rightarrow> run \<Rightarrow> cluster \<Rightarrow> string \<Rightarrow> host_row list \<Rightarrow> site \<Rightarrow> workspace res \<times> site" where
  "create_ws sha run c name hs s =
     (if \<not> name_ok name then (Inl (Err ''a workspace name is lowercase letters, digits, - and _''), s)
      else if hs = [] then (Inl (Err ''a workspace names at least one remote''), s)
      else case create_workspace name (k_id c) (map h_id hs) (si_db s) of
             Inl e \<Rightarrow> (Inl e, s)
           | Inr (i, d) \<Rightarrow>
               (case workspace i d of
                  Inl e \<Rightarrow> (Inl e, s\<lparr>si_db := d\<rparr>)
                | Inr w \<Rightarrow>
                    (case share sha run w (s\<lparr>si_db := d\<rparr>) of
                       (Some e, s1) \<Rightarrow> (Inl e, s1\<lparr>si_db := delete_workspace i (si_db s1)\<rparr>)
                     | (None, s1) \<Rightarrow>
                         (Inr w, tell ''workspace.created'' name (''workspace '' @ name @ '' at '' @ wk_path w @
                            '' shared to '' @ digits (length hs) @ '' remote(s)'') s1))))"

definition add_ws_member :: "(string \<Rightarrow> string) \<Rightarrow> run \<Rightarrow> workspace \<Rightarrow> host_row \<Rightarrow> site \<Rightarrow> err option \<times> site" where
  "add_ws_member sha run w h s =
     (case add_workspace_member (wk_id w) (h_id h) (si_db s) of
        Inl e \<Rightarrow> (Some e, s)
      | Inr d \<Rightarrow>
          (case workspace (wk_id w) d of
             Inl e \<Rightarrow> (Some e, s\<lparr>si_db := d\<rparr>)
           | Inr w1 \<Rightarrow> share sha run w1 (s\<lparr>si_db := d\<rparr>)))"

definition remove_ws_member :: "(string \<Rightarrow> string) \<Rightarrow> run \<Rightarrow> workspace \<Rightarrow> host_row \<Rightarrow> site \<Rightarrow> err option \<times> site" where
  "remove_ws_member sha run w h s =
     (let s1 = unmount_workspace run w h (s\<lparr>si_db := remove_workspace_member (wk_id w) (h_id h) (si_db s)\<rparr>)
      in case workspace (wk_id w) (si_db s1) of
           Inl e \<Rightarrow> (Some e, s1)
         | Inr w1 \<Rightarrow> share sha run w1 s1)"

definition delete_ws :: "run \<Rightarrow> workspace \<Rightarrow> site \<Rightarrow> err option \<times> site" where
  "delete_ws run w s =
     (case cluster (wk_cluster w) (si_db s) of
        Inl e \<Rightarrow> (Some e, s)
      | Inr c \<Rightarrow>
          let s1 = fold (\<lambda>m s. case host (itoa (fst m)) (si_db s) of
                                 Inl _ \<Rightarrow> s | Inr h \<Rightarrow> unmount_workspace run w h s) (wk_members w) s;
              s2 = snd (run_on_gateway run c (''rm -f '' @ shq (ws_exports (wk_name w)) @ ''; exportfs -ra'') s1)
          in (None, tell ''workspace.deleted'' (wk_name w) (''workspace '' @ wk_name w @
                '' unshared; its files stay at '' @ wk_path w)
                (s2\<lparr>si_db := delete_workspace (wk_id w) (si_db s2)\<rparr>)))"

text \<open>Which named remotes have it mounted, by their own facts; the gateway by its being online.\<close>

definition ws_mounted :: "workspace \<Rightarrow> db \<Rightarrow> string \<Rightarrow> bool option" where
  "ws_mounted w s =
     fold (\<lambda>m mounted. case host (itoa (fst m)) s of
         Inl _ \<Rightarrow> mounted
       | Inr h \<Rightarrow>
           (case cluster (wk_cluster w) s of
              Inr c \<Rightarrow>
                if h_id h = k_gateway c then mounted(h_name h \<mapsto> (h_status h = ''online''))
                else if list_ex (\<lambda>mt. m_path mt = wk_path w) (f_mounts (h_facts h)) then mounted(h_name h \<mapsto> True)
                else mounted
            | Inl _ \<Rightarrow>
                if list_ex (\<lambda>mt. m_path mt = wk_path w) (f_mounts (h_facts h)) then mounted(h_name h \<mapsto> True)
                else mounted))
       (wk_members w) (\<lambda>_. None)"

section \<open>What the scripts do to \<open>/etc/fstab\<close>\<close>

text \<open>
  \<open>drop_tag\<close> deletes the lines the tag occurs in (its characters are literal in a regular expression);
  the heredoc appends. A cluster's mount script does both, in this order.
\<close>

definition fstab_drop :: "string \<Rightarrow> string list \<Rightarrow> string list" where
  "fstab_drop tag fstab = filter (\<lambda>l. \<not> contains_str l tag) fstab"

definition fstab_mounted :: "string \<Rightarrow> string list \<Rightarrow> string list \<Rightarrow> string list" where
  "fstab_mounted name ls fstab = fstab_drop (cluster_tag name) fstab @ ls"

definition fstab_torn_down :: "string \<Rightarrow> string list \<Rightarrow> string list" where
  "fstab_torn_down name fstab = fstab_drop (cluster_tag name) fstab"

end
