(* ===== verification/StorageLaws.thy ===== *)
theory StorageLaws
  imports StorageClusters StoreSchema
begin

text \<open>
  What the storage operations promise: what can be pooled, that a cluster that could not be mounted
  leaves no trace in the store, that a quoted path reaches the shell as it is, and what the rebuilding
  of one cluster does to the lines of another.
\<close>

section \<open>Members\<close>

definition may_pool :: "host_row \<Rightarrow> string \<Rightarrow> string \<Rightarrow> bool" where
  "may_pool h path cluster_path \<longleftrightarrow>
     has_prefix path ''/'' \<and> \<not> contains_str path ''..'' \<and> path \<notin> set pooled_never \<and>
     path \<noteq> cluster_path \<and> \<not> has_prefix path ''/mnt/homedash/'' \<and>
     (\<exists>m \<in> set (f_mounts (h_facts h)). m_path m = path \<and> m_source m \<notin> set (f_system_sources (h_facts h)))"

lemma refuse_None: "refuse h path cp = None \<Longrightarrow> may_pool h path cp"
  by (auto simp: refuse_def may_pool_def find_none_iff split: if_split_asm option.splits dest!: find_set)

lemma check_members_ok:
  "check_members path ms s = (None, s') \<Longrightarrow>
     s' = s \<and> (\<forall>m \<in> set ms. \<exists>h. host (itoa (fst m)) (si_db s) = Inr h \<and> may_pool h (snd m) path)"
  by (induction path ms s rule: check_members.induct) (auto split: sum.splits option.splits dest: refuse_None)

lemma check_members_db: "check_members path ms s = (r, s') \<Longrightarrow> si_db s' = si_db s"
  by (induction path ms s rule: check_members.induct) (auto simp: tell_def split: sum.splits option.splits)

lemma create_checked:
  assumes "create run name gw path ms s = (Inr c, s')"
  shows "name_ok name \<and> 2 \<le> length ms \<and> has_prefix path ''/'' \<and> check_members path ms s = (None, s)"
proof -
  obtain r s1 where "check_members path ms s = (r, s1)" by fastforce
  with assms show ?thesis
    using check_members_ok [of path ms s s1]
    by (auto simp: create_def split: if_split_asm option.splits)
qed

text \<open>
  C35: A cluster only ever pools mountpoints its machines reported: every member of a cluster that was
  created is an absolute path without \<open>..\<close>, none of the system's directories, not the cluster's
  own mount nor another's branch, and a mount whose source carries neither system nor swap.
\<close>

theorem pooled_members_allowed:
  assumes "create run name gw path ms s = (Inr c, s')" and "(i, p) \<in> set ms"
  shows "\<exists>h. host (itoa i) (si_db s) = Inr h \<and> may_pool h p path"
  using create_checked [OF assms(1)] check_members_ok assms(2) by fastforce

section \<open>A cluster that could not be mounted\<close>

definition cluster_tables :: "db \<Rightarrow> cluster_row list \<times> member_row list \<times> workspace_row list \<times> (int \<times> int) list" where
  "cluster_tables d = (tb_clusters d, tb_members d, tb_workspaces d, tb_ws_members d)"

lemma tables_script [simp]: "cluster_tables (append_rebuild_script i t d) = cluster_tables d"
  by (simp add: cluster_tables_def append_rebuild_script_def update_host_def)

lemma db_simps_site [simp]:
  "si_db (tell k a b s) = si_db s" "si_db (snd (send run h x s)) = si_db s"
  "si_db (keep_script i t s) = append_rebuild_script i t (si_db s)"
  by (simp_all add: tell_def send_def keep_script_def)

lemma gateway_db: "run_on_gateway run c x s = (r, s') \<Longrightarrow> si_db s' = si_db s"
  by (auto simp: run_on_gateway_def send_def split: sum.splits prod.splits)

lemma export_tables: "export_member run c h m a s = (r, s') \<Longrightarrow> cluster_tables (si_db s') = cluster_tables (si_db s)"
  by (auto simp: export_member_def send_def Let_def split: sum.splits prod.splits if_split_asm)

lemma apply_members_tables:
  "apply_members run c a ms s = (r, s') \<Longrightarrow> cluster_tables (si_db s') = cluster_tables (si_db s)"
proof (induction run c a ms s arbitrary: r s' rule: apply_members.induct)
  case (2 run c a m ms s)
  then show ?case
    by (auto simp: Let_def split: if_split_asm sum.splits option.splits prod.splits dest!: export_tables)
qed simp

lemma apply_tables: "apply_cluster run c s = (r, s') \<Longrightarrow> cluster_tables (si_db s') = cluster_tables (si_db s)"
  by (auto simp: apply_cluster_def Let_def split: sum.splits prod.splits option.splits
      dest!: apply_members_tables gateway_db)
lemma insert_members_rows:
  "insert_members c ms s = Inr d \<Longrightarrow>
     (\<exists>new. tb_members d = tb_members s @ new \<and> (\<forall>m \<in> set new. cm_cluster m = c)) \<and>
     tb_clusters d = tb_clusters s \<and> tb_workspaces d = tb_workspaces s \<and> tb_ws_members d = tb_ws_members s \<and>
     tb_hosts d = tb_hosts s"
proof (induction ms arbitrary: s)
  case (Cons m ms)
  then obtain s1 where s1: "insert_member c (fst m) (snd m) s = Inr s1" "insert_members c ms s1 = Inr d"
    by (auto split: sum.splits)
  from Cons.IH [OF s1(2)] s1(1) show ?case by (auto simp: insert_member_def split: if_split_asm)
qed simp

lemma create_cluster_rows:
  assumes "create_cluster name g path ms s = Inr (i, d)"
  shows "i \<notin> cluster_ids s \<and> host_known s g \<and> tb_hosts d = tb_hosts s \<and>
    tb_clusters d = tb_clusters s @ [\<lparr>cl_id = i, cl_name = name, cl_gateway = g, cl_path = path\<rparr>] \<and>
    (\<exists>new. tb_members d = tb_members s @ new \<and> (\<forall>m \<in> set new. cm_cluster m = i)) \<and>
    tb_workspaces d = tb_workspaces s \<and> tb_ws_members d = tb_ws_members s"
proof -
  have i: "i = next_id (map cl_id (tb_clusters s))" and k: "host_known s g"
    and ins: "insert_members i ms (s\<lparr>tb_clusters := tb_clusters s @
      [\<lparr>cl_id = i, cl_name = name, cl_gateway = g, cl_path = path\<rparr>]\<rparr>) = Inr d"
    using assms by (auto simp: create_cluster_def Let_def split: if_split_asm sum.splits)
  show ?thesis
    using insert_members_rows [OF ins] k next_id_fresh [of "map cl_id (tb_clusters s)"]
    by (auto simp: cluster_ids_def i)
qed

lemma delete_created:
  assumes "refs_ok s" and "create_cluster name g path ms s = Inr (i, d)" and "cluster_tables e = cluster_tables d"
  shows "cluster_tables (delete_cluster i e) = cluster_tables s"
proof -
  note rows = create_cluster_rows [OF assms(2)]
  obtain new where new: "tb_members d = tb_members s @ new" "\<forall>m \<in> set new. cm_cluster m = i" using rows by blast
  have e: "tb_clusters e = tb_clusters d" "tb_members e = tb_members d" "tb_workspaces e = tb_workspaces d"
    "tb_ws_members e = tb_ws_members d"
    using assms(3) by (simp_all add: cluster_tables_def)
  have "\<forall>m \<in> set (tb_members s). cm_cluster m \<noteq> i" "\<forall>w \<in> set (tb_workspaces s). ws_cluster w \<noteq> i"
    using assms(1) rows by (auto simp: refs_ok_def other_refs_def refers_def)
  moreover have "\<forall>c \<in> set (tb_clusters s). cl_id c \<noteq> i" using rows by (auto simp: cluster_ids_def)
  moreover have "map cl_id (filter (\<lambda>c. cl_id c = i) (tb_clusters d)) = [i]"
    using rows calculation(3) by (simp add: filter_empty_conv)
  moreover have "{w \<in> set (tb_workspaces s). ws_cluster w = i} = {}"
    using calculation(2) by blast
  ultimately show ?thesis
    using rows new
    by (auto simp: cluster_tables_def delete_cluster_def drop_clusters_def drop_workspaces_def e delete_where_def Let_def
        filter_id_conv)
qed

lemma cluster_found:
  assumes "c \<in> set (tb_clusters d)" and "host_known d (cl_gateway c)"
  shows "is_ok (cluster (cl_id c) d)"
proof -
  obtain h where "h \<in> set (tb_hosts d)" "h_id h = cl_gateway c" using assms(2) by (auto simp: host_known_def)
  then have "host_name_of d (cl_gateway c) \<noteq> None" by (auto simp: host_name_of_def find_none_iff)
  then have "(c, the (host_name_of d (cl_gateway c))) \<in> set (with_host d cl_gateway (filter (\<lambda>k. cl_id k = cl_id c) (tb_clusters d)))"
    using assms(1) by (fastforce simp: with_host_def)
  then show ?thesis by (auto simp: cluster_def split: list.split)
qed

text \<open>
  Creating a cluster is all or nothing in the store: whenever it fails - a bad name, a member refused, a
  machine away, an export or a mount that did not work - the store has the clusters, members and
  workspaces it had.
\<close>

theorem failed_create_leaves_nothing:
  assumes "refs_ok (si_db s)" and "create run name gw path ms s = (Inl e, s')"
  shows "cluster_tables (si_db s') = cluster_tables (si_db s)"
proof -
  obtain r s1 where ck: "check_members path ms s = (r, s1)" by fastforce
  note db1 = check_members_db [OF ck]
  show ?thesis
  proof (cases "create_cluster name (h_id gw) path ms (si_db s1)")
    case (Inl x)
    with assms(2) ck db1 show ?thesis
      by (auto simp: create_def split: if_split_asm option.splits)
  next
    case (Inr x)
    obtain i d where x: "x = (i, d)" by fastforce
    note rows = create_cluster_rows [OF Inr [unfolded x]]
    have "is_ok (cluster i d)"
      using cluster_found [of "\<lparr>cl_id = i, cl_name = name, cl_gateway = h_id gw, cl_path = path\<rparr>" d] rows
      by (simp add: host_known_def)
    then obtain c where c: "cluster i d = Inr c" by (auto simp: is_ok_iff)
    obtain r2 s2 where ap: "apply_cluster run c (s1\<lparr>si_db := d\<rparr>) = (r2, s2)" by fastforce
    have "cluster_tables (delete_cluster i (si_db s2)) = cluster_tables (si_db s)"
      using delete_created [OF _ Inr [unfolded x]] assms(1) db1 apply_tables [OF ap] by simp
    with assms(2) ck db1 Inr x c ap show ?thesis
      by (auto simp: create_def split: if_split_asm option.splits)
  qed
qed

section \<open>Quoting\<close>

text \<open>
  A word as a POSIX shell reads it: text up to a blank, single-quoted text as it is, a backslash outside
  quotes taking the next character; other special characters end the word here.
\<close>

fun sh_word :: "bool \<Rightarrow> string \<Rightarrow> string \<Rightarrow> (string \<times> string) option" where
  "sh_word q w [] = (if q then None else Some (w, []))"
| "sh_word True w (c # cs) = (if c = CHR 0x27 then sh_word False w cs else sh_word True (w @ [c]) cs)"
| "sh_word False w (c # cs) =
     (if c = CHR 0x27 then sh_word True w cs
      else if c = CHR 0x5C then (case cs of [] \<Rightarrow> None | d # ds \<Rightarrow> sh_word False (w @ [d]) ds)
      else if is_space c \<or> c \<in> {CHR '';'', CHR ''&'', CHR ''|'', CHR ''<'', CHR ''>'', CHR ''('', CHR '')''}
      then Some (w, c # cs)
      else if c \<in> {CHR ''$'', CHR ''`'', CHR 0x22} then None
      else sh_word False (w @ [c]) cs)"

lemma sh_quoted_body:
  "sh_word True w (replace_char (CHR 0x27) (sq @ bs @ sq @ sq) s @ [CHR 0x27] @ rest) = sh_word False (w @ s) rest"
  by (induction s arbitrary: w) (auto simp: sq_def bs_def)

text \<open>
  Whatever a path contains - quotes, blanks, newlines, dollar signs - quoted it is read by the shell as
  exactly that word, ended by what follows it.
\<close>

theorem quoted_word_read_back:
  assumes "rest = [] \<or> is_space (hd rest) \<or> hd rest = CHR '';''"
  shows "sh_word False [] (shq s @ rest) = Some (s, rest)"
proof -
  have "sh_word False [] (shq s @ rest) = sh_word False s rest"
    using sh_quoted_body [of "[]" s rest] by (simp add: shq_def sq_def)
  with assms show ?thesis by (cases rest) (auto simp: is_space_def)
qed

theorem quoted_word_read_back_witness:
  "sh_word False [] (shq [CHR ''a'', CHR 0x27, CHR '' '', CHR ''$'', CHR ''b''] @ '' /srv'') =
     Some ([CHR ''a'', CHR 0x27, CHR '' '', CHR ''$'', CHR ''b''], '' /srv'')"
  by (rule quoted_word_read_back) (simp add: is_space_def)

section \<open>One cluster's lines and another's\<close>

lemma tagged: "contains_str (t @ cluster_tag (name @ x)) (cluster_tag name)"
  unfolding contains_str_iff cluster_tag_def by (metis append.assoc)

lemma tagged_lines:
  "contains_str (branch_line addr p b (name @ x)) (cluster_tag name)"
  "contains_str (merge_line brs p (name @ x)) (cluster_tag name)"
  using tagged [of "addr @ '':'' @ p @ '' '' @ b @ '' nfs soft,timeo=30,retrans=2,_netdev,nofail 0 0 # ''" name x]
    tagged [of "join '':'' brs @ '' '' @ p @
     '' fuse.mergerfs defaults,allow_other,category.create=mfs,moveonenospc=true,minfreespace=1G,nofail 0 0 # ''" name x]
  by (simp_all add: branch_line_def merge_line_def del: append.simps)

text \<open>
  Mounting a cluster again is idempotent on \<open>fstab\<close>; but mounting or tearing down a cluster also deletes
  the lines of every other cluster on that gateway whose name begins with its own: after it the
  other cluster's branches and merge are gone from \<open>fstab\<close>.
\<close>

theorem fstab_lines_by_name_prefix:
  "fstab_mounted name [merge_line brs p name] (fstab_mounted name [merge_line brs' p' name] f) =
     fstab_mounted name [merge_line brs p name] f \<and>
   (x \<noteq> [] \<longrightarrow>
     branch_line addr q b (name @ x) \<notin> set (fstab_torn_down name f) \<and>
     merge_line brs' q (name @ x) \<notin> set (fstab_torn_down name f) \<and>
     merge_line brs' q (name @ x) \<notin> set (fstab_drop (cluster_tag name) f))"
  using tagged_lines(2) [where x = "[]" and name = name] tagged_lines
  by (simp add: fstab_mounted_def fstab_torn_down_def fstab_drop_def)

theorem fstab_lines_by_name_prefix_witness:
  "merge_line [''/a'', ''/b''] ''/srv/data2'' ''data2'' \<notin>
     set (fstab_torn_down ''data'' [merge_line [''/a'', ''/b''] ''/srv/data2'' ''data2''])"
  using fstab_lines_by_name_prefix [of "''data''" "[]" "[]" "[''/a'', ''/b'']" "[]"
      "[merge_line [''/a'', ''/b''] ''/srv/data2'' ''data2'']" "''2''" "[]" "''/srv/data2''" "[]"]
  by simp

section \<open>A machine with two disks\<close>

definition disks :: host_row where
  "disks = \<lparr>h_id = 1, h_name = ''nas'', h_kind = ''compute'', h_addr = ''10.0.0.9'', h_port = 22, h_user = ''homedash'',
     h_key = '''', h_status = ''online'',
     h_facts = no_facts\<lparr>f_mounts := [\<lparr>m_path = ''/'', m_fs = ''ext4'', m_size = 9, m_free = 1, m_source = ''/dev/sda1''\<rparr>,
       \<lparr>m_path = ''/d1'', m_fs = ''ext4'', m_size = 9, m_free = 1, m_source = ''/dev/sdb1''\<rparr>,
       \<lparr>m_path = ''/d2'', m_fs = ''ext4'', m_size = 9, m_free = 1, m_source = ''/dev/sdc1''\<rparr>],
       f_system_sources := [''/dev/sda1'']\<rparr>,
     h_model = '''', h_rebuild = '''', h_vault = '''', h_revoked = '''', h_enrolled = 0, h_last_seen = None\<rparr>"

definition disk_site :: site where
  "disk_site = \<lparr>si_db = empty_db\<lparr>tb_hosts := [disks]\<rparr>, si_sent = [], si_notes = []\<rparr>"

lemma disk_simps [simp]: "h_id disks = 1" "h_name disks = ''nas''" "scan_host disks = disks"
  by (simp_all add: disks_def scan_host_def unwrap_rebuild_script_def)

lemma disk_host:
  assumes "tb_hosts d = [disks]"
  shows "host (itoa 1) d = Inr disks"
proof -
  have one: "itoa 1 = ''1''" by code_simp
  have "trim_space ''1'' = ''1''" by (rule trim_space_id) (simp add: is_space_def)
  with assms show ?thesis
    by (simp add: host_def one host_matches_def is_digit_def)
qed

lemma disk_refs: "refs_ok (si_db disk_site)"
  by (simp add: refs_defs disk_site_def empty_db_def refers_def refers_opt_def)

lemma disk_pool_ok:
  "refuse disks ''/d1'' ''/pool'' = None" "refuse disks ''/d2'' ''/pool'' = None"
  by (simp_all add: refuse_def disks_def pooled_never_def)

lemma disk_checked:
  "check_members ''/pool'' [(1, ''/d1''), (1, ''/d2'')] disk_site = (None, disk_site)"
  using disk_host disk_pool_ok by (simp add: disk_site_def)

lemma disk_created:
  "\<exists>d c. create_cluster ''data'' 1 ''/pool'' [(1, ''/d1''), (1, ''/d2'')] (si_db disk_site) = Inr (1, d) \<and>
     tb_hosts d = [disks] \<and> cluster 1 d = Inr c \<and> k_gateway c = 1 \<and> map (cm_host \<circ> fst) (k_members c) = [1, 1]"
  by (simp add: disk_site_def create_cluster_def host_known_def next_id_def empty_db_def insert_member_def cluster_def
      cluster_view_def with_host_def host_name_of_def members_def order_by_def insertion_sort_def by_asc_def Let_def)

lemma disk_name: "name_ok ''data''"
  by (simp add: name_ok_def name_char_def is_lower_def)

lemma local_members:
  "\<forall>m \<in> set ms. cm_host (fst m) = k_gateway c \<Longrightarrow> \<exists>r. apply_members run c a ms s = (Inr r, s)"
proof (induction ms)
  case (Cons m ms)
  then obtain r where "apply_members run c a ms s = (Inr r, s)" by auto
  with Cons.prems show ?case by (cases r) auto
qed simp

lemma disk_apply:
  assumes "tb_hosts (si_db s) = [disks]" and "k_gateway c = 1" and "map (cm_host \<circ> fst) (k_members c) = [1, 1]"
  shows "fst (apply_cluster (\<lambda>_ _. ans) c s) = (case ans of
     Inl e \<Rightarrow> Some (Err (''nas: '' @ e))
   | Inr (status, errs) \<Rightarrow> if status \<noteq> 0 then Some (Err (''on nas: '' @ last_line errs)) else None)"
proof -
  have "cm_host (fst m) \<in> set (map (cm_host \<circ> fst) (k_members c))" if "m \<in> set (k_members c)" for m
    using that by simp
  then have "\<forall>m \<in> set (k_members c). cm_host (fst m) = k_gateway c" unfolding assms(2,3) by auto
  then obtain r where "apply_members (\<lambda>_ _. ans) c (h_addr disks) (k_members c) s = (Inr r, s)"
    using local_members by blast
  with disk_host [OF assms(1)] assms(2) show ?thesis
    by (cases r) (auto simp: apply_cluster_def run_on_gateway_def send_def Let_def split: sum.split)
qed

theorem failed_create_leaves_nothing_witness:
  "cluster_tables (si_db (snd (create (\<lambda>_ _. Inl ''no route'') ''data'' disks ''/pool'' [(1, ''/d1''), (1, ''/d2'')] disk_site))) =
     ([], [], [], [])"
proof -
  obtain d c where d: "create_cluster ''data'' 1 ''/pool'' [(1, ''/d1''), (1, ''/d2'')] (si_db disk_site) = Inr (1, d)"
    "tb_hosts d = [disks]" "cluster 1 d = Inr c" "k_gateway c = 1" "map (cm_host \<circ> fst) (k_members c) = [1, 1]"
    using disk_created by (elim exE conjE) (rule that)
  have "fst (apply_cluster (\<lambda>_ _. Inl ''no route'') c (disk_site\<lparr>si_db := d\<rparr>)) = Some (Err (''nas: '' @ ''no route''))"
    by (subst disk_apply) (use d in simp_all)
  then obtain s1 where "apply_cluster (\<lambda>_ _. Inl ''no route'') c (disk_site\<lparr>si_db := d\<rparr>) =
      (Some (Err (''nas: '' @ ''no route'')), s1)" by (metis prod.collapse)
  with d have "create (\<lambda>_ _. Inl ''no route'') ''data'' disks ''/pool'' [(1, ''/d1''), (1, ''/d2'')] disk_site =
      (Inl (Err (''nas: '' @ ''no route'')), s1\<lparr>si_db := delete_cluster 1 (si_db s1)\<rparr>)"
    by (simp add: create_def disk_name disk_checked del: check_members.simps)
  from failed_create_leaves_nothing [OF disk_refs this] this show ?thesis
    by (simp add: disk_site_def cluster_tables_def empty_db_def)
qed

theorem pooled_members_allowed_witness:
  "\<exists>c s'. create (\<lambda>_ _. Inr (0, '''')) ''data'' disks ''/pool'' [(1, ''/d1''), (1, ''/d2'')] disk_site = (Inr c, s') \<and>
     (\<exists>h. host (itoa 1) (si_db disk_site) = Inr h \<and> may_pool h ''/d1'' ''/pool'')"
proof -
  obtain d c where d: "create_cluster ''data'' 1 ''/pool'' [(1, ''/d1''), (1, ''/d2'')] (si_db disk_site) = Inr (1, d)"
    "tb_hosts d = [disks]" "cluster 1 d = Inr c" "k_gateway c = 1" "map (cm_host \<circ> fst) (k_members c) = [1, 1]"
    using disk_created by (elim exE conjE) (rule that)
  have "fst (apply_cluster (\<lambda>_ _. Inr (0, '''')) c (disk_site\<lparr>si_db := d\<rparr>)) = None"
    by (subst disk_apply) (use d in simp_all)
  then obtain s1 where "apply_cluster (\<lambda>_ _. Inr (0, '''')) c (disk_site\<lparr>si_db := d\<rparr>) = (None, s1)"
    by (metis prod.collapse)
  with d have "\<exists>s'. create (\<lambda>_ _. Inr (0, '''')) ''data'' disks ''/pool'' [(1, ''/d1''), (1, ''/d2'')] disk_site = (Inr c, s')"
    by (simp add: create_def disk_name disk_checked del: check_members.simps)
  then obtain s' where c: "create (\<lambda>_ _. Inr (0, '''')) ''data'' disks ''/pool'' [(1, ''/d1''), (1, ''/d2'')] disk_site = (Inr c, s')"
    by blast
  from pooled_members_allowed [OF c, of 1 "''/d1''"] c show ?thesis by auto
qed

end
