(* ===== verification/Peers.thy ===== *)
theory Peers
  imports Pool StorePeers
begin

text \<open>
  \<open>internal/peers/peers.go\<close> and \<open>services.go\<close>: the hub as a node of a space of hubs. The state is the
  node: the session (what the node knows while it is in a space; every map of it is nil outside one),
  and the counters that outlive a session. What libp2p does (streams, dials, the rendezvous lookup)
  and what another hub answers are parameters; a handler whose Go code would panic answers \<open>None\<close>.
  A peer is its id, the text of its public key's hash.
\<close>

section \<open>The settings that shape the node\<close>

record net_config =
  nc_space :: string
  nc_private :: bool
  nc_bootstrap :: "string list"
  nc_psk :: string
  nc_reachable :: bool
  nc_port :: int

definition no_config :: net_config where
  "no_config = \<lparr>nc_space = '''', nc_private = False, nc_bootstrap = [], nc_psk = '''',
     nc_reachable = False, nc_port = 0\<rparr>"

definition setting_bool :: "string \<Rightarrow> db \<Rightarrow> bool" where
  "setting_bool key s = (setting key s = ''1'' \<or> setting key s = ''true'' \<or> setting key s = ''on'')"

definition setting_int :: "string \<Rightarrow> int \<Rightarrow> db \<Rightarrow> int" where
  "setting_int key def s =
     (case parse_int (trim_space (setting key s)) of
        Some n \<Rightarrow> if n \<ge> 0 then n else def
      | None \<Rightarrow> def)"

definition config :: "db \<Rightarrow> net_config" where
  "config s =
     (if \<not> setting_bool ''space.enabled'' s \<or> trim_space (setting ''space.name'' s) = '''' then no_config
      else \<lparr>nc_space = trim_space (setting ''space.name'' s),
            nc_private = (trim_space (setting ''space.network'' s) = ''private''),
            nc_bootstrap = GoStrings.fields (replace_char (CHR '','') '' '' (setting ''space.bootstrap'' s)),
            nc_psk = to_lower (trim_space (setting ''space.psk'' s)),
            nc_reachable = setting_bool ''space.reachable'' s,
            nc_port = setting_int ''space.port'' 0 s\<rparr>)"

definition config_equal :: "net_config \<Rightarrow> net_config \<Rightarrow> bool" where
  "config_equal c d =
     (nc_space c = nc_space d \<and> nc_private c = nc_private d \<and> nc_psk c = nc_psk d \<and>
      nc_reachable c = nc_reachable d \<and> nc_port c = nc_port d \<and>
      join '' '' (nc_bootstrap c) = join '' '' (nc_bootstrap d))"

section \<open>The node\<close>

record offer =
  of_name :: string
  of_models :: "string list"
  of_free :: bool
  of_services :: "string list"
  of_at :: instant

record session =
  se_id :: string
  se_offers :: "string \<Rightarrow> offer option"
  se_serving :: "string \<Rightarrow> int"
  se_known :: "string set"
  se_redials :: "string set"
  se_conns :: "string \<Rightarrow> int"
  se_buckets :: "string \<Rightarrow> int option"

record node =
  nd_session :: "session option"
  nd_space :: string
  nd_cfg :: net_config
  nd_total :: int
  nd_found :: int
  nd_conns :: int
  nd_notes :: "(string \<times> string \<times> string) list"

definition new_node :: node where
  "new_node = \<lparr>nd_session = None, nd_space = '''', nd_cfg = no_config, nd_total = 0, nd_found = 0,
     nd_conns = 0, nd_notes = []\<rparr>"

text \<open>\<open>Notify\<close>: kind, subject, message.\<close>

definition tell :: "string \<Rightarrow> string \<Rightarrow> string \<Rightarrow> node \<Rightarrow> node" where
  "tell kind subject msg n = n\<lparr>nd_notes := nd_notes n @ [(kind, subject, msg)]\<rparr>"

definition attach :: "string \<Rightarrow> net_config \<Rightarrow> node \<Rightarrow> node" where
  "attach me cfg n =
     n\<lparr>nd_session := Some \<lparr>se_id = me, se_offers = (\<lambda>_. None), se_serving = (\<lambda>_. 0), se_known = {},
         se_redials = {}, se_conns = (\<lambda>_. 0), se_buckets = (\<lambda>_. None)\<rparr>,
       nd_space := nc_space cfg, nd_cfg := cfg\<rparr>"

definition leave :: "node \<Rightarrow> node" where
  "leave n =
     (let n1 = n\<lparr>nd_session := None, nd_space := '''', nd_cfg := no_config\<rparr>
      in if nd_session n = None then n1
         else tell ''space.left'' (nd_space n) (''left space '' @ nd_space n) n1)"

text \<open>Where the node listens: a keyed swarm on TCP alone, any other on QUIC too.\<close>

definition keyed :: "net_config \<Rightarrow> bool" where
  "keyed cfg = (nc_private cfg \<and> nc_psk cfg \<noteq> '''')"

definition listen_addrs :: "net_config \<Rightarrow> string list" where
  "listen_addrs cfg =
     (let port = itoa (nc_port cfg);
          tcp = [''/ip4/0.0.0.0/tcp/'' @ port, ''/ip6/::/tcp/'' @ port]
      in if keyed cfg then tcp
         else tcp @ [''/ip4/0.0.0.0/udp/'' @ port @ ''/quic-v1'', ''/ip6/::/udp/'' @ port @ ''/quic-v1''])"

text \<open>
  Starting the host and its DHT is libp2p's; \<open>start\<close> answers the node's id, or why it did not start.
\<close>

definition join_space :: "(net_config \<Rightarrow> string res) \<Rightarrow> net_config \<Rightarrow> node \<Rightarrow> unit res \<times> node" where
  "join_space start cfg n =
     (case start cfg of
        Inl e \<Rightarrow> (Inl e, n)
      | Inr me \<Rightarrow>
          (Inr (), tell ''space.joined'' (nc_space cfg) (''joined space '' @ nc_space cfg @ '' as '' @ me)
             (attach me cfg n)))"

text \<open>One turn of \<open>Run\<close>, every ten seconds.\<close>

definition run_tick :: "(net_config \<Rightarrow> string res) \<Rightarrow> db \<Rightarrow> node \<Rightarrow> node" where
  "run_tick start s n =
     (let want = config s
      in if config_equal (nd_cfg n) want then n
         else let n1 = leave n
              in if nc_space want \<noteq> '''' then snd (join_space start want n1) else n1)"

definition with_session :: "(session \<Rightarrow> session) \<Rightarrow> node \<Rightarrow> node" where
  "with_session f n = n\<lparr>nd_session := map_option f (nd_session n)\<rparr>"

definition is_known :: "string \<Rightarrow> node \<Rightarrow> bool" where
  "is_known i n = (case nd_session n of None \<Rightarrow> False | Some se \<Rightarrow> i \<in> se_known se)"

section \<open>Finding hubs\<close>

definition rendezvous :: "(string \<Rightarrow> string) \<Rightarrow> string \<Rightarrow> string" where
  "rendezvous sha256_hex space = ''homedash/'' @ sha256_hex (''homedash/'' @ space)"

text \<open>One lookup at the rendezvous: every hub it returned but this one becomes known.\<close>

definition discover_round :: "string list \<Rightarrow> node \<Rightarrow> node" where
  "discover_round found n =
     (case nd_session n of
        None \<Rightarrow> n
      | Some se \<Rightarrow>
          let others = filter (\<lambda>i. i \<noteq> se_id se) found
          in (with_session (\<lambda>se. se\<lparr>se_known := se_known se \<union> set others\<rparr>) n)
               \<lparr>nd_found := int (length others)\<rparr>)"

text \<open>A connection dropped: unless another is left, the offer goes, and a known hub is redialed.\<close>

definition disconnected :: "string \<Rightarrow> bool \<Rightarrow> node \<Rightarrow> bool \<times> node" where
  "disconnected i still n =
     (if still then (False, n)
      else (is_known i n, with_session (\<lambda>se. se\<lparr>se_offers := (se_offers se)(i := None)\<rparr>) n))"

definition begin_redial :: "string \<Rightarrow> node \<Rightarrow> bool \<times> node" where
  "begin_redial i n =
     (case nd_session n of
        None \<Rightarrow> (False, n)
      | Some se \<Rightarrow>
          if i \<in> se_redials se then (False, n)
          else (True, with_session (\<lambda>se. se\<lparr>se_redials := insert i (se_redials se)\<rparr>) n))"

definition end_redial :: "string \<Rightarrow> node \<Rightarrow> node" where
  "end_redial i n = with_session (\<lambda>se. se\<lparr>se_redials := se_redials se - {i}\<rparr>) n"

text \<open>The waits between the dials of one redial: \<open>dials\<close> says of each turn whether the hub is back.\<close>

fun redial_waits :: "bool list \<Rightarrow> instant \<Rightarrow> instant list" where
  "redial_waits [] wait = []"
| "redial_waits (back # dials) wait =
     (if back then []
      else wait # redial_waits dials (if 2 * wait > 30 * second then 30 * second else 2 * wait))"

section \<open>Offers\<close>

text \<open>\<open>contains\<close>: a name stands for its \<open>:latest\<close> tag.\<close>

definition lists_name :: "string list \<Rightarrow> string \<Rightarrow> bool" where
  "lists_name xs x = list_ex (\<lambda>y. y = x \<or> y = x @ '':latest'') xs"

definition published :: "db \<Rightarrow> string \<Rightarrow> string list" where
  "published s i = map svc_name (filter (\<lambda>v. i \<in> set (svc_peers v)) (services s))"

definition free_machine :: "machine \<Rightarrow> bool" where
  "free_machine m = (mc_online m \<and> mc_enabled m \<and> \<not> mc_busy m \<and> mc_models m \<noteq> [])"

definition own_offer ::
  "db \<Rightarrow> instant \<Rightarrow> (host_row \<Rightarrow> model list res) \<Rightarrow> string \<Rightarrow> string \<Rightarrow> pool \<Rightarrow> offer \<times> pool" where
  "own_offer s now fetch hostname to p =
     (let n = setting ''space.hub_name'' s;
          (ms, p1) = models s now fetch p;
          (g, p2) = grid s now fetch p1;
          serves = setting_bool ''space.serve'' s
      in (\<lparr>of_name = (if n = '''' then hostname else n), of_models = (if serves then ms else []),
           of_free = (serves \<and> list_ex free_machine g), of_services = published s to, of_at = now\<rparr>, p2))"

definition learn :: "instant \<Rightarrow> string \<Rightarrow> offer \<Rightarrow> node \<Rightarrow> db \<Rightarrow> node \<times> db" where
  "learn now i o' n s =
     (with_session (\<lambda>se. se\<lparr>se_offers := (se_offers se)(i \<mapsto> o'\<lparr>of_at := now\<rparr>)\<rparr>) n,
      fold (seen_front i) (of_services o')
        (seen_peer now i (of_name o') (setting ''space.unknown'' s = ''accept'')
           (setting_int ''space.default_concurrent'' 1 s) (setting_int ''space.default_per_hour'' 20 s) s))"

text \<open>A greeting that came in: from a known hub it is learned and answered, from anyone else not read.\<close>

definition handle_offer ::
  "instant \<Rightarrow> string \<Rightarrow> offer option \<Rightarrow> node \<Rightarrow> db \<Rightarrow> bool \<times> node \<times> db" where
  "handle_offer now from theirs n s =
     (if \<not> is_known from n then (False, n, s)
      else case theirs of
        None \<Rightarrow> (False, n, s)
      | Some o' \<Rightarrow> (True, learn now from o' n s))"

definition fresh_offer :: "instant \<Rightarrow> offer \<Rightarrow> bool" where
  "fresh_offer now o' = (now - of_at o' < 3 * minute \<and> of_free o')"

text \<open>What the space offers beside the pool; \<open>iter\<close> is the order in which the map is walked.\<close>

definition offered :: "instant \<Rightarrow> string list \<Rightarrow> node \<Rightarrow> string list" where
  "offered now iter n =
     (case nd_session n of
        None \<Rightarrow> []
      | Some se \<Rightarrow>
          sort_strings (unseen {} (concat (map (\<lambda>i. case se_offers se i of
              None \<Rightarrow> []
            | Some o' \<Rightarrow> if now - of_at o' > 3 * minute \<or> \<not> of_free o' then [] else of_models o') iter))))"

section \<open>Sending a job\<close>

text \<open>
  What the stream to a peer comes to: it failed before a reply, the peer said no, it said yes and the
  body could not be written, or it said yes and the answer follows.
\<close>

datatype delivery =
    Unreachable string
  | SaidNo string
  | YesThenBroke string string
  | SaidYes string

definition log_peer_job ::
  "instant \<Rightarrow> string \<Rightarrow> string \<Rightarrow> string \<Rightarrow> bool \<Rightarrow> string \<Rightarrow> db \<Rightarrow> int \<times> db" where
  "log_peer_job now i dir mdl accepted reason s =
     (case record_peer_job now i dir mdl accepted reason s of Inl _ \<Rightarrow> (0, s) | Inr r \<Rightarrow> r)"

definition send :: "instant \<Rightarrow> string \<Rightarrow> string \<Rightarrow> delivery \<Rightarrow> db \<Rightarrow> int res \<times> db" where
  "send now i mdl d s =
     (case d of
        Unreachable e \<Rightarrow> (Inl (Err e), s)
      | SaidNo r \<Rightarrow> (Inl (Err r), snd (log_peer_job now i ''sent'' mdl False r s))
      | YesThenBroke r e \<Rightarrow> (Inl (Err e), snd (log_peer_job now i ''sent'' mdl True r s))
      | SaidYes r \<Rightarrow> let (row, s1) = log_peer_job now i ''sent'' mdl True r s in (Inr row, s1))"

definition candidates :: "instant \<Rightarrow> string \<Rightarrow> string list \<Rightarrow> session \<Rightarrow> (string \<times> offer) list" where
  "candidates now mdl iter se =
     concat (map (\<lambda>i. case se_offers se i of
                        None \<Rightarrow> []
                      | Some o' \<Rightarrow> if fresh_offer now o' \<and> lists_name (of_models o') mdl then [(i, o')] else []) iter)"

definition approved_peer :: "db \<Rightarrow> string \<Rightarrow> bool" where
  "approved_peer s i = (case peer i s of Inl _ \<Rightarrow> False | Inr p \<Rightarrow> p_approved p)"

text \<open>The record decides the order; a peer without one scores full.\<close>

definition score :: "instant \<Rightarrow> db \<Rightarrow> string \<Rightarrow> real" where
  "score now s i =
     (let r = peer_record now i s
      in if rec_samples r > 0 \<or> rec_accepted r > 0
         then 5 / 10 * rec_accepted r + 3 / 10 * rec_finished r + 2 / 10 / (1 + rec_ttft r / 2000)
         else 1)"

definition ranked :: "instant \<Rightarrow> db \<Rightarrow> (string \<times> offer) list \<Rightarrow> (string \<times> offer) list" where
  "ranked now s cs = insertion_sort (\<lambda>a b. score now s (fst a) > score now s (fst b)) cs"

datatype placed =
    Nobody
  | RefusedBy string string
  | TakenBy string string int

definition err_text :: "err \<Rightarrow> string" where
  "err_text e = (case e of Err t \<Rightarrow> t | _ \<Rightarrow> '''')"

text \<open>\<open>reply\<close> is when each peer was asked and what its stream came to.\<close>

fun ask_in_order ::
  "(string \<Rightarrow> instant \<times> delivery) \<Rightarrow> string \<Rightarrow> placed \<Rightarrow> (string \<times> offer) list \<Rightarrow> db \<Rightarrow> placed \<times> db" where
  "ask_in_order reply mdl sofar [] s = (sofar, s)"
| "ask_in_order reply mdl sofar ((i, o') # cs) s =
     (case send (fst (reply i)) i mdl (snd (reply i)) s of
        (Inr row, s1) \<Rightarrow> (TakenBy i (of_name o') row, s1)
      | (Inl e, s1) \<Rightarrow> ask_in_order reply mdl (RefusedBy (of_name o') (err_text e)) cs s1)"

definition place ::
  "instant \<Rightarrow> string list \<Rightarrow> string \<Rightarrow> (string \<Rightarrow> instant \<times> delivery) \<Rightarrow> node \<Rightarrow> db \<Rightarrow> placed \<times> db" where
  "place now iter mdl reply n s =
     (case nd_session n of
        None \<Rightarrow> (Nobody, s)
      | Some se \<Rightarrow>
          let cs = filter (\<lambda>c. approved_peer s (fst c)) (candidates now mdl iter se)
          in if cs = [] then (Nobody, s) else ask_in_order reply mdl Nobody (ranked now s cs) s)"

text \<open>
  The answer is read through \<open>recording\<close>: the first bytes set the time to the first token, the close
  says whether the end was reached.
\<close>

datatype chunk = Bytes nat | EndOfStream nat | BrokenOff nat

record recording =
  rc_row :: int
  rc_first :: bool
  rc_eof :: bool

definition read_chunk :: "instant \<Rightarrow> chunk \<Rightarrow> recording \<times> db \<Rightarrow> recording \<times> db" where
  "read_chunk elapsed c = (\<lambda>(r, s).
     let n = (case c of Bytes n \<Rightarrow> n | EndOfStream n \<Rightarrow> n | BrokenOff n \<Rightarrow> n);
         r1 = (if n > 0 then r\<lparr>rc_first := True\<rparr> else r);
         s1 = (if n > 0 \<and> \<not> rc_first r then finish_peer_job (rc_row r) False elapsed s else s)
     in ((case c of EndOfStream _ \<Rightarrow> r1\<lparr>rc_eof := True\<rparr> | _ \<Rightarrow> r1), s1))"

definition close_recording :: "recording \<times> db \<Rightarrow> db" where
  "close_recording = (\<lambda>(r, s). finish_peer_job (rc_row r) (rc_eof r) 0 s)"

definition read_answer :: "(instant \<times> chunk) list \<Rightarrow> int \<Rightarrow> db \<Rightarrow> db" where
  "read_answer chunks row s =
     close_recording (fold (\<lambda>(t, c). read_chunk t c) chunks
       (\<lparr>rc_row = row, rc_first = False, rc_eof = False\<rparr>, s))"

text \<open>What the pool's router sees of all this; \<open>i\<close> and \<open>out\<close> are the token counts of the answer.\<close>

definition pool_answer :: "placed \<Rightarrow> int \<Rightarrow> int \<Rightarrow> peer_answer" where
  "pool_answer pl i out =
     (case pl of
        Nobody \<Rightarrow> NobodyAsked
      | RefusedBy name reason \<Rightarrow> PeerRefused name reason
      | TakenBy _ name _ \<Rightarrow> PeerAnswered name i out)"

section \<open>Serving a job\<close>

record job_header =
  jh_model :: string
  jh_path :: string
  jh_size :: int

definition body_max :: int where
  "body_max = 64 * 1048576"

text \<open>\<open>short\<close>: an ellipsis and the last eight bytes of a long id.\<close>

definition short_id :: "string \<Rightarrow> string" where
  "short_id i =
     (if length i > 12 then [CHR 0xE2, CHR 0x80, CHR 0xA6] @ drop (length i - 8) i else i)"

text \<open>The guards in front of the counters, in the order they stand: why a job is refused, or who sent it.\<close>

definition vet_job :: "instant \<Rightarrow> string \<Rightarrow> job_header \<Rightarrow> db \<Rightarrow> string + peer_row" where
  "vet_job now from hdr s =
     (if \<not> setting_bool ''space.serve'' s then Inl ''this hub does not run peers' jobs''
      else case peer from s of
        Inl _ \<Rightarrow> Inl ''not approved''
      | Inr pr \<Rightarrow>
          if \<not> p_approved pr then Inl ''not approved''
          else if jh_path hdr \<notin> set job_paths then Inl (''not a prompt: '' @ jh_path hdr)
          else if jh_size hdr < 0 \<or> jh_size hdr > body_max then Inl ''request too large''
          else if int (served_in_last_hour now from s) \<ge> p_hour pr
            then Inl (''over the hourly allowance ('' @ itoa (p_hour pr) @ '')'')
          else if int (served_in_last_hour_all now s) \<ge> setting_int ''space.per_hour'' 100 s
            then Inl ''over the hub's hourly allowance''
          else Inr pr)"

text \<open>
  The counters, under the node's lock. Outside a space the map \<open>serving\<close> is nil: reading it gives 0,
  counting in it panics.
\<close>

datatype admission = Admitted node | OverLimit | Panic

definition admit :: "string \<Rightarrow> int \<Rightarrow> int \<Rightarrow> node \<Rightarrow> admission" where
  "admit from max_conc cap n =
     (let busy = (case nd_session n of None \<Rightarrow> 0 | Some se \<Rightarrow> se_serving se from)
      in if busy \<ge> max_conc \<or> nd_total n \<ge> cap then OverLimit
         else case nd_session n of
           None \<Rightarrow> Panic
         | Some se \<Rightarrow> Admitted (n\<lparr>nd_session := Some (se\<lparr>se_serving := (se_serving se)(from := busy + 1)\<rparr>),
                                  nd_total := nd_total n + 1\<rparr>))"

text \<open>The deferred release. It panics when the space was left meanwhile.\<close>

definition job_done :: "string \<Rightarrow> node \<Rightarrow> node option" where
  "job_done from n =
     (case nd_session n of
        None \<Rightarrow> None
      | Some se \<Rightarrow>
          Some (n\<lparr>nd_session := Some (se\<lparr>se_serving := (se_serving se)(from := se_serving se from - 1)\<rparr>),
                  nd_total := nd_total n - 1\<rparr>))"

text \<open>The request the router gets: a prompt marked local-only, under the peer's name.\<close>

definition inbound_request ::
  "(string \<Rightarrow> (string \<times> string list \<times> string option) option) \<Rightarrow> string \<Rightarrow> string \<Rightarrow> string \<Rightarrow> request" where
  "inbound_request decode path who body =
     (let (mdl, ms) = parse_request (decode body)
      in \<lparr>rq_path = path, rq_local_only = True, rq_model = mdl, rq_msgs = ms, rq_caller = ''peer:'' @ who\<rparr>)"

text \<open>One stream of a job: who opened it, the header read, whether the reply went out, the body read.\<close>

record inbound =
  ib_now :: instant
  ib_from :: string
  ib_header :: "job_header option"
  ib_replied :: bool
  ib_body :: "string option"

datatype job_outcome = JobReset | JobRefused string | JobCrashed | JobBroken | JobServed bool

definition refuse_job ::
  "instant \<Rightarrow> string \<Rightarrow> job_header \<Rightarrow> string \<Rightarrow> node \<Rightarrow> db \<Rightarrow> job_outcome \<times> node \<times> db" where
  "refuse_job now from hdr reason n s =
     (JobRefused reason,
      tell ''peer.refused'' from
        (''refused a job for '' @ jh_model hdr @ '' from '' @ short_id from @ '': '' @ reason) n,
      snd (log_peer_job now from ''served'' (jh_model hdr) False reason s))"

text \<open>
  After admission: the pool must hold the model; then the yes, the body, the router. \<open>route\<close> is the
  router given to the node (the status it wrote, 0 if none), \<open>short_name\<close> libp2p's short form of an id.
\<close>

definition serve_job ::
  "(host_row \<Rightarrow> model list res) \<Rightarrow> (string \<Rightarrow> (string \<times> string list \<times> string option) option) \<Rightarrow>
   (string \<Rightarrow> string) \<Rightarrow> (request \<Rightarrow> pool \<times> db \<Rightarrow> int \<times> pool \<times> db) \<Rightarrow>
   inbound \<Rightarrow> job_header \<Rightarrow> peer_row \<Rightarrow> node \<Rightarrow> pool \<Rightarrow> db \<Rightarrow> job_outcome \<times> node \<times> pool \<times> db" where
  "serve_job fetch decode short_name route b hdr pr n p s =
     (let (names, p1) = models s (ib_now b) fetch p
      in if \<not> lists_name names (jh_model hdr)
         then let (out, n1, s1) = refuse_job (ib_now b) (ib_from b) hdr
                    (''nothing in the pool holds '' @ jh_model hdr) n s
              in (out, n1, p1, s1)
         else let (row, s1) = log_peer_job (ib_now b) (ib_from b) ''served'' (jh_model hdr) True '''' s
              in if \<not> ib_replied b then (JobBroken, n, p1, s1)
                 else case ib_body b of
                   None \<Rightarrow> (JobBroken, n, p1, finish_peer_job row False 0 s1)
                 | Some body \<Rightarrow>
                     let who = (if p_name pr = '''' then short_name (ib_from b) else p_name pr);
                         (status, p2, s2) = route (inbound_request decode (jh_path hdr) who body) (p1, s1)
                     in (JobServed (status < 400), n, p2, finish_peer_job row (status < 400) 0 s2))"

text \<open>The whole handler. The node it answers is \<open>None\<close> where the deferred release would panic.\<close>

definition handle_job ::
  "(host_row \<Rightarrow> model list res) \<Rightarrow> (string \<Rightarrow> (string \<times> string list \<times> string option) option) \<Rightarrow>
   (string \<Rightarrow> string) \<Rightarrow> (request \<Rightarrow> pool \<times> db \<Rightarrow> int \<times> pool \<times> db) \<Rightarrow>
   inbound \<Rightarrow> node \<Rightarrow> pool \<Rightarrow> db \<Rightarrow> job_outcome \<times> node option \<times> pool \<times> db" where
  "handle_job fetch decode short_name route b n p s =
     (if \<not> is_known (ib_from b) n then (JobReset, Some n, p, s)
      else case ib_header b of
        None \<Rightarrow> (JobReset, Some n, p, s)
      | Some hdr \<Rightarrow>
          (case vet_job (ib_now b) (ib_from b) hdr s of
             Inl reason \<Rightarrow>
               let (out, n1, s1) = refuse_job (ib_now b) (ib_from b) hdr reason n s in (out, Some n1, p, s1)
           | Inr pr \<Rightarrow>
               (case admit (ib_from b) (p_max pr) (setting_int ''space.ceiling'' 2 s) n of
                  OverLimit \<Rightarrow>
                    let (out, n1, s1) = refuse_job (ib_now b) (ib_from b) hdr ''over the concurrency limit'' n s
                    in (out, Some n1, p, s1)
                | Panic \<Rightarrow> (JobCrashed, None, p, s)
                | Admitted n1 \<Rightarrow>
                    let (out, n2, p1, s1) = serve_job fetch decode short_name route b hdr pr n1 p s
                    in (out, job_done (ib_from b) n2, p1, s1))))"

section \<open>Carrying a service\<close>

text \<open>The guards of a connection for a published service: a reason, or the service and its machine.\<close>

definition vet_conn :: "string \<Rightarrow> string \<Rightarrow> db \<Rightarrow> string + service \<times> host_row" where
  "vet_conn from name s =
     (if \<not> approved_peer s from then Inl ''not approved''
      else case service name s of
        Inl _ \<Rightarrow> Inl ''not published to you''
      | Inr v \<Rightarrow>
          if \<not> lists_name (svc_peers v) from then Inl ''not published to you''
          else case host (itoa (svc_host v)) s of
            Inl _ \<Rightarrow> Inl (svc_host_name v @ '' is not online'')
          | Inr h \<Rightarrow> if h_status h \<noteq> ''online'' then Inl (svc_host_name v @ '' is not online'') else Inr (v, h))"

text \<open>
  The hub's ceiling, then the peer's share of it. A connection over its share gives its place under
  the ceiling back.
\<close>

definition admit_conn :: "string \<Rightarrow> int \<Rightarrow> int \<Rightarrow> node \<Rightarrow> string + node" where
  "admit_conn from cap share n =
     (if nd_conns n + 1 > cap then Inl (''over the connection ceiling ('' @ itoa cap @ '')'')
      else case nd_session n of
        None \<Rightarrow> Inl (''over your connection share ('' @ itoa share @ '')'')
      | Some se \<Rightarrow>
          if se_conns se from \<ge> share then Inl (''over your connection share ('' @ itoa share @ '')'')
          else Inr (n\<lparr>nd_session := Some (se\<lparr>se_conns := (se_conns se)(from := se_conns se from + 1)\<rparr>),
                     nd_conns := nd_conns n + 1\<rparr>))"

definition conn_done :: "string \<Rightarrow> node \<Rightarrow> node" where
  "conn_done from n =
     (with_session (\<lambda>se. se\<lparr>se_conns := (se_conns se)(from := se_conns se from - 1)\<rparr>) n)
       \<lparr>nd_conns := nd_conns n - 1\<rparr>"

text \<open>
  One peer's bandwidth: a bucket of \<open>space.peer_kbps\<close> KiB per second, replaced when the setting
  changed. The burst is computed in 64 bits.
\<close>

definition burst_of :: "int \<Rightarrow> int" where
  "burst_of kbps = i64 (kbps * 1024)"

definition throttle :: "string \<Rightarrow> db \<Rightarrow> node \<Rightarrow> int option \<times> node" where
  "throttle from s n =
     (let kbps = setting_int ''space.peer_kbps'' 0 s
      in if kbps \<le> 0 then (None, n)
         else case nd_session n of
           None \<Rightarrow> (None, n)
         | Some se \<Rightarrow>
             (case se_buckets se from of
                Some b \<Rightarrow>
                  if b = burst_of kbps then (Some b, n)
                  else (Some (burst_of kbps),
                        with_session (\<lambda>se. se\<lparr>se_buckets := (se_buckets se)(from \<mapsto> burst_of kbps)\<rparr>) n)
              | None \<Rightarrow>
                  (Some (burst_of kbps),
                   with_session (\<lambda>se. se\<lparr>se_buckets := (se_buckets se)(from \<mapsto> burst_of kbps)\<rparr>) n)))"

text \<open>
  \<open>wait\<close>: the pieces in which \<open>n\<close> bytes are taken from a bucket of the given burst; a loop, whose
  not ending is \<open>None\<close>. What is left is an integer of 64 bits and wraps: a negative burst makes it grow.
\<close>

partial_function (option) spend :: "int \<Rightarrow> int \<Rightarrow> int list option" where
  "spend burst n =
     (if n > 0
      then let k = (if n > burst then burst else n)
           in Option.bind (spend burst (i64 (n - k))) (\<lambda>ks. Some (k # ks))
      else Some [])"

declare spend.simps [code]

definition wait_pieces :: "int option \<Rightarrow> int \<Rightarrow> int list option" where
  "wait_pieces b n = (case b of None \<Rightarrow> Some [] | Some burst \<Rightarrow> spend burst n)"

text \<open>One stream for a service: who, the service named, whether the port and the yes went through.\<close>

record carried =
  ca_now :: instant
  ca_from :: string
  ca_service :: "string option"
  ca_dialed :: bool
  ca_replied :: bool
  ca_bytes :: int

datatype conn_outcome = ConnReset | ConnRefused string | ConnBroken | ConnCarried "int option"

definition refuse_conn :: "string \<Rightarrow> string \<Rightarrow> string \<Rightarrow> node \<Rightarrow> conn_outcome \<times> node" where
  "refuse_conn from name reason n =
     (ConnRefused reason,
      tell ''service.refused'' name
        (''refused a connection to '' @ name @ '' from '' @ short_id from @ '': '' @ reason) n)"

definition handle_tcp :: "carried \<Rightarrow> node \<Rightarrow> db \<Rightarrow> conn_outcome \<times> node \<times> db" where
  "handle_tcp c n s =
     (if \<not> is_known (ca_from c) n then (ConnReset, n, s)
      else case ca_service c of
        None \<Rightarrow> (ConnReset, n, s)
      | Some name \<Rightarrow>
          (case vet_conn (ca_from c) name s of
             Inl reason \<Rightarrow> let (out, n1) = refuse_conn (ca_from c) name reason n in (out, n1, s)
           | Inr (v, h) \<Rightarrow>
               (case admit_conn (ca_from c) (setting_int ''space.connections'' 64 s)
                       (setting_int ''space.peer_connections'' 16 s) n of
                  Inl reason \<Rightarrow> let (out, n1) = refuse_conn (ca_from c) name reason n in (out, n1, s)
                | Inr n1 \<Rightarrow>
                    if \<not> ca_dialed c
                    then let (out, n2) = refuse_conn (ca_from c) name
                               (svc_host_name v @ '':'' @ itoa (svc_port v) @ '' did not answer'') n1
                         in (out, conn_done (ca_from c) n2, s)
                    else if \<not> ca_replied c then (ConnBroken, conn_done (ca_from c) n1, s)
                    else let (bucket, n2) = throttle (ca_from c) s n1
                         in (ConnCarried bucket, conn_done (ca_from c) n2,
                             case add_peer_bytes (ca_now c) (ca_from c) (svc_name v) ''origin'' (ca_bytes c) s of
                               Inl _ \<Rightarrow> s | Inr s1 \<Rightarrow> s1))))"

text \<open>The front side: a connection to a peer's service counts its bytes and reports them once.\<close>

definition dial_service :: "(string \<Rightarrow> bool) \<Rightarrow> delivery \<Rightarrow> string \<Rightarrow> node \<Rightarrow> string + unit" where
  "dial_service decodes d peer_id n =
     (if \<not> decodes peer_id then Inl ''invalid peer id''
      else if nd_session n = None then Inl ''not in a space''
      else case d of
        Unreachable e \<Rightarrow> Inl e
      | SaidNo r \<Rightarrow> Inl r
      | YesThenBroke r e \<Rightarrow> Inr ()
      | SaidYes r \<Rightarrow> Inr ())"

datatype conn_op = ReadBytes nat | WriteBytes nat | CloseConn instant

record stream_conn =
  sc_count :: nat
  sc_closed :: bool

definition conn_step :: "string \<Rightarrow> string \<Rightarrow> conn_op \<Rightarrow> stream_conn \<times> db \<Rightarrow> stream_conn \<times> db" where
  "conn_step peer_id name op = (\<lambda>(c, s).
     case op of
       ReadBytes k \<Rightarrow> (c\<lparr>sc_count := sc_count c + k\<rparr>, s)
     | WriteBytes k \<Rightarrow> (c\<lparr>sc_count := sc_count c + k\<rparr>, s)
     | CloseConn now \<Rightarrow>
         if sc_closed c then (c, s)
         else (c\<lparr>sc_closed := True\<rparr>,
               case add_peer_bytes now peer_id name ''fronted'' (int (sc_count c)) s of
                 Inl _ \<Rightarrow> s | Inr s1 \<Rightarrow> s1))"

section \<open>The tab\<close>

record status =
  st_enabled :: bool
  st_space :: string
  st_id :: string
  st_connected :: nat
  st_serving :: bool
  st_found :: int
  st_private :: bool
  st_reachable :: bool

definition get_status :: "string list \<Rightarrow> db \<Rightarrow> node \<Rightarrow> status" where
  "get_status connections s n =
     \<lparr>st_enabled = (nd_session n \<noteq> None), st_space = nd_space n,
      st_id = (case nd_session n of None \<Rightarrow> '''' | Some se \<Rightarrow> se_id se),
      st_connected = (if nd_session n = None then 0 else length connections),
      st_serving = setting_bool ''space.serve'' s,
      st_found = (if nd_session n = None then 0 else nd_found n),
      st_private = nc_private (nd_cfg n), st_reachable = nc_reachable (nd_cfg n)\<rparr>"

text \<open>A front beside whether the peer's latest offer still names the service.\<close>

definition front_rows :: "node \<Rightarrow> db \<Rightarrow> string \<Rightarrow> (front_row \<times> bool) list" where
  "front_rows n s i =
     map (\<lambda>f. (f, case nd_session n of
                    None \<Rightarrow> False
                  | Some se \<Rightarrow> (case se_offers se i of
                      None \<Rightarrow> False | Some o' \<Rightarrow> lists_name (of_services o') (fr_service f)))) (fronts i s)"

text \<open>
  Whether every connection to a peer (each with whether it is relayed) goes through a relay, and what the
  row shows: connected, and by a direct path.
\<close>

definition limited :: "bool list \<Rightarrow> node \<Rightarrow> bool" where
  "limited relayed n = (nd_session n \<noteq> None \<and> relayed \<noteq> [] \<and> list_all id relayed)"

datatype connectedness = NotConnected | Connected | Limited

definition row_path :: "connectedness \<Rightarrow> bool list \<Rightarrow> node \<Rightarrow> bool \<times> bool" where
  "row_path c relayed n =
     (if nd_session n = None then (False, False)
      else (c \<noteq> NotConnected, c = Connected \<and> \<not> list_ex id relayed))"

text \<open>The other half of a greeting: this hub's offer went out, \<open>theirs\<close> is what came back.\<close>

definition greet :: "instant \<Rightarrow> string \<Rightarrow> offer option \<Rightarrow> node \<Rightarrow> db \<Rightarrow> node \<times> db" where
  "greet now i theirs n s =
     (if nd_session n = None then (n, s)
      else case theirs of None \<Rightarrow> (n, s) | Some o' \<Rightarrow> learn now i o' n s)"

end
