(* ===== verification/PeersLaws.thy ===== *)
theory PeersLaws
  imports Peers PoolLaws
begin

text \<open>
  What the node of \<open>Peers\<close> keeps: the counters under any interleaving of the handlers with leaving and
  joining, whom a prompt is sent to and in which order, the hourly allowance, and the ends of the
  loops.
\<close>

section \<open>Interleaved handlers\<close>

text \<open>
  A state is the node with the peers of the jobs and of the connections in flight. The limits are those
  of the settings: the hub's ceilings and what a peer may hold of each. In a quiet history the space is
  left only while nothing is in flight.
\<close>

record limits =
  li_jobs :: int
  li_peer_jobs :: "string \<Rightarrow> int"
  li_conns :: int
  li_peer_conns :: int

type_synonym hub_state = "node \<times> string list \<times> string list"

inductive hub_step :: "bool \<Rightarrow> limits \<Rightarrow> hub_state \<Rightarrow> hub_state \<Rightarrow> bool" for quiet l where
  hub_admit: "admit i (li_peer_jobs l i) (li_jobs l) n = Admitted n' \<Longrightarrow>
    hub_step quiet l (n, js, cs) (n', i # js, cs)"
| hub_job_done: "i \<in> set js \<Longrightarrow> job_done i n = Some n' \<Longrightarrow>
    hub_step quiet l (n, js, cs) (n', remove1 i js, cs)"
| hub_admit_conn: "admit_conn i (li_conns l) (li_peer_conns l) n = Inr n' \<Longrightarrow>
    hub_step quiet l (n, js, cs) (n', js, i # cs)"
| hub_conn_done: "i \<in> set cs \<Longrightarrow> hub_step quiet l (n, js, cs) (conn_done i n, js, remove1 i cs)"
| hub_discover: "hub_step quiet l (n, js, cs) (discover_round found n, js, cs)"
| hub_learn: "hub_step quiet l (n, js, cs) (fst (learn now i off n s), js, cs)"
| hub_dropped: "hub_step quiet l (n, js, cs) (snd (disconnected i still n), js, cs)"
| hub_throttle: "hub_step quiet l (n, js, cs) (snd (throttle i s n), js, cs)"
| hub_leave: "quiet \<longrightarrow> js = [] \<and> cs = [] \<Longrightarrow> hub_step quiet l (n, js, cs) (leave n, js, cs)"
| hub_join: "nd_session n = None \<Longrightarrow> hub_step quiet l (n, js, cs) (snd (join_space start cfg n), js, cs)"

inductive hub_reach :: "bool \<Rightarrow> limits \<Rightarrow> hub_state \<Rightarrow> bool" for quiet l where
  hub_new: "hub_reach quiet l (new_node, [], [])"
| hub_next: "hub_reach quiet l x \<Longrightarrow> hub_step quiet l x y \<Longrightarrow> hub_reach quiet l y"

inductive_cases hub_stepE: "hub_step quiet l (n, js, cs) y"

text \<open>What a step leaves of the counters, whatever it does to the rest.\<close>

definition served_by :: "node \<Rightarrow> (string \<Rightarrow> int) option" where
  "served_by n = map_option se_serving (nd_session n)"

definition carried_by :: "node \<Rightarrow> (string \<Rightarrow> int) option" where
  "carried_by n = map_option se_conns (nd_session n)"

lemma counters_tell [simp]:
  "served_by (tell k j m n) = served_by n" "carried_by (tell k j m n) = carried_by n"
  "nd_total (tell k j m n) = nd_total n" "nd_conns (tell k j m n) = nd_conns n"
  by (simp_all add: tell_def served_by_def carried_by_def)

lemma counters_frame:
  assumes "n' \<in> {discover_round found n, fst (learn now i off n s), snd (disconnected i still n), snd (throttle i s n)}"
  shows "served_by n' = served_by n \<and> carried_by n' = carried_by n \<and> nd_total n' = nd_total n \<and>
    nd_conns n' = nd_conns n"
  using assms
  by (auto simp: discover_round_def learn_def disconnected_def throttle_def with_session_def served_by_def
      carried_by_def Let_def option.map_comp comp_def split: option.splits)

lemma counters_leave:
  "served_by (leave n) = None" "carried_by (leave n) = None"
  "nd_total (leave n) = nd_total n" "nd_conns (leave n) = nd_conns n"
  by (simp_all add: leave_def Let_def served_by_def carried_by_def tell_def)

lemma counters_join:
  assumes "nd_session n = None"
  shows "served_by (snd (join_space start cfg n)) \<in> {None, Some (\<lambda>_. 0)}"
    "carried_by (snd (join_space start cfg n)) \<in> {None, Some (\<lambda>_. 0)}"
    "nd_total (snd (join_space start cfg n)) = nd_total n"
    "nd_conns (snd (join_space start cfg n)) = nd_conns n"
  using assms by (simp_all add: join_space_def attach_def served_by_def carried_by_def tell_def split: sum.split)

lemma counters_admit:
  assumes "admit i mx cap n = Admitted n'"
  obtains f where "served_by n = Some f" "f i < mx" "nd_total n < cap"
    "served_by n' = Some (f(i := f i + 1))" "carried_by n' = carried_by n"
    "nd_total n' = nd_total n + 1" "nd_conns n' = nd_conns n"
  using assms
  by (auto simp: admit_def Let_def served_by_def carried_by_def split: option.splits if_splits)

lemma counters_job_done:
  assumes "job_done i n = Some n'"
  obtains f where "served_by n = Some f" "served_by n' = Some (f(i := f i - 1))"
    "carried_by n' = carried_by n" "nd_total n' = nd_total n - 1" "nd_conns n' = nd_conns n"
  using assms by (auto simp: job_done_def served_by_def carried_by_def split: option.splits)

lemma counters_admit_conn:
  assumes "admit_conn i cap share n = Inr n'"
  obtains f where "carried_by n = Some f" "f i < share" "nd_conns n < cap"
    "carried_by n' = Some (f(i := f i + 1))" "served_by n' = served_by n"
    "nd_conns n' = nd_conns n + 1" "nd_total n' = nd_total n"
  using assms
  by (auto simp: admit_conn_def served_by_def carried_by_def split: option.splits if_splits)

lemma counters_conn_done:
  "carried_by (conn_done i n) = map_option (\<lambda>f. f(i := f i - 1)) (carried_by n)"
  "served_by (conn_done i n) = served_by n" "nd_total (conn_done i n) = nd_total n"
  "nd_conns (conn_done i n) = nd_conns n - 1"
  by (simp_all add: conn_done_def with_session_def served_by_def carried_by_def option.map_comp comp_def)

section \<open>The hub-wide ceilings\<close>

definition counted :: "limits \<Rightarrow> hub_state \<Rightarrow> bool" where
  "counted l x =
     (case x of (n, js, cs) \<Rightarrow>
        nd_total n = int (length js) \<and> nd_conns n = int (length cs) \<and>
        int (length js) \<le> max 0 (li_jobs l) \<and> int (length cs) \<le> max 0 (li_conns l))"

lemma counted_step:
  assumes "hub_step quiet l x y" and "counted l x"
  shows "counted l y"
  using assms
proof (cases rule: hub_step.cases)
  case (hub_admit i n n' js cs)
  with assms(2) show ?thesis by (auto simp: counted_def elim!: counters_admit)
next
  case (hub_job_done i js n n' cs)
  with assms(2) length_pos_if_in_set [of i js] show ?thesis
    by (auto simp: counted_def length_remove1 of_nat_diff Suc_le_eq elim!: counters_job_done)
next
  case (hub_admit_conn i n n' js cs)
  with assms(2) show ?thesis by (auto simp: counted_def elim!: counters_admit_conn)
next
  case (hub_conn_done i cs n js)
  with assms(2) length_pos_if_in_set [of i cs] show ?thesis
    by (auto simp: counted_def length_remove1 of_nat_diff Suc_le_eq counters_conn_done)
next
  case (hub_discover n js cs found)
  with assms(2) counters_frame [of _ found n] show ?thesis by (auto simp: counted_def)
next
  case (hub_learn n js cs now i off s)
  with assms(2) counters_frame [of _ _ n now i off s] show ?thesis by (auto simp: counted_def)
next
  case (hub_dropped n js cs i still)
  with assms(2) counters_frame [of _ _ n _ i _ _ still] show ?thesis by (auto simp: counted_def)
next
  case (hub_throttle n js cs i s)
  with assms(2) counters_frame [of _ _ n _ i _ s] show ?thesis by (auto simp: counted_def)
next
  case (hub_leave js cs n)
  with assms(2) show ?thesis by (auto simp: counted_def counters_leave)
next
  case (hub_join n js cs start cfg)
  with assms(2) show ?thesis by (auto simp: counted_def counters_join)
qed

lemma counted_reach: "hub_reach quiet l x \<Longrightarrow> counted l x"
proof (induction rule: hub_reach.induct)
  case hub_new
  show ?case by (simp add: counted_def new_node_def)
next
  case (hub_next x y)
  then show ?case by (blast intro: counted_step)
qed

section \<open>Each peer's limits\<close>

text \<open>While in a space the maps count what is in flight; outside one nothing is in flight.\<close>

definition held_by :: "(string \<Rightarrow> int) option \<Rightarrow> (string \<Rightarrow> int) \<Rightarrow> string list \<Rightarrow> bool" where
  "held_by m mx xs =
     (case m of
        None \<Rightarrow> xs = []
      | Some f \<Rightarrow> \<forall>i. f i = int (count_list xs i) \<and> int (count_list xs i) \<le> max 0 (mx i))"

lemma held_by_simps [simp]:
  "held_by None mx xs \<longleftrightarrow> xs = []"
  "held_by (Some (\<lambda>_. 0)) mx [] \<longleftrightarrow> True"
  by (simp_all add: held_by_def)

lemma held_by_add:
  "held_by (Some f) mx xs \<Longrightarrow> f i < mx i \<Longrightarrow> held_by (Some (f(i := f i + 1))) mx (i # xs)"
  by (auto simp: held_by_def)

lemma count_list_remove1: "i \<in> set xs \<Longrightarrow> count_list (remove1 i xs) k = count_list xs k - (if k = i then 1 else 0)"
  by (induction xs) (auto simp: count_list_0_iff)

lemma count_list_pos: "i \<in> set xs \<Longrightarrow> 0 < count_list xs i"
  by (metis count_list_0_iff neq0_conv)

lemma held_by_remove:
  assumes "held_by (Some f) mx xs" and "i \<in> set xs"
  shows "held_by (Some (f(i := f i - 1))) mx (remove1 i xs)"
proof -
  have "f k = int (count_list xs k)" "int (count_list xs k) \<le> max 0 (mx k)" for k
    using assms(1) by (simp_all add: held_by_def)
  moreover have "int (count_list (remove1 i xs) k) = int (count_list xs k) - (if k = i then 1 else 0)" for k
    using assms(2) count_list_pos [OF assms(2)] by (simp add: count_list_remove1 of_nat_diff Suc_le_eq)
  ultimately have "(f(i := f i - 1)) k = int (count_list (remove1 i xs) k) \<and>
      int (count_list (remove1 i xs) k) \<le> max 0 (mx k)" for k
    by (smt (verit) fun_upd_apply)
  then show ?thesis by (simp only: held_by_def option.case simp_thms)
qed

definition within_limits :: "limits \<Rightarrow> hub_state \<Rightarrow> bool" where
  "within_limits l x =
     (case x of (n, js, cs) \<Rightarrow>
        held_by (served_by n) (li_peer_jobs l) js \<and> held_by (carried_by n) (\<lambda>_. li_peer_conns l) cs)"

lemma within_limits_step:
  assumes "hub_step True l x y" and "within_limits l x"
  shows "within_limits l y"
  using assms
proof (cases rule: hub_step.cases)
  case (hub_admit i n n' js cs)
  with assms(2) show ?thesis
    by (auto simp: within_limits_def intro: held_by_add elim!: counters_admit)
next
  case (hub_job_done i js n n' cs)
  with assms(2) show ?thesis
    by (auto simp: within_limits_def intro: held_by_remove elim!: counters_job_done)
next
  case (hub_admit_conn i n n' js cs)
  with assms(2) show ?thesis
    by (auto simp: within_limits_def intro: held_by_add elim!: counters_admit_conn)
next
  case (hub_conn_done i cs n js)
  with assms(2) show ?thesis
    by (cases "carried_by n") (auto simp: within_limits_def counters_conn_done intro: held_by_remove)
next
  case (hub_discover n js cs found)
  with assms(2) counters_frame [of _ found n] show ?thesis by (auto simp: within_limits_def)
next
  case (hub_learn n js cs now i off s)
  with assms(2) counters_frame [of _ _ n now i off s] show ?thesis by (auto simp: within_limits_def)
next
  case (hub_dropped n js cs i still)
  with assms(2) counters_frame [of _ _ n _ i _ _ still] show ?thesis by (auto simp: within_limits_def)
next
  case (hub_throttle n js cs i s)
  with assms(2) counters_frame [of _ _ n _ i _ s] show ?thesis by (auto simp: within_limits_def)
next
  case (hub_leave js cs n)
  with assms(2) show ?thesis by (auto simp: within_limits_def counters_leave)
next
  case (hub_join n js cs start cfg)
  then have "served_by n = None" "carried_by n = None" by (simp_all add: served_by_def carried_by_def)
  with hub_join assms(2) counters_join(1,2) [of n start cfg] show ?thesis
    by (auto simp: within_limits_def)
qed

lemma within_limits_reach: "hub_reach True l x \<Longrightarrow> within_limits l x"
proof (induction rule: hub_reach.induct)
  case hub_new
  show ?case by (simp add: within_limits_def new_node_def served_by_def carried_by_def)
next
  case (hub_next x y)
  then show ?case by (blast intro: within_limits_step)
qed

text \<open>
  C7: The hub-wide ceilings on jobs and on connections hold under any interleaving of the handlers with
  leaving and joining a space. In a calm history every peer stays within its own limits too, and the
  release of a job in flight finds the counters it needs.
\<close>

theorem jobs_within_limits:
  assumes "hub_reach quiet l (n, js, cs)"
  shows "int (length js) \<le> max 0 (li_jobs l) \<and> int (length cs) \<le> max 0 (li_conns l) \<and>
    (quiet \<longrightarrow>
       (\<forall>i. int (count_list js i) \<le> max 0 (li_peer_jobs l i) \<and>
            int (count_list cs i) \<le> max 0 (li_peer_conns l)) \<and>
       (\<forall>i \<in> set js. job_done i n \<noteq> None))"
proof (intro conjI impI)
  show "int (length js) \<le> max 0 (li_jobs l)" "int (length cs) \<le> max 0 (li_conns l)"
    using counted_reach [OF assms] by (simp_all add: counted_def)
next
  assume quiet
  then have w: "within_limits l (n, js, cs)" using assms within_limits_reach by simp
  then show "\<forall>i. int (count_list js i) \<le> max 0 (li_peer_jobs l i) \<and>
      int (count_list cs i) \<le> max 0 (li_peer_conns l)"
    by (auto simp: within_limits_def held_by_def split: option.splits)
  show "\<forall>i \<in> set js. job_done i n \<noteq> None"
    using w by (auto simp: within_limits_def held_by_def served_by_def job_done_def split: option.splits)
qed

text \<open>
  A space left while a job of a peer is served: the release of that job panics on the nil map, and
  once the space is joined again the counter has forgotten the job, so a peer at its limit has one more
  admitted.
\<close>

theorem rejoining_forgets_jobs:
  assumes "hub_reach False l (n, js, cs)" and "i \<in> set js"
    and "int (count_list js i) = li_peer_jobs l i" and "int (length js) < li_jobs l"
  shows "hub_reach False l (leave n, js, cs) \<and> job_done i (leave n) = None \<and>
    (\<exists>n'. hub_reach False l (n', i # js, cs) \<and> li_peer_jobs l i < int (count_list (i # js) i))"
proof -
  let ?start = "\<lambda>cfg. Inr ''me''"
  define m where "m = snd (join_space ?start no_config (leave n))"
  have left_none: "nd_session (leave n) = None" by (simp add: leave_def Let_def tell_def)
  have left: "hub_reach False l (leave n, js, cs)"
    by (rule hub_next [OF assms(1)]) (rule hub_leave, simp)
  have joined: "hub_reach False l (m, js, cs)"
    unfolding m_def by (rule hub_next [OF left]) (rule hub_join [OF left_none])
  have "0 < li_peer_jobs l i" using assms(3) count_list_pos [OF assms(2)] by simp
  moreover have "nd_total m = int (length js)" using counted_reach [OF joined] by (simp add: counted_def)
  moreover obtain se where "nd_session m = Some se" and "se_serving se i = 0"
    by (simp add: m_def join_space_def attach_def tell_def)
  ultimately obtain n' where "admit i (li_peer_jobs l i) (li_jobs l) m = Admitted n'"
    using assms(4) by (simp add: admit_def)
  from hub_next [OF joined hub_admit [OF this]] left left_none assms(3) show ?thesis
    by (auto simp: job_done_def)
qed

text \<open>One peer at its limit of one job, under a ceiling of two.\<close>

definition two_jobs :: limits where
  "two_jobs = \<lparr>li_jobs = 2, li_peer_jobs = (\<lambda>_. 1), li_conns = 4, li_peer_conns = 2\<rparr>"

definition one_served :: node where
  "one_served = (case admit ''b'' 1 2 (snd (join_space (\<lambda>_. Inr ''a'') no_config new_node)) of
     Admitted n \<Rightarrow> n | _ \<Rightarrow> new_node)"

lemma one_served_reach: "hub_reach quiet two_jobs (one_served, [''b''], [])"
proof -
  have "nd_session new_node = None" by (simp add: new_node_def)
  from hub_next [OF hub_new hub_join [OF this]]
  have "hub_reach quiet two_jobs (snd (join_space (\<lambda>_. Inr ''a'') no_config new_node), [], [])" .
  from hub_next [OF this hub_admit [where i = "''b''" and n' = one_served]] show ?thesis
    by (simp add: two_jobs_def one_served_def admit_def join_space_def attach_def tell_def new_node_def)
qed

theorem jobs_within_limits_witness: "job_done ''b'' one_served \<noteq> None \<and> int (length [''b'']) \<le> 2"
  using jobs_within_limits [OF one_served_reach [of True]] by (simp add: two_jobs_def)

theorem rejoining_forgets_jobs_witness:
  "job_done ''b'' (leave one_served) = None \<and> (\<exists>n'. hub_reach False two_jobs (n', [''b'', ''b''], []))"
  using rejoining_forgets_jobs [OF one_served_reach [of False], of "''b''"] by (auto simp: two_jobs_def)

section \<open>Whom a prompt is sent to\<close>

interpretation ranking: sort_order "\<lambda>a b :: string \<times> offer. score now s (fst a) > score now s (fst b)" for now s
  by unfold_locales simp_all

definition says_yes :: "(string \<Rightarrow> instant \<times> delivery) \<Rightarrow> string \<Rightarrow> bool" where
  "says_yes reply i = (case snd (reply i) of SaidYes _ \<Rightarrow> True | _ \<Rightarrow> False)"

definition eligible :: "instant \<Rightarrow> string list \<Rightarrow> string \<Rightarrow> session \<Rightarrow> db \<Rightarrow> string \<Rightarrow> offer \<Rightarrow> bool" where
  "eligible now iter mdl se s i o' =
     (i \<in> set iter \<and> se_offers se i = Some o' \<and> fresh_offer now o' \<and> lists_name (of_models o') mdl \<and> approved_peer s i)"

lemma set_candidates:
  "(i, o') \<in> set (filter (\<lambda>c. approved_peer s (fst c)) (candidates now mdl iter se)) \<longleftrightarrow>
     eligible now iter mdl se s i o'"
  by (auto simp: candidates_def eligible_def split: option.splits if_splits)

lemma send_yes: "(\<exists>row s1. send t i mdl d s = (Inr row, s1)) \<longleftrightarrow> (case d of SaidYes _ \<Rightarrow> True | _ \<Rightarrow> False)"
  by (auto simp: send_def Let_def split: delivery.split prod.split)

lemma ask_in_order_taken:
  assumes "ask_in_order reply mdl sofar cs s = (TakenBy i name row, s')" and "\<forall>a b c. sofar \<noteq> TakenBy a b c"
  shows "\<exists>pre o' post. cs = pre @ (i, o') # post \<and> name = of_name o' \<and> says_yes reply i \<and>
    (\<forall>(j, oj) \<in> set pre. \<not> says_yes reply j)"
  using assms
proof (induction cs arbitrary: sofar s)
  case Nil
  then show ?case by simp
next
  case (Cons c cs)
  obtain k ok where c: "c = (k, ok)" by (cases c)
  obtain r s1 where send: "send (fst (reply k)) k mdl (snd (reply k)) s = (r, s1)" by fastforce
  show ?case
  proof (cases r)
    case (Inl e)
    then have "\<not> says_yes reply k" using send send_yes [of "fst (reply k)" k mdl "snd (reply k)" s]
      by (auto simp: says_yes_def)
    moreover from Cons.prems Inl have "ask_in_order reply mdl (RefusedBy (of_name ok) (err_text e)) cs s1 =
        (TakenBy i name row, s')"
      by (simp add: c send)
    from Cons.IH [OF this] obtain pre o' post where "cs = pre @ (i, o') # post" "name = of_name o'"
      "says_yes reply i" "\<forall>(j, oj) \<in> set pre. \<not> says_yes reply j" by auto
    ultimately show ?thesis using c by (intro exI [of _ "c # pre"] exI [of _ o'] exI [of _ post]) simp
  next
    case (Inr row')
    then have "says_yes reply k" using send send_yes [of "fst (reply k)" k mdl "snd (reply k)" s]
      by (auto simp: says_yes_def)
    moreover have "k = i" "name = of_name ok" using Cons.prems Inr by (simp_all add: c send)
    ultimately show ?thesis using c by (intro exI [of _ "[]"] exI [of _ ok] exI [of _ cs]) simp
  qed
qed

lemma ask_in_order_cong:
  "\<forall>c \<in> set cs. reply (fst c) = reply' (fst c) \<Longrightarrow>
   ask_in_order reply mdl sofar cs s = ask_in_order reply' mdl sofar cs s"
  by (induction cs arbitrary: sofar s) (auto split: prod.split sum.split)

text \<open>A peer nobody approved is never asked: what it would answer has no influence.\<close>

lemma unapproved_never_asked:
  assumes "\<forall>i. approved_peer s i \<longrightarrow> reply i = reply' i"
  shows "place now iter mdl reply n s = place now iter mdl reply' n s"
  using assms
  by (auto simp: place_def Let_def ranked_def split: option.split intro!: ask_in_order_cong)

text \<open>
  C19: A prompt that a peer took went to an approved peer whose fresh offer has the model free, and
  every other such peer with a better score was asked before and did not take it.
\<close>

theorem best_willing_peer_takes_it:
  assumes "place now iter mdl reply n s = (TakenBy i name row, s')"
  shows "\<exists>se o'. nd_session n = Some se \<and> eligible now iter mdl se s i o' \<and> name = of_name o' \<and>
    says_yes reply i \<and>
    (\<forall>j oj. eligible now iter mdl se s j oj \<and> score now s i < score now s j \<longrightarrow> \<not> says_yes reply j)"
proof -
  obtain se where se: "nd_session n = Some se"
    using assms by (auto simp: place_def split: option.splits)
  define cs where "cs = filter (\<lambda>c. approved_peer s (fst c)) (candidates now mdl iter se)"
  have "ask_in_order reply mdl Nobody (ranked now s cs) s = (TakenBy i name row, s')"
    using assms by (simp add: place_def se Let_def cs_def split: if_splits)
  then obtain pre o' post where cut: "ranked now s cs = pre @ (i, o') # post" "name = of_name o'"
    "says_yes reply i" "\<forall>(j, oj) \<in> set pre. \<not> says_yes reply j"
    using ask_in_order_taken by blast
  have "set (ranked now s cs) = set cs" by (simp add: ranked_def)
  then have mem: "eligible now iter mdl se s j oj \<longleftrightarrow> (j, oj) \<in> set (ranked now s cs)" for j oj
    using set_candidates [of j oj s now mdl iter se] by (simp add: cs_def)
  have "ranking.ordered now s (ranked now s cs)"
    using ranking.insertion_sort_ordered [of now s cs] by (simp add: ranked_def)
  then have "\<forall>(j, oj) \<in> set post. \<not> score now s i < score now s j"
    by (auto simp: ranking.ordered_def cut(1) sorted_wrt_append)
  with cut mem have "\<not> says_yes reply j"
    if "eligible now iter mdl se s j oj" "score now s i < score now s j" for j oj
    using that by fastforce
  with se cut mem show ?thesis by (metis in_set_conv_decomp)
qed

section \<open>The record's order\<close>

lemma median_at_nonneg: "\<forall>x \<in> set xs. 0 \<le> fst x \<Longrightarrow> 0 \<le> median_at half acc xs"
  by (induction half acc xs rule: median_at.induct) auto

definition ttft_sane :: "db \<Rightarrow> bool" where
  "ttft_sane s = (\<forall>j \<in> set (tb_peer_jobs s). \<forall>t. pj_ttft j = Some t \<longrightarrow> 0 \<le> t)"

lemma rec_ttft_nonneg:
  assumes "ttft_sane s"
  shows "0 \<le> rec_ttft (peer_record now k s)"
proof -
  have "\<forall>x \<in> set (ttft_samples now (recent_sent now k s)). 0 \<le> fst x"
    using assms by (auto simp: ttft_samples_def recent_sent_def ttft_sane_def split: option.splits if_splits)
  then have "0 \<le> weighted_median (ttft_samples now (recent_sent now k s))"
    by (simp add: weighted_median_def Let_def median_at_nonneg)
  then show ?thesis by (simp add: peer_record_def Let_def)
qed

lemma rec_ttft_samples: "0 < rec_ttft (peer_record now k s) \<Longrightarrow> 0 < rec_samples (peer_record now k s)"
  by (auto simp: peer_record_def Let_def split: if_splits)

lemma score_with_record:
  assumes "ttft_sane s"
  shows "score now s k \<le> 1" and "0 < rec_ttft (peer_record now k s) \<Longrightarrow> score now s k < 1"
proof -
  let ?r = "peer_record now k s"
  have b: "0 \<le> rec_ttft ?r" "rec_accepted ?r \<le> 1" "rec_finished ?r \<le> 1"
    using rec_ttft_nonneg [OF assms] peer_record_bounds by auto
  define q where "q = 2 / 10 / (1 + rec_ttft ?r / 2000)"
  have score: "score now s k = (if rec_samples ?r > 0 \<or> rec_accepted ?r > 0
      then 5 / 10 * rec_accepted ?r + 3 / 10 * rec_finished ?r + q else 1)"
    by (simp only: score_def Let_def q_def)
  have "q \<le> 2 / 10" using b(1) by (simp add: q_def divide_le_eq)
  with b(2,3) have "5 / 10 * rec_accepted ?r + 3 / 10 * rec_finished ?r + q \<le> 1" by linarith
  then show "score now s k \<le> 1" by (simp only: score split: if_split) simp
  show "score now s k < 1" if pos: "0 < rec_ttft ?r"
  proof -
    have "q < 2 / 10" using pos by (simp add: q_def divide_less_eq)
    with b(2,3) have "5 / 10 * rec_accepted ?r + 3 / 10 * rec_finished ?r + q < 1" by linarith
    with rec_ttft_samples [OF pos] show ?thesis by (simp only: score if_True simp_thms)
  qed
qed

text \<open>
  A peer that refused every job sent to it scores full, as one never asked: no record is better,
  and a peer that answered, taking any time to its first token, is asked after it.
\<close>

theorem always_refusing_peer_ranks_first:
  assumes "ttft_sane s"
    and "\<forall>j \<in> set (tb_peer_jobs s). pj_peer j = i \<and> pj_dir j = ''sent'' \<longrightarrow> \<not> pj_accepted j"
  shows "score now s i = 1 \<and> (\<forall>k. score now s k \<le> score now s i) \<and>
    (\<forall>k. 0 < rec_ttft (peer_record now k s) \<longrightarrow> score now s k < score now s i)"
proof -
  have refused: "filter pj_accepted (recent_sent now i s) = []" "ttft_samples now (recent_sent now i s) = []"
    using assms(2) by (auto simp: recent_sent_def ttft_samples_def filter_empty_conv split: option.splits)
  then have "rec_accepted (peer_record now i s) = 0" "rec_samples (peer_record now i s) = 0"
    by (simp_all add: peer_record_def Let_def)
  then have "score now s i = 1" by (simp add: score_def Let_def)
  with score_with_record [OF assms(1)] show ?thesis by simp
qed

section \<open>Inbound jobs stay here\<close>

text \<open>
  The request of an inbound job is marked local-only, so no turn of the router asks a peer for it: a job
  crosses once.
\<close>

lemma inbound_peers: "peers_of (inbound_request decode path who body) en = None"
  by (simp add: peers_of_def inbound_request_def split: prod.split)

section \<open>The bucket's loop\<close>

lemma spend_pieces:
  assumes "0 < burst" and "in_i64 n"
  shows "\<exists>ks. spend burst n = Some ks \<and> sum_list ks = max 0 n \<and> (\<forall>k \<in> set ks. 0 < k \<and> k \<le> burst)"
  using assms(2)
proof (induction "nat n" arbitrary: n rule: less_induct)
  case less
  show ?case
  proof (cases "n > 0")
    case False
    then show ?thesis by (subst spend.simps) simp
  next
    case True
    define k where "k = (if n > burst then burst else n)"
    have k: "0 < k" "k \<le> burst" "k \<le> n" using True assms(1) by (auto simp: k_def)
    then have left: "in_i64 (n - k)" using less.prems by (auto simp: in_i64_def)
    from k obtain ks where "spend burst (n - k) = Some ks" "sum_list ks = max 0 (n - k)"
      "\<forall>k \<in> set ks. 0 < k \<and> k \<le> burst"
      using less.hyps [OF _ left] True by auto
    with k True show ?thesis
      by (intro exI [of _ "k # ks"], subst spend.simps) (auto simp: k_def [symmetric] i64_id [OF left])
  qed
qed

lemma i64_past: "2 ^ 63 \<le> x \<Longrightarrow> x < 2 ^ 64 \<Longrightarrow> i64 x = x - 2 ^ 64"
proof -
  assume x: "2 ^ 63 \<le> x" "x < 2 ^ 64"
  have "(x + 2 ^ 63) mod 2 ^ 64 = (x - 2 ^ 63 + 2 ^ 64) mod 2 ^ 64" by (simp add: algebra_simps)
  also have "\<dots> = x - 2 ^ 63" using x by (simp only: mod_add_self2) (simp add: mod_pos_pos_trivial)
  finally show ?thesis by (simp add: i64_def)
qed

text \<open>With a negative burst what is left grows until it wraps, and is negative then.\<close>

lemma spend_wraps:
  assumes "burst < 0" and "in_i64 burst" and "in_i64 n"
  shows "\<exists>ks. spend burst n = Some ks \<and> (\<forall>k \<in> set ks. k = burst)"
  using assms(3)
proof (induction "nat (2 ^ 63 - n)" arbitrary: n rule: less_induct)
  case less
  show ?case
  proof (cases "n > 0")
    case False
    then show ?thesis by (subst spend.simps) simp
  next
    case True
    then have step: "spend burst n = Option.bind (spend burst (i64 (n - burst))) (\<lambda>ks. Some (burst # ks))"
      using assms(1) by (subst spend.simps) (simp add: Let_def)
    have "\<exists>ks. spend burst (i64 (n - burst)) = Some ks \<and> (\<forall>k \<in> set ks. k = burst)"
    proof (cases "in_i64 (n - burst)")
      case in_range: True
      then have "nat (2 ^ 63 - (n - burst)) < nat (2 ^ 63 - n)"
        using assms(1) by (simp add: in_i64_def)
      from less.hyps [OF this in_range] show ?thesis by (simp add: i64_id [OF in_range])
    next
      case False
      then have "2 ^ 63 \<le> n - burst" "n - burst < 2 ^ 64"
        using True less.prems assms(1,2) by (simp_all add: in_i64_def)
      then have "i64 (n - burst) \<le> 0" by (simp add: i64_past)
      then show ?thesis by (subst spend.simps) simp
    qed
    with step show ?thesis by auto
  qed
qed

lemma spend_stuck: "spend b n = Some ks \<Longrightarrow> b = 0 \<longrightarrow> in_i64 n \<longrightarrow> n \<le> 0"
proof (rule spend.raw_induct [where P = "\<lambda>b m ks. b = 0 \<longrightarrow> in_i64 m \<longrightarrow> m \<le> 0", rotated])
  fix rec :: "int \<Rightarrow> int \<Rightarrow> int list option" and b m :: int and ks :: "int list"
  assume IH: "\<And>b m ks. rec b m = Some ks \<Longrightarrow> b = 0 \<longrightarrow> in_i64 m \<longrightarrow> m \<le> 0"
    and eq: "(if 0 < m then let k = if b < m then b else m in Option.bind (rec b (i64 (m - k))) (\<lambda>ks. Some (k # ks))
      else Some []) = Some ks"
  show "b = 0 \<longrightarrow> in_i64 m \<longrightarrow> m \<le> 0"
  proof (intro impI, rule ccontr)
    assume b: "b = 0" "in_i64 m" "\<not> m \<le> 0"
    with eq obtain ks' where "rec b (i64 m) = Some ks'" by (auto simp: Let_def bind_eq_Some_conv)
    with IH b show False by (metis i64_id)
  qed
qed

lemma burst_of_pos: "0 < kbps \<Longrightarrow> kbps < 2 ^ 53 \<Longrightarrow> burst_of kbps = kbps * 1024"
  by (simp add: burst_of_def i64_id in_i64_def)

text \<open>
  C36: Pacing ends exactly when there is nothing to send or the burst is not zero. A positive burst takes
  the bytes in positive pieces of at most the burst that add up to all of them; every setting below 2^53
  KiB per second gives such a burst. A negative one ends by the wrap-around of what is left, having asked
  for negative pieces only, and 2^54 wraps to a burst of zero, with which the loop does not end.
\<close>

theorem pacing_ends:
  assumes "in_i64 burst" and "in_i64 n"
  shows "(wait_pieces (Some burst) n \<noteq> None \<longleftrightarrow> n \<le> 0 \<or> burst \<noteq> 0) \<and>
   (0 < burst \<longrightarrow> (\<exists>ks. wait_pieces (Some burst) n = Some ks \<and> sum_list ks = max 0 n \<and>
      (\<forall>k \<in> set ks. 0 < k \<and> k \<le> burst))) \<and>
   (burst < 0 \<longrightarrow> (\<exists>ks. wait_pieces (Some burst) n = Some ks \<and> (\<forall>k \<in> set ks. k < 0))) \<and>
   (\<forall>kbps. 0 < kbps \<and> kbps < 2 ^ 53 \<longrightarrow> burst_of kbps = kbps * 1024) \<and> burst_of (2 ^ 54) = 0"
proof (intro conjI allI impI)
  show up: "\<exists>ks. wait_pieces (Some burst) n = Some ks \<and> sum_list ks = max 0 n \<and> (\<forall>k \<in> set ks. 0 < k \<and> k \<le> burst)"
    if "0 < burst"
    using spend_pieces [OF that assms(2)] by (simp add: wait_pieces_def)
  show down: "\<exists>ks. wait_pieces (Some burst) n = Some ks \<and> (\<forall>k \<in> set ks. k < 0)" if "burst < 0"
    using spend_wraps [OF that assms] that by (force simp: wait_pieces_def)
  show "wait_pieces (Some burst) n \<noteq> None \<longleftrightarrow> n \<le> 0 \<or> burst \<noteq> 0"
  proof
    assume "wait_pieces (Some burst) n \<noteq> None"
    then show "n \<le> 0 \<or> burst \<noteq> 0"
      using spend_stuck [of 0 n] assms(2) by (auto simp: wait_pieces_def)
  next
    assume "n \<le> 0 \<or> burst \<noteq> 0"
    moreover have "wait_pieces (Some burst) n \<noteq> None" if "n \<le> 0"
      using that by (simp add: wait_pieces_def) (subst spend.simps, simp)
    ultimately show "wait_pieces (Some burst) n \<noteq> None" using up down by (cases burst "0 :: int" rule: linorder_cases) auto
  qed
  show "burst_of kbps = kbps * 1024" if "0 < kbps \<and> kbps < 2 ^ 53" for kbps
    using that by (simp add: burst_of_pos)
  show "burst_of (2 ^ 54) = 0" by (simp add: burst_of_def i64_def)
qed

section \<open>The hourly allowance\<close>

text \<open>Jobs accepted since \<open>t\<close> from the peers in \<open>P\<close>.\<close>

definition accepted_since :: "int \<Rightarrow> (string \<Rightarrow> bool) \<Rightarrow> db \<Rightarrow> nat" where
  "accepted_since t P s = affected (\<lambda>j. P (pj_peer j) \<and> served_since t j) (tb_peer_jobs s)"

lemma served_as_accepted:
  "served_in_last_hour now i s = accepted_since (sql_stamp (now - hour)) (\<lambda>k. k = i) s"
  "served_in_last_hour_all now s = accepted_since (sql_stamp (now - hour)) (\<lambda>_. True) s"
  by (simp_all add: served_in_last_hour_def served_in_last_hour_all_def accepted_since_def)

lemma accepted_since_later:
  assumes "t \<le> t'"
  shows "accepted_since t' P s \<le> accepted_since t P s"
proof -
  have "filter (\<lambda>j. P (pj_peer j) \<and> served_since t' j) js =
      filter (\<lambda>j. P (pj_peer j) \<and> served_since t' j) (filter (\<lambda>j. P (pj_peer j) \<and> served_since t j) js)" for js
    using assms by (auto simp: served_since_def intro: filter_cong)
  then show ?thesis unfolding accepted_since_def affected_def by (metis length_filter_le)
qed

lemma accepted_since_log:
  "accepted_since t P (snd (log_peer_job now i dir mdl ok r s)) =
     accepted_since t P s + (if ok \<and> P i \<and> dir = ''served'' \<and> t < sql_stamp now then 1 else 0)"
  "tb_peers (snd (log_peer_job now i dir mdl ok r s)) = tb_peers s"
  "tb_settings (snd (log_peer_job now i dir mdl ok r s)) = tb_settings s"
  by (auto simp: log_peer_job_def record_peer_job_def Let_def accepted_since_def affected_def served_since_def)

lemma accepted_since_finish:
  "accepted_since t P (finish_peer_job row ok ttft s) = accepted_since t P s"
  "tb_peers (finish_peer_job row ok ttft s) = tb_peers s"
  "tb_settings (finish_peer_job row ok ttft s) = tb_settings s"
  by (auto simp: finish_peer_job_def accepted_since_def affected_def update_where_def served_since_def
      filter_map comp_def if_distrib cong: if_cong)

text \<open>What a router may not touch: the peers, the jobs exchanged with them, the settings.\<close>

definition route_law :: "(request \<Rightarrow> pool \<times> db \<Rightarrow> int \<times> pool \<times> db) \<Rightarrow> bool" where
  "route_law route = (\<forall>r p s. case route r (p, s) of (_, _, s') \<Rightarrow>
     tb_peers s' = tb_peers s \<and> tb_peer_jobs s' = tb_peer_jobs s \<and> tb_settings s' = tb_settings s)"

lemma route_lawD:
  assumes "route_law route" and "route r (p, s) = (st, p', s')"
  shows "tb_peers s' = tb_peers s" "tb_settings s' = tb_settings s" "accepted_since t P s' = accepted_since t P s"
proof -
  have "case route r (p, s) of (_, _, s') \<Rightarrow>
     tb_peers s' = tb_peers s \<and> tb_peer_jobs s' = tb_peer_jobs s \<and> tb_settings s' = tb_settings s"
    using assms(1) by (simp only: route_law_def)
  with assms(2) show "tb_peers s' = tb_peers s" "tb_settings s' = tb_settings s"
    "accepted_since t P s' = accepted_since t P s"
    by (simp_all add: accepted_since_def)
qed

lemma serve_job_counts:
  assumes "route_law route" and "serve_job fetch decode short_name route b hdr pr n p s = (out, n', p', s')"
  shows "tb_peers s' = tb_peers s \<and> tb_settings s' = tb_settings s \<and>
    (\<forall>t P. accepted_since t P s' \<le> accepted_since t P s + (if P (ib_from b) then 1 else 0))"
proof -
  obtain names p1 where ms: "models s (ib_now b) fetch p = (names, p1)" by fastforce
  show ?thesis
  proof (cases "lists_name names (jh_model hdr)")
    case False
    with assms(2) show ?thesis
      by (auto simp: serve_job_def ms refuse_job_def Let_def accepted_since_log)
  next
    case True
    obtain row s1 where l: "log_peer_job (ib_now b) (ib_from b) ''served'' (jh_model hdr) True '''' s = (row, s1)"
      by fastforce
    then have s1: "accepted_since t P s1 \<le> accepted_since t P s + (if P (ib_from b) then 1 else 0)"
      "tb_peers s1 = tb_peers s" "tb_settings s1 = tb_settings s" for t P
      using accepted_since_log [where now = "ib_now b" and i = "ib_from b" and dir = "''served''"
          and mdl = "jh_model hdr" and ok = True and r = "''''" and s = s]
      by (simp_all add: l)
    show ?thesis
    proof (cases "\<not> ib_replied b \<or> ib_body b = None")
      case True
      with assms(2) \<open>lists_name _ _\<close> have "s' = s1 \<or> s' = finish_peer_job row False 0 s1"
        by (auto simp: serve_job_def ms l Let_def split: if_splits)
      then have "accepted_since t P s' = accepted_since t P s1" "tb_peers s' = tb_peers s1"
        "tb_settings s' = tb_settings s1" for t P
        by (auto simp: accepted_since_finish)
      with s1 show ?thesis by simp
    next
      case False
      then obtain body where body: "ib_replied b" "ib_body b = Some body" by auto
      define r where "r = inbound_request decode (jh_path hdr)
        (if p_name pr = '''' then short_name (ib_from b) else p_name pr) body"
      obtain st p2 s2 where rt: "route r (p1, s1) = (st, p2, s2)" by (cases "route r (p1, s1)") auto
      have "s' = finish_peer_job row (st < 400) 0 s2"
        using assms(2) \<open>lists_name _ _\<close> body rt by (auto simp: serve_job_def ms l Let_def r_def)
      with s1 route_lawD [OF assms(1) rt] show ?thesis by (simp add: accepted_since_finish)
    qed
  qed
qed

lemma handle_job_counts:
  assumes "route_law route" and "handle_job fetch decode short_name route b n p s = (out, n', p', s')"
  shows "tb_peers s' = tb_peers s \<and> tb_settings s' = tb_settings s \<and>
    ((\<forall>t P. accepted_since t P s' = accepted_since t P s) \<or>
     (\<exists>hdr pr. vet_job (ib_now b) (ib_from b) hdr s = Inr pr) \<and>
     (\<forall>t P. accepted_since t P s' \<le> accepted_since t P s + (if P (ib_from b) then 1 else 0)))"
proof (cases "\<exists>hdr pr n1. is_known (ib_from b) n \<and> ib_header b = Some hdr \<and>
    vet_job (ib_now b) (ib_from b) hdr s = Inr pr \<and>
    admit (ib_from b) (p_max pr) (setting_int ''space.ceiling'' 2 s) n = Admitted n1")
  case True
  then obtain hdr pr n1 where c: "is_known (ib_from b) n" "ib_header b = Some hdr"
    "vet_job (ib_now b) (ib_from b) hdr s = Inr pr"
    "admit (ib_from b) (p_max pr) (setting_int ''space.ceiling'' 2 s) n = Admitted n1" by auto
  obtain o' n2 p2 s2 where sj: "serve_job fetch decode short_name route b hdr pr n1 p s = (o', n2, p2, s2)"
    by (metis prod_cases4)
  have "s' = s2" using assms(2) by (simp add: handle_job_def c sj)
  with serve_job_counts [OF assms(1) sj] c(3) show ?thesis by (metis (no_types))
next
  case False
  with assms(2) show ?thesis
    by (auto simp: handle_job_def refuse_job_def Let_def accepted_since_log
        split: if_splits option.splits sum.splits admission.splits prod.splits)
qed

text \<open>Handlers one after another; a handler that panics takes the hub down.\<close>

fun serve_all ::
  "(host_row \<Rightarrow> model list res) \<Rightarrow> (string \<Rightarrow> (string \<times> string list \<times> string option) option) \<Rightarrow>
   (string \<Rightarrow> string) \<Rightarrow> (request \<Rightarrow> pool \<times> db \<Rightarrow> int \<times> pool \<times> db) \<Rightarrow>
   inbound list \<Rightarrow> node \<Rightarrow> pool \<Rightarrow> db \<Rightarrow> db" where
  "serve_all fetch decode short_name route [] n p s = s"
| "serve_all fetch decode short_name route (b # bs) n p s =
     (case handle_job fetch decode short_name route b n p s of
        (_, None, _, s1) \<Rightarrow> s1
      | (_, Some n1, p1, s1) \<Rightarrow> serve_all fetch decode short_name route bs n1 p1 s1)"

definition within_hour :: "instant \<Rightarrow> db \<Rightarrow> bool" where
  "within_hour now s =
     ((\<forall>i pr. peer i s = Inr pr \<longrightarrow> int (served_in_last_hour now i s) \<le> max 0 (p_hour pr)) \<and>
      int (served_in_last_hour_all now s) \<le> max 0 (setting_int ''space.per_hour'' 100 s))"

lemma within_hour_later: "within_hour t s \<Longrightarrow> t \<le> t' \<Longrightarrow> within_hour t' s"
proof -
  assume w: "within_hour t s" and le: "t \<le> t'"
  have "accepted_since (sql_stamp (t' - hour)) P s \<le> accepted_since (sql_stamp (t - hour)) P s" for P
    using le by (intro accepted_since_later sql_stamp_mono) simp
  with w show "within_hour t' s"
    unfolding within_hour_def served_as_accepted by (meson of_nat_le_iff order_trans)
qed

lemma vet_job_allowance:
  assumes "vet_job now from hdr s = Inr pr"
  shows "peer from s = Inr pr" "int (served_in_last_hour now from s) < p_hour pr"
    "int (served_in_last_hour_all now s) < setting_int ''space.per_hour'' 100 s"
  using assms by (auto simp: vet_job_def split: if_splits sum.splits)

lemma within_hour_handled:
  assumes "route_law route" and "handle_job fetch decode short_name route b n p s = (out, n', p', s')"
    and "within_hour (ib_now b) s"
  shows "within_hour (ib_now b) s'"
proof -
  let ?now = "ib_now b" and ?t = "sql_stamp (ib_now b - hour)"
  note c = handle_job_counts [OF assms(1,2)]
  then have same: "peer i s' = peer i s" "setting_int k d s' = setting_int k d s" for i k d
    by (simp_all add: peer_def setting_int_def setting_def)
  consider "\<forall>t P. accepted_since t P s' = accepted_since t P s"
    | hdr pr where "vet_job ?now (ib_from b) hdr s = Inr pr"
      "\<forall>t P. accepted_since t P s' \<le> accepted_since t P s + (if P (ib_from b) then 1 else 0)"
    using c by auto
  then show ?thesis
  proof cases
    case 1
    with assms(3) show ?thesis by (simp add: within_hour_def served_as_accepted same)
  next
    case 2
    note v = vet_job_allowance [OF 2(1)]
    have "int (served_in_last_hour ?now i s') \<le> max 0 (p_hour q)" if "peer i s = Inr q" for i q
    proof (cases "i = ib_from b")
      case True
      with 2(2) [rule_format, of ?t "\<lambda>k. k = i"] v(1,2) that show ?thesis by (simp add: served_as_accepted)
    next
      case False
      with 2(2) [rule_format, of ?t "\<lambda>k. k = i"] assms(3) that show ?thesis
        unfolding within_hour_def served_as_accepted by fastforce
    qed
    moreover have "int (served_in_last_hour_all ?now s') \<le> max 0 (setting_int ''space.per_hour'' 100 s)"
      using 2(2) [rule_format, of ?t "\<lambda>_. True"] v(3) by (simp add: served_as_accepted)
    ultimately show ?thesis by (simp add: within_hour_def same)
  qed
qed

text \<open>
  Jobs of peers handled one after another never exceed the allowances: at the time of the last one,
  no peer has more accepted jobs in the last hour than its own allowance, and all peers together have no
  more than the hub's.
\<close>

theorem hourly_allowance_kept:
  assumes "route_law route" and "within_hour t s" and "sorted (t # map ib_now bs)"
  shows "within_hour (List.last (t # map ib_now bs)) (serve_all fetch decode short_name route bs n p s)"
  using assms(2,3)
proof (induction bs arbitrary: t n p s)
  case Nil
  then show ?case by simp
next
  case (Cons b bs)
  obtain out n' p' s' where h: "handle_job fetch decode short_name route b n p s = (out, n', p', s')"
    by (metis prod_cases4)
  have "within_hour (ib_now b) s'"
    using within_hour_handled [OF assms(1) h] within_hour_later [OF Cons.prems(1)] Cons.prems(2) by simp
  moreover have "sorted (ib_now b # map ib_now bs)" using Cons.prems(2) by simp
  ultimately have rest: "within_hour (List.last (ib_now b # map ib_now bs))
      (serve_all fetch decode short_name route bs m q s')" for m q
    by (rule Cons.IH)
  show ?case
  proof (cases n')
    case None
    have "ib_now b \<le> List.last (ib_now b # map ib_now bs)"
      using \<open>sorted (ib_now b # map ib_now bs)\<close> by (cases "bs = []") (auto simp: last_map)
    with None h \<open>within_hour (ib_now b) s'\<close> show ?thesis by (simp add: within_hour_later)
  next
    case (Some m)
    with h rest [of m p'] show ?thesis by simp
  qed
qed

text \<open>A peer with an allowance of one job an hour, spent.\<close>

definition spent_hour :: db where
  "spent_hour = empty_db\<lparr>tb_settings := [(''space.serve'', ''1'')],
     tb_peers := [\<lparr>p_id = ''b'', p_name = ''b'', p_approved = True, p_max = 1, p_hour = 1, p_first = 0, p_last = 0\<rparr>],
     tb_peer_jobs := [\<lparr>pj_id = 1, pj_peer = ''b'', pj_dir = ''served'', pj_model = ''m'', pj_at = 0,
       pj_accepted = True, pj_finished = True, pj_ttft = None, pj_reason = ''''\<rparr>]\<rparr>"

lemma spent_hour_ok: "within_hour 0 spent_hour"
  by (simp add: within_hour_def spent_hour_def empty_db_def peer_def served_in_last_hour_def
      served_in_last_hour_all_def affected_def served_since_def setting_int_def setting_def sql_stamp_def
      clock_defs parse_int_def)

theorem hourly_allowance_kept_witness:
  "within_hour (5 * minute) (serve_all (\<lambda>_. Inr []) (\<lambda>_. None) id (\<lambda>r x. (200, x))
     [\<lparr>ib_now = 5 * minute, ib_from = ''b'', ib_header = Some \<lparr>jh_model = ''m'', jh_path = ''/api/chat'',
        jh_size = 2\<rparr>, ib_replied = True, ib_body = Some ''{}''\<rparr>] (discover_round [''b''] one_served) new_pool spent_hour)"
  using hourly_allowance_kept [OF _ spent_hour_ok, of "\<lambda>r x. (200, x)"
      "[\<lparr>ib_now = 5 * minute, ib_from = ''b'', ib_header = Some \<lparr>jh_model = ''m'', jh_path = ''/api/chat'',
        jh_size = 2\<rparr>, ib_replied = True, ib_body = Some ''{}''\<rparr>]" "\<lambda>_. Inr []" "\<lambda>_. None" id "discover_round [''b''] one_served" new_pool]
  by (simp add: route_law_def minute_def second_def)

definition offering_node :: node where
  "offering_node = fst (learn 0 ''b'' \<lparr>of_name = ''hub b'', of_models = [''m:latest''], of_free = True,
     of_services = [], of_at = 0\<rparr> (attach ''a'' no_config new_node) empty_db)"

theorem best_willing_peer_takes_it_witness:
  "\<exists>se o'. nd_session offering_node = Some se \<and> eligible 0 [''b''] ''m'' se spent_hour ''b'' o' \<and>
     ''hub b'' = of_name o'"
proof -
  have "\<exists>s'. place 0 [''b''] ''m'' (\<lambda>_. (0, SaidYes '''')) offering_node spent_hour = (TakenBy ''b'' ''hub b'' 2, s')"
    by (simp add: place_def offering_node_def learn_def with_session_def attach_def candidates_def fresh_offer_def
        lists_name_def ranked_def insertion_sort_def approved_peer_def peer_def spent_hour_def empty_db_def send_def
        log_peer_job_def record_peer_job_def next_id_def minute_def second_def Let_def)
  then obtain s' where "place 0 [''b''] ''m'' (\<lambda>_. (0, SaidYes '''')) offering_node spent_hour =
      (TakenBy ''b'' ''hub b'' 2, s')" ..
  from best_willing_peer_takes_it [OF this] show ?thesis by auto
qed

theorem always_refusing_peer_ranks_first_witness:
  "score 0 (empty_db\<lparr>tb_peer_jobs := [\<lparr>pj_id = 1, pj_peer = ''c'', pj_dir = ''sent'', pj_model = ''m'',
     pj_at = 0, pj_accepted = False, pj_finished = False, pj_ttft = None, pj_reason = ''not approved''\<rparr>]\<rparr>) ''c'' = 1"
  by (rule always_refusing_peer_ranks_first [THEN conjunct1]) (simp_all add: ttft_sane_def)

theorem pacing_ends_witness:
  "(\<exists>ks. wait_pieces (Some 1024) 3000 = Some ks \<and> sum_list ks = 3000) \<and> wait_pieces (Some (- (2 ^ 63))) 3000 \<noteq> None \<and>
   wait_pieces (Some 0) 3000 = None"
proof -
  have i: "in_i64 3000" "in_i64 1024" "in_i64 (- (2 ^ 63))" "in_i64 0" by (simp_all add: in_i64_def)
  show ?thesis
    using pacing_ends [OF i(2,1)] pacing_ends [OF i(3,1)] pacing_ends [OF i(4,1)] by auto
qed

section \<open>The settings and the node\<close>

lemma fields_by_words:
  "\<forall>c \<in> set w. \<not> p c \<Longrightarrow> x \<in> set (fields_by p s w) \<Longrightarrow> x \<noteq> [] \<and> (\<forall>c \<in> set x. \<not> p c)"
proof (induction s arbitrary: w)
  case Nil
  then show ?case by (cases "w = []") auto
next
  case (Cons c s)
  show ?case
  proof (cases "p c")
    case True
    with Cons.prems(2) have "w \<noteq> [] \<and> x = rev w \<or> x \<in> set (fields_by p s [])"
      by (simp split: if_splits)
    then show ?thesis
    proof
      assume "x \<in> set (fields_by p s [])"
      from Cons.IH [OF _ this] show ?thesis by simp
    qed (use Cons.prems(1) in simp)
  next
    case False
    with Cons.prems(2) have "x \<in> set (fields_by p s (c # w))" by simp
    from Cons.IH [OF _ this] Cons.prems(1) False show ?thesis by simp
  qed
qed

lemma join_words_inj:
  assumes "\<forall>x \<in> set xs. x \<noteq> [] \<and> (\<forall>c \<in> set x. \<not> is_space c)"
    and "\<forall>y \<in> set ys. y \<noteq> [] \<and> (\<forall>c \<in> set y. \<not> is_space c)"
    and "join '' '' xs = join '' '' ys"
  shows "xs = ys"
proof -
  have split: "split_on (CHR '' '') (join '' '' zs) = zs"
    if "zs \<noteq> []" "\<forall>z \<in> set zs. z \<noteq> [] \<and> (\<forall>c \<in> set z. \<not> is_space c)" for zs
    using that by (intro split_on_join) (auto simp: is_space_def)
  have empty: "zs = []" if "join '' '' zs = ''''" "\<forall>z \<in> set zs. z \<noteq> [] \<and> (\<forall>c \<in> set z. \<not> is_space c)" for zs
  proof (rule ccontr)
    assume "zs \<noteq> []"
    from split [OF this that(2)] that show False by auto
  qed
  show ?thesis
  proof (cases "xs = [] \<or> ys = []")
    case True
    with empty assms show ?thesis by (metis join.simps(1))
  next
    case False
    with split assms show ?thesis by metis
  qed
qed

text \<open>The settings compare equal exactly when they are: joining the bootstrap list loses nothing.\<close>

lemma config_equal_iff: "config_equal (config s) (config t) \<longleftrightarrow> config s = config t"
proof -
  have words: "\<forall>x \<in> set (nc_bootstrap (config s)). x \<noteq> [] \<and> (\<forall>c \<in> set x. \<not> is_space c)" for s
    using fields_by_words [of "[]"] by (auto simp: config_def no_config_def GoStrings.fields_def)
  show ?thesis
    using join_words_inj [OF words words, of s t] by (auto simp: config_equal_def net_config.equality)
qed

text \<open>
  Once the node could start under the settings, it runs under them, and further turns of the loop
  leave it alone while they stay.
\<close>

lemma run_settles:
  assumes "nd_cfg n = config t" and "\<forall>c. is_ok (start c)"
  shows "nd_cfg (run_tick start s n) = config s \<and> run_tick start s (run_tick start s n) = run_tick start s n"
proof -
  have "nc_space (config s) = '''' \<Longrightarrow> config s = no_config"
    by (simp add: config_def no_config_def split: if_splits)
  moreover obtain me where "start (config s) = Inr me" using assms(2) by (auto simp: is_ok_iff)
  ultimately have "nd_cfg (run_tick start s n) = config s"
    using assms(1) config_equal_iff [of t s]
    by (auto simp: run_tick_def Let_def join_space_def attach_def tell_def leave_def)
  then show ?thesis by (simp add: run_tick_def config_equal_def)
qed

end
