(* ===== verification/AgentJobs.thy ===== *)
theory AgentJobs
  imports Pool StoreSecrets Gate
begin

text \<open>
  \<open>internal/agent/jobs.go\<close>: jobs on the machines. A job is started, corrected, rolled back, killed and
  cleared by requests; its rounds run in the background. The world is the store and the notifications
  sent. What the machine does is a parameter of each operation: whether a connection opens, what the
  snapshot script prints, the lines omp writes and how it ends. The text put before every prompt is an
  argument, and so is the JSON library: \<open>parse\<close> reads a line, \<open>enc\<close> writes an object of a type and a text.
\<close>

record world =
  wd_db :: db
  wd_notes :: "(string \<times> string \<times> string) list"

definition noted :: "string \<Rightarrow> string \<Rightarrow> string \<Rightarrow> world \<Rightarrow> world" where
  "noted kind subject msg w = w\<lparr>wd_notes := wd_notes w @ [(kind, subject, msg)]\<rparr>"

definition on_db :: "(db \<Rightarrow> db) \<Rightarrow> world \<Rightarrow> world" where
  "on_db f w = w\<lparr>wd_db := f (wd_db w)\<rparr>"

text \<open>A store operation whose error is dropped.\<close>

definition try_db :: "(db \<Rightarrow> db res) \<Rightarrow> world \<Rightarrow> world" where
  "try_db f w = (case f (wd_db w) of Inl _ \<Rightarrow> w | Inr s \<Rightarrow> w\<lparr>wd_db := s\<rparr>)"

section \<open>Starting\<close>

definition memory_floor :: int where
  "memory_floor = 1400 * 1048576"

text \<open>The guards in front of the connection; the answer is the working directory.\<close>

definition vet_start :: "host_row \<Rightarrow> string \<Rightarrow> string \<Rightarrow> string res" where
  "vet_start h cwd txt =
     (let dir = (if cwd = '''' then agent_home else cwd); mem = f_mem_total (h_facts h)
      in if trim_space txt = '''' then Inl (Err ''a job needs instructions'')
         else if h_status h \<noteq> ''online'' then Inl (Offline (h_name h))
         else if \<not> has_prefix dir ''/'' then Inl (Err ''the working directory must be an absolute path'')
         else if mem > 0 \<and> mem < memory_floor
           then Inl (Err (h_name h @ '' has '' @ itoa (mem div 1048576) @
                  '' MB of memory; the agent needs about 1.5 GB to run at all''))
         else case f_agent (h_facts h) of
           None \<Rightarrow> Inl (Err (h_name h @ '' has not reported an agent; enrollment installs it''))
         | Some a \<Rightarrow>
             if \<not> ag_account a
             then Inl (Err (h_name h @ '' has no agent account yet; re-provision it from the card''))
             else Inr dir)"

definition remote_model :: "db \<Rightarrow> string" where
  "remote_model s =
     (if setting ''agent.remote_model'' s = '''' then setting ''agent.default_model'' s
      else setting ''agent.remote_model'' s)"

definition start_prompt :: "string \<Rightarrow> string list \<Rightarrow> string \<Rightarrow> string" where
  "start_prompt instruction names txt =
     instruction @
     (if names \<noteq> []
      then ''Secrets the hub holds for this machine, readable while this job runs with `homedash-secret NAME` '' @
           ''(never write one to disk unless the task requires it): '' @ join '', '' names @ [newline, newline]
      else '''') @ txt"

text \<open>
  \<open>dial\<close> is why no connection opened, \<open>dir_there\<close> whether \<open>test -d\<close> succeeded on it. The answer is the
  job and the prompt of its first round, which runs on the same connection.
\<close>

definition start ::
  "string \<Rightarrow> instant \<Rightarrow> string option \<Rightarrow> (string \<Rightarrow> bool) \<Rightarrow> host_row \<Rightarrow> string \<Rightarrow> string \<Rightarrow> int \<Rightarrow>
   world \<Rightarrow> ((job_row \<times> string) \<times> string) res \<times> world" where
  "start instruction now dial dir_there h cwd txt win w =
     (case vet_start h cwd txt of
        Inl e \<Rightarrow> (Inl e, w)
      | Inr dir \<Rightarrow>
          (case dial of
             Some e \<Rightarrow> (Inl (Err (''cannot connect to '' @ h_name h @ '': '' @ e)), w)
           | None \<Rightarrow>
               if \<not> dir_there dir then (Inl (Err (dir @ '' does not exist on '' @ h_name h)), w)
               else let s = wd_db w;
                        mdl = (if h_model h = '''' then remote_model s else h_model h)
                    in case create_job now (h_id h) win dir mdl txt (int_setting s ''jobs.timeout'' 1200) s of
                      Inl e \<Rightarrow> (Inl e, w)
                    | Inr (i, s1) \<Rightarrow>
                        (case job i s1 of
                           Inl e \<Rightarrow> (Inl e, w\<lparr>wd_db := s1\<rparr>)
                         | Inr j \<Rightarrow> (Inr (j, start_prompt instruction (secret_names_for (h_id h) s1) txt),
                                    w\<lparr>wd_db := s1\<rparr>))))"

section \<open>The report\<close>

text \<open>\<open>strings.LastIndex\<close> and \<open>strings.Index\<close>: what follows the last, what precedes the first occurrence.\<close>

fun after_last_str :: "string \<Rightarrow> string \<Rightarrow> string option" where
  "after_last_str p [] = (if p = [] then Some [] else None)"
| "after_last_str p (c # cs) =
     (case after_last_str p cs of Some r \<Rightarrow> Some r | None \<Rightarrow> strip_prefix p (c # cs))"

fun before_first_str :: "string \<Rightarrow> string \<Rightarrow> string option" where
  "before_first_str p [] = (if p = [] then Some [] else None)"
| "before_first_str p (c # cs) =
     (if has_prefix (c # cs) p then Some [] else map_option (Cons c) (before_first_str p cs))"

definition ticks :: string where
  "ticks = [CHR 0x60, CHR 0x60, CHR 0x60]"

text \<open>\<open>obj\<close> reads one JSON object: why it is none, or the object in compact form.\<close>

definition parse_changes :: "(string \<Rightarrow> string + string) \<Rightarrow> string \<Rightarrow> string \<times> string" where
  "parse_changes obj report =
     (case after_last_str (ticks @ ''homedash-changes'') report of
        None \<Rightarrow> ('''', '''')
      | Some body \<Rightarrow>
          (case before_first_str ticks body of
             None \<Rightarrow> ('''', ''the homedash-changes block is not closed'')
           | Some block \<Rightarrow>
               (case obj (trim_space block) of
                  Inl e \<Rightarrow> ('''', ''the homedash-changes block is not a JSON object: '' @ e)
                | Inr c \<Rightarrow> (c, ''''))))"

definition last_words :: "string \<Rightarrow> string" where
  "last_words s =
     (let l = after_last newline (trim_space s)
      in if length l > 300 then drop (length l - 300) l else l)"

section \<open>The lines\<close>

text \<open>
  \<open>batchLines\<close>: lines arrive one at a time and are written fifty at once, or what there is when the ticker
  fires; the rest when the stream closes. A batch the store refuses is lost.
\<close>

datatype arrival = Line string | Tick

definition write_batch :: "instant \<Rightarrow> int \<Rightarrow> string list \<Rightarrow> db \<Rightarrow> db" where
  "write_batch now i buf s =
     (if buf = [] then s
      else case append_job_events now i buf s of Inl _ \<Rightarrow> s | Inr s1 \<Rightarrow> s1)"

fun batch :: "int \<Rightarrow> instant \<Rightarrow> (instant \<times> arrival) list \<Rightarrow> string list \<Rightarrow> db \<Rightarrow> db" where
  "batch i close [] buf s = write_batch close i buf s"
| "batch i close ((t, Line l) # as) buf s =
     (if length (buf @ [l]) \<ge> 50 then batch i close as [] (write_batch t i (buf @ [l]) s)
      else batch i close as (buf @ [l]) s)"
| "batch i close ((t, Tick) # as) buf s = batch i close as [] (write_batch t i buf s)"

text \<open>A line of omp's JSON mode, and what the round takes from it.\<close>

record omp_usage =
  ou_input :: int
  ou_output :: int
  ou_cread :: int
  ou_cwrite :: int
  ou_cost :: real

record omp_event =
  oe_type :: string
  oe_id :: string
  oe_model :: string
  oe_message :: "(string \<times> (string \<times> string) list) option"
  oe_usage :: "omp_usage option"

definition text_parts :: "(string \<times> string) list \<Rightarrow> string list" where
  "text_parts cs = map snd (filter (\<lambda>(ty, t). ty = ''text'' \<and> trim_space t \<noteq> '''') cs)"

definition digest ::
  "(string \<Rightarrow> omp_event option) \<Rightarrow> int \<Rightarrow> int \<Rightarrow> instant \<Rightarrow> string \<Rightarrow> string \<times> world \<Rightarrow> string \<times> world" where
  "digest parse i hid now l = (\<lambda>(report, w).
     case parse l of
       None \<Rightarrow> (report, w)
     | Some ev \<Rightarrow>
         if oe_type ev = ''session'' \<and> oe_id ev \<noteq> ''''
         then (report, on_db (set_job_session i (oe_id ev)) w)
         else case (oe_type ev = ''message_end'', oe_message ev) of
           (True, Some (role, cs)) \<Rightarrow>
             if role \<noteq> ''assistant'' then (report, w)
             else (if text_parts cs \<noteq> [] then join [newline] (text_parts cs) else report,
                   case oe_usage ev of
                     None \<Rightarrow> w
                   | Some u \<Rightarrow> try_db (record_usage now hid i (oe_model ev) (ou_input u) (ou_output u)
                       (ou_cread u) (ou_cwrite u) (ou_cost u)) w)
         | _ \<Rightarrow> (report, w))"

text \<open>The scanner gives up on a line of more than 16 MiB; blank lines are skipped.\<close>

fun scanned :: "(instant \<times> arrival) list \<Rightarrow> (instant \<times> arrival) list" where
  "scanned [] = []"
| "scanned ((t, Tick) # as) = (t, Tick) # scanned as"
| "scanned ((t, Line l) # as) =
     (if length l > 16 * 1048576 then []
      else if trim_space l = '''' then scanned as
      else (t, Line l) # scanned as)"

definition line_of :: "instant \<times> arrival \<Rightarrow> (instant \<times> string) list" where
  "line_of a = (case snd a of Line l \<Rightarrow> [(fst a, l)] | Tick \<Rightarrow> [])"

section \<open>The hub's hold\<close>

text \<open>\<open>CheckHold\<close> (fleet/hold.go): what the script printed, told apart by line.\<close>

definition read_hold :: "string \<Rightarrow> string \<times> string" where
  "read_hold out =
     (let ls = split_on newline (trim_space out);
          is_broken = (\<lambda>l. has_prefix l ''broken: '')
      in (join '' '' (concat (map GoStrings.fields (filter (\<lambda>l. \<not> is_broken l) ls))),
          join ''; '' (map (\<lambda>l. trim_prefix l ''broken: '') (filter is_broken ls))))"

definition log_line :: "instant \<Rightarrow> int \<Rightarrow> string \<Rightarrow> world \<Rightarrow> world" where
  "log_line now i line = try_db (append_job_event now i line)"

definition check_hold ::
  "(string \<Rightarrow> string \<Rightarrow> string) \<Rightarrow> instant \<Rightarrow> job_row \<Rightarrow> string \<Rightarrow> string + string \<times> string \<Rightarrow> world \<Rightarrow> world" where
  "check_hold enc now j hname res w =
     (let i = j_id j; who = ''job '' @ itoa i @ '' on '' @ hname
      in case res of
           Inl e \<Rightarrow>
             noted ''host.hold_unchecked'' hname (who @ '': could not check the hub's hold: '' @ e)
               (log_line now i (enc ''hold'' (''could not check the hub's hold: '' @ e)) w)
         | Inr (restored, broken) \<Rightarrow>
             let w1 = (if restored = '''' then w
                       else noted ''host.hold_repaired'' hname (who @ '' changed the hub's hold; restored: '' @ restored)
                              (log_line now i (enc ''hold'' (''restored: '' @ restored)) w))
             in if broken = '''' then w1
                else noted ''host.hold_broken'' hname (who @ '': the hub's hold needs a person: '' @ broken)
                       (log_line now i (enc ''hold'' (''broken: '' @ broken)) w1))"

section \<open>A round\<close>

text \<open>\<open>end\<close>: the job ends, a failure is told, retention drops what is too old.\<close>

definition end_round :: "instant \<Rightarrow> host_row \<Rightarrow> int \<Rightarrow> string \<Rightarrow> string \<Rightarrow> string \<Rightarrow> world \<Rightarrow> world" where
  "end_round now h i state report reason w =
     (let w1 = try_db (end_job now i state report reason) w;
          w2 = (if state = ''failed''
                then noted ''job.failed'' (h_name h)
                       (''job '' @ itoa i @ '' on '' @ h_name h @ '' failed: '' @ reason) w1
                else w1)
      in on_db (\<lambda>s. snd (trim_jobs (h_id h) (int_setting s ''jobs.retention'' 20) s)) w2)"

text \<open>How omp ended: well, with a status and perhaps a signal, or the connection was lost.\<close>

datatype waited = Finished | Exited int string | Lost string

text \<open>
  What one round meets: no connection (a correction dials, a start has one), the snapshot script's kind
  or failure, a hook that could not be written, a session that could not be had, the lines, the end.
  It begins at \<open>rv_begin\<close>; omp is started at \<open>rv_start\<close>.
\<close>

record round_env =
  rv_begin :: instant
  rv_start :: instant
  rv_end :: instant
  rv_dial :: "string option"
  rv_snapshot :: "string + string"
  rv_arm :: "string option"
  rv_session :: "string option"
  rv_lines :: "(instant \<times> arrival) list"
  rv_stderr :: string
  rv_wait :: waited
  rv_hold :: "string + string \<times> string"

definition snapshot_line :: "string \<Rightarrow> string" where
  "snapshot_line e =
     [CHR 0x7B] @ [CHR 0x22] @ ''type'' @ [CHR 0x22] @ '':'' @ [CHR 0x22] @ ''stderr'' @ [CHR 0x22] @ '','' @
     [CHR 0x22] @ ''text'' @ [CHR 0x22] @ '':'' @ [CHR 0x22] @ ''snapshot: '' @
     replace_char (CHR 0x22) [CHR 0x27] e @ [CHR 0x22] @ [CHR 0x7D]"

definition take_snapshot :: "round_env \<Rightarrow> int \<Rightarrow> world \<Rightarrow> world" where
  "take_snapshot ev i w =
     (case rv_snapshot ev of
        Inr kind \<Rightarrow> on_db (set_job_snapshot i kind) w
      | Inl e \<Rightarrow> log_line (rv_start ev) i (snapshot_line e) (on_db (set_job_snapshot i ''none'') w))"

text \<open>
  The stream is read and written in batches side by side; the two touch different tables, here the
  batches come first.
\<close>

definition read_stream ::
  "(string \<Rightarrow> omp_event option) \<Rightarrow> round_env \<Rightarrow> int \<Rightarrow> int \<Rightarrow> world \<Rightarrow> string \<times> world" where
  "read_stream parse ev i hid w =
     (let as = scanned (rv_lines ev)
      in fold (\<lambda>(t, l). digest parse i hid t l) (concat (map line_of as))
           ('''', on_db (batch i (rv_end ev) as []) w))"

definition keep_changes ::
  "(string \<Rightarrow> string \<Rightarrow> string) \<Rightarrow> (string \<Rightarrow> string + string) \<Rightarrow> instant \<Rightarrow> int \<Rightarrow> string \<Rightarrow> world \<Rightarrow> world" where
  "keep_changes enc obj now i report w =
     (let (changes, bad) = parse_changes obj report
      in if bad \<noteq> '''' then log_line now i (enc ''stderr'' (''change report: '' @ bad)) w
         else if changes \<noteq> '''' then on_db (set_job_changes i changes) w
         else w)"

definition exit_reason :: "instant \<Rightarrow> int \<Rightarrow> string \<Rightarrow> int \<Rightarrow> string \<Rightarrow> string" where
  "exit_reason elapsed timeout stderr status sig =
     (if sig = ''KILL''
      then ''omp was killed '' @ [CHR 0xE2, CHR 0x80, CHR 0x94] @
           '' on a small machine this is the kernel's OOM killer; the agent needs about 1.5 GB''
      else (if elapsed \<ge> timeout * second then ''ran out of the '' @ itoa timeout @ '' s allowed''
            else ''omp exited '' @ itoa status) @
           (if last_words stderr = '''' then '''' else '': '' @ last_words stderr))"

definition verdict :: "round_env \<Rightarrow> job_row \<Rightarrow> string \<times> string" where
  "verdict ev j =
     (case rv_wait ev of
        Finished \<Rightarrow> (''done'', '''')
      | Exited status sig \<Rightarrow>
          (''failed'', exit_reason (rv_end ev - rv_start ev) (j_timeout j) (rv_stderr ev) status sig)
      | Lost e \<Rightarrow> (''failed'', e))"

text \<open>
  The context of a round ends two minutes after the job's time. From then on the store refuses what the
  round still has to write, the end of the job included; the notifications go out all the same.
\<close>

definition late :: "round_env \<Rightarrow> job_row \<Rightarrow> bool" where
  "late ev j = (rv_end ev - rv_begin ev \<ge> j_timeout j * second + 2 * minute)"

definition by_deadline :: "round_env \<Rightarrow> job_row \<Rightarrow> (world \<Rightarrow> world) \<Rightarrow> world \<Rightarrow> world" where
  "by_deadline ev j f w = (if late ev j then w\<lparr>wd_notes := wd_notes (f w)\<rparr> else f w)"

definition after_stream ::
  "(string \<Rightarrow> string \<Rightarrow> string) \<Rightarrow> (string \<Rightarrow> string + string) \<Rightarrow> round_env \<Rightarrow> job_row \<Rightarrow> host_row \<Rightarrow> string \<Rightarrow>
   world \<Rightarrow> world" where
  "after_stream enc obj ev j h report w =
     (let i = j_id j;
          se = trim_space (rv_stderr ev);
          w1 = (if se = '''' then w else log_line (rv_end ev) i (enc ''stderr'' se) w);
          w2 = check_hold enc (rv_end ev) j (h_name h) (rv_hold ev) w1;
          w3 = keep_changes enc obj (rv_end ev) i report w2;
          (state, reason) = verdict ev j
      in end_round (rv_end ev) h i state report reason w3)"

definition round_job ::
  "(string \<Rightarrow> omp_event option) \<Rightarrow> (string \<Rightarrow> string \<Rightarrow> string) \<Rightarrow> (string \<Rightarrow> string + string) \<Rightarrow>
   round_env \<Rightarrow> job_row \<Rightarrow> host_row \<Rightarrow> world \<Rightarrow> world" where
  "round_job parse enc obj ev j h w =
     (let i = j_id j;
          fail = (\<lambda>reason. by_deadline ev j (end_round (rv_end ev) h i ''failed'' '''' reason))
      in case rv_dial ev of
           Some e \<Rightarrow> fail (''cannot connect: '' @ e) w
         | None \<Rightarrow>
             let w1 = take_snapshot ev i w
             in case rv_arm ev of
                  Some e \<Rightarrow> fail (''could not write the hook: '' @ e) w1
                | None \<Rightarrow>
                    (case rv_session ev of
                       Some e \<Rightarrow> fail e w1
                     | None \<Rightarrow>
                         let (report, w2) = read_stream parse ev i (h_id h) w1
                         in by_deadline ev j (after_stream enc obj ev j h report) w2))"

section \<open>The command of a round\<close>

definition unit_name :: "int \<Rightarrow> int \<Rightarrow> string" where
  "unit_name i rounds = ''homedash-job-'' @ itoa i @ ''-r'' @ itoa rounds"

definition omp_args :: "job_row \<Rightarrow> bool \<Rightarrow> string list" where
  "omp_args j resume =
     [''omp'', ''--mode'', ''json'', ''-p'', ''--cwd'', j_cwd j, ''--approval-mode'', ''yolo'', ''--max-time'',
      itoa (j_timeout j), ''--no-title''] @
     (if j_model j \<noteq> '''' then [''--model'', j_model j] else []) @
     (if resume then [''--resume'', j_session j] else [])"

definition quote_args :: "string list \<Rightarrow> string" where
  "quote_args xs = join '' '' (map shell_quote xs)"

definition unit_props :: "db \<Rightarrow> string \<Rightarrow> job_row \<Rightarrow> string list" where
  "unit_props s stop_post j =
     [''TasksMax=4096'', ''RuntimeMaxSec='' @ itoa (j_timeout j + 60), ''ExecStopPost='' @ stop_post] @
     (let v = trim_space (setting ''jobs.memory_max'' s) in if v \<noteq> '''' then [''MemoryMax='' @ v] else []) @
     (let v = trim_space (setting ''jobs.cpu_quota'' s) in if v \<noteq> '''' then [''CPUQuota='' @ v] else [])"

definition inner_command :: "job_row \<Rightarrow> bool \<Rightarrow> string" where
  "inner_command j resume =
     (let dq = [CHR 0x22]; db_path = dq @ ''$HOME'' @ dq @ ''/.omp/agent/models.db''
      in ''rm -f '' @ db_path @ '' '' @ db_path @ ''-*; omp models >/dev/null 2>&1; exec '' @
         quote_args (omp_args j resume))"

definition unit_argv :: "db \<Rightarrow> string \<Rightarrow> string \<Rightarrow> job_row \<Rightarrow> bool \<Rightarrow> string list" where
  "unit_argv s vault stop_post j resume =
     [''sudo'', ''-n'', ''systemd-run'', ''--quiet'', ''--pipe'', ''--wait'', ''--collect'',
      ''--unit='' @ unit_name (j_id j) (j_rounds j), ''--working-directory='' @ j_cwd j,
      ''--setenv=HOME='' @ agent_home,
      ''--setenv=PATH=/usr/local/sbin:/usr/local/bin:/usr/sbin:/usr/bin:/sbin:/bin'',
      ''--setenv=LANG=C.UTF-8'', ''--setenv=OMP_AUTH_BROKER_URL=http://'' @ vault] @
     concat (map (\<lambda>p. [''-p'', p]) (unit_props s stop_post j)) @
     [''--'', ''sh'', ''-c'', inner_command j resume]"

section \<open>Correcting, clearing, rolling back, killing\<close>

text \<open>The answer is the job, and the round to run if one was started.\<close>

definition correct ::
  "instant \<Rightarrow> int \<Rightarrow> world \<Rightarrow> ((job_row \<times> string) res \<times> (job_row \<times> host_row) option) \<times> world" where
  "correct now i w =
     (case job i (wd_db w) of
        Inl e \<Rightarrow> ((Inl e, None), w)
      | Inr (j, hname) \<Rightarrow>
          let most = int_setting (wd_db w) ''agent.rounds'' 3
          in if j_state j = ''running'' then ((Inl (Err ''the job is still running''), None), w)
             else if j_session j = ''''
               then ((Inl (Err ''the job never started a session on the remote; start a new job''), None), w)
             else if j_rounds j \<ge> most \<and> j_state j \<noteq> ''needs_you''
               then let reason = ''reached the round cap ('' @ itoa most @ ''); a person has to decide'';
                        w1 = noted ''job.needs_you'' hname
                               (''job '' @ itoa i @ '' on '' @ hname @ '' needs you: '' @ reason)
                               (try_db (end_job now i ''needs_you'' (j_report j) reason) w)
                    in ((job i (wd_db w1), None), w1)
             else case host (itoa (j_host j)) (wd_db w) of
               Inl e \<Rightarrow> ((Inl e, None), w)
             | Inr h \<Rightarrow>
                 let w1 = on_db (start_round i) w
                 in case job i (wd_db w1) of
                      Inl e \<Rightarrow> ((Inl e, None), w1)
                    | Inr (j1, n1) \<Rightarrow> ((Inr (j1, n1), Some (j1, h)), w1))"

definition clear :: "world \<Rightarrow> nat \<times> world" where
  "clear w =
     (let (gone, s) = clear_jobs (wd_db w)
      in (sum_list (map (length \<circ> snd) gone), w\<lparr>wd_db := s\<rparr>))"

definition or_none :: "string \<Rightarrow> string" where
  "or_none s = (if s = '''' then ''none'' else s)"

definition rolled_back :: "string \<Rightarrow> string" where
  "rolled_back out =
     (if out = ''restored'' then ''restored to the snapshot taken before it''
      else if out = ''merge-at-boot'' then ''the snapshot merges at the next boot; reboot when ready''
      else '''')"

definition rollback ::
  "string option \<Rightarrow> string + string \<Rightarrow> int \<Rightarrow> world \<Rightarrow> (job_row \<times> string) res \<times> world" where
  "rollback dial outcome i w =
     (case job i (wd_db w) of
        Inl e \<Rightarrow> (Inl e, w)
      | Inr (j, _) \<Rightarrow>
          if j_state j = ''running'' then (Inl (Err ''the job is still running''), w)
          else if j_snapshot j \<noteq> ''btrfs'' \<and> j_snapshot j \<noteq> ''lvm''
            then (Inl (Err (''job '' @ itoa i @ '' has no snapshot to roll back to ('' @ or_none (j_snapshot j) @
                    ''); the rebuild script is the way back'')), w)
          else case host (itoa (j_host j)) (wd_db w) of
            Inl e \<Rightarrow> (Inl e, w)
          | Inr h \<Rightarrow>
              (case dial of
                 Some e \<Rightarrow> (Inl (Err e), w)
               | None \<Rightarrow>
                   (case outcome of
                      Inl e \<Rightarrow>
                        (Inl (Err e), noted ''job.rollback_failed'' (h_name h)
                           (''job '' @ itoa i @ '' on '' @ h_name h @ '': rollback failed: '' @ e) w)
                    | Inr out \<Rightarrow>
                        let w1 = noted ''job.rolled_back'' (h_name h)
                                   (''job '' @ itoa i @ '' on '' @ h_name h @ '': '' @ rolled_back out)
                                   (on_db (set_job_snapshot i out) w)
                        in (job i (wd_db w1), w1))))"

text \<open>The unit the machine is asked to stop, if it comes to that, beside the answer.\<close>

definition kill ::
  "instant \<Rightarrow> bool \<Rightarrow> int \<Rightarrow> world \<Rightarrow> ((job_row \<times> string) res \<times> string option) \<times> world" where
  "kill now connects i w =
     (case job i (wd_db w) of
        Inl e \<Rightarrow> ((Inl e, None), w)
      | Inr (j, _) \<Rightarrow>
          if j_state j \<noteq> ''running'' then ((Inl (Err ''the job is not running''), None), w)
          else case host (itoa (j_host j)) (wd_db w) of
            Inl e \<Rightarrow> ((Inl e, None), w)
          | Inr h \<Rightarrow>
              if h_status h \<noteq> ''online''
              then ((Inl (Err (h_name h @ '' is offline; the job cannot be stopped until it reconnects'')), None), w)
              else case kill_job now i ''stopped by request'' (wd_db w) of
                Inl e \<Rightarrow> ((Inl e, None), w)
              | Inr (ok, s1) \<Rightarrow>
                  if \<not> ok then ((Inl (Err ''the job is not running''), None), w\<lparr>wd_db := s1\<rparr>)
                  else ((job i s1, if connects then Some (unit_name i (j_rounds j)) else None), w\<lparr>wd_db := s1\<rparr>))"

end
