(* ===== verification/AgentJobsLaws.thy ===== *)
theory AgentJobsLaws
  imports AgentJobs
begin

text \<open>
  What \<open>AgentJobs\<close> keeps: the lines of a round are stored in order whatever the ticker does, a round ends
  its job, and the states a job can be in.
\<close>

section \<open>Batches\<close>

lemma next_id_append: "next_id (ids @ [next_id ids]) = next_id ids + 1"
  by (simp add: next_id_def max_def)

text \<open>The rows \<open>ls\<close> become when appended to a file whose next identifier is \<open>k\<close>, but for their time.\<close>

definition stored :: "int \<Rightarrow> int \<Rightarrow> string list \<Rightarrow> (int \<times> int \<times> string) list" where
  "stored k i ls = zip (map (\<lambda>m. k + int m) [0..<length ls]) (map (\<lambda>l. (i, l)) ls)"

definition shape :: "job_event_row \<Rightarrow> int \<times> int \<times> string" where
  "shape e = (je_id e, je_job e, je_line e)"

lemma stored_Cons: "stored k i (l # ls) = (k, i, l) # stored (k + 1) i ls"
proof -
  have "map (\<lambda>m. k + int m) [0..<length (l # ls)] = k # map (\<lambda>m. k + 1 + int m) [0..<length ls]"
    by (simp add: upt_conv_Cons map_Suc_upt [symmetric] del: upt_Suc)
  then show ?thesis by (simp add: stored_def)
qed

lemma stored_append: "stored k i (ls @ ms) = stored k i ls @ stored (k + int (length ls)) i ms"
proof (induction ls arbitrary: k)
  case Nil
  show ?case by (simp add: stored_def)
next
  case (Cons l ls)
  have "k + 1 + int (length ls) = k + int (length (l # ls))" by simp
  with Cons show ?case by (simp only: append_Cons stored_Cons)
qed

lemma stored_Nil [simp]: "stored k i [] = []"
  by (simp add: stored_def)

text \<open>Appended rows, and nothing else.\<close>

definition appends :: "int \<Rightarrow> string list \<Rightarrow> db \<Rightarrow> db \<Rightarrow> bool" where
  "appends i ls s s' =
     (\<exists>news. s' = s\<lparr>tb_job_events := tb_job_events s @ news\<rparr> \<and>
        map shape news = stored (next_id (map je_id (tb_job_events s))) i ls)"

lemma appends_Nil [simp]: "appends i [] s s' \<longleftrightarrow> s' = s"
  by (auto simp: appends_def)

lemma next_id_stored:
  "map shape news = stored (next_id (map je_id old)) i ls \<Longrightarrow>
   next_id (map je_id (old @ news)) = next_id (map je_id old) + int (length ls)"
proof (induction ls arbitrary: old news)
  case Nil
  then show ?case by simp
next
  case (Cons l ls)
  then obtain e rest where news: "news = e # rest" and e: "je_id e = next_id (map je_id old)"
    and rest: "map shape rest = stored (next_id (map je_id old) + 1) i ls"
    by (cases news) (simp_all add: stored_Cons, simp add: shape_def)
  have "next_id (map je_id (old @ [e])) = next_id (map je_id old) + 1"
    using next_id_append [of "map je_id old"] by (simp add: e)
  with Cons.IH [of rest "old @ [e]"] rest show ?case by (simp add: news)
qed

lemma appends_trans: "appends i ls s s1 \<Longrightarrow> appends i ms s1 s2 \<Longrightarrow> appends i (ls @ ms) s s2"
proof -
  assume "appends i ls s s1" and "appends i ms s1 s2"
  then obtain xs ys where
    xs: "s1 = s\<lparr>tb_job_events := tb_job_events s @ xs\<rparr>"
      "map shape xs = stored (next_id (map je_id (tb_job_events s))) i ls"
    and ys: "s2 = s1\<lparr>tb_job_events := tb_job_events s1 @ ys\<rparr>"
      "map shape ys = stored (next_id (map je_id (tb_job_events s1))) i ms"
    by (auto simp: appends_def)
  have "next_id (map je_id (tb_job_events s1)) = next_id (map je_id (tb_job_events s)) + int (length ls)"
    using next_id_stored [OF xs(2)] by (simp add: xs(1))
  with xs ys show "appends i (ls @ ms) s s2"
    unfolding appends_def by (intro exI [of _ "xs @ ys"]) (simp add: stored_append)
qed

lemma append_job_events_appends:
  "i \<in> set (map j_id (tb_jobs s)) \<Longrightarrow>
   \<exists>s'. append_job_events now i ls s = Inr s' \<and> appends i ls s s' \<and> tb_jobs s' = tb_jobs s"
proof (induction ls arbitrary: s)
  case Nil
  show ?case by simp
next
  case (Cons l ls)
  obtain s1 where s1: "append_job_event now i l s = Inr s1" "tb_jobs s1 = tb_jobs s" "appends i [l] s s1"
    using Cons.prems by (fastforce simp: append_job_event_def appends_def stored_Cons shape_def)
  with Cons.IH [of s1] Cons.prems obtain s2 where
    s2: "append_job_events now i ls s1 = Inr s2" "appends i ls s1 s2" "tb_jobs s2 = tb_jobs s1"
    by auto
  with s1 appends_trans [OF s1(3) s2(2)] show ?case by simp
qed

lemma write_batch_appends:
  assumes "i \<in> set (map j_id (tb_jobs s))"
  shows "appends i buf s (write_batch now i buf s) \<and> tb_jobs (write_batch now i buf s) = tb_jobs s"
  using append_job_events_appends [OF assms, of now buf] by (auto simp: write_batch_def)

lemma batch_appends:
  "i \<in> set (map j_id (tb_jobs s)) \<Longrightarrow>
   appends i (buf @ map snd (concat (map line_of as))) s (batch i close as buf s)"
proof (induction i close as buf s rule: batch.induct)
  case (1 i close buf s)
  with write_batch_appends [OF this] show ?case by simp
next
  case (2 i close t l as buf s)
  let ?s1 = "write_batch t i (buf @ [l]) s"
  note w = write_batch_appends [OF 2(3), of "buf @ [l]" t]
  show ?case
  proof (cases "50 \<le> length (buf @ [l])")
    case True
    with 2(1) [OF True] 2(3) w appends_trans [of i "buf @ [l]" s ?s1] show ?thesis
      by (simp add: line_of_def)
  next
    case False
    with 2(2) [OF False] 2(3) show ?thesis by (simp add: line_of_def)
  qed
next
  case (3 i close t as buf s)
  note w = write_batch_appends [OF 3(2), of buf t]
  with 3 appends_trans [of i buf s "write_batch t i buf s"] show ?case by (simp add: line_of_def)
qed

text \<open>
  However the ticker cuts a round's output into batches, and wherever the fifty-line limit falls, the
  lines are stored each once, in the order they came, under consecutive identifiers, and nothing else
  changes.
\<close>

theorem lines_stored_in_order:
  assumes "i \<in> set (map j_id (tb_jobs s))"
  shows "\<exists>news. batch i close as [] s = s\<lparr>tb_job_events := tb_job_events s @ news\<rparr> \<and>
    map shape news =
      stored (next_id (map je_id (tb_job_events s))) i (map snd (concat (map line_of as)))"
  using batch_appends [OF assms, of "[]" as close] by (simp add: appends_def)

section \<open>Who the jobs are\<close>

definition ident :: "job_row \<Rightarrow> int \<times> int \<times> string" where
  "ident j = (j_id j, j_host j, j_state j)"

text \<open>The same jobs in the same states, under the same settings.\<close>

definition same_jobs :: "db \<Rightarrow> db \<Rightarrow> bool" where
  "same_jobs s s' = (map ident (tb_jobs s') = map ident (tb_jobs s) \<and> tb_settings s' = tb_settings s)"

named_theorems job_frame \<open>operations that leave the jobs who they are\<close>

lemma same_jobs_refl [simp]: "same_jobs s s"
  by (simp add: same_jobs_def)

lemma same_jobs_trans: "same_jobs s s1 \<Longrightarrow> same_jobs s1 s2 \<Longrightarrow> same_jobs s s2"
  by (simp add: same_jobs_def)

lemma same_update_job: "(\<And>j. ident (f j) = ident j) \<Longrightarrow> same_jobs s (update_job p f s)"
  by (simp add: same_jobs_def update_job_def map_update_where)

lemma same_set_columns [job_frame]:
  "same_jobs s (set_job_session i v s)" "same_jobs s (set_job_snapshot i v s)" "same_jobs s (set_job_changes i v s)"
  unfolding set_job_session_def set_job_snapshot_def set_job_changes_def
  by (rule same_update_job; simp add: ident_def)+

lemma same_append_job_event: "append_job_event now i l s = Inr s' \<Longrightarrow> same_jobs s s'"
  by (auto simp: append_job_event_def same_jobs_def split: if_splits)

lemma same_append_job_events: "append_job_events now i ls s = Inr s' \<Longrightarrow> same_jobs s s'"
  by (induction ls arbitrary: s) (auto split: sum.splits dest: same_append_job_event intro: same_jobs_trans)

lemma same_write_batch: "same_jobs s (write_batch t i buf s)"
  by (auto simp: write_batch_def split: sum.split dest: same_append_job_events)

lemma same_batch [job_frame]: "same_jobs s (batch i close as buf s)"
proof (induction i close as buf s rule: batch.induct)
  case (1 i close buf s)
  then show ?case by (simp add: same_write_batch)
next
  case (2 i close t l as buf s)
  then show ?case by (auto intro: same_jobs_trans [OF same_write_batch])
next
  case (3 i close t as buf s)
  then show ?case by (auto intro: same_jobs_trans [OF same_write_batch])
qed

lemma same_record_usage: "record_usage now hid i m a b c d e s = Inr s' \<Longrightarrow> same_jobs s s'"
  by (auto simp: record_usage_def same_jobs_def split: if_splits)

lemma same_noted [job_frame]: "same_jobs s (wd_db (noted k x m w)) \<longleftrightarrow> same_jobs s (wd_db w)"
  by (simp add: noted_def)

lemma same_on_db [job_frame]: "(\<And>t. same_jobs t (f t)) \<Longrightarrow> same_jobs (wd_db w) (wd_db (on_db f w))"
  by (simp add: on_db_def)

lemma same_try_db: "(\<And>t t'. f t = Inr t' \<Longrightarrow> same_jobs t t') \<Longrightarrow> same_jobs (wd_db w) (wd_db (try_db f w))"
  by (auto simp: try_db_def split: sum.split)

lemma same_log_line [job_frame]: "same_jobs (wd_db w) (wd_db (log_line now i l w))"
  unfolding log_line_def by (rule same_try_db) (rule same_append_job_event)

lemma same_digest: "digest parse i hid now l (r, w) = (r', w') \<Longrightarrow> same_jobs (wd_db w) (wd_db w')"
  by (auto simp: digest_def split: option.splits if_splits prod.splits bool.splits
      intro: same_on_db same_try_db same_set_columns dest: same_record_usage)

lemma same_digests:
  "fold (\<lambda>(t, l). digest parse i hid t l) xs (r, w) = (r', w') \<Longrightarrow> same_jobs (wd_db w) (wd_db w')"
proof (induction xs arbitrary: r w)
  case (Cons x xs)
  obtain t l where x: "x = (t, l)" by (cases x)
  obtain r1 w1 where d: "digest parse i hid t l (r, w) = (r1, w1)" by (cases "digest parse i hid t l (r, w)")
  with Cons.prems have "fold (\<lambda>(t, l). digest parse i hid t l) xs (r1, w1) = (r', w')" by (simp add: x)
  from same_jobs_trans [OF same_digest [OF d] Cons.IH [OF this]] show ?case .
qed simp

lemma same_read_stream [job_frame]:
  "read_stream parse ev i hid w = (r, w') \<Longrightarrow> same_jobs (wd_db w) (wd_db w')"
  unfolding read_stream_def Let_def
  by (drule same_digests) (blast intro: same_jobs_trans same_on_db same_batch)

lemma same_take_snapshot [job_frame]: "same_jobs (wd_db w) (wd_db (take_snapshot ev i w))"
  by (auto simp: take_snapshot_def split: sum.split
      intro: same_on_db same_set_columns same_jobs_trans [OF same_on_db same_log_line])

lemma same_check_hold [job_frame]: "same_jobs (wd_db w) (wd_db (check_hold enc now j hn res w))"
proof (cases res)
  case (Inl e)
  then show ?thesis by (simp add: check_hold_def Let_def same_noted same_log_line)
next
  case (Inr p)
  obtain a b where "p = (a, b)" by (cases p)
  with Inr show ?thesis
    by (auto simp: check_hold_def Let_def same_noted same_log_line
        intro: same_jobs_trans [OF _ same_log_line])
qed

lemma same_keep_changes [job_frame]: "same_jobs (wd_db w) (wd_db (keep_changes enc obj now i r w))"
  by (auto simp: keep_changes_def Let_def same_log_line split: prod.split intro: same_on_db same_set_columns)

section \<open>The end of a round\<close>

lemma map_sink: "(\<And>a b. lt a b = lt' (f a) (f b)) \<Longrightarrow> map f (sink lt x ys) = sink lt' (f x) (map f ys)"
  by (induction ys) auto

lemma map_fold_sink:
  "(\<And>a b. lt a b = lt' (f a) (f b)) \<Longrightarrow> map f (fold (sink lt) xs acc) = fold (sink lt') (map f xs) (map f acc)"
  by (induction xs arbitrary: acc) (auto simp: map_sink [of lt lt'])

lemma map_insertion_sort:
  "(\<And>a b. lt a b = lt' (f a) (f b)) \<Longrightarrow> map f (insertion_sort lt xs) = insertion_sort lt' (map f xs)"
  using map_fold_sink [of lt lt' f xs "[]"] by (simp add: insertion_sort_def rev_map [symmetric])

definition newest_ids :: "int \<Rightarrow> nat \<Rightarrow> (int \<times> int) list \<Rightarrow> int list" where
  "newest_ids h n ids = take n (insertion_sort (\<lambda>a b. a > b) (map fst (filter (\<lambda>p. snd p = h) ids)))"

lemma newest_jobs_ids: "newest_jobs h n s = newest_ids h n (map (\<lambda>j. (j_id j, j_host j)) (tb_jobs s))"
proof -
  have "map j_id (order_by (by_desc j_id) rows) = insertion_sort (\<lambda>a b. a > b) (map j_id rows)" for rows :: "job_row list"
    unfolding order_by_def by (rule map_insertion_sort) (simp add: by_desc_def)
  then show ?thesis by (simp add: newest_jobs_def newest_ids_def take_map [symmetric] filter_map comp_def)
qed

text \<open>What retention keeps of a machine's jobs, whatever their state: the newest by identifier.\<close>

definition kept_ids :: "int \<Rightarrow> db \<Rightarrow> int set" where
  "kept_ids hid s = set (newest_jobs hid (nat (max 5 (int_setting s ''jobs.retention'' 20))) s)"

lemma kept_ids_same:
  assumes "map (\<lambda>j. (j_id j, j_host j)) (tb_jobs s') = map (\<lambda>j. (j_id j, j_host j)) (tb_jobs s)"
    and "tb_settings s' = tb_settings s"
  shows "kept_ids hid s' = kept_ids hid s"
  using assms by (simp add: kept_ids_def newest_jobs_ids int_setting_def setting_def)

lemma same_jobs_ids: "same_jobs s s' \<Longrightarrow>
  map (\<lambda>j. (j_id j, j_host j)) (tb_jobs s') = map (\<lambda>j. (j_id j, j_host j)) (tb_jobs s)"
proof -
  assume "same_jobs s s'"
  then have "map (\<lambda>(i, h, st). (i, h)) (map ident (tb_jobs s')) = map (\<lambda>(i, h, st). (i, h)) (map ident (tb_jobs s))"
    by (simp add: same_jobs_def)
  then show ?thesis by (simp add: ident_def comp_def)
qed

text \<open>The job rows once a round has ended, as idents.\<close>

definition ended :: "int \<Rightarrow> string \<Rightarrow> int \<times> int \<times> string \<Rightarrow> int \<times> int \<times> string" where
  "ended i st = (\<lambda>(k, h, old). if k = i \<and> old = ''running'' then (k, h, st) else (k, h, old))"

definition stays :: "int \<Rightarrow> int set \<Rightarrow> int \<times> int \<times> string \<Rightarrow> bool" where
  "stays hid kept = (\<lambda>(k, h, st). h \<noteq> hid \<or> st = ''running'' \<or> k \<in> kept)"

lemma end_round_idents:
  assumes "st \<in> set job_states"
  shows "map ident (tb_jobs (wd_db (end_round now h i st report reason w))) =
    filter (stays (h_id h) (kept_ids (h_id h) (wd_db w))) (map (ended i st \<circ> ident) (tb_jobs (wd_db w)))"
proof -
  let ?s = "wd_db w"
  define s1 where "s1 = update_job (running_job i) (\<lambda>j. j\<lparr>j_state := st, j_report := report,
      j_reason := reason, j_ended := Some (sql_stamp now)\<rparr>) ?s"
  have e: "end_job now i st report reason ?s = Inr s1" using assms by (simp add: end_job_def s1_def)
  have ids: "map ident (tb_jobs s1) = map (ended i st \<circ> ident) (tb_jobs ?s)"
    by (auto simp: s1_def update_job_def update_where_def ended_def ident_def running_job_def)
  have "map (\<lambda>j. (j_id j, j_host j)) (tb_jobs s1) = map (\<lambda>j. (j_id j, j_host j)) (tb_jobs ?s)"
    by (auto simp: s1_def update_job_def update_where_def)
  moreover have "tb_settings s1 = tb_settings ?s" by (simp add: s1_def update_job_def)
  ultimately have k: "kept_ids (h_id h) s1 = kept_ids (h_id h) ?s" by (rule kept_ids_same)
  have final: "wd_db (end_round now h i st report reason w) =
      drop_jobs (trimmed (h_id h) (int_setting s1 ''jobs.retention'' 20) s1) s1"
    by (simp add: end_round_def Let_def try_db_def e on_db_def noted_def trim_jobs_def)
  have "trimmed (h_id h) (int_setting s1 ''jobs.retention'' 20) s1 j \<longleftrightarrow>
      \<not> stays (h_id h) (kept_ids (h_id h) s1) (ident j)" for j
    by (auto simp: trimmed_def stays_def ident_def kept_ids_def)
  then have "tb_jobs (wd_db (end_round now h i st report reason w)) =
      filter (\<lambda>j. stays (h_id h) (kept_ids (h_id h) s1) (ident j)) (tb_jobs s1)"
    by (simp add: final drop_jobs_def Let_def delete_where_def)
  then show ?thesis by (simp add: filter_map comp_def ids [symmetric, unfolded comp_def] k)
qed

definition went_well :: "round_env \<Rightarrow> bool" where
  "went_well ev = (rv_dial ev = None \<and> rv_arm ev = None \<and> rv_session ev = None \<and> rv_wait ev = Finished)"

lemma after_stream_end:
  assumes "rv_dial ev = None" "rv_arm ev = None" "rv_session ev = None"
  shows "\<exists>w1 reason. same_jobs (wd_db w) (wd_db w1) \<and>
     after_stream enc obj ev j h report w =
       end_round (rv_end ev) h (j_id j) (if went_well ev then ''done'' else ''failed'') report reason w1"
proof -
  define w1 where "w1 = (if trim_space (rv_stderr ev) = '''' then w
      else log_line (rv_end ev) (j_id j) (enc ''stderr'' (trim_space (rv_stderr ev))) w)"
  define w2 where "w2 = check_hold enc (rv_end ev) j (h_name h) (rv_hold ev) w1"
  define w3 where "w3 = keep_changes enc obj (rv_end ev) (j_id j) report w2"
  obtain reason where v: "verdict ev j = (if went_well ev then ''done'' else ''failed'', reason)"
    using assms by (cases "rv_wait ev") (auto simp: verdict_def went_well_def)
  have "same_jobs (wd_db w) (wd_db w1)" by (simp add: w1_def same_log_line)
  then have "same_jobs (wd_db w) (wd_db w3)"
    unfolding w3_def w2_def by (intro same_jobs_trans [OF _ same_keep_changes] same_jobs_trans [OF _ same_check_hold])
  moreover have "after_stream enc obj ev j h report w =
      end_round (rv_end ev) h (j_id j) (if went_well ev then ''done'' else ''failed'') report reason w3"
    by (simp add: after_stream_def Let_def w1_def [symmetric] w2_def [symmetric] w3_def [symmetric] v)
  ultimately show ?thesis by blast
qed

lemma round_job_end:
  assumes "\<not> late ev j"
  shows "\<exists>w1 report reason. same_jobs (wd_db w) (wd_db w1) \<and>
     round_job parse enc obj ev j h w =
       end_round (rv_end ev) h (j_id j) (if went_well ev then ''done'' else ''failed'') report reason w1"
proof (cases "rv_dial ev = None \<and> rv_arm ev = None \<and> rv_session ev = None")
  case True
  define w1 where "w1 = take_snapshot ev (j_id j) w"
  obtain report w2 where w2: "read_stream parse ev (j_id j) (h_id h) w1 = (report, w2)" by fastforce
  from True obtain w3 reason where w3: "same_jobs (wd_db w2) (wd_db w3)"
    "after_stream enc obj ev j h report w2 =
       end_round (rv_end ev) h (j_id j) (if went_well ev then ''done'' else ''failed'') report reason w3"
    using after_stream_end by blast
  have "same_jobs (wd_db w) (wd_db w2)"
    using same_jobs_trans [OF same_take_snapshot same_read_stream [OF w2 [unfolded w1_def]]] .
  from same_jobs_trans [OF this w3(1)] w3(2) show ?thesis
    using True assms by (auto simp: round_job_def Let_def by_deadline_def w1_def [symmetric] w2)
next
  case False
  then have "\<not> went_well ev" by (auto simp: went_well_def)
  moreover from False have "\<exists>w1 reason. same_jobs (wd_db w) (wd_db w1) \<and>
      round_job parse enc obj ev j h w = end_round (rv_end ev) h (j_id j) ''failed'' '''' reason w1"
    using assms by (cases "rv_dial ev"; cases "rv_arm ev"; cases "rv_session ev")
      (auto simp: round_job_def Let_def by_deadline_def intro: same_take_snapshot same_jobs_refl)
  ultimately show ?thesis by auto
qed

lemma round_job_late:
  assumes "late ev j"
  shows "same_jobs (wd_db w) (wd_db (round_job parse enc obj ev j h w))"
proof -
  obtain report w2 where w2: "read_stream parse ev (j_id j) (h_id h) (take_snapshot ev (j_id j) w) = (report, w2)"
    by fastforce
  have "same_jobs (wd_db w) (wd_db w2)"
    using same_jobs_trans [OF same_take_snapshot same_read_stream [OF w2]] .
  with assms w2 show ?thesis
    by (cases "rv_dial ev"; cases "rv_arm ev"; cases "rv_session ev")
      (auto simp: round_job_def Let_def by_deadline_def intro: same_take_snapshot)
qed

lemma round_job_idents:
  assumes "\<not> late ev j"
  shows "map ident (tb_jobs (wd_db (round_job parse enc obj ev j h w))) =
     filter (stays (h_id h) (kept_ids (h_id h) (wd_db w)))
       (map (ended (j_id j) (if went_well ev then ''done'' else ''failed'') \<circ> ident) (tb_jobs (wd_db w)))"
proof -
  obtain w1 report reason where w1: "same_jobs (wd_db w) (wd_db w1)"
    "round_job parse enc obj ev j h w =
       end_round (rv_end ev) h (j_id j) (if went_well ev then ''done'' else ''failed'') report reason w1"
    using round_job_end [OF assms] by blast
  have "(if went_well ev then ''done'' else ''failed'') \<in> set job_states" by (simp add: job_states_def)
  from end_round_idents [OF this, of "rv_end ev" h "j_id j" report reason w1]
  have "map ident (tb_jobs (wd_db (round_job parse enc obj ev j h w))) =
      filter (stays (h_id h) (kept_ids (h_id h) (wd_db w1)))
        (map (ended (j_id j) (if went_well ev then ''done'' else ''failed'')) (map ident (tb_jobs (wd_db w1))))"
    by (simp only: w1(2) map_map)
  moreover have "kept_ids (h_id h) (wd_db w1) = kept_ids (h_id h) (wd_db w)"
    using w1(1) same_jobs_ids [OF w1(1)] by (intro kept_ids_same) (simp_all add: same_jobs_def)
  moreover have ids: "map ident (tb_jobs (wd_db w1)) = map ident (tb_jobs (wd_db w))"
    using w1(1) by (simp add: same_jobs_def)
  ultimately show ?thesis by (simp only: ids map_map)
qed

lemma round_in_time:
  assumes "\<not> late ev j" and "keyed j_id (tb_jobs (wd_db w))" and "r \<in> set (tb_jobs (wd_db w))"
    and "j_id r = j_id j" and "j_host r = h_id h" and "j_state r = ''running''"
  shows "(\<forall>r' \<in> set (tb_jobs (wd_db (round_job parse enc obj ev j h w))). j_id r' = j_id j \<longrightarrow>
      j_state r' = (if went_well ev then ''done'' else ''failed'')) \<and>
    ((\<exists>r' \<in> set (tb_jobs (wd_db (round_job parse enc obj ev j h w))). j_id r' = j_id j) \<longleftrightarrow>
      j_id j \<in> kept_ids (h_id h) (wd_db w))"
proof -
  define st where "st = (if went_well ev then ''done'' else ''failed'')"
  let ?s = "wd_db w" and ?s' = "wd_db (round_job parse enc obj ev j h w)"
  let ?kept = "kept_ids (h_id h) ?s"
  have ids: "set (map ident (tb_jobs ?s')) =
      {x \<in> (\<lambda>q. ended (j_id j) st (ident q)) ` set (tb_jobs ?s). stays (h_id h) ?kept x}"
    using round_job_idents [OF assms(1), of parse enc obj h w] by (simp add: st_def comp_def)
  have only: "q = r" if "q \<in> set (tb_jobs ?s)" "j_id q = j_id j" for q
    using assms that by (metis keyed_def distinct_map inj_onD)
  have mine: "ended (j_id j) st (ident r) = (j_id j, h_id h, st)"
    using assms by (simp add: ended_def ident_def)
  have fst_ended: "fst (ended (j_id j) st (ident q)) = j_id q" for q
    by (simp add: ended_def ident_def)
  have there: "(j_id j, x, y) \<in> set (map ident (tb_jobs ?s')) \<longleftrightarrow> x = h_id h \<and> y = st \<and> j_id j \<in> ?kept" for x y
  proof
    assume "(j_id j, x, y) \<in> set (map ident (tb_jobs ?s'))"
    then obtain q where q: "q \<in> set (tb_jobs ?s)" "(j_id j, x, y) = ended (j_id j) st (ident q)"
      "stays (h_id h) ?kept (j_id j, x, y)" unfolding ids by auto
    with fst_ended [of q] only have "q = r" by (metis fst_conv)
    with q mine show "x = h_id h \<and> y = st \<and> j_id j \<in> ?kept"
      by (auto simp: stays_def st_def split: if_splits)
  next
    assume "x = h_id h \<and> y = st \<and> j_id j \<in> ?kept"
    with mine assms(3) show "(j_id j, x, y) \<in> set (map ident (tb_jobs ?s'))"
      unfolding ids by (auto simp: stays_def intro: rev_image_eqI)
  qed
  have row: "(j_id r', j_host r', j_state r') \<in> set (map ident (tb_jobs ?s'))" if "r' \<in> set (tb_jobs ?s')" for r'
    using that by (auto simp: ident_def)
  have "j_state r' = st" "j_id j \<in> ?kept" if "r' \<in> set (tb_jobs ?s')" "j_id r' = j_id j" for r'
    using row [OF that(1)] there that(2) by simp_all
  moreover have "\<exists>r' \<in> set (tb_jobs ?s'). j_id r' = j_id j" if "j_id j \<in> ?kept"
  proof -
    have "(j_id j, h_id h, st) \<in> set (map ident (tb_jobs ?s'))" using there that by simp
    then show ?thesis by (auto simp: ident_def)
  qed
  ultimately show ?thesis by (auto simp: st_def)
qed

text \<open>
  C27: A round that is over before its deadline ends its job: no row of the job is running afterwards, it is
  done exactly when every step went well, and it is there at all exactly if it is among the machine's
  newest jobs that retention keeps (so a job corrected after newer ones pushed it out is deleted with its
  report). A round that outlives its deadline leaves the job running.
\<close>

theorem round_ends_job:
  assumes "keyed j_id (tb_jobs (wd_db w))" and "r \<in> set (tb_jobs (wd_db w))"
    and "j_id r = j_id j" and "j_host r = h_id h" and "j_state r = ''running''"
  shows "(\<not> late ev j \<longrightarrow>
      (\<forall>r' \<in> set (tb_jobs (wd_db (round_job parse enc obj ev j h w))). j_id r' = j_id j \<longrightarrow>
         j_state r' = (if went_well ev then ''done'' else ''failed'')) \<and>
      ((\<exists>r' \<in> set (tb_jobs (wd_db (round_job parse enc obj ev j h w))). j_id r' = j_id j) \<longleftrightarrow>
         j_id j \<in> kept_ids (h_id h) (wd_db w))) \<and>
    (late ev j \<longrightarrow>
      (\<exists>r' \<in> set (tb_jobs (wd_db (round_job parse enc obj ev j h w))).
         j_id r' = j_id j \<and> j_state r' = ''running''))"
proof (intro conjI [of "_ \<longrightarrow> _"] impI)
  assume "\<not> late ev j"
  from round_in_time [OF this assms]
  show "(\<forall>r' \<in> set (tb_jobs (wd_db (round_job parse enc obj ev j h w))). j_id r' = j_id j \<longrightarrow>
         j_state r' = (if went_well ev then ''done'' else ''failed'')) \<and>
      ((\<exists>r' \<in> set (tb_jobs (wd_db (round_job parse enc obj ev j h w))). j_id r' = j_id j) \<longleftrightarrow>
         j_id j \<in> kept_ids (h_id h) (wd_db w))" .
next
  assume "late ev j"
  have "ident r \<in> set (map ident (tb_jobs (wd_db w)))" using assms(2) by simp
  also have "\<dots> = set (map ident (tb_jobs (wd_db (round_job parse enc obj ev j h w))))"
    using round_job_late [OF \<open>late ev j\<close>] by (simp only: same_jobs_def)
  finally show "\<exists>r' \<in> set (tb_jobs (wd_db (round_job parse enc obj ev j h w))).
      j_id r' = j_id j \<and> j_state r' = ''running''"
    using assms by (auto simp: ident_def)
qed

section \<open>The states of a job\<close>

text \<open>
  Every request and every piece of a round that writes to the store, in any order: rounds of several jobs
  and the requests interleave.
\<close>

inductive job_step :: "world \<Rightarrow> world \<Rightarrow> bool" where
  step_start: "job_step w (snd (start instruction now dial there h cwd txt win w))"
| step_correct: "job_step w (snd (correct now i w))"
| step_clear: "job_step w (snd (clear w))"
| step_rollback: "job_step w (snd (rollback dial outcome i w))"
| step_kill: "job_step w (snd (kill now connects i w))"
| step_snapshot: "job_step w (take_snapshot ev i w)"
| step_lines: "job_step w (on_db (batch i close as buf) w)"
| step_digest: "job_step w (snd (digest parse i hid now l (report, w)))"
| step_log: "job_step w (log_line now i l w)"
| step_hold: "job_step w (check_hold enc now j hn res w)"
| step_changes: "job_step w (keep_changes enc obj now i report w)"
| step_end: "st \<in> {''done'', ''failed''} \<Longrightarrow> job_step w (end_round now h i st report reason w)"

inductive job_reach :: "world \<Rightarrow> bool" where
  reach_new: "tb_jobs (wd_db w) = [] \<Longrightarrow> job_reach w"
| reach_step: "job_reach w \<Longrightarrow> job_step w w' \<Longrightarrow> job_reach w'"

definition sound_ids :: "(int \<times> int \<times> string) list \<Rightarrow> bool" where
  "sound_ids ids = (distinct (map fst ids) \<and> (\<forall>x \<in> set ids. snd (snd x) \<in> {''running'', ''done'', ''failed''}))"

definition sound_jobs :: "world \<Rightarrow> bool" where
  "sound_jobs w = sound_ids (map ident (tb_jobs (wd_db w)))"

lemma sound_jobs_iff:
  "sound_jobs w \<longleftrightarrow> keyed j_id (tb_jobs (wd_db w)) \<and>
     (\<forall>j \<in> set (tb_jobs (wd_db w)). j_state j \<in> {''running'', ''done'', ''failed''})"
  by (auto simp: sound_jobs_def sound_ids_def keyed_def ident_def comp_def)

lemma sound_same: "sound_jobs w \<Longrightarrow> same_jobs (wd_db w) (wd_db w') \<Longrightarrow> sound_jobs w'"
  by (simp add: sound_jobs_def same_jobs_def)

lemma sound_filter: "sound_ids ids \<Longrightarrow> sound_ids (filter p ids)"
  by (auto simp: sound_ids_def distinct_map_filter)

lemma sound_map:
  assumes "sound_ids ids" and "\<And>x. fst (f x) = fst x"
    and "\<And>x. snd (snd (f x)) \<in> {snd (snd x), ''running'', ''done'', ''failed''}"
  shows "sound_ids (map f ids)"
proof -
  have "map fst (map f ids) = map fst ids" using assms(2) by simp
  with assms(1,3) show ?thesis by (fastforce simp: sound_ids_def simp del: map_map)
qed

lemma sound_end_round:
  assumes "sound_jobs w" and "st \<in> {''done'', ''failed''}"
  shows "sound_jobs (end_round now h i st report reason w)"
proof -
  have "st \<in> set job_states" using assms(2) by (auto simp: job_states_def)
  moreover have "sound_ids (map (ended i st) (map ident (tb_jobs (wd_db w))))"
    using assms by (intro sound_map) (auto simp: sound_jobs_def ended_def)
  ultimately show ?thesis
    unfolding sound_jobs_def by (simp only: end_round_idents map_map [symmetric] sound_filter)
qed

lemma sound_start: "sound_jobs w \<Longrightarrow> sound_jobs (snd (start instruction now dial there h cwd txt win w))"
  using next_id_fresh [of "map j_id (tb_jobs (wd_db w))"]
  by (auto simp: start_def create_job_def Let_def sound_jobs_iff keyed_def
      split: sum.splits option.splits if_splits prod.splits)

lemma start_round_idents:
  "map ident (tb_jobs (start_round i s)) =
     map (\<lambda>(k, h, st). if k = i then (k, h, ''running'') else (k, h, st)) (map ident (tb_jobs s))"
  by (auto simp: start_round_def update_job_def update_where_def ident_def)

lemma with_host_mem: "(r, n) \<in> set (with_host s f rows) \<Longrightarrow> r \<in> set rows"
  by (auto simp: with_host_def split: option.splits)

lemma job_row: "job i s = Inr (j, n) \<Longrightarrow> j \<in> set (tb_jobs s) \<and> j_id j = i"
  using with_host_mem [of j n s j_host "filter (\<lambda>j. j_id j = i) (tb_jobs s)"]
  by (auto simp: job_def split: list.splits)

text \<open>At the cap nothing is recorded, as the job is not running.\<close>

lemma end_other_state:
  assumes "keyed j_id (tb_jobs s)" and "job i s = Inr (j, n)" and "j_state j \<noteq> ''running''"
  shows "end_job now i ''needs_you'' report reason s = Inr s"
proof -
  have "j \<in> set (tb_jobs s)" "j_id j = i" using job_row [OF assms(2)] by auto
  with assms(1,3) have none: "\<forall>r \<in> set (tb_jobs s). \<not> running_job i r"
    by (metis running_job_def keyed_def distinct_map inj_onD)
  then show ?thesis
    by (simp add: end_job_def affected_zero [THEN iffD2] update_job_def update_where_none)
qed

lemma sound_correct: "sound_jobs w \<Longrightarrow> sound_jobs (snd (correct now i w))"
proof -
  assume s: "sound_jobs w"
  have round: "sound_jobs (on_db (start_round i) w)"
  proof -
    have "wd_db (on_db (start_round i) w) = start_round i (wd_db w)" by (simp add: on_db_def)
    with s show ?thesis unfolding sound_jobs_def
      by (simp only: start_round_idents) (rule sound_map; auto split: prod.splits)
  qed
  have cap: "sound_jobs (noted k x m (try_db (end_job now i ''needs_you'' report reason) w))"
    if "job i (wd_db w) = Inr (j, n)" "j_state j \<noteq> ''running''" for k x m report reason j n
    using s end_other_state [OF _ that] by (auto simp: sound_jobs_iff noted_def try_db_def)
  show ?thesis
    using s round cap by (fastforce simp: correct_def Let_def split: sum.splits prod.splits)
qed

lemma sound_kill: "sound_jobs w \<Longrightarrow> sound_jobs (snd (kill now connects i w))"
proof -
  assume s: "sound_jobs w"
  have "s' = wd_db w" if "kill_job now i r (wd_db w) = Inr (ok, s')" for r ok s'
    using that by (auto simp: kill_job_def Let_def job_states_def affected_zero update_job_def update_where_none
        split: if_splits)
  then have "wd_db (snd (kill now connects i w)) = wd_db w"
    by (auto simp: kill_def split: sum.splits prod.splits)
  with s show ?thesis by (simp add: sound_jobs_iff)
qed

lemma sound_step: "job_step w w' \<Longrightarrow> sound_jobs w \<Longrightarrow> sound_jobs w'"
proof (induction rule: job_step.induct)
  case (step_clear w)
  have "map ident (tb_jobs (wd_db (snd (clear w)))) =
      filter (\<lambda>x. snd (snd x) = ''running'') (map ident (tb_jobs (wd_db w)))"
    by (simp add: clear_def clear_jobs_def Let_def drop_jobs_def delete_where_def filter_map comp_def ident_def)
  with step_clear show ?case by (simp only: sound_jobs_def sound_filter)
next
  case (step_rollback w dial outcome i)
  have "same_jobs (wd_db w) (wd_db (snd (rollback dial outcome i w)))"
    by (auto simp: rollback_def Let_def same_noted split: sum.split prod.split option.split
        intro: same_on_db same_set_columns)
  with step_rollback show ?case by (rule sound_same)
next
  case (step_digest w parse i hid now l report)
  then show ?case by (metis prod.collapse sound_same same_digest)
qed (auto intro: sound_start sound_correct sound_kill sound_end_round sound_same same_take_snapshot
    same_on_db same_batch same_log_line same_check_hold same_keep_changes)

lemma sound_reach: "job_reach w \<Longrightarrow> sound_jobs w"
proof (induction rule: job_reach.induct)
  case (reach_new w)
  then show ?case by (simp add: sound_jobs_def sound_ids_def)
next
  case (reach_step w w')
  then show ?case by (blast intro: sound_step)
qed

text \<open>
  However requests and rounds interleave, a job is running, done or failed and nothing else: none is
  ever marked as needing a person. So once a job has had its rounds, a correction starts no round and
  changes nothing in the store, and no state is left from which one would run.
\<close>

theorem no_job_ever_needs_you:
  assumes "job_reach w"
  shows "(\<forall>j \<in> set (tb_jobs (wd_db w)). j_state j \<in> {''running'', ''done'', ''failed''}) \<and>
    (\<forall>i j n now. job i (wd_db w) = Inr (j, n) \<and> int_setting (wd_db w) ''agent.rounds'' 3 \<le> j_rounds j \<longrightarrow>
       snd (fst (correct now i w)) = None \<and> wd_db (snd (correct now i w)) = wd_db w)"
proof (intro conjI allI impI)
  have s: "sound_jobs w" using sound_reach [OF assms] .
  then show "\<forall>j \<in> set (tb_jobs (wd_db w)). j_state j \<in> {''running'', ''done'', ''failed''}"
    by (simp add: sound_jobs_iff)
  fix i j n now
  assume a: "job i (wd_db w) = Inr (j, n) \<and> int_setting (wd_db w) ''agent.rounds'' 3 \<le> j_rounds j"
  then have "j_state j \<noteq> ''needs_you''"
    using s job_row [of i "wd_db w" j n] by (auto simp: sound_jobs_iff)
  moreover have "try_db (end_job now i ''needs_you'' (j_report j) reason) w = w"
    if "j_state j \<noteq> ''running''" for reason
    using s a that end_other_state [of "wd_db w" i j n] by (simp add: sound_jobs_iff try_db_def)
  ultimately show "snd (fst (correct now i w)) = None" "wd_db (snd (correct now i w)) = wd_db w"
    using a by (auto simp: correct_def Let_def noted_def)
qed

section \<open>A machine with one job\<close>

definition nas :: host_row where
  "nas = \<lparr>h_id = 1, h_name = ''nas'', h_kind = ''linux'', h_addr = ''10.0.0.2'', h_port = 22, h_user = ''homedash'',
     h_key = '''', h_status = ''online'',
     h_facts = no_facts\<lparr>f_agent := Some \<lparr>ag_version = ''1'', ag_model = '''', ag_account = True\<rparr>\<rparr>,
     h_model = ''m'', h_rebuild = '''', h_vault = '''', h_revoked = '''', h_enrolled = 0, h_last_seen = None\<rparr>"

definition one_round :: world where
  "one_round = \<lparr>wd_db = empty_db\<lparr>tb_hosts := [nas], tb_settings := [(''agent.rounds'', ''1'')]\<rparr>, wd_notes = []\<rparr>"

definition started :: world where
  "started = snd (start '''' 0 None (\<lambda>_. True) nas '''' ''fix it'' 0 one_round)"

definition talked :: world where
  "talked = snd (digest (\<lambda>_. Some \<lparr>oe_type = ''session'', oe_id = ''s1'', oe_model = '''', oe_message = None,
     oe_usage = None\<rparr>) 1 1 0 ''{}'' ('''', started))"

definition over :: world where
  "over = end_round 0 nas 1 ''done'' ''ok'' '''' talked"

definition nas_job :: job_row where
  "nas_job = \<lparr>j_id = 1, j_host = 1, j_cwd = agent_home, j_window = None, j_model = ''m'', j_text = ''fix it'',
     j_rounds = 1, j_state = ''running'', j_timeout = 1200, j_session = '''', j_snapshot = '''', j_report = '''',
     j_changes = '''', j_reason = '''', j_started = 0, j_ended = None\<rparr>"

lemma started_db: "wd_db started = (wd_db one_round)\<lparr>tb_jobs := [nas_job]\<rparr>"
proof -
  have "trim_space ''fix it'' = ''fix it''" by code_simp
  then show ?thesis
    by (simp add: started_def start_def vet_start_def nas_def no_facts_def create_job_def host_known_def job_def
        with_host_def host_name_of_def one_round_def empty_db_def next_id_def Let_def int_setting_def setting_def
        parse_int_def sql_stamp_def agent_home_def agent_account_def nas_job_def)
qed

lemma over_db: "wd_db over = (wd_db one_round)\<lparr>tb_jobs :=
    [nas_job\<lparr>j_session := ''s1'', j_state := ''done'', j_report := ''ok'', j_ended := Some 0\<rparr>]\<rparr>"
proof -
  have talked: "wd_db talked = (wd_db one_round)\<lparr>tb_jobs := [nas_job\<lparr>j_session := ''s1''\<rparr>]\<rparr>"
    by (simp add: talked_def digest_def on_db_def started_db set_job_session_def update_job_def update_where_def
        nas_job_def)
  show ?thesis
    by (simp add: over_def end_round_def try_db_def talked end_job_def job_states_def update_job_def update_where_def
        running_job_def nas_job_def on_db_def trim_jobs_def drop_jobs_def trimmed_def newest_jobs_def order_by_def
        insertion_sort_def nas_def Let_def delete_where_def one_round_def empty_db_def sql_stamp_def)
qed

lemma over_reach: "job_reach over"
proof -
  have "job_reach one_round" by (rule reach_new) (simp add: one_round_def empty_db_def)
  then have "job_reach started" unfolding started_def by (rule reach_step) (rule step_start)
  then have "job_reach talked" unfolding talked_def by (rule reach_step) (rule step_digest)
  then show ?thesis unfolding over_def by (rule reach_step) (rule step_end, simp)
qed

theorem lines_stored_in_order_witness:
  "\<exists>news. batch 1 9 [(1, Line ''a''), (2, Tick), (3, Line ''b'')] [] (wd_db started) =
     (wd_db started)\<lparr>tb_job_events := tb_job_events (wd_db started) @ news\<rparr> \<and>
   map shape news = [(1, 1, ''a''), (2, 1, ''b'')]"
proof -
  have "1 \<in> set (map j_id (tb_jobs (wd_db started)))" by (simp add: started_db nas_job_def)
  from lines_stored_in_order [OF this, of 9 "[(1, Line ''a''), (2, Tick), (3, Line ''b'')]"]
  show ?thesis by (simp add: line_of_def stored_Cons next_id_def started_db one_round_def empty_db_def)
qed

theorem round_ends_job_witness:
  "\<exists>r \<in> set (tb_jobs (wd_db (round_job (\<lambda>_. None) (\<lambda>a b. b) (\<lambda>_. Inl '''')
     \<lparr>rv_begin = 0, rv_start = 0, rv_end = 5, rv_dial = None, rv_snapshot = Inr ''btrfs'', rv_arm = None, rv_session = None,
      rv_lines = [(1, Line ''hello'')], rv_stderr = '''', rv_wait = Finished, rv_hold = Inr ('''', '''')\<rparr>
     nas_job nas started))). j_id r = 1 \<and> j_state r = ''done''"
proof -
  have "keyed j_id (tb_jobs (wd_db started))" "nas_job \<in> set (tb_jobs (wd_db started))"
    "j_host nas_job = h_id nas" "j_state nas_job = ''running''"
    by (simp_all add: started_db nas_job_def keyed_def nas_def)
  note * = round_ends_job [OF this(1,2) refl this(3,4), where parse = "\<lambda>_. None" and enc = "\<lambda>a b. b"
      and obj = "\<lambda>_. Inl ''''"
      and ev = "\<lparr>rv_begin = 0, rv_start = 0, rv_end = 5, rv_dial = None, rv_snapshot = Inr ''btrfs'', rv_arm = None,
        rv_session = None, rv_lines = [(1, Line ''hello'')], rv_stderr = '''', rv_wait = Finished,
        rv_hold = Inr ('''', '''')\<rparr>"]
  have "j_id nas_job = 1" by (simp add: nas_job_def)
  moreover have "1 \<in> kept_ids (h_id nas) (wd_db started)"
    by (simp add: kept_ids_def newest_jobs_def order_by_def insertion_sort_def started_db nas_job_def nas_def)
  moreover have "\<not> late \<lparr>rv_begin = 0, rv_start = 0, rv_end = 5, rv_dial = None, rv_snapshot = Inr ''btrfs'', rv_arm = None,
      rv_session = None, rv_lines = [(1, Line ''hello'')], rv_stderr = '''', rv_wait = Finished,
      rv_hold = Inr ('''', '''')\<rparr> nas_job"
    by (simp add: late_def nas_job_def clock_defs)
  ultimately show ?thesis using * by (auto simp: went_well_def)
qed

theorem no_job_ever_needs_you_witness:
  "(\<exists>j. tb_jobs (wd_db over) = [j] \<and> j_state j = ''done'' \<and> j_session j = ''s1'') \<and>
   (\<forall>now. snd (fst (correct now 1 over)) = None \<and> wd_db (snd (correct now 1 over)) = wd_db over)"
proof -
  have "job 1 (wd_db over) = Inr (nas_job\<lparr>j_session := ''s1'', j_state := ''done'', j_report := ''ok'',
      j_ended := Some 0\<rparr>, ''nas'')"
    by (simp add: over_db job_def with_host_def host_name_of_def nas_job_def one_round_def nas_def empty_db_def)
  moreover have "int_setting (wd_db over) ''agent.rounds'' 3 = 1"
  proof -
    have "parse_int (trim_space ''1'') = Some 1" by code_simp
    then show ?thesis by (simp add: int_setting_def over_db one_round_def setting_def)
  qed
  ultimately show ?thesis
    using no_job_ever_needs_you [OF over_reach] by (simp add: over_db nas_job_def)
qed

end
