(* ===== verification/Placement.thy ===== *)
theory Placement
  imports StoreUsage StoreJobs
begin

text \<open>
  \<open>internal/apps/placement.go\<close>: where a stack should go. Sizes are 64-bit and shifted as the code shifts
  them; scores, free-space samples and slopes are floats there and reals here. \<open>gateway\<close> answers which
  machine a cluster's path is on.
\<close>

section \<open>Needs and verdicts\<close>

record needs =
  ne_cores :: int
  ne_memory :: int
  ne_disk :: int
  ne_gpu :: bool
  ne_cluster :: string

record verdict =
  ve_host :: string
  ve_id :: int
  ve_fits :: bool
  ve_score :: real
  ve_why :: string

definition mb :: int where "mb = 2 ^ 20"
definition gb :: int where "gb = 2 ^ 30"

section \<open>The trend of a disk\<close>

text \<open>The samples of the root mount: the time in days, the free bytes.\<close>

definition root_samples :: "((int \<times> int) \<times> metric_row) list \<Rightarrow> (real \<times> real) list" where
  "root_samples ms =
     List.map_filter (\<lambda>(k, m). map_option (\<lambda>f. (real_of_int (fst k) / 86400, f)) (map_of (me_mounts m) ''/'')) ms"

text \<open>The first step that is larger than all before it: its position and size.\<close>

fun worst_step :: "nat \<Rightarrow> nat option \<times> real \<Rightarrow> real list \<Rightarrow> nat option \<times> real" where
  "worst_step i acc (a # b # ys) =
     worst_step (Suc i) (if \<bar>b - a\<bar> > \<bar>snd acc\<bar> then (Some (Suc i), b - a) else acc) (b # ys)"
| "worst_step i acc ys = acc"

definition drop_burst :: "real list \<Rightarrow> real list" where
  "drop_burst ys =
     (let whole = List.last ys - List.hd ys
      in if whole = 0 then ys
         else case worst_step 0 (None, 0) ys of
           (None, _) \<Rightarrow> ys
         | (Some w, jump) \<Rightarrow>
             if \<bar>jump\<bar> < 5 / 10 * \<bar>whole\<bar> then ys
             else take w ys @ map (\<lambda>y. y - jump) (drop w ys))"

definition slope :: "real list \<Rightarrow> real list \<Rightarrow> real" where
  "slope xs ys =
     (let n = real (length xs); sx = sum_list xs; sy = sum_list ys;
          sxx = sum_list (map (\<lambda>x. x * x) xs); sxy = sum_list (map (\<lambda>(x, y). x * y) (zip xs ys));
          den = n * sxx - sx * sx
      in if den = 0 then 0 else (n * sxy - sx * sy) / den)"

text \<open>Bytes per day, and the days of history behind it; zero and zero without enough of them.\<close>

definition trend :: "instant \<Rightarrow> int \<Rightarrow> db \<Rightarrow> real \<times> real" where
  "trend now i s =
     (let ms = metric_series now i (24 * 7) s; pts = root_samples ms;
          xs = map fst pts; ys = map snd pts
      in if length ms < 12 then (0, 0)
         else if length xs < 12 \<or> List.last xs - List.hd xs < 5 / 10 then (0, 0)
         else let n = real (length xs);
                  den = n * sum_list (map (\<lambda>x. x * x) xs) - sum_list xs * sum_list xs
              in if den = 0 then (0, 0) else (slope xs (drop_burst ys), List.last xs - List.hd xs))"

definition fill_days :: "int \<Rightarrow> real \<Rightarrow> real \<Rightarrow> real" where
  "fill_days free per_day days_known =
     (let d0 = real_of_int free / - per_day; d = (if d0 < 0 then 0 else d0)
      in if days_known > 0 \<and> d > days_known then days_known else d)"

definition fill_sentence :: "int \<Rightarrow> real \<Rightarrow> real \<Rightarrow> string" where
  "fill_sentence free per_day days_known =
     (let rate = \<lfloor>- per_day\<rfloor> div mb; d = fill_days free per_day days_known
      in ''is filling at '' @ itoa rate @ '' MB a day and would be full '' @
         (if d < 1 then ''today with the stack on it''
          else ''in about '' @ itoa \<lfloor>d\<rfloor> @ '' days with the stack on it''))"

section \<open>One machine\<close>

definition root_free :: "mount list \<Rightarrow> int" where
  "root_free ms = fold (\<lambda>m free. if m_path m = ''/'' then m_free m else free) ms 0"

definition mem_avail :: "facts \<Rightarrow> int" where
  "mem_avail f = i64 (f_mem_total f - f_mem_used f)"

definition need_mem :: "needs \<Rightarrow> int" where
  "need_mem n = i64 (ne_memory n * mb)"

definition need_disk :: "needs \<Rightarrow> int" where
  "need_disk n = i64 (ne_disk n * gb)"

text \<open>Why a machine does not fit, in the order of the checks.\<close>

definition misfit :: "needs \<Rightarrow> facts \<Rightarrow> real \<Rightarrow> real \<Rightarrow> string option" where
  "misfit n f per_day days_known =
     (if f_docker f = None then Some ''has no Docker''
      else if ne_gpu n \<and> f_gpu f = None then Some ''has no GPU''
      else if f_cores f < ne_cores n
        then Some (''has '' @ itoa (f_cores f) @ '' cores, the stack wants '' @ itoa (ne_cores n))
      else if mem_avail f < go_div (i64 (need_mem n * 3)) 2
        then Some (''has '' @ itoa (mem_avail f div mb) @ '' MB free, which leaves no margin over the '' @
               itoa (ne_memory n) @ '' MB the stack wants'')
      else if root_free (f_mounts f) < go_div (i64 (need_disk n * 6)) 5
        then Some (''has '' @ itoa (root_free (f_mounts f) div gb) @ '' GB free, which leaves no margin over the '' @
               itoa (ne_disk n) @ '' GB the stack wants'')
      else if per_day < 0 \<and> need_disk n > 0 \<and>
              fill_days (i64 (root_free (f_mounts f) - need_disk n)) per_day days_known < 30
        then Some (fill_sentence (i64 (root_free (f_mounts f) - need_disk n)) per_day days_known)
      else None)"

definition fit_score :: "needs \<Rightarrow> facts \<Rightarrow> real \<Rightarrow> real" where
  "fit_score n f per_day =
     (let free = root_free (f_mounts f);
          mem_score = real_of_int (i64 (mem_avail f - need_mem n)) / real_of_int (i64 (f_mem_total f + 1));
          disk_score = real_of_int (i64 (free - need_disk n)) / real_of_int (i64 (free + need_disk n + 1));
          core_score = real_of_int (f_cores f - ne_cores n) / real_of_int (f_cores f + 1);
          load = f_load1 f / real_of_int (f_cores f + 1)
      in 4 / 10 * mem_score + 35 / 100 * disk_score + 15 / 100 * core_score - 1 / 10 * load -
         (if per_day < 0 then 2 / 10 else 0))"

definition fit_why :: "needs \<Rightarrow> facts \<Rightarrow> real \<Rightarrow> string" where
  "fit_why n f per_day =
     ''leaves '' @ itoa (i64 (mem_avail f - need_mem n) div mb) @ '' MB of memory and '' @
     itoa (i64 (root_free (f_mounts f) - need_disk n) div gb) @ '' GB of disk after the stack'' @
     (if per_day < 0
      then '', though its disk is filling at '' @ itoa (\<lfloor>- per_day\<rfloor> div mb) @ '' MB a day'' else '''') @
     (if f_gpu f \<noteq> None \<and> ne_gpu n then '', and has the GPU'' else '''')"

definition no_fit :: "host_row \<Rightarrow> string \<Rightarrow> verdict" where
  "no_fit h why = \<lparr>ve_host = h_name h, ve_id = h_id h, ve_fits = False, ve_score = 0, ve_why = why\<rparr>"

definition judge :: "instant \<Rightarrow> needs \<Rightarrow> host_row option \<Rightarrow> db \<Rightarrow> host_row \<Rightarrow> verdict" where
  "judge now n only s h =
     (let (per_day, days_known) = trend now (h_id h) s; f = h_facts h
      in if (case only of None \<Rightarrow> False | Some g \<Rightarrow> h_id h \<noteq> h_id g)
         then no_fit h (''the stack wants cluster '' @ ne_cluster n @ '', whose path is on '' @
                (case only of None \<Rightarrow> '''' | Some g \<Rightarrow> h_name g))
         else if h_status h \<noteq> ''online'' then no_fit h (''is '' @ h_status h)
         else case misfit n f per_day days_known of
           Some why \<Rightarrow> no_fit h why
         | None \<Rightarrow> \<lparr>ve_host = h_name h, ve_id = h_id h, ve_fits = True, ve_score = fit_score n f per_day,
                      ve_why = fit_why n f per_day\<rparr>)"

section \<open>The ranking\<close>

text \<open>The ones that fit first, the better score first. Go's sort does not fix the order of equals.\<close>

definition better :: "verdict \<Rightarrow> verdict \<Rightarrow> bool" where
  "better a b = (if ve_fits a \<noteq> ve_fits b then ve_fits a else ve_score a > ve_score b)"

definition place_stack ::
  "instant \<Rightarrow> needs \<Rightarrow> (string \<Rightarrow> host_row res) option \<Rightarrow> db \<Rightarrow> verdict list res" where
  "place_stack now n gateway s =
     (case (ne_cluster n \<noteq> '''', gateway) of
        (True, Some g) \<Rightarrow>
          (case g (ne_cluster n) of
             Inl e \<Rightarrow> Inl e
           | Inr h \<Rightarrow> Inr (insertion_sort better (map (judge now n (Some h) s) (hosts s))))
      | _ \<Rightarrow> Inr (insertion_sort better (map (judge now n None s) (hosts s))))"

interpretation placement: sort_order better
  by unfold_locales (auto simp: better_def split: if_splits)

end
