(* ===== verification/PlacementLaws.thy ===== *)
theory PlacementLaws
  imports Placement
begin

text \<open>
  What the ranking of \<open>Placement\<close> promises: a machine that fits leaves the margin, the order is by score,
  and what a falling trend makes of a machine.
\<close>

section \<open>Margins\<close>

lemma go_div_pos: "0 \<le> a \<Longrightarrow> 0 < b \<Longrightarrow> go_div a b = a div b"
  by (rule go_div_nonneg)

lemma need_sizes:
  "0 \<le> ne_memory n \<Longrightarrow> ne_memory n < 2 ^ 41 \<Longrightarrow>
     need_mem n = ne_memory n * mb \<and> go_div (i64 (need_mem n * 3)) 2 = ne_memory n * mb * 3 div 2"
  "0 \<le> ne_disk n \<Longrightarrow> ne_disk n < 2 ^ 30 \<Longrightarrow>
     need_disk n = ne_disk n * gb \<and> go_div (i64 (need_disk n * 6)) 5 = ne_disk n * gb * 6 div 5"
  by (simp_all add: need_mem_def need_disk_def mb_def gb_def i64_id in_i64_def go_div_pos)

lemma judge_fits:
  assumes "ve_fits (judge now n only s h)"
  shows "h_status h = ''online'' \<and> (\<forall>g. only = Some g \<longrightarrow> h_id h = h_id g) \<and>
    misfit n (h_facts h) (fst (trend now (h_id h) s)) (snd (trend now (h_id h) s)) = None"
  using assms by (auto simp: judge_def Let_def no_fit_def split: prod.splits if_splits option.splits)

lemma judge_names: "ve_id (judge now n only s h) = h_id h" "ve_host (judge now n only s h) = h_name h"
  by (auto simp: judge_def Let_def no_fit_def split: prod.split option.split)

lemma misfit_None:
  assumes "misfit n f per_day days_known = None"
  shows "f_docker f \<noteq> None" "ne_gpu n \<longrightarrow> f_gpu f \<noteq> None" "ne_cores n \<le> f_cores f"
    "go_div (i64 (need_mem n * 3)) 2 \<le> mem_avail f"
    "go_div (i64 (need_disk n * 6)) 5 \<le> root_free (f_mounts f)"
    "per_day < 0 \<and> need_disk n > 0 \<longrightarrow>
       30 \<le> fill_days (i64 (root_free (f_mounts f) - need_disk n)) per_day days_known"
  using assms by (auto simp: misfit_def split: if_splits)

lemma place_stack_cases:
  assumes "place_stack now n gateway s = Inr vs"
  obtains only where "vs = insertion_sort better (map (judge now n only s) (hosts s))"
    "ne_cluster n \<noteq> '''' \<Longrightarrow> gateway \<noteq> None \<Longrightarrow> \<exists>g. only = Some g \<and> the gateway (ne_cluster n) = Inr g"
  using assms by (auto simp: place_stack_def split: prod.splits bool.splits option.splits sum.splits)

text \<open>
  C25: Every machine is ranked once, those that fit before those that do not and the better score first;
  and a machine that fits is online with Docker (and the GPU) and has, over the stack, half of the memory
  and a fifth of the disk again that the stack wants. Sizes here are below 2 EiB of memory and of disk:
  the ones beyond wrap.
\<close>

theorem placement_leaves_margin:
  assumes "place_stack now n gateway s = Inr vs"
    and "0 \<le> ne_memory n" "ne_memory n < 2 ^ 41" "0 \<le> ne_disk n" "ne_disk n < 2 ^ 30"
  shows "mset (map ve_id vs) = mset (map h_id (hosts s)) \<and> sorted_wrt (\<lambda>a b. \<not> better b a) vs \<and>
    (\<forall>v \<in> set vs. ve_fits v \<longrightarrow> (\<exists>h \<in> set (hosts s). ve_id v = h_id h \<and> h_status h = ''online'' \<and>
       f_docker (h_facts h) \<noteq> None \<and> (ne_gpu n \<longrightarrow> f_gpu (h_facts h) \<noteq> None) \<and>
       ne_cores n \<le> f_cores (h_facts h) \<and>
       ne_memory n * mb * 3 div 2 \<le> mem_avail (h_facts h) \<and>
       ne_disk n * gb * 6 div 5 \<le> root_free (f_mounts (h_facts h))))"
proof -
  obtain only where vs: "vs = insertion_sort better (map (judge now n only s) (hosts s))"
    by (rule place_stack_cases [OF assms(1)])
  have "mset (map ve_id vs) = image_mset ve_id (mset vs)" by simp
  also have "\<dots> = mset (map h_id (hosts s))"
    by (simp add: vs image_mset.compositionality comp_def judge_names)
  finally have once: "mset (map ve_id vs) = mset (map h_id (hosts s))" .
  have "sorted_wrt (\<lambda>a b. \<not> better b a) vs"
    using placement.insertion_sort_ordered [of "map (judge now n only s) (hosts s)"]
    by (simp add: vs placement.ordered_def)
  moreover have "\<exists>h \<in> set (hosts s). ve_id v = h_id h \<and> h_status h = ''online'' \<and>
       f_docker (h_facts h) \<noteq> None \<and> (ne_gpu n \<longrightarrow> f_gpu (h_facts h) \<noteq> None) \<and>
       ne_cores n \<le> f_cores (h_facts h) \<and>
       ne_memory n * mb * 3 div 2 \<le> mem_avail (h_facts h) \<and>
       ne_disk n * gb * 6 div 5 \<le> root_free (f_mounts (h_facts h))" if "v \<in> set vs" "ve_fits v" for v
  proof -
    obtain h where h: "h \<in> set (hosts s)" "v = judge now n only s h" using \<open>v \<in> set vs\<close> by (auto simp: vs)
    note fits = judge_fits [of now n only s h] and sizes = need_sizes(1) [OF assms(2,3)] need_sizes(2) [OF assms(4,5)]
    show ?thesis
      using h that(2) fits misfit_None [of n "h_facts h" "fst (trend now (h_id h) s)" "snd (trend now (h_id h) s)"]
        sizes judge_names(1) [of now n only s h] by (intro bexI [of _ h]) auto
  qed
  ultimately show ?thesis using once by blast
qed

section \<open>A falling trend\<close>

lemma series_times:
  assumes "\<forall>m \<in> set (tb_metrics s). me_at m \<le> sql_stamp now"
    and "\<forall>m \<in> set (tb_metrics_hourly s). me_at m \<le> rfc3339 now"
    and "(k, m) \<in> set (metric_series now i hours s)"
  shows "since now hours \<le> fst k \<and> fst k \<le> rfc3339 now"
proof -
  have "me_at m div 1000 \<le> rfc3339 now" if "m \<in> set (tb_metrics s)" for m
    using assms(1) that zdiv_mono1 [of "me_at m" "sql_stamp now" 1000]
    by (simp add: sql_stamp_def rfc3339_def second_def zdiv_zmult2_eq [symmetric])
  with assms(2,3) show ?thesis by (auto simp: metric_series_def Let_def not_before_def)
qed

lemma root_samples_mem: "(x, y) \<in> set (root_samples ms) \<Longrightarrow> \<exists>k m. (k, m) \<in> set ms \<and> x = real_of_int (fst k) / 86400"
  by (auto simp: root_samples_def List.map_filter_def) blast

lemma trend_window:
  assumes "\<forall>m \<in> set (tb_metrics s). me_at m \<le> sql_stamp now"
    and "\<forall>m \<in> set (tb_metrics_hourly s). me_at m \<le> rfc3339 now"
    and "trend now i s = (per_day, days_known)" and "per_day < 0"
  shows "0 < days_known \<and> days_known \<le> 7"
proof -
  define pts where "pts = root_samples (metric_series now i 168 s)"
  have w: "days_known = List.last (map fst pts) - List.hd (map fst pts)" "5 / 10 \<le> days_known" "pts \<noteq> []"
    using assms(3,4) by (auto simp: trend_def Let_def pts_def [symmetric] split: if_splits)
  have week: "since now 168 = rfc3339 now - 604800"
  proof -
    have "now - 168 * hour = now + (- 604800) * second" by (simp add: clock_defs)
    then show ?thesis
      unfolding since_def rfc3339_def by (simp only: div_mult_self1) (simp add: second_def)
  qed
  have span: "real_of_int (rfc3339 now - 604800) \<le> x * 86400 \<and> x * 86400 \<le> real_of_int (rfc3339 now)" if "x \<in> set (map fst pts)"
    for x :: real
  proof -
    from that obtain y where "(x, y) \<in> set pts" by auto
    then obtain k m where "(k, m) \<in> set (metric_series now i 168 s)" "x = real_of_int (fst k) / 86400"
      using root_samples_mem unfolding pts_def by blast
    with series_times [OF assms(1,2) this(1)] week show ?thesis by simp
  qed
  have "List.last (map fst pts) \<in> set (map fst pts)" "List.hd (map fst pts) \<in> set (map fst pts)"
    using w(3) by (intro last_in_set hd_in_set; simp)+
  then have "List.last (map fst pts) * 86400 \<le> real_of_int (rfc3339 now)"
    "real_of_int (rfc3339 now - 604800) \<le> List.hd (map fst pts) * 86400"
    using span by blast+
  with w(1,2) show ?thesis by simp
qed

text \<open>
  A machine whose root disk shows any downward trend, however slow, never fits a stack that wants
  disk: the days it would hold are capped at the history behind the trend, at most a week, and then
  compared with thirty.
\<close>

theorem filling_disk_never_fits:
  assumes "\<forall>m \<in> set (tb_metrics s). me_at m \<le> sql_stamp now"
    and "\<forall>m \<in> set (tb_metrics_hourly s). me_at m \<le> rfc3339 now"
    and "fst (trend now (h_id h) s) < 0" and "0 < need_disk n"
  shows "\<not> ve_fits (judge now n only s h)"
proof
  assume "ve_fits (judge now n only s h)"
  then have "30 \<le> fill_days (i64 (root_free (f_mounts (h_facts h)) - need_disk n)) (fst (trend now (h_id h) s))
      (snd (trend now (h_id h) s))"
    using judge_fits misfit_None(6) assms(3,4) by blast
  moreover have "0 < snd (trend now (h_id h) s) \<and> snd (trend now (h_id h) s) \<le> 7"
    using trend_window [OF assms(1,2) surjective_pairing assms(3)] .
  ultimately show False by (auto simp: fill_days_def Let_def split: if_splits)
qed

section \<open>Two machines\<close>

definition box :: host_row where
  "box = \<lparr>h_id = 1, h_name = ''box'', h_kind = ''linux'', h_addr = ''10.0.0.2'', h_port = 22, h_user = ''homedash'',
     h_key = '''', h_status = ''online'',
     h_facts = no_facts\<lparr>f_cores := 4, f_mem_total := 8 * mb, f_docker := Some ''27'',
       f_mounts := [\<lparr>m_path = ''/'', m_fs = ''ext4'', m_size = 100 * gb, m_free = 50 * gb, m_source = ''''\<rparr>]\<rparr>,
     h_model = '''', h_rebuild = '''', h_vault = '''', h_revoked = '''', h_enrolled = 0, h_last_seen = None\<rparr>"

definition small :: needs where
  "small = \<lparr>ne_cores = 1, ne_memory = 2, ne_disk = 1, ne_gpu = False, ne_cluster = ''''\<rparr>"

theorem placement_leaves_margin_witness:
  "\<exists>v. place_stack 0 small None (empty_db\<lparr>tb_hosts := [box]\<rparr>) = Inr [v] \<and> ve_fits v \<and>
     ne_memory small * mb * 3 div 2 \<le> mem_avail (h_facts box)"
proof -
  let ?s = "empty_db\<lparr>tb_hosts := [box]\<rparr>"
  have hosts: "hosts ?s = [box]"
    by (simp add: hosts_def order_by_def insertion_sort_def scan_host_def box_def unwrap_rebuild_script_def)
  have trend: "trend 0 1 ?s = (0, 0)"
    by (simp add: trend_def metric_series_def empty_db_def order_by_def insertion_sort_def Let_def)
  have "misfit small (h_facts box) 0 0 = None"
    by (simp add: misfit_def small_def box_def no_facts_def mem_avail_def need_mem_def need_disk_def root_free_def
        mb_def gb_def i64_def go_div_def sgn_if)
  then have fits: "ve_fits (judge 0 small None ?s box)"
    using trend by (simp add: judge_def Let_def box_def)
  have p: "place_stack 0 small None ?s = Inr [judge 0 small None ?s box]"
    by (simp add: place_stack_def small_def hosts insertion_sort_def)
  have sizes: "0 \<le> ne_memory small" "ne_memory small < 2 ^ 41" "0 \<le> ne_disk small" "ne_disk small < 2 ^ 30"
    by (simp_all add: small_def)
  have "ne_memory small * mb * 3 div 2 \<le> mem_avail (h_facts box)"
    using placement_leaves_margin [OF p sizes] fits by (auto simp: hosts)
  with p fits show ?thesis by blast
qed

text \<open>Thirteen hours in each of which a byte is written.\<close>

definition slow_leak :: db where
  "slow_leak = empty_db\<lparr>tb_metrics_hourly := map (\<lambda>k. \<lparr>me_host = 1, me_at = 3600 * int k, me_used = 0, me_total = 0,
     me_load = 0, me_gpu = 0, me_mounts = [(''/'', 1000 - real k)]\<rparr>) [0..<13]\<rparr>"

lemma slow_leak_rows:
  "metric_series (13 * hour) 1 168 slow_leak =
     map (\<lambda>k. ((3600 * int k, 1000), tb_metrics_hourly slow_leak ! k)) [0..<13]"
  by (simp add: slow_leak_def metric_series_def since_def rfc3339_def clock_defs empty_db_def order_by_def
      insertion_sort_def then_by_def by_asc_def Let_def upt_rec)

lemma root_samples_map:
  "(\<And>k. k \<in> set ks \<Longrightarrow> me_mounts (r k) = [(''/'', f k)]) \<Longrightarrow>
     root_samples (map (\<lambda>k. (t k, r k)) ks) = map (\<lambda>k. (real_of_int (fst (t k)) / 86400, f k)) ks"
  by (induction ks) (auto simp: root_samples_def List.map_filter_simps)

lemma slow_leak_samples:
  "root_samples (metric_series (13 * hour) 1 168 slow_leak) =
     map (\<lambda>k. (real_of_int (3600 * int k) / 86400, 1000 - real k)) [0..<13]"
  unfolding slow_leak_rows by (subst root_samples_map [where f = "\<lambda>k. 1000 - real k"]) (auto simp: slow_leak_def)

lemma slow_leak_trend: "fst (trend (13 * hour) 1 slow_leak) < 0"
proof -
  have upt: "[0..<13] = [0, 1, 2, 3, 4, 5, 6, 7, 8, 9, 10, 11, 12 :: nat]" by code_simp
  have len: "length (metric_series (13 * hour) 1 168 slow_leak) = 13" by (simp add: slow_leak_rows)
  have steady: "drop_burst (map (\<lambda>k. 1000 - real k) [0..<13]) = map (\<lambda>k. 1000 - real k) [0..<13]"
    by (simp add: upt drop_burst_def Let_def)
  show ?thesis
    by (simp add: trend_def Let_def slow_leak_samples len comp_def steady) (simp add: upt slope_def)
qed

theorem filling_disk_never_fits_witness:
  "\<not> ve_fits (judge (13 * hour) small None slow_leak box)"
proof (rule filling_disk_never_fits)
  show "\<forall>m \<in> set (tb_metrics slow_leak). me_at m \<le> sql_stamp (13 * hour)"
    by (simp add: slow_leak_def empty_db_def)
  show "\<forall>m \<in> set (tb_metrics_hourly slow_leak). me_at m \<le> rfc3339 (13 * hour)"
    by (auto simp: slow_leak_def rfc3339_def clock_defs)
  show "fst (trend (13 * hour) (h_id box) slow_leak) < 0" using slow_leak_trend by (simp add: box_def)
  show "0 < need_disk small" by (simp add: need_disk_def small_def gb_def i64_def)
qed

end
