(* ===== verification/FleetDoor.thy ===== *)
theory FleetDoor
  imports AgentJobs TaskSched StorageClusters
begin

text \<open>
  The gated door of \<open>internal/fleet/fleet.go\<close> and what it stands on in \<open>internal/remote/remote.go\<close>: a
  command line run on a machine, a file written there, the lock. The hub is its store, the notifications
  sent, every command given to a machine with its standard input, and which mounts were full at the last
  sweep. What the machines answer is the parameter \<open>machine\<close>, a function of all that was sent so far.
\<close>

section \<open>The hub and its machines\<close>

record hub =
  hb_db :: db
  hb_notes :: "(string \<times> string \<times> string) list"
  hb_sent :: "(int \<times> string list \<times> string) list"
  hb_full :: "string \<Rightarrow> bool option"

definition say :: "string \<Rightarrow> string \<Rightarrow> string \<Rightarrow> hub \<Rightarrow> hub" where
  "say kind subject msg s = s\<lparr>hb_notes := hb_notes s @ [(kind, subject, msg)]\<rparr>"

definition store_do :: "(db \<Rightarrow> db) \<Rightarrow> hub \<Rightarrow> hub" where
  "store_do f s = s\<lparr>hb_db := f (hb_db s)\<rparr>"

text \<open>Exit status, standard output, standard error; or no answer.\<close>

datatype reply = KeyRefused | Unreached string | Ran int string string

type_synonym machine = "(int \<times> string list \<times> string) list \<Rightarrow> reply"

definition answer :: "reply \<Rightarrow> (int \<times> string \<times> string) res" where
  "answer r = (case r of KeyRefused \<Rightarrow> Inl (Err ''host key mismatch'') | Unreached e \<Rightarrow> Inl (Err e)
                       | Ran status out err \<Rightarrow> Inr (status, out, err))"

definition ask :: "machine \<Rightarrow> host_row \<Rightarrow> string list \<Rightarrow> string \<Rightarrow> hub \<Rightarrow> reply \<times> hub" where
  "ask m h argv stdin s =
     (let log = hb_sent s @ [(h_id h, argv, stdin)] in (m log, s\<lparr>hb_sent := log\<rparr>))"

text \<open>The last line, at most 300 bytes of it.\<close>

definition tail_of :: "string \<Rightarrow> string" where
  "tail_of txt =
     (let l = after_last newline (trim_space txt)
      in if length l > 300 then drop (length l - 300) l else l)"

section \<open>Writing a file\<close>

definition write_script :: string where
  "write_script = concat
     [''set -e; p='', dq, ''$1'', dq, ''; m='', dq, ''$2'', dq, ''; d=$(dirname '', dq, ''$p'', dq,
      ''); mkdir -p '', dq, ''$d'', dq, ''; t=$(mktemp '', dq, ''$d/.homedash.XXXXXX'', dq, ''); cat > '', dq, ''$t'', dq,
      ''; chmod '', dq, ''$m'', dq, '' '', dq, ''$t'', dq, ''; mv -f '', dq, ''$t'', dq, '' '', dq, ''$p'', dq]"

definition put_argv :: "string \<Rightarrow> string \<Rightarrow> bool \<Rightarrow> string list" where
  "put_argv path mode sudo =
     (if sudo then [''sudo'', ''-n''] else []) @ [''sh'', ''-c'', write_script, ''sh'', path, mode]"

definition put_file ::
  "machine \<Rightarrow> host_row \<Rightarrow> string \<Rightarrow> string \<Rightarrow> string \<Rightarrow> bool \<Rightarrow> hub \<Rightarrow> err option \<times> hub" where
  "put_file m h path content mode sudo s =
     (case ask m h (put_argv path mode sudo) content s of (r, s1) \<Rightarrow>
        (case answer r of
           Inl e \<Rightarrow> (Some e, s1)
         | Inr (status, out, err) \<Rightarrow>
             (if status \<noteq> 0 then Some (Err (''write '' @ path @ '': '' @ trim_space err)) else None, s1)))"

definition guarded_path :: "string \<Rightarrow> bool" where
  "guarded_path path = (has_prefix path ''/etc/ssh/'' \<or> has_suffix path ''authorized_keys'')"

definition write_file ::
  "machine \<Rightarrow> host_row \<Rightarrow> string \<Rightarrow> string \<Rightarrow> string \<Rightarrow> bool \<Rightarrow> hub \<Rightarrow> err option \<times> hub" where
  "write_file m h path content mode sudo s =
     (if guarded_path path
      then let e = Refusal (''editing SSH config by hand: '' @ path)
           in (Some e, say ''gate.refused'' (h_name h) (h_name h @ '': '' @ err_text e) s)
      else put_file m h path content mode sudo s)"

section \<open>Running a command\<close>

definition system_devices :: "host_row \<Rightarrow> string list option" where
  "system_devices h =
     (if f_system_devices (h_facts h) = [] then None else Some (f_system_devices (h_facts h)))"

text \<open>
  \<open>Fleet.Run\<close>. \<open>fw\<close> is \<open>None\<close> without forwards; with them it answers what opening the connection and
  the forwards met.
\<close>

definition run_gated ::
  "machine \<Rightarrow> host_row \<Rightarrow> string \<Rightarrow> string option option \<Rightarrow> hub \<Rightarrow> (int \<times> string \<times> string) res \<times> hub" where
  "run_gated m h command fw s =
     (case check_on command (system_devices h) of
        Some e \<Rightarrow> (Inl e, say ''gate.refused'' (h_name h) (h_name h @ '': '' @ err_text e) s)
      | None \<Rightarrow>
          (case fw of
             Some (Some e) \<Rightarrow> (Inl (Err e), s)
           | _ \<Rightarrow> (case ask m h [''sh'', ''-lc'', command] '''' s of (r, s1) \<Rightarrow> (answer r, s1))))"

section \<open>The lock\<close>

definition lock_path :: string where
  "lock_path = ''/etc/ssh/sshd_config.d/00-homedash-lock.conf''"

definition lock_config :: string where
  "lock_config = lines_of
     [''# Written by HomeDash. The lock: only the hub'' @ sq @ ''s account may log in.'',
      ''PasswordAuthentication no'', ''KbdInteractiveAuthentication no'', ''PermitRootLogin no'',
      ''AllowUsers homedash'']"

definition lock_script :: string where
  "lock_script = lines_of
     [''set -e'',
      ''p='' @ dq @ ''$1'' @ dq,
      ''check() { sshd -T -C user='' @ dq @ ''$1'' @ dq @ '',host=x,addr=127.0.0.1 2>/dev/null; }'',
      ''mv -f '' @ dq @ ''$p.candidate'' @ dq @ '' '' @ dq @ ''$p'' @ dq,
      ''hub=$(check homedash | awk '' @ sq @ ''$1=='' @ dq @ ''allowusers'' @ dq @ ''{u=$2} $1=='' @ dq @
        ''pubkeyauthentication'' @ dq @ ''{k=$2} END{print u'' @ dq @ '' '' @ dq @ ''k}'' @ sq @ '')'',
      ''other=$(check nobody | awk '' @ sq @ ''$1=='' @ dq @ ''passwordauthentication'' @ dq @ ''{a=$2} $1=='' @ dq @
        ''permitrootlogin'' @ dq @ ''{r=$2} END{print a'' @ dq @ '' '' @ dq @ ''r}'' @ sq @ '')'',
      ''if [ '' @ dq @ ''$hub'' @ dq @ '' != '' @ dq @ ''homedash yes'' @ dq @ '' ]; then rm -f '' @ dq @ ''$p'' @ dq @
        ''; echo '' @ dq @ ''the hub'' @ sq @ ''s account would be refused ($hub)'' @ dq @ '' >&2; exit 3; fi'',
      ''if [ '' @ dq @ ''$other'' @ dq @ '' != '' @ dq @ ''no no'' @ dq @ '' ]; then rm -f '' @ dq @ ''$p'' @ dq @
        ''; echo '' @ dq @ ''others would still be allowed ($other)'' @ dq @ '' >&2; exit 4; fi'',
      ''sshd -t'',
      ''systemctl reload ssh 2>/dev/null || systemctl reload sshd'']"

definition apply_lock :: "machine \<Rightarrow> host_row \<Rightarrow> hub \<Rightarrow> err option \<times> hub" where
  "apply_lock m h s =
     (case put_file m h (lock_path @ ''.candidate'') lock_config ''0644'' True s of
        (Some e, s1) \<Rightarrow> (Some e, s1)
      | (None, s1) \<Rightarrow>
          (case ask m h [''sudo'', ''-n'', ''sh'', ''-s'', ''--'', lock_path] lock_script s1 of (r, s2) \<Rightarrow>
             (case answer r of
                Inl e \<Rightarrow> (Some e, s2)
              | Inr (status, out, err) \<Rightarrow>
                  (if status \<noteq> 0 then Some (Err (''lock refused, machine unchanged: '' @ tail_of err)) else None, s2))))"

definition unlock_argv :: "string list" where
  "unlock_argv =
     [''sudo'', ''-n'', ''sh'', ''-c'',
      ''rm -f '' @ lock_path @ '' && (systemctl reload ssh || systemctl reload sshd)'']"

text \<open>\<open>dial\<close> is the error of the connection, if it does not open.\<close>

definition set_lock :: "machine \<Rightarrow> string option \<Rightarrow> host_row \<Rightarrow> bool \<Rightarrow> hub \<Rightarrow> err option \<times> hub" where
  "set_lock m dial h locked s =
     (case dial of
        Some e \<Rightarrow> (Some (Err e), s)
      | None \<Rightarrow>
          if locked then apply_lock m h s
          else (case ask m h unlock_argv '''' s of (r, s1) \<Rightarrow>
                  (case answer r of
                     Inl e \<Rightarrow> (Some e, s1)
                   | Inr (status, out, err) \<Rightarrow>
                       (if status \<noteq> 0 then Some (Err (''unlock: '' @ tail_of err)) else None, s1))))"

end
