(* ===== verification/Fleet.thy ===== *)
theory Fleet
  imports FleetDoor StoreSecrets StoreUsage
begin

text \<open>
  \<open>internal/fleet/fleet.go\<close>, \<open>mobile.go\<close> and the addresses of \<open>hold.go\<close>: enrollment of machines and
  pairing of phones, the credentials a machine is given and the vault it may ask, the job door, the
  heartbeat, fullness of mounts, the models that fit. Randomness, the embedded scripts and templates,
  and the JSON library are parameters: the environment \<open>fleet_env\<close> holds what does not change.
\<close>

section \<open>The environment\<close>

record fleet_env =
  fe_url :: string
  fe_pub_key :: string
  fe_omp :: string
  fe_llmfit_version :: string
  fe_llmfit :: string
  fe_vault_addr :: string
  fe_vault :: "string res"
  fe_hook :: string
  fe_layout :: "string \<Rightarrow> string \<Rightarrow> string \<Rightarrow> string res"
  fe_enroll :: "string \<Rightarrow> string \<Rightarrow> string \<Rightarrow> string \<Rightarrow> string res"
  fe_facts_script :: string
  fe_facts :: "string \<Rightarrow> (facts \<times> bool) option"

text \<open>
  \<open>fe_facts\<close> reads a facts object: \<open>None\<close> if the text is no JSON, else what is read from it and whether
  every field had its type. \<open>fe_layout\<close> renders \<open>layout.sh\<close> from the models file, the hook and the
  secret helper; \<open>fe_enroll\<close> renders \<open>enroll.sh\<close> from the address, code, name and layout.
\<close>

definition router_forward :: string where
  "router_forward = ''127.0.0.1:11435''"

definition models_yml :: string where
  "models_yml = lines_of
     [''# Written by HomeDash. The hub'' @ sq @ ''s pool as a provider: homedash/<model>.'', ''providers:'', ''  homedash:'',
      ''    baseUrl: http://'' @ router_forward @ ''/v1'', ''    api: openai-completions'', ''    auth: none'',
      ''    discovery:'', ''      type: ollama'', ''      timeoutMs: 5000'']"

definition secret_helper :: string where
  "secret_helper = lines_of
     [''#!/bin/sh'', ''# HomeDash: read a secret the hub granted this machine, while a job runs.'',
      ''[ -n '' @ dq @ ''$1'' @ dq @ '' ] || { echo '' @ dq @ ''usage: homedash-secret NAME'' @ dq @ '' >&2; exit 2; }'',
      ''exec curl -fsS '' @ dq @ ''http://'' @ router_forward @ ''/secrets/$1'' @ dq]"

section \<open>Codes\<close>

definition code_alphabet :: string where
  "code_alphabet = ''abcdefghjkmnpqrstuvwxyz23456789''"

definition random_code :: "nat list \<Rightarrow> string" where
  "random_code bytes = map (\<lambda>b. code_alphabet ! (b mod length code_alphabet)) bytes"

text \<open>The code and the line to paste.\<close>

definition new_code ::
  "fleet_env \<Rightarrow> instant \<Rightarrow> nat list \<Rightarrow> string \<Rightarrow> string \<Rightarrow> hub \<Rightarrow> (code_row \<times> string) res \<times> hub" where
  "new_code ev now bytes name0 rebuild_from s =
     (let name = trim_space name0
      in if name = '''' then (Inl (Err ''a remote needs a name''), s)
         else case (if rebuild_from = '''' then Inr 0
                    else case host rebuild_from (hb_db s) of Inl e \<Rightarrow> Inl e | Inr h \<Rightarrow> Inr (h_id h)) of
           Inl e \<Rightarrow> (Inl e, s)
         | Inr from_id \<Rightarrow>
             (case new_enroll_code now (random_code bytes) name ''compute'' from_id (hb_db s) of
                Inl e \<Rightarrow> (Inl e, s)
              | Inr (c, d) \<Rightarrow>
                  (Inr (c, ''curl -fsSL '' @ fe_url ev @ ''/enroll/'' @ random_code bytes @ '' | sudo sh''),
                   s\<lparr>hb_db := d\<rparr>)))"

definition new_mobile_code ::
  "fleet_env \<Rightarrow> instant \<Rightarrow> nat list \<Rightarrow> string \<Rightarrow> hub \<Rightarrow> (code_row \<times> string) res \<times> hub" where
  "new_mobile_code ev now bytes name0 s =
     (let name = trim_space name0
      in if name = '''' then (Inl (Err ''a remote needs a name''), s)
         else case new_enroll_code now (random_code bytes) name ''mobile'' 0 (hb_db s) of
           Inl e \<Rightarrow> (Inl e, s)
         | Inr (c, d) \<Rightarrow> (Inr (c, fe_url ev @ ''/enroll/'' @ random_code bytes), s\<lparr>hb_db := d\<rparr>))"

definition layout_head :: "fleet_env \<Rightarrow> string \<Rightarrow> string" where
  "layout_head ev model = lines_of
     [''PUBKEY='' @ shq (trim_space (fe_pub_key ev)), ''OMP_RELEASE='' @ shq (fe_omp ev),
      ''LLMFIT_VERSION='' @ shq (fe_llmfit_version ev), ''LLMFIT_RELEASE='' @ shq (fe_llmfit ev),
      ''DEFAULT_MODEL='' @ shq model]"

definition layout :: "fleet_env \<Rightarrow> db \<Rightarrow> string res" where
  "layout ev d =
     (case fe_layout ev (trim_space models_yml) (fe_hook ev) (trim_space secret_helper) of
        Inl e \<Rightarrow> Inl e
      | Inr body \<Rightarrow> Inr (layout_head ev (remote_model d) @ body))"

text \<open>The script of a live code; the empty text for one that is not.\<close>

definition enroll_script_for :: "fleet_env \<Rightarrow> instant \<Rightarrow> string \<Rightarrow> db \<Rightarrow> string res" where
  "enroll_script_for ev now c d =
     (case enroll_code now c d of
        None \<Rightarrow> Inr ''''
      | Some r \<Rightarrow>
          if c_kind r = ''mobile'' then Inr ''''
          else (case layout ev d of Inl e \<Rightarrow> Inl e | Inr l \<Rightarrow> fe_enroll ev (fe_url ev) c (c_name r) l))"

section \<open>Credentials\<close>

definition pi_class_floor :: int where
  "pi_class_floor = 1400 * 1048576"

definition snapshot_argv :: "fleet_env \<Rightarrow> string list" where
  "snapshot_argv ev =
     [''sudo'', ''-n'', ''env'', ''HOME='' @ agent_home, ''PATH=/usr/local/bin:/usr/bin:/bin'', ''sh'', ''-c'',
      ''cd && rm -f .omp/agent/models.db .omp/agent/models.db-* && OMP_AUTH_BROKER_URL=http://'' @ fe_vault_addr ev @
      '' omp models >/dev/null 2>&1; test -f .omp/cache/auth-broker-snapshot.enc'']"

definition agent_owner :: string where
  "agent_owner = agent_account @ '':'' @ agent_account"

text \<open>
  A fresh token for the machine, kept and written there, then a credential snapshot pulled; \<open>fw\<close> is the
  error of the forwards. The answer is whether the snapshot was skipped.
\<close>

definition pull_snapshot ::
  "fleet_env \<Rightarrow> machine \<Rightarrow> string option \<Rightarrow> host_row \<Rightarrow> hub \<Rightarrow> bool res \<times> hub" where
  "pull_snapshot ev m fw h s =
     (if f_mem_total (h_facts h) > 0 \<and> f_mem_total (h_facts h) < pi_class_floor then (Inr True, s)
      else case fw of
        Some e \<Rightarrow> (Inl (Err e), s)
      | None \<Rightarrow>
          (case ask m h (snapshot_argv ev) '''' s of (r, s1) \<Rightarrow>
             (case answer r of
                Inl e \<Rightarrow> (Inl e, s1)
              | Inr (status, out, err) \<Rightarrow>
                  (if status \<noteq> 0 then Inl (Err (''omp did not write a credential snapshot: '' @ tail_of err))
                   else Inr False, s1))))"

definition own_files :: "machine \<Rightarrow> host_row \<Rightarrow> hub \<Rightarrow> err option \<times> hub" where
  "own_files m h s =
     (case ask m h [''sudo'', ''-n'', ''chown'', agent_owner, agent_home @ ''/.omp/auth-broker.token'',
                    agent_home @ ''/.omp/agent/models.yml''] '''' s of (r, s1) \<Rightarrow>
        (case answer r of
           Inl e \<Rightarrow> (Some e, s1)
         | Inr (status, out, err) \<Rightarrow>
             (if status \<noteq> 0 then Some (Err (''chown: '' @ tail_of err)) else None, s1)))"

definition deliver_credentials ::
  "fleet_env \<Rightarrow> machine \<Rightarrow> string \<Rightarrow> string option \<Rightarrow> host_row \<Rightarrow> hub \<Rightarrow> bool res \<times> hub" where
  "deliver_credentials ev m token fw h s =
     (case fe_vault ev of
        Inl e \<Rightarrow> (Inl e, s)
      | Inr _ \<Rightarrow>
          (case put_file m h (agent_home @ ''/.omp/auth-broker.token'') token ''0600'' True
                  (store_do (set_vault_token (h_id h) token) s) of
             (Some e, s1) \<Rightarrow> (Inl e, s1)
           | (None, s1) \<Rightarrow>
               (case put_file m h (agent_home @ ''/.omp/agent/models.yml'') models_yml ''0600'' True s1 of
                  (Some e, s2) \<Rightarrow> (Inl e, s2)
                | (None, s2) \<Rightarrow>
                    (case own_files m h s2 of
                       (Some e, s3) \<Rightarrow> (Inl e, s3)
                     | (None, s3) \<Rightarrow> pull_snapshot ev m fw h s3))))"

definition credentials_failed :: "host_row \<Rightarrow> err \<Rightarrow> hub \<Rightarrow> hub" where
  "credentials_failed h e s =
     say ''agent.credentials_failed'' (h_name h) (h_name h @ '': credential pull failed: '' @ err_text e) s"

definition update_credentials ::
  "fleet_env \<Rightarrow> machine \<Rightarrow> string \<Rightarrow> string option \<Rightarrow> string option \<Rightarrow> host_row \<Rightarrow> hub \<Rightarrow> err option \<times> hub" where
  "update_credentials ev m token dial fw h s =
     (case dial of
        Some e \<Rightarrow> (Some (Err e), s)
      | None \<Rightarrow>
          (case deliver_credentials ev m token fw h s of
             (Inl e, s1) \<Rightarrow> (Some e, credentials_failed h e s1)
           | (Inr _, s1) \<Rightarrow> (None, store_do (set_credentials_revoked (h_id h) '''') s1)))"

definition revoke_credentials :: "string \<Rightarrow> host_row \<Rightarrow> hub \<Rightarrow> hub" where
  "revoke_credentials stamp h s =
     say ''agent.credentials_revoked'' (h_name h) (h_name h @ '': vault access revoked'')
       (store_do (set_credentials_revoked (h_id h) stamp) (store_do (set_vault_token (h_id h) '''') s))"

text \<open>
  What the vault's proxy for a machine makes of a request's \<open>Authorization\<close> header: the header sent on to
  the vault, or no answer with its status.
\<close>

definition vault_request :: "fleet_env \<Rightarrow> host_row \<Rightarrow> string \<Rightarrow> hub \<Rightarrow> (int + string) \<times> hub" where
  "vault_request ev h header s =
     (let got = trim_prefix header ''Bearer '';
          refused = (Inl 401, say ''vault.refused'' (h_name h) (h_name h @ '' presented a token the vault does not know'') s)
      in case host (itoa (h_id h)) (hb_db s) of
           Inl _ \<Rightarrow> refused
         | Inr cur \<Rightarrow>
             if h_vault cur = '''' \<or> got = '''' \<or> got \<noteq> h_vault cur then refused
             else (case fe_vault ev of
                     Inl _ \<Rightarrow> (Inl 502, s)
                   | Inr token \<Rightarrow> (Inr (''Bearer '' @ token), s)))"

section \<open>The job door\<close>

datatype door_route = ToRouter | ToSecret string | NotFound

definition door_paths :: "string list" where
  "door_paths = [''/api/tags'', ''/api/chat'', ''/api/generate'', ''/api/embed'', ''/api/embeddings'', ''/api/show'',
     ''/api/version'']"

definition door_route :: "bool \<Rightarrow> string \<Rightarrow> string \<Rightarrow> door_route" where
  "door_route has_router meth path =
     (if has_router \<and> (path \<in> set door_paths \<or> has_prefix path ''/v1/'') then ToRouter
      else case strip_prefix ''/secrets/'' path of
        Some name \<Rightarrow>
          if name \<noteq> '''' \<and> CHR ''/'' \<notin> set name \<and> meth \<in> {''GET'', ''HEAD''} then ToSecret name else NotFound
      | None \<Rightarrow> NotFound)"

text \<open>The headers the router sees, whatever the machine sent.\<close>

definition door_headers :: "host_row \<Rightarrow> (string \<rightharpoonup> string) \<Rightarrow> (string \<rightharpoonup> string)" where
  "door_headers h hs = hs(''X-HomeDash-Local-Only'' \<mapsto> ''1'', ''X-HomeDash-Caller'' \<mapsto> ''remote:'' @ h_name h)"

definition door_secret ::
  "(string \<Rightarrow> string \<Rightarrow> string \<Rightarrow> string \<Rightarrow> string option) \<Rightarrow> string \<Rightarrow> host_row \<Rightarrow> string \<Rightarrow> hub \<Rightarrow>
   string option \<times> hub" where
  "door_secret unseal key h name s =
     (case read_secret unseal key name (h_id h) (hb_db s) of
        Inl _ \<Rightarrow> (None, say ''secret.refused'' (h_name h) (h_name h @ '' asked for secret '' @ name @ '': not granted'') s)
      | Inr v \<Rightarrow> (Some v, say ''secret.read'' (h_name h) (h_name h @ '' read secret '' @ name) s))"


section \<open>The heartbeat\<close>

definition disk_percent :: "db \<Rightarrow> int" where
  "disk_percent d =
     (case parse_int (trim_space (setting ''notify.disk_percent'' d)) of
        Some n \<Rightarrow> if 0 < n \<and> n < 100 then n else 90
      | None \<Rightarrow> 90)"

definition used_percent :: "mount \<Rightarrow> int" where
  "used_percent mt = i64 (100 - go_div (i64 (m_free mt * 100)) (m_size mt))"

definition full_key :: "host_row \<Rightarrow> mount \<Rightarrow> string" where
  "full_key h mt = h_name h @ '':'' @ m_path mt"

text \<open>One mount: an event when it crosses the threshold, or when it is first seen above it.\<close>

definition check_mount :: "int \<Rightarrow> host_row \<Rightarrow> mount \<Rightarrow> hub \<Rightarrow> hub" where
  "check_mount pct h mt s =
     (if m_size mt = 0 \<or> has_prefix (m_path mt) ''/mnt/homedash/'' then s
      else let used = used_percent mt; above = used \<ge> pct; was = hb_full s (full_key h mt);
               crossed = (case was of Some b \<Rightarrow> b \<noteq> above | None \<Rightarrow> above);
               s1 = (if \<not> crossed then s
                     else if above
                     then say ''disk.full'' (h_name h) (h_name h @ '': '' @ m_path mt @ '' is '' @ itoa used @ ''% full'') s
                     else say ''disk.ok'' (h_name h) (h_name h @ '': '' @ m_path mt @ '' is back to '' @ itoa used @ ''%'') s)
           in s1\<lparr>hb_full := (hb_full s1)(full_key h mt \<mapsto> above)\<rparr>)"

text \<open>
  A sweep has 45 seconds, and every call of the store made after them fails. A \<open>turn\<close> says when a sweep ends
  and how many of its calls of the store come in time: the threshold, the measurement and the status are the
  three of a sweep that read the facts, the status is the only one of any other. A threshold that cannot be
  read is 90.
\<close>

type_synonym turn = "instant \<times> nat"

definition check_fullness :: "turn \<Rightarrow> host_row \<Rightarrow> facts \<Rightarrow> hub \<Rightarrow> hub" where
  "check_fullness turn h f s =
     fold (check_mount (if 1 \<le> snd turn then disk_percent (hb_db s) else 90) h) (f_mounts f) s"

text \<open>The free bytes by mount, the last one reported of a path.\<close>

definition free_by_mount :: "facts \<Rightarrow> (string \<times> real) list" where
  "free_by_mount f =
     fold (\<lambda>mt rows. upsert (\<lambda>r. fst r = m_path mt) (m_path mt, real_of_int (m_free mt))
                            (\<lambda>r. (fst r, real_of_int (m_free mt))) rows) (f_mounts f) []"

definition record_facts :: "turn \<Rightarrow> host_row \<Rightarrow> facts \<Rightarrow> hub \<Rightarrow> hub" where
  "record_facts turn h f s =
     (let s1 = check_fullness turn h f s
      in if snd turn < 2 then s1
         else case record_metric (fst turn) (h_id h) (f_mem_used f) (f_mem_total f) (f_load1 f)
                (if f_gpu f = Some True then 1 else 0) (free_by_mount f) (hb_db s1) of
           Inl _ \<Rightarrow> s1
         | Inr d \<Rightarrow> s1\<lparr>hb_db := d\<rparr>)"

text \<open>What a sweep of a machine found: its status, the facts to keep, the agent's model.\<close>

definition swept :: "fleet_env \<Rightarrow> reply \<Rightarrow> string \<times> facts option \<times> string \<times> bool" where
  "swept ev r =
     (case r of
        KeyRefused \<Rightarrow> (''mismatch'', None, '''', False)
      | Unreached _ \<Rightarrow> (''offline'', None, '''', False)
      | Ran status out err \<Rightarrow>
          (case fe_facts ev out of
             None \<Rightarrow> (''offline'', None, '''', False)
           | Some (f, typed) \<Rightarrow>
               if status \<noteq> 0 then (''offline'', None, '''', False)
               else (''online'', Some f,
                     (if typed then case f_agent f of None \<Rightarrow> '''' | Some a \<Rightarrow> ag_model a else ''''), typed)))"

definition status_message :: "string \<Rightarrow> host_row \<Rightarrow> string" where
  "status_message status h =
     (if status = ''online'' then h_name h @ '' is online''
      else if status = ''offline'' then h_name h @ '' went offline''
      else h_name h @ '' presented a different host key than the one enrolled '' @ utf8 8212 @ '' refused'')"

text \<open>
  A transition is a notification, a repeat is not; a status that comes too late (\<open>in_time\<close> is false) is neither
  recorded nor told.
\<close>

definition settle_status ::
  "instant \<Rightarrow> bool \<Rightarrow> host_row \<Rightarrow> string \<Rightarrow> facts option \<Rightarrow> string \<Rightarrow> hub \<Rightarrow> host_row \<times> hub" where
  "settle_status now in_time h status fs mdl s =
     (if \<not> in_time then (h, s)
      else case set_host_status now (h_id h) status fs mdl (hb_db s) of
        Inl _ \<Rightarrow> (h, s)
      | Inr (prev, d) \<Rightarrow>
          (h\<lparr>h_status := status\<rparr>,
           if prev \<noteq> status then say (''host.'' @ status) (h_name h) (status_message status h) (s\<lparr>hb_db := d\<rparr>)
           else s\<lparr>hb_db := d\<rparr>))"

definition status_call :: "facts option \<Rightarrow> bool \<Rightarrow> nat" where
  "status_call fs typed = (if fs \<noteq> None \<and> typed then 3 else 1)"

definition sweep :: "fleet_env \<Rightarrow> machine \<Rightarrow> turn \<Rightarrow> host_row \<Rightarrow> hub \<Rightarrow> host_row \<times> hub" where
  "sweep ev m turn h s =
     (if h_kind h = ''mobile'' then (h, s)
      else case ask m h [''sh'', ''-s'', ''--''] (fe_facts_script ev) s of (r, s1) \<Rightarrow>
        (case swept ev r of (status, fs, mdl, typed) \<Rightarrow>
           settle_status (fst turn) (status_call fs typed \<le> snd turn) h status fs mdl
             (case fs of Some f \<Rightarrow> (if typed then record_facts turn h f s1 else s1) | None \<Rightarrow> s1)))"

definition mobile_stale :: instant where
  "mobile_stale = 3 * minute"

text \<open>A phone of the list that has been quiet too long is called offline.\<close>

definition mark_stale_phone :: "instant \<Rightarrow> host_row \<Rightarrow> hub \<Rightarrow> hub" where
  "mark_stale_phone now h s =
     (case (h_kind h = ''mobile'' \<and> h_status h \<noteq> ''offline'', h_last_seen h) of
        (True, Some seen) \<Rightarrow>
          if now - seen * 1000000 < mobile_stale then s
          else (case set_host_status now (h_id h) ''offline'' None '''' (hb_db s) of
                  Inl _ \<Rightarrow> s
                | Inr (_, d) \<Rightarrow> say ''host.offline'' (h_name h) (h_name h @ '' went offline'') (s\<lparr>hb_db := d\<rparr>))
      | _ \<Rightarrow> s)"

definition mark_stale_mobile :: "instant \<Rightarrow> host_row list \<Rightarrow> hub \<Rightarrow> hub" where
  "mark_stale_mobile now hs s = fold (mark_stale_phone now) hs s"

text \<open>
  One turn of the heartbeat: the machines as they were read at its start, swept (\<open>turn\<close> is each one's), then the phones among them; once an hour the rollups. The answer is when they last ran.
\<close>

definition beat ::
  "fleet_env \<Rightarrow> machine \<Rightarrow> (host_row \<Rightarrow> turn) \<Rightarrow> instant \<Rightarrow> instant \<Rightarrow> hub \<Rightarrow> instant \<times> hub" where
  "beat ev m turn now rolled s =
     (let hs = hosts (hb_db s);
          s1 = fold (\<lambda>h s. snd (sweep ev m (turn h) h s)) hs s;
          s2 = mark_stale_mobile now hs s1
      in if now - rolled > hour
         then (now, store_do (rollup_usage now) (store_do (rollup_metrics now) s2))
         else (rolled, s2))"

section \<open>Enrollment\<close>

record report =
  rp_port :: int
  rp_key :: string
  rp_facts :: "facts option"

text \<open>What is checked before the code is spent; \<open>key\<close> answers why a host key does not parse.\<close>

definition vet_report ::
  "(string \<Rightarrow> string option) \<Rightarrow> instant \<Rightarrow> string \<Rightarrow> string + report \<Rightarrow> db \<Rightarrow> (code_row \<times> report) res" where
  "vet_report key now c body d =
     (case enroll_code now c d of
        None \<Rightarrow> Inl (Err ''code is not live'')
      | Some r \<Rightarrow>
          if c_kind r = ''mobile''
          then Inl (Err ''this code is for a mobile remote; use the pairing endpoint'')
          else (case body of
                  Inl e \<Rightarrow> Inl (Err (''report: '' @ e))
                | Inr rp \<Rightarrow>
                    (case key (rp_key rp) of
                       Some e \<Rightarrow> Inl (Err (''report: host key: '' @ e))
                     | None \<Rightarrow> Inr (r, if rp_port rp = 0 then rp\<lparr>rp_port := 22\<rparr> else rp))))"

definition reported_host :: "code_row \<Rightarrow> string \<Rightarrow> report \<Rightarrow> db \<Rightarrow> host_row" where
  "reported_host r from_ip rp d =
     \<lparr>h_id = 0, h_name = c_name r, h_kind = '''', h_addr = from_ip, h_port = rp_port rp, h_user = ''homedash'',
      h_key = trim_space (rp_key rp), h_status = '''',
      h_facts = (case rp_facts rp of None \<Rightarrow> no_facts | Some f \<Rightarrow> f), h_model = '''',
      h_rebuild = (case c_rebuild r of
                     None \<Rightarrow> ''''
                   | Some i \<Rightarrow> (case host (itoa i) d of Inl _ \<Rightarrow> '''' | Inr old \<Rightarrow> h_rebuild old)),
      h_vault = '''', h_revoked = '''', h_enrolled = 0, h_last_seen = None\<rparr>"

text \<open>The code is spent and the machine recorded, at a later instant and on the store of that instant.\<close>

definition accept_report ::
  "instant \<Rightarrow> string \<Rightarrow> string \<Rightarrow> code_row \<times> report \<Rightarrow> hub \<Rightarrow> host_row res \<times> hub" where
  "accept_report now c from_ip vetted s =
     (case use_enroll_code now c (hb_db s) of (ok, d) \<Rightarrow>
        let s1 = s\<lparr>hb_db := d\<rparr>; h = reported_host (fst vetted) from_ip (snd vetted) d
        in if \<not> ok then (Inl (Err ''code already used''), s1)
           else (case add_host now h d of
                   Inl e \<Rightarrow> (Inl e, s1)
                 | Inr (i, d1) \<Rightarrow>
                     (Inr (h\<lparr>h_id := i\<rparr>),
                      say ''host.enrolled'' (h_name h) (h_name h @ '' enrolled from '' @ from_ip) (s1\<lparr>hb_db := d1\<rparr>))))"

definition enroll_report ::
  "(string \<Rightarrow> string option) \<Rightarrow> instant \<Rightarrow> string \<Rightarrow> string \<Rightarrow> string + report \<Rightarrow> hub \<Rightarrow> host_row res \<times> hub" where
  "enroll_report key now c from_ip body s =
     (case vet_report key now c body (hb_db s) of
        Inl e \<Rightarrow> (Inl e, s)
      | Inr vetted \<Rightarrow> accept_report now c from_ip vetted s)"

text \<open>What follows over SSH; \<open>dial\<close> and \<open>fw\<close> are the errors of the connection and of the forwards.\<close>

definition run_rebuild :: "machine \<Rightarrow> host_row \<Rightarrow> hub \<Rightarrow> hub" where
  "run_rebuild m h s =
     (case ask m h [''sudo'', ''-n'', ''sh'', ''-s''] (h_rebuild h) s of (r, s1) \<Rightarrow>
        (case answer r of
           Inl e \<Rightarrow> say ''host.rebuild_failed'' (h_name h) (h_name h @ '': rebuild script did not run: '' @ err_text e) s1
         | Inr (status, out, err) \<Rightarrow>
             if status \<noteq> 0
             then say ''host.rebuild_failed'' (h_name h)
                    (h_name h @ '': rebuild script exited '' @ itoa status @ '': '' @ tail_of err) s1
             else say ''host.rebuilt'' (h_name h) (h_name h @ '': rebuild script ran'') s1))"

definition finish_enrollment ::
  "fleet_env \<Rightarrow> machine \<Rightarrow> turn \<Rightarrow> string \<Rightarrow> string option \<Rightarrow> string option \<Rightarrow> bool \<Rightarrow> host_row \<Rightarrow> hub \<Rightarrow>
   host_row \<times> hub" where
  "finish_enrollment ev m turn token dial fw rebuild h s =
     (case dial of
        Some _ \<Rightarrow> sweep ev m turn h s
      | None \<Rightarrow>
          (case deliver_credentials ev m token fw h s of (r, s1) \<Rightarrow>
             let s2 = (case r of Inl e \<Rightarrow> credentials_failed h e s1 | Inr _ \<Rightarrow> s1);
                 s3 = (if rebuild \<and> trim_space (h_rebuild h) \<noteq> '''' then run_rebuild m h s2 else s2)
             in sweep ev m turn h s3))"

section \<open>Phones\<close>

record phone_report =
  ph_model :: string
  ph_android :: string
  ph_facts :: "facts option"

definition merge_mobile_facts :: "facts option \<Rightarrow> string \<Rightarrow> string \<Rightarrow> facts" where
  "merge_mobile_facts fs mdl android =
     (let f = (case fs of None \<Rightarrow> no_facts | Some f \<Rightarrow> f);
          f1 = (if mdl \<noteq> '''' then f\<lparr>f_phone_model := mdl\<rparr> else f)
      in if android \<noteq> '''' then f1\<lparr>f_android := android\<rparr> else f1)"

definition paired_phone :: "code_row \<Rightarrow> string \<Rightarrow> facts \<Rightarrow> host_row" where
  "paired_phone r key f =
     \<lparr>h_id = 0, h_name = c_name r, h_kind = ''mobile'', h_addr = '''', h_port = 0, h_user = '''', h_key = key,
      h_status = '''', h_facts = f, h_model = '''', h_rebuild = '''', h_vault = '''', h_revoked = '''',
      h_enrolled = 0, h_last_seen = None\<rparr>"

text \<open>The answer is the phone and the device key minted for it.\<close>

definition report_mobile ::
  "instant \<Rightarrow> string \<Rightarrow> string \<Rightarrow> string + phone_report \<Rightarrow> hub \<Rightarrow> (host_row \<times> string) res \<times> hub" where
  "report_mobile now key c body s =
     (case enroll_code now c (hb_db s) of
        None \<Rightarrow> (Inl (Err ''code is not live''), s)
      | Some r \<Rightarrow>
          (case body of
             Inl e \<Rightarrow> (Inl (Err (''report: '' @ e)), s)
           | Inr ph \<Rightarrow>
               (case use_enroll_code now c (hb_db s) of (ok, d) \<Rightarrow>
                  let s1 = s\<lparr>hb_db := d\<rparr>; f = merge_mobile_facts (ph_facts ph) (ph_model ph) (ph_android ph);
                      h = paired_phone r key f
                  in if \<not> ok then (Inl (Err ''code already used''), s1)
                     else (case add_host now h d of
                             Inl e \<Rightarrow> (Inl e, s1)
                           | Inr (i, d1) \<Rightarrow>
                               (case set_host_status now i ''online'' (Some f) '''' d1 of
                                  Inl e \<Rightarrow> (Inl e, s1\<lparr>hb_db := d1\<rparr>)
                                | Inr (_, d2) \<Rightarrow>
                                    (Inr (h\<lparr>h_id := i\<rparr>, key),
                                     say ''host.enrolled'' (h_name h) (h_name h @ '' (Android) paired'')
                                       (s1\<lparr>hb_db := d2\<rparr>)))))))"

text \<open>One status push; \<open>h\<close> is the row the caller read.\<close>

definition set_mobile_status :: "instant \<Rightarrow> host_row \<Rightarrow> string \<Rightarrow> facts option \<Rightarrow> hub \<Rightarrow> err option \<times> hub" where
  "set_mobile_status now h key fs s =
     (if h_kind h \<noteq> ''mobile'' then (Some (Err ''not a mobile remote''), s)
      else if key = '''' \<or> key \<noteq> h_key h then (Some (Err ''wrong device key''), s)
      else case set_host_status now (h_id h) ''online''
                  (Some (merge_mobile_facts fs (f_phone_model (h_facts h)) (f_android (h_facts h)))) '''' (hb_db s) of
             Inl e \<Rightarrow> (Some e, s)
           | Inr (_, d) \<Rightarrow> (None, s\<lparr>hb_db := d\<rparr>))"

text \<open>
  The enrollment door of \<open>server/hosts.go\<close>: a code answers by its kind. \<open>None\<close> is the 404 of every refusal;
  a phone is given its key.
\<close>

definition enroll_post ::
  "(string \<Rightarrow> string option) \<Rightarrow> (string \<Rightarrow> string + report) \<Rightarrow> (string \<Rightarrow> string + phone_report) \<Rightarrow> instant \<Rightarrow>
   string \<Rightarrow> string \<Rightarrow> string \<Rightarrow> string \<Rightarrow> hub \<Rightarrow> (host_row \<times> string option) option \<times> hub" where
  "enroll_post key machine_body phone_body now device_key c from_ip body s =
     (if (case enroll_code now c (hb_db s) of Some r \<Rightarrow> c_kind r = ''mobile'' | None \<Rightarrow> False)
      then (case report_mobile now device_key c (phone_body body) s of
              (Inl _, s1) \<Rightarrow> (None, s1)
            | (Inr (h, k), s1) \<Rightarrow> (Some (h, Some k), s1))
      else (case enroll_report key now c from_ip (machine_body body) s of
              (Inl _, s1) \<Rightarrow> (None, s1)
            | (Inr h, s1) \<Rightarrow> (Some (h, None), s1)))"

text \<open>The status a push is answered with.\<close>

definition mobile_push :: "instant \<Rightarrow> string \<Rightarrow> string \<Rightarrow> facts option \<Rightarrow> hub \<Rightarrow> int \<times> hub" where
  "mobile_push now ref header fs s =
     (case host ref (hb_db s) of
        Inl _ \<Rightarrow> (404, s)
      | Inr h \<Rightarrow>
          (case set_mobile_status now h (trim_prefix header ''Bearer '') fs s of
             (Some _, s1) \<Rightarrow> (401, s1)
           | (None, s1) \<Rightarrow> (204, s1)))"

section \<open>A machine's own software\<close>

definition reprovision ::
  "fleet_env \<Rightarrow> machine \<Rightarrow> turn \<Rightarrow> string \<Rightarrow> string option \<Rightarrow> string option \<Rightarrow> host_row \<Rightarrow> hub \<Rightarrow>
   err option \<times> hub" where
  "reprovision ev m turn token dial fw h s =
     (case layout ev (hb_db s) of
        Inl e \<Rightarrow> (Some e, s)
      | Inr body \<Rightarrow>
          (case dial of
             Some e \<Rightarrow> (Some (Err e), s)
           | None \<Rightarrow>
               (case ask m h [''sudo'', ''-n'', ''sh'', ''-s''] (''set -eu'' @ [newline] @ body) s of (r, s1) \<Rightarrow>
                  (case answer r of
                     Inl e \<Rightarrow> (Some e, s1)
                   | Inr (status, out, err) \<Rightarrow>
                       if status \<noteq> 0 then (Some (Err (''layout exited '' @ itoa status @ '': '' @ tail_of err)), s1)
                       else (case deliver_credentials ev m token fw h s1 of
                               (Inl e, s2) \<Rightarrow> (Some e, credentials_failed h e s2)
                             | (Inr skipped, s2) \<Rightarrow>
                                 (None, snd (sweep ev m turn h
                                    (say ''host.reprovisioned'' (h_name h)
                                       (h_name h @ '': layout applied'' @
                                        (if skipped then ''; credential snapshot skipped '' @ utf8 8212 @
                                           '' too little memory for the agent to run'' else '''')) s2))))))))"

definition update_omp ::
  "fleet_env \<Rightarrow> machine \<Rightarrow> turn \<Rightarrow> host_row \<Rightarrow> hub \<Rightarrow> err option \<times> hub" where
  "update_omp ev m turn h s =
     (case ask m h [''sudo'', ''-n'', ''omp'', ''update'', ''--force''] '''' s of (r, s1) \<Rightarrow>
        (case answer r of
           Inl e \<Rightarrow> (Some e, s1)
         | Inr (status, out, err) \<Rightarrow>
             if status \<noteq> 0 then (Some (Err (''omp update exited '' @ itoa status @ '': '' @ tail_of err)), s1)
             else (None, snd (sweep ev m turn h (say ''host.omp_updated'' (h_name h) (h_name h @ '': omp updated'') s1)))))"

definition config_path :: string where
  "config_path = agent_home @ ''/.omp/agent/config.yml''"

definition set_agent_model ::
  "fleet_env \<Rightarrow> machine \<Rightarrow> turn \<Rightarrow> host_row \<Rightarrow> string \<Rightarrow> hub \<Rightarrow> err option \<times> hub" where
  "set_agent_model ev m turn h model0 s =
     (let mdl = (if trim_space model0 = '''' then remote_model (hb_db s) else trim_space model0);
          content = (if mdl = '''' then '''' else lines_of [''modelRoles:'', ''  default: '' @ mdl])
      in case write_file m h config_path content ''0600'' True s of
           (Some e, s1) \<Rightarrow> (Some e, s1)
         | (None, s1) \<Rightarrow>
             (case ask m h [''sudo'', ''-n'', ''chown'', agent_owner, config_path] '''' s1 of (r, s2) \<Rightarrow>
                (case answer r of
                   Inl e \<Rightarrow> (Some e, s2)
                 | Inr _ \<Rightarrow>
                     (None, snd (sweep ev m turn h
                        (store_do (append_rebuild_script (h_id h)
                           (''# HomeDash: agent model (set from the panel)'' @ [newline] @ ''printf '' @ sq @
                            ''modelRoles:'' @ bs @ ''n  default: %s'' @ bs @ ''n'' @ sq @ '' '' @ shq mdl @ '' > '' @
                            config_path @ ''; chown '' @ agent_owner @ '' '' @ config_path)) s2))))))"

section \<open>The addresses a job may not name\<close>

text \<open>\<open>hostname\<close> reads the host out of the enrollment address, if there is one and it parses.\<close>

definition add_addr :: "host_row \<Rightarrow> string \<Rightarrow> string list \<Rightarrow> string list" where
  "add_addr h a0 out =
     (let a = trim_space a0 in if a \<noteq> '''' \<and> a \<noteq> h_addr h \<and> a \<notin> set out then out @ [a] else out)"

definition fleet_addrs :: "string option \<Rightarrow> host_row \<Rightarrow> db \<Rightarrow> string list" where
  "fleet_addrs hostname h d =
     fold (\<lambda>x out. if h_id x \<noteq> h_id h then add_addr h (h_addr x) out else out) (hosts d)
       (case hostname of None \<Rightarrow> add_addr h (setting ''hub.lan_addr'' d) []
                       | Some u \<Rightarrow> add_addr h u (add_addr h (setting ''hub.lan_addr'' d) []))"

definition arm_job :: "fleet_env \<Rightarrow> machine \<Rightarrow> string option \<Rightarrow> host_row \<Rightarrow> hub \<Rightarrow> err option \<times> hub" where
  "arm_job ev m hostname h s =
     (case put_file m h (agent_home @ ''/.omp/agent/hooks/pre/homedash-refusals.ts'') (fe_hook ev) ''0644'' True s of
        (Some e, s1) \<Rightarrow> (Some e, s1)
      | (None, s1) \<Rightarrow>
          put_file m h ''/etc/homedash/fleet-addrs''
            (join [newline] (fleet_addrs hostname h (hb_db s1)) @ [newline]) ''0644'' True s1)"

text \<open>The hold script with the hub's key, and the unit's stop command that carries it; \<open>b64\<close> is base64.\<close>

definition hold_body :: "fleet_env \<Rightarrow> string \<Rightarrow> string" where
  "hold_body ev script = ''PUBKEY='' @ shq (trim_space (fe_pub_key ev)) @ [newline] @ script"

definition hold_stop_post :: "(string \<Rightarrow> string) \<Rightarrow> fleet_env \<Rightarrow> string \<Rightarrow> string" where
  "hold_stop_post b64 ev script =
     ''/bin/sh -c '' @ dq @ ''echo '' @ b64 (hold_body ev script) @
     '' | base64 -d | sh > /etc/homedash/hold-restored 2>&1'' @ dq"

section \<open>Models that fit\<close>

record fit_row =
  fi_name :: string
  fi_ollama :: "string option"
  fi_fit :: string
  fi_score :: real
  fi_tps :: "real option"
  fi_mem :: real
  fi_disk :: real
  fi_caps :: "string list"
  fi_use :: string

record fit_model =
  fm_ollama :: string
  fm_name :: string
  fm_fit :: string
  fm_score :: real
  fm_tps :: real
  fm_mem :: real
  fm_disk :: real
  fm_caps :: "string list"
  fm_use :: string

text \<open>The use case read from a row is not carried over.\<close>

definition fit_of :: "fit_row \<Rightarrow> string \<Rightarrow> fit_model" where
  "fit_of r tag =
     \<lparr>fm_ollama = tag, fm_name = fi_name r, fm_fit = fi_fit r, fm_score = fi_score r,
      fm_tps = (case fi_tps r of None \<Rightarrow> 0 | Some t \<Rightarrow> t), fm_mem = fi_mem r, fm_disk = fi_disk r,
      fm_caps = fi_caps r, fm_use = ''''\<rparr>"

text \<open>Rows with an Ollama name not seen before, until there are \<open>n\<close>.\<close>

fun fit_pick :: "nat \<Rightarrow> string set \<Rightarrow> fit_row list \<Rightarrow> fit_model list" where
  "fit_pick n seen [] = []"
| "fit_pick n seen (r # rs) =
     (case fi_ollama r of
        None \<Rightarrow> fit_pick n seen rs
      | Some tag \<Rightarrow>
          if tag = '''' \<or> tag \<in> seen then fit_pick n seen rs
          else fit_of r tag # (if n \<le> 1 then [] else fit_pick (n - 1) (insert tag seen) rs))"

definition fit_count :: "int \<Rightarrow> nat" where
  "fit_count n = (if n \<le> 0 \<or> n > 25 then 8 else nat n)"

text \<open>\<open>parse\<close> reads what llmfit printed: \<open>None\<close> if it is no JSON, else the rows or why they do not read.\<close>

definition fit_argv :: "string list" where
  "fit_argv = [''sh'', ''-lc'', ''llmfit recommend --json -n 400 --no-dashboard'']"

definition fits ::
  "(string \<Rightarrow> (string + fit_row list) option) \<Rightarrow> machine \<Rightarrow> host_row \<Rightarrow> int \<Rightarrow> hub \<Rightarrow> fit_model list res \<times> hub" where
  "fits parse m h n s =
     (case ask m h fit_argv '''' s of (r, s1) \<Rightarrow>
        (case answer r of
           Inl e \<Rightarrow> (Inl e, s1)
         | Inr (status, out, err) \<Rightarrow>
             (case parse out of
                None \<Rightarrow> (Inl (Err (''llmfit on '' @ h_name h @ '': '' @ tail_of err)), s1)
              | Some rows \<Rightarrow>
                  if status \<noteq> 0 then (Inl (Err (''llmfit on '' @ h_name h @ '': '' @ tail_of err)), s1)
                  else (case rows of
                          Inl e \<Rightarrow> (Inl (Err e), s1)
                        | Inr rs \<Rightarrow> (Inr (fit_pick (fit_count n) {} rs), s1)))))"

section \<open>Kept connections\<close>

text \<open>The connection kept per machine, and those closed. \<open>alive\<close> answers a keepalive, \<open>dial\<close> opens one.\<close>

record 'c holding =
  ho_kept :: "int \<Rightarrow> 'c option"
  ho_closed :: "'c list"

definition drop_held :: "int \<Rightarrow> 'c holding \<Rightarrow> 'c holding" where
  "drop_held i k =
     (case ho_kept k i of
        None \<Rightarrow> k
      | Some c \<Rightarrow> k\<lparr>ho_kept := (ho_kept k)(i := None), ho_closed := ho_closed k @ [c]\<rparr>)"

definition hold :: "('c \<Rightarrow> bool) \<Rightarrow> 'c res \<Rightarrow> host_row \<Rightarrow> 'c holding \<Rightarrow> 'c res \<times> 'c holding" where
  "hold alive dial h k =
     (case ho_kept k (h_id h) of
        Some c \<Rightarrow>
          if alive c then (Inr c, k)
          else (case dial of
                  Inl e \<Rightarrow> (Inl e, drop_held (h_id h) k)
                | Inr c' \<Rightarrow> (Inr c', (drop_held (h_id h) k)\<lparr>ho_kept := (ho_kept k)(h_id h \<mapsto> c')\<rparr>))
      | None \<Rightarrow>
          (case dial of
             Inl e \<Rightarrow> (Inl e, k)
           | Inr c' \<Rightarrow> (Inr c', k\<lparr>ho_kept := (ho_kept k)(h_id h \<mapsto> c')\<rparr>)))"

text \<open>\<open>channel\<close> is the channel opened on the connection, or why it did not open.\<close>

definition open_port ::
  "('c \<Rightarrow> bool) \<Rightarrow> 'c res \<Rightarrow> ('c \<Rightarrow> 'd res) \<Rightarrow> host_row \<Rightarrow> 'c holding \<Rightarrow> 'd res \<times> 'c holding" where
  "open_port alive dial channel h k =
     (case hold alive dial h k of
        (Inl e, k1) \<Rightarrow> (Inl e, k1)
      | (Inr c, k1) \<Rightarrow>
          (case channel c of
             Inl e \<Rightarrow> (Inl e, drop_held (h_id h) k1)
           | Inr d \<Rightarrow> (Inr d, k1)))"

end
