(* ===== verification/FleetLaws.thy ===== *)
theory FleetLaws
  imports Fleet
begin

text \<open>
  What the fleet promises: a status change is told once as far as sweeps end in time, a mount's events are the
  crossings of the threshold, a report enrolls at most one machine, a revoked machine gets nothing from the
  vault; and where it goes wrong: a machine that hangs, a restored token, the pairing of phones and the clock
  that calls them offline.
\<close>

section \<open>Transitions\<close>

text \<open>The elements of a history that differ from the one before.\<close>

fun transitions :: "'a \<Rightarrow> 'a list \<Rightarrow> 'a list" where
  "transitions p [] = []"
| "transitions p (x # xs) = (if x = p then [] else [x]) @ transitions x xs"

lemma transitions_alternate: "distinct_adj (p # transitions p xs)"
proof (induction xs arbitrary: p)
  case (Cons x xs)
  then show ?case by (cases "x = p") auto
qed simp

lemma say_simps [simp]:
  "hb_db (say k u v s) = hb_db s" "hb_sent (say k u v s) = hb_sent s" "hb_full (say k u v s) = hb_full s"
  "hb_notes (say k u v s) = hb_notes s @ [(k, u, v)]"
  by (simp_all add: say_def)

lemma store_do_simps [simp]:
  "hb_db (store_do f s) = f (hb_db s)" "hb_sent (store_do f s) = hb_sent s"
  "hb_full (store_do f s) = hb_full s" "hb_notes (store_do f s) = hb_notes s"
  by (simp_all add: store_do_def)

section \<open>Fullness of a mount\<close>

definition disk_kind :: "bool \<Rightarrow> string" where
  "disk_kind b = (if b then ''disk.full'' else ''disk.ok'')"

lemma check_mount_simps [simp]:
  "hb_db (check_mount pct h mt s) = hb_db s" "hb_sent (check_mount pct h mt s) = hb_sent s"
  by (simp_all add: check_mount_def Let_def)

lemma check_mount_kinds:
  "\<exists>ns. hb_notes (check_mount pct h mt s) = hb_notes s @ ns \<and> set (map fst ns) \<subseteq> {''disk.full'', ''disk.ok''}"
  by (auto simp: check_mount_def Let_def)

lemma check_mount_one:
  assumes "m_size mt \<noteq> 0" "\<not> has_prefix (m_path mt) ''/mnt/homedash/''"
  shows "hb_full (check_mount pct h mt s) = (hb_full s)(full_key h mt \<mapsto> used_percent mt \<ge> pct)"
    "map fst (hb_notes (check_mount pct h mt s)) = map fst (hb_notes s) @
       map disk_kind (transitions (hb_full s (full_key h mt) = Some True) [used_percent mt \<ge> pct])"
  using assms by (auto simp: check_mount_def Let_def disk_kind_def split: option.splits)

text \<open>Readings of one mount, each with the threshold set when it was taken.\<close>

definition readings :: "host_row \<Rightarrow> (int \<times> mount) list \<Rightarrow> hub \<Rightarrow> hub" where
  "readings h ms s = fold (\<lambda>(pct, mt). check_mount pct h mt) ms s"

text \<open>
  However often a mount is looked at and the threshold changed, its events are exactly the crossings:
  \<open>disk.full\<close> and \<open>disk.ok\<close> alternate, and a mount never yet seen counts as not full.
\<close>

theorem disk_events_are_crossings:
  assumes "list_all (\<lambda>(pct, mt). m_path mt = p \<and> m_size mt \<noteq> 0) ms" and "\<not> has_prefix p ''/mnt/homedash/''"
  shows "map fst (hb_notes (readings h ms s)) = map fst (hb_notes s) @
    map disk_kind (transitions (hb_full s (h_name h @ '':'' @ p) = Some True)
      (map (\<lambda>(pct, mt). used_percent mt \<ge> pct) ms))"
  using assms
proof (induction ms arbitrary: s)
  case (Cons r ms)
  obtain pct mt where r: "r = (pct, mt)" by force
  have "m_size mt \<noteq> 0" "m_path mt = p" using Cons.prems(1) by (auto simp: r)
  note one = check_mount_one [OF this(1), unfolded this(2), OF Cons.prems(2), of pct h s]
  have key: "full_key h mt = h_name h @ '':'' @ p" by (simp add: full_key_def \<open>m_path mt = p\<close>)
  have "readings h (r # ms) s = readings h ms (check_mount pct h mt s)" by (simp add: readings_def r)
  then show ?case
    using Cons.IH [of "check_mount pct h mt s"] Cons.prems by (simp add: one key r)
qed (simp add: readings_def)

section \<open>Status transitions\<close>

definition status_note :: "string \<times> string \<times> string \<Rightarrow> bool" where
  "status_note n = has_prefix (fst n) ''host.''"

lemma check_mount_status_notes [simp]:
  "filter status_note (hb_notes (check_mount pct h mt s)) = filter status_note (hb_notes s)"
proof -
  obtain ns where ns: "hb_notes (check_mount pct h mt s) = hb_notes s @ ns"
    "set (map fst ns) \<subseteq> {''disk.full'', ''disk.ok''}"
    using check_mount_kinds by blast
  have "filter status_note ns = []"
    using ns(2) by (auto simp: filter_empty_conv status_note_def has_prefix_def)
  then show ?thesis by (simp add: ns(1))
qed

lemma fold_check_mount:
  "hb_db (fold (check_mount pct h) ms s) = hb_db s \<and>
   filter status_note (hb_notes (fold (check_mount pct h) ms s)) = filter status_note (hb_notes s)"
  by (induction ms arbitrary: s) simp_all

lemma record_facts_simps:
  "tb_hosts (hb_db (record_facts turn h f s)) = tb_hosts (hb_db s)"
  "filter status_note (hb_notes (record_facts turn h f s)) = filter status_note (hb_notes s)"
  by (auto simp: record_facts_def check_fullness_def Let_def fold_check_mount record_metric_def split: sum.split)

lemma swept_status: "fst (swept ev r) \<in> set host_statuses"
  by (auto simp: swept_def host_statuses_def split: reply.split option.split)

abbreviation row_of :: "int \<Rightarrow> db \<Rightarrow> host_row option" where
  "row_of i d \<equiv> List.find (\<lambda>x. h_id x = i) (tb_hosts d)"

lemma find_update_where:
  assumes "List.find (\<lambda>x. g x = i) xs = Some x" "\<And>x. g (f x) = g x"
  shows "List.find (\<lambda>x. g x = i) (update_where (\<lambda>x. g x = i) f xs) = Some (f x)"
  using assms by (induction xs) (auto simp: update_where_def split: if_splits)

lemma settle_status_step:
  assumes "row_of (h_id h) (hb_db s) = Some x" "status \<in> set host_statuses"
  shows "hb_notes (snd (settle_status now True h status fs mdl s)) =
      hb_notes s @ (if h_status x \<noteq> status then [(''host.'' @ status, h_name h, status_message status h)] else [])"
    "\<exists>y. row_of (h_id h) (hb_db (snd (settle_status now True h status fs mdl s))) = Some y \<and> h_status y = status"
  using assms
   apply (simp add: settle_status_def set_host_status_def)
  using assms
  apply (cases fs)
   apply (auto simp: settle_status_def set_host_status_def find_update_where)
  done

text \<open>Whether what a sweep met is recorded: its status is the third call of the store with facts, else the first.\<close>

definition recorded :: "fleet_env \<Rightarrow> turn \<times> reply \<Rightarrow> bool" where
  "recorded ev tr = (case swept ev (snd tr) of (status, fs, mdl, typed) \<Rightarrow> status_call fs typed \<le> snd (fst tr))"

lemma one_sweep:
  assumes "row_of (h_id h) (hb_db s) = Some x" "h_kind h \<noteq> ''mobile''"
  shows "map fst (filter status_note (hb_notes (snd (sweep ev (\<lambda>_. r) turn h s)))) =
      map fst (filter status_note (hb_notes s)) @
      map (\<lambda>st. ''host.'' @ st) (if recorded ev (turn, r) then transitions (h_status x) [fst (swept ev r)] else [])"
    "\<exists>y. row_of (h_id h) (hb_db (snd (sweep ev (\<lambda>_. r) turn h s))) = Some y \<and>
      h_status y = (if recorded ev (turn, r) then fst (swept ev r) else h_status x)"
proof -
  obtain status fs mdl typed where sw: "swept ev r = (status, fs, mdl, typed)" by (metis surj_pair)
  define asked where "asked = snd (ask (\<lambda>_. r) h [''sh'', ''-s'', ''--''] (fe_facts_script ev) s)"
  define s1 where "s1 = (case fs of Some f \<Rightarrow> (if typed then record_facts turn h f asked else asked) | None \<Rightarrow> asked)"
  have eq: "sweep ev (\<lambda>_. r) turn h s = settle_status (fst turn) (recorded ev (turn, r)) h status fs mdl s1"
    using assms(2) by (simp add: sweep_def ask_def Let_def sw s1_def asked_def recorded_def split: option.split)
  have same: "tb_hosts (hb_db s1) = tb_hosts (hb_db s)" "filter status_note (hb_notes s1) = filter status_note (hb_notes s)"
    by (simp_all add: s1_def asked_def ask_def Let_def record_facts_simps split: option.split)
  have "status \<in> set host_statuses" using swept_status [of ev r] by (simp add: sw)
  note step = settle_status_step [of h s1 x status "fst turn" fs mdl, unfolded same(1), OF assms(1) this]
  show "map fst (filter status_note (hb_notes (snd (sweep ev (\<lambda>_. r) turn h s)))) =
      map fst (filter status_note (hb_notes s)) @
      map (\<lambda>st. ''host.'' @ st) (if recorded ev (turn, r) then transitions (h_status x) [fst (swept ev r)] else [])"
  proof (cases "recorded ev (turn, r)")
    case True
    then show ?thesis unfolding eq using step(1) by (auto simp: same(2) sw status_note_def has_prefix_def)
  qed (simp add: eq settle_status_def same(2))
  show "\<exists>y. row_of (h_id h) (hb_db (snd (sweep ev (\<lambda>_. r) turn h s))) = Some y \<and>
      h_status y = (if recorded ev (turn, r) then fst (swept ev r) else h_status x)"
  proof (cases "recorded ev (turn, r)")
    case True
    then show ?thesis unfolding eq using step(2) by (simp add: sw)
  next
    case False
    then show ?thesis using assms(1) by (simp add: eq settle_status_def same(1))
  qed
qed

text \<open>Sweeps of one machine, one after another, each with its turn and what it met.\<close>

definition sweeps :: "fleet_env \<Rightarrow> host_row \<Rightarrow> (turn \<times> reply) list \<Rightarrow> hub \<Rightarrow> hub" where
  "sweeps ev h rs s = fold (\<lambda>(turn, r) s. snd (sweep ev (\<lambda>_. r) turn h s)) rs s"

text \<open>
  C26: Over any number of sweeps a machine's status notifications are exactly the changes of its status, over
  those sweeps whose status came within their 45 seconds: a transition is told once, a repeat is not,
  whatever the machine answered and whatever else the sweeps recorded. Its row then has the status of the last
  of them; a sweep that ran out of time leaves the status and says nothing.
\<close>

theorem sweeps_tell_transitions:
  assumes "row_of (h_id h) (hb_db s) = Some x" and "h_kind h \<noteq> ''mobile''"
  shows "map fst (filter status_note (hb_notes (sweeps ev h rs s))) = map fst (filter status_note (hb_notes s)) @
      map (\<lambda>st. ''host.'' @ st)
        (transitions (h_status x) (map (\<lambda>(turn, r). fst (swept ev r)) (filter (recorded ev) rs))) \<and>
    (\<exists>y. row_of (h_id h) (hb_db (sweeps ev h rs s)) = Some y \<and>
      h_status y = last (h_status x # map (\<lambda>(turn, r). fst (swept ev r)) (filter (recorded ev) rs)))"
  using assms(1)
proof (induction rs arbitrary: s x)
  case (Cons tr rs)
  obtain turn r where tr: "tr = (turn, r)" by (metis surj_pair)
  let ?s = "snd (sweep ev (\<lambda>_. r) turn h s)"
  note one = one_sweep [OF Cons.prems assms(2), of ev r turn]
  obtain y where y: "row_of (h_id h) (hb_db ?s) = Some y"
    "h_status y = (if recorded ev (turn, r) then fst (swept ev r) else h_status x)"
    using one(2) by blast
  have "sweeps ev h (tr # rs) s = sweeps ev h rs ?s" by (simp add: sweeps_def tr)
  with Cons.IH [OF y(1)] one(1) y(2) show ?case
    by (cases "recorded ev (turn, r)"; cases "filter (recorded ev) rs = []") (simp_all add: tr)
qed (simp add: sweeps_def)

text \<open>
  A machine that takes a connection and then does not answer holds its sweep until the 45 seconds are over: its
  status cannot be recorded any more, and it stays online for as long as it hangs.
\<close>

theorem hanging_machine_stays_online:
  "hb_db (sweeps ev h (map (\<lambda>t. ((t, 0), Unreached e)) ts) s) = hb_db s \<and>
   hb_notes (sweeps ev h (map (\<lambda>t. ((t, 0), Unreached e)) ts) s) = hb_notes s"
proof (induction ts arbitrary: s)
  case (Cons t ts)
  let ?s = "snd (sweep ev (\<lambda>_. Unreached e) (t, 0) h s)"
  have "hb_db ?s = hb_db s" "hb_notes ?s = hb_notes s"
    by (simp_all add: sweep_def ask_def swept_def settle_status_def status_call_def Let_def)
  then show ?case using Cons.IH [of ?s] by (simp add: sweeps_def)
qed (simp add: sweeps_def)

section \<open>Enrollment\<close>

lemma vet_report_code:
  "vet_report key now c body d = Inr (r, rp) \<Longrightarrow>
     enroll_code now c d = Some r \<and> c_kind r \<noteq> ''mobile'' \<and> key (rp_key rp) = None \<and> rp_port rp \<noteq> 0"
  by (auto simp: vet_report_def split: option.splits if_splits sum.splits)

lemma enroll_code_member: "enroll_code now c d = Some r \<Longrightarrow> r \<in> set (tb_codes d) \<and> code_live now c r"
  by (auto simp: enroll_code_def dest: find_set)

lemma code_spent: "enroll_code now c (snd (use_enroll_code now c d)) = None"
proof -
  have "enroll_code now c (snd (use_enroll_code now c d)) \<noteq> None \<longleftrightarrow> False"
    unfolding live_after_use by blast
  then show ?thesis by blast
qed

lemma use_code_hosts [simp]: "tb_hosts (snd (use_enroll_code now c d)) = tb_hosts d"
  by (simp add: use_enroll_code_def)

lemma add_host_result:
  assumes "h_kind h = ''''"
  shows "add_host now h d =
    (if h_name h \<in> set (map h_name (tb_hosts d))
     then Inl (Err (''a host named '' @ go_quote (h_name h) @ '' is already enrolled''))
     else Inr (next_id (map h_id (tb_hosts d)), d\<lparr>tb_hosts := tb_hosts d @ [h\<lparr>h_id := next_id (map h_id (tb_hosts d)),
       h_kind := ''compute'', h_status := ''unknown'', h_model := '''', h_vault := '''', h_revoked := '''',
       h_enrolled := sql_stamp now, h_last_seen := None\<rparr>]\<rparr>))"
  using assms by (cases h) (simp add: add_host_def Let_def host_kinds_def)

lemma reported_host_simps [simp]:
  "h_kind (reported_host r ip rp d) = ''''" "h_name (reported_host r ip rp d) = c_name r"
  "h_addr (reported_host r ip rp d) = ip" "h_key (reported_host r ip rp d) = trim_space (rp_key rp)"
  "h_port (reported_host r ip rp d) = rp_port rp"
  by (simp_all add: reported_host_def)

lemma report_outcome:
  "case enroll_report key now c from_ip body s of
     (Inr h, s') \<Rightarrow>
       (\<exists>r x. enroll_code now c (hb_db s) = Some r \<and> tb_hosts (hb_db s') = tb_hosts (hb_db s) @ [x] \<and>
          h_id x = h_id h \<and> h_id h \<notin> set (map h_id (tb_hosts (hb_db s))) \<and> h_name x = c_name r \<and>
          h_addr x = from_ip \<and> h_vault x = '''' \<and> h_kind x = ''compute'' \<and> h_status x = ''unknown'') \<and>
       enroll_code now c (hb_db s') = None
   | (Inl e, s') \<Rightarrow>
       tb_hosts (hb_db s') = tb_hosts (hb_db s) \<and>
       (hb_db s' = hb_db s \<or> enroll_code now c (hb_db s') = None \<and>
          ((\<exists>r. enroll_code now c (hb_db s) = Some r \<and> c_name r \<in> set (map h_name (tb_hosts (hb_db s)))) \<or>
           \<not> fst (use_enroll_code now c (hb_db s))))"
proof (cases "vet_report key now c body (hb_db s)")
  case (Inl e)
  then show ?thesis by (simp add: enroll_report_def)
next
  case (Inr vetted)
  obtain r rp where v: "vetted = (r, rp)" by force
  obtain ok d where u: "use_enroll_code now c (hb_db s) = (ok, d)" by force
  have r: "enroll_code now c (hb_db s) = Some r" using vet_report_code Inr v by blast
  have d: "tb_hosts d = tb_hosts (hb_db s)" "enroll_code now c d = None"
    using use_code_hosts [of now c "hb_db s"] code_spent [of now c "hb_db s"] by (simp_all add: u)
  have codes: "enroll_code now c (d\<lparr>tb_hosts := xs\<rparr>) = enroll_code now c d" for xs by (simp add: enroll_code_def)
  show ?thesis
    using r d next_id_fresh [of "map h_id (tb_hosts d)"]
    by (cases ok) (auto simp: enroll_report_def Inr v accept_report_def u Let_def add_host_result codes
        split: if_splits intro!: exI [of _ r])
qed

lemma update_fresh:
  assumes "i \<notin> set (map h_id xs)" "h_id x = i"
  shows "update_where (\<lambda>h. h_id h = i) f (xs @ [x]) = xs @ [f x]"
proof -
  have "update_where (\<lambda>h. h_id h = i) f xs = xs" using assms(1) by (intro update_where_none) auto
  then show ?thesis using assms(2) by (simp add: update_where_def)
qed

lemma mobile_outcome:
  "case report_mobile now k c body s of
     (Inr (h, k'), s') \<Rightarrow>
       (\<exists>r x. enroll_code now c (hb_db s) = Some r \<and> tb_hosts (hb_db s') = tb_hosts (hb_db s) @ [x] \<and>
          h_id x = h_id h \<and> h_id h \<notin> set (map h_id (tb_hosts (hb_db s))) \<and> h_name x = c_name r \<and>
          h_kind x = ''mobile'' \<and> h_key x = k \<and> k' = k \<and> h_vault x = '''' \<and> h_status x = ''online'') \<and>
       enroll_code now c (hb_db s') = None
   | (Inl e, s') \<Rightarrow> tb_hosts (hb_db s') = tb_hosts (hb_db s)"
proof -
  obtain ok d where u: "use_enroll_code now c (hb_db s) = (ok, d)" by force
  have d: "tb_hosts d = tb_hosts (hb_db s)" "enroll_code now c d = None"
    using use_code_hosts [of now c "hb_db s"] code_spent [of now c "hb_db s"] by (simp_all add: u)
  have codes: "enroll_code now c (d\<lparr>tb_hosts := xs\<rparr>) = enroll_code now c d" for xs by (simp add: enroll_code_def)
  define i where "i = next_id (map h_id (tb_hosts (hb_db s)))"
  have i: "i \<notin> set (map h_id (tb_hosts (hb_db s)))" using next_id_fresh [of "map h_id (tb_hosts (hb_db s))"] by (simp add: i_def)
  then have none: "List.find (\<lambda>h. h_id h = i) (tb_hosts (hb_db s)) = None" by (auto simp: find_None_iff)
  show ?thesis
    using d i by (auto simp: report_mobile_def u Let_def add_host_def paired_phone_def host_kinds_def
        set_host_status_def host_statuses_def find_snoc none codes update_fresh i_def [symmetric]
        split: option.split sum.split)
qed

text \<open>
  A post to the enrollment door either enrolls one machine or phone, of the kind and under the name its
  code was made for, without a vault token, with the code spent and every other row as it was; or it
  enrolls nothing.
\<close>

theorem post_enrolls_once:
  "case enroll_post key machine_body phone_body now device_key c from_ip body s of
     (Some (h, k), s') \<Rightarrow>
       (\<exists>r x. enroll_code now c (hb_db s) = Some r \<and> tb_hosts (hb_db s') = tb_hosts (hb_db s) @ [x] \<and>
          h_id x = h_id h \<and> h_id h \<notin> set (map h_id (tb_hosts (hb_db s))) \<and> h_name x = c_name r \<and>
          (h_kind x = ''mobile'') = (c_kind r = ''mobile'') \<and> h_vault x = '''') \<and>
       enroll_code now c (hb_db s') = None
   | (None, s') \<Rightarrow> tb_hosts (hb_db s') = tb_hosts (hb_db s)"
proof (cases "case enroll_code now c (hb_db s) of Some r \<Rightarrow> c_kind r = ''mobile'' | None \<Rightarrow> False")
  case True
  obtain res s' where res: "report_mobile now device_key c (phone_body body) s = (res, s')" by force
  show ?thesis
    using mobile_outcome [where now = now and k = device_key and c = c and body = "phone_body body" and s = s] True
    by (cases res) (auto simp: enroll_post_def res split: option.splits)
next
  case False
  obtain res s' where res: "enroll_report key now c from_ip (machine_body body) s = (res, s')" by force
  show ?thesis
    using report_outcome [where key = key and now = now and c = c and from_ip = from_ip and body = "machine_body body" and s = s] False
    by (cases res) (auto simp: enroll_post_def res split: option.splits)
qed

section \<open>The vault\<close>

lemma digits_inj: "digits m = digits n \<Longrightarrow> m = n"
  by (metis option.inject parse_nat_digits)

lemma itoa_eq_iff: "itoa i = itoa j \<longleftrightarrow> i = j"
proof -
  have "digits n \<noteq> CHR ''-'' # cs" for n cs using hd_digits [of n] by (auto simp: is_digit_def)
  then show ?thesis by (auto simp: itoa_def dest!: digits_inj split: if_splits) (metis)
qed

lemma trim_itoa: "trim_space (itoa i) = itoa i"
proof (rule trim_space_id)
  have "is_digit x \<Longrightarrow> \<not> is_space x" for x by (auto simp: is_digit_def is_space_def)
  then show "\<forall>c \<in> set (itoa i). \<not> is_space c"
    using digits_all_digit by (auto simp: itoa_def list_all_iff is_space_def)
qed

text \<open>The rows a token opens nothing for: machine \<open>i\<close> has none, and no other is called by its number.\<close>

definition no_token :: "int \<Rightarrow> db \<Rightarrow> bool" where
  "no_token i d = (\<forall>x \<in> set (tb_hosts d). (h_id x = i \<longrightarrow> h_vault x = '''') \<and> h_name x \<noteq> itoa i)"

lemma no_token_refused:
  assumes "no_token i d" "host (itoa i) d = Inr cur"
  shows "h_vault cur = ''''"
proof -
  obtain x where "List.find (host_matches (itoa i)) (tb_hosts d) = Some x" "cur = scan_host x"
    using assms(2) by (auto simp: host_def trim_itoa Let_def split: if_splits option.splits)
  then have "x \<in> set (tb_hosts d)" "host_matches (itoa i) x" by (auto dest: find_set)
  with assms(1) \<open>cur = scan_host x\<close> show ?thesis
    by (auto simp: no_token_def host_matches_def itoa_eq_iff scan_host_def)
qed

lemma no_token_update:
  "no_token i d \<Longrightarrow> (\<And>x. h_id (f x) = h_id x \<and> h_name (f x) = h_name x \<and> (h_vault (f x) = h_vault x \<or> h_vault (f x) = '''' \<or> j \<noteq> i))
     \<Longrightarrow> no_token i (d\<lparr>tb_hosts := update_where (\<lambda>x. h_id x = j) f (tb_hosts d)\<rparr>)"
  by (auto simp: no_token_def set_update_where) metis+

lemma no_token_hosts: "tb_hosts d' = tb_hosts d \<Longrightarrow> no_token i d' = no_token i d"
  by (simp add: no_token_def)

lemma no_token_status:
  "set_host_status now j status fs mdl d = Inr (prev, d') \<Longrightarrow> no_token i d \<Longrightarrow> no_token i d'"
  by (cases fs) (auto simp: set_host_status_def intro!: no_token_update split: option.splits if_splits)

lemma no_token_settle:
  "no_token i (hb_db s) \<Longrightarrow> no_token i (hb_db (snd (settle_status now in_time h status fs mdl s)))"
  by (auto simp: settle_status_def intro: no_token_status split: sum.split)

lemma no_token_record [simp]: "no_token i (hb_db (record_facts turn h f s)) = no_token i (hb_db s)"
  by (rule no_token_hosts) (simp add: record_facts_simps)

lemma no_token_sweep: "no_token i (hb_db s) \<Longrightarrow> no_token i (hb_db (snd (sweep ev m turn h s)))"
  by (auto simp: sweep_def ask_def Let_def split: prod.split option.split intro!: no_token_settle)

lemma no_token_stale: "no_token i (hb_db s) \<Longrightarrow> no_token i (hb_db (mark_stale_phone now h s))"
  by (auto simp: mark_stale_phone_def intro: no_token_status split: option.split sum.split bool.split)

lemma no_token_fold: "(\<And>x s. no_token i (hb_db s) \<Longrightarrow> no_token i (hb_db (f x s))) \<Longrightarrow>
    no_token i (hb_db s) \<Longrightarrow> no_token i (hb_db (fold f xs s))"
  by (induction xs arbitrary: s) simp_all

lemma rollup_hosts [simp]:
  "tb_hosts (rollup_usage now d) = tb_hosts d" "tb_hosts (rollup_metrics now d) = tb_hosts d"
  by (simp_all add: rollup_usage_def rollup_metrics_def prune_usage_def Let_def)

lemma no_token_rollup [simp]: "no_token i (rollup_usage now (rollup_metrics now d)) = no_token i d"
  by (rule no_token_hosts) simp

lemma no_token_beat:
  assumes "no_token i (hb_db s)"
  shows "no_token i (hb_db (snd (beat ev m turn now rolled s)))"
proof -
  have "no_token i (hb_db (fold (\<lambda>h s. snd (sweep ev m (turn h) h s)) (hosts (hb_db s)) s))"
    by (rule no_token_fold [OF _ assms]) (rule no_token_sweep)
  then have "no_token i (hb_db (mark_stale_mobile now (hosts (hb_db s))
      (fold (\<lambda>h s. snd (sweep ev m (turn h) h s)) (hosts (hb_db s)) s)))"
    unfolding mark_stale_mobile_def by (rule no_token_fold [rotated]) (rule no_token_stale)
  then show ?thesis by (simp add: beat_def Let_def)
qed

lemma put_file_db [simp]: "hb_db (snd (put_file m h path content mode sudo s)) = hb_db s"
  by (simp add: put_file_def ask_def Let_def split: sum.split prod.split)

lemma gated_db [simp]:
  "hb_db (snd (write_file m h path content mode sudo s)) = hb_db s"
  "hb_db (snd (run_gated m h command fw s)) = hb_db s"
  by (auto simp: write_file_def run_gated_def ask_def Let_def split: option.split)

lemma deliver_hosts:
  "tb_hosts (hb_db (snd (deliver_credentials ev m token fw h s))) = tb_hosts (hb_db s) \<or>
   tb_hosts (hb_db (snd (deliver_credentials ev m token fw h s))) =
     tb_hosts (set_vault_token (h_id h) token (hb_db s))"
proof -
  let ?p = "\<lambda>path content s. put_file m h path content ''0600'' True s"
  have own: "hb_db (snd (own_files m h s)) = hb_db s" for s
    by (simp add: own_files_def ask_def Let_def split: sum.split prod.split)
  have pull: "hb_db (snd (pull_snapshot ev m fw h s)) = hb_db s" for s
    by (simp add: pull_snapshot_def ask_def Let_def split: sum.split prod.split option.split)
  have put: "?p path content s = (x, t) \<Longrightarrow> hb_db t = hb_db s" for path content s x t
    by (metis put_file_db snd_conv)
  show ?thesis
    by (auto simp: deliver_credentials_def pull dest!: put split: sum.split prod.split option.split)
      (metis own snd_conv)+
qed

lemma no_token_deliver:
  "h_id h \<noteq> i \<Longrightarrow> no_token i (hb_db s) \<Longrightarrow> no_token i (hb_db (snd (deliver_credentials ev m token fw h s)))"
  using deliver_hosts [of ev m token fw h s]
    no_token_update [of i "hb_db s" "\<lambda>x. x\<lparr>h_vault := token\<rparr>" "h_id h"]
  by (auto simp: no_token_def set_vault_token_def update_host_def)

lemma no_token_finish:
  assumes "h_id h \<noteq> i" "no_token i (hb_db s)"
  shows "no_token i (hb_db (snd (finish_enrollment ev m turn token dial fw rebuild h s)))"
proof -
  have run: "hb_db (run_rebuild m h t) = hb_db t" for t
    by (simp add: run_rebuild_def ask_def Let_def split: sum.split)
  have "no_token i (hb_db (snd (deliver_credentials ev m token fw h s)))" by (rule no_token_deliver [OF assms])
  then show ?thesis
    using assms(2) by (auto simp: finish_enrollment_def Let_def credentials_failed_def run
        split: option.split prod.split sum.split intro!: no_token_sweep)
qed

lemma no_token_report:
  assumes "\<forall>r \<in> set (tb_codes (hb_db s)). c_name r \<noteq> itoa i" "no_token i (hb_db s)"
  shows "no_token i (hb_db (snd (enroll_report key now c from_ip body s)))"
proof -
  have "c_name r \<noteq> itoa i" if "vet_report key now c body (hb_db s) = Inr (r, rp)" for r rp
    using vet_report_code [OF that] enroll_code_member assms(1) by blast
  then show ?thesis
    using assms(2)
    by (auto simp: enroll_report_def accept_report_def add_host_result Let_def no_token_def use_enroll_code_def
        split: sum.split prod.split)
qed

text \<open>
  A call of the store as it bears on machine \<open>i\<close>: everything that any part of the hub writes, but for a token
  given to \<open>i\<close> itself and a machine called by its number. A call that leaves the table of the machines as it is
  may write what it likes in the others.
\<close>

inductive other_write :: "int \<Rightarrow> db \<Rightarrow> db \<Rightarrow> bool" for i where
  write_else: "tb_hosts d' = tb_hosts d \<Longrightarrow> other_write i d d'"
| write_host: "add_host now h d = Inr (j, d') \<Longrightarrow> h_name h \<noteq> itoa i \<Longrightarrow> other_write i d d'"
| write_status: "set_host_status now j status fs mdl d = Inr (prev, d') \<Longrightarrow> other_write i d d'"
| write_script: "other_write i d (set_rebuild_script j script d)"
| write_more: "other_write i d (append_rebuild_script j script d)"
| write_token: "j \<noteq> i \<or> token = '''' \<Longrightarrow> other_write i d (set_vault_token j token d)"
| write_revoked: "other_write i d (set_credentials_revoked j stamp d)"
| write_addr: "other_write i d (set_host_addr j addr d)"
| write_gone: "other_write i d (remove_host j d)"

lemma no_token_update_host:
  "no_token i d \<Longrightarrow> (\<And>x. h_id (f x) = h_id x) \<Longrightarrow> (\<And>x. h_name (f x) = h_name x) \<Longrightarrow>
     (\<And>x. h_vault (f x) = h_vault x \<or> h_vault (f x) = '''' \<or> j \<noteq> i) \<Longrightarrow> no_token i (update_host j f d)"
  unfolding update_host_def by (rule no_token_update) auto

lemma no_token_write: "other_write i d d' \<Longrightarrow> no_token i d \<Longrightarrow> no_token i d'"
proof (induction rule: other_write.induct)
  case (write_else d' d)
  then show ?case using no_token_hosts by blast
next
  case (write_host now h d j d')
  then show ?case by (auto simp: add_host_def no_token_def Let_def split: if_split_asm)
next
  case (write_gone d j)
  then show ?case
    by (simp add: no_token_def remove_host_def drop_jobs_def drop_tasks_def drop_clusters_def drop_workspaces_def
        delete_where_def Let_def)
next
  case (write_token j token d)
  then show ?case unfolding set_vault_token_def by (intro no_token_update_host) auto
qed (simp_all add: no_token_status set_rebuild_script_def append_rebuild_script_def
    set_credentials_revoked_def set_host_addr_def no_token_update_host)

text \<open>
  What else may happen on a hub: any call of the store above, whatever it tells and sends besides, and the
  operations that touch the machines' credentials and status as a whole, but for handing machine \<open>i\<close> a token.
\<close>

inductive hub_step :: "int \<Rightarrow> hub \<Rightarrow> hub \<Rightarrow> bool" for i where
  hub_writes: "other_write i (hb_db s) (hb_db s') \<Longrightarrow> hub_step i s s'"
| hub_sweeps: "hub_step i s (snd (sweep ev m turn h s))"
| hub_beats: "hub_step i s (snd (beat ev m turns now rolled s))"
| hub_hears: "hub_step i s (snd (set_mobile_status now h k fs s))"
| hub_revokes: "hub_step i s (revoke_credentials stamp h s)"
| hub_updates: "h_id h \<noteq> i \<Longrightarrow> hub_step i s (snd (update_credentials ev m token dial fw h s))"
| hub_reprovisions: "h_id h \<noteq> i \<Longrightarrow> hub_step i s (snd (reprovision ev m turn token dial fw h s))"
| hub_finishes: "h_id h \<noteq> i \<Longrightarrow> hub_step i s (snd (finish_enrollment ev m turn token dial fw rebuild h s))"
| hub_enrolls: "\<forall>r \<in> set (tb_codes (hb_db s)). c_name r \<noteq> itoa i \<Longrightarrow>
    hub_step i s (snd (enroll_report key now c from_ip body s))"
| hub_answers: "hub_step i s (snd (vault_request ev h header s))"

text \<open>
  The states of a hub since \<open>r\<close>: what its steps lead to, and a restart on a state file exported in one of them.
\<close>

inductive since :: "int \<Rightarrow> hub \<Rightarrow> hub \<Rightarrow> bool" for i r where
  since_start: "since i r r"
| since_step: "since i r s \<Longrightarrow> hub_step i s s' \<Longrightarrow> since i r s'"
| since_restore: "since i r s \<Longrightarrow> since i r s0 \<Longrightarrow> since i r (s\<lparr>hb_db := hb_db s0\<rparr>)"

lemma no_token_revoke: "no_token i (hb_db s) \<Longrightarrow> no_token i (hb_db (revoke_credentials stamp h s))"
  by (auto simp: revoke_credentials_def set_credentials_revoked_def set_vault_token_def update_host_def
      no_token_def set_update_where)

lemma no_token_reprovision:
  assumes "h_id h \<noteq> i" "no_token i (hb_db s)"
  shows "no_token i (hb_db (snd (reprovision ev m turn token dial fw h s)))"
proof -
  have asked: "no_token i (hb_db (snd (ask m h argv stdin s)))" for argv stdin
    using assms(2) by (simp add: ask_def Let_def)
  have given: "no_token i (hb_db (snd (deliver_credentials ev m token fw h (snd (ask m h argv stdin s)))))" for argv stdin
    by (rule no_token_deliver [OF assms(1) asked])
  show ?thesis
    using assms(2) asked given
    by (auto simp: reprovision_def credentials_failed_def intro!: no_token_sweep
        split: sum.split option.split prod.split) (metis snd_conv)+
qed

lemma no_token_step: "hub_step i s t \<Longrightarrow> no_token i (hb_db s) \<Longrightarrow> no_token i (hb_db t)"
proof (induction rule: hub_step.induct)
  case (hub_writes s s')
  then show ?case by (rule no_token_write)
next
  case (hub_hears s now h k fs)
  then show ?case by (auto simp: set_mobile_status_def intro: no_token_status split: sum.split)
next
  case (hub_updates h s ev m token dial fw)
  then have "no_token i (hb_db (snd (deliver_credentials ev m token fw h s)))" by (intro no_token_deliver)
  then show ?case
    using hub_updates by (auto simp: update_credentials_def credentials_failed_def set_credentials_revoked_def
        update_host_def no_token_def set_update_where split: option.split prod.split sum.split)
next
  case (hub_answers s ev h header)
  then show ?case by (simp add: vault_request_def Let_def split: sum.split)
qed (simp_all add: no_token_sweep no_token_beat no_token_revoke no_token_finish no_token_report no_token_reprovision)

lemma no_token_since: "since i r s \<Longrightarrow> no_token i (hb_db r) \<Longrightarrow> no_token i (hb_db s)"
  by (induction rule: since.induct) (auto intro: no_token_step)

text \<open>
  C5: Once a machine's vault access is revoked, the proxy answers none of its requests, whatever token they
  carry, until a token is minted for that very machine or a state file from before the revocation is restored:
  not after any calls of the store, sweeps, beats, enrollments, deliveries to other machines, removals, or a
  restore of what was exported since. (No machine may be called by the number of another: names and numbers
  are looked up together.)
\<close>

theorem revoked_machine_gets_nothing:
  assumes "\<forall>x \<in> set (tb_hosts (hb_db s)). h_name x \<noteq> itoa (h_id h)"
    and "since (h_id h) (revoke_credentials stamp h s) s'"
  shows "fst (vault_request ev h header s') = Inl 401"
proof -
  have "no_token (h_id h) (hb_db (revoke_credentials stamp h s))"
    using assms(1) by (auto simp: no_token_def revoke_credentials_def set_credentials_revoked_def
        set_vault_token_def update_host_def set_update_where)
  with assms(2) have "no_token (h_id h) (hb_db s')" by (rule no_token_since)
  then show ?thesis
    using no_token_refused by (auto simp: vault_request_def Let_def split: sum.split)
qed

text \<open>
  The token is kept in the state file, and the vault's proxy asks nothing else: a hub restored from an export
  made before a revocation answers the revoked machine as it did then.
\<close>

theorem restore_undoes_revocation:
  "fst (vault_request ev h header ((revoke_credentials stamp h s)\<lparr>hb_db := hb_db s\<rparr>)) = fst (vault_request ev h header s)"
  by (simp add: vault_request_def Let_def split: sum.split)

section \<open>Phones\<close>

text \<open>
  A phone is called offline by the row the heartbeat read before its sweeps: a push that arrived since
  does not count, and the phone that has just reported is offline.
\<close>

theorem fresh_phone_called_offline:
  assumes "h_kind h = ''mobile''" "h_status h \<noteq> ''offline''" "h_last_seen h = Some seen"
    and "mobile_stale \<le> now - seen * 1000000"
    and "set_mobile_status now h (h_key h) fs s = (None, s1)"
  shows "\<exists>x y. row_of (h_id h) (hb_db s1) = Some x \<and> h_status x = ''online'' \<and> h_last_seen x = Some (sql_stamp now) \<and>
    row_of (h_id h) (hb_db (mark_stale_phone now h s1)) = Some y \<and> h_status y = ''offline''"
proof -
  obtain prev d where d: "set_host_status now (h_id h) ''online''
      (Some (merge_mobile_facts fs (f_phone_model (h_facts h)) (f_android (h_facts h)))) '''' (hb_db s) = Inr (prev, d)"
    "s1 = s\<lparr>hb_db := d\<rparr>"
    using assms(5) by (auto simp: set_mobile_status_def split: if_splits sum.splits)
  obtain x where x: "row_of (h_id h) d = Some x" "h_status x = ''online''" "h_last_seen x = Some (sql_stamp now)"
    using d(1) by (auto simp: set_host_status_def find_update_where split: option.splits if_splits)
  have "row_of (h_id h) (hb_db (mark_stale_phone now h s1)) = Some (x\<lparr>h_status := ''offline''\<rparr>)"
    using assms(1-4) x(1) d(2)
    by (simp add: mark_stale_phone_def set_host_status_def host_statuses_def find_update_where)
  with x d(2) show ?thesis by simp
qed

section \<open>One machine, one phone\<close>

definition nas :: host_row where
  "nas = \<lparr>h_id = 1, h_name = ''nas'', h_kind = ''compute'', h_addr = ''10.0.0.2'', h_port = 22, h_user = ''homedash'',
     h_key = ''ssh-ed25519 AAAA'', h_status = ''online'', h_facts = no_facts, h_model = '''', h_rebuild = '''',
     h_vault = ''abc'', h_revoked = '''', h_enrolled = 0, h_last_seen = None\<rparr>"

definition phone :: host_row where
  "phone = nas\<lparr>h_id := 2, h_name := ''phone'', h_kind := ''mobile'', h_key := ''k'', h_last_seen := Some 0\<rparr>"

definition still :: hub where
  "still = \<lparr>hb_db = empty_db\<lparr>tb_hosts := [nas, phone]\<rparr>, hb_notes = [], hb_sent = [], hb_full = (\<lambda>_. None)\<rparr>"

definition disk :: "int \<Rightarrow> mount" where
  "disk free = \<lparr>m_path = ''/'', m_fs = ''ext4'', m_size = 100, m_free = free, m_source = ''''\<rparr>"

definition env :: fleet_env where
  "env = \<lparr>fe_url = '''', fe_pub_key = '''', fe_omp = '''', fe_llmfit_version = '''', fe_llmfit = '''',
     fe_vault_addr = '''', fe_vault = Inr ''real'', fe_hook = '''', fe_layout = (\<lambda>_ _ _. Inr ''''),
     fe_enroll = (\<lambda>_ _ _ _. Inr ''''), fe_facts_script = '''', fe_facts = (\<lambda>_. None)\<rparr>"

theorem disk_events_are_crossings_witness:
  "map fst (hb_notes (readings nas [(90, disk 5), (90, disk 4), (90, disk 50), (40, disk 50)] still)) =
     [''disk.full'', ''disk.ok'', ''disk.full'']"
  by (subst disk_events_are_crossings [where p = "''/''"])
    (simp_all add: disk_def has_prefix_def still_def used_percent_def i64_def go_div_def disk_kind_def)

theorem sweeps_tell_transitions_witness:
  "map fst (filter status_note (hb_notes (sweeps env nas
      [((0, 3), Unreached ''timeout''), ((1, 3), Unreached ''timeout''), ((2, 0), KeyRefused), ((3, 1), KeyRefused)] still))) =
     [''host.offline'', ''host.mismatch'']"
proof -
  have "row_of (h_id nas) (hb_db still) = Some nas" "h_kind nas \<noteq> ''mobile''"
    by (simp_all add: still_def nas_def)
  from sweeps_tell_transitions [OF this] show ?thesis
    by (simp add: recorded_def swept_def status_call_def) (simp add: still_def nas_def)
qed

theorem revoked_machine_gets_nothing_witness:
  "fst (vault_request env nas ''Bearer abc'' still) = Inr ''Bearer real'' \<and>
   fst (vault_request env nas ''Bearer abc'' (snd (sweep env (\<lambda>_. KeyRefused) (0, 1) nas (revoke_credentials '''' nas still)))) = Inl 401"
proof
  have one: "itoa 1 = ''1''" by code_simp
  show "fst (vault_request env nas ''Bearer abc'' still) = Inr ''Bearer real''"
    by (simp add: vault_request_def still_def nas_def phone_def host_def one host_matches_def trim_space_id is_space_def
        is_digit_def scan_host_def env_def trim_prefix_def Let_def)
  show "fst (vault_request env nas ''Bearer abc'' (snd (sweep env (\<lambda>_. KeyRefused) (0, 1) nas (revoke_credentials '''' nas still)))) = Inl 401"
  proof (rule revoked_machine_gets_nothing)
    show "\<forall>x \<in> set (tb_hosts (hb_db still)). h_name x \<noteq> itoa (h_id nas)"
      by (simp add: still_def nas_def phone_def one)
    show "since (h_id nas) (revoke_credentials '''' nas still)
        (snd (sweep env (\<lambda>_. KeyRefused) (0, 1) nas (revoke_credentials '''' nas still)))"
      by (rule since_step [OF since_start hub_sweeps])
  qed
qed

theorem fresh_phone_called_offline_witness:
  "\<exists>s1 x y. set_mobile_status mobile_stale phone ''k'' None still = (None, s1) \<and>
     row_of 2 (hb_db s1) = Some x \<and> h_status x = ''online'' \<and>
     row_of 2 (hb_db (mark_stale_phone mobile_stale phone s1)) = Some y \<and> h_status y = ''offline''"
proof -
  obtain s1 where s1: "set_mobile_status mobile_stale phone (h_key phone) None still = (None, s1)"
    by (simp add: set_mobile_status_def set_host_status_def phone_def nas_def still_def host_statuses_def)
  have "h_kind phone = ''mobile''" "h_status phone \<noteq> ''offline''" "h_last_seen phone = Some 0"
    "mobile_stale \<le> mobile_stale - 0 * 1000000" "h_key phone = ''k''" "h_id phone = 2"
    by (simp_all add: phone_def nas_def)
  with fresh_phone_called_offline [OF this(1-4) s1] s1 show ?thesis by metis
qed

end
