(* ===== verification/Apps.thy ===== *)
theory Apps
  imports FleetDoor ComposeGate Placement
begin

text \<open>
  \<open>internal/apps/apps.go\<close>: the catalog and the compose stacks on the machines. Nothing about a stack is
  kept on the hub; an operation is the commands it sends, in order, and what it makes of the answers. The
  JSON library is a parameter: \<open>dec\<close> and \<open>enc\<close> for a catalog entry, readers for what docker prints.
\<close>

section \<open>The catalog\<close>

record setup_file =
  sf_path :: string
  sf_content :: string

record entry =
  en_name :: string
  en_title :: string
  en_description :: string
  en_needs :: needs
  en_volumes :: "string list"
  en_compose :: string
  en_files :: "setup_file list"
  en_env :: string
  en_setup :: "string list"

definition safe_rel_path :: "string \<Rightarrow> bool" where
  "safe_rel_path p =
     (p \<noteq> '''' \<and> \<not> has_prefix p ''/'' \<and> list_all (\<lambda>seg. seg \<noteq> '''' \<and> seg \<noteq> ''..'') (split_on (CHR ''/'') p))"

text \<open>\<open>^[a-z0-9][a-z0-9_-]{0,63}$\<close>\<close>

definition stack_name :: "string \<Rightarrow> bool" where
  "stack_name s =
     (case s of
        [] \<Rightarrow> False
      | c # cs \<Rightarrow> name_char c \<and> length cs \<le> 63 \<and> list_all (\<lambda>d. name_char d \<or> d = CHR ''_'' \<or> d = CHR ''-'') cs)"

definition catalog :: "(string \<Rightarrow> entry option) \<Rightarrow> db \<Rightarrow> entry list" where
  "catalog dec d =
     insertion_sort (\<lambda>a b. str_less (en_name a) (en_name b))
       (filter (\<lambda>e. en_name e \<noteq> '''') (List.map_filter dec (catalog_entries d)))"

definition escapes :: "setup_file list \<Rightarrow> err option" where
  "escapes fs =
     (case List.find (\<lambda>f. \<not> safe_rel_path (sf_path f)) fs of
        None \<Rightarrow> None
      | Some f \<Rightarrow> Some (Err (''setup file path '' @ go_quote (sf_path f) @ '' escapes the stack directory'')))"

definition add_catalog_entry :: "(entry \<Rightarrow> string) \<Rightarrow> entry \<Rightarrow> db \<Rightarrow> db res" where
  "add_catalog_entry enc e d =
     (if \<not> stack_name (en_name e) then Inl (Err ''a catalog name is lowercase letters, digits, - and _'')
      else if trim_space (en_compose e) = '''' then Inl (Err ''an entry needs a compose file'')
      else case escapes (en_files e) of
             Some err \<Rightarrow> Inl err
           | None \<Rightarrow> Inr (set_catalog_entry (en_name e) (enc e) d))"

definition delete_catalog :: "(string \<Rightarrow> entry option) \<Rightarrow> string \<Rightarrow> db \<Rightarrow> db res" where
  "delete_catalog dec name d =
     (if list_ex (\<lambda>c. case dec c of None \<Rightarrow> False | Some e \<Rightarrow> en_name e = name) (catalog_entries d)
      then Inr (delete_catalog_entry name d) else Inl CatalogNotFound)"

section \<open>Commands\<close>

definition stack_dir :: "string \<Rightarrow> string" where
  "stack_dir name = ''stacks/'' @ name"

text \<open>A managed stack is addressed by its file, another by its project name.\<close>

definition compose_line :: "string \<Rightarrow> string \<Rightarrow> string" where
  "compose_line name args =
     ''cd && if [ -f '' @ stack_dir name @ ''/compose.yml ]; then docker compose -f '' @ stack_dir name @
     ''/compose.yml -p '' @ name @ '' '' @ args @ ''; else docker compose -p '' @ name @ '' '' @ args @ ''; fi''"

definition sh_lc :: "string \<Rightarrow> string list" where
  "sh_lc line = [''sh'', ''-lc'', line]"

definition compose :: "machine \<Rightarrow> host_row \<Rightarrow> string \<Rightarrow> string \<Rightarrow> hub \<Rightarrow> (string \<times> err option) \<times> hub" where
  "compose m h name args s =
     (case ask m h (sh_lc (compose_line name args)) '''' s of (r, s1) \<Rightarrow>
        (case answer r of
           Inl e \<Rightarrow> (('''', Some e), s1)
         | Inr (status, out, err) \<Rightarrow>
             ((out @ err, if status \<noteq> 0 then Some (Err (''docker compose '' @ hd (GoStrings.fields args) @ '' failed'')) else None), s1)))"

section \<open>Deploying\<close>

definition make_dir :: "machine \<Rightarrow> host_row \<Rightarrow> string \<Rightarrow> hub \<Rightarrow> err option \<times> hub" where
  "make_dir m h name s =
     (case run_gated m h (''mkdir -p '' @ stack_dir name) None s of
        (Inl e, s1) \<Rightarrow> (Some e, s1)
      | (Inr _, s1) \<Rightarrow> (None, s1))"

fun put_files :: "machine \<Rightarrow> host_row \<Rightarrow> string \<Rightarrow> setup_file list \<Rightarrow> hub \<Rightarrow> err option \<times> hub" where
  "put_files m h name [] s = (None, s)"
| "put_files m h name (f # fs) s =
     (case write_file m h (stack_dir name @ ''/'' @ sf_path f) (sf_content f) ''0644'' False s of
        (Some e, s1) \<Rightarrow> (Some e, s1)
      | (None, s1) \<Rightarrow> put_files m h name fs s1)"

definition setup_line :: "string \<Rightarrow> string \<Rightarrow> string" where
  "setup_line name cmd = ''cd '' @ stack_dir name @ '' && '' @ cmd"

text \<open>Only a command that could not be run stops the list; one that fails does not.\<close>

fun run_setup :: "machine \<Rightarrow> host_row \<Rightarrow> string \<Rightarrow> string list \<Rightarrow> hub \<Rightarrow> err option \<times> hub" where
  "run_setup m h name [] s = (None, s)"
| "run_setup m h name (c # cs) s =
     (case run_gated m h (setup_line name c) None s of
        (Inl e, s1) \<Rightarrow>
          (Some (case e of
                   Refusal r \<Rightarrow> Refusal r
                 | _ \<Rightarrow> Err (''setup command failed: '' @ c @ '': '' @ err_text e)), s1)
      | (Inr _, s1) \<Rightarrow> run_setup m h name cs s1)"

text \<open>The error wraps a refusal, which the callers still find in it: it stays one here.\<close>

definition prepare :: "machine \<Rightarrow> host_row \<Rightarrow> string \<Rightarrow> setup_file list \<Rightarrow> string list \<Rightarrow> hub \<Rightarrow> err option \<times> hub" where
  "prepare m h name files cmds s =
     (case (if files \<noteq> [] \<or> cmds \<noteq> [] then make_dir m h name s else (None, s)) of
        (Some e, s1) \<Rightarrow> (Some e, s1)
      | (None, s1) \<Rightarrow>
          (case put_files m h name files s1 of
             (Some e, s2) \<Rightarrow> (Some e, s2)
           | (None, s2) \<Rightarrow> run_setup m h name cmds s2))"

text \<open>The compose file and the environment.\<close>

definition put_stack :: "machine \<Rightarrow> host_row \<Rightarrow> string \<Rightarrow> string \<Rightarrow> string \<Rightarrow> hub \<Rightarrow> err option \<times> hub" where
  "put_stack m h name yml envs s =
     (case write_file m h (stack_dir name @ ''/compose.yml'') yml ''0644'' False s of
        (Some e, s1) \<Rightarrow> (Some e, s1)
      | (None, s1) \<Rightarrow>
          if envs \<noteq> '''' then write_file m h (stack_dir name @ ''/.env'') envs ''0600'' False s1 else (None, s1))"

section \<open>The rebuild script\<close>

definition shell_dir :: "string \<Rightarrow> string" where
  "shell_dir path =
     (if CHR ''/'' \<in> set path
      then (let seg = after_last (CHR ''/'') path in take (length path - length seg - 1) path) else ''.'')"

definition trim_newlines :: "string \<Rightarrow> string" where
  "trim_newlines = trim_right (\<lambda>c. c = newline)"

definition heredoc :: "string \<Rightarrow> string \<Rightarrow> string \<Rightarrow> string" where
  "heredoc path marker content =
     ''cat > '' @ path @ '' <<'' @ sq @ marker @ sq @ [newline] @ trim_newlines content @ [newline] @ marker @ [newline]"

definition file_marker :: "nat \<Rightarrow> string" where
  "file_marker i = ''HOMEDASH_FILE_'' @ itoa (int i)"

definition home_dir :: "string \<Rightarrow> string" where
  "home_dir name = ''/home/homedash/stacks/'' @ name"

definition deploy_script :: "string \<Rightarrow> string \<Rightarrow> string \<Rightarrow> setup_file list \<Rightarrow> string list \<Rightarrow> string" where
  "deploy_script name yml envs files cmds =
     (let dir = home_dir name
      in lines_of [''# HomeDash: stack '' @ name @ '' (deployed from the panel)'', ''mkdir -p '' @ dir] @
         concat (map (\<lambda>(i, f). ''mkdir -p '' @ dir @ ''/'' @ shell_dir (sf_path f) @ [newline] @
                                heredoc (dir @ ''/'' @ sf_path f) (file_marker i) (sf_content f))
                     (enumerate 0 files)) @
         lines_of (map (\<lambda>c. ''(cd '' @ dir @ '' && '' @ c @ '')'') cmds) @
         heredoc (dir @ ''/compose.yml'') ''HOMEDASH_COMPOSE'' yml @
         (if envs \<noteq> '''' then heredoc (dir @ ''/.env'') ''HOMEDASH_ENV'' envs @ ''chmod 600 '' @ dir @ ''/.env'' @ [newline]
          else '''') @
         ''chown -R homedash:homedash '' @ dir @ [newline] @ ''sudo -u homedash docker compose -f '' @ dir @
         ''/compose.yml -p '' @ name @ '' up -d'')"

section \<open>Deploy\<close>

definition vet_deploy :: "host_row \<Rightarrow> string \<Rightarrow> string \<Rightarrow> setup_file list \<Rightarrow> err option" where
  "vet_deploy h name yml files =
     (if h_status h \<noteq> ''online'' then Some (Offline (h_name h))
      else if \<not> stack_name name then Some (Err ''a stack name is lowercase letters, digits, - and _'')
      else if trim_space yml = '''' then Some (Err ''a stack needs a compose file'')
      else escapes files)"

definition up_args :: string where "up_args = ''up -d --remove-orphans''"
definition down_args :: string where "down_args = ''down --remove-orphans''"

text \<open>Bringing it up; what a failure leaves is taken down again.\<close>

definition bring_up :: "machine \<Rightarrow> host_row \<Rightarrow> string \<Rightarrow> hub \<Rightarrow> (string \<times> err option) \<times> hub" where
  "bring_up m h name s =
     (case compose m h name up_args s of
        ((out, Some e), s1) \<Rightarrow> ((out, Some e), snd (compose m h name down_args s1))
      | ((out, None), s1) \<Rightarrow> ((out, None), s1))"

text \<open>The answer is the output, the warning and the error.\<close>

definition deploy ::
  "machine \<Rightarrow> host_row \<Rightarrow> string \<Rightarrow> string \<Rightarrow> string \<Rightarrow> setup_file list \<Rightarrow> string list \<Rightarrow> bool \<Rightarrow> hub \<Rightarrow>
   (string \<times> string \<times> err option) \<times> hub" where
  "deploy m h name yml envs files cmds agent s =
     (case vet_deploy h name yml files of
        Some e \<Rightarrow> (('''', '''', Some e), s)
      | None \<Rightarrow>
          (case prepare m h name files cmds s of
             (Some e, s1) \<Rightarrow> (('''', '''', Some e), s1)
           | (None, s1) \<Rightarrow>
               let reason = compose_refusal yml;
                   warning = (if reason \<noteq> '''' then ''would be refused from an agent: '' @ reason else '''')
               in if reason \<noteq> '''' \<and> agent then (('''', '''', Some (Refusal reason)), s1)
                  else (case put_stack m h name yml envs s1 of
                     (Some e, s2) \<Rightarrow> (('''', warning, Some e), s2)
                   | (None, s2) \<Rightarrow>
                       (case bring_up m h name s2 of
                          ((out, Some e), s3) \<Rightarrow> ((out, warning, Some e), s3)
                        | ((out, None), s3) \<Rightarrow>
                            ((out, warning, None),
                             say ''app.deployed'' (h_name h) (name @ '' deployed on '' @ h_name h)
                               (store_do (append_rebuild_script (h_id h) (deploy_script name yml envs files cmds)) s3))))))"

section \<open>Acting on a stack\<close>

definition removed_script :: "string \<Rightarrow> bool \<Rightarrow> string" where
  "removed_script name volumes =
     ''# HomeDash: stack '' @ name @ '' removed (from the panel)'' @ [newline] @ ''sudo -u homedash docker compose -p '' @
     name @ '' down --remove-orphans'' @ (if volumes then '' --volumes'' else '''') @
     '' 2>/dev/null || true; rm -rf /home/homedash/stacks/'' @ name"

definition action_args :: "string \<Rightarrow> bool \<Rightarrow> string option" where
  "action_args action volumes =
     (if action \<in> {''start'', ''stop'', ''restart''} then Some action
      else if action = ''remove'' then Some (down_args @ (if volumes then '' --volumes'' else ''''))
      else None)"

definition removed :: "machine \<Rightarrow> host_row \<Rightarrow> string \<Rightarrow> bool \<Rightarrow> hub \<Rightarrow> hub" where
  "removed m h name volumes s =
     say ''app.removed'' (h_name h) (name @ '' removed from '' @ h_name h)
       (store_do (append_rebuild_script (h_id h) (removed_script name volumes))
         (snd (ask m h [''rm'', ''-rf'', ''--'', stack_dir name] '''' s)))"

definition act ::
  "machine \<Rightarrow> host_row \<Rightarrow> string \<Rightarrow> string \<Rightarrow> bool \<Rightarrow> hub \<Rightarrow> (string \<times> err option) \<times> hub" where
  "act m h name action volumes s =
     (if h_status h \<noteq> ''online'' then (('''', Some (Offline (h_name h))), s)
      else if \<not> stack_name name then (('''', Some (Err ''bad stack name'')), s)
      else if action = ''pull''
      then (case compose m h name ''pull'' s of
              ((out, Some e), s1) \<Rightarrow> ((out, Some e), s1)
            | ((out, None), s1) \<Rightarrow>
                (case compose m h name ''up -d'' s1 of ((up, e), s2) \<Rightarrow> ((out @ up, e), s2)))
      else case action_args action volumes of
        None \<Rightarrow> (('''', Some (Err (''unknown action '' @ action))), s)
      | Some args \<Rightarrow>
          (case compose m h name args s of
             ((out, Some e), s1) \<Rightarrow> ((out, Some e), s1)
           | ((out, None), s1) \<Rightarrow>
               ((out, None), if action = ''remove'' then removed m h name volumes s1 else s1)))"

definition logs_args :: "int \<Rightarrow> string" where
  "logs_args n = ''logs --no-color --tail '' @ itoa (if n \<le> 0 \<or> n > 5000 then 200 else n)"

definition logs :: "machine \<Rightarrow> host_row \<Rightarrow> string \<Rightarrow> int \<Rightarrow> hub \<Rightarrow> (string \<times> err option) \<times> hub" where
  "logs m h name n s = compose m h name (logs_args n) s"

text \<open>The compose file and the environment, told apart by a line feed and a zero byte.\<close>

definition file_line :: "string \<Rightarrow> string" where
  "file_line name =
     ''cd && cat '' @ stack_dir name @ ''/compose.yml; printf '' @ sq @ bs @ ''n'' @ bs @ ''x00'' @ sq @ ''; cat '' @
     stack_dir name @ ''/.env 2>/dev/null''"

definition cut_str :: "string \<Rightarrow> string \<Rightarrow> string \<times> string option" where
  "cut_str sep txt =
     (case before_first_str sep txt of
        None \<Rightarrow> (txt, None)
      | Some a \<Rightarrow> (a, Some (drop (length a + length sep) txt)))"

definition stack_file :: "machine \<Rightarrow> host_row \<Rightarrow> string \<Rightarrow> hub \<Rightarrow> (string \<times> string) res \<times> hub" where
  "stack_file m h name s =
     (if \<not> stack_name name then (Inl (Err ''bad stack name''), s)
      else case ask m h (sh_lc (file_line name)) '''' s of (r, s1) \<Rightarrow>
        (case answer r of
           Inl e \<Rightarrow> (Inl e, s1)
         | Inr (status, out, err) \<Rightarrow>
             (case cut_str [newline, CHR 0x00] out of (yml, envs) \<Rightarrow>
                (Inr (yml, case envs of None \<Rightarrow> '''' | Some e \<Rightarrow> e), s1))))"

section \<open>What a machine has\<close>

record container =
  ct_name :: string
  ct_image :: string
  ct_state :: string
  ct_status :: string
  ct_ports :: string

record stack =
  sk_host :: string
  sk_name :: string
  sk_status :: string
  sk_config :: string
  sk_containers :: "container list"
  sk_managed :: bool

definition list_line :: string where
  "list_line =
     ''docker compose ls --all --format json; echo; docker ps -a --format '' @ sq @ ''{{json .}}'' @ sq @
     '' --filter label=com.docker.compose.project''"

text \<open>The project a container's labels name, the last one if there are several.\<close>

definition project_of :: "string \<Rightarrow> string" where
  "project_of labels =
     fold (\<lambda>l proj. case strip_prefix ''com.docker.compose.project='' l of None \<Rightarrow> proj | Some p \<Rightarrow> p)
       (split_on (CHR '','') labels) ''''"

definition new_stack :: "host_row \<Rightarrow> string \<times> string \<times> string \<Rightarrow> stack" where
  "new_stack h p =
     (case p of (name, status, config) \<Rightarrow>
        \<lparr>sk_host = h_name h, sk_name = name, sk_status = status, sk_config = config, sk_containers = [],
         sk_managed = contains_str config (''/stacks/'' @ name @ ''/'')\<rparr>)"

text \<open>A container goes to the last project of its name.\<close>

fun add_container :: "string \<Rightarrow> container \<Rightarrow> stack list \<Rightarrow> stack list" where
  "add_container proj c [] = []"
| "add_container proj c (k # ks) =
     (if sk_name k = proj \<and> proj \<notin> set (map sk_name ks) then k\<lparr>sk_containers := sk_containers k @ [c]\<rparr> # ks
      else k # add_container proj c ks)"

text \<open>\<open>projects\<close> reads the first part (nothing of it if it is no JSON), \<open>line\<close> a line of the second.\<close>

definition read_stacks ::
  "(string \<Rightarrow> (string \<times> string \<times> string) list) \<Rightarrow> (string \<Rightarrow> (container \<times> string) option) \<Rightarrow> host_row \<Rightarrow> string \<Rightarrow>
   stack list" where
  "read_stacks projects line h out =
     (case cut_str [newline, newline] out of (first, rest) \<Rightarrow>
        fold (\<lambda>l ks. case line l of None \<Rightarrow> ks | Some (c, labels) \<Rightarrow> add_container (project_of labels) c ks)
          (case rest of None \<Rightarrow> [] | Some t \<Rightarrow> split_on newline t)
          (map (new_stack h) (projects (trim_space first))))"

definition list_on ::
  "(string \<Rightarrow> (string \<times> string \<times> string) list) \<Rightarrow> (string \<Rightarrow> (container \<times> string) option) \<Rightarrow> machine \<Rightarrow> host_row \<Rightarrow>
   hub \<Rightarrow> stack list res \<times> hub" where
  "list_on projects line m h s =
     (case ask m h (sh_lc list_line) '''' s of (r, s1) \<Rightarrow>
        (case answer r of
           Inl e \<Rightarrow> (Inl e, s1)
         | Inr (status, out, err) \<Rightarrow>
             (if status \<noteq> 0 then Inl (Err (''docker: '' @ last_line err))
              else Inr (read_stacks projects line h out), s1)))"

text \<open>The machines are asked at once there; here one after another, so the errors are in their order.\<close>

definition list_step ::
  "(string \<Rightarrow> (string \<times> string \<times> string) list) \<Rightarrow> (string \<Rightarrow> (container \<times> string) option) \<Rightarrow> machine \<Rightarrow> host_row \<Rightarrow>
   (stack list \<times> string list) \<times> hub \<Rightarrow> (stack list \<times> string list) \<times> hub" where
  "list_step projects line m h acc =
     (case acc of ((ks, errs), s) \<Rightarrow>
        if h_status h \<noteq> ''online'' then ((ks, errs @ [h_name h @ '': '' @ h_status h]), s)
        else (case list_on projects line m h s of
                (Inl e, s1) \<Rightarrow> ((ks, errs @ [h_name h @ '': '' @ err_text e]), s1)
              | (Inr more_ks, s1) \<Rightarrow> ((ks @ more_ks, errs), s1)))"

definition stack_before :: "stack \<Rightarrow> stack \<Rightarrow> bool" where
  "stack_before a b =
     (if sk_host a \<noteq> sk_host b then str_less (sk_host a) (sk_host b) else str_less (sk_name a) (sk_name b))"

definition list_stacks ::
  "(string \<Rightarrow> (string \<times> string \<times> string) list) \<Rightarrow> (string \<Rightarrow> (container \<times> string) option) \<Rightarrow> machine \<Rightarrow> hub \<Rightarrow>
   (stack list \<times> string list) \<times> hub" where
  "list_stacks projects line m s =
     (case fold (list_step projects line m) (hosts (hb_db s)) (([], []), s) of ((ks, errs), s1) \<Rightarrow>
        ((insertion_sort stack_before ks, errs), s1))"

section \<open>What an assistant calls\<close>

text \<open>\<open>catalog_add\<close> of \<open>mcp/apps.go\<close>: compose text, or a machine whose installed stack is read back.\<close>

definition catalog_compose :: "machine \<Rightarrow> string \<Rightarrow> string \<Rightarrow> string \<Rightarrow> string \<Rightarrow> hub \<Rightarrow> string res \<times> hub" where
  "catalog_compose m name yml ref stack_ref s =
     (if ref \<noteq> '''' \<and> yml \<noteq> '''' then (Inl (Err ''give compose text or a host, not both''), s)
      else if ref \<noteq> ''''
      then (case host ref (hb_db s) of
              Inl e \<Rightarrow> (Inl e, s)
            | Inr h \<Rightarrow>
                let stk = (if stack_ref = '''' then name else stack_ref)
                in (case stack_file m h stk s of
                      (Inl e, s1) \<Rightarrow> (Inl e, s1)
                    | (Inr (got, _), s1) \<Rightarrow>
                        (if trim_space got = ''''
                         then Inl (Err (''no managed stack '' @ stk @ '' on '' @ ref @
                                '': only a stack under ~/stacks can be saved''))
                         else Inr got, s1)))
      else (Inr yml, s))"

definition catalog_add :: "(entry \<Rightarrow> string) \<Rightarrow> machine \<Rightarrow> entry \<Rightarrow> string \<Rightarrow> string \<Rightarrow> hub \<Rightarrow> string res \<times> hub" where
  "catalog_add enc m e ref stack_ref s =
     (case catalog_compose m (en_name e) (en_compose e) ref stack_ref s of
        (Inl err, s1) \<Rightarrow> (Inl err, s1)
      | (Inr yml, s1) \<Rightarrow>
          (case add_catalog_entry enc (e\<lparr>en_compose := yml\<rparr>) (hb_db s1) of
             Inl err \<Rightarrow> (Inl err, s1)
           | Inr d \<Rightarrow> (Inr (''saved catalog entry '' @ en_name e), s1\<lparr>hb_db := d\<rparr>)))"

text \<open>\<open>deploy_stack\<close>: an assistant is an agent.\<close>

definition deploy_stack ::
  "machine \<Rightarrow> string \<Rightarrow> string \<Rightarrow> string \<Rightarrow> string \<Rightarrow> setup_file list \<Rightarrow> string list \<Rightarrow> hub \<Rightarrow> string res \<times> hub" where
  "deploy_stack m ref name yml envs files cmds s =
     (case host ref (hb_db s) of
        Inl e \<Rightarrow> (Inl e, s)
      | Inr h \<Rightarrow>
          (case deploy m h name yml envs files cmds True s of
             ((out, warning, Some e), s1) \<Rightarrow> (Inl e, s1)
           | ((out, warning, None), s1) \<Rightarrow> (Inr out, s1)))"

text \<open>\<open>app_action\<close> and \<open>app_logs\<close>.\<close>

definition app_action :: "machine \<Rightarrow> string \<Rightarrow> string \<Rightarrow> string \<Rightarrow> bool \<Rightarrow> hub \<Rightarrow> string res \<times> hub" where
  "app_action m ref name action volumes s =
     (case host ref (hb_db s) of
        Inl e \<Rightarrow> (Inl e, s)
      | Inr h \<Rightarrow> (case act m h name action volumes s of
                    ((out, Some e), s1) \<Rightarrow> (Inl e, s1) | ((out, None), s1) \<Rightarrow> (Inr out, s1)))"

definition app_logs :: "machine \<Rightarrow> string \<Rightarrow> string \<Rightarrow> int \<Rightarrow> hub \<Rightarrow> string res \<times> hub" where
  "app_logs m ref name n s =
     (case host ref (hb_db s) of
        Inl e \<Rightarrow> (Inl e, s)
      | Inr h \<Rightarrow> (case logs m h name n s of
                    ((out, Some e), s1) \<Rightarrow> (Inl e, s1) | ((out, None), s1) \<Rightarrow> (Inr out, s1)))"

end
