(* ===== verification/AppsLaws.thy ===== *)
theory AppsLaws
  imports Apps
begin

text \<open>
  What the stacks promise: the commands of a deployment, their order and how far a refused one gets, what a
  rebuild script writes back, where a safe path leads; and the one call that takes any name.
\<close>

section \<open>What a deployment sends\<close>

type_synonym sent = "(int \<times> string list \<times> string) list"








definition file_log :: "host_row \<Rightarrow> string \<Rightarrow> setup_file list \<Rightarrow> sent" where
  "file_log h name files =
     map (\<lambda>f. (h_id h, put_argv (stack_dir name @ ''/'' @ sf_path f) ''0644'' False, sf_content f)) files"

definition setup_log :: "host_row \<Rightarrow> string \<Rightarrow> string list \<Rightarrow> sent" where
  "setup_log h name cmds = map (\<lambda>c. (h_id h, sh_lc (setup_line name c), '''')) cmds"

definition prepare_log :: "host_row \<Rightarrow> string \<Rightarrow> setup_file list \<Rightarrow> string list \<Rightarrow> sent" where
  "prepare_log h name files cmds =
     (if files \<noteq> [] \<or> cmds \<noteq> [] then [(h_id h, sh_lc (''mkdir -p '' @ stack_dir name), '''')] else []) @
     file_log h name files @ setup_log h name cmds"










section \<open>What a rebuild script writes back\<close>

text \<open>A shell's reading of a here-document: the lines after the first, up to the marker.\<close>

definition here_document :: "string \<Rightarrow> string \<Rightarrow> string list" where
  "here_document marker txt = takeWhile (\<lambda>l. l \<noteq> marker) (tl (split_on newline txt))"

lemma takeWhile_append_marker:
  "takeWhile (\<lambda>l. l \<noteq> x) (ls @ x # rest) = ls \<longleftrightarrow> x \<notin> set ls"
proof
  assume "takeWhile (\<lambda>l. l \<noteq> x) (ls @ x # rest) = ls"
  then show "x \<notin> set ls" by (metis set_takeWhileD)
next
  assume "x \<notin> set ls"
  then show "takeWhile (\<lambda>l. l \<noteq> x) (ls @ x # rest) = ls" by (induction ls) auto
qed

lemma split_on_middle:
  "d \<notin> set b \<Longrightarrow> split_on d (a @ d # b @ d # c) = split_on d a @ b # split_on d c"
proof (induction "split_on d a" arbitrary: a)
  case (Cons w ws)
  show ?case
  proof (cases "d \<in> set a")
    case False
    then show ?thesis using Cons.prems by (simp add: split_on_append split_on_no_sep)
  next
    case True
    then obtain x y where a: "a = x @ d # y" "d \<notin> set x" by (metis split_list_first)
    then have "split_on d a = x # split_on d y" by (simp add: split_on_append)
    with Cons(1) [of y] Cons.hyps(2) Cons.prems a show ?thesis by (simp add: split_on_append)
  qed
next
  case Nil
  then show ?case by (metis split_on_not_Nil)
qed

text \<open>
  What a rebuild script writes under a here-document is the file that was deployed, up to the line feeds
  at its end, exactly when no line of the file is the marker itself. The file's path is one line.
\<close>

theorem heredoc_reads_back:
  assumes "newline \<notin> set path" "newline \<notin> set marker"
  shows "here_document marker (heredoc path marker content @ rest) = split_on newline (trim_newlines content) \<longleftrightarrow>
    marker \<notin> set (split_on newline (trim_newlines content))"
proof -
  define line where "line = ''cat > '' @ path @ '' <<'' @ sq @ marker @ sq"
  have "newline \<notin> set line" using assms by (simp add: line_def sq_def newline_def)
  have "heredoc path marker content @ rest =
      line @ newline # (trim_newlines content @ newline # marker @ newline # rest)"
    by (simp add: heredoc_def line_def)
  then have "split_on newline (heredoc path marker content @ rest) =
      line # split_on newline (trim_newlines content) @ marker # split_on newline rest"
    using split_on_middle [OF assms(2), of "trim_newlines content" rest]
    by (simp only: split_on_append [OF \<open>newline \<notin> set line\<close>])
  then show ?thesis by (simp add: here_document_def takeWhile_append_marker)
qed

section \<open>Names and paths\<close>

text \<open>Where the segments of a path lead from a directory.\<close>

fun walk :: "string list \<Rightarrow> string list \<Rightarrow> string list" where
  "walk dir [] = dir"
| "walk dir (seg # segs) =
     walk (if seg = ''.'' then dir else if seg = ''..'' then butlast dir else dir @ [seg]) segs"

lemma safe_path_stays_inside:
  assumes "safe_rel_path p"
  shows "\<exists>below. walk dir (split_on (CHR ''/'') p) = dir @ below"
proof -
  have "list_all (\<lambda>seg. seg \<noteq> ''..'') segs \<Longrightarrow> \<exists>below. walk dir segs = dir @ below" for segs
  proof (induction segs arbitrary: dir)
    case (Cons seg segs)
    then show ?case by (auto simp del: append_assoc simp add: append_assoc [symmetric]) (metis append_assoc)+
  qed simp
  moreover have "list_all (\<lambda>seg. seg \<noteq> ''..'') (split_on (CHR ''/'') p)"
    using assms by (auto simp: safe_rel_path_def list_all_iff)
  ultimately show ?thesis by blast
qed

text \<open>
  A name that is not a stack's is refused by every operation before anything is sent, except by
  \<open>logs\<close>: there it stands in a shell line that the gate does not see.
\<close>

theorem logs_takes_any_name:
  assumes "\<not> stack_name name"
  shows "hb_sent (snd (deploy m h name yml envs files cmds agent s)) = hb_sent s \<and>
    hb_sent (snd (act m h name action volumes s)) = hb_sent s \<and>
    hb_sent (snd (stack_file m h name s)) = hb_sent s \<and>
    hb_sent (snd (logs m h name n s)) =
      hb_sent s @ [(h_id h, [''sh'', ''-lc'', compose_line name (logs_args n)], '''')]"
  using assms by (auto simp: deploy_def vet_deploy_def act_def stack_file_def logs_def compose_def ask_def Let_def
      sh_lc_def split: sum.split)

section \<open>One machine\<close>

definition mini :: host_row where
  "mini = \<lparr>h_id = 1, h_name = ''mini'', h_kind = ''compute'', h_addr = ''10.0.0.2'', h_port = 22, h_user = ''homedash'',
     h_key = '''', h_status = ''online'', h_facts = no_facts, h_model = '''', h_rebuild = '''', h_vault = '''',
     h_revoked = '''', h_enrolled = 0, h_last_seen = None\<rparr>"

definition plain :: hub where
  "plain = \<lparr>hb_db = empty_db\<lparr>tb_hosts := [mini]\<rparr>, hb_notes = [], hb_sent = [], hb_full = (\<lambda>_. None)\<rparr>"

definition obliging :: machine where
  "obliging = (\<lambda>_. Ran 0 '''' '''')"

definition bad_yml :: string where
  "bad_yml = ''services:'' @ [newline] @ '' a:'' @ [newline] @ ''  privileged: true''"


text \<open>
  The setup files and commands are sent before the gate reads the compose file: an agent's refused stack may
  come as a setup file of that name and be started by a setup command, and the refusal is answered afterwards.
\<close>

theorem setup_starts_refused_stack:
  "compose_refusal bad_yml \<noteq> '''' \<and>
   (\<exists>e s'. deploy obliging mini ''web'' bad_yml '''' [\<lparr>sf_path = ''compose.yml'', sf_content = bad_yml\<rparr>]
       [''docker compose up -d''] True plain = (('''', '''', Some (Refusal e)), s') \<and>
     hb_sent s' = prepare_log mini ''web'' [\<lparr>sf_path = ''compose.yml'', sf_content = bad_yml\<rparr>] [''docker compose up -d''] \<and>
     (1, sh_lc ''cd stacks/web && docker compose up -d'', '''') \<in> set (hb_sent s'))"
proof -
  let ?f = "\<lparr>sf_path = ''compose.yml'', sf_content = bad_yml\<rparr>"
  have refused: "compose_refusal bad_yml \<noteq> ''''" and body: "trim_space bad_yml \<noteq> ''''" by code_simp+
  have safe: "escapes [?f] = None" by code_simp
  have gate: "check_on ''mkdir -p stacks/web'' None = None"
    "check_on ''cd stacks/web && docker compose up -d'' None = None"
    by code_simp+
  show ?thesis
    using refused
    by (simp add: deploy_def vet_deploy_def mini_def stack_name_def name_char_def is_lower_def body safe prepare_def
        prepare_log_def file_log_def setup_log_def setup_line_def make_dir_def run_gated_def system_devices_def no_facts_def
        gate write_file_def guarded_path_def has_prefix_def has_suffix_def stack_dir_def put_file_def ask_def obliging_def
        answer_def Let_def plain_def sh_lc_def)
qed

theorem heredoc_reads_back_witness:
  "here_document ''EOF'' (heredoc ''/x'' ''EOF'' (''a'' @ [newline] @ ''EOF'') @ '''') \<noteq> [''a'', ''EOF''] \<and>
   here_document ''EOF'' (heredoc ''/x'' ''EOF'' (''a'' @ [newline] @ ''b'') @ '''') = [''a'', ''b'']"
proof -
  have "newline \<notin> set ''/x''" "newline \<notin> set ''EOF''" by (simp_all add: newline_def)
  note reads = heredoc_reads_back [OF this, of _ "''''"]
  have "split_on newline (trim_newlines (''a'' @ [newline] @ ''EOF'')) = [''a'', ''EOF'']"
    "split_on newline (trim_newlines (''a'' @ [newline] @ ''b'')) = [''a'', ''b'']"
    by code_simp+
  then show ?thesis
    using reads [of "''a'' @ [newline] @ ''EOF''"] reads [of "''a'' @ [newline] @ ''b''"] by (simp del: append.simps)
qed

text \<open>A name the gate would refuse as part of a command line goes to the shell.\<close>

theorem logs_takes_any_name_witness:
  "hb_sent (snd (logs obliging mini ''x; reboot; echo'' 0 plain)) =
     [(1, [''sh'', ''-lc'', compose_line ''x; reboot; echo'' (logs_args 0)], '''')] \<and>
   check_on (compose_line ''x; reboot; echo'' (logs_args 0)) (Some [''sda'']) \<noteq> None"
proof
  have "\<not> stack_name ''x; reboot; echo''" by code_simp
  from logs_takes_any_name [OF this, where m = obliging and h = mini and n = 0 and s = plain]
  show "hb_sent (snd (logs obliging mini ''x; reboot; echo'' 0 plain)) =
     [(1, [''sh'', ''-lc'', compose_line ''x; reboot; echo'' (logs_args 0)], '''')]"
    by (simp add: plain_def mini_def)
  have "'' reboot'' \<in> set (segments (compose_line ''x; reboot; echo'' (logs_args 0)))"
    "segment_reason (Some [''sda'']) '' reboot'' \<noteq> ''''"
    by code_simp+
  then show "check_on (compose_line ''x; reboot; echo'' (logs_args 0)) (Some [''sda'']) \<noteq> None"
    by (rule refused_segment)
qed

end
