(* ===== verification/PanelAuth.thy ===== *)
theory PanelAuth
  imports StoreAuth
begin

text \<open>
  Sign-in: \<open>internal/auth/auth.go\<close> and \<open>internal/server/auth.go\<close>. The ceremonies in flight and the
  codes a command line redeems; registration and login; who a request is from, what the guard lets
  through, and the handlers of accounts, invites and tokens. WebAuthn is a parameter: what it makes of a
  browser's answer, given the account. \<open>hash\<close> is that of \<open>StoreAuth\<close>; random values are arguments.
\<close>

section \<open>Ceremonies and grants\<close>

type_synonym account = "user_row \<times> string list"

record ceremony =
  ce_data :: string
  ce_user :: "account option"
  ce_role :: string
  ce_invite :: string
  ce_expires :: instant

record grant =
  gr_user :: string
  gr_expires :: instant

record panel =
  pa_db :: db
  pa_inflight :: "string \<Rightarrow> ceremony option"
  pa_grants :: "string \<Rightarrow> grant option"
  pa_notes :: "(string \<times> string \<times> string) list"

definition keep :: "instant \<Rightarrow> string \<Rightarrow> ceremony \<Rightarrow> panel \<Rightarrow> panel" where
  "keep now i c s =
     s\<lparr>pa_inflight := (\<lambda>k. if k = i then Some (c\<lparr>ce_expires := now + 3 * minute\<rparr>)
                          else case pa_inflight s k of
                            None \<Rightarrow> None | Some v \<Rightarrow> if now > ce_expires v then None else Some v)\<rparr>"

definition take_ceremony :: "instant \<Rightarrow> string \<Rightarrow> panel \<Rightarrow> ceremony option \<times> panel" where
  "take_ceremony now i s =
     (case pa_inflight s i of
        None \<Rightarrow> None
      | Some c \<Rightarrow> if now < ce_expires c then Some c else None,
      s\<lparr>pa_inflight := (pa_inflight s)(i := None)\<rparr>)"

definition grant_cli :: "instant \<Rightarrow> string \<Rightarrow> string \<Rightarrow> panel \<Rightarrow> panel" where
  "grant_cli now c u s =
     s\<lparr>pa_grants := (\<lambda>k. if k = c then Some \<lparr>gr_user = u, gr_expires = now + 2 * minute\<rparr>
                        else case pa_grants s k of
                          None \<Rightarrow> None | Some g \<Rightarrow> if now > gr_expires g then None else Some g)\<rparr>"

definition take_grant :: "instant \<Rightarrow> string \<Rightarrow> panel \<Rightarrow> grant option \<times> panel" where
  "take_grant now c s =
     (case pa_grants s c of
        None \<Rightarrow> None
      | Some g \<Rightarrow> if now > gr_expires g then None else Some g,
      s\<lparr>pa_grants := (pa_grants s)(c := None)\<rparr>)"

definition redeem_cli ::
  "(string \<Rightarrow> string) \<Rightarrow> instant \<Rightarrow> string \<Rightarrow> string \<Rightarrow> panel \<Rightarrow> (string \<times> account) res \<times> panel" where
  "redeem_cli hash now tok c s =
     (case take_grant now c s of
        (None, s1) \<Rightarrow> (Inl (Err ''the code is not live; run login again''), s1)
      | (Some g, s1) \<Rightarrow>
          (case user_by_id (gr_user g) (pa_db s1) of
             Inl e \<Rightarrow> (Inl e, s1)
           | Inr u \<Rightarrow>
               (case new_session hash now tok (us_id (fst u)) (pa_db s1) of
                  Inl e \<Rightarrow> (Inl e, s1)
                | Inr (t, d) \<Rightarrow> (Inr (t, u), s1\<lparr>pa_db := d\<rparr>))))"

section \<open>Registration\<close>

text \<open>Whose passkey it will be: an account there is, or a new one of a role.\<close>

datatype registrant = Existing account | Newcomer string

definition registrant ::
  "instant \<Rightarrow> string \<Rightarrow> account option \<Rightarrow> db \<Rightarrow> registrant res" where
  "registrant now invite current d =
     (case (current, invite = '''') of
        (Some u, True) \<Rightarrow> Inr (Existing u)
      | _ \<Rightarrow>
          if user_count d = 0 then Inr (Newcomer ''admin'')
          else if invite \<noteq> ''''
          then (case peek_invite now invite d of
                  Inl e \<Rightarrow> Inl e
                | Inr (role, None) \<Rightarrow> Inr (Newcomer role)
                | Inr (role, Some uid) \<Rightarrow>
                    (case user_by_id uid d of Inl e \<Rightarrow> Inl e | Inr u \<Rightarrow> Inr (Existing u)))
          else Inl (Err ''registration is closed; ask an admin for an invite''))"

definition new_account ::
  "instant \<Rightarrow> string \<Rightarrow> string \<Rightarrow> string \<Rightarrow> db \<Rightarrow> (account \<times> db) res" where
  "new_account now handle name0 role d =
     (let name = trim_space name0
      in if name = '''' then Inl (Err ''an account needs a name'')
         else if is_ok (user_by_name name d) then Inl (Err ''that name is taken'')
         else create_user now handle name role d)"

text \<open>
  \<open>begin\<close> is what WebAuthn makes of the account: its session data, or why it does not start. The role kept
  with the ceremony is read by nothing later.
\<close>

definition begin_registration ::
  "(account \<Rightarrow> string + string) \<Rightarrow> instant \<Rightarrow> string \<Rightarrow> string \<Rightarrow> string \<Rightarrow> string \<Rightarrow> account option \<Rightarrow> panel \<Rightarrow>
   string res \<times> panel" where
  "begin_registration start now handle i name invite current s =
     (let d = prune_empty_users now (pa_db s); s0 = s\<lparr>pa_db := d\<rparr>
      in case (case registrant now invite current d of
                 Inl e \<Rightarrow> Inl e
               | Inr (Existing u) \<Rightarrow> Inr (u, us_role (fst u), d)
               | Inr (Newcomer role) \<Rightarrow>
                   (case new_account now handle name role d of
                      Inl e \<Rightarrow> Inl e | Inr (u, d1) \<Rightarrow> Inr (u, role, d1))) of
           Inl e \<Rightarrow> (Inl e, s0)
         | Inr (u, role, d1) \<Rightarrow>
             (case start u of
                Inl e \<Rightarrow> (Inl (Err e), s\<lparr>pa_db := prune_empty_users now d1\<rparr>)
              | Inr data \<Rightarrow>
                  (Inr i, keep now i \<lparr>ce_data = data, ce_user = Some u, ce_role = role, ce_invite = invite,
                                      ce_expires = 0\<rparr> (s\<lparr>pa_db := d1\<rparr>))))"

text \<open>
  \<open>verify\<close> is what WebAuthn makes of the answer: the passkey's identifier and its JSON, or an error. A
  login's ceremony has no account, and finishing it as a registration panics: \<open>None\<close>.
\<close>

definition save_passkey :: "instant \<Rightarrow> account \<Rightarrow> string \<Rightarrow> string \<Rightarrow> string \<Rightarrow> panel \<Rightarrow> account res \<times> panel" where
  "save_passkey now u invite cid json s =
     (case add_credential now (us_id (fst u)) cid json (pa_db s) of
        Inl e \<Rightarrow> (Inl e, s)
      | Inr d \<Rightarrow>
          if invite = '''' then (user_by_id (us_id (fst u)) d, s\<lparr>pa_db := d\<rparr>)
          else (case use_invite now invite d of
                  Inl e \<Rightarrow> (Inl e, s\<lparr>pa_db := d\<rparr>)
                | Inr (_, d1) \<Rightarrow> (user_by_id (us_id (fst u)) d1, s\<lparr>pa_db := d1\<rparr>)))"

definition finish_registration ::
  "(account \<Rightarrow> string \<Rightarrow> string + (string \<times> string)) \<Rightarrow> instant \<Rightarrow> string \<Rightarrow> panel \<Rightarrow> account res option \<times> panel" where
  "finish_registration verify now i s =
     (case take_ceremony now i s of
        (None, s1) \<Rightarrow> (Some (Inl (Err ''the registration timed out; start again'')), s1)
      | (Some c, s1) \<Rightarrow>
          (case ce_user c of
             None \<Rightarrow> (None, s1)
           | Some u \<Rightarrow>
               (case verify u (ce_data c) of
                  Inl e \<Rightarrow> (Some (Inl (Err e)), s1\<lparr>pa_db := prune_empty_users now (pa_db s1)\<rparr>)
                | Inr (cid, json) \<Rightarrow>
                    (case save_passkey now u (ce_invite c) cid json s1 of (r, s2) \<Rightarrow> (Some r, s2)))))"

section \<open>Login\<close>

definition begin_login :: "string + string \<Rightarrow> instant \<Rightarrow> string \<Rightarrow> panel \<Rightarrow> string res \<times> panel" where
  "begin_login start now i s =
     (case start of
        Inl e \<Rightarrow> (Inl (Err e), s)
      | Inr data \<Rightarrow>
          (Inr i, keep now i \<lparr>ce_data = data, ce_user = None, ce_role = '''', ce_invite = '''', ce_expires = 0\<rparr> s))"

text \<open>\<open>raw\<close> is the passkey the browser names; \<open>verify\<close> what WebAuthn makes of its answer for that account.\<close>

definition finish_login ::
  "(account \<Rightarrow> string \<Rightarrow> string + (string \<times> string)) \<Rightarrow> instant \<Rightarrow> string \<Rightarrow> string \<Rightarrow> panel \<Rightarrow> account res \<times> panel" where
  "finish_login verify now i raw s =
     (case take_ceremony now i s of
        (None, s1) \<Rightarrow> (Inl (Err ''the sign-in timed out; try again''), s1)
      | (Some c, s1) \<Rightarrow>
          (case user_by_credential raw (pa_db s1) of
             Inl e \<Rightarrow> (Inl e, s1)
           | Inr u \<Rightarrow>
               (case verify u (ce_data c) of
                  Inl e \<Rightarrow> (Inl (Err e), s1)
                | Inr (cid, json) \<Rightarrow> (Inr u, s1\<lparr>pa_db := update_credential cid json (pa_db s1)\<rparr>))))"

section \<open>Requests\<close>

record request =
  rq_method :: string
  rq_path :: string
  rq_cookie :: string
  rq_auth :: string

text \<open>Who is asking: an account by its identifier, or a token, which has none.\<close>

record who =
  wh_id :: "string option"
  wh_name :: string
  wh_role :: string

definition bearer :: "request \<Rightarrow> string" where
  "bearer rq = (case strip_prefix ''Bearer '' (rq_auth rq) of None \<Rightarrow> '''' | Some t \<Rightarrow> t)"

definition session_token :: "request \<Rightarrow> string" where
  "session_token rq =
     (if rq_cookie rq \<noteq> '''' then rq_cookie rq
      else if bearer rq \<noteq> '''' \<and> \<not> has_prefix (bearer rq) ''hd_'' then bearer rq else '''')"

definition token_user :: "(string \<Rightarrow> string) \<Rightarrow> request \<Rightarrow> db \<Rightarrow> who option" where
  "token_user hash rq d =
     (if has_prefix (bearer rq) ''hd_''
      then (case token_role hash (bearer rq) d of
              Inl _ \<Rightarrow> None
            | Inr (name, role) \<Rightarrow> Some \<lparr>wh_id = None, wh_name = ''token:'' @ name, wh_role = role\<rparr>)
      else None)"

definition current_user :: "(string \<Rightarrow> string) \<Rightarrow> instant \<Rightarrow> request \<Rightarrow> db \<Rightarrow> who option" where
  "current_user hash now rq d =
     (if session_token rq \<noteq> ''''
      then (case session_user hash now (session_token rq) d of
              Inl _ \<Rightarrow> token_user hash rq d
            | Inr (u, _) \<Rightarrow> Some \<lparr>wh_id = Some (us_id u), wh_name = us_name u, wh_role = us_role u\<rparr>)
      else token_user hash rq d)"

section \<open>The guard\<close>

definition open_path :: "string \<Rightarrow> bool" where
  "open_path p =
     (p = ''/api/health'' \<or> has_prefix p ''/api/auth/'' \<or>
      \<not> has_prefix p ''/api/'' \<and> \<not> has_prefix p ''/v1/'' \<and> \<not> has_prefix p ''/~'')"

definition viewer_may_post :: "string \<Rightarrow> bool" where
  "viewer_may_post p =
     (p \<in> {''/api/chat'', ''/api/generate'', ''/api/embed'', ''/api/embeddings'', ''/api/show''} \<or>
      has_prefix p ''/v1/'' \<or> has_prefix p ''/~'')"

text \<open>The status of a refusal, or who goes on to the handler (nobody looked for on an open path).\<close>

definition guard :: "(string \<Rightarrow> string) \<Rightarrow> instant \<Rightarrow> request \<Rightarrow> db \<Rightarrow> int + who option" where
  "guard hash now rq d =
     (let p = rq_path rq
      in if open_path p \<or> p = ''/api/backup/restore'' \<and> user_count d = 0 then Inr None
         else case current_user hash now rq d of
           None \<Rightarrow> Inl 401
         | Some u \<Rightarrow>
             if wh_role u \<noteq> ''admin'' \<and> rq_method rq \<notin> {''GET'', ''HEAD''} \<and> \<not> viewer_may_post p then Inl 403
             else Inr (Some u))"

section \<open>Handlers\<close>

definition panel_note :: "string \<Rightarrow> string \<Rightarrow> string \<Rightarrow> panel \<Rightarrow> panel" where
  "panel_note kind subject msg s = s\<lparr>pa_notes := pa_notes s @ [(kind, subject, msg)]\<rparr>"

text \<open>The cookie set, if a session could be made.\<close>

definition start_session ::
  "(string \<Rightarrow> string) \<Rightarrow> instant \<Rightarrow> string \<Rightarrow> account \<Rightarrow> panel \<Rightarrow> string option \<times> panel" where
  "start_session hash now tok u s =
     (case new_session hash now tok (us_id (fst u)) (pa_db s) of
        Inl _ \<Rightarrow> (None, s)
      | Inr (t, d) \<Rightarrow> (Some t, s\<lparr>pa_db := d\<rparr>))"

definition register_finish ::
  "(string \<Rightarrow> string) \<Rightarrow> (account \<Rightarrow> string \<Rightarrow> string + (string \<times> string)) \<Rightarrow> instant \<Rightarrow> string \<Rightarrow> string \<Rightarrow> panel \<Rightarrow>
   (int \<times> string option) option \<times> panel" where
  "register_finish hash verify now tok i s =
     (case finish_registration verify now i s of
        (None, s1) \<Rightarrow> (None, s1)
      | (Some (Inl _), s1) \<Rightarrow> (Some (400, None), s1)
      | (Some (Inr u), s1) \<Rightarrow>
          (case start_session hash now tok u s1 of (cookie, s2) \<Rightarrow>
             (Some (200, cookie), panel_note ''auth.passkey'' (us_name (fst u))
                (''a passkey was registered for '' @ us_name (fst u)) s2)))"

definition login_finish ::
  "(string \<Rightarrow> string) \<Rightarrow> (account \<Rightarrow> string \<Rightarrow> string + (string \<times> string)) \<Rightarrow> instant \<Rightarrow> string \<Rightarrow> string \<Rightarrow> string \<Rightarrow>
   panel \<Rightarrow> (int \<times> string option) \<times> panel" where
  "login_finish hash verify now tok i raw s =
     (case finish_login verify now i raw s of
        (Inl _, s1) \<Rightarrow> ((401, None), s1)
      | (Inr u, s1) \<Rightarrow> (case start_session hash now tok u s1 of (cookie, s2) \<Rightarrow> ((200, cookie), s2)))"

definition logout :: "(string \<Rightarrow> string) \<Rightarrow> request \<Rightarrow> panel \<Rightarrow> panel" where
  "logout hash rq s =
     (if session_token rq \<noteq> '''' then s\<lparr>pa_db := delete_session hash (session_token rq) (pa_db s)\<rparr> else s)"

definition cli_grant :: "(string \<Rightarrow> string) \<Rightarrow> instant \<Rightarrow> string \<Rightarrow> request \<Rightarrow> panel \<Rightarrow> (int + string) \<times> panel" where
  "cli_grant hash now c rq s =
     (case current_user hash now rq (pa_db s) of
        None \<Rightarrow> (Inl 401, s)
      | Some u \<Rightarrow>
          (case wh_id u of
             None \<Rightarrow> (Inl 401, s)
           | Some uid \<Rightarrow>
               (Inr c, panel_note ''auth.cli'' (wh_name u) (wh_name u @ '' signed in a command line'')
                         (grant_cli now c uid s))))"

definition put_role :: "string \<Rightarrow> string \<Rightarrow> panel \<Rightarrow> int \<times> panel" where
  "put_role name role s =
     (if role \<notin> {''admin'', ''viewer''} then (400, s)
      else if role = ''viewer'' \<and>
              list_ex (\<lambda>(u, _). us_name u = name \<and> us_role u = ''admin'') (users (pa_db s)) \<and>
              length (filter (\<lambda>(u, _). us_role u = ''admin'') (users (pa_db s))) \<le> 1
      then (400, s)
      else (case set_role name role (pa_db s) of
              Inl _ \<Rightarrow> (500, s) | Inr d \<Rightarrow> (204, s\<lparr>pa_db := d\<rparr>)))"

definition remove_user :: "(string \<Rightarrow> string) \<Rightarrow> instant \<Rightarrow> request \<Rightarrow> string \<Rightarrow> panel \<Rightarrow> int \<times> panel" where
  "remove_user hash now rq name s =
     (if (case current_user hash now rq (pa_db s) of None \<Rightarrow> False | Some u \<Rightarrow> wh_name u = name) then (400, s)
      else (204, s\<lparr>pa_db := delete_user name (pa_db s)\<rparr>))"

definition make_invite ::
  "(string \<Rightarrow> string) \<Rightarrow> instant \<Rightarrow> string \<Rightarrow> request \<Rightarrow> string \<Rightarrow> bool \<Rightarrow> panel \<Rightarrow> (int + invite_row) \<times> panel" where
  "make_invite hash now tok rq role0 self s =
     (let me = (if self then current_user hash now rq (pa_db s) else None);
          role1 = (case me of None \<Rightarrow> role0 | Some u \<Rightarrow> wh_role u);
          role = (if role1 \<in> {''admin'', ''viewer''} then role1 else ''viewer'')
      in case new_invite now tok role (case me of None \<Rightarrow> None | Some u \<Rightarrow> wh_id u) (pa_db s) of
           Inl _ \<Rightarrow> (Inl 500, s)
         | Inr (row, d) \<Rightarrow> (Inr row, s\<lparr>pa_db := d\<rparr>))"

definition make_token ::
  "(string \<Rightarrow> string) \<Rightarrow> instant \<Rightarrow> string \<Rightarrow> string \<Rightarrow> string \<Rightarrow> panel \<Rightarrow> (int + string) \<times> panel" where
  "make_token hash now rnd name role s =
     (if trim_space name = '''' then (Inl 400, s)
      else case new_token hash now rnd (trim_space name) (if role \<noteq> ''admin'' then ''viewer'' else role) (pa_db s) of
             Inl TokenExists \<Rightarrow> (Inl 409, s)
           | Inl _ \<Rightarrow> (Inl 400, s)
           | Inr (tok, d) \<Rightarrow> (Inr tok, s\<lparr>pa_db := d\<rparr>))"

end
