(* ===== verification/PanelAuthLaws.thy ===== *)
theory PanelAuthLaws
  imports PanelAuth
begin

text \<open>
  What signing in promises: which request writes, whence an account, a ceremony and a code used once; and
  the two ways around an invite.
\<close>

section \<open>Used once\<close>

definition ceremony_live :: "instant \<Rightarrow> panel \<Rightarrow> string \<Rightarrow> bool" where
  "ceremony_live now s i = (\<exists>c. pa_inflight s i = Some c \<and> now < ce_expires c)"

definition spend_ceremony :: "instant \<Rightarrow> string \<Rightarrow> panel \<Rightarrow> bool \<times> panel" where
  "spend_ceremony now i s = (fst (take_ceremony now i s) \<noteq> None, snd (take_ceremony now i s))"

interpretation ceremonies: single_use "\<lambda>s :: panel. True" ceremony_live spend_ceremony
  by unfold_locales (auto simp: spend_ceremony_def take_ceremony_def ceremony_live_def split: option.splits if_splits)

definition grant_live :: "instant \<Rightarrow> panel \<Rightarrow> string \<Rightarrow> bool" where
  "grant_live now s c = (\<exists>g. pa_grants s c = Some g \<and> \<not> now > gr_expires g)"

definition spend_grant :: "instant \<Rightarrow> string \<Rightarrow> panel \<Rightarrow> bool \<times> panel" where
  "spend_grant now c s = (fst (take_grant now c s) \<noteq> None, snd (take_grant now c s))"

interpretation cli_codes: single_use "\<lambda>s :: panel. True" grant_live spend_grant
  by unfold_locales (auto simp: spend_grant_def take_grant_def grant_live_def split: option.splits if_splits)

lemma grant_within_two_minutes:
  "grant_live t (grant_cli now c u s) c \<longleftrightarrow> t \<le> now + 2 * minute"
  by (auto simp: grant_live_def grant_cli_def)

section \<open>Who writes\<close>

lemma session_user_admin:
  assumes "session_user hash now tok d = Inr (u, cs)"
  shows "\<exists>e \<in> set (tb_sessions d). se_token e = hash tok \<and> rfc3339 now < se_expires e \<and>
    u \<in> set (tb_users d) \<and> us_id u = se_user e"
proof -
  obtain e where e: "List.find (session_live now (hash tok)) (tb_sessions d) = Some e" "user_by_id (se_user e) d = Inr (u, cs)"
    using assms by (auto simp: session_user_def split: option.splits)
  then have "u \<in> set (tb_users d) \<and> us_id u = se_user e"
    by (auto simp: user_by_id_def dest: find_set split: option.splits)
  with find_set [OF e(1)] show ?thesis by (auto simp: session_live_def)
qed

lemma token_user_row:
  assumes "token_user hash rq d = Some u"
  shows "\<exists>t \<in> set (tb_tokens d). tk_hash t = hash (bearer rq) \<and> wh_role u = tk_role t \<and> wh_id u = None"
  using assms by (auto simp: token_user_def token_role_def dest!: find_set split: if_splits option.splits)

text \<open>
  C2: A request that may change the hub reaches its handler only for an admin: one whose session is in the
  store, unexpired, and whose account is an admin's now; or an admin's token. What is open to all or to
  viewers is named; an export is taken without an account only while there is none.
\<close>

theorem writes_need_admin:
  assumes "guard hash now rq d = Inr w" and "rq_method rq \<noteq> ''GET''" "rq_method rq \<noteq> ''HEAD''"
    and "has_prefix (rq_path rq) ''/api/''" "\<not> has_prefix (rq_path rq) ''/api/auth/''"
    and "rq_path rq \<noteq> ''/api/health''" "\<not> viewer_may_post (rq_path rq)"
    and "rq_path rq \<noteq> ''/api/backup/restore'' \<or> user_count d \<noteq> 0"
  shows "\<exists>u. w = Some u \<and> wh_role u = ''admin'' \<and>
    ((\<exists>e \<in> set (tb_sessions d). \<exists>x \<in> set (tb_users d). se_token e = hash (session_token rq) \<and>
        rfc3339 now < se_expires e \<and> us_id x = se_user e \<and> us_role x = ''admin'' \<and> wh_id u = Some (us_id x)) \<or>
     (\<exists>t \<in> set (tb_tokens d). tk_hash t = hash (bearer rq) \<and> tk_role t = ''admin'' \<and> wh_id u = None))"
proof -
  have "\<exists>u. w = Some u \<and> current_user hash now rq d = Some u \<and> wh_role u = ''admin''"
  proof (cases "current_user hash now rq d")
    case None
    then show ?thesis using assms by (auto simp: guard_def open_path_def Let_def split: if_splits)
  next
    case (Some a)
    then show ?thesis using assms unfolding guard_def open_path_def Let_def Some by (auto split: if_splits)
  qed
  then obtain u where u: "w = Some u" "current_user hash now rq d = Some u" "wh_role u = ''admin''" by blast
  show ?thesis
  proof (cases "token_user hash rq d = Some u")
    case True
    then show ?thesis using token_user_row u by fastforce
  next
    case False
    then obtain x cs where "session_user hash now (session_token rq) d = Inr (x, cs)"
      "u = \<lparr>wh_id = Some (us_id x), wh_name = us_name x, wh_role = us_role x\<rparr>"
      using u(2) by (auto simp: current_user_def split: if_splits sum.splits)
    then show ?thesis using session_user_admin u by fastforce
  qed
qed

section \<open>Whence an account\<close>

lemma create_user_users:
  assumes "create_user now handle name role d = Inr (u, d')"
  shows "\<exists>x. tb_users d' = tb_users d @ [x] \<and> us_role x = role \<and> us_name x = name \<and> us_id x = handle \<and>
    u = (x, map cr_json (credentials_of handle d)) \<and> tb_invites d' = tb_invites d \<and>
    tb_credentials d' = tb_credentials d"
  using assms
  by (auto simp: create_user_def Let_def user_by_id_def credentials_of_def find_snoc
      split: if_splits option.splits dest!: find_set)

lemma new_account_users:
  assumes "new_account now handle name role d = Inr (u, d')"
  shows "\<exists>x. tb_users d' = tb_users d @ [x] \<and> us_role x = role"
proof -
  have "create_user now handle (trim_space name) role d = Inr (u, d')"
    using assms by (auto simp: new_account_def Let_def split: if_splits)
  from create_user_users [OF this] show ?thesis by blast
qed

lemma pruned_users: "x \<in> set (tb_users (prune_empty_users now d)) \<Longrightarrow> x \<in> set (tb_users d)"
  by (auto simp: prune_empty_users_def drop_users_def Let_def delete_where_def)

lemma pruned_invites: "i \<in> set (tb_invites (prune_empty_users now d)) \<Longrightarrow> i \<in> set (tb_invites d)"
  by (auto simp: prune_empty_users_def drop_users_def Let_def delete_where_def)

lemma registrant_newcomer:
  assumes "registrant now invite current d = Inr (Newcomer role)"
  shows "tb_users d = [] \<and> role = ''admin'' \<or>
    (\<exists>i \<in> set (tb_invites d). invite_live now invite i \<and> iv_user i = None \<and> iv_role i = role)"
  using assms
  by (auto simp: registrant_def user_count_def peek_invite_def dest!: find_set
      split: option.splits if_splits sum.splits prod.splits bool.splits)

text \<open>
  C16: An account comes into being only on a hub that has none (and is the admin's), or on a live invite
  that is for nobody in particular, with the invite's role.
\<close>

theorem accounts_need_invite:
  assumes "begin_registration start now handle i name invite current s = (r, s')"
    and "x \<in> set (tb_users (pa_db s'))" "x \<notin> set (tb_users (pa_db s))"
  shows "tb_users (prune_empty_users now (pa_db s)) = [] \<and> us_role x = ''admin'' \<or>
    (\<exists>v \<in> set (tb_invites (pa_db s)). invite_live now invite v \<and> iv_user v = None \<and> us_role x = iv_role v)"
proof -
  let ?d = "prune_empty_users now (pa_db s)"
  have "\<exists>role d u. registrant now invite current ?d = Inr (Newcomer role) \<and> new_account now handle name role ?d = Inr (u, d) \<and>
      x \<in> set (tb_users d)"
  proof (rule ccontr)
    assume none: "\<not> ?thesis"
    have "x \<in> set (tb_users (pa_db s)) \<or> x \<in> set (tb_users ?d)"
      using assms(1,2) none
      by (auto simp: begin_registration_def Let_def keep_def dest!: pruned_users
          split: sum.splits registrant.splits prod.splits)
    then show False using assms(3) pruned_users by blast
  qed
  then obtain role d u where role: "registrant now invite current ?d = Inr (Newcomer role)"
    and acc: "new_account now handle name role ?d = Inr (u, d)" and "x \<in> set (tb_users d)" by blast
  have "us_role x = role"
    using new_account_users [OF acc] \<open>x \<in> set (tb_users d)\<close> assms(3) pruned_users by fastforce
  with registrant_newcomer [OF role] pruned_invites show ?thesis by blast
qed

section \<open>Around an invite\<close>

lemma take_kept:
  "pa_inflight s i = Some c \<Longrightarrow> now < ce_expires c \<Longrightarrow>
     take_ceremony now i s = (Some c, s\<lparr>pa_inflight := (pa_inflight s)(i := None)\<rparr>)"
  by (simp add: take_ceremony_def)

lemma credential_opens:
  "List.find (\<lambda>r. cr_id r = k) (tb_credentials d) = Some r \<Longrightarrow> user_by_credential k d = user_by_id (cr_user r) d"
  by (simp add: user_by_credential_def)

text \<open>
  An invite, spent once, makes as many accounts as registrations were begun with it: the passkey is
  saved before the invite is spent, so the second ceremony answers an error and its passkey signs in.
\<close>

theorem one_invite_two_accounts:
  assumes "pa_inflight s i = Some c" "pa_inflight s j = Some c'" "i \<noteq> j" "now < ce_expires c" "now < ce_expires c'"
    and "ce_user c = Some u" "ce_user c' = Some u'" "ce_invite c = v" "ce_invite c' = v" "v \<noteq> ''''"
    and "verify u (ce_data c) = Inr (k, js)" "verify u' (ce_data c') = Inr (k', js')" "k \<noteq> k'"
    and "k \<notin> set (map cr_id (tb_credentials (pa_db s)))" "k' \<notin> set (map cr_id (tb_credentials (pa_db s)))"
    and "us_id (fst u) \<in> set (map us_id (tb_users (pa_db s)))" "us_id (fst u') \<in> set (map us_id (tb_users (pa_db s)))"
    and "invite_spendable now (pa_db s) v"
  shows "\<exists>a s1 e s2 b. finish_registration verify now i s = (Some (Inr a), s1) \<and>
    finish_registration verify now j s1 = (Some (Inl e), s2) \<and>
    user_by_credential k' (pa_db s2) = Inr b \<and> us_id (fst b) = us_id (fst u')"
proof -
  let ?row = "\<lambda>u k js. \<lparr>cr_id = k, cr_user = us_id (fst u), cr_json = js, cr_created = sql_stamp now\<rparr>"
  let ?d1 = "(pa_db s)\<lparr>tb_credentials := tb_credentials (pa_db s) @ [?row u k js]\<rparr>"
  let ?d2 = "?d1\<lparr>tb_invites := update_where (\<lambda>r. iv_code r = v) (\<lambda>r. r\<lparr>iv_used := True\<rparr>) (tb_invites (pa_db s))\<rparr>"
  let ?d3 = "?d2\<lparr>tb_credentials := tb_credentials (pa_db s) @ [?row u k js, ?row u' k' js']\<rparr>"
  have users: "\<exists>a. user_by_id (us_id (fst w)) d = Inr a \<and> us_id (fst a) = us_id (fst w)"
    if "us_id (fst w) \<in> set (map us_id (tb_users d))" for w :: account and d
  proof -
    have "List.find (\<lambda>u. us_id u = us_id (fst w)) (tb_users d) \<noteq> None"
      unfolding find_some_iff using that by auto
    then obtain x where "List.find (\<lambda>u. us_id u = us_id (fst w)) (tb_users d) = Some x" by blast
    then show ?thesis using find_set by (fastforce simp: user_by_id_def)
  qed
  have live: "invite_spendable now ?d1 v" using assms(18) by (simp add: invite_spendable_def)
  have use1: "\<exists>x. use_invite now v ?d1 = Inr (x, ?d2)"
    using live spend_invite_cases [of now v ?d1] by (auto simp: spend_invite_def split: sum.splits)
  have dead: "\<not> invite_spendable now ?d3 v"
    using spendable_after [where u = now and s = "pa_db s" and c = v and d = v] by (simp add: invite_spendable_def)
  have use2: "\<exists>e. use_invite now v ?d3 = Inl e"
    using dead spend_invite_cases [of now v ?d3] by (auto simp: spend_invite_def split: sum.splits)
  obtain a where a: "user_by_id (us_id (fst u)) ?d2 = Inr a" using users [of u ?d2] assms(16) by auto
  obtain b where b: "user_by_id (us_id (fst u')) ?d3 = Inr b" "us_id (fst b) = us_id (fst u')"
    using users [of u' ?d3] assms(17) by auto
  define s1 where "s1 = s\<lparr>pa_inflight := (pa_inflight s)(i := None), pa_db := ?d2\<rparr>"
  have one: "finish_registration verify now i s = (Some (Inr a), s1)"
    using assms use1 a by (auto simp: finish_registration_def take_kept save_passkey_def add_credential_def s1_def)
  have two: "\<exists>e. finish_registration verify now j s1 =
      (Some (Inl e), s1\<lparr>pa_inflight := (pa_inflight s1)(j := None), pa_db := ?d3\<rparr>)"
  proof -
    have t: "take_ceremony now j s1 = (Some c', s1\<lparr>pa_inflight := (pa_inflight s1)(j := None)\<rparr>)"
      using assms(2,3,5) by (intro take_kept) (simp_all add: s1_def)
    have db: "pa_db s1 = ?d2" by (simp add: s1_def)
    have add: "add_credential now (us_id (fst u')) k' js' ?d2 = Inr ?d3"
      using assms(13,15,17) by (auto simp: add_credential_def)
    obtain e where e: "use_invite now v ?d3 = Inl e" using use2 by blast
    show ?thesis
      using assms(7,9,10,12) add e by (simp add: finish_registration_def t save_passkey_def db)
  qed
  have "List.find (\<lambda>r. cr_id r = k') (tb_credentials ?d3) = Some (?row u' k' js')"
  proof -
    have "List.find (\<lambda>r. cr_id r = k') (tb_credentials (pa_db s)) = None"
      using assms(15) by (auto simp: find_None_iff)
    then show ?thesis using assms(13) find_snoc [of "\<lambda>r. cr_id r = k'" "tb_credentials (pa_db s) @ [?row u k js]"]
      find_snoc [of "\<lambda>r. cr_id r = k'" "tb_credentials (pa_db s)" "?row u k js"] by simp
  qed
  then have "user_by_credential k' ?d3 = Inr b" using credential_opens b(1) by fastforce
  with one two b(2) show ?thesis by fastforce
qed

text \<open>
  A viewer becomes an admin: the guard lets the list of invites through to every account, the list
  carries the codes, and a registration begun with an admin's code makes an account of that role.
\<close>

theorem viewer_takes_admin_invite:
  assumes "current_user hash now rq d = Some u" and "rq_method rq = ''GET''" "rq_path rq = ''/api/invites''"
    and "v \<in> set (tb_invites d)" "invite_open now v" "iv_role v = ''admin''" "iv_user v = None" "iv_code v \<noteq> ''''"
    and "keyed iv_code (tb_invites d)" and "pa_db s = d" and "prune_empty_users now d = d" "user_count d \<noteq> 0"
    and "trim_space name = name" "name \<noteq> ''''" "name \<notin> set (map us_name (tb_users d))"
    and "handle \<notin> set (map us_id (tb_users d))" and "\<And>u. start u = Inr data"
  shows "guard hash now rq d = Inr (Some u) \<and> v \<in> fst ` set (invites now d) \<and>
    (\<exists>s'. begin_registration start now handle i name (iv_code v) None s = (Inr i, s') \<and>
       (\<exists>x. x \<in> set (tb_users (pa_db s')) \<and> us_name x = name \<and> us_role x = ''admin''))"
proof (intro conjI)
  show "guard hash now rq d = Inr (Some u)"
    using assms(1-3) by (simp add: guard_def open_path_def has_prefix_def Let_def)
  show "v \<in> fst ` set (invites now d)"
    using assms(4,5) by (force simp: invites_def)
  have "List.find (invite_live now (iv_code v)) (tb_invites d) = Some v"
  proof -
    obtain w where w: "List.find (invite_live now (iv_code v)) (tb_invites d) = Some w"
      using assms(4,5) find_some_iff [of "invite_live now (iv_code v)" "tb_invites d"] by (auto simp: invite_live_def)
    then have "w = v" using find_set [OF w] keyed_eqD [OF assms(9)] assms(4) by (auto simp: invite_live_def)
    with w show ?thesis by simp
  qed
  then have "peek_invite now (iv_code v) d = Inr (''admin'', None)" using assms(6,7) by (simp add: peek_invite_def)
  then have reg: "registrant now (iv_code v) None d = Inr (Newcomer ''admin'')"
    using assms(8,12) by (simp add: registrant_def)
  have "List.find (\<lambda>u. us_name u = name) (tb_users d) = None" using assms(15) by (auto simp: find_None_iff)
  then have free: "\<not> is_ok (user_by_name name d)" by (simp add: user_by_name_def)
  let ?x = "\<lparr>us_id = handle, us_name = name, us_role = ''admin'', us_created = sql_stamp now\<rparr>"
  have "List.find (\<lambda>u. us_id u = handle) (tb_users d) = None" using assms(16) by (auto simp: find_None_iff)
  then have acc: "\<exists>w. new_account now handle name ''admin'' d = Inr (w, d\<lparr>tb_users := tb_users d @ [?x]\<rparr>)"
    using assms(13-16) free
    by (auto simp: new_account_def Let_def create_user_def roles_def user_by_id_def find_snoc)
  show "\<exists>s'. begin_registration start now handle i name (iv_code v) None s = (Inr i, s') \<and>
       (\<exists>x. x \<in> set (tb_users (pa_db s')) \<and> us_name x = name \<and> us_role x = ''admin'')"
    using acc assms(10,11,17) reg by (auto simp: begin_registration_def Let_def keep_def intro!: exI [of _ ?x])
qed

section \<open>An admin, a viewer, an invite\<close>

definition boss :: user_row where
  "boss = \<lparr>us_id = ''A'', us_name = ''ann'', us_role = ''admin'', us_created = 0\<rparr>"

definition guest :: user_row where
  "guest = \<lparr>us_id = ''B'', us_name = ''bob'', us_role = ''viewer'', us_created = 0\<rparr>"

definition invite :: invite_row where
  "invite = \<lparr>iv_code = ''inv'', iv_role = ''admin'', iv_user = None, iv_expires = 100, iv_used = False\<rparr>"

definition house :: db where
  "house = empty_db\<lparr>tb_users := [boss, guest],
     tb_credentials := [\<lparr>cr_id = ''k1'', cr_user = ''A'', cr_json = '''', cr_created = 0\<rparr>,
                        \<lparr>cr_id = ''k2'', cr_user = ''B'', cr_json = '''', cr_created = 0\<rparr>],
     tb_sessions := [\<lparr>se_token = ''ta'', se_user = ''A'', se_expires = 100\<rparr>, \<lparr>se_token = ''tb'', se_user = ''B'', se_expires = 100\<rparr>],
     tb_invites := [invite]\<rparr>"

definition asked :: "string \<Rightarrow> string \<Rightarrow> string \<Rightarrow> request" where
  "asked meth path cookie = \<lparr>rq_method = meth, rq_path = path, rq_cookie = cookie, rq_auth = ''''\<rparr>"

lemma asked_simps [simp]: "rq_method (asked m p c) = m" "rq_path (asked m p c) = p"
  by (simp_all add: asked_def)

definition panel_of :: "db \<Rightarrow> panel" where
  "panel_of d = \<lparr>pa_db = d, pa_inflight = (\<lambda>_. None), pa_grants = (\<lambda>_. None), pa_notes = []\<rparr>"

lemma house_users:
  "current_user id 0 (asked meth path ''ta'') house = Some \<lparr>wh_id = Some ''A'', wh_name = ''ann'', wh_role = ''admin''\<rparr>"
  "current_user id 0 (asked meth path ''tb'') house = Some \<lparr>wh_id = Some ''B'', wh_name = ''bob'', wh_role = ''viewer''\<rparr>"
  by (simp_all add: current_user_def asked_def session_token_def session_user_def house_def session_live_def rfc3339_def
      user_by_id_def boss_def guest_def)

lemma house_pruned: "prune_empty_users 0 house = house"
  by (simp add: prune_empty_users_def drop_users_def delete_where_def abandoned_def Let_def house_def boss_def guest_def
      invite_def empty_db_def)

theorem writes_need_admin_witness:
  "\<exists>u. guard id 0 (asked ''PUT'' ''/api/settings'' ''ta'') house = Inr (Some u) \<and> wh_role u = ''admin'' \<and>
     guard id 0 (asked ''PUT'' ''/api/settings'' ''tb'') house = Inl 403"
proof -
  let ?rq = "asked ''PUT'' ''/api/settings'' ''ta''"
  have g: "guard id 0 ?rq house = Inr (Some \<lparr>wh_id = Some ''A'', wh_name = ''ann'', wh_role = ''admin''\<rparr>)"
    "guard id 0 (asked ''PUT'' ''/api/settings'' ''tb'') house = Inl 403"
    by (simp_all add: guard_def Let_def house_users open_path_def has_prefix_def viewer_may_post_def)
  have "rq_method ?rq \<noteq> ''GET''" "rq_method ?rq \<noteq> ''HEAD''" "has_prefix (rq_path ?rq) ''/api/''"
    "\<not> has_prefix (rq_path ?rq) ''/api/auth/''" "rq_path ?rq \<noteq> ''/api/health''" "\<not> viewer_may_post (rq_path ?rq)"
    "rq_path ?rq \<noteq> ''/api/backup/restore'' \<or> user_count house \<noteq> 0"
    by (simp_all add: has_prefix_def viewer_may_post_def)
  from writes_need_admin [OF g(1) this] g show ?thesis by auto
qed

theorem accounts_need_invite_witness:
  "\<exists>r s'. begin_registration (\<lambda>_. Inr ''data'') 0 ''H'' ''c'' ''ann'' '''' None (panel_of empty_db) = (r, s') \<and>
     map us_role (tb_users (pa_db s')) = [''admin'']"
proof -
  let ?x = "\<lparr>us_id = ''H'', us_name = ''ann'', us_role = ''admin'', us_created = 0\<rparr>"
  have trim: "trim_space ''ann'' = ''ann''" by code_simp
  obtain r s' where s': "begin_registration (\<lambda>_. Inr ''data'') 0 ''H'' ''c'' ''ann'' '''' None (panel_of empty_db) = (r, s')"
    "tb_users (pa_db s') = [?x]"
    by (simp add: begin_registration_def panel_of_def prune_empty_users_def drop_users_def delete_where_def Let_def
        empty_db_def registrant_def user_count_def new_account_def trim user_by_name_def create_user_def roles_def
        user_by_id_def credentials_of_def order_by_def insertion_sort_def keep_def sql_stamp_def)
  have "?x \<in> set (tb_users (pa_db s'))" "?x \<notin> set (tb_users (pa_db (panel_of empty_db)))"
    using s'(2) by (simp_all add: panel_of_def empty_db_def)
  from accounts_need_invite [OF s'(1) this] s' show ?thesis by simp
qed

theorem viewer_takes_admin_invite_witness:
  "guard id 0 (asked ''GET'' ''/api/invites'' ''tb'') house =
     Inr (Some \<lparr>wh_id = Some ''B'', wh_name = ''bob'', wh_role = ''viewer''\<rparr>) \<and>
   invite \<in> fst ` set (invites 0 house) \<and>
   (\<exists>s'. begin_registration (\<lambda>_. Inr ''data'') 0 ''H'' ''c'' ''eve'' (iv_code invite) None (panel_of house) = (Inr ''c'', s') \<and>
      (\<exists>x. x \<in> set (tb_users (pa_db s')) \<and> us_name x = ''eve'' \<and> us_role x = ''admin''))"
proof (rule viewer_takes_admin_invite)
  show "current_user id 0 (asked ''GET'' ''/api/invites'' ''tb'') house =
     Some \<lparr>wh_id = Some ''B'', wh_name = ''bob'', wh_role = ''viewer''\<rparr>" by (rule house_users)
  show "trim_space ''eve'' = ''eve''" by code_simp
  show "prune_empty_users 0 house = house" by (rule house_pruned)
qed (simp_all add: asked_def house_def invite_def invite_open_def rfc3339_def keyed_def panel_of_def user_count_def
    boss_def guest_def)

definition begun :: "string \<Rightarrow> user_row \<Rightarrow> ceremony" where
  "begun data u = \<lparr>ce_data = data, ce_user = Some (u, []), ce_role = ''admin'', ce_invite = ''inv'', ce_expires = 9\<rparr>"

definition twice :: panel where
  "twice = (panel_of house)\<lparr>pa_inflight := [''c1'' \<mapsto> begun ''d1'' boss, ''c2'' \<mapsto> begun ''d2'' guest]\<rparr>"

theorem one_invite_two_accounts_witness:
  "\<exists>a s1 e s2 b. finish_registration (\<lambda>u data. Inr (data, '''')) 0 ''c1'' twice = (Some (Inr a), s1) \<and>
    finish_registration (\<lambda>u data. Inr (data, '''')) 0 ''c2'' s1 = (Some (Inl e), s2) \<and>
    user_by_credential ''d2'' (pa_db s2) = Inr b \<and> us_id (fst b) = us_id (fst (guest, [] :: string list))"
  by (rule one_invite_two_accounts [where c = "begun ''d1'' boss" and c' = "begun ''d2'' guest" and v = "''inv''"
      and u = "(boss, [])" and k = "''d1''" and js = "''''" and js' = "''''"])
    (simp_all add: twice_def begun_def panel_of_def house_def boss_def guest_def invite_spendable_def invite_live_def invite_def
      invite_open_def rfc3339_def)

end
