(* ===== verification/Network.thy ===== *)
theory Network
  imports Vendors
begin

text \<open>
  \<open>internal/fleet/network.go\<close>: what each machine sees around it. A scan is a script run on a machine;
  what it prints is merged into the tables of devices and sightings, and each device seen gets a new
  guess of what it is. The JSON library is the parameter \<open>codec\<close>: how a sighting is written as text, and
  what is read back from such a text (\<open>None\<close> where \<open>json.Unmarshal\<close> reports an error).
\<close>

section \<open>A scan\<close>

record lan_seen =
  ln_mac :: string
  ln_ip :: string
  ln_iface :: string
  ln_hostname :: string
  ln_mdns :: string
  ln_ssdp_server :: string
  ln_services :: "string list"
  ln_ssdp :: "string list"

record wifi_seen =
  wf_bssid :: string
  wf_ssid :: string
  wf_signal :: "real option"
  wf_freq :: "real option"
  wf_security :: string

record bt_seen =
  bt_mac :: string
  bt_name :: string
  bt_icon :: string
  bt_rssi :: "real option"

text \<open>A part is \<open>None\<close> where the machine has no interface or tool for it.\<close>

record scan =
  rd_lan :: "lan_seen list option"
  rd_wifi :: "wifi_seen list option"
  rd_bt :: "bt_seen list option"

datatype detail = LanDetail lan_seen | WifiDetail wifi_seen | BtDetail bt_seen

text \<open>What a guess reads of a sighting.\<close>

record lan_hints =
  lh_hostname :: string
  lh_mdns :: string
  lh_ssdp_server :: string
  lh_services :: "string list"
  lh_ssdp :: "string list"

record codec =
  cd_write :: "detail \<Rightarrow> string"
  cd_lan :: "string \<Rightarrow> lan_hints option"
  cd_ssid :: "string \<Rightarrow> string option"
  cd_bt :: "string \<Rightarrow> (string \<times> string) option"

section \<open>Settings\<close>

definition setting_int :: "string \<Rightarrow> int \<Rightarrow> db \<Rightarrow> int" where
  "setting_int key def d =
     (case parse_int (trim_space (setting key d)) of
        Some n \<Rightarrow> if n \<ge> 0 then n else def
      | None \<Rightarrow> def)"

section \<open>The guess\<close>

definition kind_label :: "string \<Rightarrow> string" where
  "kind_label kind =
     (if kind = ''lan'' then ''device'' else if kind = ''wifi'' then ''Wi-Fi network''
      else if kind = ''bt'' then ''Bluetooth device'' else '''')"

definition mdns_service_kinds :: "(string \<times> string) list" where
  "mdns_service_kinds =
     [(''_ipp.'', ''printer''), (''_ipps.'', ''printer''), (''_printer.'', ''printer''),
      (''_pdl-datastream.'', ''printer''), (''_scanner.'', ''printer''),
      (''_axis-video.'', ''camera''), (''_rtsp.'', ''camera''),
      (''_hue.'', ''light''),
      (''_raop.'', ''speaker''), (''_sonos.'', ''speaker''), (''_spotify-connect.'', ''speaker''),
      (''_googlecast.'', ''tv''), (''_airplay.'', ''tv''), (''_amzn-wplay.'', ''tv''),
      (''_androidtvremote'', ''tv''), (''_viziocast.'', ''tv''),
      (''_hap.'', ''appliance''), (''_matter.'', ''appliance''), (''_homekit.'', ''appliance''),
      (''_companion-link.'', ''phone''), (''_rdlink.'', ''phone''),
      (''_ssh.'', ''computer''), (''_sftp-ssh.'', ''computer''), (''_smb.'', ''computer''),
      (''_afpovertcp.'', ''computer''), (''_workstation.'', ''computer''), (''_nfs.'', ''computer'')]"

text \<open>Avahi writes a byte it will not print as a backslash and three decimal digits.\<close>

fun unescape_avahi :: "string \<Rightarrow> string" where
  "unescape_avahi (c # x # y # z # rest) =
     (if c = CHR 0x5C \<and> is_digit x \<and> is_digit y \<and> is_digit z
      then utf8 (digit_val x * 100 + digit_val y * 10 + digit_val z) @ unescape_avahi rest
      else c # unescape_avahi (x # y # z # rest))"
| "unescape_avahi s = s"

definition bt_icons :: "(string \<times> string) list" where
  "bt_icons =
     [(''phone'', ''phone''), (''computer'', ''computer''), (''video-display'', ''tv''),
      (''camera-video'', ''camera''), (''camera-photo'', ''camera''), (''printer'', ''printer''),
      (''audio-card'', ''speaker''), (''audio-headset'', ''speaker''), (''audio-headphones'', ''speaker''),
      (''input-keyboard'', ''input''), (''input-mouse'', ''input''), (''input-gaming'', ''input''),
      (''input-tablet'', ''input'')]"

definition icon_kind :: "string \<Rightarrow> string" where
  "icon_kind icon = (case map_of bt_icons icon of Some k \<Rightarrow> k | None \<Rightarrow> '''')"

fun wifi_name :: "codec \<Rightarrow> string list \<Rightarrow> string" where
  "wifi_name cd [] = ''''"
| "wifi_name cd (txt # rest) =
     (case cd_ssid cd txt of
        Some ssid \<Rightarrow> if ssid \<noteq> '''' then ssid else wifi_name cd rest
      | None \<Rightarrow> wifi_name cd rest)"

definition bt_turn :: "codec \<Rightarrow> string \<Rightarrow> string \<Rightarrow> string \<times> string \<Rightarrow> string \<times> string" where
  "bt_turn cd addr txt acc =
     (case (cd_bt cd txt, acc) of
        (None, _) \<Rightarrow> acc
      | (Some (bname, icon), (name, kind)) \<Rightarrow>
          (if name = '''' \<and> bname \<noteq> '''' \<and> \<not> equal_fold (replace_char (CHR ''-'') '':'' bname) addr
           then bname else name,
           if kind = '''' then icon_kind icon else kind))"

text \<open>The services a device advertises over mDNS; the first that says anything decides.\<close>

definition service_kind :: "string \<Rightarrow> string \<Rightarrow> string" where
  "service_kind svc kind =
     fold (\<lambda>(prefix, k) kind. if kind = '''' \<and> has_prefix svc prefix then k else kind) mdns_service_kinds kind"

definition ssdp_kind :: "string \<Rightarrow> string \<Rightarrow> string" where
  "ssdp_kind st kind =
     (let s = to_lower st
      in if kind \<noteq> '''' then kind
         else if contains_str s ''mediarenderer'' \<or> contains_str s ''dial-multiscreen'' \<or> contains_str s ''roku:ecp''
         then ''tv''
         else if contains_str s ''internetgatewaydevice'' \<or> contains_str s ''wanconnectiondevice'' then ''router''
         else if contains_str s ''printer'' then ''printer''
         else kind)"

definition server_kind :: "string \<Rightarrow> string \<Rightarrow> string" where
  "server_kind srv kind =
     (let s = to_lower srv
      in if kind = '''' \<and> srv \<noteq> '''' \<and> (contains_str s ''roku'' \<or> contains_str s ''bravia'' \<or>
            contains_str s ''webos'' \<or> contains_str s ''tizen'')
         then ''tv'' else kind)"

definition lan_turn :: "codec \<Rightarrow> string \<Rightarrow> string \<times> string \<times> string \<Rightarrow> string \<times> string \<times> string" where
  "lan_turn cd txt acc =
     (case (cd_lan cd txt, acc) of
        (None, _) \<Rightarrow> acc
      | (Some l, (name, hostname, kind)) \<Rightarrow>
          (if name = '''' \<and> lh_mdns l \<noteq> '''' then unescape_avahi (lh_mdns l) else name,
           if hostname = '''' \<and> lh_hostname l \<noteq> ''''
           then trim_suffix (trim_suffix (lh_hostname l) ''.local'') ''.lan'' else hostname,
           server_kind (lh_ssdp_server l) (fold ssdp_kind (lh_ssdp l) (fold service_kind (lh_services l) kind))))"

definition identify_lan :: "codec \<Rightarrow> string \<Rightarrow> bool \<Rightarrow> string list \<Rightarrow> string \<times> string" where
  "identify_lan cd vkind private txts =
     (case fold (lan_turn cd) txts ('''', '''', '''') of (mdns, hostname, found) \<Rightarrow>
        (let name = (if mdns = '''' then hostname else mdns);
             kind = (if found = '''' then vkind else found)
         in if private \<and> name = '''' then (''private address'', if kind = '''' then ''phone'' else kind)
            else (name, kind)))"

text \<open>The guess: name, kind, maker, each empty when nothing says.\<close>

definition identify :: "codec \<Rightarrow> device \<Rightarrow> string \<times> string \<times> string" where
  "identify cd d =
     (case vendor_of (dv_addr (d_row d)) of (vendor, vkind, private) \<Rightarrow>
        (let txts = map (\<lambda>g. sg_detail (fst g)) (d_sightings d)
         in if dv_kind (d_row d) = ''wifi'' then (wifi_name cd txts, ''network'', vendor)
            else if dv_kind (d_row d) = ''bt''
            then (case fold (bt_turn cd (dv_addr (d_row d))) txts ('''', '''') of (name, kind) \<Rightarrow>
                    (name, if kind = '''' then vkind else kind, vendor))
            else (case identify_lan cd vkind private txts of (name, kind) \<Rightarrow> (name, kind, vendor))))"

section \<open>Merging a scan\<close>

definition host_macs :: "facts \<Rightarrow> string list" where
  "host_macs f = map to_lower (f_macs f)"

text \<open>The hub's own interfaces, as the system lists their addresses.\<close>

definition local_macs :: "string list \<Rightarrow> string list" where
  "local_macs ifaces = filter (\<lambda>m. m \<noteq> '''') (map to_lower ifaces)"

definition own_addrs :: "string list \<Rightarrow> db \<Rightarrow> string list" where
  "own_addrs ifaces d = concat (map (\<lambda>h. host_macs (h_facts h)) (hosts d)) @ local_macs ifaces"

definition sight_one :: "codec \<Rightarrow> string list \<Rightarrow> string \<Rightarrow> string \<Rightarrow> detail \<Rightarrow> seen list" where
  "sight_one cd own kind addr det =
     (let a = to_lower addr
      in if a = '''' \<or> a \<in> set own then []
         else [\<lparr>sn_kind = kind, sn_addr = a, sn_detail = cd_write cd det\<rparr>])"

definition found_by :: "codec \<Rightarrow> string list \<Rightarrow> string \<Rightarrow> scan \<Rightarrow> seen list" where
  "found_by cd own hub_addr sc =
     concat (map (\<lambda>l. if hub_addr \<noteq> '''' \<and> ln_ip l = hub_addr then []
                      else sight_one cd own ''lan'' (ln_mac l) (LanDetail l))
                 (case rd_lan sc of None \<Rightarrow> [] | Some ls \<Rightarrow> ls)) @
     concat (map (\<lambda>w. sight_one cd own ''wifi'' (wf_bssid w) (WifiDetail w))
                 (case rd_wifi sc of None \<Rightarrow> [] | Some ws \<Rightarrow> ws)) @
     concat (map (\<lambda>b. sight_one cd own ''bt'' (bt_mac b) (BtDetail b))
                 (case rd_bt sc of None \<Rightarrow> [] | Some bts \<Rightarrow> bts))"

definition announce_new :: "instant \<Rightarrow> host_row \<Rightarrow> seen \<times> int \<times> bool \<Rightarrow> db \<Rightarrow> db" where
  "announce_new now h x d =
     (case x of (sn, _, created) \<Rightarrow>
        if created
        then record_event now ''device.new'' (sn_kind sn @ '':'' @ sn_addr sn)
               (h_name h @ '' saw a new '' @ kind_label (sn_kind sn) @ '' '' @ sn_addr sn) d
        else d)"

text \<open>The guess of one seen device, from the devices as they were read after the scan was stored.\<close>

definition device_by_id :: "int \<Rightarrow> device list \<Rightarrow> device option" where
  "device_by_id i ds = List.find (\<lambda>x. dv_id (d_row x) = i) (rev ds)"

definition guess_again :: "codec \<Rightarrow> device list \<Rightarrow> int \<Rightarrow> db \<Rightarrow> db" where
  "guess_again cd ds i d =
     (case device_by_id i ds of
        None \<Rightarrow> d
      | Some x \<Rightarrow>
          (case identify cd x of (name, kind, vendor) \<Rightarrow>
             if name \<noteq> dv_guess_name (d_row x) \<or> kind \<noteq> dv_guess_kind (d_row x) \<or> vendor \<noteq> dv_vendor (d_row x)
             then set_guess i name kind vendor d else d))"

text \<open>
  \<open>Merge\<close>. The rows of the hub's own interfaces are erased first and stay erased even when the sightings,
  one transaction, are refused.
\<close>

definition merge :: "codec \<Rightarrow> string list \<Rightarrow> instant \<Rightarrow> host_row \<Rightarrow> scan \<Rightarrow> db \<Rightarrow> err option \<times> db" where
  "merge cd ifaces now h sc d =
     (let own = own_addrs ifaces d;
          hub_addr = trim_space (setting ''hub.lan_addr'' d);
          d1 = forget_addrs own d;
          found = found_by cd own hub_addr sc
      in case sight_all now (h_id h) found d1 of
           Inl e \<Rightarrow> (Some e, d1)
         | Inr (marks, d2) \<Rightarrow>
             (let d3 = fold (announce_new now h) (zip found marks) d2
              in (None, fold (guess_again cd (devices d3)) (map fst marks) d3)))"

section \<open>Scanning machines\<close>

text \<open>
  The script's output: not JSON, JSON of another shape (with the library's words for it), or a scan.
\<close>

datatype scan_text = NotJson | BadShape string | Scanned scan

text \<open>Storing what a scan met; a row for a machine removed meanwhile is refused, and that is not reported.\<close>

definition note_scan :: "instant \<Rightarrow> host_row \<Rightarrow> bool \<Rightarrow> bool \<Rightarrow> bool \<Rightarrow> string \<Rightarrow> hub \<Rightarrow> hub" where
  "note_scan now h lan wifi bt why s =
     (case set_host_scan now (h_id h) lan wifi bt why (hb_db s) of
        Inl _ \<Rightarrow> s
      | Inr d \<Rightarrow> s\<lparr>hb_db := d\<rparr>)"

definition scan_machine ::
  "codec \<Rightarrow> string list \<Rightarrow> string \<Rightarrow> (string \<Rightarrow> scan_text) \<Rightarrow> machine \<Rightarrow> instant \<Rightarrow> host_row \<Rightarrow> hub \<Rightarrow> hub" where
  "scan_machine cd ifaces script parse m now h s =
     (case ask m h [''sh'', ''-s'', ''--''] script s of (r, s1) \<Rightarrow>
        (case answer r of
           Inl e \<Rightarrow> note_scan now h False False False (err_text e) s1
         | Inr (status, out, err) \<Rightarrow>
             (case (status \<noteq> 0, parse out) of
                (True, _) \<Rightarrow> note_scan now h False False False (''scan script failed: '' @ tail_of err) s1
              | (_, NotJson) \<Rightarrow> note_scan now h False False False (''scan script failed: '' @ tail_of err) s1
              | (_, BadShape why) \<Rightarrow> note_scan now h False False False (''unreadable scan: '' @ why) s1
              | (_, Scanned sc) \<Rightarrow>
                  note_scan now h (rd_lan sc \<noteq> None) (rd_wifi sc \<noteq> None) (rd_bt sc \<noteq> None) ''''
                    (store_do (\<lambda>d. snd (merge cd ifaces now h sc d)) s1))))"

text \<open>Every machine that is online, one after the other, then the forgetting.\<close>

definition scan_fleet ::
  "codec \<Rightarrow> string list \<Rightarrow> string \<Rightarrow> (string \<Rightarrow> scan_text) \<Rightarrow> machine \<Rightarrow> (host_row \<Rightarrow> instant) \<Rightarrow> instant \<Rightarrow> hub \<Rightarrow> hub"
where
  "scan_fleet cd ifaces script parse m clock now s =
     (let s1 = fold (\<lambda>h s. if h_status h = ''online'' then scan_machine cd ifaces script parse m (clock h) h s else s)
                    (hosts (hb_db s)) s
      in store_do (forget_stale now (setting_int ''network.forget_days'' 30 (hb_db s1))) s1)"

text \<open>
  One turn of the loop: whether a scan is due, \<open>last_scan\<close> being \<open>None\<close> before the first. The interval is a
  64-bit count of nanoseconds.
\<close>

definition scan_due :: "db \<Rightarrow> instant \<Rightarrow> instant option \<Rightarrow> bool" where
  "scan_due d now last_scan =
     (let every = setting_int ''network.scan_minutes'' 10 d
      in every > 0 \<and> (case last_scan of None \<Rightarrow> True | Some t \<Rightarrow> now - t \<ge> i64 (every * minute)))"

end
