(* ===== verification/NetworkLaws.thy ===== *)
theory NetworkLaws
  imports Network StoreLaws
begin

text \<open>
  What holds of the scans: the hub's own machines never stay in the list of devices, a merge gives every
  device it saw the guess its sightings make and leaves what a person said of it alone. The last
  sections show what the code does to a name avahi escaped and to a device with several services.
\<close>

section \<open>What a merge does to the tables\<close>

lemma hosts_by_table: "tb_hosts s = tb_hosts s' \<Longrightarrow> hosts s = hosts s'"
  by (simp add: hosts_def)

lemma forget_addrs_keeps [simp]:
  "tb_hosts (forget_addrs as s) = tb_hosts s"
  "set (tb_devices (forget_addrs as s)) = {d \<in> set (tb_devices s). to_lower (dv_addr d) \<notin> to_lower ` set as}"
  by (auto simp: forget_addrs_def drop_devices_def Let_def)

lemma sight_device_adds:
  assumes "sight_device now k a s = Inr (d, new, s1)"
  shows "dv_addr ` set (tb_devices s1) \<subseteq> insert a (dv_addr ` set (tb_devices s))"
proof (cases "List.find (\<lambda>d. dv_kind d = k \<and> dv_addr d = a) (tb_devices s)")
  case None
  with assms show ?thesis by (auto simp: sight_device_def Let_def split: if_split_asm)
next
  case (Some r)
  with assms show ?thesis by (auto simp: sight_device_def update_where_def)
qed

lemma put_sighting_keeps:
  "put_sighting now d i x s = Inr s1 \<Longrightarrow> tb_devices s1 = tb_devices s"
  by (auto simp: put_sighting_def split: if_split_asm)

lemma sight_all_adds:
  assumes "sight_all now i xs s = Inr (rs, s1)"
  shows "dv_addr ` set (tb_devices s1) \<subseteq> (to_lower \<circ> sn_addr) ` set xs \<union> dv_addr ` set (tb_devices s)"
  using assms
proof (induction xs arbitrary: s rs)
  case (Cons x xs)
  obtain d new sa sb rs' where
    a: "sight_device now (sn_kind x) (to_lower (sn_addr x)) s = Inr (d, new, sa)" and
    b: "put_sighting now d i (if sn_detail x = '''' then ''{}'' else sn_detail x) sa = Inr sb" and
    c: "sight_all now i xs sb = Inr (rs', s1)"
    using sight_all_Cons [OF Cons.prems] .
  show ?case
    using sight_device_adds [OF a] put_sighting_keeps [OF b] Cons.IH [OF c]
    by (simp only: list.set image_insert o_apply) blast
qed simp

lemma sight_one_addr: "x \<in> set (sight_one cd own k a det) \<Longrightarrow> sn_addr x = to_lower a \<and> to_lower a \<notin> set own"
  by (auto simp: sight_one_def Let_def split: if_split_asm)

lemma found_not_own: "x \<in> set (found_by cd own hub sc) \<Longrightarrow> to_lower (sn_addr x) \<notin> set own"
  by (auto simp: found_by_def dest!: sight_one_addr split: if_split_asm option.split_asm)

lemma announce_keeps [simp]:
  "tb_devices (fold (announce_new now h) xs s) = tb_devices s"
  "tb_sightings (fold (announce_new now h) xs s) = tb_sightings s"
  "tb_hosts (fold (announce_new now h) xs s) = tb_hosts s"
  by (induction xs arbitrary: s) (auto simp: announce_new_def record_event_def split: prod.splits)

lemma guess_again_addrs:
  "map dv_addr (tb_devices (fold (guess_again cd ds) ids s)) = map dv_addr (tb_devices s)"
proof (induction ids arbitrary: s)
  case (Cons i ids)
  have "map dv_addr (tb_devices (guess_again cd ds i s)) = map dv_addr (tb_devices s)"
    by (simp add: guess_again_def set_guess_def update_device_def map_update_where split: option.split prod.split)
  then show ?case using Cons.IH by simp
qed simp

lemma merge_addrs:
  assumes own_def: "own = own_addrs ifaces d"
  shows "dv_addr ` set (tb_devices (snd (merge cd ifaces now h sc d))) \<subseteq>
     (\<lambda>x. to_lower (sn_addr x)) ` set (found_by cd own (trim_space (setting ''hub.lan_addr'' d)) sc) \<union>
     dv_addr ` set (tb_devices (forget_addrs own d))"
proof -
  let ?found = "found_by cd own (trim_space (setting ''hub.lan_addr'' d)) sc" and ?d1 = "forget_addrs own d"
  show ?thesis
  proof (cases "sight_all now (h_id h) ?found ?d1")
    case (Inl e)
    then show ?thesis by (simp only: merge_def Let_def own_def [symmetric] sum.case snd_conv Un_upper2)
  next
    case (Inr p)
    obtain marks d2 where p: "p = (marks, d2)" by (cases p)
    let ?d3 = "fold (announce_new now h) (zip ?found marks) d2"
    have m: "snd (merge cd ifaces now h sc d) = fold (guess_again cd (devices ?d3)) (map fst marks) ?d3"
      by (simp only: merge_def Let_def own_def [symmetric] Inr p sum.case prod.case snd_conv)
    have "dv_addr ` set (tb_devices (snd (merge cd ifaces now h sc d))) = dv_addr ` set (tb_devices d2)"
      unfolding m using arg_cong [OF guess_again_addrs [of cd "devices ?d3" "map fst marks" ?d3], of set]
      by (simp only: set_map announce_keeps)
    also have "\<dots> \<subseteq> (\<lambda>x. to_lower (sn_addr x)) ` set ?found \<union> dv_addr ` set (tb_devices ?d1)"
      using sight_all_adds [OF Inr [unfolded p]] by (simp only: o_def)
    finally show ?thesis .
  qed
qed

lemma own_addrs_lower: "a \<in> set (own_addrs ifaces d) \<Longrightarrow> to_lower a = a"
  by (auto simp: own_addrs_def host_macs_def local_macs_def)

text \<open>
  C22: The hub's own machines are no devices of the house: after the scan of a machine has been merged,
  whatever the scan printed and whatever earlier scans had recorded, no device has the hardware address
  of an interface of the hub or of a machine it keeps, in any spelling.
\<close>

theorem own_machines_never_listed:
  "(\<lambda>x. to_lower (dv_addr x)) ` set (tb_devices (snd (merge cd ifaces now h sc d))) \<inter>
     set (own_addrs ifaces d) = {}"
proof -
  have "to_lower (dv_addr x) \<notin> set (own_addrs ifaces d)"
    if "x \<in> set (tb_devices (snd (merge cd ifaces now h sc d)))" for x
  proof -
    from that have "dv_addr x \<in> dv_addr ` set (tb_devices (snd (merge cd ifaces now h sc d)))" by (rule imageI)
    then consider y where "y \<in> set (found_by cd (own_addrs ifaces d) (trim_space (setting ''hub.lan_addr'' d)) sc)"
          "dv_addr x = to_lower (sn_addr y)"
      | z where "z \<in> set (tb_devices (forget_addrs (own_addrs ifaces d) d))" "dv_addr x = dv_addr z"
      using merge_addrs [OF refl] by blast
    then show ?thesis
    proof cases
      case 1
      then show ?thesis using found_not_own by (metis lower_idem)
    next
      case 2
      then have "to_lower (dv_addr x) \<notin> to_lower ` set (own_addrs ifaces d)" by (simp only: forget_addrs_keeps) simp
      then show ?thesis using own_addrs_lower by (metis imageI)
    qed
  qed
  then show ?thesis by blast
qed

section \<open>The guesses\<close>

definition reguess :: "codec \<Rightarrow> db \<Rightarrow> device_row \<Rightarrow> device_row" where
  "reguess cd s r =
     (case identify cd \<lparr>d_row = r, d_sightings = sightings_of (dv_id r) s\<rparr> of
        (name, kind, vendor) \<Rightarrow> r\<lparr>dv_guess_name := name, dv_guess_kind := kind, dv_vendor := vendor\<rparr>)"

lemma identify_row:
  "dv_kind r = dv_kind r' \<Longrightarrow> dv_addr r = dv_addr r' \<Longrightarrow>
   identify cd \<lparr>d_row = r, d_sightings = gs\<rparr> = identify cd \<lparr>d_row = r', d_sightings = gs\<rparr>"
  by (simp only: identify_def device.select_convs)

lemma reguess_same:
  "dv_id (reguess cd s r) = dv_id r" "dv_kind (reguess cd s r) = dv_kind r" "dv_addr (reguess cd s r) = dv_addr r"
  "dv_name (reguess cd s r) = dv_name r" "dv_user_kind (reguess cd s r) = dv_user_kind r"
  "dv_first (reguess cd s r) = dv_first r"
  by (simp_all add: reguess_def split: prod.split)

lemma reguess_again: "reguess cd s (reguess cd s r) = reguess cd s r"
proof -
  have "identify cd \<lparr>d_row = reguess cd s r, d_sightings = sightings_of (dv_id r) s\<rparr> =
        identify cd \<lparr>d_row = r, d_sightings = sightings_of (dv_id r) s\<rparr>"
    by (rule identify_row) (simp_all add: reguess_same)
  then show ?thesis
    by (cases "identify cd \<lparr>d_row = r, d_sightings = sightings_of (dv_id r) s\<rparr>") (simp add: reguess_def)
qed

lemma reguess_is_guess:
  "identify cd \<lparr>d_row = reguess cd s r, d_sightings = sightings_of (dv_id r) s\<rparr> =
     (dv_guess_name (reguess cd s r), dv_guess_kind (reguess cd s r), dv_vendor (reguess cd s r))"
proof -
  have "identify cd \<lparr>d_row = reguess cd s r, d_sightings = sightings_of (dv_id r) s\<rparr> =
        identify cd \<lparr>d_row = r, d_sightings = sightings_of (dv_id r) s\<rparr>"
    by (rule identify_row) (simp_all only: reguess_same)
  then show ?thesis
    by (cases "identify cd \<lparr>d_row = r, d_sightings = sightings_of (dv_id r) s\<rparr>") (simp add: reguess_def)
qed

lemma device_by_id_some:
  assumes "device_by_id i (devices s) = Some x"
  shows "d_row x \<in> set (tb_devices s)" "dv_id (d_row x) = i" "d_sightings x = sightings_of i s"
  using find_set [OF assms [unfolded device_by_id_def]] by (auto simp: devices_def)

lemma device_by_id_none: "device_by_id i (devices s) = None \<Longrightarrow> r \<in> set (tb_devices s) \<Longrightarrow> dv_id r \<noteq> i"
  by (auto simp: device_by_id_def find_none_iff devices_def)

definition regroup :: "codec \<Rightarrow> db \<Rightarrow> int set \<Rightarrow> device_row list" where
  "regroup cd s ids = map (\<lambda>r. if dv_id r \<in> ids then reguess cd s r else r) (tb_devices s)"

lemma regroup_in: "e \<in> set (tb_devices s) \<Longrightarrow> (if dv_id e \<in> ids then reguess cd s e else e) \<in> set (regroup cd s ids)"
  by (auto simp: regroup_def)

lemma keyed_same: "keyed k rows \<Longrightarrow> x \<in> set rows \<Longrightarrow> y \<in> set rows \<Longrightarrow> k x = k y \<Longrightarrow> x = y"
  by (auto simp: keyed_def distinct_map dest: inj_onD)

lemma guess_again_step:
  assumes k: "keyed dv_id (tb_devices s)" and t: "tb_devices t = regroup cd s ids"
  shows "tb_devices (guess_again cd (devices s) i t) = regroup cd s (insert i ids)"
proof (cases "device_by_id i (devices s)")
  case None
  then have "regroup cd s (insert i ids) = regroup cd s ids"
    using device_by_id_none by (auto simp: regroup_def)
  with None t show ?thesis by (simp add: guess_again_def)
next
  case (Some x)
  note x = device_by_id_some [OF Some]
  have same: "r = d_row x" if "r \<in> set (tb_devices s)" "dv_id r = i" for r
    using keyed_same [OF k that(1) x(1)] that(2) x(2) by simp
  obtain name kind vendor where g: "identify cd x = (name, kind, vendor)" by (cases "identify cd x")
  have xd: "\<lparr>d_row = d_row x, d_sightings = sightings_of i s\<rparr> = x" using x(3) by (cases x) simp
  have re: "reguess cd s (d_row x) = (d_row x)\<lparr>dv_guess_name := name, dv_guess_kind := kind, dv_vendor := vendor\<rparr>"
    by (simp add: reguess_def x(2) xd g)
  show ?thesis
  proof (cases "name \<noteq> dv_guess_name (d_row x) \<or> kind \<noteq> dv_guess_kind (d_row x) \<or> vendor \<noteq> dv_vendor (d_row x)")
    case True
    let ?f = "\<lambda>r. r\<lparr>dv_guess_name := name, dv_guess_kind := kind, dv_vendor := vendor\<rparr>"
    have "tb_devices (guess_again cd (devices s) i t) = update_where (\<lambda>r. dv_id r = i) ?f (regroup cd s ids)"
      using True by (simp add: guess_again_def Some g set_guess_def update_device_def t)
    also have "\<dots> = regroup cd s (insert i ids)"
    proof -
      have "(\<lambda>r. if dv_id r = i then ?f r else r) (if dv_id r \<in> ids then reguess cd s r else r) =
            (if dv_id r \<in> insert i ids then reguess cd s r else r)" if "r \<in> set (tb_devices s)" for r
        using same [OF that] re by (auto simp: reguess_same)
      then show ?thesis by (simp add: regroup_def update_where_def)
    qed
    finally show ?thesis .
  next
    case False
    then have "reguess cd s (d_row x) = d_row x" using re by simp
    then have "regroup cd s (insert i ids) = regroup cd s ids"
      using same by (auto simp: regroup_def)
    with False t show ?thesis by (simp add: guess_again_def Some g)
  qed
qed

lemma guess_again_fold:
  assumes "keyed dv_id (tb_devices s)" and "tb_devices t = regroup cd s ids"
  shows "tb_devices (fold (guess_again cd (devices s)) is t) = regroup cd s (ids \<union> set is)"
  using assms(2)
proof (induction "is" arbitrary: t ids)
  case (Cons i is')
  show ?case using Cons.IH [OF guess_again_step [OF assms(1) Cons.prems]] by simp
qed simp

lemma guess_again_keeps [simp]:
  "tb_sightings (fold (guess_again cd ds) is s) = tb_sightings s"
  "tb_hosts (fold (guess_again cd ds) is s) = tb_hosts s"
proof (induction "is" arbitrary: s)
  case (Cons i is')
  { case 1 show ?case using Cons.IH(1) by (simp add: guess_again_def set_guess_def update_device_def split: option.split prod.split) }
  { case 2 show ?case using Cons.IH(2) by (simp add: guess_again_def set_guess_def update_device_def split: option.split prod.split) }
qed simp_all

lemma sightings_by_table:
  "tb_sightings s = tb_sightings s' \<Longrightarrow> tb_hosts s = tb_hosts s' \<Longrightarrow> sightings_of i s = sightings_of i s'"
  by (simp add: sightings_of_def host_name_of_def)

lemma reguess_by_table:
  "tb_sightings s = tb_sightings s' \<Longrightarrow> tb_hosts s = tb_hosts s' \<Longrightarrow> reguess cd s r = reguess cd s' r"
  by (simp add: reguess_def sightings_by_table [of s s'])

lemma sight_all_marks:
  assumes "sight_all now i xs s = Inr (rs, s1)" and "x \<in> set xs"
  shows "\<exists>e \<in> set (tb_devices s1). dv_id e \<in> fst ` set rs \<and> dv_kind e = sn_kind x \<and>
     dv_addr e = to_lower (sn_addr x) \<and> sighted now i (dv_id e) s1"
  using assms
proof (induction xs arbitrary: s rs)
  case (Cons y ys)
  obtain d new sa sb rs' where
    a: "sight_device now (sn_kind y) (to_lower (sn_addr y)) s = Inr (d, new, sa)" and
    b: "put_sighting now d i (if sn_detail y = '''' then ''{}'' else sn_detail y) sa = Inr sb" and
    c: "sight_all now i ys sb = Inr (rs', s1)" and rs: "rs = (d, new) # rs'"
    using sight_all_Cons [OF Cons.prems(1)] .
  show ?case
  proof (cases "x = y")
    case True
    obtain e where e: "e \<in> set (tb_devices sa)" "dv_id e = d" "dv_kind e = sn_kind y" "dv_addr e = to_lower (sn_addr y)"
      using scan_keeps_device [OF a] by blast
    note later = conjunct1 [OF scan_recorded_whole [OF c]] and put = scan_keeps_sighting [OF b]
    have "scan_keeps now i sa s1" by (rule scan_keeps_trans [OF conjunct1 [OF put] later])
    then obtain e' where e': "e' \<in> set (tb_devices s1)" "same_device e e'"
      using e(1) unfolding scan_keeps_def by blast
    have "sighted now i d s1" using conjunct2 [OF put] later unfolding scan_keeps_def by blast
    moreover have "dv_id e' = d" "dv_kind e' = sn_kind x" "dv_addr e' = to_lower (sn_addr x)"
      using e e'(2) True unfolding same_device_def by metis+
    ultimately show ?thesis using e'(1) rs by (intro bexI [of _ e']) simp_all
  next
    case False
    then have "x \<in> set ys" using Cons.prems(2) by simp
    from Cons.IH [OF c this] show ?thesis unfolding rs by (simp only: list.set image_insert) blast
  qed
qed simp

lemma found_lower: "x \<in> set (found_by cd own hub sc) \<Longrightarrow> to_lower (sn_addr x) = sn_addr x"
  by (auto simp: found_by_def dest!: sight_one_addr split: if_split_asm option.split_asm)

lemma keys_announce: "keys_ok s \<Longrightarrow> keys_ok (fold (announce_new now h) xs s)"
proof (induction xs arbitrary: s)
  case (Cons x xs)
  have "keys_ok (announce_new now h x s)"
    using Cons.prems by (cases x) (auto simp: announce_new_def intro: keys_plain)
  then show ?case using Cons.IH by simp
qed simp

lemma merge_steps:
  assumes "merge cd ifaces now h sc d = (None, d')" and own: "own = own_addrs ifaces d"
    and found: "found = found_by cd own (trim_space (setting ''hub.lan_addr'' d)) sc"
  obtains marks d2 d3 where "sight_all now (h_id h) found (forget_addrs own d) = Inr (marks, d2)"
    "d3 = fold (announce_new now h) (zip found marks) d2"
    "d' = fold (guess_again cd (devices d3)) (map fst marks) d3"
  using assms(1) unfolding merge_def Let_def own [symmetric] found [symmetric]
  by (auto split: sum.split_asm prod.split_asm)

lemma merge_result:
  assumes k: "keys_ok d" and all: "sight_all now i found (forget_addrs own d) = Inr (marks, d2)"
    and d3: "d3 = fold (announce_new now h) (zip found marks) d2"
    and d': "d' = fold (guess_again cd (devices d3)) (map fst marks) d3"
  shows "tb_devices d' = regroup cd d3 (fst ` set marks)"
proof -
  have "keys_ok (forget_addrs own d)" using k by (simp add: forget_addrs_def keys_drops)
  then have "keys_ok d3" unfolding d3 by (intro keys_announce) (rule keys_sight_all [OF _ all])
  then have "keyed dv_id (tb_devices d3)" by (simp only: keys_defs)
  moreover have "tb_devices d3 = regroup cd d3 {}" by (simp add: regroup_def)
  ultimately show ?thesis
    unfolding d' by (subst guess_again_fold [of d3 d3 cd "{}"]) simp_all
qed

text \<open>
  C21: A merge that goes through leaves every device the scan saw recorded under its address, sighted by
  this machine at this time, and with a guess that is exactly what \<open>identify\<close> makes of the sightings now
  stored; and every device known before, other than the hub's own machines, is still there with its
  first day and the name and kind a person gave it.
\<close>

theorem merge_guesses_what_it_saw:
  assumes "keys_ok d" and "merge cd ifaces now h sc d = (None, d')"
  shows "(\<forall>x \<in> set (found_by cd (own_addrs ifaces d) (trim_space (setting ''hub.lan_addr'' d)) sc).
      \<exists>r \<in> set (tb_devices d'). dv_kind r = sn_kind x \<and> dv_addr r = sn_addr x \<and> sighted now (h_id h) (dv_id r) d' \<and>
        identify cd \<lparr>d_row = r, d_sightings = sightings_of (dv_id r) d'\<rparr> =
          (dv_guess_name r, dv_guess_kind r, dv_vendor r)) \<and>
    (\<forall>r \<in> set (tb_devices d). to_lower (dv_addr r) \<notin> set (own_addrs ifaces d) \<longrightarrow>
      (\<exists>r' \<in> set (tb_devices d'). same_device r r'))"
proof -
  define own where own: "own = own_addrs ifaces d"
  define found where found: "found = found_by cd own (trim_space (setting ''hub.lan_addr'' d)) sc"
  obtain marks d2 d3 where all: "sight_all now (h_id h) found (forget_addrs own d) = Inr (marks, d2)" and
    d3: "d3 = fold (announce_new now h) (zip found marks) d2" and
    d': "d' = fold (guess_again cd (devices d3)) (map fst marks) d3"
    by (rule merge_steps [OF assms(2) own found])
  define ids where ids: "ids = fst ` set marks"
  have t: "tb_devices d' = regroup cd d3 ids"
    unfolding ids by (rule merge_result [OF assms(1) all d3 d'])
  have same: "tb_sightings d' = tb_sightings d2" "tb_hosts d' = tb_hosts d2" "tb_devices d3 = tb_devices d2"
    "tb_sightings d' = tb_sightings d3" "tb_hosts d' = tb_hosts d3"
    by (simp_all only: d' d3 guess_again_keeps announce_keeps)
  have one: "\<exists>r \<in> set (tb_devices d'). dv_kind r = sn_kind x \<and> dv_addr r = sn_addr x \<and> sighted now (h_id h) (dv_id r) d' \<and>
        identify cd \<lparr>d_row = r, d_sightings = sightings_of (dv_id r) d'\<rparr> =
          (dv_guess_name r, dv_guess_kind r, dv_vendor r)" if x: "x \<in> set found" for x
  proof -
    obtain e where e: "e \<in> set (tb_devices d2)" "dv_id e \<in> ids" "dv_kind e = sn_kind x" "dv_addr e = sn_addr x"
      "sighted now (h_id h) (dv_id e) d2"
      using sight_all_marks [OF all x] found_lower [OF x [unfolded found]] unfolding ids by metis
    let ?r = "reguess cd d3 e"
    have e3: "e \<in> set (tb_devices d3)" using e(1) by (simp only: same)
    show ?thesis
    proof (intro bexI conjI)
      show "?r \<in> set (tb_devices d')" using regroup_in [OF e3, of ids cd] e(2) by (simp only: t if_True)
      show "dv_kind ?r = sn_kind x" "dv_addr ?r = sn_addr x" using e(3,4) by (simp_all only: reguess_same)
      show "sighted now (h_id h) (dv_id ?r) d'" using e(5) by (simp only: sighted_def same(1) reguess_same)
      show "identify cd \<lparr>d_row = ?r, d_sightings = sightings_of (dv_id ?r) d'\<rparr> =
          (dv_guess_name ?r, dv_guess_kind ?r, dv_vendor ?r)"
        by (simp only: sightings_by_table [OF same(4,5)] reguess_same reguess_is_guess)
    qed
  qed
  have two: "\<exists>r' \<in> set (tb_devices d'). same_device r r'"
    if r: "r \<in> set (tb_devices d)" "to_lower (dv_addr r) \<notin> set own" for r
  proof -
    have "to_lower (dv_addr r) \<notin> to_lower ` set own" using r(2) own_addrs_lower unfolding own by force
    then have "r \<in> set (tb_devices (forget_addrs own d))"
      unfolding forget_addrs_keeps using r(1) by blast
    then obtain e where e: "e \<in> set (tb_devices d2)" "same_device r e"
      using conjunct1 [OF scan_recorded_whole [OF all]] unfolding scan_keeps_def by blast
    have e3: "e \<in> set (tb_devices d3)" using e(1) by (simp only: same)
    show ?thesis
    proof (rule bexI)
      show "(if dv_id e \<in> ids then reguess cd d3 e else e) \<in> set (tb_devices d')" unfolding t by (rule regroup_in [OF e3])
      show "same_device r (if dv_id e \<in> ids then reguess cd d3 e else e)"
        using e(2) by (simp add: same_device_def reguess_same)
    qed
  qed
  show ?thesis using one two unfolding own found by blast
qed

definition plain_codec :: codec where
  "plain_codec = \<lparr>cd_write = (\<lambda>det. case det of WifiDetail w \<Rightarrow> wf_ssid w | _ \<Rightarrow> ''{}''),
     cd_lan = (\<lambda>_. None), cd_ssid = Some, cd_bt = (\<lambda>_. None)\<rparr>"

definition home_scan :: scan where
  "home_scan = \<lparr>rd_lan = None, rd_wifi = Some [\<lparr>wf_bssid = ''AA:01'', wf_ssid = ''Home'', wf_signal = None,
     wf_freq = None, wf_security = ''''\<rparr>], rd_bt = None\<rparr>"

theorem merge_guesses_what_it_saw_witness:
  "\<exists>d'. merge plain_codec [] 0 (hd (tb_hosts nas_and_pi)) home_scan nas_and_pi = (None, d') \<and>
     (\<exists>r \<in> set (tb_devices d'). dv_kind r = ''wifi'' \<and> dv_addr r = ''aa:01'')"
proof -
  let ?m = "merge plain_codec [] 0 (hd (tb_hosts nas_and_pi)) home_scan nas_and_pi"
  have own: "own_addrs [] nas_and_pi = []"
    by (simp add: own_addrs_def local_macs_def host_macs_def hosts_def nas_and_pi_def empty_db_def
        order_by_def no_facts_def scan_host_def concat_eq_Nil_conv)
  have found: "found_by plain_codec [] hub home_scan = [\<lparr>sn_kind = ''wifi'', sn_addr = ''aa:01'', sn_detail = ''Home''\<rparr>]" for hub
  proof -
    have "to_lower ''AA:01'' = ''aa:01''" by code_simp
    then show ?thesis by (simp add: found_by_def home_scan_def sight_one_def plain_codec_def)
  qed
  have keys: "keys_ok nas_and_pi" by (simp add: keys_defs nas_and_pi_def empty_db_def keyed_def)
  have "\<exists>p. sight_all 0 1 [\<lparr>sn_kind = ''wifi'', sn_addr = ''aa:01'', sn_detail = ''Home''\<rparr>] nas_and_pi = Inr p"
    (is "\<exists>p. ?s = Inr p")
    by (simp add: sight_device_def put_sighting_def device_kinds_def nas_and_pi_def empty_db_def host_known_def Let_def)
  then obtain marks d2 where s: "?s = Inr (marks, d2)" by auto
  have i: "h_id (hd (tb_hosts nas_and_pi)) = 1" by (simp add: nas_and_pi_def)
  have "fst ?m = None"
    by (simp only: merge_def Let_def own found forget_addrs_def simp_thms if_True i s sum.case prod.case fst_conv)
  then obtain d' where m: "?m = (None, d')" by (cases ?m) auto
  from merge_guesses_what_it_saw [OF keys m] own found have
    "\<exists>r \<in> set (tb_devices d'). dv_kind r = ''wifi'' \<and> dv_addr r = ''aa:01''" by auto
  with m show ?thesis by blast
qed

section \<open>Names avahi escaped\<close>

lemma unescape_plain: "c \<noteq> CHR 0x5C \<Longrightarrow> unescape_avahi (c # s) = c # unescape_avahi s"
  by (cases s rule: unescape_avahi.cases) auto

definition avahi_digits :: "nat \<Rightarrow> string" where
  "avahi_digits n = [CHR 0x5C, digit_char (n div 100), digit_char (n div 10 mod 10), digit_char (n mod 10)]"

lemma digit_char_digit: "n < 10 \<Longrightarrow> is_digit (digit_char n) \<and> digit_val (digit_char n) = n"
  by (auto simp: is_digit_def digit_char_def digit_val_def)

lemma unescape_escaped:
  assumes "n < 1000" shows "unescape_avahi (avahi_digits n @ s) = utf8 n @ unescape_avahi s"
proof -
  let ?x = "digit_char (n div 100)" and ?y = "digit_char (n div 10 mod 10)" and ?z = "digit_char (n mod 10)"
  have "n div 100 < 10" "n div 10 mod 10 < 10" "n mod 10 < 10" using assms by auto
  then have d: "is_digit ?x" "is_digit ?y" "is_digit ?z"
    and v: "digit_val ?x = n div 100" "digit_val ?y = n div 10 mod 10" "digit_val ?z = n mod 10"
    using digit_char_digit by blast+
  have "n div 100 = n div 10 div 10" by (simp add: div_mult2_eq)
  then have n: "n div 100 * 100 + n div 10 mod 10 * 10 + n mod 10 = n"
    using div_mult_mod_eq [of n 10] div_mult_mod_eq [of "n div 10" 10] by linarith
  have "unescape_avahi (avahi_digits n @ s) =
      utf8 (n div 100 * 100 + n div 10 mod 10 * 10 + n mod 10) @ unescape_avahi s"
    unfolding avahi_digits_def append.simps unescape_avahi.simps(1) v using d by (simp only: simp_thms if_True)
  then show ?thesis by (simp only: n)
qed

text \<open>
  Undoing avahi's escapes: a name in which some bytes are escaped and the others, no backslash among
  them, are not, is read back with every byte below 128 in its place; an escaped byte above becomes the
  two bytes of the character of that number, so a name outside ASCII, which avahi escapes byte by byte,
  is not read back.
\<close>

theorem avahi_names_read_back:
  assumes "\<forall>c \<in> set s. c = CHR 0x5C \<longrightarrow> esc c"
  shows "unescape_avahi (concat (map (\<lambda>c. if esc c then avahi_digits (of_char c) else [c]) s)) =
    concat (map (\<lambda>c. if esc c \<and> of_char c \<ge> (128 :: nat)
       then [char_of (0xC0 + of_char c div 64 :: nat), char_of (0x80 + of_char c mod 64 :: nat)] else [c]) s)"
  using assms
proof (induction s)
  case (Cons c s)
  have byte: "(of_char c :: nat) < 256" by (rule nat_of_char_less_256)
  then have small: "(of_char c :: nat) < 1000" by (rule less_trans) simp
  show ?case
  proof (cases "esc c")
    case True
    have "utf8 (of_char c) = (if of_char c \<ge> (128 :: nat)
       then [char_of (0xC0 + of_char c div 64 :: nat), char_of (0x80 + of_char c mod 64 :: nat)] else [c])"
      using byte unfolding utf8_def by (auto simp del: nat_of_char_less_256)
    with True show ?thesis using Cons unescape_escaped [OF small] by simp
  next
    case False
    with Cons.prems have "c \<noteq> CHR 0x5C" by auto
    with False Cons show ?thesis by (simp add: unescape_plain)
  qed
qed simp

section \<open>A device with several services\<close>

lemma service_kind_settled: "kind \<noteq> '''' \<Longrightarrow> service_kind svc kind = kind"
proof -
  have "kind \<noteq> '''' \<Longrightarrow> fold (\<lambda>(p, k) kind. if kind = '''' \<and> has_prefix svc p then k else kind) t kind = kind" for t
    by (induction t) auto
  then show "kind \<noteq> '''' \<Longrightarrow> service_kind svc kind = kind" by (simp add: service_kind_def)
qed

text \<open>
  The kind of a device with several services is that of the first service it lists that has one: the
  order of the table plays no part in it, so a printer that also lists its shell first is a computer.
\<close>

theorem first_service_decides:
  "fold service_kind svcs '''' =
     (case List.find (\<lambda>s. service_kind s '''' \<noteq> '''') svcs of None \<Rightarrow> '''' | Some s \<Rightarrow> service_kind s '''') \<and>
   fold service_kind [''_ssh._tcp'', ''_ipp._tcp''] '''' = ''computer'' \<and>
   fold service_kind [''_ipp._tcp'', ''_ssh._tcp''] '''' = ''printer''"
proof -
  have settled: "kind \<noteq> '''' \<Longrightarrow> fold service_kind svcs kind = kind" for kind svcs
    by (induction svcs) (simp_all add: service_kind_settled)
  have "fold service_kind svcs '''' =
     (case List.find (\<lambda>s. service_kind s '''' \<noteq> '''') svcs of None \<Rightarrow> '''' | Some s \<Rightarrow> service_kind s '''')" for svcs
    by (induction svcs) (auto simp: settled)
  moreover have "service_kind ''_ssh._tcp'' '''' = ''computer''" "service_kind ''_ipp._tcp'' '''' = ''printer''"
    by code_simp+
  ultimately show ?thesis by (simp add: service_kind_settled)
qed

end
