(* ===== verification/AgentWindow.thy ===== *)
theory AgentWindow
  imports StoreUsage
begin

text \<open>
  The hub's own agent, \<open>internal/agent/window.go\<close>, \<open>agent.go\<close>, \<open>usage.go\<close>, \<open>names.go\<close>, \<open>models.go\<close>,
  \<open>install.go\<close> and the rules of \<open>context.go\<close>. A window is a process in a terminal whose output is kept
  for replay and copied to the channels of the sockets attached to it. Starting processes, reading
  files and the JSON library are parameters.
\<close>

section \<open>The window\<close>

definition replay_bytes :: nat where
  "replay_bytes = 65536"

definition chan_room :: nat where
  "chan_room = 256"

text \<open>
  A channel: what is queued in it, whether it is still open and delivered to (a closed one is no
  subscriber any more), and what its reader has taken from it so far.
\<close>

record chan =
  ch_queue :: "string list"
  ch_open :: bool
  ch_read :: "string list"

record win =
  wn_recent :: string
  wn_chans :: "chan list"
  wn_touched :: "instant option"
  wn_done :: bool

definition new_win :: win where
  "new_win = \<lparr>wn_recent = '''', wn_chans = [], wn_touched = None, wn_done = False\<rparr>"

definition last_bytes :: "nat \<Rightarrow> string \<Rightarrow> string" where
  "last_bytes n s = drop (length s - n) s"

definition offer :: "string \<Rightarrow> chan \<Rightarrow> chan" where
  "offer chunk c =
     (if \<not> ch_open c then c
      else if length (ch_queue c) < chan_room then c\<lparr>ch_queue := ch_queue c @ [chunk]\<rparr>
      else c\<lparr>ch_open := False\<rparr>)"

definition pump_chunk :: "string \<Rightarrow> win \<Rightarrow> win" where
  "pump_chunk chunk w =
     (let recent = wn_recent w @ chunk
      in w\<lparr>wn_recent := if length recent > replay_bytes then last_bytes replay_bytes recent else recent,
           wn_chans := map (offer chunk) (wn_chans w)\<rparr>)"

text \<open>The process is gone: every channel closes, and the replay buffer is handed on.\<close>

definition pump_end :: "win \<Rightarrow> string \<times> win" where
  "pump_end w = (wn_recent w, w\<lparr>wn_recent := '''', wn_chans := map (\<lambda>c. c\<lparr>ch_open := False\<rparr>) (wn_chans w),
     wn_done := True\<rparr>)"

definition attach :: "win \<Rightarrow> string \<times> nat \<times> win" where
  "attach w = (wn_recent w, length (wn_chans w),
     w\<lparr>wn_chans := wn_chans w @ [\<lparr>ch_queue = [], ch_open = True, ch_read = []\<rparr>]\<rparr>)"

definition on_chan :: "nat \<Rightarrow> (chan \<Rightarrow> chan) \<Rightarrow> win \<Rightarrow> win" where
  "on_chan i f w = w\<lparr>wn_chans := (if i < length (wn_chans w) then (wn_chans w)[i := f (wn_chans w ! i)] else wn_chans w)\<rparr>"

definition detach :: "nat \<Rightarrow> win \<Rightarrow> win" where
  "detach i = on_chan i (\<lambda>c. c\<lparr>ch_open := False\<rparr>)"

text \<open>The reader's side of a channel: the oldest chunk, also from a closed channel.\<close>

definition take_chunk :: "nat \<Rightarrow> win \<Rightarrow> win" where
  "take_chunk i = on_chan i (\<lambda>c. case ch_queue c of [] \<Rightarrow> c
     | x # rest \<Rightarrow> c\<lparr>ch_queue := rest, ch_read := ch_read c @ [x]\<rparr>)"

text \<open>Keyboard input: whether the row of the window is to be touched.\<close>

definition key_input :: "instant \<Rightarrow> win \<Rightarrow> bool \<times> win" where
  "key_input now w =
     (let touch = (case wn_touched w of None \<Rightarrow> True | Some t \<Rightarrow> now - t > 5 * second)
      in (touch, if touch then w\<lparr>wn_touched := Some now\<rparr> else w))"

definition resize :: "nat \<Rightarrow> nat \<Rightarrow> (nat \<times> nat) option" where
  "resize cols rows = (if cols = 0 \<or> rows = 0 then None else Some (cols, rows))"

section \<open>Names\<close>

definition adjectives :: "string list" where
  "adjectives = GoStrings.fields (concat
     [''amber bold bounty brave brisk calm clever cosmic crisp daring '',
      ''dusty eager early fancy fuzzy gentle giddy golden happy hasty '',
      ''humble jolly keen kind lively lucky merry mighty misty noble '',
      ''nimble plucky proud quick quiet rapid rosy rusty shiny silent '',
      ''sleepy smooth snowy spicy sturdy sunny swift tidy vivid witty''])"

definition nouns :: "string list" where
  "nouns = GoStrings.fields (concat
     [''badger beaver bison camel cobra condor coyote crane dingo donkey '',
      ''eagle falcon ferret gecko gibbon heron hyena ibis jackal koala '',
      ''lemur llama lynx magpie marmot moose narwhal newt ocelot osprey '',
      ''otter panda parrot pelican puffin quokka rabbit raven robin salmon '',
      ''shrew sloth sparrow stork tapir toucan turtle walrus wombat yak''])"

text \<open>The two random numbers are an argument; \<open>rand.IntN\<close> keeps each below the length of its list.\<close>

definition draw_name :: "nat \<times> nat \<Rightarrow> string" where
  "draw_name r = adjectives ! fst r @ ''-'' @ nouns ! snd r"

text \<open>Drawing until the name is free; \<open>None\<close> when the numbers given run out before that.\<close>

fun draw_free :: "string list \<Rightarrow> (nat \<times> nat) list \<Rightarrow> string option" where
  "draw_free taken [] = None"
| "draw_free taken (r # rs) = (if draw_name r \<in> set taken then draw_free taken rs else Some (draw_name r))"

section \<open>The agent\<close>

record desk =
  dk_db :: db
  dk_notes :: "(string \<times> string \<times> string) list"
  dk_ready :: bool
  dk_install_err :: string
  dk_version :: string
  dk_vault :: bool
  dk_windows :: "(int \<times> win) list"

definition live_windows :: "db \<Rightarrow> window_row list" where
  "live_windows d = filter (\<lambda>w. w_ended w = None) (windows d)"

definition live_win :: "int \<Rightarrow> desk \<Rightarrow> win option" where
  "live_win i s = map_of (dk_windows s) i"

text \<open>
  \<open>Open\<close> piece by piece: it holds no lock from the list it reads to the entry it makes, and other calls may come
  between any two of the pieces. \<open>calls\<close> is how many of its four calls of the store (the list, the row, the
  setting, and last the row read back or, where no process started, ended) the context of the request lasts
  for. A window that ends at once can precede its own entry in the map.
\<close>

definition cut :: err where
  "cut = Err ''context canceled''"

definition open_draw :: "nat \<Rightarrow> (nat \<times> nat) list \<Rightarrow> desk \<Rightarrow> string res option" where
  "open_draw calls draws s =
     (if \<not> dk_ready s then Some (Inl (Err ''omp is not installed on the hub yet''))
      else if calls < 1 then Some (Inl cut)
      else map_option Inr (draw_free (map w_name (live_windows (dk_db s))) draws))"

definition open_list :: "nat \<Rightarrow> instant \<Rightarrow> string \<Rightarrow> desk \<Rightarrow> int res \<times> desk" where
  "open_list calls now name s =
     (if calls < 2 then (Inl cut, s)
      else case create_window now name (dk_db s) of (i, d) \<Rightarrow> (Inr i, s\<lparr>dk_db := d\<rparr>))"

text \<open>An error here returns without ending the row.\<close>

definition open_model :: "nat \<Rightarrow> desk \<Rightarrow> string res" where
  "open_model calls s = (if calls < 3 then Inl cut else Inr (setting ''agent.default_model'' (dk_db s)))"

definition open_launch :: "nat \<Rightarrow> string option \<Rightarrow> instant \<Rightarrow> int \<Rightarrow> desk \<Rightarrow> win res \<times> desk" where
  "open_launch calls problem now i s =
     (case problem of
        Some e \<Rightarrow> (Inl (Err e), if calls < 4 then s else s\<lparr>dk_db := end_window now i None (dk_db s)\<rparr>)
      | None \<Rightarrow> (Inr new_win, s))"

definition register :: "int \<Rightarrow> win \<Rightarrow> desk \<Rightarrow> desk" where
  "register i w s = s\<lparr>dk_windows := replace_row fst (i, w) (dk_windows s)\<rparr>"

definition open_answer :: "nat \<Rightarrow> int \<Rightarrow> desk \<Rightarrow> window_row res" where
  "open_answer calls i s = (if calls < 4 then Inl cut else window i (dk_db s))"

text \<open>The pieces in a row, when no other call comes between; \<open>launch\<close> answers why a process did not start.\<close>

definition open_window ::
  "nat \<Rightarrow> (string \<Rightarrow> string option) \<Rightarrow> instant \<Rightarrow> (nat \<times> nat) list \<Rightarrow> desk \<Rightarrow> (window_row res \<times> desk) option" where
  "open_window calls launch now draws s =
     (case open_draw calls draws s of
        None \<Rightarrow> None
      | Some (Inl e) \<Rightarrow> Some (Inl e, s)
      | Some (Inr name) \<Rightarrow>
          Some (case open_list calls now name s of
                  (Inl e, s1) \<Rightarrow> (Inl e, s1)
                | (Inr i, s1) \<Rightarrow>
                    (case open_model calls s1 of
                       Inl e \<Rightarrow> (Inl e, s1)
                     | Inr mdl \<Rightarrow>
                         (case open_launch calls (launch mdl) now i s1 of
                            (Inl e, s2) \<Rightarrow> (Inl e, s2)
                          | (Inr w, s2) \<Rightarrow> (let s3 = register i w s2 in (open_answer calls i s3, s3))))))"

text \<open>
  \<open>ended\<close>: the entry of the map goes first, under the lock, and then the row is ended; a window that never
  printed has no scrollback at all.
\<close>

definition forget_window :: "int \<Rightarrow> desk \<Rightarrow> desk" where
  "forget_window i s = s\<lparr>dk_windows := delete_where (\<lambda>r. fst r = i) (dk_windows s)\<rparr>"

definition record_end :: "instant \<Rightarrow> int \<Rightarrow> string \<Rightarrow> desk \<Rightarrow> desk" where
  "record_end now i scrollback s =
     s\<lparr>dk_db := end_window now i (if scrollback = '''' then None else Some scrollback) (dk_db s)\<rparr>"

definition ended :: "instant \<Rightarrow> int \<Rightarrow> string \<Rightarrow> desk \<Rightarrow> desk" where
  "ended now i scrollback s = record_end now i scrollback (forget_window i s)"

text \<open>The output of a process, its end, and the ends people ask for.\<close>

definition printed :: "int \<Rightarrow> string \<Rightarrow> desk \<Rightarrow> desk" where
  "printed i chunk s = s\<lparr>dk_windows := map (\<lambda>(j, w). (j, if j = i then pump_chunk chunk w else w)) (dk_windows s)\<rparr>"

definition process_gone :: "instant \<Rightarrow> int \<Rightarrow> desk \<Rightarrow> desk" where
  "process_gone now i s =
     (case live_win i s of None \<Rightarrow> s | Some w \<Rightarrow> ended now i (fst (pump_end w)) s)"

definition close_window :: "instant \<Rightarrow> int \<Rightarrow> desk \<Rightarrow> desk" where
  "close_window now i s = process_gone now i s"

definition delete_session :: "instant \<Rightarrow> int \<Rightarrow> desk \<Rightarrow> err option \<times> desk" where
  "delete_session now i s =
     (let s1 = close_window now i s
      in case delete_window i (dk_db s1) of
           Inl e \<Rightarrow> (Some e, s1)
         | Inr d \<Rightarrow> (None, s1\<lparr>dk_db := d\<rparr>))"

definition clear_history :: "desk \<Rightarrow> nat \<times> desk" where
  "clear_history s = (case clear_windows (dk_db s) of (n, d) \<Rightarrow> (n, s\<lparr>dk_db := d\<rparr>))"

definition stop_windows :: "instant \<Rightarrow> desk \<Rightarrow> desk" where
  "stop_windows now s = fold (close_window now) (map fst (dk_windows s)) s"

text \<open>A start of the hub: the windows of the run before are history, and each is told of.\<close>

definition start_desk :: "instant \<Rightarrow> desk \<Rightarrow> desk" where
  "start_desk now s =
     (case end_all_windows now (dk_db s) of (rows, d) \<Rightarrow>
        s\<lparr>dk_db := d, dk_windows := [],
          dk_notes := dk_notes s @ map (\<lambda>w. (''session.ended'', w_name w,
            ''session '' @ w_name w @ '' ended: hub restarted'')) rows\<rparr>)"

definition install_turn :: "bool \<Rightarrow> string option \<Rightarrow> string \<Rightarrow> desk \<Rightarrow> desk" where
  "install_turn present problem ver s =
     (if present \<or> problem = None then s\<lparr>dk_ready := True, dk_install_err := '''', dk_version := ver\<rparr>
      else s\<lparr>dk_install_err := (case problem of None \<Rightarrow> '''' | Some e \<Rightarrow> e)\<rparr>)"

definition reinstall :: "string option \<Rightarrow> string \<Rightarrow> desk \<Rightarrow> string option \<times> desk" where
  "reinstall problem ver s =
     (problem, case problem of Some e \<Rightarrow> s\<lparr>dk_install_err := e\<rparr>
                             | None \<Rightarrow> s\<lparr>dk_ready := True, dk_install_err := '''', dk_version := ver\<rparr>)"

definition vault_token :: "string + string \<Rightarrow> string res" where
  "vault_token contents = (case contents of
     Inl e \<Rightarrow> Inl (Err (''the vault has not started yet: '' @ e)) | Inr b \<Rightarrow> Inr (trim_space b))"

definition desk_status :: "desk \<Rightarrow> string \<times> bool \<times> string \<times> bool \<times> nat" where
  "desk_status s = (dk_version s, dk_ready s, dk_install_err s, dk_vault s, length (dk_windows s))"

section \<open>The models omp can run\<close>

record models_cache =
  mc_at :: instant
  mc_list :: "(string \<times> string list) list option"

definition model_groups :: "(string \<times> string) list \<Rightarrow> (string \<times> string list) list" where
  "model_groups ms =
     (let kept = filter (\<lambda>m. fst m \<noteq> '''' \<and> snd m \<noteq> '''') ms
      in map (\<lambda>p. (p, order_by str_less (map snd (filter (\<lambda>m. fst m = p) kept))))
           (order_by str_less (remdups (map fst kept))))"

definition models ::
  "bool \<Rightarrow> bool \<Rightarrow> string + (string \<times> string) list \<Rightarrow> instant \<Rightarrow> models_cache \<Rightarrow>
   (string \<times> string list) list res \<times> models_cache" where
  "models force ready listing now c =
     (case (force, mc_list c) of
        (False, Some ms) \<Rightarrow>
          if now - mc_at c < minute then (Inr ms, c)
          else if \<not> ready then (Inl (Err ''omp is not installed yet''), c)
          else (case listing of
                  Inl e \<Rightarrow> (Inl (Err (''omp models: '' @ e)), c)
                | Inr got \<Rightarrow> (Inr (model_groups got), \<lparr>mc_at = now, mc_list = Some (model_groups got)\<rparr>))
      | _ \<Rightarrow>
          if \<not> ready then (Inl (Err ''omp is not installed yet''), c)
          else (case listing of
                  Inl e \<Rightarrow> (Inl (Err (''omp models: '' @ e)), c)
                | Inr got \<Rightarrow> (Inr (model_groups got), \<lparr>mc_at = now, mc_list = Some (model_groups got)\<rparr>)))"

section \<open>Installing omp\<close>

definition omp_asset :: "string \<Rightarrow> string res" where
  "omp_asset arch =
     (if arch = ''amd64'' then Inr ''omp-linux-x64'' else if arch = ''arm64'' then Inr ''omp-linux-arm64''
      else Inl (Err (''no omp build for '' @ arch)))"

text \<open>The checksum of an asset in the release's list, the last line of it that names the asset.\<close>

definition sum_for :: "string \<Rightarrow> string \<Rightarrow> string" where
  "sum_for asset sums_txt =
     fold (\<lambda>line want. case GoStrings.fields line of
             [s, f] \<Rightarrow> if trim_prefix f ''*'' = asset then s else want
           | _ \<Rightarrow> want) (split_on newline sums_txt) ''''"

definition install_omp ::
  "(string \<Rightarrow> string) \<Rightarrow> string \<Rightarrow> string + string \<Rightarrow> (string \<Rightarrow> string + string) \<Rightarrow> string res" where
  "install_omp sha arch sums_txt fetch =
     (case omp_asset arch of
        Inl e \<Rightarrow> Inl e
      | Inr asset \<Rightarrow>
          (case sums_txt of
             Inl e \<Rightarrow> Inl (Err (''omp checksums: '' @ e))
           | Inr txt \<Rightarrow>
               let want = sum_for asset txt
               in if want = '''' then Inl (Err (''omp checksums: no entry for '' @ asset))
                  else (case fetch asset of
                          Inl e \<Rightarrow> Inl (Err (''omp '' @ asset @ '': '' @ e))
                        | Inr body \<Rightarrow>
                            if sha body \<noteq> want
                            then Inl (Err (''omp '' @ asset @ '': checksum '' @ sha body @ '', want '' @ want))
                            else Inr body)))"

section \<open>The person's rules\<close>

definition agent_context :: "string \<Rightarrow> string \<Rightarrow> string" where
  "agent_context standing raw =
     (let rules = map (\<lambda>l. ''- '' @ l) (filter (\<lambda>l. l \<noteq> '''') (map trim_space (split_on newline raw)))
      in if rules = [] then standing
         else standing @ [newline] @ ''## Rules the person has set'' @ [newline, newline] @
           ''These never override what the hub refuses (see above) '' @ utf8 8212 @ '' a rule'' @ [newline] @
           ''that would need a refused action is refused, not followed.'' @ [newline, newline] @
           join [newline] rules @ [newline])"

section \<open>The replies a window paid for\<close>

text \<open>
  A line of a session file as the JSON library reads it: its type, its time where that parses, and the
  role, provider, model and counters of the message.
\<close>

record reply_usage =
  ru_input :: int
  ru_output :: int
  ru_cread :: int
  ru_cwrite :: int
  ru_cost :: real

record session_line =
  se_type :: string
  se_at :: "int option"
  se_message :: "(string \<times> string \<times> string \<times> reply_usage option) option"

definition usage_mark :: string where
  "usage_mark = [CHR 0x22] @ ''usage'' @ [CHR 0x22]"

definition line_usage :: "(string \<Rightarrow> session_line option) \<Rightarrow> instant \<Rightarrow> string \<Rightarrow> hub_usage_row list" where
  "line_usage dec now line =
     (if \<not> contains_str line usage_mark then []
      else (case dec line of
              None \<Rightarrow> []
            | Some ev \<Rightarrow>
                (case se_message ev of
                   Some (role, provider, mdl, Some u) \<Rightarrow>
                     if se_type ev \<noteq> ''message'' \<or> role \<noteq> ''assistant'' then []
                     else [\<lparr>hu_at = (case se_at ev of Some t \<Rightarrow> t | None \<Rightarrow> sql_stamp now),
                            hu_model = (if provider \<noteq> '''' then provider @ ''/'' @ mdl else mdl),
                            hu_input = ru_input u, hu_output = ru_output u, hu_cread = ru_cread u,
                            hu_cwrite = ru_cwrite u, hu_cost = ru_cost u\<rparr>]
                 | _ \<Rightarrow> [])))"

definition session_usage :: "(string \<Rightarrow> session_line option) \<Rightarrow> instant \<Rightarrow> string \<Rightarrow> hub_usage_row list" where
  "session_usage dec now b = concat (map (line_usage dec now) (split_on newline b))"

text \<open>The position of the last newline, as \<open>bytes.LastIndexByte\<close> has it.\<close>

definition last_newline :: "string \<Rightarrow> nat option" where
  "last_newline b = (if newline \<in> set b then Some (length b - length (after_last newline b) - 1) else None)"

definition scan_session :: "(string \<Rightarrow> session_line option) \<Rightarrow> instant \<Rightarrow> string \<Rightarrow> string \<Rightarrow> db \<Rightarrow> db" where
  "scan_session dec now path contents d =
     (let kept = hub_usage_offset path d;
          size = int (length contents);
          off = (if size < kept then 0 else kept)
      in if size = off then d
         else let b = drop (nat off) contents
              in case last_newline b of
                   None \<Rightarrow> d
                 | Some e \<Rightarrow> record_hub_usage path (off + int e + 1) (session_usage dec now (take e b)) d)"

text \<open>Every session file below the directory, in the order the walk meets them.\<close>

definition scan_usage :: "(string \<Rightarrow> session_line option) \<Rightarrow> instant \<Rightarrow> (string \<times> string) list \<Rightarrow> db \<Rightarrow> db" where
  "scan_usage dec now files d =
     fold (\<lambda>(path, contents) d. if has_suffix path ''.jsonl'' then scan_session dec now path contents d else d) files d"

end
