(* ===== verification/AgentWindowLaws.thy ===== *)
theory AgentWindowLaws
  imports AgentWindow
begin

text \<open>
  What holds of the hub's own agent: a socket attached to a window sees every byte after what it was
  replayed, the replies of a session file are counted once however the file grows between the scans, and a
  window listed as open has a process or something under way that explains it. The pieces of opening and
  ending a window are steps of their own, as no lock is held over them; what two of them at once do to the
  names, and a request that is cut, stand beside it.
\<close>

section \<open>The stream of a window\<close>

datatype win_event = Printed string | Attached | Detached nat | Taken nat | Exited

fun win_step :: "win_event \<Rightarrow> win \<Rightarrow> win" where
  "win_step (Printed chunk) w = pump_chunk chunk w"
| "win_step Attached w = snd (snd (attach w))"
| "win_step (Detached i) w = detach i w"
| "win_step (Taken i) w = take_chunk i w"
| "win_step Exited w = snd (pump_end w)"

definition win_run :: "win_event list \<Rightarrow> win \<Rightarrow> win" where
  "win_run evs w = fold win_step evs w"

definition printed_by :: "win_event list \<Rightarrow> string" where
  "printed_by evs = concat (map (\<lambda>e. case e of Printed c \<Rightarrow> c | _ \<Rightarrow> '''') evs)"

text \<open>All that went into a channel: what its reader took and what waits in it.\<close>

definition delivered :: "nat \<Rightarrow> win \<Rightarrow> string" where
  "delivered i w = concat (ch_read (wn_chans w ! i)) @ concat (ch_queue (wn_chans w ! i))"

lemma last_bytes_append: "last_bytes n (last_bytes n a @ b) = last_bytes n (a @ b)"
proof (cases "length a \<le> n")
  case False
  then have "length a + length b - (length a - n + n) + (length a - n) = length a + length b - n" by simp
  then show ?thesis by (simp add: last_bytes_def)
qed (simp add: last_bytes_def)

lemma pump_recent: "wn_recent (pump_chunk c w) = last_bytes replay_bytes (wn_recent w @ c)"
  by (simp add: pump_chunk_def Let_def last_bytes_def)

lemma step_recent: "e \<noteq> Exited \<Longrightarrow> wn_recent w = last_bytes replay_bytes s \<Longrightarrow>
    wn_recent (win_step e w) = last_bytes replay_bytes (s @ (case e of Printed c \<Rightarrow> c | _ \<Rightarrow> ''''))"
  by (cases e) (simp_all add: pump_recent last_bytes_append attach_def detach_def take_chunk_def on_chan_def)

lemma run_recent:
  "Exited \<notin> set evs \<Longrightarrow> wn_recent w = last_bytes replay_bytes s \<Longrightarrow>
   wn_recent (win_run evs w) = last_bytes replay_bytes (s @ printed_by evs)"
proof (induction evs arbitrary: w s)
  case (Cons e evs)
  have "wn_recent (win_step e w) = last_bytes replay_bytes (s @ (case e of Printed c \<Rightarrow> c | _ \<Rightarrow> ''''))"
    using Cons.prems by (intro step_recent) auto
  from Cons.IH [OF _ this] Cons.prems(1) show ?case by (simp add: win_run_def printed_by_def)
qed (simp add: win_run_def printed_by_def)

lemma step_chans: "length (wn_chans w) \<le> length (wn_chans (win_step e w))"
  by (cases e) (simp_all add: pump_chunk_def Let_def attach_def detach_def take_chunk_def on_chan_def pump_end_def)

text \<open>One event, as a channel sees it.\<close>

lemma step_delivered:
  assumes "i < length (wn_chans w)"
  obtains (got) "delivered i (win_step e w) = delivered i w @ printed_by [e]"
      "ch_open (wn_chans (win_step e w) ! i) \<longrightarrow> ch_open (wn_chans w ! i)"
    | (shut) "delivered i (win_step e w) = delivered i w" "\<not> ch_open (wn_chans (win_step e w) ! i)"
proof (cases e)
  case (Printed c)
  have d: "wn_chans (win_step e w) ! i = offer c (wn_chans w ! i)" using assms Printed by (simp add: pump_chunk_def Let_def)
  have p: "printed_by [e] = c" by (simp add: Printed printed_by_def)
  show ?thesis
  proof (cases "ch_open (wn_chans w ! i) \<and> length (ch_queue (wn_chans w ! i)) < chan_room")
    case True
    then show ?thesis using got by (simp add: delivered_def d offer_def p)
  next
    case False
    then show ?thesis using shut by (auto simp: delivered_def d offer_def)
  qed
next
  case (Taken j)
  have "delivered i (take_chunk j w) = delivered i w \<and>
      ch_open (wn_chans (take_chunk j w) ! i) = ch_open (wn_chans w ! i)"
    using assms by (cases "i = j") (auto simp: take_chunk_def on_chan_def delivered_def split: list.split)
  with Taken got show ?thesis by (simp add: printed_by_def)
next
  case (Detached j)
  have "delivered i (detach j w) = delivered i w \<and>
      (ch_open (wn_chans (detach j w) ! i) \<longrightarrow> ch_open (wn_chans w ! i))"
    using assms by (cases "i = j") (auto simp: detach_def on_chan_def delivered_def)
  with Detached got show ?thesis by (simp add: printed_by_def)
next
  case Attached
  with got assms show ?thesis by (simp add: attach_def delivered_def nth_append printed_by_def)
next
  case Exited
  with shut assms show ?thesis by (simp add: pump_end_def delivered_def)
qed

lemma closed_stays:
  assumes "i < length (wn_chans w)" "\<not> ch_open (wn_chans w ! i)"
  shows "delivered i (win_step e w) = delivered i w \<and> \<not> ch_open (wn_chans (win_step e w) ! i)"
  using assms
  by (cases e) (auto simp: pump_chunk_def Let_def offer_def delivered_def attach_def nth_append detach_def
      take_chunk_def on_chan_def pump_end_def nth_list_update split: list.split)

lemma closed_for_good:
  assumes "i < length (wn_chans w)" "\<not> ch_open (wn_chans w ! i)"
  shows "delivered i (win_run evs w) = delivered i w \<and> \<not> ch_open (wn_chans (win_run evs w) ! i)"
  using assms
proof (induction evs arbitrary: w)
  case (Cons e evs)
  have "i < length (wn_chans (win_step e w))" using Cons.prems(1) step_chans by (rule less_le_trans)
  with Cons.IH closed_stays [OF Cons.prems] show ?case by (simp add: win_run_def)
qed (simp add: win_run_def)

lemma run_delivered:
  assumes "i < length (wn_chans w)"
  shows "\<exists>got missed. printed_by evs = got @ missed \<and> delivered i (win_run evs w) = delivered i w @ got \<and>
     (ch_open (wn_chans (win_run evs w) ! i) \<longrightarrow> missed = '''')"
  using assms
proof (induction evs arbitrary: w)
  case (Cons e evs)
  have i: "i < length (wn_chans (win_step e w))" using Cons.prems(1) step_chans by (rule less_le_trans)
  have p: "printed_by (e # evs) = printed_by [e] @ printed_by evs" by (simp add: printed_by_def)
  have r: "win_run (e # evs) w = win_run evs (win_step e w)" by (simp add: win_run_def)
  from Cons.prems show ?case
  proof (cases rule: step_delivered [where e = e])
    case got
    with Cons.IH [OF i] show ?thesis unfolding p r by (metis append.assoc)
  next
    case shut
    with closed_for_good [OF i shut(2)] show ?thesis unfolding r by (metis append_Nil append_Nil2)
  qed
qed (simp add: win_run_def printed_by_def)

text \<open>
  C20: A socket that attaches to a running window is replayed the last 64 KiB of everything the window
  printed, and whatever happens afterwards, to it or to other sockets, what it is sent is the output
  from then on in order, without a gap or a repetition: all of it while its channel is open, an
  uninterrupted beginning of it when the channel has been closed.
\<close>

theorem reader_sees_the_stream:
  assumes "Exited \<notin> set before" and "attach (win_run before new_win) = (replay, i, w)"
  shows "replay = last_bytes replay_bytes (printed_by before) \<and>
    (\<exists>missed. printed_by later = delivered i (win_run later w) @ missed \<and>
       (ch_open (wn_chans (win_run later w) ! i) \<longrightarrow> missed = ''''))"
proof -
  have "wn_recent (win_run before new_win) = last_bytes replay_bytes ('''' @ printed_by before)"
    by (rule run_recent) (use assms(1) in \<open>simp_all add: new_win_def last_bytes_def\<close>)
  with assms(2) have replay: "replay = last_bytes replay_bytes (printed_by before)"
    and i: "i < length (wn_chans w)" and empty: "delivered i w = ''''"
    by (auto simp: attach_def delivered_def)
  from run_delivered [OF i, of later] empty have
    "\<exists>missed. printed_by later = delivered i (win_run later w) @ missed \<and>
       (ch_open (wn_chans (win_run later w) ! i) \<longrightarrow> missed = '''')" by auto
  with replay show ?thesis by blast
qed

theorem reader_sees_the_stream_witness:
  "let w = snd (snd (attach (win_run [Printed ''boot''] new_win)));
       w' = win_run [Printed ''a'', Taken 0, Printed ''b''] w
   in delivered 0 w' = ''ab'' \<and> last_bytes replay_bytes ''boot'' = ''boot''"
proof -
  have boot: "last_bytes replay_bytes ''boot'' = ''boot''" by (simp add: last_bytes_def replay_bytes_def)
  let ?w = "snd (snd (attach (win_run [Printed ''boot''] new_win)))"
  have a: "attach (win_run [Printed ''boot''] new_win) = (''boot'', 0, ?w)"
    by (simp add: attach_def win_run_def pump_chunk_def new_win_def replay_bytes_def)
  have "ch_open (wn_chans (win_run [Printed ''a'', Taken 0, Printed ''b''] ?w) ! 0)"
    by (simp add: attach_def win_run_def pump_chunk_def new_win_def replay_bytes_def take_chunk_def on_chan_def
        offer_def chan_room_def)
  with reader_sees_the_stream [OF _ a, of "[Printed ''a'', Taken 0, Printed ''b'']"]
  have "delivered 0 (win_run [Printed ''a'', Taken 0, Printed ''b''] ?w) = ''ab''"
    by (auto simp: printed_by_def)
  with boot show ?thesis by (simp add: Let_def)
qed

section \<open>The replies of a session file\<close>

definition whole_lines :: "string \<Rightarrow> string" where
  "whole_lines b = take (length b - length (after_last newline b)) b"

lemma whole_and_rest: "b = whole_lines b @ after_last newline b"
proof -
  have "rev b = takeWhile (\<lambda>c. c \<noteq> newline) (rev b) @ dropWhile (\<lambda>c. c \<noteq> newline) (rev b)" by simp
  then have b: "b = rev (dropWhile (\<lambda>c. c \<noteq> newline) (rev b)) @ after_last newline b"
    unfolding after_last_def by (metis rev_append rev_rev_ident)
  then have "whole_lines b = rev (dropWhile (\<lambda>c. c \<noteq> newline) (rev b))"
    unfolding whole_lines_def by (metis add_diff_cancel_right' append_eq_conv_conj length_append)
  with b show ?thesis by simp
qed

lemma whole_lines_shape: "whole_lines b = '''' \<or> (\<exists>a. whole_lines b = a @ [newline])"
proof -
  have "length b - length (takeWhile (\<lambda>c. c \<noteq> newline) (rev b)) = length (dropWhile (\<lambda>c. c \<noteq> newline) (rev b))"
    by (metis add_diff_cancel_left' length_append length_rev takeWhile_dropWhile_id)
  moreover have "b = rev (dropWhile (\<lambda>c. c \<noteq> newline) (rev b)) @ rev (takeWhile (\<lambda>c. c \<noteq> newline) (rev b))"
    by (metis rev_append rev_rev_ident takeWhile_dropWhile_id)
  ultimately have w: "whole_lines b = rev (dropWhile (\<lambda>c. c \<noteq> newline) (rev b))"
    unfolding whole_lines_def after_last_def by (metis append_eq_conv_conj length_rev)
  show ?thesis
  proof (cases "dropWhile (\<lambda>c. c \<noteq> newline) (rev b)")
    case (Cons x xs)
    then have "x = newline" using hd_dropWhile [of "\<lambda>c. c \<noteq> newline" "rev b"] by simp
    with w Cons show ?thesis by simp
  qed (use w in simp)
qed

lemma after_last_past: "after_last d (a @ d # x) = after_last d x"
proof (cases "d \<in> set x")
  case True
  then show ?thesis by (simp add: after_last_def takeWhile_append1)
next
  case False
  then have "takeWhile (\<lambda>c. c \<noteq> d) (rev x) = rev x" by (auto simp: takeWhile_eq_all_conv)
  moreover from False have "takeWhile (\<lambda>c. c \<noteq> d) (rev x @ d # rev a) = rev x" by (subst takeWhile_append2) auto
  ultimately show ?thesis
    unfolding after_last_def by (simp only: rev_append rev.simps append.simps append_assoc)
qed

lemma after_last_whole: "after_last newline (whole_lines b @ x) = after_last newline x"
  using whole_lines_shape [of b] by (auto simp: after_last_past)

lemma whole_lines_append: "whole_lines (whole_lines b @ x) = whole_lines b @ whole_lines x"
proof -
  have "whole_lines b @ x = whole_lines (whole_lines b @ x) @ after_last newline x"
    using whole_and_rest [of "whole_lines b @ x"] by (simp only: after_last_whole)
  moreover have "whole_lines b @ x = (whole_lines b @ whole_lines x) @ after_last newline x"
    using whole_and_rest [of x] by simp
  ultimately show ?thesis by (metis append_same_eq)
qed

lemma last_newline_some: "last_newline b = Some e \<Longrightarrow> whole_lines b = take e b @ [newline] \<and> length (whole_lines b) = Suc e"
proof -
  assume "last_newline b = Some e"
  then have nl: "newline \<in> set b" and e: "e = length b - length (after_last newline b) - 1"
    by (auto simp: last_newline_def split: if_split_asm)
  have "newline \<notin> set (after_last newline b)" by (auto simp: after_last_def dest: set_takeWhileD)
  with nl have "whole_lines b \<noteq> ''''" using whole_and_rest [of b] by (metis append_Nil)
  then obtain a where a: "whole_lines b = a @ [newline]" using whole_lines_shape by blast
  have "length (whole_lines b) = length b - length (after_last newline b)" by (simp add: whole_lines_def)
  moreover have "0 < length (whole_lines b)" using a by simp
  ultimately have "length (whole_lines b) = Suc e" using e by simp
  moreover from this have "a = take e b" using a whole_and_rest [of b]
    by (metis append_assoc append_eq_conv_conj diff_Suc_1 length_append_singleton)
  ultimately show ?thesis using a by simp
qed

lemma last_newline_none: "last_newline b = None \<Longrightarrow> whole_lines b = ''''"
  using whole_and_rest [of b] whole_lines_shape [of b]
  by (auto simp: last_newline_def split: if_split_asm) (metis in_set_conv_decomp)

lemma split_on_at: "split_on d (a @ d # b) = split_on d a @ split_on d b"
  by (induction a) (auto split: list.split)

lemma empty_line_usage [simp]: "line_usage dec now '''' = []"
  by (simp add: line_usage_def usage_mark_def has_prefix_def)

lemma session_usage_lines: "session_usage dec now (a @ [newline]) = session_usage dec now a"
  by (simp add: session_usage_def split_on_at)

lemma session_usage_append:
  "session_usage dec now (whole_lines b @ x) = session_usage dec now (whole_lines b) @ session_usage dec now x"
  using whole_lines_shape [of b] by (auto simp: session_usage_def split_on_at)

text \<open>What a reply cost, apart from the time noted for it when the file gives none.\<close>

definition priced :: "hub_usage_row list \<Rightarrow> hub_usage_row list" where
  "priced rows = map (\<lambda>r. r\<lparr>hu_at := 0\<rparr>) rows"

lemma line_usage_time: "priced (line_usage dec now l) = priced (line_usage dec now' l)"
  by (auto simp: line_usage_def priced_def split: option.splits prod.splits)

lemma session_usage_time: "priced (session_usage dec now b) = priced (session_usage dec now' b)"
proof -
  have "priced (concat xs) = concat (map priced xs)" for xs by (simp add: priced_def [abs_def] map_concat)
  then show ?thesis by (simp add: session_usage_def comp_def line_usage_time [of dec now _ now'])
qed

definition counted :: "(string \<Rightarrow> session_line option) \<Rightarrow> string \<Rightarrow> hub_usage_row list" where
  "counted dec b = priced (session_usage dec 0 (whole_lines b))"

lemma scan_session_step:
  assumes o: "hub_usage_offset path d = int (length (whole_lines b0))" and b: "b = whole_lines b0 @ x"
  shows "hub_usage_offset path (scan_session dec now path b d) = int (length (whole_lines b)) \<and>
    priced (tb_hub_usage (scan_session dec now path b d)) =
      priced (tb_hub_usage d) @ priced (session_usage dec 0 (whole_lines x)) \<and>
    whole_lines b = whole_lines b0 @ whole_lines x"
proof -
  have w: "whole_lines b = whole_lines b0 @ whole_lines x" unfolding b by (rule whole_lines_append)
  have x: "drop (length (whole_lines b0)) b = x" using b by simp
  have s: "scan_session dec now path b d =
      (if x = '''' then d else case last_newline x of None \<Rightarrow> d
         | Some e \<Rightarrow> record_hub_usage path (int (length (whole_lines b0)) + int e + 1) (session_usage dec now (take e x)) d)"
  proof -
    have "\<not> int (length b) < int (length (whole_lines b0))" "int (length b) = int (length (whole_lines b0)) \<longleftrightarrow> x = ''''"
      using b by auto
    then show ?thesis by (simp only: scan_session_def Let_def o if_False nat_int x)
  qed
  show ?thesis
  proof (cases "last_newline x")
    case None
    then have "whole_lines x = ''''" by (rule last_newline_none)
    with None w o s show ?thesis by (auto simp: priced_def session_usage_def split: if_split_asm)
  next
    case (Some e)
    note e = last_newline_some [OF Some]
    from Some have "x \<noteq> ''''" by (auto simp: last_newline_def split: if_split_asm)
    with s Some have r: "scan_session dec now path b d =
      record_hub_usage path (int (length (whole_lines b0)) + int e + 1) (session_usage dec now (take e x)) d" by simp
    have "session_usage dec now (take e x) = session_usage dec now (whole_lines x)"
      using e by (simp add: session_usage_lines)
    then have "priced (session_usage dec now (take e x)) = priced (session_usage dec 0 (whole_lines x))"
      using session_usage_time by metis
    moreover have "hub_usage_offset path (scan_session dec now path b d) = int (length (whole_lines b))"
    proof -
      have "map_of (delete_where (\<lambda>x. fst x = path) (tb_usage_files d)) path = None"
        by (auto simp: map_of_eq_None_iff)
      moreover have "int (length (whole_lines b)) = int (length (whole_lines b0)) + int e + 1"
        unfolding w using conjunct2 [OF e] by simp
      ultimately show ?thesis
        by (simp only: r hub_usage_offset_def record_hub_usage_def replace_row_def) (simp add: map_add_def)
    qed
    ultimately show ?thesis using w unfolding r by (simp add: record_hub_usage_def priced_def)
  qed
qed

text \<open>A file that grows piece by piece, scanned after each piece.\<close>

fun scan_growing ::
  "(string \<Rightarrow> session_line option) \<Rightarrow> string \<Rightarrow> string \<Rightarrow> (instant \<times> string) list \<Rightarrow> db \<Rightarrow> db" where
  "scan_growing dec path b [] d = d"
| "scan_growing dec path b ((now, x) # rest) d =
     scan_growing dec path (b @ x) rest (scan_session dec now path (b @ x) d)"

lemma scan_growing_counted:
  assumes "hub_usage_offset path d = int (length (whole_lines b))"
    and "priced (tb_hub_usage d) = known @ counted dec b"
  shows "priced (tb_hub_usage (scan_growing dec path b ps d)) = known @ counted dec (b @ concat (map snd ps))"
  using assms
proof (induction ps arbitrary: b d)
  case (Cons p ps)
  obtain now x where p: "p = (now, x)" by (cases p)
  let ?x = "after_last newline b @ x" and ?d = "scan_session dec now path (b @ x) d"
  have b: "b @ x = whole_lines b @ ?x" using whole_and_rest [of b] by simp
  note s = scan_session_step [OF Cons.prems(1) b, of dec now]
  have "counted dec (b @ x) = counted dec b @ priced (session_usage dec 0 (whole_lines ?x))"
    using s by (simp only: counted_def session_usage_append priced_def map_append)
  with s Cons.prems(2) have "priced (tb_hub_usage ?d) = known @ counted dec (b @ x)" by simp
  from Cons.IH [OF _ this] s show ?case by (simp add: p)
qed simp

text \<open>
  C11: The replies of the hub's own agent are counted once: however a session file grows, and wherever the
  scans cut it, in the middle of a line too, the usage recorded after the last scan is that of the whole
  lines of the file as it then is, each once and in order.
\<close>

theorem growing_session_counted_once:
  assumes "hub_usage_offset path d = 0"
  shows "priced (tb_hub_usage (scan_growing dec path '''' pieces d)) =
     priced (tb_hub_usage d) @ priced (session_usage dec 0 (whole_lines (concat (map snd pieces))))"
proof -
  have "whole_lines '''' = ''''" by (simp add: whole_lines_def)
  then show ?thesis
    using scan_growing_counted [of path d "''''" "priced (tb_hub_usage d)" dec pieces] assms
    by (simp add: counted_def session_usage_def priced_def)
qed

definition sample_reply :: "string \<Rightarrow> session_line option" where
  "sample_reply line = Some \<lparr>se_type = ''message'', se_at = Some 7, se_message = Some (''assistant'', '''', ''m'',
     Some \<lparr>ru_input = int (length line), ru_output = 2, ru_cread = 0, ru_cwrite = 0, ru_cost = 0\<rparr>)\<rparr>"

theorem growing_session_counted_once_witness:
  "map hu_input (priced (tb_hub_usage (scan_growing sample_reply ''s.jsonl'' ''''
      [(1, usage_mark @ ''x'' @ [newline] @ ''half''), (2, '' '' @ usage_mark @ [newline])] empty_db))) = [8, 12]"
proof -
  have "hub_usage_offset ''s.jsonl'' empty_db = 0" by (simp add: hub_usage_offset_def empty_db_def)
  note t = growing_session_counted_once [OF this, of sample_reply]
  have "map hu_input (priced (session_usage sample_reply 0
      (whole_lines (usage_mark @ ''x'' @ [newline] @ ''half'' @ '' '' @ usage_mark @ [newline])))) = [8, 12]"
    by (simp add: whole_lines_def after_last_def session_usage_def priced_def line_usage_def sample_reply_def
        usage_mark_def has_prefix_def newline_def)
  then show ?thesis unfolding t by (simp add: priced_def empty_db_def)
qed

section \<open>The windows people have open\<close>

text \<open>
  The agent with what is under way in it: the calls of \<open>Open\<close>, each between two of its pieces; the ends of
  processes whose entry is gone and whose row is not yet ended; and the rows that an \<open>Open\<close> left behind when
  the setting could not be read.
\<close>

datatype underway = Named string | Listed int | Chosen int | Running int win

fun underway_id :: "underway \<Rightarrow> int option" where
  "underway_id (Named n) = None"
| "underway_id (Listed i) = Some i"
| "underway_id (Chosen i) = Some i"
| "underway_id (Running i w) = Some i"

record floor =
  fl_desk :: desk
  fl_opens :: "underway list"
  fl_ends :: "(int \<times> string) list"
  fl_left :: "int set"

text \<open>
  Every piece of every call as a step of its own, in any order. A process may print and end before its window is
  in the map, and end at any time after; the write of its end has five seconds and may fail. With \<open>calm\<close> no \<open>Open\<close> reads the list of the sessions while another has
  drawn its name and not yet made its row; nothing else is kept apart.
\<close>

inductive floor_step :: "bool \<Rightarrow> floor \<Rightarrow> floor \<Rightarrow> bool" for calm where
  draws: "open_draw calls rs (fl_desk f) = Some (Inr name) \<Longrightarrow> calm \<longrightarrow> (\<forall>n. Named n \<notin> set (fl_opens f)) \<Longrightarrow>
    floor_step calm f (f\<lparr>fl_opens := Named name # fl_opens f\<rparr>)"
| lists: "fl_opens f = xs @ Named name # ys \<Longrightarrow> open_list calls now name (fl_desk f) = (Inr i, s) \<Longrightarrow>
    floor_step calm f (f\<lparr>fl_desk := s, fl_opens := xs @ Listed i # ys\<rparr>)"
| unlisted: "fl_opens f = xs @ Named name # ys \<Longrightarrow> open_list calls now name (fl_desk f) = (Inl e, s) \<Longrightarrow>
    floor_step calm f (f\<lparr>fl_desk := s, fl_opens := xs @ ys\<rparr>)"
| chooses: "fl_opens f = xs @ Listed i # ys \<Longrightarrow> open_model calls (fl_desk f) = Inr mdl \<Longrightarrow>
    floor_step calm f (f\<lparr>fl_opens := xs @ Chosen i # ys\<rparr>)"
| leaves: "fl_opens f = xs @ Listed i # ys \<Longrightarrow> open_model calls (fl_desk f) = Inl e \<Longrightarrow>
    floor_step calm f (f\<lparr>fl_opens := xs @ ys, fl_left := insert i (fl_left f)\<rparr>)"
| launches: "fl_opens f = xs @ Chosen i # ys \<Longrightarrow> open_launch calls problem now i (fl_desk f) = (Inr w, s) \<Longrightarrow>
    floor_step calm f (f\<lparr>fl_desk := s, fl_opens := xs @ Running i w # ys\<rparr>)"
| fails: "fl_opens f = xs @ Chosen i # ys \<Longrightarrow> open_launch calls problem now i (fl_desk f) = (Inl e, s) \<Longrightarrow>
    floor_step calm f (f\<lparr>fl_desk := s, fl_opens := xs @ ys,
      fl_left := if calls < 4 then insert i (fl_left f) else fl_left f\<rparr>)"
| registers: "fl_opens f = xs @ Running i w # ys \<Longrightarrow>
    floor_step calm f (f\<lparr>fl_desk := register i w (fl_desk f), fl_opens := xs @ ys\<rparr>)"
| prints_early: "fl_opens f = xs @ Running i w # ys \<Longrightarrow>
    floor_step calm f (f\<lparr>fl_opens := xs @ Running i (pump_chunk chunk w) # ys\<rparr>)"
| ends_early: "fl_opens f = xs @ Running i w # ys \<Longrightarrow> pump_end w = (out, w') \<Longrightarrow>
    floor_step calm f (f\<lparr>fl_desk := forget_window i (fl_desk f), fl_opens := xs @ Running i w' # ys,
      fl_ends := (i, out) # fl_ends f\<rparr>)"
| prints: "floor_step calm f (f\<lparr>fl_desk := printed i chunk (fl_desk f)\<rparr>)"
| ends: "floor_step calm f (f\<lparr>fl_desk := forget_window i (fl_desk f), fl_ends := (i, out) # fl_ends f\<rparr>)"
| records: "fl_ends f = xs @ (i, out) # ys \<Longrightarrow>
    floor_step calm f (f\<lparr>fl_desk := record_end now i out (fl_desk f), fl_ends := xs @ ys\<rparr>)"
| unrecorded: "fl_ends f = xs @ (i, out) # ys \<Longrightarrow>
    floor_step calm f (f\<lparr>fl_ends := xs @ ys, fl_left := insert i (fl_left f)\<rparr>)"
| touches: "floor_step calm f (f\<lparr>fl_desk := (fl_desk f)\<lparr>dk_db := touch_window now i (dk_db (fl_desk f))\<rparr>\<rparr>)"
| deletes: "delete_window i (dk_db (fl_desk f)) = Inr d \<Longrightarrow> floor_step calm f (f\<lparr>fl_desk := (fl_desk f)\<lparr>dk_db := d\<rparr>\<rparr>)"
| clears: "floor_step calm f (f\<lparr>fl_desk := snd (clear_history (fl_desk f))\<rparr>)"
| restarts: "floor_step calm f \<lparr>fl_desk = start_desk now (fl_desk f), fl_opens = [], fl_ends = [], fl_left = {}\<rparr>"
| elsewhere: "dk_windows s = dk_windows (fl_desk f) \<Longrightarrow> tb_windows (dk_db s) = tb_windows (dk_db (fl_desk f)) \<Longrightarrow>
    floor_step calm f (f\<lparr>fl_desk := s\<rparr>)"

inductive floor_reached :: "bool \<Rightarrow> floor \<Rightarrow> bool" for calm where
  quiet: "dk_windows s = [] \<Longrightarrow> tb_windows (dk_db s) = [] \<Longrightarrow>
    floor_reached calm \<lparr>fl_desk = s, fl_opens = [], fl_ends = [], fl_left = {}\<rparr>"
| further: "floor_reached calm f \<Longrightarrow> floor_step calm f f' \<Longrightarrow> floor_reached calm f'"

definition live_rows :: "db \<Rightarrow> window_row list" where
  "live_rows d = filter (\<lambda>w. w_ended w = None) (tb_windows d)"

lemma live_windows_rows: "mset (live_windows d) = mset (live_rows d)"
  by (simp only: live_windows_def live_rows_def mset_filter windows_def order_by_def mset_insertion_sort)

lemma live_set: "set (live_windows d) = set (live_rows d)"
  by (rule mset_eq_setD [OF live_windows_rows])

lemma draw_free_new: "draw_free taken rs = Some name \<Longrightarrow> name \<notin> set taken"
  by (induction rs) (auto split: if_split_asm)

lemma drawn_new:
  "open_draw calls rs s = Some (Inr name) \<Longrightarrow> name \<notin> w_name ` set (live_rows (dk_db s))"
  using draw_free_new [of "map w_name (live_windows (dk_db s))" rs name]
  by (auto simp: open_draw_def live_set split: if_split_asm)

lemma live_update_ended:
  "filter (\<lambda>w. w_ended w = None) (update_where (\<lambda>w. p w \<and> w_ended w = None) (\<lambda>w. w\<lparr>w_ended := Some t, w_scroll := x\<rparr>) rows) =
   filter (\<lambda>w. w_ended w = None \<and> \<not> p w) rows"
  by (induction rows) (auto simp: update_where_def)

lemma live_end_window: "live_rows (end_window now i x d) = filter (\<lambda>w. w_id w \<noteq> i) (live_rows d)"
proof -
  have "live_rows (end_window now i x d) = filter (\<lambda>w. w_ended w = None \<and> w_id w \<noteq> i) (tb_windows d)"
    by (simp add: live_rows_def end_window_def live_update_ended)
  also have "\<dots> = filter (\<lambda>w. w_id w \<noteq> i) (live_rows d)"
    by (simp add: live_rows_def conj_commute)
  finally show ?thesis .
qed

lemma live_created:
  assumes "open_list calls now name s = (Inr i, s')"
  shows "\<exists>row. live_rows (dk_db s') = live_rows (dk_db s) @ [row] \<and> w_id row = i \<and> w_name row = name \<and>
    dk_windows s' = dk_windows s"
  using assms by (auto simp: open_list_def create_window_def live_rows_def Let_def split: if_split_asm)

lemma live_dropped: "live_rows (drop_windows p d) = filter (\<lambda>w. \<not> p w) (live_rows d)"
  by (simp add: drop_windows_def live_rows_def Let_def delete_where_def conj_commute)

lemma live_touched:
  "map w_name (live_rows (touch_window now i d)) = map w_name (live_rows d)"
  "w_id ` set (live_rows (touch_window now i d)) = w_id ` set (live_rows d)"
proof -
  have rows: "filter (\<lambda>w. w_ended w = None) (update_where p (\<lambda>w. w\<lparr>w_last := t\<rparr>) rows) =
      update_where p (\<lambda>w. w\<lparr>w_last := t\<rparr>) (filter (\<lambda>w. w_ended w = None) rows)"
    if "\<And>w. p (w\<lparr>w_last := t\<rparr>) = p w" for p t and rows :: "window_row list"
    by (induction rows) (auto simp: update_where_def)
  have live: "live_rows (touch_window now i d) =
      update_where (\<lambda>w. w_id w = i) (\<lambda>w. w\<lparr>w_last := sql_stamp now\<rparr>) (live_rows d)"
    by (simp add: live_rows_def touch_window_def rows)
  show "map w_name (live_rows (touch_window now i d)) = map w_name (live_rows d)"
    unfolding live by (simp add: map_update_where)
  have "map w_id (live_rows (touch_window now i d)) = map w_id (live_rows d)"
    unfolding live by (simp add: map_update_where)
  then show "w_id ` set (live_rows (touch_window now i d)) = w_id ` set (live_rows d)"
    by (metis list.set_map)
qed

section \<open>The names of live sessions\<close>

text \<open>Names that are taken are taken once: those of the live sessions and the one name drawn and not yet listed.\<close>

definition drawn :: "underway list \<Rightarrow> string list" where
  "drawn os = List.map_filter (\<lambda>u. case u of Named n \<Rightarrow> Some n | _ \<Rightarrow> None) os"

definition names_ok :: "floor \<Rightarrow> bool" where
  "names_ok f \<longleftrightarrow> distinct (map w_name (live_rows (dk_db (fl_desk f)))) \<and> length (drawn (fl_opens f)) \<le> 1 \<and>
     (\<forall>n \<in> set (drawn (fl_opens f)). n \<notin> w_name ` set (live_rows (dk_db (fl_desk f))))"

lemma drawn_simps [simp]:
  "drawn [] = []" "drawn (Named n # os) = n # drawn os" "drawn (Listed i # os) = drawn os"
  "drawn (Chosen i # os) = drawn os" "drawn (Running i w # os) = drawn os" "drawn (xs @ ys) = drawn xs @ drawn ys"
  by (simp_all add: drawn_def map_filter_simps List.map_filter_def)

lemma drawn_named: "n \<in> set (drawn os) \<longleftrightarrow> Named n \<in> set os"
proof (induction os)
  case (Cons u os)
  then show ?case by (cases u) auto
qed simp

lemma names_fewer:
  assumes "names_ok f" "live_rows (dk_db (fl_desk f')) = filter p (live_rows (dk_db (fl_desk f)))"
    "drawn (fl_opens f') = drawn (fl_opens f) \<or> drawn (fl_opens f') = []"
  shows "names_ok f'"
  using assms by (auto simp: names_ok_def distinct_map_filter)

lemma names_same:
  assumes "names_ok f" "map w_name (live_rows (dk_db (fl_desk f'))) = map w_name (live_rows (dk_db (fl_desk f)))"
    "drawn (fl_opens f') = drawn (fl_opens f)"
  shows "names_ok f'"
proof -
  have "w_name ` set (live_rows (dk_db (fl_desk f'))) = w_name ` set (live_rows (dk_db (fl_desk f)))"
    using assms(2) by (metis list.set_map)
  with assms show ?thesis by (simp add: names_ok_def)
qed

lemma forget_db [simp]: "dk_db (forget_window i s) = dk_db s"
  by (simp add: forget_window_def)

lemma register_db [simp]: "dk_db (register i w s) = dk_db s"
  by (simp add: register_def)

lemma printed_db [simp]: "dk_db (printed i chunk s) = dk_db s"
  by (simp add: printed_def)

lemma live_cleared: "live_rows (dk_db (snd (clear_history s))) = live_rows (dk_db s)"
proof -
  have "live_rows (dk_db (snd (clear_history s))) = filter (\<lambda>w. w_ended w = None) (live_rows (dk_db s))"
    by (simp add: clear_history_def clear_windows_def live_dropped)
  then show ?thesis by (simp add: live_rows_def)
qed

lemma live_restarted: "live_rows (dk_db (start_desk now s)) = []"
  by (auto simp: start_desk_def end_all_windows_def live_rows_def filter_empty_conv set_update_where)

lemma live_deleted: "delete_window i d = Inr d' \<Longrightarrow> live_rows d' = filter (\<lambda>w. w_id w \<noteq> i) (live_rows d)"
  by (auto simp: delete_window_def live_dropped split: if_split_asm)

lemma live_launched:
  "open_launch calls problem now i s = (r, s') \<Longrightarrow>
     dk_windows s' = dk_windows s \<and>
     live_rows (dk_db s') = (if isl r \<and> 4 \<le> calls then filter (\<lambda>w. w_id w \<noteq> i) (live_rows (dk_db s)) else live_rows (dk_db s))"
  by (auto simp: open_launch_def live_end_window split: option.splits)

lemma names_step: "floor_step calm f f' \<Longrightarrow> calm \<Longrightarrow> names_ok f \<Longrightarrow> names_ok f'"
proof (induction rule: floor_step.induct)
  case (draws calls rs f name)
  then have "drawn (fl_opens f) = []" by (metis drawn_named equals0I set_empty)
  with draws show ?case using drawn_new [OF draws.hyps(1)] by (simp add: names_ok_def)
next
  case (lists f xs name ys calls now i s)
  obtain row where row: "live_rows (dk_db s) = live_rows (dk_db (fl_desk f)) @ [row]" "w_name row = name"
    using live_created [OF lists.hyps(2)] by blast
  have "drawn xs = []" "drawn ys = []" using lists by (auto simp: names_ok_def)
  with lists row show ?case by (auto simp: names_ok_def)
next
  case (unlisted f xs name ys calls now e s)
  then have "s = fl_desk f" by (auto simp: open_list_def split: if_split_asm prod.split_asm)
  with unlisted show ?case by (auto simp: names_ok_def)
next
  case (launches f xs i ys calls problem now w s)
  with live_launched [OF launches.hyps(2)] show ?case by (auto intro: names_same)
next
  case (fails f xs i ys calls problem now e s)
  with live_launched [OF fails.hyps(2)] show ?case
    by (cases "4 \<le> calls") (auto intro: names_same names_fewer [where f = f and p = "\<lambda>w. w_id w \<noteq> i"])
next
  case (records f xs i out ys now)
  then show ?case by (auto intro!: names_fewer [where f = f] simp: record_end_def live_end_window)
next
  case (touches f now i)
  then show ?case by (auto intro: names_same simp: live_touched)
next
  case (deletes i f d)
  then show ?case by (auto intro!: names_fewer [where f = f] simp: live_deleted)
next
  case (restarts f now)
  then show ?case by (simp add: names_ok_def live_restarted)
next
  case (elsewhere s f)
  then have "live_rows (dk_db s) = live_rows (dk_db (fl_desk f))" by (simp add: live_rows_def)
  with elsewhere show ?case by (simp add: names_ok_def)
qed (auto intro: names_same simp: live_cleared)

section \<open>The process behind a live session\<close>

text \<open>Where the process of a live session is to be found.\<close>

definition kept_up :: "floor \<Rightarrow> int \<Rightarrow> bool" where
  "kept_up f i \<longleftrightarrow> i \<in> fst ` set (dk_windows (fl_desk f)) \<or> (\<exists>u \<in> set (fl_opens f). underway_id u = Some i) \<or>
     i \<in> fst ` set (fl_ends f) \<or> i \<in> fl_left f"

definition served_ok :: "floor \<Rightarrow> bool" where
  "served_ok f \<longleftrightarrow> (\<forall>i \<in> w_id ` set (live_rows (dk_db (fl_desk f))). kept_up f i)"

lemma served_step: "floor_step calm f f' \<Longrightarrow> served_ok f \<Longrightarrow> served_ok f'"
proof (induction rule: floor_step.induct)
  case (lists f xs name ys calls now i s)
  obtain row where row: "live_rows (dk_db s) = live_rows (dk_db (fl_desk f)) @ [row]" "w_id row = i"
    "dk_windows s = dk_windows (fl_desk f)"
    using live_created [OF lists.hyps(2)] by blast
  with lists show ?case by (auto simp: served_ok_def kept_up_def)
next
  case (unlisted f xs name ys calls now e s)
  then have "s = fl_desk f" by (auto simp: open_list_def split: if_split_asm prod.split_asm)
  with unlisted show ?case by (auto simp: served_ok_def kept_up_def)
next
  case (launches f xs i ys calls problem now w s)
  with live_launched [OF launches.hyps(2)] show ?case by (auto simp: served_ok_def kept_up_def)
next
  case (fails f xs i ys calls problem now e s)
  with live_launched [OF fails.hyps(2)] show ?case by (auto simp: served_ok_def kept_up_def)
next
  case (records f xs i out ys now)
  then show ?case by (auto simp: served_ok_def kept_up_def record_end_def live_end_window)
next
  case (touches f now i)
  then show ?case by (simp add: served_ok_def kept_up_def live_touched)
next
  case (deletes i f d)
  then show ?case by (auto simp: served_ok_def kept_up_def live_deleted)
next
  case (clears f)
  then show ?case by (simp add: served_ok_def kept_up_def live_cleared)
    (simp add: clear_history_def split: prod.split)
next
  case (restarts f now)
  then show ?case by (simp add: served_ok_def live_restarted)
next
  case (elsewhere s f)
  then have "live_rows (dk_db s) = live_rows (dk_db (fl_desk f))" by (simp add: live_rows_def)
  with elsewhere show ?case by (simp add: served_ok_def kept_up_def)
next
  case (prints f i chunk)
  have "fst ` set (dk_windows (printed i chunk (fl_desk f))) = fst ` set (dk_windows (fl_desk f))"
    by (force simp: printed_def)
  with prints show ?case by (simp add: served_ok_def kept_up_def)
qed (auto simp: served_ok_def kept_up_def register_def replace_row_def forget_window_def)

lemma floor_reached_names: "floor_reached calm f \<Longrightarrow> calm \<Longrightarrow> names_ok f"
proof (induction rule: floor_reached.induct)
  case (further f f')
  then show ?case using names_step by blast
qed (simp add: names_ok_def live_rows_def)

lemma floor_reached_served: "floor_reached calm f \<Longrightarrow> served_ok f"
proof (induction rule: floor_reached.induct)
  case (further f f')
  then show ?case using served_step by blast
qed (simp add: served_ok_def live_rows_def)

text \<open>
  C12: However the pieces of opening, printing, ending, deleting, clearing and restarting come between each
  other, a session listed as live has its process in the map, or its \<open>Open\<close> or the end of its process is still
  under way, or one of the two lost the store before it was done and left it. And no two live sessions have the same name, as
  long as no \<open>Open\<close> reads the list while another has drawn a name and not yet made its row.
\<close>

theorem live_sessions_named_apart:
  assumes "floor_reached calm f"
  shows "(\<forall>w \<in> set (live_windows (dk_db (fl_desk f))).
      live_win (w_id w) (fl_desk f) \<noteq> None \<or> (\<exists>u \<in> set (fl_opens f). underway_id u = Some (w_id w)) \<or>
      w_id w \<in> fst ` set (fl_ends f) \<or> w_id w \<in> fl_left f) \<and>
    (calm \<longrightarrow> distinct (map w_name (live_windows (dk_db (fl_desk f)))))"
proof (intro conjI impI ballI)
  fix w assume "w \<in> set (live_windows (dk_db (fl_desk f)))"
  then have "kept_up f (w_id w)" using floor_reached_served [OF assms] by (auto simp: served_ok_def live_set)
  moreover have "live_win (w_id w) (fl_desk f) \<noteq> None \<longleftrightarrow> w_id w \<in> fst ` set (dk_windows (fl_desk f))"
    by (auto simp: live_win_def map_of_eq_None_iff image_iff)
  ultimately show "live_win (w_id w) (fl_desk f) \<noteq> None \<or> (\<exists>u \<in> set (fl_opens f). underway_id u = Some (w_id w)) \<or>
      w_id w \<in> fst ` set (fl_ends f) \<or> w_id w \<in> fl_left f"
    by (simp add: kept_up_def)
next
  assume calm
  then have "distinct (map w_name (live_rows (dk_db (fl_desk f))))"
    using floor_reached_names [OF assms] by (simp add: names_ok_def)
  moreover have "mset (map w_name (live_windows (dk_db (fl_desk f)))) = mset (map w_name (live_rows (dk_db (fl_desk f))))"
    using live_windows_rows by (metis mset_map)
  ultimately show "distinct (map w_name (live_windows (dk_db (fl_desk f))))"
    by (metis mset_eq_imp_distinct_iff)
qed

definition fresh_desk :: desk where
  "fresh_desk = \<lparr>dk_db = empty_db, dk_notes = [], dk_ready = True, dk_install_err = '''', dk_version = '''',
     dk_vault = False, dk_windows = []\<rparr>"

definition still_floor :: floor where
  "still_floor = \<lparr>fl_desk = fresh_desk, fl_opens = [], fl_ends = [], fl_left = {}\<rparr>"

lemma still_reached: "floor_reached calm still_floor"
  unfolding still_floor_def by (rule quiet) (simp_all add: fresh_desk_def empty_db_def)

lemma first_drawn: "open_draw 4 [(0, 0)] fresh_desk = Some (Inr (draw_name (0, 0)))"
  by (simp add: open_draw_def fresh_desk_def live_windows_def windows_def empty_db_def order_by_def insertion_sort_def)

lemma listed_row:
  "2 \<le> calls \<Longrightarrow> \<exists>s'. open_list calls now name s = (Inr (next_id (map w_id (tb_windows (dk_db s)))), s') \<and>
     tb_windows (dk_db s') = tb_windows (dk_db s) @ [\<lparr>w_id = next_id (map w_id (tb_windows (dk_db s))), w_name = name,
       w_created = sql_stamp now, w_last = sql_stamp now, w_ended = None, w_scroll = None\<rparr>] \<and> dk_windows s' = dk_windows s"
  by (simp add: open_list_def create_window_def Let_def)

theorem live_sessions_named_apart_witness:
  "\<exists>f. floor_reached True f \<and> fl_opens f = [Listed 1] \<and> w_id ` set (live_windows (dk_db (fl_desk f))) = {1} \<and>
     distinct (map w_name (live_windows (dk_db (fl_desk f))))"
proof -
  let ?n = "draw_name (0, 0)"
  let ?f = "still_floor\<lparr>fl_opens := [Named ?n]\<rparr>"
  have drew: "floor_reached True ?f"
    using further [OF still_reached draws [of 4 "[(0, 0)]" still_floor ?n True]] first_drawn by (simp add: still_floor_def)
  obtain s' where l: "open_list 4 0 ?n (fl_desk ?f) = (Inr 1, s')" "live_rows (dk_db s') = live_rows empty_db @
      [\<lparr>w_id = 1, w_name = ?n, w_created = 0, w_last = 0, w_ended = None, w_scroll = None\<rparr>]"
    using listed_row [of 4 0 ?n fresh_desk]
    by (auto simp: still_floor_def fresh_desk_def empty_db_def next_id_def live_rows_def sql_stamp_def)
  let ?g = "?f\<lparr>fl_desk := s', fl_opens := [Listed 1]\<rparr>"
  have "floor_reached True ?g"
    using further [OF drew lists [of ?f "[]" ?n "[]", OF _ l(1)]] by simp
  moreover have "w_id ` set (live_windows (dk_db (fl_desk ?g))) = {1}"
    using l(2) by (simp add: live_set live_rows_def empty_db_def)
  ultimately show ?thesis using live_sessions_named_apart [of True ?g] by (intro exI [of _ ?g]) simp
qed

section \<open>Where it goes wrong\<close>

text \<open>Two calls of \<open>Open\<close> that both read the list before either has its row can draw the same name, and both get it.\<close>

theorem two_opens_one_name:
  "\<exists>f. floor_reached False f \<and> \<not> distinct (map w_name (live_windows (dk_db (fl_desk f))))"
proof -
  let ?n = "draw_name (0, 0)"
  let ?f = "still_floor\<lparr>fl_opens := [Named ?n, Named ?n]\<rparr>"
  have one: "floor_reached False (still_floor\<lparr>fl_opens := [Named ?n]\<rparr>)"
    using further [OF still_reached draws [of 4 "[(0, 0)]" still_floor ?n False]] first_drawn by (simp add: still_floor_def)
  have two: "floor_reached False ?f"
    using further [OF one draws [of 4 "[(0, 0)]" "still_floor\<lparr>fl_opens := [Named ?n]\<rparr>" ?n False]] first_drawn
    by (simp add: still_floor_def)
  obtain i s1 where a: "open_list 4 0 ?n (fl_desk ?f) = (Inr i, s1)" using listed_row [of 4 0 ?n "fl_desk ?f"] by auto
  let ?g = "?f\<lparr>fl_desk := s1, fl_opens := [Listed i, Named ?n]\<rparr>"
  have g: "floor_reached False ?g" using further [OF two lists [of ?f "[]" ?n "[Named ?n]", OF _ a]] by simp
  obtain j s2 where b: "open_list 4 0 ?n (fl_desk ?g) = (Inr j, s2)" using listed_row [of 4 0 ?n "fl_desk ?g"] by auto
  let ?h = "?g\<lparr>fl_desk := s2, fl_opens := [Listed i, Listed j]\<rparr>"
  have h: "floor_reached False ?h" using further [OF g lists [of ?g "[Listed i]" ?n "[]", OF _ b]] by simp
  obtain r1 r2 where "live_rows (dk_db s2) = live_rows (dk_db (fl_desk ?f)) @ [r1, r2]" "w_name r1 = ?n" "w_name r2 = ?n"
    using live_created [OF a] live_created [OF b] by auto
  then have "\<not> distinct (map w_name (live_rows (dk_db (fl_desk ?h))))" by simp
  moreover have "mset (map w_name (live_windows (dk_db (fl_desk ?h)))) = mset (map w_name (live_rows (dk_db (fl_desk ?h))))"
    using live_windows_rows by (metis mset_map)
  ultimately have "\<not> distinct (map w_name (live_windows (dk_db (fl_desk ?h))))" by (metis mset_eq_imp_distinct_iff)
  with h show ?thesis by blast
qed

text \<open>
  A request whose context ends after the row is made and before the setting is read leaves the row as it is: a
  session that is listed as live, has no process and is ended by nothing but a restart.
\<close>

theorem cut_request_leaves_session:
  assumes "open_draw 2 rs s = Some (Inr name)"
  shows "\<exists>i s'. open_window 2 launch now rs s = Some (Inl cut, s') \<and> dk_windows s' = dk_windows s \<and>
    i \<in> w_id ` set (live_windows (dk_db s')) \<and> i \<notin> w_id ` set (tb_windows (dk_db s))"
proof -
  define i where "i = next_id (map w_id (tb_windows (dk_db s)))"
  obtain s' where l: "open_list 2 now name s = (Inr i, s')" using listed_row [of 2 now name s] by (auto simp: i_def)
  obtain row where "live_rows (dk_db s') = live_rows (dk_db s) @ [row]" "w_id row = i" "dk_windows s' = dk_windows s"
    using live_created [OF l] by blast
  moreover have "i \<notin> w_id ` set (tb_windows (dk_db s))"
    using next_id_fresh [of "map w_id (tb_windows (dk_db s))"] by (simp add: i_def)
  moreover have "open_window 2 launch now rs s = Some (Inl cut, s')"
    using assms l by (simp add: open_window_def open_model_def)
  ultimately show ?thesis by (intro exI [of _ i] exI [of _ s']) (simp add: live_set)
qed

lemma map_of_new_row: "map_of (replace_row fst (i, x) rows) i = Some x"
proof -
  have "map_of (delete_where (\<lambda>r. fst r = i) rows) i = None" by (auto simp: map_of_eq_None_iff)
  then show ?thesis by (simp add: replace_row_def map_add_def)
qed

text \<open>
  A window whose process ends before \<open>Open\<close> has entered it in the map: \<open>ended\<close> comes first, and the
  entry made after it stays, a window that is history in the store and live in the map.
\<close>

theorem late_entry_stays:
  "live_win i (register i w (ended now i out s)) = Some w \<and>
   i \<notin> w_id ` set (live_windows (dk_db (register i w (ended now i out s))))"
  by (auto simp: live_win_def register_def map_of_new_row ended_def record_end_def live_set live_end_window)

end
