(* ===== verification/Proposals.thy ===== *)
theory Proposals
  imports AgentJobs
begin

text \<open>
  \<open>internal/agent/proposals.go\<close>: an issue filed by the hub's agent on the project's repository, with the
  names of the house taken out. The repository's answers and the parsing of a URL are parameters.
\<close>

section \<open>Taking a word out\<close>

text \<open>
  The expression \<open>(^|[^\w.-])word($|[^\w-])\<close> of the code, replaced by its first group, a placeholder and
  its second group. \<open>here\<close> says whether a match may begin at this place: at the start of the text, or
  after a character of the first class that no match before has taken; the character itself is kept
  either way. A match takes the character after the word with it.
\<close>

definition word_char :: "char \<Rightarrow> bool" where
  "word_char c = (is_lower c \<or> is_upper c \<or> is_digit c \<or> c = CHR ''_'')"

definition gap :: "char \<Rightarrow> bool" where
  "gap c = (\<not> word_char c \<and> c \<noteq> CHR ''.'' \<and> c \<noteq> CHR ''-'')"

definition edge :: "char \<Rightarrow> bool" where
  "edge c = (\<not> word_char c \<and> c \<noteq> CHR ''-'')"

text \<open>The word at the start of the text and what closes it: the character taken, and the rest.\<close>

definition word_at :: "string \<Rightarrow> string \<Rightarrow> (string \<times> string) option" where
  "word_at w s =
     (case strip_prefix w s of
        None \<Rightarrow> None
      | Some [] \<Rightarrow> Some ('''', '''')
      | Some (c # rest) \<Rightarrow> if edge c then Some ([c], rest) else None)"

lemma strip_prefix_length: "strip_prefix w s = Some r \<Longrightarrow> length r \<le> length s"
  by (auto simp: strip_prefix_iff)

lemma word_at_length: "word_at w s = Some (sep, rest) \<Longrightarrow> length rest \<le> length s"
  by (auto simp: word_at_def split: option.split_asm list.split_asm if_split_asm dest!: strip_prefix_length)

function replace_word :: "bool \<Rightarrow> string \<Rightarrow> string \<Rightarrow> string \<Rightarrow> string" where
  "replace_word here w x s =
     (case (if here then word_at w s else None) of
        Some (sep, rest) \<Rightarrow> x @ sep @ replace_word False w x rest
      | None \<Rightarrow> (case s of [] \<Rightarrow> [] | c # r \<Rightarrow> c # replace_word (gap c) w x r))"
  by pat_completeness auto
termination
  by (relation "measure (\<lambda>(here, w, x, s). 2 * length s + (if here then 1 else 0))")
    (auto split: if_split_asm dest: word_at_length)

declare replace_word.simps [simp del]

definition redact_word :: "string \<Rightarrow> string \<Rightarrow> string \<Rightarrow> string" where
  "redact_word w x s = replace_word True w x (replace_word True w x s)"

section \<open>The words of a house\<close>

text \<open>A word and its placeholder; a word of one character is left alone.\<close>

definition redaction :: "string \<Rightarrow> string \<Rightarrow> (string \<times> string) list" where
  "redaction word x = (let w = trim_space word in if length w \<ge> 2 then [(w, x)] else [])"

definition house_words :: "(string \<times> string) list" where
  "house_words = [(''hub.lan_addr'', ''<hub>''), (''space.name'', ''<space>''), (''space.hub_name'', ''<hub>'')]"

text \<open>The settings are those of \<open>house_words\<close>, in the order the map is walked.\<close>

definition redactions :: "(string \<times> string) list \<Rightarrow> db \<Rightarrow> (string \<times> string) list" where
  "redactions words d =
     concat (map (\<lambda>h. redaction (h_addr h) ''<address>'' @ redaction (h_name h) ''<host>'') (hosts d)) @
     concat (map (\<lambda>(key, x). redaction (setting key d) x) words)"

definition redact :: "(string \<times> string) list \<Rightarrow> string \<Rightarrow> string" where
  "redact ps s = fold (\<lambda>(w, x). redact_word w x) ps s"

section \<open>Filing\<close>

definition proposal_prefix :: string where
  "proposal_prefix = ''[agent proposal] ''"

definition default_repo :: string where
  "default_repo = ''https://gitea.canica.pe/adefesioso/homedash''"

text \<open>\<open>parse\<close> reads a URL: scheme, host and path.\<close>

definition proposal_api :: "(string \<Rightarrow> (string \<times> string \<times> string) option) \<Rightarrow> db \<Rightarrow> string res" where
  "proposal_api parse d =
     (let set_to = trim_space (setting ''proposals.repo'' d);
          repo = (if set_to = '''' then default_repo else set_to);
          bad = Inl (Err (''proposals.repo '' @ go_quote repo @ '' is not a repository URL like '' @ default_repo))
      in case parse (trim_suffix repo ''.git'') of
           None \<Rightarrow> bad
         | Some (scheme, authority, path) \<Rightarrow>
             (case split_on (CHR ''/'') (trim (\<lambda>c. c = CHR ''/'') path) of
                [owner, name] \<Rightarrow>
                  if scheme = '''' \<or> authority = '''' then bad
                  else Inr (scheme @ ''://'' @ authority @ ''/api/v1/repos/'' @ owner @ ''/'' @ name)
              | _ \<Rightarrow> bad))"

record issue =
  is_title :: string
  is_url :: string

definition duplicate_of :: "string \<Rightarrow> issue list \<Rightarrow> string" where
  "duplicate_of title open_issues =
     (case List.find (\<lambda>i. equal_fold (trim_space (is_title i)) title) open_issues of
        None \<Rightarrow> '''' | Some i \<Rightarrow> is_url i)"

definition proposal_footer :: "string \<Rightarrow> string" where
  "proposal_footer version =
     [newline, newline] @ ''---'' @ [newline] @ ''Filed by a HomeDash hub'' @ [CHR 0x27] @ ''s agent ('' @ version @
     ''); hostnames and addresses redacted.''"

text \<open>The repository as its two answers: the open issues that match a title, and the link of a new issue.\<close>

record repository =
  rp_search :: "string \<Rightarrow> string \<Rightarrow> string \<Rightarrow> issue list res"
  rp_post :: "string \<Rightarrow> string \<Rightarrow> string \<Rightarrow> string \<Rightarrow> string res"

text \<open>The answer, what was posted, the world.\<close>

definition file_proposal ::
  "(string \<Rightarrow> (string \<times> string \<times> string) option) \<Rightarrow> repository \<Rightarrow> string \<Rightarrow> (string \<times> string) list \<Rightarrow> instant \<Rightarrow>
   string \<Rightarrow> string \<Rightarrow> world \<Rightarrow> (string \<times> bool) res \<times> (string \<times> string) list \<times> world" where
  "file_proposal parse rp version words now title0 body0 w =
     (let d = wd_db w; title1 = trim_space title0; body1 = trim_space body0;
          token = trim_space (setting ''proposals.token'' d); daily = int_setting d ''proposals.daily'' 3
      in if title1 = '''' \<or> body1 = '''' then (Inl (Err ''a proposal needs a title and a body''), [], w)
         else if token = '''' then (Inl (Err ''proposals are off on this hub: no Gitea token in Settings''), [], w)
         else (case proposal_api parse d of
                 Inl e \<Rightarrow> (Inl e, [], w)
               | Inr api \<Rightarrow>
                   let n = int (proposals_today now d)
                   in if n \<ge> daily
                      then (Inl (Err (''this hub has filed '' @ itoa n @
                              '' proposals in the last day, the cap; keep it for tomorrow'')), [], w)
                      else
                        let ps = redactions words d;
                            title = proposal_prefix @ redact ps title1;
                            body = redact ps body1 @ proposal_footer version
                        in case rp_search rp api token title of
                             Inl e \<Rightarrow> (Inl e, [], w)
                           | Inr found \<Rightarrow>
                               if duplicate_of title found \<noteq> '''' then (Inr (duplicate_of title found, True), [], w)
                               else (case rp_post rp api token title body of
                                       Inl e \<Rightarrow> (Inl e, [(title, body)], w)
                                     | Inr url \<Rightarrow>
                                         (Inr (url, False), [(title, body)],
                                          noted ''proposal.filed'' '''' (''proposal filed: '' @ title @ '' '' @ url)
                                            (on_db (add_proposal now title url) w)))))"

end
