(* ===== verification/ProposalsLaws.thy ===== *)
theory ProposalsLaws
  imports Proposals
begin

text \<open>
  Redaction is complete: two passes of the replacement leave no whole word of the house in what is
  posted, for words made of letters, digits, dots and dashes, however they follow one another.
\<close>

section \<open>Words in a text\<close>

text \<open>A whole word somewhere in the text, where \<open>here\<close> says that one may start at its beginning.\<close>

fun occurs :: "bool \<Rightarrow> string \<Rightarrow> string \<Rightarrow> bool" where
  "occurs here w [] = (here \<and> word_at w '''' \<noteq> None)"
| "occurs here w (c # r) = ((here \<and> word_at w (c # r) \<noteq> None) \<or> occurs (gap c) w r)"

definition plain_word :: "string \<Rightarrow> bool" where
  "plain_word w \<longleftrightarrow> w \<noteq> '''' \<and> word_char (hd w) \<and> (\<forall>c \<in> set w. \<not> gap c)"

definition placeholder :: "string \<Rightarrow> string \<Rightarrow> bool" where
  "placeholder w x \<longleftrightarrow> x \<noteq> '''' \<and> gap (last x) \<and> \<not> occurs True w x"

lemma gap_edge: "gap c \<Longrightarrow> edge c"
  by (simp add: gap_def edge_def)

lemma word_at_iff:
  "word_at w s \<noteq> None \<longleftrightarrow> (\<exists>b. s = w @ b \<and> (b = '''' \<or> edge (hd b)))"
proof (cases "strip_prefix w s")
  case None
  then have "\<nexists>b. s = w @ b" by (auto simp: strip_prefix_iff [symmetric])
  with None show ?thesis by (auto simp: word_at_def)
next
  case (Some r)
  then have s: "s = w @ r" by (simp add: strip_prefix_iff)
  show ?thesis unfolding s using Some [unfolded s] by (cases r) (auto simp: word_at_def)
qed

lemma occurs_mono: "occurs False w s \<Longrightarrow> occurs here w s"
  by (cases s) auto

lemma occurs_iff:
  "occurs here w s \<longleftrightarrow>
     (\<exists>a b. s = a @ w @ b \<and> (a = '''' \<and> here \<or> a \<noteq> '''' \<and> gap (last a)) \<and> (b = '''' \<or> edge (hd b)))"
proof (induction s arbitrary: here)
  case Nil
  show ?case using word_at_iff [of w "''''"] by auto
next
  case (Cons c r)
  have "(\<exists>a b. c # r = a @ w @ b \<and> (a = '''' \<and> here \<or> a \<noteq> '''' \<and> gap (last a)) \<and> (b = '''' \<or> edge (hd b))) \<longleftrightarrow>
      (here \<and> (\<exists>b. c # r = w @ b \<and> (b = '''' \<or> edge (hd b)))) \<or>
      (\<exists>a b. r = a @ w @ b \<and> (a = '''' \<and> gap c \<or> a \<noteq> '''' \<and> gap (last a)) \<and> (b = '''' \<or> edge (hd b)))"
    (is "?l \<longleftrightarrow> ?h \<or> ?t")
  proof
    assume ?l
    then obtain a b where ab: "c # r = a @ w @ b" "a = '''' \<and> here \<or> a \<noteq> '''' \<and> gap (last a)" "b = '''' \<or> edge (hd b)"
      by blast
    show "?h \<or> ?t"
    proof (cases a)
      case Nil
      with ab show ?thesis by auto
    next
      case (Cons d a')
      with ab have "r = a' @ w @ b" "a' = '''' \<and> gap c \<or> a' \<noteq> '''' \<and> gap (last a')" by (auto split: if_split_asm)
      with ab(3) show ?thesis by blast
    qed
  next
    assume "?h \<or> ?t"
    then show ?l
    proof
      assume ?h
      then show ?l by (metis append_Nil)
    next
      assume ?t
      then obtain a b where ab: "r = a @ w @ b" "a = '''' \<and> gap c \<or> a \<noteq> '''' \<and> gap (last a)" "b = '''' \<or> edge (hd b)"
        by blast
      then show ?l by (intro exI [of _ "c # a"] exI [of _ b]) auto
    qed
  qed
  with Cons.IH [of "gap c"] show ?case by (simp only: occurs.simps word_at_iff)
qed

section \<open>One replacement\<close>

lemma replace_hit: "word_at w s = Some (sep, rest) \<Longrightarrow> replace_word True w x s = x @ sep @ replace_word False w x rest"
  by (simp add: replace_word.simps [of True])

lemma replace_miss: "\<not> here \<or> word_at w (c # r) = None \<Longrightarrow> replace_word here w x (c # r) = c # replace_word (gap c) w x r"
  by (subst replace_word.simps) auto

lemma replace_nil: "w \<noteq> '''' \<Longrightarrow> replace_word here w x '''' = ''''"
  by (subst replace_word.simps) (cases w, auto simp: word_at_def)

lemma strip_replace:
  "\<forall>c \<in> set v. \<not> gap c \<Longrightarrow> w \<noteq> '''' \<Longrightarrow>
   strip_prefix v (replace_word False w x s) = map_option (replace_word False w x) (strip_prefix v s)"
proof (induction v arbitrary: s)
  case (Cons c v)
  show ?case
  proof (cases s)
    case Nil
    then show ?thesis using Cons.prems by (simp add: replace_nil)
  next
    case (Cons d r)
    then have "replace_word False w x s = d # replace_word (gap d) w x r" by (simp add: replace_miss)
    with Cons Cons.IH [of r] Cons.prems show ?thesis by auto
  qed
qed simp

text \<open>A word found after a replacement that could not begin here was there before.\<close>

lemma word_at_replace:
  assumes "\<forall>c \<in> set v. \<not> gap c" "w \<noteq> ''''"
  shows "word_at v (replace_word False w x s) =
    map_option (\<lambda>(sep, rest). (sep, replace_word (sep \<noteq> '''' \<and> gap (hd sep)) w x rest)) (word_at v s)"
proof (cases "strip_prefix v s")
  case None
  then show ?thesis by (simp add: word_at_def strip_replace [OF assms])
next
  case (Some s')
  then show ?thesis
  proof (cases s')
    case Nil
    with Some show ?thesis using assms(2)
      by (simp add: word_at_def strip_replace [OF assms] replace_nil)
  next
    case (Cons d r)
    with Some show ?thesis by (simp add: word_at_def strip_replace [OF assms] replace_miss)
  qed
qed

section \<open>Two replacements\<close>

lemma plain_wordD:
  assumes "plain_word w"
  shows "w \<noteq> ''''" "\<forall>c \<in> set w. \<not> gap c" "word_at w '''' = None" "\<not> word_char c \<Longrightarrow> word_at w (c # r) = None"
  using assms by (cases w; auto simp: plain_word_def word_at_def)+

lemma word_at_inside:
  assumes "plain_word w" "z \<noteq> ''''" "gap (last z)"
  shows "(word_at w (z @ y) = None) = (word_at w z = None)"
proof -
  have "(\<exists>b. z @ y = w @ b \<and> (b = '''' \<or> edge (hd b))) = (\<exists>b. z = w @ b \<and> (b = '''' \<or> edge (hd b)))"
  proof
    assume "\<exists>b. z @ y = w @ b \<and> (b = '''' \<or> edge (hd b))"
    then obtain b where b: "z @ y = w @ b" "b = '''' \<or> edge (hd b)" by blast
    from b(1) obtain u where "z = w @ u \<and> u @ y = b \<or> z @ u = w \<and> y = u @ b"
      by (auto simp: append_eq_append_conv2)
    then show "\<exists>b. z = w @ b \<and> (b = '''' \<or> edge (hd b))"
    proof
      assume u: "z = w @ u \<and> u @ y = b"
      then have "u = '''' \<or> edge (hd u)" using b(2) by (cases u) auto
      with u show ?thesis by blast
    next
      assume "z @ u = w \<and> y = u @ b"
      then have "last z \<in> set w" using assms(2) by (metis UnI1 last_in_set set_append)
      with assms show ?thesis using plain_wordD(2) by blast
    qed
  next
    assume "\<exists>b. z = w @ b \<and> (b = '''' \<or> edge (hd b))"
    then obtain b where b: "z = w @ b" "b = '''' \<or> edge (hd b)" by blast
    have "b \<noteq> ''''" using b(1) assms plain_wordD(2) by (metis append_Nil2 last_in_set)
    with b show "\<exists>b. z @ y = w @ b \<and> (b = '''' \<or> edge (hd b))" by (intro exI [of _ "b @ y"]) simp
  qed
  then show ?thesis using word_at_iff by blast
qed

lemma skip:
  assumes "plain_word w" "z \<noteq> ''''" "gap (last z)"
  shows "occurs here w (z @ y) = (occurs here w z \<or> occurs True w y)"
    and "\<not> occurs here w z \<Longrightarrow> replace_word here w x (z @ y) = z @ replace_word True w x y"
proof -
  have "occurs here w (z @ y) = (occurs here w z \<or> occurs True w y) \<and>
      (\<not> occurs here w z \<longrightarrow> replace_word here w x (z @ y) = z @ replace_word True w x y)"
    using assms(2,3)
  proof (induction z arbitrary: here)
    case (Cons c z)
    have at: "(word_at w (c # z @ y) = None) = (word_at w (c # z) = None)"
      using word_at_inside [OF assms(1) Cons.prems, of y] by simp
    show ?case
    proof (cases "z = ''''")
      case True
      then have "gap c" using Cons.prems by simp
      moreover from this have "word_at w (c # y) = None" for y by (intro plain_wordD(4) [OF assms(1)]) (simp add: gap_def)
      ultimately show ?thesis using True by (simp add: plain_wordD [OF assms(1)] replace_miss)
    next
      case False
      then have "gap (last z)" using Cons.prems by simp
      from Cons.IH [OF False this, of "gap c"] at show ?thesis
        by (auto simp: replace_miss)
    qed
  qed simp
  then show "occurs here w (z @ y) = (occurs here w z \<or> occurs True w y)"
    and "\<not> occurs here w z \<Longrightarrow> replace_word here w x (z @ y) = z @ replace_word True w x y" by blast+
qed

lemma two_passes:
  assumes w: "plain_word w" and x: "placeholder w x"
  shows "\<not> occurs (b1 \<or> b2) w (replace_word b2 w x (replace_word b1 w x s))"
proof (induction "length s" arbitrary: s b1 b2 rule: less_induct)
  case less
  note ne = plain_wordD(1) [OF w] and px = x [unfolded placeholder_def]
  have past: "\<not> occurs g w (x @ sep @ u)"
    if "sep = '''' \<and> u = '''' \<or> (\<exists>c. sep = [c] \<and> edge c \<and> \<not> occurs (gap c) w u)" for g sep u
  proof -
    have xg: "occurs g w (x @ v) = occurs True w v" for v
      using skip(1) [OF w, of x g v] px occurs_mono by (metis (full_types))
    from that show ?thesis
    proof
      assume "sep = '''' \<and> u = ''''"
      then show ?thesis using xg [of "''''"] by (simp add: plain_wordD [OF w])
    next
      assume "\<exists>c. sep = [c] \<and> edge c \<and> \<not> occurs (gap c) w u"
      then obtain c where c: "sep = [c]" "edge c" "\<not> occurs (gap c) w u" by blast
      then have "word_at w (c # u) = None" by (intro plain_wordD(4) [OF w]) (simp add: edge_def)
      with c show ?thesis by (simp add: xg)
    qed
  qed
  have sepcases: "sep = '''' \<and> rest = '''' \<or> (\<exists>c. sep = [c] \<and> edge c \<and> length rest < length t)"
    if "word_at w t = Some (sep, rest)" for t sep rest
    using that ne by (auto simp: word_at_def strip_prefix_iff split: option.split_asm list.split_asm if_split_asm)
  show ?case
  proof (cases "b1 \<and> word_at w s \<noteq> None")
    case True
    then obtain sep rest where hit: "word_at w s = Some (sep, rest)" by auto
    have one: "replace_word b1 w x s = x @ sep @ replace_word False w x rest"
      using True replace_hit [OF hit] by simp
    have nox: "\<not> occurs b2 w x" using px by (cases b2) (auto dest: occurs_mono)
    have two: "replace_word b2 w x (replace_word b1 w x s) = x @ replace_word True w x (sep @ replace_word False w x rest)"
      unfolding one by (rule skip(2) [OF w _ _ nox]) (use px in auto)
    from sepcases [OF hit] show ?thesis
    proof
      assume "sep = '''' \<and> rest = ''''"
      then show ?thesis unfolding two using past [of "''''" "''''"] by (simp add: replace_nil [OF ne])
    next
      assume "\<exists>c. sep = [c] \<and> edge c \<and> length rest < length s"
      then obtain c where c: "sep = [c]" "edge c" "length rest < length s" by blast
      then have "word_at w (c # v) = None" for v by (intro plain_wordD(4) [OF w]) (simp add: edge_def)
      then have "replace_word True w x (sep @ replace_word False w x rest) =
          [c] @ replace_word (gap c) w x (replace_word False w x rest)" using c(1) by (simp add: replace_miss)
      moreover have "\<not> occurs (gap c) w (replace_word (gap c) w x (replace_word False w x rest))"
        using less [OF c(3), of False "gap c"] by simp
      ultimately show ?thesis unfolding two using past [of "[c]"] c(2) by auto
    qed
  next
    case False
    show ?thesis
    proof (cases s)
      case Nil
      then show ?thesis by (simp add: replace_nil [OF ne] plain_wordD [OF w])
    next
      case (Cons c r)
      have one: "replace_word b1 w x s = replace_word False w x s"
      proof -
        have "\<not> b1 \<or> word_at w (c # r) = None" using False Cons by blast
        from replace_miss [OF this] show ?thesis unfolding Cons by (simp add: replace_miss)
      qed
      note at = word_at_replace [OF plain_wordD(2) [OF w] ne, of x s]
      show ?thesis
      proof (cases "b2 \<and> word_at w (replace_word False w x s) \<noteq> None")
        case True
        then obtain sep rest where hit: "word_at w s = Some (sep, rest)"
          and hit2: "word_at w (replace_word False w x s) =
            Some (sep, replace_word (sep \<noteq> '''' \<and> gap (hd sep)) w x rest)"
          using at by (cases "word_at w s") auto
        have two: "replace_word b2 w x (replace_word b1 w x s) =
            x @ sep @ replace_word False w x (replace_word (sep \<noteq> '''' \<and> gap (hd sep)) w x rest)"
          unfolding one using True replace_hit [OF hit2] by simp
        from sepcases [OF hit] show ?thesis
        proof
          assume "sep = '''' \<and> rest = ''''"
          then show ?thesis unfolding two using past [of "''''" "''''"] by (simp add: replace_nil [OF ne])
        next
          assume "\<exists>c. sep = [c] \<and> edge c \<and> length rest < length s"
          then obtain c where c: "sep = [c]" "edge c" "length rest < length s" by blast
          with less [OF c(3), of "gap c" False] show ?thesis unfolding two using past [of "[c]"] by auto
        qed
      next
        case miss: False
        have t: "replace_word False w x s = c # replace_word (gap c) w x r" unfolding Cons by (simp add: replace_miss)
        have two: "replace_word b2 w x (replace_word b1 w x s) = c # replace_word (gap c) w x (replace_word (gap c) w x r)"
          unfolding one t by (rule replace_miss) (use miss [unfolded t] in blast)
        have rest: "\<not> occurs (gap c) w (replace_word (gap c) w x (replace_word (gap c) w x r))"
          using less [of r "gap c" "gap c"] Cons by simp
        have "replace_word False w x (replace_word False w x s) = c # replace_word (gap c) w x (replace_word (gap c) w x r)"
          unfolding t by (simp add: replace_miss)
        then have "word_at w (c # replace_word (gap c) w x (replace_word (gap c) w x r)) \<noteq> None \<longleftrightarrow>
            word_at w (replace_word False w x s) \<noteq> None"
          using word_at_replace [OF plain_wordD(2) [OF w] ne, of x "replace_word False w x s"] by auto
        moreover have "word_at w (replace_word False w x s) \<noteq> None \<longleftrightarrow> word_at w s \<noteq> None" using at by auto
        ultimately show ?thesis unfolding two using rest False miss by auto
      qed
    qed
  qed
qed

text \<open>Taking another word out brings no word back.\<close>

lemma no_new_words:
  assumes w: "plain_word w" and x: "placeholder w x" and v: "v \<noteq> ''''" and "\<not> occurs here w s"
  shows "\<not> occurs here w (replace_word b v x s)"
  using assms(4)
proof (induction "length s" arbitrary: s here b rule: less_induct)
  case less
  note px = x [unfolded placeholder_def]
  have xg: "occurs g w (x @ u) = occurs True w u" for g u
    using skip(1) [OF w, of x g u] px occurs_mono by (metis (full_types))
  show ?case
  proof (cases "b \<and> word_at v s \<noteq> None")
    case True
    then obtain sep rest where hit: "word_at v s = Some (sep, rest)" by auto
    have one: "replace_word b v x s = x @ sep @ replace_word False v x rest"
      using True replace_hit [OF hit] by simp
    from hit v consider "sep = ''''" "rest = ''''" | c where "sep = [c]" "edge c" "s = (v @ [c]) @ rest"
      by (auto simp: word_at_def strip_prefix_iff split: option.split_asm list.split_asm if_split_asm)
    then show ?thesis
    proof cases
      case 1
      have "\<not> occurs here w x" using px by (cases here) (auto dest: occurs_mono)
      with 1 show ?thesis unfolding one by (simp add: replace_nil [OF v])
    next
      case (2 c)
      have "\<not> occurs (gap c) w rest"
      proof
        assume "occurs (gap c) w rest"
        then obtain a d where ad: "rest = a @ w @ d" "a = '''' \<and> gap c \<or> a \<noteq> '''' \<and> gap (last a)" "d = '''' \<or> edge (hd d)"
          by (auto simp: occurs_iff)
        then have "s = (v @ [c] @ a) @ w @ d \<and> gap (last (v @ [c] @ a))" using 2(3) by auto
        with ad(3) less(2) show False unfolding occurs_iff by (metis Nil_is_append_conv not_Cons_self2)
      qed
      moreover have "length rest < length s" using 2(3) by simp
      ultimately have "\<not> occurs (gap c) w (replace_word False v x rest)" by (rule less(1) [rotated])
      moreover have "word_at w (c # u) = None" for u using 2(2) by (intro plain_wordD(4) [OF w]) (simp add: edge_def)
      ultimately show ?thesis unfolding one using 2(1) by (simp add: xg)
    qed
  next
    case False
    show ?thesis
    proof (cases s)
      case Nil
      then show ?thesis by (simp add: replace_nil [OF v] plain_wordD [OF w])
    next
      case (Cons c r)
      have "\<not> b \<or> word_at v (c # r) = None" using False Cons by blast
      from replace_miss [OF this] have one: "replace_word b v x s = c # replace_word (gap c) v x r" unfolding Cons .
      have "replace_word False v x s = c # replace_word (gap c) v x r" unfolding Cons by (rule replace_miss) simp
      then have "word_at w (c # replace_word (gap c) v x r) \<noteq> None \<longleftrightarrow> word_at w s \<noteq> None"
        using word_at_replace [OF plain_wordD(2) [OF w] v, of x s] by auto
      moreover have "\<not> occurs (gap c) w (replace_word (gap c) v x r)"
        using less(1) [of r "gap c" "gap c"] less(2) Cons by simp
      ultimately show ?thesis unfolding one using less(2) Cons by auto
    qed
  qed
qed

lemma redacted_all:
  assumes "plain_word w" and "(w, x) \<in> set ps" and "\<forall>(v, y) \<in> set ps. v \<noteq> '''' \<and> placeholder w y"
  shows "\<not> occurs True w (redact ps s)"
  using assms(2,3)
proof (induction ps rule: rev_induct)
  case (snoc p ps)
  obtain v y where p: "p = (v, y)" by (cases p)
  have v: "v \<noteq> ''''" and y: "placeholder w y" using snoc.prems(2) p by auto
  have r: "redact (ps @ [p]) s = redact_word v y (redact ps s)" by (simp add: redact_def p)
  show ?case
  proof (cases "v = w")
    case True
    then show ?thesis using two_passes [OF assms(1) y, of True True] by (simp add: r redact_word_def)
  next
    case False
    then have "(w, x) \<in> set ps" using snoc.prems(1) p by auto
    with snoc have "\<not> occurs True w (redact ps s)" by auto
    then show ?thesis unfolding r redact_word_def
      by (intro no_new_words [OF assms(1) y v])
  qed
qed simp

section \<open>What a proposal says\<close>

lemma placeholder_made:
  assumes w: "plain_word w" and u: "\<forall>c \<in> set u. word_char c" and "w \<noteq> u"
  shows "placeholder w (CHR ''<'' # u @ ''>'')"
proof -
  have bracket: "\<not> word_char CHR ''<''" "\<not> word_char CHR ''>''" "gap CHR ''<''" "gap CHR ''>''"
    by (simp_all add: gap_def word_char_def is_lower_def is_upper_def is_digit_def)
  have quiet: "\<forall>c \<in> set v. word_char c \<Longrightarrow> \<not> occurs False w (v @ ''>'')" for v
    by (induction v) (auto simp: bracket plain_wordD [OF w] gap_def)
  have "word_at w (u @ ''>'') = None"
  proof (rule ccontr)
    assume "word_at w (u @ ''>'') \<noteq> None"
    then obtain b where b: "u @ ''>'' = w @ b" "b = '''' \<or> edge (hd b)" using word_at_iff by blast
    show False
    proof (cases b rule: rev_cases)
      case Nil
      then have "CHR ''>'' \<in> set w" using b(1) by (metis append_Nil2 in_set_conv_decomp)
      then show False using plain_wordD(2) [OF w] bracket by blast
    next
      case (snoc b' c)
      with b(1) have c: "c = CHR ''>''" "u = w @ b'" by (metis append_assoc append1_eq_conv)+
      then have "b' \<noteq> ''''" using assms(3) by auto
      then have "hd b' \<in> set u" "hd b = hd b'" using c snoc by auto
      with b(2) u snoc show False by (auto simp: edge_def)
    qed
  qed
  moreover have "\<not> occurs False w (u @ ''>'')" using quiet u by blast
  ultimately have "\<not> occurs True w (u @ ''>'')" by (cases "u @ ''>''") auto
  moreover have "word_at w (CHR ''<'' # v) = None" for v by (rule plain_wordD(4) [OF w bracket(1)])
  ultimately show ?thesis by (simp add: placeholder_def bracket)
qed

lemma house_placeholders:
  assumes "plain_word w" and "w \<notin> {''address'', ''host'', ''hub'', ''space''}"
    and "x \<in> {''<address>'', ''<host>'', ''<hub>'', ''<space>''}"
  shows "placeholder w x"
proof -
  have "\<exists>u. x = CHR ''<'' # u @ ''>'' \<and> u \<in> {''address'', ''host'', ''hub'', ''space''}"
    using assms(3) by auto
  then obtain u where u: "x = CHR ''<'' # u @ ''>''" "u \<in> {''address'', ''host'', ''hub'', ''space''}" by blast
  have "\<forall>c \<in> set u. word_char c"
    using u(2) by (auto simp: word_char_def is_lower_def)
  moreover have "w \<noteq> u" using u(2) assms(2) by auto
  ultimately show ?thesis unfolding u(1) by (rule placeholder_made [OF assms(1)])
qed

lemma redactions_made:
  assumes "set words \<subseteq> set house_words" and "(v, y) \<in> set (redactions words d)"
  shows "v \<noteq> '''' \<and> y \<in> {''<address>'', ''<host>'', ''<hub>'', ''<space>''}"
proof -
  have one: "(v, y) \<in> set (redaction word x) \<Longrightarrow> v \<noteq> '''' \<and> y = x" for word x
    by (auto simp: redaction_def Let_def split: if_split_asm)
  from assms(2) consider word where "(v, y) \<in> set (redaction word ''<address>'')"
    | word where "(v, y) \<in> set (redaction word ''<host>'')"
    | key x where "(key, x) \<in> set words" "(v, y) \<in> set (redaction (setting key d) x)"
    unfolding redactions_def by auto
  then show ?thesis
  proof cases
    case (3 key x)
    with one assms(1) show ?thesis by (auto simp: house_words_def)
  qed (use one in blast)+
qed

lemma file_posted:
  assumes "(title, body) \<in> set (fst (snd (file_proposal parse rp version words now t b w)))"
  shows "title = proposal_prefix @ redact (redactions words (wd_db w)) (trim_space t) \<and>
    body = redact (redactions words (wd_db w)) (trim_space b) @ proposal_footer version \<and>
    int (proposals_today now (wd_db w)) < int_setting (wd_db w) ''proposals.daily'' 3"
  using assms by (auto simp: file_proposal_def Let_def split: if_split_asm sum.split_asm)

text \<open>
  C13: What the hub posts on the project's repository names nothing of the house: the title and the text
  it received, as they are posted, hold no whole word that is a machine's name or address, the hub's
  address or name, or the space's name, however these words follow one another, and at most the day's
  number of proposals is posted. This is for words of letters, digits, dots, dashes and underscores
  that begin with one of the first two and are no placeholder.
\<close>

theorem proposals_name_no_machine:
  assumes "(title, body) \<in> set (fst (snd (file_proposal parse rp version words now t b w)))"
    and "set words \<subseteq> set house_words" and "(word, x) \<in> set (redactions words (wd_db w))"
    and "plain_word word" and "word \<notin> {''address'', ''host'', ''hub'', ''space''}"
  shows "\<exists>t' b'. title = proposal_prefix @ t' \<and> body = b' @ proposal_footer version \<and>
    (\<forall>txt \<in> {t', b'}. \<nexists>a c. txt = a @ word @ c \<and> (a = '''' \<or> gap (last a)) \<and> (c = '''' \<or> edge (hd c))) \<and>
    int (proposals_today now (wd_db w)) < int_setting (wd_db w) ''proposals.daily'' 3"
proof -
  let ?ps = "redactions words (wd_db w)"
  have "\<forall>(v, y) \<in> set ?ps. v \<noteq> '''' \<and> placeholder word y"
    using redactions_made [OF assms(2)] house_placeholders [OF assms(4,5)] by blast
  then have "\<not> occurs True word (redact ?ps s)" for s by (rule redacted_all [OF assms(4,3)])
  then have "\<nexists>a c. redact ?ps s = a @ word @ c \<and> (a = '''' \<or> gap (last a)) \<and> (c = '''' \<or> edge (hd c))" for s
    unfolding occurs_iff by blast
  then have clean: "\<forall>txt \<in> {redact ?ps (trim_space t), redact ?ps (trim_space b)}.
      \<nexists>a c. txt = a @ word @ c \<and> (a = '''' \<or> gap (last a)) \<and> (c = '''' \<or> edge (hd c))" by (simp only: ball_simps simp_thms)
  note posted = file_posted [OF assms(1)]
  show ?thesis
    by (rule exI [of _ "redact ?ps (trim_space t)"], rule exI [of _ "redact ?ps (trim_space b)"])
      (rule conjI [OF conjunct1 [OF posted] conjI [OF conjunct1 [OF conjunct2 [OF posted]]
        conjI [OF clean conjunct2 [OF conjunct2 [OF posted]]]]])
qed

definition house_world :: world where
  "house_world = \<lparr>wd_db = set_setting ''hub.lan_addr'' ''10.0.0.2'' (set_setting ''proposals.token'' ''t'' empty_db),
     wd_notes = []\<rparr>"

definition quiet_repo :: repository where
  "quiet_repo = \<lparr>rp_search = (\<lambda>_ _ _. Inr []), rp_post = (\<lambda>_ _ _ _. Inr ''link'')\<rparr>"

theorem proposals_name_no_machine_witness:
  "\<exists>title body t'. (title, body) \<in> set (fst (snd (file_proposal (\<lambda>_. Some (''https'', ''g'', ''/a/b'')) quiet_repo ''1''
      house_words 0 ''a 10.0.0.2 10.0.0.2'' ''x'' house_world))) \<and> title = proposal_prefix @ t' \<and>
      t' \<noteq> ''a 10.0.0.2 10.0.0.2''"
proof -
  let ?f = "file_proposal (\<lambda>_. Some (''https'', ''g'', ''/a/b'')) quiet_repo ''1'' house_words 0 ''a 10.0.0.2 10.0.0.2'' ''x'' house_world"
  have token: "setting ''proposals.token'' (wd_db house_world) = ''t''"
    "setting ''hub.lan_addr'' (wd_db house_world) = ''10.0.0.2''"
    "setting ''proposals.daily'' (wd_db house_world) = ''''"
    "setting ''proposals.repo'' (wd_db house_world) = ''''" "hosts (wd_db house_world) = []"
    by code_simp+
  have words: "trim_space ''t'' = ''t''" "trim_space ''10.0.0.2'' = ''10.0.0.2''" "trim_space ''x'' = ''x''"
    "trim_space '''' = ''''" "trim_space ''a 10.0.0.2 10.0.0.2'' = ''a 10.0.0.2 10.0.0.2''"
    "parse_int '''' = None" "split_on (CHR ''/'') (trim (\<lambda>c. c = CHR ''/'') ''/a/b'') = [''a'', ''b'']"
    by code_simp+
  have today: "proposals_today 0 (wd_db house_world) = 0"
    by (simp add: proposals_today_def house_world_def set_setting_def empty_db_def affected_def)
  have "set (fst (snd ?f)) \<noteq> {}"
    by (simp add: file_proposal_def Let_def token words today int_setting_def proposal_api_def quiet_repo_def duplicate_of_def)
  then obtain p where "p \<in> set (fst (snd ?f))" unfolding ex_in_conv [symmetric] by (elim exE)
  moreover obtain title body where "p = (title, body)" by (rule prod.exhaust)
  ultimately have posted: "(title, body) \<in> set (fst (snd ?f))" by (simp only:)
  have pw: "plain_word ''10.0.0.2''"
    by (simp add: plain_word_def gap_def word_char_def is_lower_def is_upper_def is_digit_def)
  have "(''10.0.0.2'', ''<hub>'') \<in> set (redactions house_words (wd_db house_world))"
    by (simp add: redactions_def house_words_def token redaction_def words Let_def)
  from proposals_name_no_machine [OF posted subset_refl this pw] obtain t' where
    t: "title = proposal_prefix @ t'"
    "\<nexists>a c. t' = a @ ''10.0.0.2'' @ c \<and> (a = '''' \<or> gap (last a)) \<and> (c = '''' \<or> edge (hd c))" by auto
  have "t' \<noteq> ''a 10.0.0.2 10.0.0.2''"
  proof
    assume "t' = ''a 10.0.0.2 10.0.0.2''"
    then have "t' = ''a '' @ ''10.0.0.2'' @ '' 10.0.0.2''" by simp
    moreover have "gap (last ''a '')" "edge (hd '' 10.0.0.2'')"
      by (simp_all add: gap_def edge_def word_char_def is_lower_def is_upper_def is_digit_def)
    ultimately show False using t(2) by blast
  qed
  with posted t(1) show ?thesis by blast
qed

text \<open>The words are looked for as they are spelt: a machine named in other letters is not taken out.\<close>

theorem other_spelling_stays: "redact [(''nas'', ''<host>'')] ''NAS and nas are slow'' = ''NAS and <host> are slow''"
  by code_simp

end
