(* ===== verification/Backup.thy ===== *)
theory Backup
  imports StoreUsage
begin

text \<open>
  \<open>internal/backup/backup.go\<close>: the state directory as one encrypted file, and back. The directory is a
  list of files by their path below it, with their contents; the place where a restore is staged is a
  second such list. Encryption and the tar format are parameters: \<open>wrap\<close> makes a file of the entries,
  \<open>unwrap\<close> reads one with a passphrase.
\<close>

section \<open>Paths\<close>

text \<open>\<open>path.Clean\<close>.\<close>

fun clean_parts :: "bool \<Rightarrow> string list \<Rightarrow> string list \<Rightarrow> string list" where
  "clean_parts rooted out [] = rev out"
| "clean_parts rooted out (p # ps) =
     (if p = '''' \<or> p = ''.'' then clean_parts rooted out ps
      else if p = ''..'' then
        (case out of
           [] \<Rightarrow> if rooted then clean_parts rooted [] ps else clean_parts rooted [''..''] ps
         | q # qs \<Rightarrow> if q = ''..'' then clean_parts rooted (''..'' # q # qs) ps else clean_parts rooted qs ps)
      else clean_parts rooted (p # out) ps)"

definition path_clean :: "string \<Rightarrow> string" where
  "path_clean s =
     (if s = '''' then ''.''
      else let rooted = (hd s = CHR ''/''); body = join ''/'' (clean_parts rooted [] (split_on (CHR ''/'') s))
           in if rooted then CHR ''/'' # body else if body = '''' then ''.'' else body)"

definition dir_of :: "string \<Rightarrow> string list" where
  "dir_of p = butlast (split_on (CHR ''/'') p)"

definition base_name :: "string \<Rightarrow> string" where
  "base_name p = last (split_on (CHR ''/'') p)"

type_synonym tree = "(string \<times> string) list"

definition put_file_at :: "string \<Rightarrow> string \<Rightarrow> tree \<Rightarrow> tree" where
  "put_file_at p c t = replace_row fst (p, c) t"

text \<open>The order in which \<open>filepath.WalkDir\<close> comes to the files: name by name, directory by directory.\<close>

fun parts_less :: "string list \<Rightarrow> string list \<Rightarrow> bool" where
  "parts_less [] ys = (ys \<noteq> [])"
| "parts_less (x # xs) [] = False"
| "parts_less (x # xs) (y # ys) = (str_less x y \<or> (x = y \<and> parts_less xs ys))"

definition walk_order :: "tree \<Rightarrow> tree" where
  "walk_order t =
     insertion_sort (\<lambda>f g. parts_less (split_on (CHR ''/'') (fst f)) (split_on (CHR ''/'') (fst g))) t"

text \<open>A path that cannot be written because a file stands where it needs a directory, or the other way.\<close>

definition below :: "string \<Rightarrow> string \<Rightarrow> bool" where
  "below d p = has_prefix p (d @ ''/'')"

definition blocked :: "string \<Rightarrow> tree \<Rightarrow> bool" where
  "blocked p t = list_ex (\<lambda>f. below (fst f) p \<or> below p (fst f)) t"

section \<open>The state and its export\<close>

definition state_files :: "string list" where
  "state_files = [''hub_key'', ''hub_key.pub'', ''secrets.key'', ''peer_key'']"

definition skipped_dirs :: "string list" where
  "skipped_dirs = [''bin'', ''windows'', ''cache'', ''logs'']"

definition carried :: "string \<Rightarrow> bool" where
  "carried p =
     (has_prefix p ''omp/'' \<and> (\<forall>d \<in> set (dir_of p). d \<notin> set skipped_dirs) \<and>
      \<not> (has_suffix p ''-wal'' \<or> has_suffix p ''-shm'' \<or> (has_suffix p ''.db'' \<and> base_name p \<noteq> ''agent.db'')))"

record packed =
  pk_name :: string
  pk_regular :: bool
  pk_data :: string

definition file_entry :: "string \<times> string \<Rightarrow> packed" where
  "file_entry f = \<lparr>pk_name = fst f, pk_regular = True, pk_data = snd f\<rparr>"

text \<open>
  The entries: the copy of the database, the loose files that are there, omp's own files. A file of omp's
  that is \<open>gone\<close> when its turn comes ends the walk with an error that is taken for a missing directory.
\<close>

definition pack :: "(string \<Rightarrow> bool) \<Rightarrow> string \<Rightarrow> tree \<Rightarrow> packed list" where
  "pack gone db_copy t =
     map file_entry
       ((''homedash.db'', db_copy) #
        concat (map (\<lambda>f. case map_of t f of None \<Rightarrow> [] | Some c \<Rightarrow> [(f, c)]) state_files) @
        takeWhile (\<lambda>f. \<not> gone (fst f)) (filter (\<lambda>f. carried (fst f)) (walk_order t)))"

definition export_state ::
  "(string \<Rightarrow> packed list \<Rightarrow> 'b) \<Rightarrow> (string \<Rightarrow> bool) \<Rightarrow> string \<Rightarrow> string \<Rightarrow> tree \<Rightarrow> string \<Rightarrow> db \<Rightarrow> 'b res \<times> db" where
  "export_state wrap gone db_copy stamp t passphrase d =
     (if passphrase = '''' then (Inl (Err ''an export needs a passphrase''), d)
      else (Inr (wrap passphrase (pack gone db_copy t)), set_setting ''backup.last'' stamp d))"

definition last_export :: "db \<Rightarrow> string" where
  "last_export d = setting ''backup.last'' d"

section \<open>Staging a restore\<close>

text \<open>
  What opening a file finds: the passphrase does not fit, it is no such file, or entries, after which the
  reading ends well, or with one of the same two errors, or inside an entry.
\<close>

datatype trouble = WrongPassphrase | NotAnExport string | ReadFailed string

definition trouble_text :: "trouble \<Rightarrow> string" where
  "trouble_text x = (case x of WrongPassphrase \<Rightarrow> ''that passphrase does not open this file''
                             | NotAnExport e \<Rightarrow> ''not a HomeDash export: '' @ e
                             | ReadFailed e \<Rightarrow> e)"

definition allowed_entry :: "string \<Rightarrow> bool" where
  "allowed_entry name =
     (name = ''homedash.db'' \<or> name \<in> set state_files \<or>
      (has_prefix name ''omp/'' \<and> \<not> contains_str name ''..'' \<and> \<not> has_prefix name ''/''))"

definition sqlite_magic :: string where
  "sqlite_magic = ''SQLite format 3''"

definition is_sqlite :: "string \<Rightarrow> bool" where
  "is_sqlite c = (length c \<ge> 16 \<and> take 15 c = sqlite_magic)"

definition stage_entry :: "packed \<Rightarrow> tree \<times> bool \<Rightarrow> (tree \<times> bool) res" where
  "stage_entry e acc =
     (case acc of (t, has_db) \<Rightarrow>
        let name = path_clean (pk_name e)
        in if \<not> pk_regular e then Inl (Err (''not a HomeDash export: '' @ pk_name e @ '' is not a file''))
           else if \<not> allowed_entry name then Inl (Err (''not a HomeDash export: unexpected entry '' @ pk_name e))
           else if blocked name t then Inl (Err (''cannot write '' @ name))
           else if name = ''homedash.db'' then
             (if is_sqlite (pk_data e) then Inr (put_file_at name (pk_data e) t, True)
              else Inl (Err ''not a HomeDash export: the database inside is not SQLite''))
           else Inr (put_file_at name (pk_data e) t, has_db))"

fun stage_entries :: "packed list \<Rightarrow> tree \<times> bool \<Rightarrow> (tree \<times> bool) res" where
  "stage_entries [] acc = Inr acc"
| "stage_entries (e # es) acc =
     (case stage_entry e acc of Inl x \<Rightarrow> Inl x | Inr acc' \<Rightarrow> stage_entries es acc')"

record state_dir =
  sd_live :: tree
  sd_pending :: "tree option"

definition stage ::
  "(string \<Rightarrow> 'b \<Rightarrow> trouble + packed list \<times> trouble option) \<Rightarrow> string \<Rightarrow> 'b \<Rightarrow> state_dir \<Rightarrow> err option \<times> state_dir"
where
  "stage unwrap passphrase blob s =
     (if passphrase = '''' then (Some (Err ''a restore needs the passphrase the export was made with''), s)
      else (case unwrap passphrase blob of
              Inl x \<Rightarrow> (Some (Err (trouble_text x)), s)
            | Inr (es, ended) \<Rightarrow>
                (case stage_entries es ([], False) of
                   Inl e \<Rightarrow> (Some e, s\<lparr>sd_pending := None\<rparr>)
                 | Inr (t, has_db) \<Rightarrow>
                     (case ended of
                        Some x \<Rightarrow> (Some (Err (trouble_text x)), s\<lparr>sd_pending := None\<rparr>)
                      | None \<Rightarrow>
                          if \<not> has_db then (Some (Err ''not a HomeDash export: no database inside''), s\<lparr>sd_pending := None\<rparr>)
                          else (None, s\<lparr>sd_pending := Some t\<rparr>)))))"

definition pending :: "state_dir \<Rightarrow> bool" where
  "pending s = (sd_pending s \<noteq> None)"

section \<open>Applying it\<close>

text \<open>
  The staged files over the live ones, in the order of the walk; a file in the way stops it where it is. A
  database loses its journal before it is replaced.
\<close>

definition without_journal :: "string \<Rightarrow> tree \<Rightarrow> tree" where
  "without_journal p live =
     (if has_suffix p ''.db'' then filter (\<lambda>g. fst g \<noteq> p @ ''-wal'' \<and> fst g \<noteq> p @ ''-shm'') live else live)"

definition apply_file :: "string \<times> string \<Rightarrow> tree \<Rightarrow> err option \<times> tree" where
  "apply_file f live =
     (if list_ex (\<lambda>g. below (fst g) (fst f)) live then (Some (Err (''apply restore: '' @ fst f)), live)
      else let live' = without_journal (fst f) live
           in if list_ex (\<lambda>g. below (fst f) (fst g)) live' then (Some (Err (''apply restore: '' @ fst f)), live')
              else (None, put_file_at (fst f) (snd f) live'))"

fun apply_files :: "tree \<Rightarrow> tree \<Rightarrow> err option \<times> tree \<times> tree" where
  "apply_files [] live = (None, [], live)"
| "apply_files (f # fs) live =
     (case apply_file f live of
        (Some e, live') \<Rightarrow> (Some e, f # fs, live')
      | (None, live') \<Rightarrow> apply_files fs live')"

definition apply_restore :: "state_dir \<Rightarrow> bool res \<times> state_dir" where
  "apply_restore s =
     (case sd_pending s of
        None \<Rightarrow> (Inr False, s)
      | Some t \<Rightarrow>
          (case apply_files (walk_order t) (sd_live s) of
             (Some e, rest, live) \<Rightarrow> (Inl e, \<lparr>sd_live = live, sd_pending = Some rest\<rparr>)
           | (None, _, live) \<Rightarrow> (Inr True, \<lparr>sd_live = live, sd_pending = None\<rparr>)))"

end
