(* ===== verification/BackupLaws.thy ===== *)
theory BackupLaws
  imports Backup
begin

text \<open>
  What holds of a backup: an export restored into an empty hub gives the files it carried, and no file
  that claims to be an export can name a path outside the database, the keys and omp's directory. The last
  section shows what is staged though no export holds it, and two files that spoil an export.
\<close>

section \<open>Files that do not get in each other's way\<close>

definition apart :: "string list \<Rightarrow> bool" where
  "apart ps \<longleftrightarrow> distinct ps \<and> (\<forall>p \<in> set ps. \<forall>q \<in> set ps. \<not> below p q)"

definition plain_path :: "string \<Rightarrow> bool" where
  "plain_path p \<longleftrightarrow> path_clean p = p \<and> \<not> contains_str p ''..''"

lemma put_new: "p \<notin> fst ` set t \<Longrightarrow> put_file_at p c t = t @ [(p, c)]"
proof -
  assume "p \<notin> fst ` set t"
  then have "delete_where (\<lambda>x. fst x = p) t = t" by (force simp: delete_where_def filter_id_conv)
  then show ?thesis by (simp add: put_file_at_def replace_row_def)
qed

lemma apart_free:
  assumes "apart (map fst (t @ f # fs))"
  shows "fst f \<notin> fst ` set t" "\<not> blocked (fst f) t" "apart (map fst ((t @ [f]) @ fs))"
  using assms by (auto simp: apart_def blocked_def list_ex_iff)

lemma set_walk_order [simp]: "set (walk_order t) = set t"
  by (simp add: walk_order_def)

lemma mset_walk_order: "mset (map fst (walk_order t)) = mset (map fst t)"
  by (simp add: walk_order_def)

lemma distinct_walk_order [simp]: "distinct (map fst (walk_order t)) = distinct (map fst t)"
  by (rule mset_eq_imp_distinct_iff [OF mset_walk_order])

lemma apart_walk_order: "apart (map fst (walk_order t)) = apart (map fst t)"
  unfolding apart_def using distinct_walk_order [of t] by simp

lemma stage_all:
  assumes "apart (map fst (t @ fs))" and "\<forall>f \<in> set fs. path_clean (fst f) = fst f \<and> allowed_entry (fst f)"
    and "\<forall>f \<in> set fs. fst f = ''homedash.db'' \<longrightarrow> is_sqlite (snd f)"
  shows "stage_entries (map file_entry fs) (t, b) = Inr (t @ fs, b \<or> ''homedash.db'' \<in> fst ` set fs)"
  using assms
proof (induction fs arbitrary: t b)
  case (Cons f fs)
  note free = apart_free [OF Cons.prems(1)]
  have "stage_entry (file_entry f) (t, b) = Inr (t @ [f], b \<or> fst f = ''homedash.db'')"
    using Cons.prems(2,3) free by (cases f) (auto simp: stage_entry_def file_entry_def Let_def put_new)
  with Cons.IH [OF free(3)] Cons.prems(2,3) show ?case by auto
qed simp

lemma apply_all:
  assumes "apart (map fst (t @ fs))" and "\<forall>f \<in> set (t @ fs). \<not> has_suffix (fst f) ''-wal'' \<and> \<not> has_suffix (fst f) ''-shm''"
  shows "apply_files fs t = (None, [], t @ fs)"
  using assms
proof (induction fs arbitrary: t)
  case (Cons f fs)
  note free = apart_free [OF Cons.prems(1)]
  have suffix: "has_suffix (p @ ''-wal'') ''-wal''" "has_suffix (p @ ''-shm'') ''-shm''" for p
    by (simp_all add: has_suffix_def has_prefix_def)
  then have "filter (\<lambda>g. fst g \<noteq> fst f @ ''-wal'' \<and> fst g \<noteq> fst f @ ''-shm'') t = t"
    using Cons.prems(2) by (intro filter_True) (metis Un_iff set_append)
  then have "without_journal (fst f) t = t" by (simp add: without_journal_def)
  then have "apply_file f t = (None, t @ [f])"
    using free by (auto simp: apply_file_def put_new blocked_def list_ex_iff)
  with Cons.IH [OF free(3)] Cons.prems(2) show ?case by auto
qed simp

section \<open>An export that is restored\<close>

definition carried_files :: "string \<Rightarrow> tree \<Rightarrow> tree" where
  "carried_files db_copy t = (''homedash.db'', db_copy) #
     concat (map (\<lambda>f. case map_of t f of None \<Rightarrow> [] | Some c \<Rightarrow> [(f, c)]) state_files) @
     filter (\<lambda>f. carried (fst f)) (walk_order t)"

lemma pack_carried: "pack (\<lambda>_. False) db_copy t = map file_entry (carried_files db_copy t)"
proof -
  have [simp]: "takeWhile (\<lambda>f. True) xs = xs" for xs :: tree by (induction xs) auto
  show ?thesis by (simp add: pack_def carried_files_def)
qed

lemma carried_omp: "carried p \<Longrightarrow> has_prefix p ''omp/''"
  by (simp add: carried_def)

lemma state_file_facts:
  "f \<in> set state_files \<Longrightarrow> path_clean f = f \<and> allowed_entry f \<and> \<not> has_suffix f ''-wal'' \<and> \<not> has_suffix f ''-shm'' \<and>
     \<not> has_prefix f ''omp/'' \<and> f \<noteq> ''homedash.db''"
proof -
  have "\<forall>f \<in> set state_files. path_clean f = f \<and> allowed_entry f \<and> \<not> has_suffix f ''-wal'' \<and> \<not> has_suffix f ''-shm'' \<and>
     \<not> has_prefix f ''omp/'' \<and> f \<noteq> ''homedash.db''" by code_simp
  then show "f \<in> set state_files \<Longrightarrow> ?thesis" by blast
qed

lemma db_facts:
  "path_clean ''homedash.db'' = ''homedash.db''" "allowed_entry ''homedash.db''" "\<not> has_suffix ''homedash.db'' ''-wal''"
  "\<not> has_suffix ''homedash.db'' ''-shm''" "\<not> has_prefix ''homedash.db'' ''omp/''"
  by code_simp+

lemma db_not_carried: "\<not> carried ''homedash.db''"
  using carried_omp db_facts(5) by blast

lemma carried_files_set:
  "f \<in> set (carried_files db_copy t) \<longleftrightarrow> f = (''homedash.db'', db_copy) \<or>
     (fst f \<in> set state_files \<and> map_of t (fst f) = Some (snd f)) \<or> (f \<in> set t \<and> carried (fst f))"
  by (cases f) (auto simp: carried_files_def split: option.splits)

lemma carried_files_ok:
  assumes "\<forall>f \<in> set t. carried (fst f) \<longrightarrow> plain_path (fst f)" and "f \<in> set (carried_files db_copy t)"
  shows "path_clean (fst f) = fst f \<and> allowed_entry (fst f) \<and> \<not> has_suffix (fst f) ''-wal'' \<and> \<not> has_suffix (fst f) ''-shm''"
  using assms(2) unfolding carried_files_set
proof (elim disjE conjE)
  assume "f = (''homedash.db'', db_copy)"
  then show ?thesis by (simp add: db_facts)
next
  assume "fst f \<in> set state_files"
  then show ?thesis using state_file_facts by blast
next
  assume f: "f \<in> set t" "carried (fst f)"
  then have "has_prefix (fst f) ''omp/''" "plain_path (fst f)" using assms(1) carried_omp by auto
  moreover from this(1) have "\<not> has_prefix (fst f) ''/''" by (cases "fst f") (auto simp: has_prefix_def)
  ultimately show ?thesis using f(2) by (simp add: plain_path_def allowed_entry_def carried_def)
qed

lemma carried_files_apart:
  assumes "distinct (map fst t)" and "\<forall>p \<in> fst ` set (carried_files db_copy t). \<forall>q \<in> fst ` set (carried_files db_copy t). \<not> below p q"
  shows "apart (map fst (carried_files db_copy t))"
proof -
  let ?some = "concat (map (\<lambda>f. case map_of t f of None \<Rightarrow> [] | Some c \<Rightarrow> [(f, c)]) state_files)"
  have names: "map fst (concat (map (\<lambda>f. case map_of t f of None \<Rightarrow> [] | Some c \<Rightarrow> [(f, c)]) fs)) =
      filter (\<lambda>f. map_of t f \<noteq> None) fs" for fs
    by (induction fs) (auto split: option.split)
  have "distinct state_files" by (simp add: state_files_def)
  then have "distinct (map fst ?some)" unfolding names by (rule distinct_filter)
  moreover have "distinct (map fst (filter (\<lambda>f. carried (fst f)) (walk_order t)))"
    using assms(1) by (intro distinct_map_filter) simp
  moreover have "set (map fst ?some) \<inter> set (map fst (filter (\<lambda>f. carried (fst f)) (walk_order t))) = {}"
    unfolding names using state_file_facts carried_omp by auto
  moreover have "''homedash.db'' \<notin> set (map fst ?some)" unfolding names using state_file_facts by auto
  moreover have "''homedash.db'' \<notin> set (map fst (filter (\<lambda>f. carried (fst f)) (walk_order t)))"
    using db_not_carried by auto
  ultimately have "distinct (map fst (carried_files db_copy t))" unfolding carried_files_def by simp
  with assms(2) show ?thesis by (simp add: apart_def)
qed

text \<open>
  C9: What an export carries comes back: with the passphrase it was made with, restored into a hub that
  has nothing yet, an export leaves the copy of the database, the keys that were there and omp's own
  files, each with its contents and nothing else. Its files are named without two dots in a row and none
  stands where another needs a directory; the encrypted file is taken to give back its entries.
\<close>

theorem export_comes_back:
  assumes "passphrase \<noteq> ''''" and "\<And>es. unwrap passphrase (wrap passphrase es) = Inr (es, None)"
    and "is_sqlite db_copy" and "distinct (map fst t)" and "\<forall>f \<in> set t. carried (fst f) \<longrightarrow> plain_path (fst f)"
    and "\<forall>p \<in> fst ` set (carried_files db_copy t). \<forall>q \<in> fst ` set (carried_files db_copy t). \<not> below p q"
    and "fst (export_state wrap (\<lambda>_. False) db_copy stamp t passphrase d) = Inr blob"
  shows "fst (stage unwrap passphrase blob \<lparr>sd_live = [], sd_pending = None\<rparr>) = None \<and>
    apply_restore (snd (stage unwrap passphrase blob \<lparr>sd_live = [], sd_pending = None\<rparr>)) =
      (Inr True, \<lparr>sd_live = walk_order (carried_files db_copy t), sd_pending = None\<rparr>)"
proof -
  let ?fs = "carried_files db_copy t"
  have blob: "unwrap passphrase blob = Inr (map file_entry ?fs, None)"
    using assms(1,2,7) by (auto simp: export_state_def pack_carried)
  have apart: "apart (map fst ([] @ ?fs))" using carried_files_apart [OF assms(4,6)] by simp
  have db: "f \<in> set ?fs \<Longrightarrow> fst f = ''homedash.db'' \<longrightarrow> is_sqlite (snd f)" for f
    unfolding carried_files_set using assms(3) state_file_facts db_not_carried by auto
  have has: "''homedash.db'' \<in> fst ` set ?fs" by (simp add: carried_files_def)
  have "stage_entries (map file_entry ?fs) ([], False) = Inr (?fs, True)"
    using stage_all [OF apart, of False] carried_files_ok [OF assms(5)] db has by simp
  then have stage: "stage unwrap passphrase blob \<lparr>sd_live = [], sd_pending = None\<rparr> = (None, \<lparr>sd_live = [], sd_pending = Some ?fs\<rparr>)"
    using assms(1) by (simp add: stage_def blob)
  have apart': "apart (map fst ([] @ walk_order ?fs))" using apart by (simp only: append_Nil apart_walk_order)
  have "apply_files (walk_order ?fs) [] = (None, [], walk_order ?fs)"
    using apply_all [OF apart'] carried_files_ok [OF assms(5)] by simp
  then show ?thesis by (simp add: stage apply_restore_def)
qed

section \<open>A file that claims to be an export\<close>

lemma has_prefix_append: "has_prefix (p @ b) p"
  by (simp add: has_prefix_def strip_prefix_iff)

lemma contains_middle: "contains_str (a @ p @ b) p"
proof (induction a)
  case Nil
  show ?case using has_prefix_append [of p b] by (cases "p @ b") auto
qed simp

lemma split_piece: "w \<in> set (split_on d s) \<Longrightarrow> \<exists>a b. s = a @ w @ b"
proof (induction s arbitrary: w)
  case (Cons c cs)
  obtain v vs where v: "split_on d cs = v # vs" by (cases "split_on d cs") auto
  show ?case
  proof (cases "w \<in> set (split_on d cs)")
    case True
    with Cons.IH obtain a b where "cs = a @ w @ b" by blast
    then show ?thesis by (intro exI [of _ "c # a"] exI [of _ b]) simp
  next
    case False
    with Cons.prems v have "w = '''' \<or> w = c # v" by (auto split: if_split_asm)
    moreover have "\<exists>b. c # cs = (c # v) @ b"
      using join_split_on [of d cs] v by (cases vs) auto
    ultimately show ?thesis by (metis append_Nil)
  qed
qed simp

definition stageable :: "string \<times> string \<Rightarrow> bool" where
  "stageable f \<longleftrightarrow>
     (fst f = ''homedash.db'' \<and> is_sqlite (snd f)) \<or> fst f \<in> set state_files \<or>
     (has_prefix (fst f) ''omp/'' \<and> ''..'' \<notin> set (split_on (CHR ''/'') (fst f)))"

lemma stage_entry_stageable:
  assumes "stage_entry e (t, b) = Inr (t', b')" and "\<forall>f \<in> set t. stageable f"
  shows "\<forall>f \<in> set t'. stageable f"
proof -
  have dots: "\<not> contains_str p ''..'' \<Longrightarrow> ''..'' \<notin> set (split_on (CHR ''/'') p)" for p
    using split_piece contains_middle by metis
  have "t' = put_file_at (path_clean (pk_name e)) (pk_data e) t" "stageable (path_clean (pk_name e), pk_data e)"
    using assms(1) dots by (auto simp: stage_entry_def Let_def stageable_def allowed_entry_def split: if_split_asm)
  with assms(2) show ?thesis by (auto simp: put_file_at_def replace_row_def)
qed

lemma stage_entries_stageable:
  "stage_entries es (t, b) = Inr (t', b') \<Longrightarrow> \<forall>f \<in> set t. stageable f \<Longrightarrow> \<forall>f \<in> set t'. stageable f"
proof (induction es arbitrary: t b)
  case (Cons e es)
  from Cons.prems(1) obtain t1 b1 where e: "stage_entry e (t, b) = Inr (t1, b1)"
    and es: "stage_entries es (t1, b1) = Inr (t', b')" by (auto split: sum.split_asm)
  from Cons.IH [OF es stage_entry_stageable [OF e Cons.prems(2)]] show ?case .
qed simp

lemma stage_entries_names:
  "stage_entries es (t, b) = Inr (t', b') \<Longrightarrow>
     fst ` set t' = fst ` set t \<union> (\<lambda>e. path_clean (pk_name e)) ` set es \<and>
     (b' \<longleftrightarrow> b \<or> ''homedash.db'' \<in> (\<lambda>e. path_clean (pk_name e)) ` set es)"
proof (induction es arbitrary: t b)
  case (Cons e es)
  from Cons.prems obtain t1 b1 where e: "stage_entry e (t, b) = Inr (t1, b1)"
    and es: "stage_entries es (t1, b1) = Inr (t', b')" by (auto split: sum.split_asm)
  have "t1 = put_file_at (path_clean (pk_name e)) (pk_data e) t"
    "b1 \<longleftrightarrow> b \<or> path_clean (pk_name e) = ''homedash.db''"
    using e by (auto simp: stage_entry_def Let_def split: if_split_asm)
  moreover from this(1) have "fst ` set t1 = insert (path_clean (pk_name e)) (fst ` set t)"
    by (force simp: put_file_at_def replace_row_def)
  ultimately show ?case using Cons.IH [OF es] by auto
qed auto

text \<open>
  C28: Whatever a file holds, staging it touches nothing live. What is staged has the cleaned names of the
  file's entries and no others, each of them the database, which is there and is a SQLite file, a loose key
  file, or a path below \<open>omp\<close> with no step up in it; a refused file leaves nothing staged, or what was staged
  before when the passphrase does not open it.
\<close>

theorem staged_paths_stay_inside:
  assumes "stage unwrap passphrase blob s = (e, s')"
  shows "sd_live s' = sd_live s \<and>
    (if e = None
     then \<exists>es t. unwrap passphrase blob = Inr (es, None) \<and> sd_pending s' = Some t \<and>
       fst ` set t = (\<lambda>e. path_clean (pk_name e)) ` set es \<and> ''homedash.db'' \<in> fst ` set t \<and> (\<forall>f \<in> set t. stageable f)
     else sd_pending s' = None \<or> s' = s)"
proof (cases "passphrase = '''' \<or> (\<exists>x. unwrap passphrase blob = Inl x)")
  case True
  with assms show ?thesis by (auto simp: stage_def split: if_split_asm)
next
  case False
  then obtain es ended where u: "unwrap passphrase blob = Inr (es, ended)" "passphrase \<noteq> ''''"
    by (cases "unwrap passphrase blob") auto
  show ?thesis
  proof (cases "stage_entries es ([], False)")
    case (Inl x)
    with assms u show ?thesis by (auto simp: stage_def)
  next
    case (Inr p)
    obtain t b where p: "p = (t, b)" by (cases p)
    note names = stage_entries_names [OF Inr [unfolded p]]
    from Inr p stage_entries_stageable [of es "[]" False t b] have "\<forall>f \<in> set t. stageable f" by simp
    with assms u Inr p names show ?thesis by (auto simp: stage_def split: option.split_asm if_split_asm)
  qed
qed

definition open_box :: "string \<Rightarrow> string \<times> packed list \<Rightarrow> trouble + packed list \<times> trouble option" where
  "open_box p b = (if p = fst b then Inr (snd b, None) else Inl WrongPassphrase)"

theorem staged_paths_stay_inside_witness:
  "\<exists>e s'. stage open_box ''p'' (''p'', [\<lparr>pk_name = ''omp/../../etc/passwd'', pk_regular = True, pk_data = ''x''\<rparr>])
      \<lparr>sd_live = [(''hub_key'', ''k'')], sd_pending = None\<rparr> = (Some e, s') \<and> sd_live s' = [(''hub_key'', ''k'')]"
proof -
  let ?s = "\<lparr>sd_live = [(''hub_key'', ''k'')], sd_pending = None\<rparr>"
  let ?b = "(''p'', [\<lparr>pk_name = ''omp/../../etc/passwd'', pk_regular = True, pk_data = ''x''\<rparr>])"
  have clean: "path_clean ''omp/../../etc/passwd'' = ''../etc/passwd''" "\<not> allowed_entry ''../etc/passwd''"
    by code_simp+
  obtain e s' where st: "stage open_box ''p'' ?b ?s = (e, s')" by (cases "stage open_box ''p'' ?b ?s")
  moreover have "e \<noteq> None" using st by (auto simp: stage_def open_box_def stage_entry_def clean)
  ultimately show ?thesis using staged_paths_stay_inside [OF st] by auto
qed

definition small_state :: tree where
  "small_state = [(''hub_key'', ''k''), (''omp/agent/agent.db'', ''vault''), (''omp/bin/omp'', ''binary'')]"

theorem export_comes_back_witness:
  "\<exists>blob s. fst (export_state Pair (\<lambda>_. False) (sqlite_magic @ ''!'') ''now'' small_state ''p'' empty_db) = Inr blob \<and>
     apply_restore (snd (stage open_box ''p'' blob \<lparr>sd_live = [], sd_pending = None\<rparr>)) = (Inr True, s) \<and>
     map_of (sd_live s) ''omp/agent/agent.db'' = Some ''vault'' \<and> map_of (sd_live s) ''omp/bin/omp'' = None"
proof -
  let ?blob = "(''p'', pack (\<lambda>_. False) (sqlite_magic @ ''!'') small_state)"
  have blob: "fst (export_state Pair (\<lambda>_. False) (sqlite_magic @ ''!'') ''now'' small_state ''p'' empty_db) = Inr ?blob"
    by (simp add: export_state_def)
  have c: "carried ''omp/agent/agent.db''" "\<not> carried ''omp/bin/omp''" "\<not> carried ''hub_key''" by code_simp+
  have pp: "plain_path ''omp/agent/agent.db''" unfolding plain_path_def by code_simp
  have walk: "walk_order small_state = small_state" by code_simp
  have files: "carried_files (sqlite_magic @ ''!'') small_state =
      [(''homedash.db'', sqlite_magic @ ''!''), (''hub_key'', ''k''), (''omp/agent/agent.db'', ''vault'')]"
    by (simp add: carried_files_def walk state_files_def, simp add: small_state_def c)
  have apart: "\<not> below p q" if "p \<in> {''homedash.db'', ''hub_key'', ''omp/agent/agent.db''}"
    "q \<in> {''homedash.db'', ''hub_key'', ''omp/agent/agent.db''}" for p q
    using that by (auto simp: below_def has_prefix_def)
  have "distinct (map fst small_state)" by (simp add: small_state_def)
  moreover have "\<forall>f \<in> set small_state. carried (fst f) \<longrightarrow> plain_path (fst f)" using c pp by (auto simp: small_state_def)
  moreover have "is_sqlite (sqlite_magic @ ''!'')" by (simp add: is_sqlite_def sqlite_magic_def)
  moreover have "\<forall>p \<in> fst ` set (carried_files (sqlite_magic @ ''!'') small_state).
      \<forall>q \<in> fst ` set (carried_files (sqlite_magic @ ''!'') small_state). \<not> below p q"
    unfolding files using apart by simp
  moreover have "\<And>es. open_box ''p'' (''p'', es) = Inr (es, None)" by (simp add: open_box_def)
  moreover have "''p'' \<noteq> ''''" by simp
  ultimately have "apply_restore (snd (stage open_box ''p'' ?blob \<lparr>sd_live = [], sd_pending = None\<rparr>)) =
      (Inr True, \<lparr>sd_live = walk_order (carried_files (sqlite_magic @ ''!'') small_state), sd_pending = None\<rparr>)"
    using export_comes_back [of "''p''" open_box Pair "sqlite_magic @ ''!''" small_state "''now''" empty_db ?blob] blob
    by blast
  moreover have "map_of (walk_order (carried_files (sqlite_magic @ ''!'') small_state)) =
      map_of (carried_files (sqlite_magic @ ''!'') small_state)"
    by (subst map_of_inject_set) (simp_all add: files)
  ultimately show ?thesis using blob files by simp
qed

section \<open>What no export holds\<close>

text \<open>
  A file may carry the program of the agent itself, which no export does: it is staged, and takes the place
  of the one there is.
\<close>

theorem unexported_program_staged:
  assumes "unwrap p blob = Inr ([\<lparr>pk_name = ''homedash.db'', pk_regular = True, pk_data = sqlite_magic @ ''!''\<rparr>,
      \<lparr>pk_name = ''omp/bin/omp'', pk_regular = True, pk_data = c\<rparr>], None)" and "p \<noteq> ''''"
  shows "''omp/bin/omp'' \<notin> pk_name ` set (pack gone db_copy t)"
    and "\<exists>s1 s2. stage unwrap p blob \<lparr>sd_live = [(''omp/bin/omp'', old)], sd_pending = None\<rparr> = (None, s1) \<and>
      apply_restore s1 = (Inr True, s2) \<and> map_of (sd_live s2) ''omp/bin/omp'' = Some c"
proof -
  have not: "\<not> carried ''omp/bin/omp''" by code_simp
  show "''omp/bin/omp'' \<notin> pk_name ` set (pack gone db_copy t)"
    using not by (auto simp: pack_def file_entry_def state_files_def dest!: set_takeWhileD split: option.splits)
  have clean: "path_clean ''homedash.db'' = ''homedash.db''" "path_clean ''omp/bin/omp'' = ''omp/bin/omp''"
    "allowed_entry ''homedash.db''" "allowed_entry ''omp/bin/omp''" "is_sqlite (sqlite_magic @ ''!'')"
    "\<not> below ''omp/bin/omp'' ''homedash.db''" "\<not> below ''homedash.db'' ''omp/bin/omp''" "\<not> below ''omp/bin/omp'' ''omp/bin/omp''"
    "\<not> has_suffix ''omp/bin/omp'' ''.db''" "has_suffix ''homedash.db'' ''.db''"
    by code_simp+
  let ?t = "[(''homedash.db'', sqlite_magic @ ''!''), (''omp/bin/omp'', c)]"
  have walk: "walk_order ?t = ?t"
  proof -
    have "parts_less (split_on (CHR ''/'') ''homedash.db'') (split_on (CHR ''/'') ''omp/bin/omp'')"
      "\<not> parts_less (split_on (CHR ''/'') ''omp/bin/omp'') (split_on (CHR ''/'') ''homedash.db'')" by code_simp+
    then show ?thesis by (simp add: walk_order_def insertion_sort_def)
  qed
  let ?s = "\<lparr>sd_live = [(''omp/bin/omp'', old)], sd_pending = None\<rparr>"
  have "stage unwrap p blob ?s = (None, ?s\<lparr>sd_pending := Some ?t\<rparr>)"
    using assms by (simp add: stage_def stage_entry_def clean blocked_def put_file_at_def replace_row_def delete_where_def)
  moreover have "\<exists>s2. apply_restore (?s\<lparr>sd_pending := Some ?t\<rparr>) = (Inr True, s2) \<and> map_of (sd_live s2) ''omp/bin/omp'' = Some c"
    by (simp add: apply_restore_def walk apply_file_def clean without_journal_def put_file_at_def replace_row_def delete_where_def)
  ultimately show "\<exists>s1 s2. stage unwrap p blob ?s = (None, s1) \<and>
      apply_restore s1 = (Inr True, s2) \<and> map_of (sd_live s2) ''omp/bin/omp'' = Some c"
    by blast
qed

section \<open>Two exports that are spoilt\<close>

lemma stage_entries_allowed:
  "stage_entries es acc = Inr acc' \<Longrightarrow> e \<in> set es \<Longrightarrow> allowed_entry (path_clean (pk_name e))"
proof (induction es arbitrary: acc)
  case (Cons x es)
  then show ?case
    by (cases acc) (auto simp: stage_entry_def Let_def split: sum.split_asm if_split_asm)
qed simp

text \<open>
  A file of omp's with two dots in its name is packed, and the export that holds it is refused by every
  restore: the test for a step up is made on the text of the path and not on its parts.
\<close>

theorem dotted_name_spoils_export:
  assumes "f \<in> set t" "carried (fst f)" "path_clean (fst f) = fst f" "contains_str (fst f) ''..''"
  shows "\<exists>e. stage_entries (pack (\<lambda>_. False) db_copy t) acc = Inl e"
proof (rule ccontr)
  assume "\<nexists>e. stage_entries (pack (\<lambda>_. False) db_copy t) acc = Inl e"
  then obtain acc' where ok: "stage_entries (pack (\<lambda>_. False) db_copy t) acc = Inr acc'"
    by (cases "stage_entries (pack (\<lambda>_. False) db_copy t) acc") auto
  have "file_entry f \<in> set (pack (\<lambda>_. False) db_copy t)"
    using assms(1,2) unfolding pack_carried by (auto simp: carried_files_set)
  from stage_entries_allowed [OF ok this] have "allowed_entry (fst f)" using assms(3) by (simp add: file_entry_def)
  moreover have "fst f \<noteq> ''homedash.db''" "fst f \<notin> set state_files"
    using assms(2) db_not_carried state_file_facts carried_omp by metis+
  ultimately show False using assms(4) by (simp add: allowed_entry_def)
qed

text \<open>
  A file of omp's that is removed while the export is made ends the walk as a missing directory would: the
  files after it are left out, and the export reports success.
\<close>

theorem vanished_file_cuts_export:
  assumes "walk_order t = t1 @ f # t2" "carried (fst f)" "gone (fst f)" "passphrase \<noteq> ''''"
  shows "fst (export_state wrap gone db_copy stamp t passphrase d) =
    Inr (wrap passphrase (map file_entry ((''homedash.db'', db_copy) #
      concat (map (\<lambda>k. case map_of t k of None \<Rightarrow> [] | Some c \<Rightarrow> [(k, c)]) state_files) @
      takeWhile (\<lambda>f. \<not> gone (fst f)) (filter (\<lambda>f. carried (fst f)) t1))))"
proof -
  have "takeWhile (\<lambda>f. \<not> gone (fst f)) (filter (\<lambda>f. carried (fst f)) (t1 @ f # t2)) =
      takeWhile (\<lambda>f. \<not> gone (fst f)) (filter (\<lambda>f. carried (fst f)) t1)"
    using assms(2,3) by (induction t1) auto
  then show ?thesis using assms(1,4) by (simp add: export_state_def pack_def)
qed

end
