(* ===== verification/Panel.thy ===== *)
theory Panel
  imports Fleet StorePeers StoreDevices
begin

text \<open>
  The handlers of \<open>internal/server\<close> that keep rules of their own over the store: the audit log and the
  settings (\<open>server.go\<close>), published services, fronts and the controls over a peer (\<open>peers.go\<close>), the link
  and the ingress a front is reached by (\<open>fronts.go\<close>), devices, secrets and the windows of time the usage
  pages ask for. A handler takes the decoded body (\<open>None\<close> when it does not decode) and answers a page: what
  is sent, nothing, or a status with its text.
\<close>

datatype 'a page = Sent 'a | NoBody | Deny int string

section \<open>Numbers in a query\<close>

text \<open>What \<open>strconv\<close> leaves beside its error: 0 for no number, the nearest end of the range for one too large.\<close>

definition lossy_int :: "string \<Rightarrow> int" where
  "lossy_int s =
     (case parse_int s of
        Some i \<Rightarrow> i
      | None \<Rightarrow>
          (case s of
             [] \<Rightarrow> 0
           | c # cs \<Rightarrow>
               if c = CHR ''-'' then (case parse_nat cs of None \<Rightarrow> 0 | Some n \<Rightarrow> - (2 ^ 63))
               else (case parse_nat (if c = CHR ''+'' then cs else s) of None \<Rightarrow> 0 | Some n \<Rightarrow> 2 ^ 63 - 1)))"

definition usage_hours :: "string \<Rightarrow> int" where
  "usage_hours q = (let hours = lossy_int q in if hours \<le> 0 \<or> hours > 24 * 30 then 24 * 7 else hours)"

section \<open>The audit log\<close>

definition events_limit :: "string \<Rightarrow> nat" where
  "events_limit q =
     (case parse_int q of Some n \<Rightarrow> if n > 0 \<and> n \<le> 500 then nat n else 200 | None \<Rightarrow> 200)"

definition events_page :: "string \<Rightarrow> string \<Rightarrow> db \<Rightarrow> event_row list page" where
  "events_page limit before d =
     Sent (events (if before \<noteq> '''' then lossy_int before else 0) (events_limit limit) d)"

section \<open>Settings\<close>

definition setting_keys :: "string list" where
  "setting_keys =
     [''agent.default_model'', ''agent.remote_model'', ''agent.rounds'', ''agent.rules'', ''jobs.retention'', ''jobs.timeout'',
      ''jobs.memory_max'', ''jobs.cpu_quota'', ''notify.target'', ''notify.disk_percent'', ''network.scan_minutes'',
      ''network.forget_days'', ''hub.lan_addr'', ''router.queue'', ''router.queue_wait'', ''space.name'', ''space.enabled'',
      ''space.serve'', ''space.unknown'', ''space.default_concurrent'', ''space.default_per_hour'', ''space.ceiling'',
      ''space.per_hour'', ''space.connections'', ''space.peer_connections'', ''space.peer_kbps'', ''space.hub_name'',
      ''space.network'', ''space.bootstrap'', ''space.psk'', ''space.reachable'', ''space.port'', ''auth.rpid'',
      ''auth.origins'', ''proposals.repo'', ''proposals.token'', ''proposals.daily'']"

definition bool_setting_keys :: "string list" where
  "bool_setting_keys = [''space.enabled'', ''space.serve'', ''space.reachable'']"

definition model_setting_keys :: "string list" where
  "model_setting_keys = [''agent.default_model'', ''agent.remote_model'']"

definition setting_truthy :: "string \<Rightarrow> bool" where
  "setting_truthy v = (v \<in> {''1'', ''true'', ''on''})"

definition provider_char :: "char \<Rightarrow> bool" where
  "provider_char c = (is_lower c \<or> is_digit c \<or> c \<in> {CHR ''.'', CHR ''_'', CHR ''-''})"

definition agent_model_rx :: rx where
  "agent_model_rx =
     Seq [Bot, Cls provider_char, Star (Cls provider_char), Chr (CHR ''/''), Cls (\<lambda>c. \<not> re_space c), NonSpaces, Eot]"

definition valid_agent_model :: "string \<Rightarrow> bool" where
  "valid_agent_model v = (v = '''' \<or> (length v \<le> 128 \<and> rx_match agent_model_rx v))"

definition token_mask :: string where
  "token_mask = concat (replicate 8 (utf8 8226))"

definition get_settings :: "db \<Rightarrow> (string \<times> string) list" where
  "get_settings d =
     map (\<lambda>k. (k, let v = setting k d in if k = ''proposals.token'' \<and> v \<noteq> '''' then token_mask else v)) setting_keys"

definition model_hint :: string where
  "model_hint = '': blank, or provider/model such as anthropic/claude-sonnet-5 or homedash/qwen2.5:3b''"

definition canonical_value :: "string \<Rightarrow> string \<Rightarrow> string" where
  "canonical_value k v = (if k \<in> set bool_setting_keys then if setting_truthy v then ''true'' else '''' else v)"

definition put_setting :: "string \<Rightarrow> string \<Rightarrow> db \<Rightarrow> (int \<times> string) option \<times> db" where
  "put_setting k v0 d =
     (if k \<notin> set setting_keys then (Some (400, ''unknown setting '' @ k), d)
      else let v = trim_space v0
           in if k = ''proposals.token'' \<and> v = token_mask then (None, d)
              else if k \<in> set model_setting_keys \<and> \<not> valid_agent_model v then (Some (400, k @ model_hint), d)
              else (None, set_setting k (canonical_value k v) d))"

text \<open>The entries come in the order the map is walked in, which Go leaves open.\<close>

fun put_entries :: "(string \<times> string) list \<Rightarrow> db \<Rightarrow> (int \<times> string) option \<times> db" where
  "put_entries [] d = (None, d)"
| "put_entries ((k, v) # kvs) d =
     (case put_setting k v d of
        (Some e, d1) \<Rightarrow> (Some e, d1)
      | (None, d1) \<Rightarrow> put_entries kvs d1)"

text \<open>\<open>context\<close> is whether the file of the person's rules can be written from the store as it is then.\<close>

definition put_settings ::
  "(db \<Rightarrow> bool) \<Rightarrow> (string \<times> string) list option \<Rightarrow> db \<Rightarrow> (string \<times> string) list page \<times> db" where
  "put_settings ctx body d =
     (case body of
        None \<Rightarrow> (Deny 400 ''bad request'', d)
      | Some kvs \<Rightarrow>
          (case put_entries kvs d of
             (Some (status, e), d1) \<Rightarrow> (Deny status e, d1)
           | (None, d1) \<Rightarrow>
               (if ''agent.rules'' \<in> fst ` set kvs \<and> \<not> ctx d1 then Deny 500 ''settings unavailable''
                else Sent (get_settings d1), d1)))"

section \<open>Services\<close>

fun upto_times :: "nat \<Rightarrow> rx \<Rightarrow> rx" where
  "upto_times 0 r = Eps"
| "upto_times (Suc n) r = Opt (Cat r (upto_times n r))"

definition name_start :: "char \<Rightarrow> bool" where
  "name_start c = (is_lower c \<or> is_digit c)"

definition service_name_rx :: rx where
  "service_name_rx =
     Seq [Bot, Cls name_start, upto_times 31 (Cls (\<lambda>c. name_start c \<or> c \<in> {CHR ''_'', CHR ''-''})), Eot]"

definition hostname_label :: rx where
  "hostname_label =
     Seq [Cls name_start,
          Opt (Cat (upto_times 61 (Cls (\<lambda>c. name_start c \<or> c = CHR ''-''))) (Cls name_start)), Chr (CHR ''.'')]"

definition hostname_rx :: rx where
  "hostname_rx =
     Seq [Bot, hostname_label, Star hostname_label, Cls is_lower, Cls is_lower, Star (Cls is_lower), Eot]"

definition refused_ports :: "int list" where
  "refused_ports = [22, 7433]"

record publish_body =
  pb_name :: string
  pb_host :: string
  pb_port :: int
  pb_offered :: "string list"
  pb_replace :: bool

definition vet_service :: "publish_body \<Rightarrow> string option" where
  "vet_service b =
     (if \<not> rx_match service_name_rx (pb_name b) then Some ''a service name is lowercase letters, digits, - and _''
      else if pb_port b < 1 \<or> pb_port b > 65535 then Some ''a service is one port''
      else if pb_port b \<in> set refused_ports then Some ''the hub's and SSH's ports are never published''
      else None)"

definition publish_page :: "publish_body option \<Rightarrow> hub \<Rightarrow> unit page \<times> hub" where
  "publish_page body s =
     (case body of
        None \<Rightarrow> (Deny 400 ''bad request'', s)
      | Some b \<Rightarrow>
          (case vet_service b of
             Some e \<Rightarrow> (Deny 400 e, s)
           | None \<Rightarrow>
               if \<not> pb_replace b \<and> \<not> isl (service (pb_name b) (hb_db s))
               then (Deny 409 (''a service named '' @ pb_name b @ '' is already published; replace: true to replace it''), s)
               else (case host (pb_host b) (hb_db s) of
                       Inl _ \<Rightarrow> (Deny 404 ''no such host'', s)
                     | Inr h \<Rightarrow>
                         (case publish_service (pb_name b) (h_id h) (pb_port b) (pb_offered b) (hb_db s) of
                            Inl _ \<Rightarrow> (Deny 500 ''peers unavailable'', s)
                          | Inr d \<Rightarrow>
                              (NoBody,
                               say ''service.published'' (pb_name b)
                                 (''service '' @ pb_name b @ '' published: '' @ h_name h @ '':'' @ itoa (pb_port b) @ '' to '' @
                                  itoa (int (length (pb_offered b))) @ '' peer(s)'') (s\<lparr>hb_db := d\<rparr>))))))"

definition unpublish_page :: "string \<Rightarrow> hub \<Rightarrow> unit page \<times> hub" where
  "unpublish_page name s =
     (NoBody, say ''service.unpublished'' name (''service '' @ name @ '' unpublished'') (store_do (unpublish_service name) s))"

section \<open>Fronts and peers\<close>

definition front_page :: "string \<Rightarrow> string \<Rightarrow> (bool \<times> string) option \<Rightarrow> hub \<Rightarrow> unit page \<times> hub" where
  "front_page i svc body s =
     (case body of
        None \<Rightarrow> (Deny 400 ''bad request'', s)
      | Some (approved, hostname0) \<Rightarrow>
          let hostname = to_lower (trim_space hostname0)
          in if hostname \<noteq> '''' \<and> \<not> rx_match hostname_rx hostname
             then (Deny 400 ''a hostname is a DNS name pointed at this hub'', s)
             else let s1 = store_do (set_front i svc approved hostname) s
                  in (NoBody,
                      if approved
                      then say ''front.approved'' svc
                             (''fronting '' @ svc @ '' from '' @ i @ '' '' @
                              (if hostname \<noteq> '''' then ''as an ingress at '' @ hostname else ''as a link'')) s1
                      else s1))"

definition peer_page :: "string \<Rightarrow> (bool \<times> int \<times> int) option \<Rightarrow> hub \<Rightarrow> unit page \<times> hub" where
  "peer_page i body s =
     (case body of
        None \<Rightarrow> (Deny 400 ''bad request'', s)
      | Some (approved, max_conc, per_hour) \<Rightarrow>
          if max_conc < 0 then (Deny 400 ''max concurrent must not be negative (0 means none)'', s)
          else if per_hour < 0 then (Deny 400 ''per hour must not be negative (0 means none)'', s)
          else let s1 = store_do (set_peer i approved max_conc per_hour) s
               in (NoBody, if approved then say ''peer.approved'' i (''peer '' @ i @ '' approved'') s1 else s1))"

definition forget_peer_page :: "string \<Rightarrow> hub \<Rightarrow> unit page \<times> hub" where
  "forget_peer_page i s = (NoBody, store_do (forget_peer i) s)"

end
