(* ===== verification/PanelHosts.thy ===== *)
theory PanelHosts
  imports Panel Address
begin

text \<open>
  The handlers of \<open>internal/server/hosts.go\<close>, \<open>devices.go\<close> and \<open>secrets.go\<close>: every request that names a
  machine resolves the name through the store first. A sweep the handler leaves running is made after its
  other effects. Bodies come decoded; what the machines answer is the parameter of \<open>FleetDoor\<close>.
\<close>

section \<open>The machine a request names\<close>

definition on_host :: "string \<Rightarrow> (host_row \<Rightarrow> hub \<Rightarrow> 'a page \<times> hub) \<Rightarrow> hub \<Rightarrow> 'a page \<times> hub" where
  "on_host ref k s =
     (case host ref (hb_db s) of
        Inl _ \<Rightarrow> (Deny 404 ''no such host'', s)
      | Inr h \<Rightarrow> k h s)"

definition hosts_page :: "hub \<Rightarrow> host_row list page" where
  "hosts_page s = Sent (hosts (hb_db s))"

definition host_page :: "string \<Rightarrow> hub \<Rightarrow> host_row page \<times> hub" where
  "host_page ref = on_host ref (\<lambda>h s. (Sent h, s))"

definition remove_page :: "string \<Rightarrow> hub \<Rightarrow> unit page \<times> hub" where
  "remove_page ref = on_host ref (\<lambda>h s.
     (NoBody, say ''host.removed'' (h_name h) (h_name h @ '' was removed from the hub; nothing on the machine changed'')
       (store_do (remove_host (h_id h)) s)))"

section \<open>Enrolling\<close>

definition enrollment_page ::
  "fleet_env \<Rightarrow> instant \<Rightarrow> nat list \<Rightarrow> (string \<times> string) option \<Rightarrow> hub \<Rightarrow> (code_row \<times> string) page \<times> hub" where
  "enrollment_page ev now bytes body s =
     (case body of
        None \<Rightarrow> (Deny 400 ''bad request'', s)
      | Some (name, rebuild_from) \<Rightarrow>
          (case new_code ev now bytes name rebuild_from s of
             (Inl e, s1) \<Rightarrow> (Deny 400 (err_text e), s1)
           | (Inr c, s1) \<Rightarrow> (Sent c, s1)))"

definition mobile_enrollment_page ::
  "fleet_env \<Rightarrow> instant \<Rightarrow> nat list \<Rightarrow> string option \<Rightarrow> hub \<Rightarrow> (code_row \<times> string) page \<times> hub" where
  "mobile_enrollment_page ev now bytes body s =
     (case body of
        None \<Rightarrow> (Deny 400 ''bad request'', s)
      | Some name \<Rightarrow>
          (case new_mobile_code ev now bytes name s of
             (Inl e, s1) \<Rightarrow> (Deny 400 (err_text e), s1)
           | (Inr c, s1) \<Rightarrow> (Sent c, s1)))"

text \<open>The script of the second listener; every refusal is a 404 with nothing to say.\<close>

definition enroll_get :: "fleet_env \<Rightarrow> instant \<Rightarrow> string \<Rightarrow> hub \<Rightarrow> string page" where
  "enroll_get ev now c s =
     (case enroll_script_for ev now c (hb_db s) of
        Inl _ \<Rightarrow> Deny 404 ''404 page not found''
      | Inr script \<Rightarrow> if script = '''' then Deny 404 ''404 page not found'' else Sent script)"

section \<open>Measurements\<close>

definition metrics_page :: "instant \<Rightarrow> string \<Rightarrow> string \<Rightarrow> hub \<Rightarrow> metric_row list page \<times> hub" where
  "metrics_page now ref hours = on_host ref (\<lambda>h s. (Sent (host_metrics now (h_id h) (usage_hours hours) (hb_db s)), s))"

definition host_usage_page :: "instant \<Rightarrow> string \<Rightarrow> string \<Rightarrow> hub \<Rightarrow> usage list page \<times> hub" where
  "host_usage_page now ref hours = on_host ref (\<lambda>h s. (Sent (host_usage now (h_id h) (usage_hours hours) (hb_db s)), s))"

definition totals_page :: "instant \<Rightarrow> string \<Rightarrow> hub \<Rightarrow> usage_total list page" where
  "totals_page now hours s = Sent (usage_totals now (usage_hours hours) (hb_db s))"

section \<open>The lock and the address\<close>

definition lock_note :: string where
  "lock_note =
     ''# HomeDash: lock direct SSH access (set from the panel)'' @ [newline] @
     ''printf '' @ sq @ ''PasswordAuthentication no'' @ bs @ ''nKbdInteractiveAuthentication no'' @ bs @
     ''nPermitRootLogin no'' @ bs @ ''nAllowUsers homedash'' @ bs @ ''n'' @ sq @ '' > '' @ lock_path @
     '' && (systemctl reload ssh || systemctl reload sshd)''"

definition unlock_note :: string where
  "unlock_note =
     ''# HomeDash: unlock direct SSH access (set from the panel)'' @ [newline] @
     ''rm -f '' @ lock_path @ '' && (systemctl reload ssh || systemctl reload sshd)''"

definition lock_page ::
  "fleet_env \<Rightarrow> machine \<Rightarrow> string option \<Rightarrow> turn \<Rightarrow> string \<Rightarrow> bool option \<Rightarrow> hub \<Rightarrow> unit page \<times> hub" where
  "lock_page ev m dial turn ref body = on_host ref (\<lambda>h s.
     (case body of
        None \<Rightarrow> (Deny 400 ''bad request'', s)
      | Some locked \<Rightarrow>
          (case set_lock m dial h locked s of
             (Some e, s1) \<Rightarrow> (Deny 502 (err_text e), s1)
           | (None, s1) \<Rightarrow>
               let s2 = (if locked then say ''host.locked'' (h_name h) (h_name h @ '' locked to the hub's account'') s1
                         else say ''host.unlocked'' (h_name h) (h_name h @ '' unlocked'') s1);
                   s3 = store_do (append_rebuild_script (h_id h) (if locked then lock_note else unlock_note)) s2
               in (NoBody, snd (sweep ev m turn h s3)))))"

definition address_note :: "address \<Rightarrow> string" where
  "address_note a =
     (if ad_cidr a = ''''
      then ''# HomeDash: '' @ ad_iface a @
           '' back on DHCP (set from the panel; re-set from the card's Address section after a rebuild)''
      else ''# HomeDash: '' @ ad_iface a @ '' held at '' @ ad_cidr a @ '' via '' @ ad_gateway a @
           '' (set from the panel; re-set from the card's Address section after a rebuild)'')"

text \<open>\<open>None\<close> is a handler that panics, as the check does on some addresses.\<close>

definition address_page ::
  "fleet_env \<Rightarrow> machine \<Rightarrow> (string \<Rightarrow> ip option) \<Rightarrow> err option \<Rightarrow> (instant \<times> bool \<times> dial) list \<Rightarrow> instant \<Rightarrow> turn \<Rightarrow>
   string \<Rightarrow> address option \<Rightarrow> hub \<Rightarrow> host_row page option \<times> hub" where
  "address_page ev m six launch dials now turn ref body s =
     (case host ref (hb_db s) of
        Inl _ \<Rightarrow> (Some (Deny 404 ''no such host''), s)
      | Inr h \<Rightarrow>
          (case body of
             None \<Rightarrow> (Some (Deny 400 ''bad request''), s)
           | Some a0 \<Rightarrow>
               (case Address.validate six a0 of
                  Refused e \<Rightarrow> (Some (Deny 400 e), s)
                | Panicked \<Rightarrow> (None, s)
                | Accepted a \<Rightarrow>
                    (case set_address six now launch dials h a (hb_db s) of
                       (Crashed, _) \<Rightarrow> (None, s)
                     | (Failed e, _, d, _) \<Rightarrow>
                         (Some (Deny 502 (err_text e)),
                          say ''host.address_refused'' (h_name h)
                            (h_name h @ '': address change not confirmed: '' @ err_text e) (s\<lparr>hb_db := d\<rparr>))
                     | (Done, h1, d, _) \<Rightarrow>
                         let s1 = say ''host.address'' (h_name h)
                                    (if ad_cidr a = '''' then h_name h @ sq @ ''s '' @ ad_iface a @ '' is back on DHCP''
                                     else h_name h @ '' holds '' @ ad_cidr a @ '' on '' @ ad_iface a) (s\<lparr>hb_db := d\<rparr>);
                             s2 = store_do (append_rebuild_script (h_id h) (address_note a)) s1
                         in (case sweep ev m turn h1 s2 of (h2, s3) \<Rightarrow> (Some (Sent h1), s3))))))"

section \<open>A command and a file\<close>

definition door_error :: "err \<Rightarrow> 'a page" where
  "door_error e = (case e of Refusal _ \<Rightarrow> Deny 403 (err_text e) | _ \<Rightarrow> Deny 502 (err_text e))"

definition run_timeout :: "int \<Rightarrow> int" where
  "run_timeout t = (if t \<le> 0 \<or> t > 3600 then 120 else t)"

text \<open>
  The body is the command, its timeout in seconds and whether it needs the forwards; \<open>fw\<close> answers how opening
  them went. The machine is asked with the timeout in seconds.
\<close>

definition run_page ::
  "(int \<Rightarrow> machine) \<Rightarrow> string option \<Rightarrow> string \<Rightarrow> (string \<times> int \<times> bool) option \<Rightarrow> hub \<Rightarrow>
   (int \<times> string \<times> string) page \<times> hub" where
  "run_page m fw ref body = on_host ref (\<lambda>h s.
     (case body of
        None \<Rightarrow> (Deny 400 ''bad request'', s)
      | Some (command, timeout, forwards) \<Rightarrow>
          if trim_space command = '''' then (Deny 400 ''bad request'', s)
          else (case run_gated (m (run_timeout timeout)) h command (if forwards then Some fw else None) s of
                  (Inl e, s1) \<Rightarrow> (door_error e, s1)
                | (Inr r, s1) \<Rightarrow> (Sent r, s1))))"

record file_body =
  fb_path :: string
  fb_content :: string
  fb_mode :: string
  fb_sudo :: bool

definition file_page :: "machine \<Rightarrow> string \<Rightarrow> file_body option \<Rightarrow> hub \<Rightarrow> unit page \<times> hub" where
  "file_page m ref body = on_host ref (\<lambda>h s.
     (case body of
        None \<Rightarrow> (Deny 400 ''bad request'', s)
      | Some b \<Rightarrow>
          if trim_space (fb_path b) = '''' then (Deny 400 ''bad request'', s)
          else (case write_file m h (fb_path b) (fb_content b) (if fb_mode b = '''' then ''0644'' else fb_mode b)
                       (fb_sudo b) s of
                  (Some e, s1) \<Rightarrow> (door_error e, s1)
                | (None, s1) \<Rightarrow> (NoBody, s1))))"

section \<open>Credentials and software\<close>

definition credentials_page ::
  "fleet_env \<Rightarrow> machine \<Rightarrow> string \<Rightarrow> string option \<Rightarrow> string option \<Rightarrow> turn \<Rightarrow> string \<Rightarrow> hub \<Rightarrow> unit page \<times> hub" where
  "credentials_page ev m token dial fw turn ref = on_host ref (\<lambda>h s.
     (case update_credentials ev m token dial fw h s of
        (Some e, s1) \<Rightarrow> (Deny 502 (err_text e), s1)
      | (None, s1) \<Rightarrow> (NoBody, snd (sweep ev m turn h s1))))"

definition revoke_page :: "string \<Rightarrow> string \<Rightarrow> hub \<Rightarrow> unit page \<times> hub" where
  "revoke_page stamp ref = on_host ref (\<lambda>h s. (NoBody, revoke_credentials stamp h s))"

definition reprovision_page ::
  "fleet_env \<Rightarrow> machine \<Rightarrow> turn \<Rightarrow> string \<Rightarrow> string option \<Rightarrow> string option \<Rightarrow> string \<Rightarrow> hub \<Rightarrow> unit page \<times> hub" where
  "reprovision_page ev m turn token dial fw ref = on_host ref (\<lambda>h s.
     (case reprovision ev m turn token dial fw h s of
        (Some e, s1) \<Rightarrow>
          (NoBody, say ''host.reprovision_failed'' (h_name h) (h_name h @ '': re-provision failed: '' @ err_text e) s1)
      | (None, s1) \<Rightarrow> (NoBody, s1)))"

definition update_omp_page :: "fleet_env \<Rightarrow> machine \<Rightarrow> turn \<Rightarrow> string \<Rightarrow> hub \<Rightarrow> unit page \<times> hub" where
  "update_omp_page ev m turn ref = on_host ref (\<lambda>h s.
     (case update_omp ev m turn h s of
        (Some e, s1) \<Rightarrow>
          (NoBody, say ''host.omp_update_failed'' (h_name h) (h_name h @ '': omp update failed: '' @ err_text e) s1)
      | (None, s1) \<Rightarrow> (NoBody, s1)))"

text \<open>
  The body as it was read (\<open>None\<close> if it could not be); \<open>as_text\<close> says whether it is a JSON string and \<open>as_object\<close>
  reads the script of a JSON object.
\<close>

definition rebuild_page ::
  "(string \<Rightarrow> bool) \<Rightarrow> (string \<Rightarrow> string option) \<Rightarrow> string \<Rightarrow> string \<Rightarrow> string option \<Rightarrow> hub \<Rightarrow> unit page \<times> hub" where
  "rebuild_page as_text as_object ref content_type body = on_host ref (\<lambda>h s.
     (case body of
        None \<Rightarrow> (Deny 400 ''bad request'', s)
      | Some b \<Rightarrow>
          if has_prefix content_type ''application/json''
          then (if as_text b then (Deny 400 (''send {'' @ dq @ ''script'' @ dq @ '': '' @ utf8 8230 @ ''}''), s)
                else (case as_object b of
                        None \<Rightarrow> (Deny 400 ''bad request'', s)
                      | Some script \<Rightarrow> (NoBody, store_do (set_rebuild_script (h_id h) script) s)))
          else (NoBody, store_do (set_rebuild_script (h_id h) b) s)))"

definition model_page :: "fleet_env \<Rightarrow> machine \<Rightarrow> turn \<Rightarrow> string \<Rightarrow> string option \<Rightarrow> hub \<Rightarrow> unit page \<times> hub" where
  "model_page ev m turn ref body = on_host ref (\<lambda>h s.
     (case body of
        None \<Rightarrow> (Deny 400 ''bad request'', s)
      | Some mdl0 \<Rightarrow>
          let mdl = trim_space mdl0
          in if \<not> valid_agent_model mdl then (Deny 400 (''model'' @ model_hint), s)
             else (case set_agent_model ev m turn h mdl s of
                     (Some e, s1) \<Rightarrow> (Deny 502 (err_text e), s1)
                   | (None, s1) \<Rightarrow> (NoBody, s1))))"

section \<open>Devices\<close>

definition devices_page :: "hub \<Rightarrow> (device list \<times> (scan_row \<times> string) list) page" where
  "devices_page s = Sent (devices (hb_db s), host_scans (hb_db s))"

text \<open>The device after the change; \<open>None\<close> is the null of a device that is no longer found.\<close>

definition name_device_page :: "string \<Rightarrow> (string \<times> string) option \<Rightarrow> hub \<Rightarrow> device option page \<times> hub" where
  "name_device_page ref body s =
     (case device ref (hb_db s) of
        Inl _ \<Rightarrow> (Deny 404 ''no such device'', s)
      | Inr d \<Rightarrow>
          (case body of
             None \<Rightarrow> (Deny 400 ''bad request'', s)
           | Some (name0, kind) \<Rightarrow>
               let name = trim_space name0
               in if length name > 64 then (Deny 400 ''a device name is at most 64 characters'', s)
                  else let s1 = store_do (name_device (dv_id (d_row d)) name kind) s
                       in (Sent (case device ref (hb_db s1) of Inl _ \<Rightarrow> None | Inr d1 \<Rightarrow> Some d1), s1)))"

definition forget_device_page :: "string \<Rightarrow> hub \<Rightarrow> unit page \<times> hub" where
  "forget_device_page ref s =
     (case device ref (hb_db s) of
        Inl _ \<Rightarrow> (Deny 404 ''no such device'', s)
      | Inr d \<Rightarrow> (NoBody, store_do (forget_device (dv_id (d_row d))) s))"

section \<open>Secrets\<close>

definition secrets_page :: "hub \<Rightarrow> (string \<times> int list) list page" where
  "secrets_page s = Sent (secrets (hb_db s))"

definition grant_text :: "int list \<Rightarrow> string" where
  "grant_text hs = (if hs = [] then ''every host'' else itoa (int (length hs)) @ '' host(s)'')"

definition put_secret_page ::
  "(string \<Rightarrow> string \<Rightarrow> string \<Rightarrow> string \<Rightarrow> string) \<Rightarrow> string \<Rightarrow> instant \<Rightarrow> string \<Rightarrow> string \<Rightarrow>
   (string \<times> int list) option \<Rightarrow> hub \<Rightarrow> unit page \<times> hub" where
  "put_secret_page seal key now nonce name body s =
     (case body of
        None \<Rightarrow> (Deny 400 ''bad request'', s)
      | Some (v, hs) \<Rightarrow>
          (case set_secret seal key now nonce name v hs (hb_db s) of
             Inl e \<Rightarrow> (Deny 400 (err_text e), s)
           | Inr d \<Rightarrow> (NoBody, say ''secret.set'' name (''secret '' @ name @ '' set for '' @ grant_text hs) (s\<lparr>hb_db := d\<rparr>))))"

definition delete_secret_page :: "string \<Rightarrow> hub \<Rightarrow> unit page \<times> hub" where
  "delete_secret_page name s =
     (NoBody, say ''secret.deleted'' name (''secret '' @ name @ '' deleted'') (store_do (delete_secret name) s))"

section \<open>The models a machine runs well\<close>

definition fit_page ::
  "(string \<Rightarrow> (string + fit_row list) option) \<Rightarrow> machine \<Rightarrow> string \<Rightarrow> string \<Rightarrow> hub \<Rightarrow> fit_model list page \<times> hub" where
  "fit_page parse m ref n = on_host ref (\<lambda>h s.
     (case fits parse m h (lossy_int n) s of
        (Inl e, s1) \<Rightarrow> (Deny 502 (err_text e), s1)
      | (Inr ms, s1) \<Rightarrow> (Sent ms, s1)))"

section \<open>The switch of the pool\<close>

definition pool_page :: "string \<Rightarrow> bool option \<Rightarrow> hub \<Rightarrow> unit page \<times> hub" where
  "pool_page ref body = on_host ref (\<lambda>h s.
     (case body of
        None \<Rightarrow> (Deny 400 ''bad request'', s)
      | Some on \<Rightarrow> (NoBody, store_do (set_setting (''pool.disabled.'' @ itoa (h_id h)) (if on then '''' else ''1'')) s)))"

end
