(* ===== verification/PanelWork.thy ===== *)
theory PanelWork
  imports PanelHosts
begin

text \<open>
  The handlers of \<open>internal/server\<close> for what the hub has machines do: jobs (\<open>jobs.go\<close>), tasks (\<open>tasks.go\<close>),
  clusters and workspaces (\<open>storage.go\<close>). Each works on the state of the component it calls; what a handler
  leaves running is beside its page or made after its other effects.
\<close>

section \<open>Jobs\<close>

definition error_page :: "(err \<Rightarrow> int) \<Rightarrow> err \<Rightarrow> 'a page" where
  "error_page status e = Deny (status e) (case e of Offline h \<Rightarrow> h @ '' is offline'' | _ \<Rightarrow> TaskSched.err_text e)"

definition offline_is :: "int \<Rightarrow> int \<Rightarrow> err \<Rightarrow> int" where
  "offline_is yes no e = (case e of Offline _ \<Rightarrow> yes | _ \<Rightarrow> no)"

definition with_id :: "string \<Rightarrow> (int \<Rightarrow> 's \<Rightarrow> 'a page \<times> 's) \<Rightarrow> 's \<Rightarrow> 'a page \<times> 's" where
  "with_id text k s = (case parse_int text of None \<Rightarrow> (Deny 400 ''bad id'', s) | Some i \<Rightarrow> k i s)"

definition jobs_page :: "string \<Rightarrow> world \<Rightarrow> (job_row \<times> string) list page" where
  "jobs_page ref w =
     (if ref = '''' then Sent (jobs 0 200 (wd_db w))
      else (case host ref (wd_db w) of
              Inl _ \<Rightarrow> Deny 404 ''no such host''
            | Inr h \<Rightarrow> Sent (jobs (h_id h) 200 (wd_db w))))"

record job_body =
  jb_host :: string
  jb_cwd :: string
  jb_text :: string
  jb_window :: int

text \<open>The answer is the job with the prompt of its first round.\<close>

definition start_job_page ::
  "string \<Rightarrow> instant \<Rightarrow> string option \<Rightarrow> (string \<Rightarrow> bool) \<Rightarrow> job_body option \<Rightarrow> world \<Rightarrow>
   ((job_row \<times> string) \<times> string) page \<times> world" where
  "start_job_page instruction now dial dir_there body w =
     (case body of
        None \<Rightarrow> (Deny 400 ''bad request'', w)
      | Some b \<Rightarrow>
          (case host (jb_host b) (wd_db w) of
             Inl _ \<Rightarrow> (Deny 404 ''no such host'', w)
           | Inr h \<Rightarrow>
               (case AgentJobs.start instruction now dial dir_there h (jb_cwd b) (jb_text b) (jb_window b) w of
                  (Inl e, w1) \<Rightarrow> (error_page (offline_is 409 400) e, w1)
                | (Inr j, w1) \<Rightarrow> (Sent j, w1))))"

definition job_page :: "string \<Rightarrow> world \<Rightarrow> (job_row \<times> string) page \<times> world" where
  "job_page text = with_id text (\<lambda>i w.
     (case job i (wd_db w) of Inl _ \<Rightarrow> (Deny 404 ''no such job'', w) | Inr j \<Rightarrow> (Sent j, w)))"

definition job_events_page :: "string \<Rightarrow> string \<Rightarrow> world \<Rightarrow> job_event_row list page \<times> world" where
  "job_events_page text after = with_id text (\<lambda>i w. (Sent (job_events i (lossy_int after) 500 (wd_db w)), w))"

definition rollback_page ::
  "string option \<Rightarrow> string + string \<Rightarrow> string \<Rightarrow> world \<Rightarrow> (job_row \<times> string) page \<times> world" where
  "rollback_page dial outcome text = with_id text (\<lambda>i w.
     (case rollback dial outcome i w of
        (Inl e, w1) \<Rightarrow> (error_page (\<lambda>_. 400) e, w1) | (Inr j, w1) \<Rightarrow> (Sent j, w1)))"

text \<open>Beside the page, what is left running: the unit to stop, the round to run.\<close>

definition kill_page ::
  "instant \<Rightarrow> bool \<Rightarrow> string \<Rightarrow> world \<Rightarrow> (job_row \<times> string) page \<times> string option \<times> world" where
  "kill_page now connects text w =
     (case parse_int text of
        None \<Rightarrow> (Deny 400 ''bad id'', None, w)
      | Some i \<Rightarrow>
          (case kill now connects i w of
             ((Inl e, u), w1) \<Rightarrow> (error_page (\<lambda>_. 400) e, u, w1) | ((Inr j, u), w1) \<Rightarrow> (Sent j, u, w1)))"

definition correct_page ::
  "instant \<Rightarrow> string \<Rightarrow> string option \<Rightarrow> world \<Rightarrow> (job_row \<times> string) page \<times> (job_row \<times> host_row \<times> string) option \<times> world" where
  "correct_page now text body w =
     (case parse_int text of
        None \<Rightarrow> (Deny 400 ''bad id'', None, w)
      | Some i \<Rightarrow>
          (case body of
             None \<Rightarrow> (Deny 400 ''bad request'', None, w)
           | Some txt \<Rightarrow>
               (case correct now i w of
                  ((Inl e, r), w1) \<Rightarrow> (error_page (\<lambda>_. 400) e, map_option (\<lambda>(j, h). (j, h, txt)) r, w1)
                | ((Inr j, r), w1) \<Rightarrow> (Sent j, map_option (\<lambda>(j, h). (j, h, txt)) r, w1))))"

definition clear_page :: "world \<Rightarrow> nat page \<times> world" where
  "clear_page w = (case clear w of (n, w1) \<Rightarrow> (Sent n, w1))"

section \<open>Tasks\<close>

text \<open>The body is the task and, apart from it, the timeout if one was sent.\<close>

definition task_timeout :: "int option \<Rightarrow> string + int" where
  "task_timeout t =
     (case t of
        None \<Rightarrow> Inr 0
      | Some n \<Rightarrow>
          if n < 1 then Inl ''a task's timeout is at least 1 second (blank: 600)''
          else if n > 86400 then Inl ''a task's timeout is at most 86400 seconds (a day)''
          else Inr n)"

definition save_task_page ::
  "(string \<Rightarrow> string option) \<Rightarrow> (string \<Rightarrow> int \<Rightarrow> 'c \<Rightarrow> (nat \<times> 'c) option) \<Rightarrow> (nat \<Rightarrow> 'c \<Rightarrow> 'c) \<Rightarrow> nat \<Rightarrow> instant \<Rightarrow>
   string \<Rightarrow> (task_input \<times> int option) option \<Rightarrow> 'c sched \<Rightarrow> (task_row \<times> string) page \<times> 'c sched" where
  "save_task_page parses add remove calls now i body s =
     (case body of
        None \<Rightarrow> (Deny 400 ''bad request'', s)
      | Some (t0, timeout) \<Rightarrow>
          let t = (if i \<noteq> '''' then t0\<lparr>ti_id := lossy_int i\<rparr> else t0)
          in (case task_timeout timeout of
                Inl e \<Rightarrow> (Deny 400 e, s)
              | Inr n \<Rightarrow>
                  (case save parses add remove calls now (t\<lparr>ti_timeout := n\<rparr>) s of
                     (Inl e, s1) \<Rightarrow> (error_page (\<lambda>_. 400) e, s1)
                   | (Inr saved, s1) \<Rightarrow> (Sent saved, s1))))"

definition delete_task_page :: "(nat \<Rightarrow> 'c \<Rightarrow> 'c) \<Rightarrow> nat \<Rightarrow> string \<Rightarrow> 'c sched \<Rightarrow> unit page \<times> 'c sched" where
  "delete_task_page remove calls i s =
     (case TaskSched.delete remove calls (lossy_int i) s of
        (Some e, s1) \<Rightarrow> (Deny 500 ''tasks unavailable'', s1)
      | (None, s1) \<Rightarrow> (NoBody, s1))"

text \<open>A fire by hand is left running; nothing is sent for a task that is off.\<close>

definition run_task_page ::
  "exec \<Rightarrow> (host_row \<Rightarrow> instant \<times> instant) \<Rightarrow> instant \<Rightarrow> string \<Rightarrow> 'c sched \<Rightarrow> unit page \<times> 'c sched" where
  "run_task_page exec clocked now i s =
     (case task (lossy_int i) (sc_db s) of
        Inl _ \<Rightarrow> (Deny 404 ''no such task'', s)
      | Inr (t, _) \<Rightarrow>
          if \<not> t_enabled t then (Deny 409 ''task is off'', s) else (NoBody, fire exec clocked now (lossy_int i) s))"

section \<open>Clusters and workspaces\<close>

record cluster_body =
  cb_name :: string
  cb_gateway :: string
  cb_path :: string
  cb_members :: "(string \<times> string) list"

text \<open>The machines a list of members names, or the first name that is none.\<close>

fun named_members :: "(string \<times> string) list \<Rightarrow> db \<Rightarrow> string + (int \<times> string) list" where
  "named_members [] d = Inr []"
| "named_members (m # ms) d =
     (case host (fst m) d of
        Inl _ \<Rightarrow> Inl (fst m)
      | Inr h \<Rightarrow> (case named_members ms d of Inl e \<Rightarrow> Inl e | Inr rest \<Rightarrow> Inr ((h_id h, snd m) # rest)))"

fun named_hosts :: "string list \<Rightarrow> db \<Rightarrow> string + host_row list" where
  "named_hosts [] d = Inr []"
| "named_hosts (ref # refs) d =
     (case host ref d of
        Inl _ \<Rightarrow> Inl ref
      | Inr h \<Rightarrow> (case named_hosts refs d of Inl e \<Rightarrow> Inl e | Inr hs \<Rightarrow> Inr (h # hs)))"

definition cluster_page :: "run \<Rightarrow> cluster_body option \<Rightarrow> site \<Rightarrow> cluster page \<times> site" where
  "cluster_page run body s =
     (case body of
        None \<Rightarrow> (Deny 400 ''bad request'', s)
      | Some b \<Rightarrow>
          (case host (cb_gateway b) (si_db s) of
             Inl _ \<Rightarrow> (Deny 404 ''no such gateway host'', s)
           | Inr gw \<Rightarrow>
               (case named_members (cb_members b) (si_db s) of
                  Inl ref \<Rightarrow> (Deny 404 (''no such host '' @ ref), s)
                | Inr ms \<Rightarrow>
                    (case create run (cb_name b) gw (cb_path b) ms s of
                       (Inl e, s1) \<Rightarrow> (error_page (\<lambda>_. 400) e, s1)
                     | (Inr c, s1) \<Rightarrow> (Sent c, s1)))))"

definition done_page :: "int \<Rightarrow> err option \<times> 's \<Rightarrow> unit page \<times> 's" where
  "done_page status r = (case r of (Some e, s) \<Rightarrow> (error_page (\<lambda>_. status) e, s) | (None, s) \<Rightarrow> (NoBody, s))"

definition on_cluster :: "string \<Rightarrow> (cluster \<Rightarrow> site \<Rightarrow> 'a page \<times> site) \<Rightarrow> site \<Rightarrow> 'a page \<times> site" where
  "on_cluster i k s =
     (case cluster (lossy_int i) (si_db s) of Inl _ \<Rightarrow> (Deny 404 ''no such cluster'', s) | Inr c \<Rightarrow> k c s)"

definition on_workspace :: "string \<Rightarrow> (workspace \<Rightarrow> site \<Rightarrow> 'a page \<times> site) \<Rightarrow> site \<Rightarrow> 'a page \<times> site" where
  "on_workspace i k s =
     (case workspace (lossy_int i) (si_db s) of Inl _ \<Rightarrow> (Deny 404 ''no such workspace'', s) | Inr w \<Rightarrow> k w s)"

definition add_member_page :: "run \<Rightarrow> string \<Rightarrow> (string \<times> string) option \<Rightarrow> site \<Rightarrow> unit page \<times> site" where
  "add_member_page run i body = on_cluster i (\<lambda>c s.
     (case body of
        None \<Rightarrow> (Deny 400 ''bad request'', s)
      | Some (ref, path) \<Rightarrow>
          (case host ref (si_db s) of
             Inl _ \<Rightarrow> (Deny 404 ''no such host'', s)
           | Inr h \<Rightarrow> done_page 400 (grow run c h path s))))"

definition remove_member_page :: "run \<Rightarrow> string \<Rightarrow> string \<Rightarrow> site \<Rightarrow> unit page \<times> site" where
  "remove_member_page run i member = on_cluster i (\<lambda>c s. done_page 400 (shrink run c (lossy_int member) s))"

definition delete_cluster_page :: "run \<Rightarrow> string \<Rightarrow> site \<Rightarrow> unit page \<times> site" where
  "delete_cluster_page run i = on_cluster i (\<lambda>c s. (NoBody, tear_down run c s))"

definition workspace_page ::
  "(string \<Rightarrow> string) \<Rightarrow> run \<Rightarrow> (string \<times> string \<times> string list) option \<Rightarrow> site \<Rightarrow> workspace page \<times> site" where
  "workspace_page sha run body s =
     (case body of
        None \<Rightarrow> (Deny 400 ''bad request'', s)
      | Some (name, cname, refs) \<Rightarrow>
          (case cluster_by_name cname (si_db s) of
             Inl _ \<Rightarrow> (Deny 404 ''no such cluster'', s)
           | Inr c \<Rightarrow>
               (case named_hosts refs (si_db s) of
                  Inl ref \<Rightarrow> (Deny 404 (''no such host '' @ ref), s)
                | Inr hs \<Rightarrow>
                    (case create_ws sha run c name hs s of
                       (Inl e, s1) \<Rightarrow> (error_page (\<lambda>_. 400) e, s1)
                     | (Inr w, s1) \<Rightarrow> (Sent w, s1)))))"

definition delete_workspace_page :: "run \<Rightarrow> string \<Rightarrow> site \<Rightarrow> unit page \<times> site" where
  "delete_workspace_page run i = on_workspace i (\<lambda>w s. done_page 502 (delete_ws run w s))"

definition add_ws_member_page ::
  "(string \<Rightarrow> string) \<Rightarrow> run \<Rightarrow> string \<Rightarrow> string option \<Rightarrow> site \<Rightarrow> unit page \<times> site" where
  "add_ws_member_page sha run i body = on_workspace i (\<lambda>w s.
     (case body of
        None \<Rightarrow> (Deny 400 ''bad request'', s)
      | Some ref \<Rightarrow>
          (case host ref (si_db s) of
             Inl _ \<Rightarrow> (Deny 404 ''no such host'', s)
           | Inr h \<Rightarrow> done_page 400 (add_ws_member sha run w h s))))"

definition remove_ws_member_page :: "(string \<Rightarrow> string) \<Rightarrow> run \<Rightarrow> string \<Rightarrow> string \<Rightarrow> site \<Rightarrow> unit page \<times> site" where
  "remove_ws_member_page sha run i ref = on_workspace i (\<lambda>w s.
     (case host ref (si_db s) of
        Inl _ \<Rightarrow> (Deny 404 ''no such host'', s)
      | Inr h \<Rightarrow> done_page 400 (remove_ws_member sha run w h s)))"

end
