(* ===== verification/PanelDesk.thy ===== *)
theory PanelDesk
  imports PanelWork Apps Peers AgentWindow Backup PanelAuth
begin

text \<open>
  The handlers of \<open>internal/server\<close> for stacks (\<open>apps.go\<close>), the grid of models (\<open>pool.go\<close>), the agent's
  sessions and their terminals (\<open>agents.go\<close>), the caller of the router (\<open>usage.go\<close>), the export and the
  restore (\<open>backup.go\<close>).
\<close>

section \<open>Stacks\<close>

definition stacks_page ::
  "(string \<Rightarrow> (string \<times> string \<times> string) list) \<Rightarrow> (string \<Rightarrow> (container \<times> string) option) \<Rightarrow> machine \<Rightarrow> hub \<Rightarrow>
   (stack list \<times> string list) page \<times> hub" where
  "stacks_page projects line m s = (case list_stacks projects line m s of (r, s1) \<Rightarrow> (Sent r, s1))"

definition catalog_page :: "(string \<Rightarrow> entry option) \<Rightarrow> hub \<Rightarrow> entry list page" where
  "catalog_page dec s = Sent (catalog dec (hb_db s))"

definition add_catalog_page :: "(entry \<Rightarrow> string) \<Rightarrow> entry option \<Rightarrow> hub \<Rightarrow> unit page \<times> hub" where
  "add_catalog_page enc body s =
     (case body of
        None \<Rightarrow> (Deny 400 ''bad request'', s)
      | Some e \<Rightarrow>
          (case add_catalog_entry enc e (hb_db s) of
             Inl x \<Rightarrow> (error_page (\<lambda>_. 400) x, s) | Inr d \<Rightarrow> (NoBody, s\<lparr>hb_db := d\<rparr>)))"

definition delete_catalog_page :: "(string \<Rightarrow> entry option) \<Rightarrow> string \<Rightarrow> hub \<Rightarrow> unit page \<times> hub" where
  "delete_catalog_page dec name s =
     (case delete_catalog dec name (hb_db s) of
        Inl x \<Rightarrow> (error_page (\<lambda>_. 404) x, s) | Inr d \<Rightarrow> (NoBody, s\<lparr>hb_db := d\<rparr>))"

record deploy_body =
  db_name :: string
  db_compose :: string
  db_env :: string
  db_files :: "setup_file list"
  db_commands :: "string list"

text \<open>A person's deployment: the compose gate warns and does not refuse.\<close>

definition deploy_page :: "machine \<Rightarrow> string \<Rightarrow> deploy_body option \<Rightarrow> hub \<Rightarrow> (string \<times> string) page \<times> hub" where
  "deploy_page m ref body = on_host ref (\<lambda>h s.
     (case body of
        None \<Rightarrow> (Deny 400 ''bad request'', s)
      | Some b \<Rightarrow>
          (case deploy m h (db_name b) (db_compose b) (db_env b) (db_files b) (db_commands b) False s of
             ((out, warning, Some e), s1) \<Rightarrow>
               ((case e of Offline _ \<Rightarrow> error_page (\<lambda>_. 409) e
                         | _ \<Rightarrow> Deny 502 (TaskSched.err_text e @ [newline] @ out)), s1)
           | ((out, warning, None), s1) \<Rightarrow> (Sent (out, warning), s1))))"

definition action_page :: "machine \<Rightarrow> string \<Rightarrow> string \<Rightarrow> (string \<times> bool) option \<Rightarrow> hub \<Rightarrow> string page \<times> hub" where
  "action_page m ref name body = on_host ref (\<lambda>h s.
     (case body of
        None \<Rightarrow> (Deny 400 ''bad request'', s)
      | Some (action, volumes) \<Rightarrow>
          (case act m h name action volumes s of
             ((out, Some e), s1) \<Rightarrow>
               ((case e of Offline _ \<Rightarrow> error_page (\<lambda>_. 409) e
                         | _ \<Rightarrow> Deny 502 (TaskSched.err_text e @ [newline] @ out)), s1)
           | ((out, None), s1) \<Rightarrow> (Sent out, s1))))"

definition stack_file_page :: "machine \<Rightarrow> string \<Rightarrow> string \<Rightarrow> hub \<Rightarrow> (string \<times> string) page \<times> hub" where
  "stack_file_page m ref name = on_host ref (\<lambda>h s.
     (case stack_file m h name s of
        (Inl e, s1) \<Rightarrow> (error_page (\<lambda>_. 502) e, s1) | (Inr r, s1) \<Rightarrow> (Sent r, s1)))"

definition logs_page :: "machine \<Rightarrow> string \<Rightarrow> string \<Rightarrow> string \<Rightarrow> hub \<Rightarrow> string page \<times> hub" where
  "logs_page m ref name n = on_host ref (\<lambda>h s.
     (case logs m h name (lossy_int n) s of
        ((out, Some e), s1) \<Rightarrow> (error_page (\<lambda>_. 502) e, s1) | ((out, None), s1) \<Rightarrow> (Sent out, s1)))"

section \<open>The grid of models\<close>

record column =
  co_host :: string
  co_id :: int
  co_online :: bool
  co_busy :: bool
  co_models :: "string list"
  co_enabled :: bool
  co_peer :: bool

record peer_column =
  pc_id :: string
  pc_name :: string
  pc_connected :: bool
  pc_offer :: "(bool \<times> string list) option"

definition own_column :: "Pool.machine \<Rightarrow> column" where
  "own_column m =
     \<lparr>co_host = mc_host m, co_id = mc_id m, co_online = mc_online m, co_busy = mc_busy m,
      co_models = map mo_name (mc_models m), co_enabled = mc_enabled m, co_peer = False\<rparr>"

text \<open>A peer's offer, if it names a model, as a column that belongs to no machine of the hub.\<close>

definition peer_column :: "peer_column \<Rightarrow> column list" where
  "peer_column p =
     (case pc_offer p of
        None \<Rightarrow> []
      | Some (free, ms) \<Rightarrow>
          if ms = [] then []
          else [\<lparr>co_host = (if pc_name p = '''' then pc_id p else pc_name p), co_id = 0, co_online = pc_connected p,
                 co_busy = (\<not> free), co_models = ms, co_enabled = False, co_peer = True\<rparr>])"

definition grid_page ::
  "instant \<Rightarrow> (host_row \<Rightarrow> model list res) \<Rightarrow> peer_column list \<Rightarrow> db \<Rightarrow> pool \<Rightarrow> column list page \<times> pool" where
  "grid_page now fetch ps d p =
     (case grid d now fetch p of (ms, p1) \<Rightarrow> (Sent (map own_column ms @ concat (map peer_column ps)), p1))"

section \<open>Sessions\<close>

record listed_session =
  ls_row :: window_row
  ls_live :: bool

definition sessions_page :: "desk \<Rightarrow> listed_session list page" where
  "sessions_page s = Sent (map (\<lambda>w. \<lparr>ls_row = w, ls_live = (live_win (w_id w) s \<noteq> None)\<rparr>) (windows (dk_db s)))"

definition open_page ::
  "nat \<Rightarrow> (string \<Rightarrow> string option) \<Rightarrow> instant \<Rightarrow> (nat \<times> nat) list \<Rightarrow> desk \<Rightarrow> (window_row page \<times> desk) option" where
  "open_page calls launch now draws s =
     (case open_window calls launch now draws s of
        None \<Rightarrow> None
      | Some (Inl e, s1) \<Rightarrow> Some (error_page (\<lambda>_. 503) e, s1)
      | Some (Inr w, s1) \<Rightarrow> Some (Sent w, s1))"

definition history_page :: "string \<Rightarrow> desk \<Rightarrow> string page \<times> desk" where
  "history_page i = with_id i (\<lambda>i s.
     (if live_win i s \<noteq> None then Deny 409 ''session is still running''
      else (case window_scrollback i (dk_db s) of
              Inl _ \<Rightarrow> Deny 404 ''no such session''
            | Inr b \<Rightarrow> Sent (case b of None \<Rightarrow> '''' | Some txt \<Rightarrow> txt)), s))"

definition close_page :: "instant \<Rightarrow> string \<Rightarrow> desk \<Rightarrow> unit page \<times> desk" where
  "close_page now i = with_id i (\<lambda>i s. (NoBody, close_window now i s))"

definition clear_sessions_page :: "desk \<Rightarrow> nat page \<times> desk" where
  "clear_sessions_page s = (case clear_history s of (n, s1) \<Rightarrow> (Sent n, s1))"

definition delete_session_page :: "instant \<Rightarrow> string \<Rightarrow> desk \<Rightarrow> unit page \<times> desk" where
  "delete_session_page now i = with_id i (\<lambda>i s.
     (case delete_session now i s of
        (Some NoRows, s1) \<Rightarrow> (Deny 404 ''no such session'', s1)
      | (Some _, s1) \<Rightarrow> (Deny 500 ''could not delete the session'', s1)
      | (None, s1) \<Rightarrow> (NoBody, s1)))"

text \<open>
  What a socket on a session sends: keys, a new size, or a message that is neither. Who is not an admin reads
  along only; a caller without an account is taken for one who may write. The answer is what reaches the
  process: bytes, a size, or nothing.
\<close>

datatype frame = Keys string | Sized nat nat | Other

datatype reached = Typed string | Resized nat nat | Nothing

definition read_only :: "who option \<Rightarrow> bool" where
  "read_only u = (case u of None \<Rightarrow> False | Some w \<Rightarrow> wh_role w \<noteq> ''admin'')"

definition pty_frame :: "bool \<Rightarrow> frame \<Rightarrow> reached" where
  "pty_frame ro f =
     (if ro then Nothing
      else case f of
        Keys b \<Rightarrow> Typed b
      | Sized cols rows \<Rightarrow> (case resize cols rows of None \<Rightarrow> Nothing | Some (c, r) \<Rightarrow> Resized c r)
      | Other \<Rightarrow> Nothing)"

section \<open>The caller of the router\<close>

definition caller_name :: "who option \<Rightarrow> string" where
  "caller_name u =
     (case u of
        None \<Rightarrow> ''''
      | Some w \<Rightarrow> if wh_name w = ''token:hub-agent'' then ''hub'' else ''client:'' @ trim_prefix (wh_name w) ''token:'')"

definition caller_headers :: "who option \<Rightarrow> (string \<rightharpoonup> string) \<Rightarrow> (string \<rightharpoonup> string)" where
  "caller_headers u hs = hs(''X-HomeDash-Caller'' \<mapsto> caller_name u)"

section \<open>Export and restore\<close>

definition export_page ::
  "(string \<Rightarrow> packed list \<Rightarrow> 'b) \<Rightarrow> (string \<Rightarrow> bool) \<Rightarrow> string \<Rightarrow> string \<Rightarrow> tree \<Rightarrow> string \<Rightarrow> hub \<Rightarrow> 'b page \<times> hub" where
  "export_page wrap gone db_copy stamp t passphrase s =
     (if trim_space passphrase = '''' then (Deny 400 ''an export needs a passphrase'', s)
      else (case export_state wrap gone db_copy stamp t passphrase (hb_db s) of
              (Inl e, d) \<Rightarrow> (error_page (\<lambda>_. 500) e, s\<lparr>hb_db := d\<rparr>)
            | (Inr blob, d) \<Rightarrow>
                (Sent blob, say ''backup.export'' ''backup'' ''the state directory was exported'' (s\<lparr>hb_db := d\<rparr>))))"

text \<open>The upload with its passphrase, if there is one; the last component says that the hub restarts.\<close>

definition restore_page ::
  "(string \<Rightarrow> 'b \<Rightarrow> trouble + packed list \<times> trouble option) \<Rightarrow> (string \<times> 'b) option \<Rightarrow> state_dir \<times> hub \<Rightarrow>
   unit page \<times> (state_dir \<times> hub) \<times> bool" where
  "restore_page unwrap body = (\<lambda>(sd, s).
     (case body of
        None \<Rightarrow> (Deny 400 ''send the export as multipart: file and passphrase'', (sd, s), False)
      | Some (passphrase, blob) \<Rightarrow>
          (case stage unwrap passphrase blob sd of
             (Some e, sd1) \<Rightarrow> (error_page (\<lambda>_. 400) e, (sd1, s), False)
           | (None, sd1) \<Rightarrow>
               (NoBody, (sd1, say ''backup.restore'' ''backup''
                           ''an export was staged; the hub is restarting to apply it'' s), True))))"

end
