(* ===== verification/Tools.thy ===== *)
theory Tools
  imports PanelDesk
begin

text \<open>
  The tools of \<open>internal/mcp\<close> (\<open>mcp.go\<close>, \<open>hosts.go\<close>, \<open>devices.go\<close>, \<open>jobs.go\<close>, \<open>storage.go\<close>); those of \<open>apps.go\<close> are
  in \<open>Apps\<close>, and \<open>propose\<close> passes its text to \<open>Proposals\<close> as it is. A tool that names a machine resolves the
  name first; its answer is a result or an error.
\<close>

section \<open>Events and machines\<close>

definition list_events_tool :: "int \<Rightarrow> db \<Rightarrow> event_row list" where
  "list_events_tool limit d = events 0 (nat (if limit \<le> 0 \<or> limit > 500 then 100 else limit)) d"

record host_view =
  hv_id :: int
  hv_name :: string
  hv_addr :: string
  hv_status :: string
  hv_facts :: facts
  hv_last_seen :: "int option"

definition view_host :: "host_row \<Rightarrow> host_view" where
  "view_host h =
     \<lparr>hv_id = h_id h, hv_name = h_name h, hv_addr = h_addr h, hv_status = h_status h, hv_facts = h_facts h,
      hv_last_seen = h_last_seen h\<rparr>"

definition list_hosts_tool :: "db \<Rightarrow> host_view list" where
  "list_hosts_tool d = map view_host (hosts d)"

definition on_named :: "string \<Rightarrow> (host_row \<Rightarrow> hub \<Rightarrow> 'a res \<times> hub) \<Rightarrow> hub \<Rightarrow> 'a res \<times> hub" where
  "on_named ref k s = (case host ref (hb_db s) of Inl e \<Rightarrow> (Inl e, s) | Inr h \<Rightarrow> k h s)"

definition lock_tool ::
  "fleet_env \<Rightarrow> machine \<Rightarrow> string option \<Rightarrow> turn \<Rightarrow> string \<Rightarrow> bool \<Rightarrow> hub \<Rightarrow> unit res \<times> hub" where
  "lock_tool ev m dial turn ref locked = on_named ref (\<lambda>h s.
     (case set_lock m dial h locked s of
        (Some e, s1) \<Rightarrow> (Inl e, s1)
      | (None, s1) \<Rightarrow> (Inr (), snd (sweep ev m turn h s1))))"

definition rebuild_get_tool :: "string \<Rightarrow> hub \<Rightarrow> (string \<times> string) res \<times> hub" where
  "rebuild_get_tool ref = on_named ref (\<lambda>h s. (Inr (h_name h, h_rebuild h), s))"

definition rebuild_set_tool :: "string \<Rightarrow> string \<Rightarrow> hub \<Rightarrow> unit res \<times> hub" where
  "rebuild_set_tool ref script = on_named ref (\<lambda>h s.
     (Inr (), say ''host.rebuild_script'' (h_name h)
        (h_name h @ '': rebuild script updated ('' @ itoa (int (length script)) @ '' bytes)'')
        (store_do (set_rebuild_script (h_id h) script) s)))"

definition fit_tool ::
  "(string \<Rightarrow> (string + fit_row list) option) \<Rightarrow> machine \<Rightarrow> string \<Rightarrow> int \<Rightarrow> hub \<Rightarrow> (string \<times> fit_model list) res \<times> hub" where
  "fit_tool parse m ref limit = on_named ref (\<lambda>h s.
     (case fits parse m h limit s of (Inl e, s1) \<Rightarrow> (Inl e, s1) | (Inr ms, s1) \<Rightarrow> (Inr (h_name h, ms), s1)))"

definition secrets_tool :: "db \<Rightarrow> (string \<times> int list) list" where
  "secrets_tool d = secrets d"

section \<open>Devices\<close>

definition devices_tool :: "db \<Rightarrow> device list \<times> (scan_row \<times> string) list" where
  "devices_tool d = (devices d, host_scans d)"

definition name_device_tool :: "string \<Rightarrow> string \<Rightarrow> string \<Rightarrow> hub \<Rightarrow> unit res \<times> hub" where
  "name_device_tool ref name kind s =
     (case device ref (hb_db s) of
        Inl e \<Rightarrow> (Inl e, s)
      | Inr d \<Rightarrow> (Inr (), store_do (name_device (dv_id (d_row d)) name kind) s))"

section \<open>Jobs\<close>

definition start_job_tool ::
  "string \<Rightarrow> instant \<Rightarrow> string option \<Rightarrow> (string \<Rightarrow> bool) \<Rightarrow> string \<Rightarrow> string \<Rightarrow> string \<Rightarrow> world \<Rightarrow>
   ((job_row \<times> string) \<times> string) res \<times> world" where
  "start_job_tool instruction now dial dir_there ref cwd txt w =
     (case host ref (wd_db w) of
        Inl e \<Rightarrow> (Inl e, w)
      | Inr h \<Rightarrow> AgentJobs.start instruction now dial dir_there h cwd txt 0 w)"

definition job_status_tool :: "int \<Rightarrow> int \<Rightarrow> db \<Rightarrow> ((job_row \<times> string) \<times> job_event_row list) res" where
  "job_status_tool i after d =
     (case job i d of Inl e \<Rightarrow> Inl e | Inr j \<Rightarrow> Inr (j, job_events i after 50 d))"

definition list_jobs_tool :: "string \<Rightarrow> db \<Rightarrow> (job_row \<times> string) list res" where
  "list_jobs_tool ref d =
     (if ref = '''' then Inr (jobs 0 50 d)
      else case host ref d of Inl e \<Rightarrow> Inl e | Inr h \<Rightarrow> Inr (jobs (h_id h) 50 d))"

section \<open>Storage\<close>

definition first_unknown :: "string + 'a \<Rightarrow> 'a res" where
  "first_unknown r = (case r of Inl _ \<Rightarrow> Inl NoHost | Inr x \<Rightarrow> Inr x)"

definition cluster_create_tool :: "run \<Rightarrow> cluster_body \<Rightarrow> site \<Rightarrow> cluster res \<times> site" where
  "cluster_create_tool run b s =
     (case host (cb_gateway b) (si_db s) of
        Inl e \<Rightarrow> (Inl e, s)
      | Inr gw \<Rightarrow>
          (case first_unknown (named_members (cb_members b) (si_db s)) of
             Inl e \<Rightarrow> (Inl e, s)
           | Inr ms \<Rightarrow> create run (cb_name b) gw (cb_path b) ms s))"

definition ok_or :: "err option \<times> 's \<Rightarrow> unit res \<times> 's" where
  "ok_or r = (case r of (Some e, s) \<Rightarrow> (Inl e, s) | (None, s) \<Rightarrow> (Inr (), s))"

definition cluster_grow_tool :: "run \<Rightarrow> string \<Rightarrow> string \<Rightarrow> string \<Rightarrow> site \<Rightarrow> unit res \<times> site" where
  "cluster_grow_tool run cname ref path s =
     (case cluster_by_name cname (si_db s) of
        Inl e \<Rightarrow> (Inl e, s)
      | Inr c \<Rightarrow>
          (case host ref (si_db s) of Inl e \<Rightarrow> (Inl e, s) | Inr h \<Rightarrow> ok_or (grow run c h path s)))"

definition workspace_create_tool ::
  "(string \<Rightarrow> string) \<Rightarrow> run \<Rightarrow> string \<Rightarrow> string \<Rightarrow> string list \<Rightarrow> site \<Rightarrow> workspace res \<times> site" where
  "workspace_create_tool sha run cname name refs s =
     (case cluster_by_name cname (si_db s) of
        Inl e \<Rightarrow> (Inl e, s)
      | Inr c \<Rightarrow>
          (case first_unknown (named_hosts refs (si_db s)) of
             Inl e \<Rightarrow> (Inl e, s)
           | Inr hs \<Rightarrow> create_ws sha run c name hs s))"

definition workspace_member_tool ::
  "(string \<Rightarrow> string) \<Rightarrow> run \<Rightarrow> int \<Rightarrow> string \<Rightarrow> bool \<Rightarrow> site \<Rightarrow> unit res \<times> site" where
  "workspace_member_tool sha run i ref remove s =
     (case workspace i (si_db s) of
        Inl e \<Rightarrow> (Inl e, s)
      | Inr w \<Rightarrow>
          (case host ref (si_db s) of
             Inl e \<Rightarrow> (Inl e, s)
           | Inr h \<Rightarrow> ok_or (if remove then remove_ws_member sha run w h s else add_ws_member sha run w h s)))"

end
