(* ===== verification/Fronts.thy ===== *)
theory Fronts
  imports Panel
begin

text \<open>
  \<open>internal/server/fronts.go\<close>: how a peer's service is reached here. A link is served below
  \<open>/~peer/service/\<close> under the panel's sign-in; an ingress has a hostname, listeners and certificates of its
  own. Opening a port and obtaining a certificate are parameters.
\<close>

section \<open>The link\<close>

datatype served = Missing string | Redirected string | Proxied string string string string

text \<open>\<open>strings.SplitN\<close> for three pieces.\<close>

definition split3 :: "char \<Rightarrow> string \<Rightarrow> string list" where
  "split3 c s =
     (let ps = split_on c s in if length ps \<le> 3 then ps else [ps ! 0, ps ! 1, join [c] (drop 2 ps)])"

text \<open>
  What a path that begins with \<open>/~\<close> answers: not found, the same path as a directory, or the peer, the
  service, the prefix taken off and the path asked of the service.
\<close>

definition link_front :: "string \<Rightarrow> db \<Rightarrow> served" where
  "link_front path d =
     (let parts = split3 (CHR ''/'') (trim_prefix path ''/~'')
      in if length parts < 2 \<or> parts ! 0 = '''' \<or> parts ! 1 = '''' then Missing ''404 page not found''
         else if length parts = 2 then Redirected (path @ ''/'')
         else (case front (parts ! 0) (parts ! 1) d of
                 Inl _ \<Rightarrow> Missing ''this service is not fronted here''
               | Inr f \<Rightarrow>
                   if \<not> fr_approved f then Missing ''this service is not fronted here''
                   else let prefix = ''/~'' @ parts ! 0 @ ''/'' @ parts ! 1
                        in if has_prefix path prefix
                           then Proxied (parts ! 0) (parts ! 1) prefix (trim_prefix path prefix)
                           else Missing ''404 page not found''))"

section \<open>The request sent on\<close>

record forwarded =
  fw_scheme :: string
  fw_url_host :: string
  fw_host :: string
  fw_headers :: "string \<rightharpoonup> string"

text \<open>
  \<open>Rewrite\<close>: \<open>hs\<close> are the headers the library leaves of the request, \<open>client\<close> its address, \<open>in_host\<close> the host it
  names and \<open>tls\<close> whether it came encrypted.
\<close>

definition front_rewrite :: "string \<Rightarrow> string \<Rightarrow> string \<Rightarrow> string \<Rightarrow> bool \<Rightarrow> (string \<rightharpoonup> string) \<Rightarrow> forwarded" where
  "front_rewrite svc prefix client in_host tls hs =
     \<lparr>fw_scheme = ''http'', fw_url_host = svc, fw_host = in_host,
      fw_headers =
        (let hs1 = hs(''X-Forwarded-For'' \<mapsto> client, ''X-Forwarded-Host'' \<mapsto> in_host,
                      ''X-Forwarded-Proto'' \<mapsto> (if tls then ''https'' else ''http''))
         in if prefix \<noteq> '''' then hs1(''X-Forwarded-Prefix'' \<mapsto> prefix) else hs1)\<rparr>"

section \<open>The ingress\<close>

definition hostnames :: "db \<Rightarrow> string list" where
  "hostnames d =
     map (\<lambda>f. to_lower (fr_hostname f)) (filter (\<lambda>f. fr_approved f \<and> fr_hostname f \<noteq> '''') (fronts '''' d))"

definition host_policy :: "string \<Rightarrow> db \<Rightarrow> err option" where
  "host_policy h d = (if to_lower h \<in> set (hostnames d) then None else Some (Err (''no front carries '' @ h)))"

text \<open>\<open>net.SplitHostPort\<close>, of which the host is used: empty when the text has no such form.\<close>

definition split_host :: "string \<Rightarrow> string" where
  "split_host s =
     (if CHR '':'' \<notin> set s then ''''
      else case s of
        [] \<Rightarrow> ''''
      | c # cs \<Rightarrow>
          if c = CHR ''[''
          then (let h = takeWhile (\<lambda>x. x \<noteq> CHR '']'') cs; rest = drop (length h) cs
                in case rest of
                     b # k # port \<Rightarrow>
                       if k = CHR '':'' \<and> CHR '':'' \<notin> set port \<and> CHR ''['' \<notin> set h \<and> CHR ''['' \<notin> set port \<and>
                          CHR '']'' \<notin> set port
                       then h else ''''
                   | _ \<Rightarrow> '''')
          else (let h = takeWhile (\<lambda>x. x \<noteq> CHR '':'') s; port = drop (length h + 1) s
                in if CHR '':'' \<notin> set port \<and> CHR ''['' \<notin> set s \<and> CHR '']'' \<notin> set s then h else ''''))"

definition ingress_front :: "string \<Rightarrow> db \<Rightarrow> served" where
  "ingress_front asked d =
     (let h = split_host asked; h = (if h = '''' then asked else h)
      in case front_by_hostname (to_lower h) d of
           Inl _ \<Rightarrow> Missing ''no service at this name''
         | Inr f \<Rightarrow> Proxied (fr_peer f) (fr_service f) '''' '''')"

section \<open>The listeners\<close>

record ingress =
  ig_up :: bool
  ig_failed :: bool
  ig_hub :: hub

definition ingress_fail :: "string \<Rightarrow> ingress \<Rightarrow> ingress" where
  "ingress_fail e g =
     (if ig_failed g then g
      else g\<lparr>ig_failed := True,
             ig_hub := say ''ingress.failed'' ''ingress''
               (''the ingress could not listen on :443/:80: '' @ e @ '' (retrying each minute)'') (ig_hub g)\<rparr>)"

text \<open>One turn: \<open>listen\<close> answers the error of opening a port.\<close>

definition reconcile :: "(int \<Rightarrow> string option) \<Rightarrow> ingress \<Rightarrow> ingress" where
  "reconcile listen g =
     (if hostnames (hb_db (ig_hub g)) = [] then g\<lparr>ig_up := False\<rparr>
      else if ig_up g then g
      else (case listen 443 of
              Some e \<Rightarrow> ingress_fail e g
            | None \<Rightarrow>
                (case listen 80 of
                   Some e \<Rightarrow> ingress_fail e g
                 | None \<Rightarrow> g\<lparr>ig_up := True, ig_failed := False\<rparr>)))"

definition ingress_stop :: "ingress \<Rightarrow> ingress" where
  "ingress_stop g = g\<lparr>ig_up := False\<rparr>"

end
