(* ===== verification/PanelLaws.thy ===== *)
theory PanelLaws
  imports Fronts StoreLaws
begin

text \<open>
  What holds of the panel's own rules: the settings keep a canonical form that survives being sent back,
  the pages of the audit log add up to the log while the clock does not step back, only allowed ports are
  published, and a certificate is asked for exactly the names the ingress serves. The last section shows a
  link that the ingress serves without a sign-in.
\<close>

section \<open>Settings\<close>

lemma map_of_update_other: "k \<noteq> j \<Longrightarrow> map_of (map (\<lambda>r. if fst r = k then (fst r, v) else r) xs) j = map_of xs j"
  by (induction xs) auto

lemma map_of_update_same:
  "list_ex (\<lambda>r. fst r = k) xs \<Longrightarrow> map_of (map (\<lambda>r. if fst r = k then (fst r, v) else r) xs) k = Some v"
  by (induction xs) auto

lemma setting_set_setting: "setting j (set_setting k v d) = (if j = k then v else setting j d)"
proof (cases "list_ex (\<lambda>r. fst r = k) (tb_settings d)")
  case True
  then show ?thesis
    by (simp add: setting_def set_setting_def upsert_def update_where_def map_of_update_other map_of_update_same)
next
  case False
  then have "map_of (tb_settings d) k = None" by (auto simp: map_of_eq_None_iff list_ex_iff)
  with False show ?thesis
    by (auto simp: setting_def set_setting_def upsert_def map_add_def [symmetric] split: option.split)
qed

lemma set_setting_only: "set_setting k v d = d\<lparr>tb_settings := tb_settings (set_setting k v d)\<rparr>"
  by (simp add: set_setting_def)

text \<open>The form in which a setting is kept.\<close>

definition canonical_setting :: "string \<Rightarrow> string \<Rightarrow> bool" where
  "canonical_setting k v \<longleftrightarrow>
     trim_space v = v \<and> (k \<in> set model_setting_keys \<longrightarrow> valid_agent_model v) \<and>
     (k \<in> set bool_setting_keys \<longrightarrow> v = '''' \<or> v = ''true'') \<and> (k = ''proposals.token'' \<longrightarrow> v \<noteq> token_mask)"

definition canonical :: "db \<Rightarrow> bool" where
  "canonical d \<longleftrightarrow> (\<forall>k \<in> set setting_keys. canonical_setting k (setting k d))"

lemma true_trimmed: "trim_space ''true'' = ''true''"
  by code_simp

lemma key_classes:
  "\<not> (k \<in> set bool_setting_keys \<and> k \<in> set model_setting_keys)"
  "k \<in> set bool_setting_keys \<Longrightarrow> k \<noteq> ''proposals.token''"
  "k \<in> set model_setting_keys \<Longrightarrow> k \<noteq> ''proposals.token''"
  by (auto simp: bool_setting_keys_def model_setting_keys_def)

lemma canonical_value_ok:
  assumes "k = ''proposals.token'' \<longrightarrow> trim_space v \<noteq> token_mask"
    and "k \<in> set model_setting_keys \<longrightarrow> valid_agent_model (trim_space v)"
  shows "canonical_setting k (canonical_value k (trim_space v))"
  using assms key_classes [of k]
  by (auto simp: canonical_setting_def canonical_value_def true_trimmed)

lemma canonical_value_id: "canonical_setting k v \<Longrightarrow> canonical_value k v = v"
  by (auto simp: canonical_setting_def canonical_value_def setting_truthy_def)

definition settings_only :: "db \<Rightarrow> db \<Rightarrow> bool" where
  "settings_only d d' \<longleftrightarrow>
     (\<exists>t. d' = d\<lparr>tb_settings := t\<rparr>) \<and> (canonical d \<longrightarrow> canonical d') \<and>
     (\<forall>k. k \<notin> set setting_keys \<longrightarrow> setting k d' = setting k d)"

lemma settings_only_refl: "settings_only d d"
  unfolding settings_only_def by (auto intro: exI [of _ "tb_settings d"])

lemma settings_only_trans: "settings_only d d1 \<Longrightarrow> settings_only d1 d2 \<Longrightarrow> settings_only d d2"
  unfolding settings_only_def by (elim conjE exE) (simp, blast)

lemma put_setting_keeps: "settings_only d (snd (put_setting k v d))"
proof -
  have "settings_only d (set_setting k (canonical_value k (trim_space v)) d)"
    if "k \<in> set setting_keys" "canonical_setting k (canonical_value k (trim_space v))"
    using that set_setting_only [of k "canonical_value k (trim_space v)" d]
    by (auto simp: settings_only_def canonical_def setting_set_setting)
  then show ?thesis
    using settings_only_refl canonical_value_ok [of k v] by (auto simp: put_setting_def Let_def)
qed

lemma put_entries_keeps: "settings_only d (snd (put_entries kvs d))"
proof (induction kvs d rule: put_entries.induct)
  case (2 k v kvs d)
  obtain e d1 where p: "put_setting k v d = (e, d1)" by (cases "put_setting k v d")
  with put_setting_keeps [of d k v] have "settings_only d d1" by simp
  with 2 p show ?case by (cases e) (auto intro: settings_only_trans)
qed (simp add: settings_only_refl)

text \<open>
  C10: Whatever a request to change the settings holds, refused or not, it touches no other table and no
  setting the panel does not list, and it leaves every listed setting in its canonical form: trimmed, a
  model empty or of the form provider/model, a checkbox empty or true, the token never the mask it is shown as.
\<close>

theorem settings_stay_canonical:
  assumes "put_settings ctx body d = (page, d')"
  shows "(\<exists>t. d' = d\<lparr>tb_settings := t\<rparr>) \<and> (\<forall>k. k \<notin> set setting_keys \<longrightarrow> setting k d' = setting k d) \<and>
    (canonical d \<longrightarrow> canonical d')"
proof -
  have "settings_only d d'"
  proof (cases body)
    case None
    with assms settings_only_refl show ?thesis by (simp add: put_settings_def)
  next
    case (Some kvs)
    obtain e d1 where "put_entries kvs d = (e, d1)" by (cases "put_entries kvs d")
    with assms Some put_entries_keeps [of d kvs] show ?thesis
      by (auto simp: put_settings_def split: option.split_asm prod.split_asm)
  qed
  then show ?thesis by (simp add: settings_only_def)
qed

theorem settings_stay_canonical_witness:
  "setting ''space.serve'' (snd (put_settings (\<lambda>_. True) (Some [('' space.serve'', ''x'')]) empty_db)) = '''' \<and>
   setting ''pool.disabled.1'' (snd (put_settings (\<lambda>_. True) (Some [(''space.serve'', '' on '')]) empty_db)) = ''''"
proof -
  let ?a = "put_settings (\<lambda>_. True) (Some [('' space.serve'', ''x'')]) empty_db"
  let ?b = "put_settings (\<lambda>_. True) (Some [(''space.serve'', '' on '')]) empty_db"
  have "'' space.serve'' \<notin> set setting_keys" "''pool.disabled.1'' \<notin> set setting_keys" by (simp_all add: setting_keys_def)
  moreover obtain p d' where "?b = (p, d')" by (cases ?b)
  ultimately show ?thesis
    using settings_stay_canonical [of "\<lambda>_. True" "Some [(''space.serve'', '' on '')]" empty_db p d']
    by (simp add: put_settings_def put_setting_def setting_def empty_db_def)
qed

lemma mask_bytes: "token_mask = concat (replicate 8 [CHR 0xE2, CHR 0x80, CHR 0xA2])"
proof -
  have "char_of (226 :: nat) = CHR 0xE2" "char_of (128 :: nat) = CHR 0x80" "char_of (162 :: nat) = CHR 0xA2"
    by (simp_all add: char_of_def bit_Suc_0_iff)
  then show ?thesis by (simp add: token_mask_def utf8_def)
qed

lemma mask_trimmed: "trim_space token_mask = token_mask"
  by (rule trim_space_id) (simp add: mask_bytes is_space_def)

lemma put_shown:
  assumes "canonical d" and "k \<in> set setting_keys" and same: "\<forall>j. setting j d1 = setting j d"
    and v: "v = (let x = setting k d in if k = ''proposals.token'' \<and> x \<noteq> '''' then token_mask else x)"
  shows "\<exists>d2. put_setting k v d1 = (None, d2) \<and> (\<forall>j. setting j d2 = setting j d)"
proof -
  have c: "canonical_setting k (setting k d)" using assms(1,2) by (simp add: canonical_def)
  show ?thesis
  proof (cases "k = ''proposals.token'' \<and> setting k d \<noteq> ''''")
    case True
    have "v = token_mask" unfolding v Let_def by (rule if_P [OF True])
    then have "put_setting k v d1 = (None, d1)" using True assms(2) by (simp add: put_setting_def mask_trimmed)
    with same show ?thesis by blast
  next
    case False
    have x: "v = setting k d" unfolding v Let_def by (rule if_not_P [OF False])
    then have cx: "canonical_setting k v" using c by simp
    then have t: "trim_space v = v" and n: "\<not> (k = ''proposals.token'' \<and> v = token_mask)"
      "\<not> (k \<in> set model_setting_keys \<and> \<not> valid_agent_model v)"
      unfolding canonical_setting_def by blast+
    have "put_setting k v d1 = (None, set_setting k v d1)"
      unfolding put_setting_def Let_def t canonical_value_id [OF cx]
      using assms(2) n by (simp only: not_not simp_thms if_False)
    with same x show ?thesis by (auto simp: setting_set_setting)
  qed
qed

lemma put_all_shown:
  "\<lbrakk>canonical d; set kvs \<subseteq> set (get_settings d); \<forall>j. setting j d1 = setting j d\<rbrakk> \<Longrightarrow>
     \<exists>d2. put_entries kvs d1 = (None, d2) \<and> (\<forall>j. setting j d2 = setting j d)"
proof (induction kvs arbitrary: d1)
  case (Cons kv kvs)
  obtain k v where kv: "kv = (k, v)" by (cases kv)
  from Cons.prems(2) kv have k: "k \<in> set setting_keys"
    "v = (let x = setting k d in if k = ''proposals.token'' \<and> x \<noteq> '''' then token_mask else x)"
    by (auto simp: get_settings_def)
  from put_shown [OF Cons.prems(1) k(1) Cons.prems(3) k(2)] obtain d2
    where d2: "put_setting k v d1 = (None, d2)" "\<forall>j. setting j d2 = setting j d" by blast
  from Cons.IH [OF Cons.prems(1) _ d2(2)] Cons.prems(2) d2(1) kv show ?case by auto
qed simp

lemma get_settings_cong: "\<forall>j. setting j d2 = setting j d \<Longrightarrow> get_settings d2 = get_settings d"
  by (simp add: get_settings_def)

text \<open>
  C31: The settings come back as they were shown: when the panel sends all of what it was shown, in whatever
  order the map is walked, the request succeeds, answers the same page, and every setting keeps its value,
  the token behind the mask as well.
\<close>

theorem settings_sent_back:
  assumes "canonical d" and "mset kvs = mset (get_settings d)" and "\<And>d. ctx d"
  shows "\<exists>d'. put_settings ctx (Some kvs) d = (Sent (get_settings d), d') \<and> (\<forall>k. setting k d' = setting k d)"
proof -
  have "set kvs \<subseteq> set (get_settings d)" using assms(2) by (metis mset_eq_setD subset_refl)
  with put_all_shown [OF assms(1), of kvs d] obtain d2
    where d2: "put_entries kvs d = (None, d2)" "\<forall>j. setting j d2 = setting j d" by auto
  with assms(3) get_settings_cong [OF d2(2)] show ?thesis by (auto simp: put_settings_def)
qed

definition with_token :: db where
  "with_token = empty_db\<lparr>tb_settings := [(''proposals.token'', ''secret'')]\<rparr>"

theorem settings_sent_back_witness:
  "\<exists>d'. put_settings (\<lambda>_. True) (Some (rev (get_settings with_token))) with_token = (Sent (get_settings with_token), d') \<and>
     setting ''proposals.token'' d' = ''secret''"
proof -
  have vals: "setting k with_token = (if k = ''proposals.token'' then ''secret'' else '''')" for k
    by (simp add: setting_def with_token_def)
  have "canonical_setting k (setting k with_token)" for k
  proof (cases "k = ''proposals.token''")
    case True
    have "trim_space ''secret'' = ''secret''" by code_simp
    then have "canonical_setting ''proposals.token'' ''secret''"
      by (simp add: canonical_setting_def model_setting_keys_def bool_setting_keys_def mask_bytes numeral_eq_Suc)
    with True vals show ?thesis by simp
  next
    case False
    with vals show ?thesis by (simp add: canonical_setting_def valid_agent_model_def)
  qed
  then have "canonical with_token" by (simp add: canonical_def)
  then obtain d' where
    "put_settings (\<lambda>_. True) (Some (rev (get_settings with_token))) with_token = (Sent (get_settings with_token), d')"
    and "\<forall>k. setting k d' = setting k with_token"
    using settings_sent_back [of with_token "rev (get_settings with_token)" "\<lambda>_. True"] by auto
  then show ?thesis using vals by auto
qed

text \<open>
  A request that is refused has already stored the entries the walk of the map came to before.
\<close>

theorem refused_request_half_stored:
  assumes "put_setting k v d = (None, d1)" and "j \<notin> set setting_keys"
  shows "put_settings ctx (Some [(k, v), (j, w)]) d = (Deny 400 (''unknown setting '' @ j), d1)"
  using assms by (simp add: put_settings_def put_setting_def)

section \<open>The pages of the audit log\<close>

text \<open>Page after page as the panel asks for them: the first, then each with what came before the last row shown.\<close>

fun event_pages :: "nat \<Rightarrow> string \<Rightarrow> string \<Rightarrow> db \<Rightarrow> event_row list" where
  "event_pages 0 limit before d = []"
| "event_pages (Suc n) limit before d =
     (case events_page limit before d of
        Sent p \<Rightarrow> if p = [] then [] else p @ event_pages n limit (itoa (e_id (last p))) d
      | _ \<Rightarrow> [])"

definition event_log :: "db \<Rightarrow> event_row list" where
  "event_log d = order_by event_newer (tb_events d)"

text \<open>Ids are handed out in order, so this says that the clock did not step back.\<close>

definition clock_steady :: "db \<Rightarrow> bool" where
  "clock_steady d \<longleftrightarrow> (\<forall>a \<in> set (tb_events d). \<forall>b \<in> set (tb_events d). e_id a < e_id b \<longrightarrow> e_at a \<le> e_at b)"

interpretation newer: sort_order event_newer
  unfolding event_newer_def by (rule sort_order_then [OF sort_order_desc sort_order_desc])

lemma event_newer_total: "e_id a \<noteq> e_id b \<Longrightarrow> \<not> event_newer b a \<Longrightarrow> event_newer a b"
  by (auto simp: event_newer_def then_by_def by_desc_def)

lemma ordered_strict:
  "sorted_wrt (\<lambda>a b. \<not> event_newer b a) xs \<Longrightarrow> distinct (map e_id xs) \<Longrightarrow> sorted_wrt event_newer xs"
  by (induction xs) (auto intro!: event_newer_total)

lemma newest_first:
  assumes "distinct (map e_id xs)"
  shows "sorted_wrt event_newer (order_by event_newer xs)"
proof (rule ordered_strict)
  show "sorted_wrt (\<lambda>a b. \<not> event_newer b a) (order_by event_newer xs)"
    using newer.insertion_sort_ordered [of xs] by (simp add: newer.ordered_def order_by_def)
  have "mset (map e_id (order_by event_newer xs)) = mset (map e_id xs)" by (simp add: order_by_def)
  with assms show "distinct (map e_id (order_by event_newer xs))" using mset_eq_imp_distinct_iff by blast
qed

definition event_ids_ok :: "db \<Rightarrow> bool" where
  "event_ids_ok d \<longleftrightarrow> distinct (map e_id (tb_events d)) \<and> (\<forall>e \<in> set (tb_events d). 0 < e_id e \<and> in_i64 (e_id e))"

lemma order_filter:
  assumes "distinct (map e_id xs)"
  shows "order_by event_newer (filter p xs) = filter p (order_by event_newer xs)"
proof (rule strictly_sorted_unique [of event_newer])
  show "event_newer a b \<Longrightarrow> \<not> event_newer b a" for a b by (rule newer.lt_asym)
  show "sorted_wrt event_newer (order_by event_newer (filter p xs))"
    using assms by (intro newest_first) (simp add: distinct_map_filter)
  show "sorted_wrt event_newer (filter p (order_by event_newer xs))"
    using newest_first [OF assms] by (rule sorted_wrt_filter)
qed simp

lemma log_by_id:
  assumes "event_ids_ok d" and "clock_steady d"
  shows "sorted_wrt (\<lambda>a b. e_id b < e_id a) (event_log d)"
proof (rule sorted_wrt_mono_rel)
  show "sorted_wrt event_newer (event_log d)"
    using assms(1) newest_first by (simp add: event_log_def event_ids_ok_def)
  fix a b assume ab: "a \<in> set (event_log d)" "b \<in> set (event_log d)" "event_newer a b"
  then have "a \<in> set (tb_events d)" "b \<in> set (tb_events d)" by (simp_all add: event_log_def)
  then have "e_id a < e_id b \<Longrightarrow> e_at a \<le> e_at b" "e_id a = e_id b \<Longrightarrow> a = b"
    using assms by (auto simp: clock_steady_def event_ids_ok_def distinct_map inj_on_def)
  with ab(3) show "e_id b < e_id a"
    by (cases "e_id a" "e_id b" rule: linorder_cases) (auto simp: event_newer_def then_by_def by_desc_def)
qed

lemma after_last_row:
  assumes "sorted_wrt (\<lambda>a b. e_id b < e_id a) (xs @ ys)" and "xs \<noteq> []"
  shows "filter (\<lambda>e. e_id e < e_id (last xs)) (xs @ ys) = ys"
proof -
  have "e_id y < e_id (last xs)" if "y \<in> set ys" for y
    using assms that by (simp add: sorted_wrt_append)
  moreover have "\<not> e_id x < e_id (last xs)" if "x \<in> set xs" for x
  proof -
    have "xs = butlast xs @ [last xs]" using assms(2) by simp
    then have "sorted_wrt (\<lambda>a b. e_id b < e_id a) (butlast xs @ [last xs])"
      using assms(1) by (simp add: sorted_wrt_append)
    moreover have "x = last xs \<or> x \<in> set (butlast xs)" using that assms(2) by (metis append_butlast_last_id in_set_conv_decomp rotate1.simps(2) set_ConsD set_rotate1)
    ultimately show ?thesis by (auto simp: sorted_wrt_append)
  qed
  ultimately show ?thesis by (auto simp: filter_empty_conv intro!: filter_True)
qed

lemma limit_positive: "0 < events_limit q"
  by (auto simp: events_limit_def split: option.split)

lemma lossy_itoa: "in_i64 i \<Longrightarrow> lossy_int (itoa i) = i"
  by (simp add: lossy_int_def parse_int_itoa)

lemma itoa_not_Nil: "itoa i \<noteq> ''''"
  by (simp add: itoa_def)

lemma page_of_log:
  assumes "event_ids_ok d"
  shows "events_page limit before d = Sent (take (events_limit limit)
    (if before \<noteq> '''' \<and> lossy_int before > 0 then filter (\<lambda>e. e_id e < lossy_int before) (event_log d) else event_log d))"
  using assms by (auto simp: events_page_def events_def event_log_def order_filter event_ids_ok_def)

lemma pages_from:
  assumes "event_ids_ok d" and "clock_steady d"
  shows "\<lbrakk>event_log d = xs @ ys; length ys \<le> n; (if xs = [] then before = '''' else before = itoa (e_id (last xs)))\<rbrakk> \<Longrightarrow>
    event_pages n limit before d = ys"
proof (induction n arbitrary: xs ys before)
  case (Suc n)
  let ?p = "take (events_limit limit) ys"
  have sorted: "sorted_wrt (\<lambda>a b. e_id b < e_id a) (xs @ ys)" using log_by_id [OF assms] Suc.prems(1) by simp
  have id_of: "0 < e_id (last zs) \<and> in_i64 (e_id (last zs))" if "zs \<noteq> []" "set zs \<subseteq> set (event_log d)" for zs
  proof -
    have "last zs \<in> set (tb_events d)" using last_in_set [OF that(1)] that(2) by (auto simp: event_log_def)
    with assms(1) show ?thesis by (simp add: event_ids_ok_def)
  qed
  have page: "events_page limit before d = Sent ?p"
  proof (cases "xs = []")
    case True
    then show ?thesis using Suc.prems by (simp add: page_of_log [OF assms(1)])
  next
    case False
    have l: "lossy_int before = e_id (last xs)" "0 < e_id (last xs)" "before \<noteq> ''''"
      using id_of [OF False] Suc.prems(1,3) False lossy_itoa itoa_not_Nil by auto
    show ?thesis
      unfolding page_of_log [OF assms(1)] l(1) Suc.prems(1) after_last_row [OF sorted False] using l(2,3) by simp
  qed
  show ?case
  proof (cases "ys = []")
    case True
    then show ?thesis by (simp add: page)
  next
    case False
    then have p: "?p \<noteq> []" using limit_positive [of limit] by simp
    have "event_pages n limit (itoa (e_id (last ?p))) d = drop (events_limit limit) ys"
    proof (rule Suc.IH)
      show "event_log d = (xs @ ?p) @ drop (events_limit limit) ys" using Suc.prems(1) by simp
      show "length (drop (events_limit limit) ys) \<le> n" using Suc.prems(2) limit_positive [of limit] by auto
      show "if xs @ ?p = [] then itoa (e_id (last ?p)) = '''' else itoa (e_id (last ?p)) = itoa (e_id (last (xs @ ?p)))"
        using p by simp
    qed
    then show ?thesis using p by (simp add: page)
  qed
qed simp

text \<open>
  C29: While the clock has not stepped back, the pages of the audit log add up to the log: whatever limit is
  asked for, asking again for what came before the last row shown lists every event once, newest first, and
  no more pages are needed than there are events.
\<close>

theorem pages_add_up_to_log:
  assumes "event_ids_ok d" and "clock_steady d"
  shows "event_pages (length (tb_events d)) limit '''' d = event_log d"
  by (rule pages_from [OF assms, of "[]"]) (simp_all add: event_log_def order_by_def)

definition event_at :: "int \<Rightarrow> int \<Rightarrow> event_row" where
  "event_at i t = \<lparr>e_id = i, e_at = t, e_kind = '''', e_subject = '''', e_message = ''''\<rparr>"

theorem pages_add_up_to_log_witness:
  "event_pages 2 ''1'' '''' (empty_db\<lparr>tb_events := [event_at 1 5, event_at 2 7]\<rparr>) = [event_at 2 7, event_at 1 5]"
proof -
  let ?d = "empty_db\<lparr>tb_events := [event_at 1 5, event_at 2 7]\<rparr>"
  have "event_ids_ok ?d" "clock_steady ?d" by (auto simp: event_ids_ok_def clock_steady_def event_at_def in_i64_def)
  moreover have "event_log ?d = [event_at 2 7, event_at 1 5]"
    by (simp add: event_log_def order_by_def insertion_sort_def event_newer_def then_by_def by_desc_def event_at_def)
  ultimately show ?thesis using pages_add_up_to_log [of ?d "''1''"] by (simp add: numeral_2_eq_2)
qed

text \<open>
  When the clock stepped back, the newer id with the older time comes after the page that ends at the older
  id, and the next page asks for smaller ids only: no page shows it.
\<close>

theorem pages_skip_after_step_back:
  "event_pages n ''1'' '''' (empty_db\<lparr>tb_events := [event_at 1 7, event_at 2 5]\<rparr>) \<in> {[], [event_at 1 7]}"
proof -
  let ?d = "empty_db\<lparr>tb_events := [event_at 1 7, event_at 2 5]\<rparr>"
  have ids: "event_ids_ok ?d" by (auto simp: event_ids_ok_def event_at_def in_i64_def)
  have log: "event_log ?d = [event_at 1 7, event_at 2 5]"
    by (simp add: event_log_def order_by_def insertion_sort_def event_newer_def then_by_def by_desc_def event_at_def)
  have q: "events_limit ''1'' = 1" "lossy_int (itoa 1) = 1" "itoa 1 \<noteq> ''''" by code_simp+
  have "events_page ''1'' '''' ?d = Sent [event_at 1 7]" unfolding page_of_log [OF ids] log q(1) by simp
  moreover have "events_page ''1'' (itoa 1) ?d = Sent []"
    unfolding page_of_log [OF ids] log q(1,2) using q(3) by (simp add: event_at_def)
  moreover have "e_id (event_at 1 7) = 1" by (simp add: event_at_def)
  ultimately have "event_pages (Suc m) ''1'' '''' ?d = [event_at 1 7]" for m by (cases m) simp_all
  then show ?thesis by (cases n) auto
qed

section \<open>Services and fronts\<close>

text \<open>
  What happens to services and fronts: the panel's requests, a peer's offer that names a service, a machine
  removed; and anything else the hub does, which touches neither table and removes no machine.
\<close>

inductive space_step :: "hub \<Rightarrow> hub \<Rightarrow> bool" where
  step_publish: "space_step s (snd (publish_page body s))"
| step_unpublish: "space_step s (snd (unpublish_page name s))"
| step_front: "space_step s (snd (front_page i svc form s))"
| step_forget: "space_step s (snd (forget_peer_page i s))"
| step_seen: "space_step s (store_do (seen_front i svc) s)"
| step_removed: "space_step s (store_do (remove_host n) s)"
| step_else: "tb_services (hb_db s') = tb_services (hb_db s) \<Longrightarrow> tb_fronts (hb_db s') = tb_fronts (hb_db s) \<Longrightarrow>
    host_ids (hb_db s) \<subseteq> host_ids (hb_db s') \<Longrightarrow> space_step s s'"

definition service_ok :: "db \<Rightarrow> service_row \<Rightarrow> bool" where
  "service_ok d v \<longleftrightarrow> rx_match service_name_rx (sv_name v) \<and> 1 \<le> sv_port v \<and> sv_port v \<le> 65535 \<and>
     sv_port v \<noteq> 22 \<and> sv_port v \<noteq> 7433 \<and> sv_host v \<in> host_ids d"

definition front_ok :: "front_row \<Rightarrow> bool" where
  "front_ok f \<longleftrightarrow> fr_hostname f = '''' \<or> (rx_match hostname_rx (fr_hostname f) \<and> to_lower (fr_hostname f) = fr_hostname f)"

definition space_ok :: "hub \<Rightarrow> bool" where
  "space_ok s \<longleftrightarrow> (\<forall>v \<in> set (tb_services (hb_db s)). service_ok (hb_db s) v) \<and> (\<forall>f \<in> set (tb_fronts (hb_db s)). front_ok f)"

lemma say_db [simp]: "hb_db (say a b c s) = hb_db s"
  by (simp add: say_def)

lemma store_do_db [simp]: "hb_db (store_do f s) = f (hb_db s)"
  by (simp add: store_do_def)

lemma set_upsert_subset: "x \<in> set (upsert p r f xs) \<Longrightarrow> x = r \<or> x \<in> set xs \<or> (\<exists>y \<in> set xs. p y \<and> x = f y)"
  by (auto simp: upsert_def update_where_def split: if_split_asm)

lemma publish_cases:
  "hb_db (snd (publish_page body s)) = hb_db s \<or>
   (\<exists>(b :: publish_body) (h :: host_row). vet_service b = None \<and>
      publish_service (pb_name b) (h_id h) (pb_port b) (pb_offered b) (hb_db s) = Inr (hb_db (snd (publish_page body s))))"
  by (auto simp: publish_page_def split: option.split sum.split)

lemma front_cases:
  "hb_db (snd (front_page i svc body s)) = hb_db s \<or>
   (\<exists>a h. (h = '''' \<or> rx_match hostname_rx h \<and> to_lower h = h) \<and>
      hb_db (snd (front_page i svc body s)) = set_front i svc a h (hb_db s))"
proof (cases body)
  case (Some r)
  obtain a h0 where r: "r = (a, h0)" by (cases r)
  show ?thesis
  proof (cases "to_lower (trim_space h0) \<noteq> '''' \<and> \<not> rx_match hostname_rx (to_lower (trim_space h0))")
    case False
    then have "hb_db (snd (front_page i svc body s)) = set_front i svc a (to_lower (trim_space h0)) (hb_db s)"
      using Some r by (auto simp: front_page_def Let_def)
    with False show ?thesis using lower_idem by blast
  qed (simp add: front_page_def Let_def Some r)
qed (simp add: front_page_def)

lemma publish_service_rows:
  "publish_service n i port ps d = Inr d' \<Longrightarrow>
     i \<in> host_ids d \<and> host_ids d' = host_ids d \<and> tb_fronts d' = tb_fronts d \<and>
     (\<forall>v \<in> set (tb_services d'). v \<in> set (tb_services d) \<or> sv_name v = n \<and> sv_host v = i \<and> sv_port v = port)"
  by (auto simp: publish_service_def host_known_def host_ids_def split: if_split_asm dest!: set_upsert_subset)

lemma vet_service_ok:
  "vet_service b = None \<Longrightarrow>
     rx_match service_name_rx (pb_name b) \<and> 1 \<le> pb_port b \<and> pb_port b \<le> 65535 \<and> pb_port b \<noteq> 22 \<and> pb_port b \<noteq> 7433"
  by (auto simp: vet_service_def refused_ports_def split: if_split_asm)

lemma space_ok_publish: "space_ok s \<Longrightarrow> space_ok (snd (publish_page body s))"
  using publish_cases [of body s]
proof (elim disjE exE conjE)
  fix b :: publish_body and h :: host_row
  assume ok: "space_ok s" and b: "vet_service b = None"
    and p: "publish_service (pb_name b) (h_id h) (pb_port b) (pb_offered b) (hb_db s) = Inr (hb_db (snd (publish_page body s)))"
  from publish_service_rows [OF p] vet_service_ok [OF b] ok show ?thesis
    unfolding space_ok_def service_ok_def by metis
qed (simp add: space_ok_def)

lemma front_ok_blank: "front_ok \<lparr>fr_peer = p, fr_service = v, fr_approved = False, fr_hostname = ''''\<rparr>"
  by (simp add: front_ok_def)

lemma space_ok_front:
  assumes ok: "space_ok s"
  shows "space_ok (snd (front_page i svc body s))"
proof (cases "hb_db (snd (front_page i svc body s)) = hb_db s")
  case True
  with ok show ?thesis by (simp add: space_ok_def)
next
  case False
  with front_cases [of i svc body s] obtain a h where h: "h = '''' \<or> rx_match hostname_rx h \<and> to_lower h = h"
    and d: "hb_db (snd (front_page i svc body s)) = set_front i svc a h (hb_db s)" by blast
  have "front_ok f" if "f \<in> set (tb_fronts (set_front i svc a h (hb_db s)))" for f
    using that ok h by (auto simp: set_front_def space_ok_def front_ok_def dest!: set_upsert_subset)
  then show ?thesis using ok by (simp add: space_ok_def service_ok_def d) (simp add: set_front_def host_ids_def)
qed

lemma space_step_ok: "space_step s s' \<Longrightarrow> space_ok s \<Longrightarrow> space_ok s'"
proof (induction rule: space_step.induct)
  case (step_unpublish s name)
  then show ?case by (auto simp: unpublish_page_def unpublish_service_def space_ok_def service_ok_def delete_where_def host_ids_def)
next
  case (step_forget s i)
  then show ?case by (auto simp: forget_peer_page_def forget_peer_def space_ok_def service_ok_def delete_where_def host_ids_def)
next
  case (step_seen i svc s)
  then show ?case
    by (auto simp: seen_front_def space_ok_def service_ok_def host_ids_def front_ok_blank dest!: set_upsert_subset)
next
  case (step_removed s n)
  have "tb_fronts (remove_host n d) = tb_fronts d" for d
    by (simp add: remove_host_def drop_jobs_def drop_tasks_def drop_clusters_def drop_workspaces_def Let_def)
  with step_removed show ?case by (auto simp: space_ok_def service_ok_def host_ids_def remove_host_tables)
next
  case (step_else s' s)
  then show ?case by (auto simp: space_ok_def service_ok_def)
qed (simp_all add: space_ok_publish space_ok_front)

lemma space_reachable_ok: "space_step\<^sup>*\<^sup>* s s' \<Longrightarrow> space_ok s \<Longrightarrow> space_ok s'"
  by (induction rule: rtranclp_induct) (auto intro: space_step_ok)

definition new_hub :: hub where
  "new_hub = \<lparr>hb_db = empty_db, hb_notes = [], hb_sent = [], hb_full = (\<lambda>_. None)\<rparr>"

lemma new_hub_ok: "space_ok new_hub"
  by (simp add: space_ok_def new_hub_def empty_db_def)

text \<open>
  C17: Whatever the panel is asked and whatever happens besides, every published service has a name of the
  allowed form and is one port of a machine this hub owns, never the port of SSH nor the hub's own; and the
  name a peer's service is shown under, where it has one, is a host name in small letters.
\<close>

theorem published_services_allowed:
  assumes "space_step\<^sup>*\<^sup>* new_hub s"
  shows "(\<forall>v \<in> set (tb_services (hb_db s)).
      rx_match service_name_rx (sv_name v) \<and> 1 \<le> sv_port v \<and> sv_port v \<le> 65535 \<and> sv_port v \<notin> {22, 7433} \<and>
      (\<exists>h \<in> set (tb_hosts (hb_db s)). h_id h = sv_host v)) \<and>
    (\<forall>f \<in> set (tb_fronts (hb_db s)).
      fr_hostname f = '''' \<or> (rx_match hostname_rx (fr_hostname f) \<and> to_lower (fr_hostname f) = fr_hostname f))"
  using space_reachable_ok [OF assms new_hub_ok]
  by (force simp: space_ok_def service_ok_def front_ok_def host_ids_def)

definition box :: host_row where
  "box = \<lparr>h_id = 1, h_name = ''box'', h_kind = ''compute'', h_addr = ''10.0.0.5'', h_port = 22, h_user = ''homedash'',
     h_key = '''', h_status = ''online'', h_facts = no_facts, h_model = '''', h_rebuild = '''', h_vault = '''',
     h_revoked = '''', h_enrolled = 0, h_last_seen = None\<rparr>"

definition box_hub :: hub where
  "box_hub = new_hub\<lparr>hb_db := empty_db\<lparr>tb_hosts := [box]\<rparr>\<rparr>"

definition wiki :: publish_body where
  "wiki = \<lparr>pb_name = ''wiki'', pb_host = ''box'', pb_port = 8080, pb_offered = [''peer''], pb_replace = False\<rparr>"

theorem published_services_allowed_witness:
  "\<exists>v. tb_services (hb_db (snd (publish_page (Some wiki) box_hub))) = [v] \<and> sv_port v = 8080 \<and> sv_port v \<notin> {22, 7433} \<and>
     rx_match service_name_rx (sv_name v)"
proof -
  let ?s = "snd (publish_page (Some wiki) box_hub)"
  have "space_step new_hub box_hub"
    by (rule step_else) (simp_all add: box_hub_def new_hub_def empty_db_def host_ids_def)
  then have reached: "space_step\<^sup>*\<^sup>* new_hub ?s" by (meson rtranclp.intros step_publish converse_rtranclp_into_rtranclp)
  have "rx_match service_name_rx ''wiki''" by code_simp
  then have "vet_service wiki = None" by (simp add: vet_service_def wiki_def refused_ports_def)
  moreover have "trim_space ''box'' = ''box''" by code_simp
  then have "host ''box'' (hb_db box_hub) = Inr (scan_host box)" by (simp add: host_def box_hub_def host_matches_def box_def)
  moreover have "isl (service ''wiki'' (hb_db box_hub))"
    by (simp add: service_def box_hub_def empty_db_def with_host_def)
  moreover have "publish_service ''wiki'' 1 8080 [''peer''] (hb_db box_hub) = Inr ((hb_db box_hub)\<lparr>tb_services :=
      [\<lparr>sv_name = ''wiki'', sv_host = 1, sv_port = 8080, sv_peers = join_list [''peer'']\<rparr>]\<rparr>)"
    by (simp add: publish_service_def host_known_def box_hub_def box_def empty_db_def upsert_def)
  moreover have "h_id (scan_host box) = 1" by (simp add: scan_host_def box_def)
  ultimately have "map sv_port (tb_services (hb_db ?s)) = [8080]" by (simp add: publish_page_def wiki_def)
  then obtain v where "tb_services (hb_db ?s) = [v]" "sv_port v = 8080" by auto
  with reached show ?thesis using published_services_allowed [of ?s] by auto
qed

text \<open>
  C30: A certificate is asked for exactly the names the ingress serves: whatever the panel was asked and the
  peers offered, the policy lets a name through if and only if a request under that name reaches an approved
  front which carries it.
\<close>

theorem certificate_iff_served:
  assumes "space_step\<^sup>*\<^sup>* new_hub s" and "h \<noteq> ''''" and "CHR '':'' \<notin> set h"
  shows "host_policy h (hb_db s) = None \<longleftrightarrow>
    (\<exists>f \<in> set (tb_fronts (hb_db s)). fr_approved f \<and> fr_hostname f = to_lower h \<and>
       ingress_front h (hb_db s) = Proxied (fr_peer f) (fr_service f) '''' '''')"
proof -
  let ?d = "hb_db s"
  have lower: "fr_hostname f = '''' \<or> to_lower (fr_hostname f) = fr_hostname f" if "f \<in> set (tb_fronts ?d)" for f
    using space_reachable_ok [OF assms(1) new_hub_ok] that by (auto simp: space_ok_def front_ok_def)
  have h: "to_lower h \<noteq> ''''" "split_host h = ''''" using assms(2,3) by (auto simp: to_lower_def split_host_def)
  have asked: "ingress_front h ?d = (case front_by_hostname (to_lower h) ?d of
      Inl _ \<Rightarrow> Missing ''no service at this name'' | Inr f \<Rightarrow> Proxied (fr_peer f) (fr_service f) '''' '''')"
    by (simp add: ingress_front_def h(2))
  have names: "to_lower h \<in> set (hostnames ?d) \<longleftrightarrow> (\<exists>f \<in> set (tb_fronts ?d). fr_approved f \<and> fr_hostname f = to_lower h)"
    using h(1) lower by (force simp: hostnames_def fronts_def)
  show ?thesis
  proof (cases "List.find (\<lambda>f. fr_hostname f = to_lower h \<and> fr_approved f) (tb_fronts ?d)")
    case None
    then show ?thesis using names by (auto simp: host_policy_def find_None_iff)
  next
    case (Some f)
    then have "f \<in> set (tb_fronts ?d)" "fr_hostname f = to_lower h" "fr_approved f"
      by (auto simp: find_Some_iff)
    moreover have "ingress_front h ?d = Proxied (fr_peer f) (fr_service f) '''' ''''"
      by (simp add: asked front_by_hostname_def Some)
    ultimately show ?thesis using names by (auto simp: host_policy_def)
  qed
qed

theorem certificate_iff_served_witness:
  "host_policy ''App.example.org'' (hb_db (snd (front_page ''peer'' ''wiki'' (Some (True, ''app.Example.org '')) new_hub))) = None \<and>
   (\<exists>f :: front_row. fr_hostname f = ''app.example.org'' \<and>
      ingress_front ''App.example.org'' (hb_db (snd (front_page ''peer'' ''wiki'' (Some (True, ''app.Example.org '')) new_hub))) =
        Proxied (fr_peer f) (fr_service f) '''' '''')"
proof -
  let ?s = "snd (front_page ''peer'' ''wiki'' (Some (True, ''app.Example.org '')) new_hub)"
  have p: "host_policy ''App.example.org'' (hb_db ?s) = None" by code_simp
  have l: "to_lower ''App.example.org'' = ''app.example.org''" by code_simp
  have "space_step\<^sup>*\<^sup>* new_hub ?s" using step_front by (rule r_into_rtranclp)
  from certificate_iff_served [OF this, of "''App.example.org''"] p l show ?thesis by auto
qed

text \<open>
  A request that names no host at all is looked up under the empty name, which is the name every link has:
  the ingress serves the first approved link to anyone, without the panel's sign-in.
\<close>

theorem nameless_request_served_a_link:
  assumes "f \<in> set (tb_fronts d)" and "fr_approved f" and "fr_hostname f = ''''"
  shows "\<exists>g \<in> set (tb_fronts d). fr_approved g \<and> fr_hostname g = '''' \<and>
    ingress_front '''' d = Proxied (fr_peer g) (fr_service g) '''' ''''"
proof -
  obtain g where g: "List.find (\<lambda>f. fr_hostname f = '''' \<and> fr_approved f) (tb_fronts d) = Some g"
    using assms by (cases "List.find (\<lambda>f. fr_hostname f = '''' \<and> fr_approved f) (tb_fronts d)") (auto simp: find_None_iff)
  then have "g \<in> set (tb_fronts d)" "fr_approved g" "fr_hostname g = ''''" by (auto simp: find_Some_iff)
  moreover have "ingress_front '''' d = Proxied (fr_peer g) (fr_service g) '''' ''''"
    using g by (simp add: ingress_front_def split_host_def front_by_hostname_def to_lower_def)
  ultimately show ?thesis by blast
qed

section \<open>The link\<close>

text \<open>A link reaches a service only through a front that is approved, with the path below it.\<close>

lemma link_needs_approval:
  assumes "link_front path d = Proxied p v prefix rest"
  shows "prefix = ''/~'' @ p @ ''/'' @ v \<and> has_prefix path prefix \<and> rest = trim_prefix path prefix \<and>
    (\<exists>f \<in> set (tb_fronts d). fr_peer f = p \<and> fr_service f = v \<and> fr_approved f)"
  using assms
  by (auto simp: link_front_def Let_def front_def front_is_def find_Some_iff
      split: if_split_asm sum.split_asm option.split_asm)

text \<open>The proxy leaves the session's cookie in the request it sends to the peer's service.\<close>

theorem session_cookie_sent_on:
  "fw_headers (front_rewrite svc prefix client h tls hs) ''Cookie'' = hs ''Cookie''"
  by (simp add: front_rewrite_def Let_def)

end
