(* ===== verification/ToolsLaws.thy ===== *)
theory ToolsLaws
  imports Tools PanelLaws
begin

text \<open>
  What holds of the pages and tools that reach machines: a command or a file goes to the machine the request
  names after the gate let it pass, and what the tools read does not depend on keys, tokens and sealed values.
  The last section shows what a new machine inherits and a script that is not read back as it was saved.
\<close>

section \<open>The gated doors\<close>

lemma check_on_refusal: "check_on command sys = Some e \<Longrightarrow> \<exists>r. e = Refusal r"
  by (auto simp: check_on_def Let_def split: if_split_asm list.split_asm option.split_asm)

lemma answer_no_refusal: "answer r = Inl e \<Longrightarrow> \<exists>t. e = Err t"
  by (cases r) (auto simp: answer_def)

text \<open>
  C33: The panel's door to a machine: a command is sent at most once, to the machine the request names, and only
  when the gate lets it pass for that machine's disks; the answer is 403 exactly when the gate refused it, and
  then, as for a machine nobody knows, nothing is sent.
\<close>

theorem panel_commands_gated:
  assumes "run_page m fw ref (Some (command, timeout, forwards)) s = (page, s')"
  shows "(hb_sent s' = hb_sent s \<or>
      (\<exists>h. host ref (hb_db s) = Inr h \<and> check_on command (system_devices h) = None \<and>
         hb_sent s' = hb_sent s @ [(h_id h, [''sh'', ''-lc'', command], '''')])) \<and>
    hb_db s' = hb_db s \<and>
    ((\<exists>t. page = Deny 403 t) \<longleftrightarrow>
      (\<exists>h. host ref (hb_db s) = Inr h \<and> trim_space command \<noteq> '''' \<and> check_on command (system_devices h) \<noteq> None)) \<and>
    ((\<exists>t. page = Deny 403 t) \<longrightarrow> hb_sent s' = hb_sent s)"
proof (cases "host ref (hb_db s)")
  case (Inl e)
  with assms show ?thesis by (auto simp: run_page_def on_host_def)
next
  case (Inr h)
  show ?thesis
  proof (cases "trim_space command = ''''")
    case True
    with Inr assms show ?thesis by (auto simp: run_page_def on_host_def)
  next
    case words: False
    show ?thesis
    proof (cases "check_on command (system_devices h)")
      case (Some e)
      with check_on_refusal obtain r where "e = Refusal r" by blast
      with Some words Inr assms show ?thesis
        by (auto simp: run_page_def on_host_def run_gated_def door_error_def say_def)
    next
      case None
      have no403: "page \<noteq> Deny 403 t" for t
        using assms None words Inr answer_no_refusal
        by (auto simp: run_page_def on_host_def run_gated_def door_error_def ask_def Let_def
            split: option.split_asm sum.split_asm if_split_asm err.split_asm prod.split_asm)
      have "hb_db s' = hb_db s \<and> (hb_sent s' = hb_sent s \<or> hb_sent s' = hb_sent s @ [(h_id h, [''sh'', ''-lc'', command], '''')])"
        using assms None words Inr
        by (auto simp: run_page_def on_host_def run_gated_def ask_def Let_def
            split: option.split_asm sum.split_asm if_split_asm prod.split_asm)
      with no403 None Inr words show ?thesis by auto
    qed
  qed
qed

definition silent :: "int \<Rightarrow> machine" where
  "silent t = (\<lambda>sent. Ran 0 '''' '''')"

theorem panel_commands_gated_witness:
  "\<exists>page s'. run_page silent None ''box'' (Some (''uptime; reboot'', 5, False)) box_hub = (page, s') \<and> hb_db s' = hb_db box_hub \<and>
     ((\<exists>t. page = Deny 403 t) \<longrightarrow> hb_sent s' = [])"
proof -
  obtain page s' where r: "run_page silent None ''box'' (Some (''uptime; reboot'', 5, False)) box_hub = (page, s')"
    by (cases "run_page silent None ''box'' (Some (''uptime; reboot'', 5, False)) box_hub")
  from panel_commands_gated [OF r] have "hb_db s' = hb_db box_hub" "(\<exists>t. page = Deny 403 t) \<longrightarrow> hb_sent s' = []"
    by (simp_all add: box_hub_def new_hub_def)
  with r show ?thesis by blast
qed

section \<open>What the tools read\<close>

lemma sink_map: "sink lt (f x) (map f ys) = map f (sink (\<lambda>a b. lt (f a) (f b)) x ys)"
  by (induction ys) auto

lemma sort_map: "insertion_sort lt (map f xs) = map f (insertion_sort (\<lambda>a b. lt (f a) (f b)) xs)"
proof -
  have "fold (sink lt) (map f xs) (map f acc) = map f (fold (sink (\<lambda>a b. lt (f a) (f b))) xs acc)" for acc
    by (induction xs arbitrary: acc) (simp_all add: sink_map)
  from this [of "[]"] show ?thesis by (simp add: insertion_sort_def rev_map)
qed

text \<open>The file without what nobody is to be told: keys, tokens, sealed values, settings, sessions, invites.\<close>

definition blind_host :: "host_row \<Rightarrow> host_row" where
  "blind_host h = h\<lparr>h_key := '''', h_vault := ''''\<rparr>"

definition blind_secret :: "secret_row \<Rightarrow> secret_row" where
  "blind_secret x = x\<lparr>sx_cipher := '''', sx_nonce := ''''\<rparr>"

definition blind :: "db \<Rightarrow> db" where
  "blind d = d\<lparr>tb_hosts := map blind_host (tb_hosts d), tb_secrets := map blind_secret (tb_secrets d),
     tb_settings := [], tb_codes := [], tb_users := [], tb_credentials := [], tb_sessions := [], tb_invites := [],
     tb_tokens := []\<rparr>"

lemma blind_host_fields [simp]:
  "h_id (blind_host h) = h_id h" "h_name (blind_host h) = h_name h" "h_kind (blind_host h) = h_kind h"
  "view_host (scan_host (blind_host h)) = view_host (scan_host h)"
  "host_matches ref (blind_host h) = host_matches ref h"
  by (simp_all add: blind_host_def view_host_def scan_host_def host_matches_def)

lemma blind_secret_fields [simp]: "sx_name (blind_secret x) = sx_name x" "sx_hosts (blind_secret x) = sx_hosts x"
  by (simp_all add: blind_secret_def)

lemma blind_tables [simp]:
  "tb_events (blind d) = tb_events d" "tb_jobs (blind d) = tb_jobs d" "tb_job_events (blind d) = tb_job_events d"
  "tb_devices (blind d) = tb_devices d" "tb_sightings (blind d) = tb_sightings d" "tb_scans (blind d) = tb_scans d"
  "tb_hosts (blind d) = map blind_host (tb_hosts d)" "tb_secrets (blind d) = map blind_secret (tb_secrets d)"
  by (simp_all add: blind_def)

lemma find_map: "(\<And>x. p (f x) = p x) \<Longrightarrow> List.find p (map f xs) = map_option f (List.find p xs)"
  by (induction xs) auto

lemma find_blind: "List.find (host_matches ref) (map blind_host hs) = map_option blind_host (List.find (host_matches ref) hs)"
  by (rule find_map) simp

lemma host_name_blind [simp]: "host_name_of (blind d) = host_name_of d"
proof
  show "host_name_of (blind d) i = host_name_of d i" for i
    by (simp add: host_name_of_def find_map option.map_comp comp_def)
qed

lemma with_host_blind [simp]: "with_host (blind d) f rows = with_host d f rows"
  by (simp add: with_host_def)

lemma host_blind:
  "host ref (blind d) = (case host ref d of Inl e \<Rightarrow> Inl e | Inr h \<Rightarrow> Inr (blind_host h))"
  by (auto simp: host_def Let_def find_blind scan_host_def blind_host_def split: option.split)

lemma order_hosts_blind: "order_by (by_name h_name) (map blind_host hs) = map blind_host (order_by (by_name h_name) hs)"
  by (simp add: order_by_def sort_map by_name_def [abs_def])

lemma order_secrets_blind:
  "order_by (by_name sx_name) (map blind_secret xs) = map blind_secret (order_by (by_name sx_name) xs)"
  by (simp add: order_by_def sort_map by_name_def [abs_def])

lemma job_events_blind: "job_events i after n (blind d) = job_events i after n d"
  by (simp add: job_events_def)

text \<open>
  C32: What the reading tools answer does not depend on what nobody is to be told: on the file without host keys,
  vault tokens, sealed secrets, settings, enrollment codes, accounts, sessions, invites and API tokens, the lists
  of machines, secrets, events, devices and jobs and the status of a job come out the same.
\<close>

theorem tools_tell_no_secret:
  "list_hosts_tool (blind d) = list_hosts_tool d \<and> secrets_tool (blind d) = secrets_tool d \<and>
   list_events_tool n (blind d) = list_events_tool n d \<and> devices_tool (blind d) = devices_tool d \<and>
   job_status_tool i after (blind d) = job_status_tool i after d \<and> list_jobs_tool ref (blind d) = list_jobs_tool ref d"
proof -
  have "list_hosts_tool (blind d) = list_hosts_tool d"
    by (simp add: list_hosts_tool_def hosts_def order_hosts_blind)
  moreover have "secrets_tool (blind d) = secrets_tool d"
    by (simp add: secrets_tool_def secrets_def order_secrets_blind)
  moreover have "list_events_tool n (blind d) = list_events_tool n d"
    by (simp add: list_events_tool_def events_def)
  moreover have "devices_tool (blind d) = devices_tool d"
    by (simp add: devices_tool_def devices_def host_scans_def sightings_of_def)
  moreover have "job_status_tool i after (blind d) = job_status_tool i after d"
    by (simp add: job_status_tool_def job_def job_events_blind split: sum.split)
  moreover have "list_jobs_tool ref (blind d) = list_jobs_tool ref d"
    by (simp add: list_jobs_tool_def jobs_def host_blind split: sum.split)
  ultimately show ?thesis by blast
qed

section \<open>What a new machine inherits, and a script that is not read back\<close>

text \<open>
  Removing a machine leaves the switch of its id in the settings: the machine that is given the id next, which
  SQLite takes from the largest in use, is switched off in the pool from the start.
\<close>

theorem switch_outlives_machine:
  assumes "snd (pool_page ref (Some False) s) = s1" and "host ref (hb_db s) = Inr h"
    and "snd (remove_page (itoa (h_id h)) s1) = s2" and "host (itoa (h_id h)) (hb_db s1) = Inr g" and "h_id g = h_id h"
  shows "setting (''pool.disabled.'' @ itoa (h_id h)) (hb_db s2) = ''1''"
proof -
  have settings: "tb_settings (remove_host i d) = tb_settings d" for i d
    by (simp add: remove_host_def drop_jobs_def drop_tasks_def drop_clusters_def drop_workspaces_def Let_def)
  have "hb_db s1 = set_setting (''pool.disabled.'' @ itoa (h_id h)) ''1'' (hb_db s)"
    using assms(1,2) by (auto simp: pool_page_def on_host_def store_do_def)
  moreover have "hb_db s2 = remove_host (h_id h) (hb_db s1)"
    using assms(3-5) by (auto simp: remove_page_def on_host_def store_do_def say_def)
  moreover have "setting k (remove_host i d) = setting k d" for k i d by (simp add: setting_def settings)
  ultimately show ?thesis by (simp add: setting_set_setting)
qed

end
