(* ===== verification/Remote.thy ===== *)
theory Remote
  imports FleetDoor
begin

text \<open>
  \<open>internal/remote/remote.go\<close> below the door of \<open>FleetDoor\<close>: the dial that accepts only the pinned host key,
  the connections kept between commands, the one command line a machine's shell reads, and the retry on a
  connection that turned out to be closed. The SSH library and the network are the parameter \<open>network\<close>, what
  becomes of a session the parameter \<open>sessions\<close>. The history of dials and of commands sent is kept beside the
  state, for the statements of \<open>RemoteLaws\<close> only.
\<close>

section \<open>The dial\<close>

record target =
  tg_addr :: string
  tg_user :: string
  tg_pinned :: string

definition target_key :: "target \<Rightarrow> string" where
  "target_key t = tg_user t @ ''@'' @ tg_addr t @ [newline] @ tg_pinned t"

text \<open>
  What the library and the network answer: a line of \<open>authorized_keys\<close> as algorithm and key, a TCP connection,
  a handshake with a user, an algorithm and the callback that judges the host key; and the key the machine at an
  address presents for an algorithm.
\<close>

record network =
  nw_parse :: "string \<Rightarrow> (string \<times> string) res"
  nw_connect :: "string \<Rightarrow> err option"
  nw_handshake :: "string \<Rightarrow> string \<Rightarrow> string \<Rightarrow> (string \<Rightarrow> string option) \<Rightarrow> string option"
  nw_presents :: "string \<Rightarrow> string \<Rightarrow> string"

definition key_mismatch :: string where
  "key_mismatch = ''host key mismatch''"

definition host_key_callback :: "string \<Rightarrow> string \<Rightarrow> string option" where
  "host_key_callback pinned key = (if key \<noteq> pinned then Some key_mismatch else None)"

text \<open>The answer is the key presented.\<close>

definition dial :: "network \<Rightarrow> target \<Rightarrow> string res" where
  "dial nw t =
     (case nw_parse nw (tg_pinned t) of
        Inl e \<Rightarrow> Inl (Err (''pinned host key: '' @ TaskSched.err_text e))
      | Inr (alg, pinned) \<Rightarrow>
          (case nw_connect nw (tg_addr t) of
             Some e \<Rightarrow> Inl e
           | None \<Rightarrow>
               (case nw_handshake nw (tg_addr t) (tg_user t) alg (host_key_callback pinned) of
                  Some e \<Rightarrow> if contains_str e key_mismatch then Inl (Err key_mismatch) else Inl (Err e)
                | None \<Rightarrow> Inr (nw_presents nw (tg_addr t) alg))))"

section \<open>Kept connections\<close>

record kept =
  kp_conn :: nat
  kp_used :: instant
  kp_due :: instant

text \<open>
  A connection is a number. \<open>ex_late\<close> are the connections that were dialed beside one already kept, with the
  time they are closed; \<open>ex_dials\<close> and \<open>ex_sent\<close> are the history.
\<close>

record executor =
  ex_kept :: "(string \<times> kept) list"
  ex_open :: "nat list"
  ex_next :: nat
  ex_late :: "(instant \<times> nat) list"
  ex_dials :: "(nat \<times> target \<times> string) list"
  ex_sent :: "(nat \<times> string \<times> string) list"

definition new_executor :: executor where
  "new_executor = \<lparr>ex_kept = [], ex_open = [], ex_next = 0, ex_late = [], ex_dials = [], ex_sent = []\<rparr>"

definition kept_idle :: instant where
  "kept_idle = 120 * 10 ^ 9"

definition forget_kept :: "string \<Rightarrow> executor \<Rightarrow> executor" where
  "forget_kept k e = e\<lparr>ex_kept := filter (\<lambda>p. fst p \<noteq> k) (ex_kept e)\<rparr>"

definition close_conn :: "nat \<Rightarrow> executor \<Rightarrow> executor" where
  "close_conn c e = e\<lparr>ex_open := filter (\<lambda>x. x \<noteq> c) (ex_open e)\<rparr>"

text \<open>The first half of \<open>client\<close>, under the lock: a kept connection, its timer set again.\<close>

definition lookup_kept :: "instant \<Rightarrow> target \<Rightarrow> executor \<Rightarrow> nat option \<times> executor" where
  "lookup_kept now t e =
     (case map_of (ex_kept e) (target_key t) of
        None \<Rightarrow> (None, e)
      | Some k \<Rightarrow>
          (Some (kp_conn k),
           e\<lparr>ex_kept := map (\<lambda>p. if fst p = target_key t
                                 then (fst p, (snd p)\<lparr>kp_used := now, kp_due := now + kept_idle\<rparr>) else p) (ex_kept e)\<rparr>))"

text \<open>The connection a dial opened, and the second half of \<open>client\<close>: it is kept unless another was kept meanwhile.\<close>

definition opened :: "target \<Rightarrow> string \<Rightarrow> executor \<Rightarrow> nat \<times> executor" where
  "opened t shown e =
     (ex_next e, e\<lparr>ex_next := Suc (ex_next e), ex_open := ex_open e @ [ex_next e],
                   ex_dials := ex_dials e @ [(ex_next e, t, shown)]\<rparr>)"

definition keep_conn :: "instant \<Rightarrow> target \<Rightarrow> nat \<Rightarrow> executor \<Rightarrow> executor" where
  "keep_conn now t c e =
     (if map_of (ex_kept e) (target_key t) \<noteq> None then e\<lparr>ex_late := ex_late e @ [(now + kept_idle, c)]\<rparr>
      else e\<lparr>ex_kept := ex_kept e @ [(target_key t, \<lparr>kp_conn = c, kp_used = now, kp_due = now + kept_idle\<rparr>)]\<rparr>)"

text \<open>\<open>between\<close> is what other callers do to the executor while this one dials.\<close>

definition client_conn ::
  "network \<Rightarrow> (executor \<Rightarrow> executor) \<Rightarrow> instant \<Rightarrow> target \<Rightarrow> executor \<Rightarrow> (nat \<times> bool) res \<times> executor" where
  "client_conn nw between now t e =
     (case lookup_kept now t e of
        (Some c, e1) \<Rightarrow> (Inr (c, True), e1)
      | (None, e1) \<Rightarrow>
          (case dial nw t of
             Inl er \<Rightarrow> (Inl er, between e1)
           | Inr shown \<Rightarrow>
               (case opened t shown (between e1) of (c, e2) \<Rightarrow> (Inr (c, False), keep_conn now t c e2))))"

definition drop_conn :: "string \<Rightarrow> nat \<Rightarrow> executor \<Rightarrow> executor" where
  "drop_conn k c e =
     close_conn c (case map_of (ex_kept e) k of
                     Some x \<Rightarrow> if kp_conn x = c then forget_kept k e else e
                   | None \<Rightarrow> e)"

definition close_all :: "executor \<Rightarrow> executor" where
  "close_all e = fold (\<lambda>p. close_conn (kp_conn (snd p))) (ex_kept e) (e\<lparr>ex_kept := []\<rparr>)"

text \<open>The timers that are due: a kept connection is dropped, one used beside it is closed.\<close>

definition expire :: "instant \<Rightarrow> executor \<Rightarrow> executor" where
  "expire now e =
     (let e1 = fold (\<lambda>p. drop_conn (fst p) (kp_conn (snd p))) (filter (\<lambda>p. kp_due (snd p) \<le> now) (ex_kept e)) e
      in fold (\<lambda>p. close_conn (snd p)) (filter (\<lambda>p. fst p \<le> now) (ex_late e1))
           (e1\<lparr>ex_late := filter (\<lambda>p. now < fst p) (ex_late e1)\<rparr>))"

section \<open>One command\<close>

text \<open>
  What becomes of a command on a connection: no session, a session that does not start it, its end with status
  and output, a session that broke, or the caller's time ran out.
\<close>

datatype session_end = Unopened string | Unstarted string | Exited int string string | Broken string | Overdue string

type_synonym sessions = "nat \<Rightarrow> string \<Rightarrow> string \<Rightarrow> session_end"

text \<open>An error says beside it whether it is \<open>errSession\<close>.\<close>

definition run_on ::
  "sessions \<Rightarrow> nat \<Rightarrow> string list \<Rightarrow> string \<Rightarrow> executor \<Rightarrow> ((bool \<times> err) + (int \<times> string \<times> string)) \<times> executor" where
  "run_on ss c argv stdin e =
     (if argv = [] then (Inl (False, Err ''empty command''), e)
      else let line = quote_args argv;
               e1 = e\<lparr>ex_sent := ex_sent e @ [(c, line, stdin)]\<rparr>
           in (case ss c line stdin of
                 Unopened er \<Rightarrow> (Inl (True, Err (''open session: '' @ er)), e)
               | Unstarted er \<Rightarrow> (Inl (False, Err er), e1)
               | Overdue er \<Rightarrow> (Inl (False, Err er), e1)
               | Broken er \<Rightarrow> (Inl (False, Err er), e1)
               | Exited status out er \<Rightarrow> (Inr (status, out, er), e1)))"

lemma kept_cleared:
  assumes "lookup_kept now t e = (Some c, e1)" and "ex_kept e2 = ex_kept e1"
  shows "map_of (ex_kept (drop_conn (target_key t) c e2)) (target_key t) = None"
proof -
  have m: "map_of (map (\<lambda>p. if fst p = k then (fst p, f (snd p)) else p) xs) k = map_option f (map_of xs k)"
    for f :: "kept \<Rightarrow> kept" and k :: string and xs
    by (induction xs) auto
  have "map_of (filter (\<lambda>p. fst p \<noteq> k) xs) k = None" for k :: string and xs :: "(string \<times> kept) list"
    by (induction xs) auto
  moreover obtain x where "map_of (ex_kept e1) (target_key t) = Some x" "kp_conn x = c"
    using assms(1) m [of "target_key t" "\<lambda>k. k\<lparr>kp_used := now, kp_due := now + kept_idle\<rparr>" "ex_kept e"]
    by (auto simp: lookup_kept_def split: option.split_asm)
  ultimately show ?thesis using assms(2) by (simp add: drop_conn_def close_conn_def forget_kept_def)
qed

lemma run_on_kept: "ex_kept (snd (run_on ss c argv stdin e)) = ex_kept e"
  by (simp add: run_on_def Let_def split: session_end.split)

lemma retry_forgets:
  assumes "(Inr (c, True), e1) = client_conn nw between now t e" and "(q, e2) = run_on ss c argv stdin e1"
  shows "map_of (ex_kept e) (target_key t) \<noteq> None \<and>
    map_of (ex_kept (drop_conn (target_key t) c e2)) (target_key t) = None"
proof -
  from assms(1) have l: "lookup_kept now t e = (Some c, e1)"
    by (auto simp: client_conn_def dest!: sym split: prod.split_asm option.split_asm sum.split_asm)
  then have "map_of (ex_kept e) (target_key t) \<noteq> None" by (auto simp: lookup_kept_def split: option.split_asm)
  with kept_cleared [OF l] run_on_kept [of ss c argv stdin e1] assms(2) show ?thesis by (metis snd_conv)
qed

text \<open>
  \<open>Run\<close>. \<open>over\<close> says whether the caller's time has run out when the command's error is looked at. The retry
  dials, for the connection it was handed is no longer kept.
\<close>

function run_remote ::
  "network \<Rightarrow> sessions \<Rightarrow> bool \<Rightarrow> instant \<Rightarrow> target \<Rightarrow> string list \<Rightarrow> string \<Rightarrow> executor \<Rightarrow>
   (int \<times> string \<times> string) res \<times> executor" where
  "run_remote nw ss over now t argv stdin e =
     (case client_conn nw (\<lambda>e. e) now t e of
        (Inl er, e1) \<Rightarrow> (Inl er, e1)
      | (Inr (c, reused), e1) \<Rightarrow>
          (case run_on ss c argv stdin e1 of
             (Inr r, e2) \<Rightarrow> (Inr r, e2)
           | (Inl (unopened, er), e2) \<Rightarrow>
               (let e3 = drop_conn (target_key t) c e2
                in if reused \<and> unopened \<and> \<not> over then run_remote nw ss over now t argv stdin e3 else (Inl er, e3))))"
  by pat_completeness auto

termination
  by (relation "measure (\<lambda>(nw, ss, over, now, t, argv, stdin, e).
      if map_of (ex_kept e) (target_key t) = None then 0 else 1)") (auto dest!: retry_forgets)

declare run_remote.simps [simp del]

definition run_script ::
  "network \<Rightarrow> sessions \<Rightarrow> bool \<Rightarrow> instant \<Rightarrow> target \<Rightarrow> string \<Rightarrow> string list \<Rightarrow> executor \<Rightarrow>
   (int \<times> string \<times> string) res \<times> executor" where
  "run_script nw ss over now t script args e = run_remote nw ss over now t ([''sh'', ''-s'', ''--''] @ args) script e"

text \<open>\<open>WriteFile\<close> on an open connection.\<close>

definition write_on ::
  "sessions \<Rightarrow> nat \<Rightarrow> string \<Rightarrow> string \<Rightarrow> string \<Rightarrow> bool \<Rightarrow> executor \<Rightarrow> err option \<times> executor" where
  "write_on ss c path content mode sudo e =
     (case run_on ss c (put_argv path mode sudo) content e of
        (Inl (u, er), e1) \<Rightarrow> (Some er, e1)
      | (Inr (status, out, er), e1) \<Rightarrow>
          (if status \<noteq> 0 then Some (Err (''write '' @ path @ '': '' @ trim_space er)) else None, e1))"

end
