(* ===== verification/RemoteLaws.thy ===== *)
theory RemoteLaws
  imports Remote
begin

text \<open>
  What the door to the machines keeps: the line sent is read by the machine's shell as exactly the words given,
  a command reaches only a machine that presented the pinned key, and it is started once at most, the retry on a
  dead connection included. The last section shows that the idle timer takes no notice of a command that runs.
\<close>

section \<open>The line a shell reads\<close>

text \<open>
  How a POSIX shell splits one line into words; \<open>None\<close> for a line it would do more with than split. The flag
  says whether a single quote is open, the option holds the word begun.
\<close>

fun sh_split :: "bool \<Rightarrow> string option \<Rightarrow> string \<Rightarrow> string list option" where
  "sh_split True w [] = None"
| "sh_split False w [] = Some (case w of None \<Rightarrow> [] | Some v \<Rightarrow> [v])"
| "sh_split True w (c # cs) =
     (let v = (case w of None \<Rightarrow> [] | Some v \<Rightarrow> v)
      in if c = CHR 0x27 then sh_split False (Some v) cs else sh_split True (Some (v @ [c])) cs)"
| "sh_split False w (c # cs) =
     (let v = (case w of None \<Rightarrow> [] | Some v \<Rightarrow> v)
      in if c = CHR 0x27 then sh_split True (Some v) cs
         else if c = CHR 0x5C then (case cs of [] \<Rightarrow> None | d # ds \<Rightarrow> sh_split False (Some (v @ [d])) ds)
         else if c = CHR '' '' \<or> c = CHR 0x09
         then (case w of None \<Rightarrow> sh_split False None cs | Some u \<Rightarrow> map_option (Cons u) (sh_split False None cs))
         else if c \<in> set (newline # ''$`;&|<>()*?[#~='' @ [CHR 0x22]) then None
         else sh_split False (Some (v @ [c])) cs)"

lemma split_quoted_body:
  "sh_split True (Some v) (replace_char (CHR 0x27) [CHR 0x27, CHR 0x5C, CHR 0x27, CHR 0x27] s @ CHR 0x27 # rest) =
     sh_split False (Some (v @ s)) rest"
  by (induction s arbitrary: v) auto

lemma split_quoted: "sh_split False None (shell_quote s @ rest) = sh_split False (Some s) rest"
  using split_quoted_body [of "[]" s rest] by (simp add: shell_quote_def)

text \<open>
  Every argument vector, whatever bytes its words hold, is read back by the machine's shell word for word
  from the one line it is sent as.
\<close>

theorem argv_read_back: "sh_split False None (quote_args argv) = Some argv"
proof (induction argv)
  case Nil
  then show ?case by (simp add: quote_args_def)
next
  case (Cons a as)
  show ?case
  proof (cases as)
    case Nil
    then show ?thesis using split_quoted [of a "[]"] by (simp add: quote_args_def)
  next
    case (Cons b bs)
    then have "quote_args (a # as) = shell_quote a @ '' '' @ quote_args as" by (simp add: quote_args_def)
    with Cons.IH split_quoted [of a "'' '' @ quote_args as"] show ?thesis by simp
  qed
qed

section \<open>Whom a connection leads to\<close>

text \<open>
  What the SSH library documents: a handshake succeeds only if the callback accepted the key the machine
  presented for the algorithm asked for. \<open>parse\<close> is how the library reads a line of \<open>authorized_keys\<close>.
\<close>

definition honest :: "(string \<Rightarrow> (string \<times> string) res) \<Rightarrow> network \<Rightarrow> bool" where
  "honest parse nw \<longleftrightarrow> nw_parse nw = parse \<and>
     (\<forall>addr user alg judge. nw_handshake nw addr user alg judge = None \<longrightarrow> judge (nw_presents nw addr alg) = None)"

text \<open>The account is \<open>homedash\<close> and an address a host and a port: neither holds a line feed, the account no at sign.\<close>

definition plain_target :: "target \<Rightarrow> bool" where
  "plain_target t \<longleftrightarrow> CHR ''@'' \<notin> set (tg_user t) \<and> newline \<notin> set (tg_user t) \<and> newline \<notin> set (tg_addr t)"

lemma append_sep_eq: "x \<notin> set a \<Longrightarrow> x \<notin> set b \<Longrightarrow> a @ x # r = b @ x # s \<longleftrightarrow> a = b \<and> r = s"
  by (auto simp: append_eq_append_conv2 Cons_eq_append_conv append_eq_Cons_conv)

lemma target_key_inj:
  assumes "plain_target t" "plain_target u" "target_key t = target_key u"
  shows "t = u"
proof -
  let ?l = "\<lambda>t. tg_user t @ CHR ''@'' # tg_addr t"
  have "newline \<notin> set (?l t)" "newline \<notin> set (?l u)"
    using assms(1,2) by (auto simp: plain_target_def newline_def)
  moreover have "?l t @ newline # tg_pinned t = ?l u @ newline # tg_pinned u"
    using assms(3) by (simp add: target_key_def)
  ultimately have l: "?l t = ?l u" and p: "tg_pinned t = tg_pinned u"
    using append_sep_eq [of newline "?l t" "?l u" "tg_pinned t" "tg_pinned u"] by blast+
  then have "tg_user t = tg_user u \<and> tg_addr t = tg_addr u"
    using assms(1,2) by (simp add: append_sep_eq plain_target_def)
  with p show ?thesis by simp
qed

text \<open>A dial on record: its target, and that the key shown is the one the target pins.\<close>

definition pinned_dial :: "(string \<Rightarrow> (string \<times> string) res) \<Rightarrow> nat \<times> target \<times> string \<Rightarrow> bool" where
  "pinned_dial parse r = (case r of (c, t, shown) \<Rightarrow> plain_target t \<and> (\<exists>alg. parse (tg_pinned t) = Inr (alg, shown)))"

definition ex_ok :: "(string \<Rightarrow> (string \<times> string) res) \<Rightarrow> executor \<Rightarrow> bool" where
  "ex_ok parse e \<longleftrightarrow> (\<forall>r \<in> set (ex_dials e). pinned_dial parse r) \<and>
     (\<forall>(k, x) \<in> set (ex_kept e). \<exists>t shown. (kp_conn x, t, shown) \<in> set (ex_dials e) \<and> target_key t = k)"

text \<open>
  What any number of callers do to the executor, each under its lock: a kept connection taken, a dial that
  succeeded, its connection kept, a connection dropped, all closed, the timers that are due, a command.
\<close>

inductive ex_reach :: "(string \<Rightarrow> (string \<times> string) res) \<Rightarrow> executor \<Rightarrow> bool" for parse where
  reach_new: "ex_reach parse new_executor"
| reach_lookup: "ex_reach parse e \<Longrightarrow> ex_reach parse (snd (lookup_kept now t e))"
| reach_dial: "ex_reach parse e \<Longrightarrow> honest parse nw \<Longrightarrow> plain_target t \<Longrightarrow> dial nw t = Inr shown \<Longrightarrow>
    ex_reach parse (snd (opened t shown e))"
| reach_keep: "ex_reach parse e \<Longrightarrow> (c, t, shown) \<in> set (ex_dials e) \<Longrightarrow> ex_reach parse (keep_conn now t c e)"
| reach_drop: "ex_reach parse e \<Longrightarrow> ex_reach parse (drop_conn k c e)"
| reach_close: "ex_reach parse e \<Longrightarrow> ex_reach parse (close_all e)"
| reach_expire: "ex_reach parse e \<Longrightarrow> ex_reach parse (expire now e)"
| reach_command: "ex_reach parse e \<Longrightarrow> ex_reach parse (snd (run_on ss c argv stdin e))"

text \<open>What neither records a dial nor keeps a connection.\<close>

definition only_closes :: "executor \<Rightarrow> executor \<Rightarrow> bool" where
  "only_closes e e' \<longleftrightarrow> ex_dials e' = ex_dials e \<and> set (ex_kept e') \<subseteq> set (ex_kept e) \<and>
     set (ex_open e') \<subseteq> set (ex_open e) \<and> ex_sent e' = ex_sent e \<and> ex_late e' = ex_late e"

lemma only_closes_refl: "only_closes e e"
  by (simp add: only_closes_def)

lemma only_closes_trans: "only_closes e e1 \<Longrightarrow> only_closes e1 e2 \<Longrightarrow> only_closes e e2"
  by (auto simp: only_closes_def)

lemma only_closes_conn: "only_closes e (close_conn c e)"
  by (auto simp: only_closes_def close_conn_def)

lemma only_closes_drop: "only_closes e (drop_conn k c e)"
  by (auto simp: only_closes_def drop_conn_def close_conn_def forget_kept_def split: option.split)

lemma only_closes_fold: "(\<And>x e. only_closes e (f x e)) \<Longrightarrow> only_closes e (fold f xs e)"
  by (induction xs arbitrary: e) (auto intro: only_closes_refl only_closes_trans)

lemma ex_ok_closes: "only_closes e e' \<Longrightarrow> ex_ok parse e \<Longrightarrow> ex_ok parse e'"
  by (auto simp: only_closes_def ex_ok_def)

lemma ex_ok_late: "ex_ok parse (e\<lparr>ex_late := l\<rparr>) = ex_ok parse e"
  by (simp add: ex_ok_def)

lemma ex_ok_lookup: "ex_ok parse e \<Longrightarrow> ex_ok parse (snd (lookup_kept now t e))"
  by (fastforce simp: lookup_kept_def ex_ok_def split: option.split if_split_asm)

lemma dial_pinned:
  assumes "honest parse nw" "dial nw t = Inr shown"
  shows "\<exists>alg. parse (tg_pinned t) = Inr (alg, shown)"
proof -
  from assms(2) obtain alg key where k: "nw_parse nw (tg_pinned t) = Inr (alg, key)"
    and h: "nw_handshake nw (tg_addr t) (tg_user t) alg (host_key_callback key) = None"
    and s: "shown = nw_presents nw (tg_addr t) alg"
    by (auto simp: dial_def split: sum.split_asm option.split_asm if_split_asm)
  from assms(1) h have "host_key_callback key (nw_presents nw (tg_addr t) alg) = None" by (auto simp: honest_def)
  then have "key = shown" by (simp add: s host_key_callback_def split: if_split_asm)
  with k assms(1) show ?thesis by (auto simp: honest_def)
qed

lemma ex_ok_opened:
  assumes "ex_ok parse e" "honest parse nw" "plain_target t" "dial nw t = Inr shown"
  shows "ex_ok parse (snd (opened t shown e))"
  using assms dial_pinned [OF assms(2,4)] by (fastforce simp: opened_def ex_ok_def pinned_dial_def)

lemma ex_ok_keep: "ex_ok parse e \<Longrightarrow> (c, t, shown) \<in> set (ex_dials e) \<Longrightarrow> ex_ok parse (keep_conn now t c e)"
  by (fastforce simp: keep_conn_def ex_ok_def)

lemma ex_ok_command: "ex_ok parse e \<Longrightarrow> ex_ok parse (snd (run_on ss c argv stdin e))"
  by (simp add: run_on_def ex_ok_def Let_def split: session_end.split)

lemma ex_reach_ok: "ex_reach parse e \<Longrightarrow> ex_ok parse e"
proof (induction rule: ex_reach.induct)
  case (reach_close e)
  have "only_closes (e\<lparr>ex_kept := []\<rparr>) (close_all e)"
    unfolding close_all_def by (rule only_closes_fold) (rule only_closes_conn)
  moreover have "ex_ok parse (e\<lparr>ex_kept := []\<rparr>)" using reach_close by (simp add: ex_ok_def)
  ultimately show ?case by (rule ex_ok_closes)
next
  case (reach_expire e now)
  let ?e1 = "fold (\<lambda>p. drop_conn (fst p) (kp_conn (snd p))) (filter (\<lambda>p. kp_due (snd p) \<le> now) (ex_kept e)) e"
  have "only_closes e ?e1" by (rule only_closes_fold) (rule only_closes_drop)
  with reach_expire have "ex_ok parse ?e1" by (blast intro: ex_ok_closes)
  then show ?case
    unfolding expire_def Let_def by (intro ex_ok_closes [OF only_closes_fold]) (simp_all add: only_closes_conn ex_ok_late)
next
  case reach_new
  show ?case by (simp add: ex_ok_def new_executor_def)
next
  case (reach_drop e k c)
  then show ?case using ex_ok_closes only_closes_drop by blast
next
  case (reach_keep e c t shown now)
  then show ?case by (blast intro: ex_ok_keep)
qed (simp_all add: ex_ok_lookup ex_ok_opened ex_ok_command)

section \<open>One command, once, to the machine that was met\<close>

text \<open>A connection on record as dialed for the target, on which the key it pins was presented.\<close>

definition leads_to :: "(string \<Rightarrow> (string \<times> string) res) \<Rightarrow> executor \<Rightarrow> nat \<Rightarrow> target \<Rightarrow> bool" where
  "leads_to parse e c t \<longleftrightarrow> (\<exists>shown alg. (c, t, shown) \<in> set (ex_dials e) \<and> parse (tg_pinned t) = Inr (alg, shown))"

lemma lookup_leads:
  assumes ok: "ex_ok parse e" and t: "plain_target t" and l: "lookup_kept now t e = (Some c, e1)"
  shows "leads_to parse e1 c t \<and> ex_sent e1 = ex_sent e"
proof -
  from l obtain x where "map_of (ex_kept e) (target_key t) = Some x" and c: "c = kp_conn x"
    and e1: "ex_dials e1 = ex_dials e" "ex_sent e1 = ex_sent e"
    by (auto simp: lookup_kept_def split: option.split_asm)
  then have "(target_key t, x) \<in> set (ex_kept e)" by (simp add: map_of_SomeD)
  with ok c obtain u shown where u: "(c, u, shown) \<in> set (ex_dials e)" "target_key u = target_key t"
    by (fastforce simp: ex_ok_def)
  with ok have "pinned_dial parse (c, u, shown)" by (auto simp: ex_ok_def)
  moreover from this u(2) t have "u = t" using target_key_inj [of u t] by (auto simp: pinned_dial_def)
  ultimately show ?thesis using u(1) e1 by (auto simp: leads_to_def pinned_dial_def)
qed

lemma client_leads:
  assumes "ex_ok parse e" "honest parse nw" "plain_target t"
    and "client_conn nw (\<lambda>e. e) now t e = (Inr (c, reused), e1)"
  shows "ex_ok parse e1 \<and> leads_to parse e1 c t \<and> ex_sent e1 = ex_sent e"
proof (cases "lookup_kept now t e")
  case (Pair r e0)
  show ?thesis
  proof (cases r)
    case (Some d)
    with Pair assms(4) have "d = c" "e0 = e1" by (auto simp: client_conn_def)
    with Pair Some lookup_leads [OF assms(1,3)] ex_ok_lookup [OF assms(1), of now t] show ?thesis by simp
  next
    case None
    then have e0: "e0 = e" using Pair by (auto simp: lookup_kept_def split: option.split_asm)
    with Pair None assms(4) obtain shown where d: "dial nw t = Inr shown"
      and o: "opened t shown e = (c, snd (opened t shown e))" and e1: "e1 = keep_conn now t c (snd (opened t shown e))"
      by (auto simp: client_conn_def split: sum.split_asm prod.split_asm)
    have in_dials: "(c, t, shown) \<in> set (ex_dials (snd (opened t shown e)))"
      using o by (auto simp: opened_def)
    have "ex_ok parse e1"
      unfolding e1 by (rule ex_ok_keep [OF ex_ok_opened [OF assms(1-3) d] in_dials])
    moreover have "ex_dials e1 = ex_dials (snd (opened t shown e))" "ex_sent e1 = ex_sent e"
      unfolding e1 by (simp_all add: keep_conn_def opened_def)
    ultimately show ?thesis using in_dials dial_pinned [OF assms(2) d] by (auto simp: leads_to_def)
  qed
qed

lemma client_fails: "client_conn nw (\<lambda>e. e) now t e = (Inl er, e1) \<Longrightarrow> ex_sent e1 = ex_sent e"
  by (auto simp: client_conn_def lookup_kept_def split: option.split_asm sum.split_asm prod.split_asm)

lemma run_on_sends:
  assumes "run_on ss c argv stdin e = (r, e1)"
  shows "ex_dials e1 = ex_dials e \<and>
    (ex_sent e1 = ex_sent e \<and> isl r \<or>
     ex_sent e1 = ex_sent e @ [(c, quote_args argv, stdin)] \<and> argv \<noteq> [] \<and> \<not> (\<exists>x. r = Inl (True, x)) \<and>
     (\<forall>status out er. r = Inr (status, out, er) \<longrightarrow> ss c (quote_args argv) stdin = Exited status out er))"
  using assms by (auto simp: run_on_def Let_def split: if_split_asm session_end.split_asm)

definition once_to :: "(string \<Rightarrow> (string \<times> string) res) \<Rightarrow> sessions \<Rightarrow> target \<Rightarrow> string list \<Rightarrow> string \<Rightarrow> executor \<Rightarrow>
    (int \<times> string \<times> string) res \<Rightarrow> executor \<Rightarrow> bool" where
  "once_to parse ss t argv stdin e r e' \<longleftrightarrow>
     ex_sent e' = ex_sent e \<and> isl r \<or>
     (\<exists>c. leads_to parse e' c t \<and> ex_sent e' = ex_sent e @ [(c, quote_args argv, stdin)] \<and>
        (\<forall>status out er. r = Inr (status, out, er) \<longrightarrow> ss c (quote_args argv) stdin = Exited status out er))"

lemma run_once:
  "\<lbrakk>run_remote nw ss over now t argv stdin e = (r, e'); ex_ok parse e; honest parse nw; plain_target t\<rbrakk> \<Longrightarrow>
     once_to parse ss t argv stdin e r e'"
proof (induction nw ss over now t argv stdin e arbitrary: r e' rule: run_remote.induct)
  case (1 nw ss over now t argv stdin e)
  show ?case
  proof (cases "client_conn nw (\<lambda>e. e) now t e")
    case (Pair a e1)
    show ?thesis
    proof (cases a)
      case (Inl er)
      with Pair 1(2) have "r = Inl er" "e' = e1" by (simp_all add: run_remote.simps [of nw])
      with Pair Inl client_fails show ?thesis by (auto simp: once_to_def)
    next
      case (Inr p)
      obtain c reused where p: "p = (c, reused)" by (cases p)
      have cl: "ex_ok parse e1" "leads_to parse e1 c t" "ex_sent e1 = ex_sent e"
        using client_leads [OF 1(3-5)] Pair Inr p by blast+
      obtain q e2 where q: "run_on ss c argv stdin e1 = (q, e2)" by (cases "run_on ss c argv stdin e1")
      note sends = run_on_sends [OF q]
      have ok2: "ex_ok parse e2" using ex_ok_command [OF cl(1), of ss c argv stdin] q by simp
      have lead2: "leads_to parse e2 c t" using sends cl(2) by (simp add: leads_to_def)
      show ?thesis
      proof (cases q)
        case (Inr x)
        with Pair \<open>a = Inr p\<close> p q 1(2) have "r = Inr x" "e' = e2" by (simp_all add: run_remote.simps [of nw])
        with sends cl(3) lead2 Inr show ?thesis by (cases x) (auto simp: once_to_def)
      next
        case (Inl y)
        obtain unopened er where y: "y = (unopened, er)" by (cases y)
        let ?e3 = "drop_conn (target_key t) c e2"
        have d: "only_closes e2 ?e3" by (rule only_closes_drop)
        have u: "unopened \<Longrightarrow> ex_sent e2 = ex_sent e1" using sends Inl y by auto
        show ?thesis
        proof (cases "reused \<and> unopened \<and> \<not> over")
          case True
          then have "run_remote nw ss over now t argv stdin ?e3 = (r, e')"
            using Pair \<open>a = Inr p\<close> p q Inl y 1(2) by (simp add: run_remote.simps [of nw _ _ _ _ _ _ e] Let_def)
          then have "once_to parse ss t argv stdin ?e3 r e'"
            using 1(1) [OF Pair [symmetric] \<open>a = Inr p\<close> p [symmetric] q [symmetric] Inl y [symmetric] refl True]
              ex_ok_closes [OF d ok2] 1(4,5) by blast
          moreover have "ex_sent ?e3 = ex_sent e" using d u True cl(3) by (simp add: only_closes_def)
          ultimately show ?thesis by (simp add: once_to_def)
        next
          case False
          then have "r = Inl er" "e' = ?e3"
            using Pair \<open>a = Inr p\<close> p q Inl y 1(2) by (auto simp: run_remote.simps [of nw] Let_def split: if_split_asm)
          with d sends cl(3) lead2 show ?thesis by (auto simp: once_to_def only_closes_def leads_to_def)
        qed
      qed
    qed
  qed
qed

text \<open>
  C4: Whatever the callers before have done to the kept connections, a command is sent once at most, as the one
  line of its words, on a connection that was dialed for its target and on which the machine presented the key
  enrollment pinned; an answer is what that session ended with, and a command that was not sent ends in an error.
\<close>

theorem command_once_to_pinned_machine:
  assumes "ex_reach parse e" and "honest parse nw" and "plain_target t"
    and "run_remote nw ss over now t argv stdin e = (r, e')"
  shows "ex_sent e' = ex_sent e \<and> isl r \<or>
    (\<exists>c shown alg. (c, t, shown) \<in> set (ex_dials e') \<and> parse (tg_pinned t) = Inr (alg, shown) \<and>
       ex_sent e' = ex_sent e @ [(c, quote_args argv, stdin)] \<and>
       (\<forall>status out er. r = Inr (status, out, er) \<longrightarrow> ss c (quote_args argv) stdin = Exited status out er))"
  using run_once [OF assms(4) ex_reach_ok [OF assms(1)] assms(2,3)] by (auto simp: once_to_def leads_to_def)

definition one_machine :: network where
  "one_machine = \<lparr>nw_parse = (\<lambda>l. Inr (''ed25519'', l)), nw_connect = (\<lambda>_. None),
     nw_handshake = (\<lambda>addr user alg judge. judge ''AAAA''), nw_presents = (\<lambda>addr alg. ''AAAA'')\<rparr>"

definition nas_target :: target where
  "nas_target = \<lparr>tg_addr = ''nas:22'', tg_user = ''homedash'', tg_pinned = ''AAAA''\<rparr>"

text \<open>The first connection has died since it was kept; the second answers.\<close>

definition second_lives :: sessions where
  "second_lives c line stdin = (if c = 0 then Unopened ''EOF'' else Exited 0 ''up'' '''')"

theorem command_once_to_pinned_machine_witness:
  "let e = keep_conn 0 nas_target 0 (snd (opened nas_target ''AAAA'' new_executor));
       (r, e') = run_remote one_machine second_lives False 5 nas_target [''uptime''] '''' e
   in r = Inr (0, ''up'', '''') \<and> length (ex_sent e') = 1"
proof -
  let ?parse = "\<lambda>l. Inr (''ed25519'', l) :: (string \<times> string) res"
  let ?first = "snd (opened nas_target ''AAAA'' new_executor)"
  let ?e = "keep_conn 0 nas_target 0 ?first"
  let ?run = "run_remote one_machine second_lives False 5 nas_target [''uptime''] '''' ?e"
  have h: "honest ?parse one_machine" by (simp add: honest_def one_machine_def)
  have p: "plain_target nas_target" by (simp add: plain_target_def nas_target_def newline_def)
  have d: "dial one_machine nas_target = Inr ''AAAA''"
    by (simp add: dial_def one_machine_def nas_target_def host_key_callback_def)
  have dialed: "ex_reach ?parse ?first" by (rule reach_dial [OF reach_new h p d])
  have "(0 :: nat, nas_target, ''AAAA'') \<in> set (ex_dials ?first)" by (simp add: opened_def new_executor_def)
  with dialed have reach: "ex_reach ?parse ?e" by (rule reach_keep)
  have r: "fst ?run = Inr (0, ''up'', '''')"
    by (simp add: run_remote.simps client_conn_def lookup_kept_def keep_conn_def opened_def new_executor_def run_on_def
        second_lives_def drop_conn_def close_conn_def forget_kept_def d Let_def)
  obtain e' where e': "?run = (Inr (0, ''up'', ''''), e')" using r by (cases ?run) auto
  have "length (ex_sent e') = 1"
    using command_once_to_pinned_machine [OF reach h p e'] by (auto simp: keep_conn_def opened_def new_executor_def)
  with e' show ?thesis by (simp only: Let_def case_prod_conv)
qed

section \<open>The idle timer\<close>

lemma fold_closes:
  assumes "\<And>x e. set (ex_open (f x e)) \<subseteq> set (ex_open e)" and "x \<in> set xs" and "\<And>e. c \<notin> set (ex_open (f x e))"
  shows "c \<notin> set (ex_open (fold f xs e))"
proof -
  have keep: "c \<notin> set (ex_open (fold f ys e))" if "c \<notin> set (ex_open e)" for ys e
    using that assms(1) by (induction ys arbitrary: e) auto
  from assms(2) show ?thesis
  proof (induction xs arbitrary: e)
    case (Cons y ys)
    show ?case using keep [of "f x e" ys] assms(3) Cons by (cases "y = x") auto
  qed simp
qed

lemma close_conn_closes: "c \<notin> set (ex_open (close_conn c e))"
  by (simp add: close_conn_def)

lemma drop_conn_closes: "c \<notin> set (ex_open (drop_conn k c e))"
  by (simp add: drop_conn_def close_conn_closes)

text \<open>
  The timer is set when a connection is taken and by nothing else: two minutes later the connection is closed,
  whether or not the command it was taken for still runs. One dialed beside a kept one is closed two minutes
  later whatever happens.
\<close>

theorem idle_timer_ignores_commands:
  assumes "client_conn nw between now t e = (Inr (c, reused), e1)" and "run_on ss c argv stdin e1 = (r, e2)"
  shows "c \<notin> set (ex_open (expire (now + kept_idle) e2))"
proof -
  let ?due = "now + kept_idle"
  have e2: "ex_kept e2 = ex_kept e1" "ex_late e2 = ex_late e1"
    using assms(2) by (auto simp: run_on_def Let_def split: if_split_asm session_end.split_asm)
  have taken: "(\<exists>k x. (k, x) \<in> set (ex_kept e1) \<and> kp_conn x = c \<and> kp_due x = ?due) \<or> (?due, c) \<in> set (ex_late e1)"
  proof (cases "lookup_kept now t e")
    case (Pair a e0)
    show ?thesis
    proof (cases a)
      case None
      with Pair assms(1) obtain e3 where "e1 = keep_conn now t c e3"
        by (auto simp: client_conn_def split: sum.split_asm prod.split_asm)
      then show ?thesis by (cases "map_of (ex_kept e3) (target_key t)") (simp_all add: keep_conn_def, force)
    next
      case (Some d)
      with Pair assms(1) have "d = c" "e0 = e1" by (auto simp: client_conn_def)
      moreover from Pair Some obtain x where m: "map_of (ex_kept e) (target_key t) = Some x" and "d = kp_conn x"
        and "ex_kept e0 = map (\<lambda>p. if fst p = target_key t
               then (fst p, (snd p)\<lparr>kp_used := now, kp_due := now + kept_idle\<rparr>) else p) (ex_kept e)"
        by (auto simp: lookup_kept_def split: option.split_asm)
      ultimately have "(target_key t, x\<lparr>kp_used := now, kp_due := ?due\<rparr>) \<in> set (ex_kept e1)" "kp_conn x = c"
        using map_of_SomeD [OF m] by force+
      then show ?thesis by force
    qed
  qed
  let ?es = "fold (\<lambda>p. drop_conn (fst p) (kp_conn (snd p))) (filter (\<lambda>p. kp_due (snd p) \<le> ?due) (ex_kept e2)) e2"
  have shrink: "set (ex_open (close_conn d x)) \<subseteq> set (ex_open x)" "set (ex_open (drop_conn k d x)) \<subseteq> set (ex_open x)" for d x k
    using only_closes_conn only_closes_drop unfolding only_closes_def by blast+
  have "only_closes e2 ?es" by (rule only_closes_fold) (rule only_closes_drop)
  then have late: "ex_late ?es = ex_late e1" using e2(2) by (simp add: only_closes_def)
  from taken show ?thesis
  proof
    assume "\<exists>k x. (k, x) \<in> set (ex_kept e1) \<and> kp_conn x = c \<and> kp_due x = ?due"
    then obtain k x where kx: "(k, x) \<in> set (ex_kept e2)" "kp_conn x = c" "kp_due x = ?due" using e2(1) by auto
    have "c \<notin> set (ex_open ?es)"
      by (rule fold_closes [where x = "(k, x)"]) (use kx shrink drop_conn_closes in auto)
    moreover have "set (ex_open (fold (\<lambda>p. close_conn (snd p)) ps y)) \<subseteq> set (ex_open y)" for ps y
      using only_closes_fold [of "\<lambda>p. close_conn (snd p)" y ps] only_closes_conn by (simp add: only_closes_def)
    ultimately show ?thesis unfolding expire_def Let_def by (fastforce simp: subset_iff)
  next
    assume "(?due, c) \<in> set (ex_late e1)"
    then have m: "(?due, c) \<in> set (filter (\<lambda>p. fst p \<le> ?due) (ex_late ?es))" by (simp add: late)
    show ?thesis
      unfolding expire_def Let_def
      by (rule fold_closes [OF _ m]) (use shrink close_conn_closes in auto)
  qed
qed

end
