(* ===== verification/Health.thy ===== *)
theory Health
  imports Fleet Peers AgentWindow Backup
begin

text \<open>
  \<open>internal/server/health.go\<close>: what the hub reads of its own machine from \<open>/proc\<close> and the state directory, and
  the checks of its health. The texts of the files, the answers of the operating system, the reading of a
  decimal number and of a time are parameters; a float is a real. An unsigned number of 64 bits is an \<open>int\<close>
  with the wrap-around written out.
\<close>

section \<open>Numbers\<close>

definition u64 :: "int \<Rightarrow> int" where
  "u64 x = x mod 2 ^ 64"

text \<open>What \<open>ParseUint\<close> leaves beside its error.\<close>

definition lossy_uint :: "string \<Rightarrow> int" where
  "lossy_uint s = (case parse_nat s of None \<Rightarrow> 0 | Some n \<Rightarrow> min (int n) (2 ^ 64 - 1))"

text \<open>The nearest integer, the even one of two; and \<open>%.nf\<close> of a number that is not negative.\<close>

definition round_even :: "real \<Rightarrow> int" where
  "round_even x =
     (let f = \<lfloor>x\<rfloor>; d = x - of_int f
      in if d < 1 / 2 \<or> d = 1 / 2 \<and> even f then f else f + 1)"

definition fixed :: "nat \<Rightarrow> real \<Rightarrow> string" where
  "fixed n x =
     (let k = round_even (x * 10 ^ n); r = itoa (k mod 10 ^ n)
      in itoa (k div 10 ^ n) @ ''.'' @ replicate (n - length r) (CHR ''0'') @ r)"

definition gb :: "int \<Rightarrow> string" where
  "gb b = (if b \<ge> 2 ^ 30 then fixed 1 (of_int b / 2 ^ 30) @ '' GB'' else itoa (b div 2 ^ 20) @ '' MB'')"

text \<open>Hours, minutes and seconds are cut off toward zero.\<close>

definition age_words :: "int \<Rightarrow> string" where
  "age_words d =
     (if d < 90 * second then itoa (go_div d second) @ ''s''
      else if d < 90 * 60 * second then itoa (go_div d (60 * second)) @ ''m''
      else if d < 48 * 3600 * second then itoa (go_div d (3600 * second)) @ ''h''
      else itoa (go_div d (24 * 3600 * second)) @ ''d'')"

section \<open>The machine\<close>

text \<open>The lines a scanner gives: without a last empty one, each without a carriage return at its end.\<close>

definition scanned :: "string \<Rightarrow> string list" where
  "scanned s =
     (let ls = split_on newline s; ls' = (if last ls = '''' then butlast ls else ls)
      in map (\<lambda>l. if l \<noteq> '''' \<and> last l = CHR 0x0D then butlast l else l) ls')"

definition proc_kv :: "string \<Rightarrow> string \<times> int" where
  "proc_kv line =
     (if CHR '':'' \<notin> set line then ('''', 0)
      else let k = takeWhile (\<lambda>c. c \<noteq> CHR '':'') line; f = GoStrings.fields (drop (Suc (length k)) line)
           in if f = [] then (k, 0)
              else let n = lossy_uint (f ! 0)
                   in (k, if length f > 1 \<and> f ! 1 = ''kB'' then u64 (n * 2 ^ 10) else n))"

record proc_files =
  pf_hostname :: string
  pf_arch :: string
  pf_cores :: int
  pf_os_release :: "string option"
  pf_kernel :: "string option"
  pf_loadavg :: "string option"
  pf_uptime :: "string option"
  pf_meminfo :: "string option"
  pf_status :: "string option"

record hub_machine =
  hm_hostname :: string
  hm_os :: string
  hm_kernel :: string
  hm_arch :: string
  hm_cores :: int
  hm_load1 :: real
  hm_mem_total :: int
  hm_mem_used :: int
  hm_uptime :: int

definition os_release :: "string option \<Rightarrow> string" where
  "os_release f =
     (case f of
        None \<Rightarrow> ''''
      | Some s \<Rightarrow>
          (case List.find (\<lambda>l. has_prefix l ''PRETTY_NAME='') (scanned s) of
             None \<Rightarrow> ''''
           | Some l \<Rightarrow> trim (\<lambda>c. c = CHR 0x22) (trim_prefix l ''PRETTY_NAME='')))"

text \<open>Total and available memory, the last line of each name.\<close>

definition mem_info :: "string \<Rightarrow> int \<times> int" where
  "mem_info s =
     fold (\<lambda>l (tot, avail).
             case proc_kv l of (k, v) \<Rightarrow>
               (if k = ''MemTotal'' then v else tot, if k = ''MemAvailable'' then v else avail))
       (scanned s) (0, 0)"

definition first_float :: "(string \<Rightarrow> real) \<Rightarrow> string option \<Rightarrow> real" where
  "first_float number f =
     (case f of None \<Rightarrow> 0 | Some s \<Rightarrow> (case GoStrings.fields s of [] \<Rightarrow> 0 | x # xs \<Rightarrow> number x))"

definition read_machine :: "(string \<Rightarrow> real) \<Rightarrow> proc_files \<Rightarrow> hub_machine" where
  "read_machine number p =
     (let (tot, avail) = (case pf_meminfo p of None \<Rightarrow> (0, 0) | Some s \<Rightarrow> mem_info s)
      in \<lparr>hm_hostname = pf_hostname p, hm_os = os_release (pf_os_release p),
          hm_kernel = (case pf_kernel p of None \<Rightarrow> '''' | Some s \<Rightarrow> trim_space s), hm_arch = pf_arch p, hm_cores = pf_cores p,
          hm_load1 = first_float number (pf_loadavg p), hm_mem_total = tot,
          hm_mem_used = (if tot > 0 then u64 (tot - avail) else 0),
          hm_uptime = (let u = first_float number (pf_uptime p) in if u < 0 then \<lceil>u\<rceil> else \<lfloor>u\<rfloor>)\<rparr>)"

definition read_rss :: "string option \<Rightarrow> int" where
  "read_rss f =
     (case f of
        None \<Rightarrow> 0
      | Some s \<Rightarrow> (case List.find (\<lambda>l. fst (proc_kv l) = ''VmRSS'') (scanned s) of None \<Rightarrow> 0 | Some l \<Rightarrow> snd (proc_kv l)))"

record state_dir_size =
  ds_path :: string
  ds_db :: int
  ds_size :: int
  ds_free :: int

text \<open>The sizes of the file, its log and its index, and what the file system answers: blocks, their size, those free.\<close>

definition read_state_dir :: "string \<Rightarrow> int option list \<Rightarrow> (int \<times> int \<times> int) option \<Rightarrow> state_dir_size" where
  "read_state_dir dir sizes fs =
     \<lparr>ds_path = dir, ds_db = i64 (sum_list (map (\<lambda>x. case x of None \<Rightarrow> 0 | Some n \<Rightarrow> n) sizes)),
      ds_size = (case fs of None \<Rightarrow> 0 | Some (blocks, bsize, avail) \<Rightarrow> u64 (blocks * bsize)),
      ds_free = (case fs of None \<Rightarrow> 0 | Some (blocks, bsize, avail) \<Rightarrow> u64 (avail * bsize))\<rparr>"

section \<open>The checks\<close>

record check =
  ck_name :: string
  ck_state :: string
  ck_detail :: string

definition new_check :: "string \<Rightarrow> string \<Rightarrow> string \<Rightarrow> check" where
  "new_check name state detail = \<lparr>ck_name = name, ck_state = state, ck_detail = detail\<rparr>"

definition pct_state :: "int \<Rightarrow> int \<Rightarrow> int \<Rightarrow> string" where
  "pct_state pct limit soft =
     (if pct \<ge> limit then ''bad'' else if soft > 0 \<and> pct \<ge> soft then ''warn'' else ''ok'')"

definition mem_pct :: "hub_machine \<Rightarrow> int" where
  "mem_pct m = i64 (u64 (hm_mem_used m * 100) div hm_mem_total m)"

definition disk_pct :: "state_dir_size \<Rightarrow> int" where
  "disk_pct sd = i64 (u64 ((ds_size sd - ds_free sd) * 100) div ds_size sd)"

definition memory_check :: "hub_machine \<Rightarrow> check list" where
  "memory_check m =
     (if hm_mem_total m > 0
      then [new_check ''Memory'' (pct_state (mem_pct m) 90 0) (itoa (mem_pct m) @ ''% of '' @ gb (hm_mem_total m) @ '' in use'')]
      else [])"

definition load_check :: "hub_machine \<Rightarrow> check list" where
  "load_check m =
     (if hm_cores m > 0
      then [new_check ''Load'' (if hm_load1 m > of_int (hm_cores m) then ''warn'' else ''ok'')
              (fixed 2 (hm_load1 m) @ '' on '' @ itoa (hm_cores m) @ '' cores'')]
      else [])"

definition disk_check :: "int \<Rightarrow> state_dir_size \<Rightarrow> check list" where
  "disk_check limit sd =
     (if ds_size sd > 0
      then [new_check ''State disk'' (pct_state (disk_pct sd) limit (limit - 10))
              (itoa (disk_pct sd) @ ''% full, '' @ gb (ds_free sd) @ '' free of '' @ gb (ds_size sd) @ '' for '' @ ds_path sd)]
      else [])"

definition agent_check :: "desk \<Rightarrow> check" where
  "agent_check k =
     (if dk_ready k then new_check ''Agent'' ''ok'' (''omp '' @ dk_version k @ '' installed'')
      else if dk_install_err k \<noteq> '''' then new_check ''Agent'' ''bad'' (''omp not installed: '' @ dk_install_err k)
      else new_check ''Agent'' ''warn'' (''omp '' @ dk_version k @ '' still being fetched''))"

definition vault_check :: "desk \<Rightarrow> check" where
  "vault_check k =
     (if dk_vault k then new_check ''Credential vault'' ''ok'' ''running''
      else if \<not> dk_ready k then new_check ''Credential vault'' ''warn'' ''waiting for omp''
      else new_check ''Credential vault'' ''bad'' ''not running; the hub restarts it every few seconds'')"

definition backup_check :: "(string \<Rightarrow> instant option) \<Rightarrow> instant \<Rightarrow> string \<Rightarrow> check" where
  "backup_check time now done_at =
     (case time done_at of
        None \<Rightarrow> new_check ''Export'' ''warn'' ''never exported; the state directory lives on this disk only''
      | Some t \<Rightarrow>
          let age = now - t; detail = ''last export '' @ age_words age @ '' ago''
          in if age > 30 * 24 * 3600 * second then new_check ''Export'' ''warn'' (detail @ '' '' @ utf8 8212 @ '' make a fresh one'')
             else new_check ''Export'' ''ok'' detail)"

text \<open>
  The report has five seconds: each reading of the state file may fail, with its own error. The limit of the
  disk and the last export are then their defaults; the hosts and the tasks are reported as unreadable. Of the
  space only whether it is served is read, which no check shows.
\<close>

datatype reading = Limit | Exports | Machines | Schedule | Serving

type_synonym readings = "reading \<Rightarrow> string option"

definition read_or :: "'a \<Rightarrow> string option \<Rightarrow> 'a \<Rightarrow> 'a" where
  "read_or other failed x = (case failed of None \<Rightarrow> x | Some e \<Rightarrow> other)"

definition unreadable :: "string \<Rightarrow> string \<Rightarrow> check" where
  "unreadable name e = new_check name ''bad'' (''the state file could not be read: '' @ e)"

definition hosts_listed :: "host_row list \<Rightarrow> check" where
  "hosts_listed hs =
     (let n = length hs; online = length (filter (\<lambda>h. h_status h = ''online'') hs);
          changed = length (filter (\<lambda>h. h_status h = ''mismatch'') hs);
          of_all = itoa (int online) @ '' of '' @ itoa (int n) @ '' online''
      in if n = 0 then new_check ''Hosts'' ''off'' ''none enrolled''
         else if changed > 0
         then new_check ''Hosts'' ''bad'' (of_all @ '', '' @ itoa (int changed) @ '' with a host key that changed'')
         else new_check ''Hosts'' (if online < n then ''warn'' else ''ok'') of_all)"

definition hosts_check :: "string option \<Rightarrow> host_row list \<Rightarrow> check" where
  "hosts_check failed hs = (case failed of Some e \<Rightarrow> unreadable ''Hosts'' e | None \<Rightarrow> hosts_listed hs)"

definition tasks_listed :: "task_row list \<Rightarrow> check" where
  "tasks_listed ts =
     (let enabled = filter t_enabled ts; failing = length (filter t_failing enabled)
      in if enabled = [] then new_check ''Tasks'' ''off'' ''none scheduled''
         else if failing > 0
         then new_check ''Tasks'' ''warn'' (itoa (int failing) @ '' of '' @ itoa (int (length enabled)) @ '' failing'')
         else new_check ''Tasks'' ''ok'' (itoa (int (length enabled)) @ '' scheduled, none failing''))"

definition tasks_check :: "string option \<Rightarrow> task_row list \<Rightarrow> check" where
  "tasks_check failed ts = (case failed of Some e \<Rightarrow> unreadable ''Tasks'' e | None \<Rightarrow> tasks_listed ts)"

definition space_check :: "status \<Rightarrow> check" where
  "space_check p =
     (if \<not> st_enabled p then new_check ''Space'' ''off'' ''not joined''
      else if st_connected p > 0
      then new_check ''Space'' ''ok''
             (itoa (int (st_connected p)) @ '' of '' @ itoa (st_found p) @ '' peers connected in '' @ st_space p)
      else if st_found p > 0
      then new_check ''Space'' ''warn'' (itoa (st_found p) @ '' peers found in '' @ st_space p @ '', none connected'')
      else new_check ''Space'' ''ok'' (''in '' @ st_space p @ '', no peers found yet''))"

text \<open>The state of the whole: the loop over the checks.\<close>

definition worse :: "check \<Rightarrow> string \<Rightarrow> string" where
  "worse c st =
     (if ck_state c = ''bad'' \<or> ck_state c = ''warn'' \<and> st \<noteq> ''bad'' then ck_state c else st)"

definition overall :: "check list \<Rightarrow> string" where
  "overall cs = fold worse cs ''ok''"

record health =
  he_state :: string
  he_machine :: hub_machine
  he_rss :: int
  he_sessions :: nat
  he_dir :: state_dir_size
  he_checks :: "check list"

definition health_checks ::
  "readings \<Rightarrow> (string \<Rightarrow> instant option) \<Rightarrow> instant \<Rightarrow> hub_machine \<Rightarrow> state_dir_size \<Rightarrow> status \<Rightarrow> desk \<Rightarrow> check list"
where
  "health_checks failed time now m sd p k =
     memory_check m @ load_check m @ disk_check (read_or 90 (failed Limit) (disk_percent (dk_db k))) sd @
     [agent_check k, vault_check k, backup_check time now (read_or '''' (failed Exports) (last_export (dk_db k))),
      hosts_check (failed Machines) (hosts (dk_db k)), tasks_check (failed Schedule) (map fst (tasks (dk_db k))),
      space_check p]"

definition space_status :: "readings \<Rightarrow> string list \<Rightarrow> db \<Rightarrow> node \<Rightarrow> status" where
  "space_status failed connections d n =
     (let st = get_status connections d n in read_or (st\<lparr>st_serving := False\<rparr>) (failed Serving) st)"

definition health_report ::
  "readings \<Rightarrow> (string \<Rightarrow> real) \<Rightarrow> (string \<Rightarrow> instant option) \<Rightarrow> instant \<Rightarrow> proc_files \<Rightarrow> state_dir_size \<Rightarrow> string list \<Rightarrow>
   node \<Rightarrow> desk \<Rightarrow> health" where
  "health_report failed number time now p sd connections n k =
     (let m = read_machine number p;
          cs = health_checks failed time now m sd (space_status failed connections (dk_db k) n) k
      in \<lparr>he_state = overall cs, he_machine = m, he_rss = read_rss (pf_status p), he_sessions = length (dk_windows k),
          he_dir = sd, he_checks = cs\<rparr>)"

end
