(* ===== verification/HealthLaws.thy ===== *)
theory HealthLaws
  imports Health
begin

text \<open>
  What the health page says: its state is the worst line of its checks, and what that comes to in terms of the
  machine, the agent, the machines of the fleet and the tasks. Percentages are what they are taken for while
  the machine's figures are.
\<close>

section \<open>The worst line\<close>

lemma overall_rev: "fold worse cs st = foldr worse (rev cs) st"
  by (simp add: foldr_conv_fold)

lemma overall_from:
  "fold worse cs st =
     (if \<exists>c \<in> set cs. ck_state c = ''bad'' then ''bad''
      else if st \<noteq> ''bad'' \<and> (\<exists>c \<in> set cs. ck_state c = ''warn'') then ''warn'' else st)"
  by (induction cs arbitrary: st) (auto simp: worse_def)

lemma overall_worst:
  "overall cs = (if \<exists>c \<in> set cs. ck_state c = ''bad'' then ''bad''
                 else if \<exists>c \<in> set cs. ck_state c = ''warn'' then ''warn'' else ''ok'')"
  by (simp add: overall_def overall_from)

lemma check_states [simp]:
  "ck_state (new_check n st d) = st"
  by (simp add: new_check_def)

lemma pct_bad: "pct_state p l soft = ''bad'' \<longleftrightarrow> l \<le> p"
  by (simp add: pct_state_def)

lemma agent_bad: "ck_state (agent_check k) = ''bad'' \<longleftrightarrow> \<not> dk_ready k \<and> dk_install_err k \<noteq> ''''"
  by (simp add: agent_check_def)

lemma vault_bad: "ck_state (vault_check k) = ''bad'' \<longleftrightarrow> dk_ready k \<and> \<not> dk_vault k"
  by (simp add: vault_check_def)

lemma backup_not_bad: "ck_state (backup_check tm now l) \<noteq> ''bad''"
  by (auto simp: backup_check_def Let_def split: option.split)

lemma hosts_bad: "ck_state (hosts_check f hs) = ''bad'' \<longleftrightarrow> f \<noteq> None \<or> (\<exists>h \<in> set hs. h_status h = ''mismatch'')"
proof -
  have "length (filter (\<lambda>h. h_status h = ''mismatch'') hs) > 0 \<longleftrightarrow> (\<exists>h \<in> set hs. h_status h = ''mismatch'')"
    by (auto simp: filter_empty_conv)
  then have "ck_state (hosts_listed hs) = ''bad'' \<longleftrightarrow> (\<exists>h \<in> set hs. h_status h = ''mismatch'')"
    by (cases hs) (auto simp: hosts_listed_def Let_def)
  then show ?thesis by (cases f) (simp_all add: hosts_check_def unreadable_def)
qed

lemma tasks_bad: "ck_state (tasks_check f ts) = ''bad'' \<longleftrightarrow> f \<noteq> None"
  by (cases f) (simp_all add: tasks_check_def tasks_listed_def unreadable_def Let_def)

lemma space_not_bad: "ck_state (space_check p) \<noteq> ''bad''"
  by (simp add: space_check_def)

lemma percent_of:
  assumes "0 \<le> u" "u \<le> tot" "tot * 100 < 2 ^ 64" "0 < tot"
  shows "i64 (u64 (u * 100) div tot) = u * 100 div tot \<and> 0 \<le> u * 100 div tot \<and> u * 100 div tot \<le> 100"
proof -
  have w: "u64 (u * 100) = u * 100" using assms by (simp add: u64_def)
  have "u * 100 div tot \<le> 100 * tot div tot" using assms(2,4) by (intro zdiv_mono1) simp_all
  then have b: "0 \<le> u * 100 div tot" "u * 100 div tot \<le> 100"
    using assms(1,4) by (simp_all add: pos_imp_zdiv_nonneg_iff)
  then have "in_i64 (u * 100 div tot)" by (simp add: in_i64_def)
  with w b show ?thesis by (simp add: i64_id)
qed

text \<open>The figures of a machine: what is used is at most what there is, and not absurdly large.\<close>

definition sane_memory :: "hub_machine \<Rightarrow> bool" where
  "sane_memory m \<longleftrightarrow> 0 \<le> hm_mem_used m \<and> hm_mem_used m \<le> hm_mem_total m \<and> hm_mem_total m * 100 < 2 ^ 64"

definition sane_disk :: "state_dir_size \<Rightarrow> bool" where
  "sane_disk sd \<longleftrightarrow> 0 \<le> ds_free sd \<and> ds_free sd \<le> ds_size sd \<and> ds_size sd * 100 < 2 ^ 64"

lemma share_reached:
  fixes tot l u :: int
  assumes t: "0 < tot"
  shows "l \<le> u * 100 div tot \<longleftrightarrow> l * tot \<le> 100 * u"
proof
  assume "l \<le> u * 100 div tot"
  then have "l * tot \<le> u * 100 div tot * tot" using t by (intro mult_right_mono) simp_all
  also have "\<dots> \<le> u * 100" using t pos_mod_sign [of tot "u * 100"] div_mult_mod_eq [of "u * 100" tot] by linarith
  finally show "l * tot \<le> 100 * u" by simp
next
  assume "l * tot \<le> 100 * u"
  with t have "l * tot div tot \<le> u * 100 div tot" by (intro zdiv_mono1) simp_all
  with t show "l \<le> u * 100 div tot" by simp
qed

text \<open>
  C40: The page says bad exactly when something does not work: memory nine tenths in use, the state disk as full as
  the limit that notifies (ninety percent where the limit cannot be read), the agent's program not installable, its
  vault down beside an installed agent, a machine that presented another host key, or a state file whose machines
  or tasks cannot be read. Otherwise it says warn exactly if one of its lines does, else ok.
\<close>

theorem health_says_the_worst:
  assumes "r = health_report failed number tm now p sd connections n k"
    and "sane_memory (he_machine r)" and "sane_disk sd"
  shows "(he_state r = ''bad'' \<longleftrightarrow>
      (0 < hm_mem_total (he_machine r) \<and> 90 * hm_mem_total (he_machine r) \<le> 100 * hm_mem_used (he_machine r)) \<or>
      (0 < ds_size sd \<and> (if failed Limit = None then disk_percent (dk_db k) else 90) * ds_size sd \<le> 100 * (ds_size sd - ds_free sd)) \<or>
      (\<not> dk_ready k \<and> dk_install_err k \<noteq> '''') \<or> (dk_ready k \<and> \<not> dk_vault k) \<or>
      failed Machines \<noteq> None \<or> failed Schedule \<noteq> None \<or>
      (\<exists>h \<in> set (hosts (dk_db k)). h_status h = ''mismatch'')) \<and>
    (he_state r = ''warn'' \<longleftrightarrow> he_state r \<noteq> ''bad'' \<and> (\<exists>c \<in> set (he_checks r). ck_state c = ''warn'')) \<and>
    he_state r \<in> {''ok'', ''warn'', ''bad''}"
proof -
  let ?m = "he_machine r"
  have checks: "he_checks r = health_checks failed tm now ?m sd (space_status failed connections (dk_db k) n) k"
    and state: "he_state r = overall (he_checks r)" using assms(1) by (simp_all add: health_report_def Let_def)
  have mem: "(\<exists>c \<in> set (memory_check ?m). ck_state c = ''bad'') \<longleftrightarrow>
      0 < hm_mem_total ?m \<and> 90 * hm_mem_total ?m \<le> 100 * hm_mem_used ?m"
  proof (cases "0 < hm_mem_total ?m")
    case True
    then have "mem_pct ?m = hm_mem_used ?m * 100 div hm_mem_total ?m"
      using percent_of [of "hm_mem_used ?m" "hm_mem_total ?m"] assms(2) by (simp add: mem_pct_def sane_memory_def)
    then have "90 \<le> mem_pct ?m \<longleftrightarrow> 90 * hm_mem_total ?m \<le> 100 * hm_mem_used ?m"
      using share_reached [OF True] by metis
    with True show ?thesis by (simp add: memory_check_def pct_bad)
  qed (simp add: memory_check_def)
  define limit where "limit = read_or 90 (failed Limit) (disk_percent (dk_db k))"
  have limit: "limit = (if failed Limit = None then disk_percent (dk_db k) else 90)"
    by (simp add: limit_def read_or_def split: option.split)
  have disk: "(\<exists>c \<in> set (disk_check limit sd). ck_state c = ''bad'') \<longleftrightarrow>
      0 < ds_size sd \<and> limit * ds_size sd \<le> 100 * (ds_size sd - ds_free sd)"
  proof (cases "0 < ds_size sd")
    case True
    then have "disk_pct sd = (ds_size sd - ds_free sd) * 100 div ds_size sd"
      using percent_of [of "ds_size sd - ds_free sd" "ds_size sd"] assms(3) by (simp add: disk_pct_def sane_disk_def)
    then have "limit \<le> disk_pct sd \<longleftrightarrow> limit * ds_size sd \<le> 100 * (ds_size sd - ds_free sd)"
      using share_reached [OF True] by metis
    with True show ?thesis by (simp add: disk_check_def pct_bad)
  qed (simp add: disk_check_def)
  have load: "\<not> (\<exists>c \<in> set (load_check ?m). ck_state c = ''bad'')" by (simp add: load_check_def)
  have "he_state r = ''bad'' \<longleftrightarrow> (\<exists>c \<in> set (he_checks r). ck_state c = ''bad'')"
    unfolding state overall_worst by simp
  also have "\<dots> \<longleftrightarrow>
      (\<exists>c \<in> set (memory_check ?m). ck_state c = ''bad'') \<or> (\<exists>c \<in> set (disk_check limit sd). ck_state c = ''bad'') \<or>
      ck_state (agent_check k) = ''bad'' \<or> ck_state (vault_check k) = ''bad'' \<or>
      ck_state (hosts_check (failed Machines) (hosts (dk_db k))) = ''bad'' \<or>
      ck_state (tasks_check (failed Schedule) (map fst (tasks (dk_db k)))) = ''bad''"
    unfolding checks health_checks_def limit_def [symmetric] using load backup_not_bad space_not_bad
    by (simp add: bex_Un) blast
  also have "\<dots> \<longleftrightarrow>
      (0 < hm_mem_total ?m \<and> 90 * hm_mem_total ?m \<le> 100 * hm_mem_used ?m) \<or>
      (0 < ds_size sd \<and> (if failed Limit = None then disk_percent (dk_db k) else 90) * ds_size sd \<le> 100 * (ds_size sd - ds_free sd)) \<or>
      (\<not> dk_ready k \<and> dk_install_err k \<noteq> '''') \<or> (dk_ready k \<and> \<not> dk_vault k) \<or>
      failed Machines \<noteq> None \<or> failed Schedule \<noteq> None \<or>
      (\<exists>h \<in> set (hosts (dk_db k)). h_status h = ''mismatch'')"
    unfolding mem disk agent_bad vault_bad hosts_bad tasks_bad unfolding limit by blast
  finally have bad: "he_state r = ''bad'' \<longleftrightarrow> \<dots>" .
  have "(he_state r = ''warn'' \<longleftrightarrow> he_state r \<noteq> ''bad'' \<and> (\<exists>c \<in> set (he_checks r). ck_state c = ''warn'')) \<and>
    he_state r \<in> {''ok'', ''warn'', ''bad''}"
    unfolding state overall_worst by simp
  with bad show ?thesis by (rule conjI)
qed

definition quiet_desk :: desk where
  "quiet_desk = \<lparr>dk_db = empty_db, dk_notes = [], dk_ready = True, dk_install_err = '''', dk_version = ''1'', dk_vault = True,
     dk_windows = []\<rparr>"

definition small_machine :: proc_files where
  "small_machine = \<lparr>pf_hostname = ''hub'', pf_arch = ''amd64'', pf_cores = 2, pf_os_release = None, pf_kernel = None,
     pf_loadavg = None, pf_uptime = None,
     pf_meminfo = Some (''MemTotal: 1000 kB'' @ [newline] @ ''MemAvailable: 90 kB'' @ [newline]), pf_status = None\<rparr>"

theorem health_says_the_worst_witness:
  "he_state (health_report (\<lambda>_. None) (\<lambda>_. 0) (\<lambda>_. None) 0 small_machine (read_state_dir ''/var/lib/homedash'' [] None) [] new_node quiet_desk)
     = ''bad''"
proof -
  let ?r = "health_report (\<lambda>_. None) (\<lambda>_. 0) (\<lambda>_. None) 0 small_machine (read_state_dir ''/var/lib/homedash'' [] None) [] new_node quiet_desk"
  let ?sd = "read_state_dir ''/var/lib/homedash'' [] None"
  have "mem_info (''MemTotal: 1000 kB'' @ [newline] @ ''MemAvailable: 90 kB'' @ [newline]) = (1024000, 92160)"
    by code_simp
  then have mem: "hm_mem_total (he_machine ?r) = 1024000" "hm_mem_used (he_machine ?r) = 931840"
    by (simp_all add: health_report_def read_machine_def small_machine_def u64_def Let_def)
  then have "sane_memory (he_machine ?r)" by (simp add: sane_memory_def)
  moreover have "sane_disk ?sd" by (simp add: sane_disk_def read_state_dir_def)
  ultimately show ?thesis
    using health_says_the_worst [of ?r "\<lambda>_. None" "\<lambda>_. 0" "\<lambda>_. None" 0 small_machine ?sd "[]" new_node quiet_desk] mem by simp
qed

section \<open>A clock that stepped back\<close>

text \<open>An export dated after now is shown with a negative age and is never too old.\<close>

theorem future_export_is_fresh:
  assumes "tm l = Some t" and "now < t"
  shows "ck_state (backup_check tm now l) = ''ok''"
  using assms by (simp add: backup_check_def Let_def second_def)

end
