(* ===== verification/Cli.thy ===== *)
theory Cli
  imports Panel
begin

text \<open>
  \<open>internal/cli\<close>: the command line as the API calls it becomes. The flags of Go's \<open>flag\<close> package with the
  numbers it reads, the loop that takes flags from anywhere on the line, the escaping of a path and of a query,
  one definition per command, the answer of the hub, the file that keeps the session and the hand-off that
  fills it. Files, the standard input, the JSON of a body and the HTTP exchange are parameters; the tables
  printed from an answer are not modelled.
\<close>

section \<open>Numbers and switches of a flag\<close>

definition lower_alnum :: "char \<Rightarrow> char" where
  "lower_alnum c = (if is_upper c then lower_char c else c)"

definition digit_of :: "char \<Rightarrow> nat option" where
  "digit_of c =
     (if is_digit c then Some (digit_val c)
      else if is_lower (lower_alnum c) then Some (of_char (lower_alnum c) - of_char (CHR ''a'') + 10) else None)"

datatype num_error = BadSyntax | OutOfRange

text \<open>The digits of a base, underscores passed over; the first offence decides.\<close>

fun read_digits :: "nat \<Rightarrow> nat \<Rightarrow> string \<Rightarrow> num_error + nat" where
  "read_digits base n [] = Inr n"
| "read_digits base n (c # cs) =
     (if c = CHR ''_'' then read_digits base n cs
      else case digit_of c of
             None \<Rightarrow> Inl BadSyntax
           | Some d \<Rightarrow>
               if d \<ge> base then Inl BadSyntax
               else if n * base + d \<ge> 2 ^ 64 then Inl OutOfRange
               else read_digits base (n * base + d) cs)"

text \<open>The prefix of a base and what follows it, for a text that is not empty.\<close>

definition base_prefix :: "string \<Rightarrow> nat \<times> string" where
  "base_prefix s =
     (if hd s \<noteq> CHR ''0'' then (10, s)
      else if length s \<ge> 3 \<and> lower_alnum (s ! 1) = CHR ''b'' then (2, drop 2 s)
      else if length s \<ge> 3 \<and> lower_alnum (s ! 1) = CHR ''o'' then (8, drop 2 s)
      else if length s \<ge> 3 \<and> lower_alnum (s ! 1) = CHR ''x'' then (16, drop 2 s)
      else (8, tl s))"

text \<open>\<open>saw\<close> is the last character: a digit, an underscore, or another.\<close>

datatype saw = SawStart | SawDigit | SawUnderscore | SawOther

fun underscores_ok :: "bool \<Rightarrow> saw \<Rightarrow> string \<Rightarrow> bool" where
  "underscores_ok hex sw [] = (sw \<noteq> SawUnderscore)"
| "underscores_ok hex sw (c # cs) =
     (if is_digit c \<or> hex \<and> lower_alnum c \<in> set ''abcdef'' then underscores_ok hex SawDigit cs
      else if c = CHR ''_'' then sw = SawDigit \<and> underscores_ok hex SawUnderscore cs
      else sw \<noteq> SawUnderscore \<and> underscores_ok hex SawOther cs)"

definition separators_ok :: "string \<Rightarrow> bool" where
  "separators_ok s =
     (if length s \<ge> 2 \<and> hd s = CHR ''0'' \<and> lower_alnum (s ! 1) \<in> set ''box''
      then underscores_ok (lower_alnum (s ! 1) = CHR ''x'') SawDigit (drop 2 s)
      else underscores_ok False SawStart s)"

text \<open>\<open>strconv.ParseInt(s, 0, 64)\<close>.\<close>

definition parse_int0 :: "string \<Rightarrow> num_error + int" where
  "parse_int0 s =
     (if s = '''' then Inl BadSyntax
      else let neg = (hd s = CHR ''-''); u = (if hd s \<in> {CHR ''-'', CHR ''+''} then tl s else s)
           in if u = '''' then Inl BadSyntax
              else case base_prefix u of (base, ds) \<Rightarrow>
                     (case read_digits base 0 ds of
                        Inl e \<Rightarrow> Inl e
                      | Inr n \<Rightarrow>
                          if CHR ''_'' \<in> set ds \<and> \<not> separators_ok u then Inl BadSyntax
                          else if \<not> neg \<and> n \<ge> 2 ^ 63 \<or> neg \<and> n > 2 ^ 63 then Inl OutOfRange
                          else Inr (if neg then - int n else int n)))"

definition parse_bool :: "string \<Rightarrow> bool option" where
  "parse_bool s =
     (if s \<in> {''1'', ''t'', ''T'', ''true'', ''TRUE'', ''True''} then Some True
      else if s \<in> {''0'', ''f'', ''F'', ''false'', ''FALSE'', ''False''} then Some False else None)"

section \<open>Flags\<close>

datatype fval = FInt int | FStr string | FBool bool

type_synonym flags = "(string \<times> fval) list"

datatype flag_step = Stop "string list" | Next "string list" flags | Bad string

definition num_error_text :: "num_error \<Rightarrow> string" where
  "num_error_text e = (case e of BadSyntax \<Rightarrow> ''parse error'' | OutOfRange \<Rightarrow> ''value out of range'')"

definition set_flag :: "string \<Rightarrow> fval \<Rightarrow> flags \<Rightarrow> flags" where
  "set_flag name v fs = map (\<lambda>p. if fst p = name then (name, v) else p) fs"

definition give_value :: "string \<Rightarrow> fval \<Rightarrow> string \<Rightarrow> string list \<Rightarrow> flags \<Rightarrow> flag_step" where
  "give_value name old v rest fs =
     (let bad = (\<lambda>e. Bad (''invalid value '' @ go_quote v @ '' for flag -'' @ name @ '': '' @ e))
      in case old of
           FInt _ \<Rightarrow> (case parse_int0 v of Inl e \<Rightarrow> bad (num_error_text e) | Inr i \<Rightarrow> Next rest (set_flag name (FInt i) fs))
         | FStr _ \<Rightarrow> Next rest (set_flag name (FStr v) fs)
         | FBool _ \<Rightarrow>
             (case parse_bool v of
                None \<Rightarrow> Bad (''invalid boolean value '' @ go_quote v @ '' for -'' @ name @ '': parse error'')
              | Some b \<Rightarrow> Next rest (set_flag name (FBool b) fs)))"

text \<open>A flag by its name, with the value written beside it or, for one that is no switch, the next word.\<close>

definition take_flag :: "string \<Rightarrow> string option \<Rightarrow> string list \<Rightarrow> flags \<Rightarrow> flag_step" where
  "take_flag name beside rest fs =
     (case map_of fs name of
        None \<Rightarrow> Bad (if name \<in> {''help'', ''h''} then ''flag: help requested''
                     else ''flag provided but not defined: -'' @ name)
      | Some old \<Rightarrow>
          (case beside of
             Some v \<Rightarrow> give_value name old v rest fs
           | None \<Rightarrow>
               (case old of
                  FBool _ \<Rightarrow> Next rest (set_flag name (FBool True) fs)
                | _ \<Rightarrow> (case rest of
                          [] \<Rightarrow> Bad (''flag needs an argument: -'' @ name)
                        | x # xs \<Rightarrow> give_value name old x xs fs))))"

definition split_flag :: "string \<Rightarrow> string \<times> string option" where
  "split_flag full =
     (let name = hd full # takeWhile (\<lambda>c. c \<noteq> CHR ''='') (tl full)
      in (name, if CHR ''='' \<in> set (tl full) then Some (drop (Suc (length name)) full) else None))"

definition one_flag :: "flags \<Rightarrow> string \<Rightarrow> string list \<Rightarrow> flag_step" where
  "one_flag fs s rest =
     (let full = drop (if s ! 1 = CHR ''-'' then 2 else 1) s
      in if full = '''' \<or> hd full \<in> {CHR ''-'', CHR ''=''} then Bad (''bad flag syntax: '' @ s)
         else (case split_flag full of (name, beside) \<Rightarrow> take_flag name beside rest fs))"

definition parse_one :: "flags \<Rightarrow> string list \<Rightarrow> flag_step" where
  "parse_one fs args =
     (case args of
        [] \<Rightarrow> Stop []
      | s # rest \<Rightarrow>
          if length s < 2 \<or> hd s \<noteq> CHR ''-'' then Stop args
          else if s = ''--'' then Stop rest
          else one_flag fs s rest)"

lemma give_value_rest: "give_value name old v rest fs \<noteq> Stop r"
  "give_value name old v rest fs = Next r fs' \<Longrightarrow> r = rest"
  by (auto simp: give_value_def Let_def split: fval.splits sum.splits option.splits)

lemma take_flag_rest: "take_flag name beside rest fs \<noteq> Stop r"
  "take_flag name beside rest fs = Next r fs' \<Longrightarrow> length r \<le> length rest"
  by (auto simp: take_flag_def give_value_rest split: fval.splits option.splits list.splits dest!: give_value_rest(2))

lemma one_flag_rest: "one_flag fs s rest \<noteq> Stop r"
  "one_flag fs s rest = Next r fs' \<Longrightarrow> length r \<le> length rest"
  by (auto simp: one_flag_def Let_def take_flag_rest(1) split: prod.splits if_split_asm dest: take_flag_rest(2))

lemma parse_one_shorter: "parse_one fs args = Next rest fs' \<Longrightarrow> length rest < length args"
  by (auto simp: parse_one_def split: list.split_asm if_split_asm dest!: one_flag_rest(2))

lemma parse_one_stop: "parse_one fs args = Stop rest \<Longrightarrow> rest = args \<or> args = ''--'' # rest"
  by (auto simp: parse_one_def one_flag_rest(1) split: list.split_asm if_split_asm)

text \<open>\<open>FlagSet.Parse\<close>: what is left of the line, and the flags as they are then.\<close>

function flag_parse :: "flags \<Rightarrow> string list \<Rightarrow> string + string list \<times> flags" where
  "flag_parse fs args =
     (case parse_one fs args of
        Stop rest \<Rightarrow> Inr (rest, fs)
      | Bad e \<Rightarrow> Inl e
      | Next rest fs' \<Rightarrow> flag_parse fs' rest)"
  by pat_completeness auto

termination
  by (relation "measure (\<lambda>(fs, args). length args)") (auto dest: parse_one_shorter)

declare flag_parse.simps [simp del]

lemma flag_parse_le: "flag_parse fs args = Inr (rest, fs') \<Longrightarrow> length rest \<le> length args"
proof (induction fs args rule: flag_parse.induct)
  case (1 fs args)
  show ?case
  proof (cases "parse_one fs args")
    case (Stop r)
    then have "length r \<le> length args" using parse_one_stop [OF Stop] by auto
    with Stop 1(2) show ?thesis by (simp add: flag_parse.simps [of fs])
  next
    case (Next r fs1)
    with 1 parse_one_shorter [OF Next] show ?thesis by (simp add: flag_parse.simps [of fs])
  next
    case (Bad e)
    with 1(2) show ?thesis by (simp add: flag_parse.simps [of fs])
  qed
qed

definition is_flag :: "string \<Rightarrow> bool" where
  "is_flag a = (has_prefix a ''-'' \<and> a \<noteq> ''-'')"

lemma flag_not_stop:
  assumes "is_flag a" "a \<noteq> ''--''"
  shows "parse_one fs (a # args) \<noteq> Stop rest"
proof -
  from assms(1) have "\<not> (length a < 2 \<or> hd a \<noteq> CHR ''-'')"
    by (cases a; cases "tl a") (auto simp: is_flag_def has_prefix_def split: if_split_asm)
  then have "parse_one fs (a # args) = one_flag fs a args"
    unfolding parse_one_def list.case using assms(2) by (simp only: if_False)
  then show ?thesis by (simp only: one_flag_rest(1) not_False_eq_True)
qed

lemma flag_taken:
  assumes "is_flag a" "a \<noteq> ''--''" "flag_parse fs (a # args) = Inr (rest, fs')"
  shows "length rest \<le> length args"
proof (cases "parse_one fs (a # args)")
  case (Next r fs1)
  with assms(3) flag_parse_le [of fs1 r rest fs'] parse_one_shorter [OF Next] show ?thesis
    by (simp add: flag_parse.simps [of fs])
qed (use assms flag_not_stop in \<open>auto simp: flag_parse.simps [of fs]\<close>)

text \<open>\<open>parse\<close>: the positionals in order, flags taken from anywhere, everything after \<open>--\<close> as it stands.\<close>

function cli_parse :: "flags \<Rightarrow> string list \<Rightarrow> string + string list \<times> flags" where
  "cli_parse fs [] = Inr ([], fs)"
| "cli_parse fs (a # args) =
     (if a = ''--'' then Inr (args, fs)
      else if \<not> is_flag a
      then (case cli_parse fs args of Inl e \<Rightarrow> Inl e | Inr (pos, fs') \<Rightarrow> Inr (a # pos, fs'))
      else case flag_parse fs (a # args) of
             Inl e \<Rightarrow> Inl e
           | Inr (rest, fs') \<Rightarrow>
               (let n = length (a # args) - length rest
                in if n > 0 \<and> (a # args) ! (n - 1) = ''--'' then Inr (rest, fs') else cli_parse fs' rest))"
  by pat_completeness auto

termination
  by (relation "measure (\<lambda>(fs, args). length args)") (auto dest: flag_taken)

declare cli_parse.simps(2) [simp del]

section \<open>The call\<close>

datatype jval = JStr string | JInt int | JBool bool

text \<open>A body: none, a text, an object, or the JSON a person wrote, read and written again.\<close>

datatype cli_body = NoData | Plain string | Obj "(string \<times> jval) list" | Given string

record call =
  ca_method :: string
  ca_path :: string
  ca_body :: cli_body

definition percent_char :: "char \<Rightarrow> string" where
  "percent_char c = [CHR ''%'', upper_char (hex_digit (code c div 16)), upper_char (hex_digit (code c mod 16))]"

definition unreserved :: "char \<Rightarrow> bool" where
  "unreserved c = (is_lower c \<or> is_upper c \<or> is_digit c \<or> c \<in> set ''-_.~'')"

text \<open>\<open>url.PathEscape\<close>, and the escaping of a query, whose keys come in order.\<close>

definition esc :: "string \<Rightarrow> string" where
  "esc s = concat (map (\<lambda>c. if unreserved c \<or> c \<in> set ''$&+:=@'' then [c] else percent_char c) s)"

definition query_esc :: "string \<Rightarrow> string" where
  "query_esc s = concat (map (\<lambda>c. if unreserved c then [c] else if c = CHR '' '' then ''+'' else percent_char c) s)"

definition encode_query :: "(string \<times> string) list \<Rightarrow> string" where
  "encode_query q =
     join ''&'' (map (\<lambda>(k, v). query_esc k @ ''='' @ query_esc v) (insertion_sort (\<lambda>a b. str_less (fst a) (fst b)) q))"

definition get_call :: "string \<Rightarrow> (string \<times> string) list \<Rightarrow> call" where
  "get_call path q =
     \<lparr>ca_method = ''GET'', ca_path = (if q \<noteq> [] then path @ ''?'' @ encode_query q else path), ca_body = NoData\<rparr>"

definition send_call :: "string \<Rightarrow> string \<Rightarrow> cli_body \<Rightarrow> call" where
  "send_call verb path b = \<lparr>ca_method = verb, ca_path = path, ca_body = b\<rparr>"

text \<open>The status, its line and the body answered, as what the caller gets.\<close>

definition call_answer :: "string \<Rightarrow> int \<Rightarrow> string \<Rightarrow> string \<Rightarrow> string + string" where
  "call_answer hub status line out =
     (if status = 401 then Inl (''the hub does not know this session any more; run: homedash login '' @ hub)
      else if status \<ge> 300 then Inl (let msg = trim_space out in if msg = '''' then line else msg)
      else Inr out)"

section \<open>The commands\<close>

text \<open>
  What a command reads: a file by its name, whether the standard input is a terminal, its text; and the JSON of
  a person's needs, read and written again.
\<close>

record cli_env =
  ce_file :: "string \<Rightarrow> string + string"
  ce_terminal :: bool
  ce_stdin :: string
  ce_recode :: "string \<Rightarrow> string + string"

type_synonym plan = "string + call list"

definition read_text :: "cli_env \<Rightarrow> string \<Rightarrow> string + string" where
  "read_text ev path =
     (if path = '''' \<or> path = ''-''
      then if path = '''' \<and> ce_terminal ev then Inl ''give a file with -f, or pipe the text in'' else Inr (ce_stdin ev)
      else ce_file ev path)"

definition need :: "string list \<Rightarrow> nat \<Rightarrow> string \<Rightarrow> plan \<Rightarrow> plan" where
  "need args n usage p = (if length args < n then Inl (''usage: homedash '' @ usage) else p)"

definition with_flags :: "flags \<Rightarrow> string list \<Rightarrow> (string list \<Rightarrow> flags \<Rightarrow> plan) \<Rightarrow> plan" where
  "with_flags fs args f = (case cli_parse fs args of Inl e \<Rightarrow> Inl e | Inr (pos, fs') \<Rightarrow> f pos fs')"

definition flag_int :: "flags \<Rightarrow> string \<Rightarrow> int" where
  "flag_int fs n = (case map_of fs n of Some (FInt i) \<Rightarrow> i | _ \<Rightarrow> 0)"

definition flag_str :: "flags \<Rightarrow> string \<Rightarrow> string" where
  "flag_str fs n = (case map_of fs n of Some (FStr s) \<Rightarrow> s | _ \<Rightarrow> '''')"

definition flag_bool :: "flags \<Rightarrow> string \<Rightarrow> bool" where
  "flag_bool fs n = (case map_of fs n of Some (FBool b) \<Rightarrow> b | _ \<Rightarrow> False)"

definition ellipsis :: string where
  "ellipsis = utf8 8230"

definition on_host_path :: "string \<Rightarrow> string \<Rightarrow> string" where
  "on_host_path ref rest = ''/hosts/'' @ esc ref @ rest"

definition storage_command :: plan where
  "storage_command = Inr [get_call ''/clusters'' [], get_call ''/workspaces'' []]"

definition logs_command :: "string list \<Rightarrow> plan" where
  "logs_command args = with_flags [(''n'', FInt 200)] args (\<lambda>pos fs.
     need pos 2 ''logs HOST STACK [-n LINES]''
       (Inr [get_call (on_host_path (pos ! 0) (''/apps/'' @ esc (pos ! 1) @ ''/logs'')) [(''lines'', itoa (flag_int fs ''n''))]]))"

definition place_command :: "cli_env \<Rightarrow> string list \<Rightarrow> plan" where
  "place_command ev args =
     need args 1 ''place NEEDS-JSON''
       (case ce_recode ev (args ! 0) of
          Inl e \<Rightarrow> Inl (''needs must be JSON: '' @ e)
        | Inr j \<Rightarrow> Inr [send_call ''POST'' ''/apps/placement'' (Given j)])"

definition fit_command :: "string list \<Rightarrow> plan" where
  "fit_command args = with_flags [(''n'', FInt 8)] args (\<lambda>pos fs.
     need pos 1 ''fit HOST [-n N]''
       (Inr [get_call (on_host_path (pos ! 0) ''/fit'') [(''n'', itoa (flag_int fs ''n''))]]))"

definition events_command :: "string list \<Rightarrow> plan" where
  "events_command args = with_flags [(''before'', FInt 0), (''limit'', FInt 200)] args (\<lambda>pos fs.
     Inr [get_call ''/events''
            ((if flag_int fs ''before'' > 0 then [(''before'', itoa (flag_int fs ''before''))] else []) @
             (if flag_int fs ''limit'' > 0 then [(''limit'', itoa (flag_int fs ''limit''))] else []))])"

definition jobs_command :: "string list \<Rightarrow> plan" where
  "jobs_command args = Inr [get_call ''/jobs'' (if args \<noteq> [] then [(''host'', args ! 0)] else [])]"

definition job_command :: "string list \<Rightarrow> plan" where
  "job_command args = with_flags [(''after'', FInt 0)] args (\<lambda>pos fs.
     need pos 1 ''job ID [--after EVENT-ID]''
       (Inr [get_call (''/jobs/'' @ esc (pos ! 0)) [],
             get_call (''/jobs/'' @ esc (pos ! 0) @ ''/events'') [(''after'', itoa (flag_int fs ''after''))]]))"

definition run_command :: "string list \<Rightarrow> plan" where
  "run_command args = with_flags [(''t'', FInt 120), (''forwards'', FBool False)] args (\<lambda>pos fs.
     need pos 2 (''run HOST [-t SECONDS] [--forwards] -- CMD'' @ ellipsis)
       (Inr [send_call ''POST'' (on_host_path (pos ! 0) ''/run'')
               (Obj [(''command'', JStr (join '' '' (tl pos))), (''timeoutSeconds'', JInt (flag_int fs ''t'')),
                     (''forwards'', JBool (flag_bool fs ''forwards''))])]))"

definition write_command :: "cli_env \<Rightarrow> string list \<Rightarrow> plan" where
  "write_command ev args = with_flags [(''f'', FStr ''''), (''mode'', FStr ''0644''), (''sudo'', FBool False)] args (\<lambda>pos fs.
     need pos 2 ''write HOST PATH [-f FILE] [--mode 0644] [--sudo]''
       (case read_text ev (flag_str fs ''f'') of
          Inl e \<Rightarrow> Inl e
        | Inr content \<Rightarrow>
            Inr [send_call ''PUT'' (on_host_path (pos ! 0) ''/file'')
                   (Obj [(''path'', JStr (pos ! 1)), (''content'', JStr content), (''mode'', JStr (flag_str fs ''mode'')),
                         (''sudo'', JBool (flag_bool fs ''sudo''))])]))"

definition lock_command :: "string list \<Rightarrow> plan" where
  "lock_command args =
     need args 2 ''lock HOST on|off''
       (if args ! 1 \<in> {''on'', ''off''}
        then Inr [send_call ''POST'' (on_host_path (args ! 0) ''/lock'') (Obj [(''locked'', JBool (args ! 1 = ''on''))])]
        else Inl ''usage: homedash lock HOST on|off'')"

definition name_command :: "string list \<Rightarrow> plan" where
  "name_command args =
     need args 2 ''name DEVICE NAME [KIND]''
       (Inr [send_call ''PUT'' (''/devices/'' @ esc (args ! 0))
               (Obj [(''name'', JStr (args ! 1)), (''kind'', JStr (if length args > 2 then args ! 2 else ''''))])])"

definition deploy_command :: "cli_env \<Rightarrow> string list \<Rightarrow> plan" where
  "deploy_command ev args = with_flags [(''f'', FStr ''''), (''e'', FStr '''')] args (\<lambda>pos fs.
     need pos 2 ''deploy HOST NAME -f COMPOSE [-e ENV-FILE]''
       (case read_text ev (flag_str fs ''f'') of
          Inl e \<Rightarrow> Inl e
        | Inr compose \<Rightarrow>
            (case (if flag_str fs ''e'' \<noteq> '''' then read_text ev (flag_str fs ''e'') else Inr '''') of
               Inl e \<Rightarrow> Inl e
             | Inr envs \<Rightarrow>
                 Inr [send_call ''POST'' (on_host_path (pos ! 0) ''/apps'')
                        (Obj [(''name'', JStr (pos ! 1)), (''compose'', JStr compose), (''env'', JStr envs)])])))"

definition app_command :: "string list \<Rightarrow> plan" where
  "app_command args = with_flags [(''volumes'', FBool False)] args (\<lambda>pos fs.
     need pos 3 ''app HOST NAME start|stop|restart|pull|remove [--volumes]''
       (Inr [send_call ''POST'' (on_host_path (pos ! 0) (''/apps/'' @ esc (pos ! 1)))
               (Obj [(''action'', JStr (pos ! 2)), (''volumes'', JBool (flag_bool fs ''volumes''))])]))"

text \<open>Without words the text is read from the standard input, and what reading it met is passed over.\<close>

definition start_command :: "cli_env \<Rightarrow> string list \<Rightarrow> plan" where
  "start_command ev args = with_flags [(''cwd'', FStr '''')] args (\<lambda>pos fs.
     need pos 1 (''start HOST [--cwd DIR] TEXT'' @ ellipsis)
       (let words = join '' '' (tl pos);
            txt = (if trim_space words = '''' then (case read_text ev '''' of Inl _ \<Rightarrow> '''' | Inr t \<Rightarrow> t) else words)
        in if trim_space txt = ''''
           then Inl (''usage: homedash start HOST [--cwd DIR] TEXT'' @ ellipsis @ ''  (or pipe the text in)'')
           else Inr [send_call ''POST'' ''/jobs''
                       (Obj [(''host'', JStr (pos ! 0)), (''cwd'', JStr (flag_str fs ''cwd'')), (''text'', JStr txt)])]))"

definition correct_command :: "string list \<Rightarrow> plan" where
  "correct_command args =
     need args 2 (''correct ID TEXT'' @ ellipsis)
       (Inr [send_call ''POST'' (''/jobs/'' @ esc (args ! 0) @ ''/correct'') (Obj [(''text'', JStr (join '' '' (tl args)))])])"

definition rollback_command :: "string list \<Rightarrow> plan" where
  "rollback_command args =
     need args 1 ''rollback ID'' (Inr [send_call ''POST'' (''/jobs/'' @ esc (args ! 0) @ ''/rollback'') NoData])"

definition reprovision_command :: "string list \<Rightarrow> plan" where
  "reprovision_command args =
     need args 1 ''reprovision HOST'' (Inr [send_call ''POST'' (on_host_path (args ! 0) ''/reprovision'') NoData])"

definition rebuild_command :: "cli_env \<Rightarrow> string list \<Rightarrow> plan" where
  "rebuild_command ev args = with_flags [(''f'', FStr '''')] args (\<lambda>pos fs.
     need pos 1 ''rebuild HOST [-f SCRIPT]''
       (if flag_str fs ''f'' = '''' \<and> ce_terminal ev then Inr [get_call (on_host_path (pos ! 0) '''') []]
        else case read_text ev (flag_str fs ''f'') of
               Inl e \<Rightarrow> Inl e
             | Inr script \<Rightarrow> Inr [send_call ''PUT'' (on_host_path (pos ! 0) ''/rebuild-script'') (Plain script)]))"

definition commands :: "cli_env \<Rightarrow> (string \<times> (string list \<Rightarrow> plan)) list" where
  "commands ev =
     [(''hosts'', \<lambda>_. Inr [get_call ''/hosts'' []]), (''devices'', \<lambda>_. Inr [get_call ''/devices'' []]),
      (''storage'', \<lambda>_. storage_command), (''apps'', \<lambda>_. Inr [get_call ''/apps'' []]), (''logs'', logs_command),
      (''catalog'', \<lambda>_. Inr [get_call ''/apps/catalog'' []]), (''place'', place_command ev), (''fit'', fit_command),
      (''secrets'', \<lambda>_. Inr [get_call ''/secrets'' []]), (''events'', events_command), (''jobs'', jobs_command),
      (''job'', job_command), (''run'', run_command), (''write'', write_command ev), (''lock'', lock_command),
      (''name'', name_command), (''deploy'', deploy_command ev), (''app'', app_command), (''start'', start_command ev),
      (''correct'', correct_command), (''rollback'', rollback_command), (''reprovision'', reprovision_command),
      (''rebuild'', rebuild_command ev)]"

section \<open>The session on this computer\<close>

record config =
  cf_hub :: string
  cf_token :: string
  cf_name :: string
  cf_role :: string

text \<open>The file as far as it could be read, and the two variables that override it.\<close>

definition load_config :: "config \<Rightarrow> string \<Rightarrow> string \<Rightarrow> string + config" where
  "load_config stored hub_var token_var =
     (let c1 = (if hub_var \<noteq> '''' then stored\<lparr>cf_hub := hub_var\<rparr> else stored);
          c2 = (if token_var \<noteq> '''' then c1\<lparr>cf_token := token_var, cf_name := ''token'', cf_role := ''''\<rparr> else c1)
      in if cf_hub c2 = '''' \<or> cf_token c2 = '''' then Inl ''not signed in; run: homedash login <hub-url>'' else Inr c2)"

definition whoami :: "config \<Rightarrow> string" where
  "whoami c =
     (if cf_role c = '''' then cf_hub c @ '' with an API token'' @ [newline]
      else cf_hub c @ '' as '' @ cf_name c @ '' ('' @ cf_role c @ '')'' @ [newline])"

text \<open>What a line comes to: the help, an error, a sign-in, a sign-out with the calls it makes, or calls.\<close>

datatype line_action = Help | Fails string | SignIn string | SignOut "call list" | Shows string | Calls bool "call list"

definition json_switch :: "string \<Rightarrow> bool" where
  "json_switch a = (a = ''--json'' \<or> a = ''-json'')"

definition cli_run :: "cli_env \<Rightarrow> string + config \<Rightarrow> string list \<Rightarrow> line_action" where
  "cli_run ev loaded args =
     (case filter (\<lambda>a. \<not> json_switch a) args of
        [] \<Rightarrow> Help
      | name # rest \<Rightarrow>
          if name \<in> {''help'', ''-h'', ''--help''} then Help
          else if name = ''login''
          then (case rest of [hub] \<Rightarrow> SignIn hub | _ \<Rightarrow> Fails ''usage: homedash login <hub-url>'')
          else if name = ''logout''
          then SignOut (if isl loaded then [] else [send_call ''POST'' ''/auth/logout'' NoData])
          else if name = ''whoami'' then (case loaded of Inl e \<Rightarrow> Fails e | Inr c \<Rightarrow> Shows (whoami c))
          else case map_of (commands ev) name of
                 None \<Rightarrow> Fails (''unknown command '' @ go_quote name)
               | Some f \<Rightarrow>
                   (case loaded of
                      Inl e \<Rightarrow> Fails e
                    | Inr c \<Rightarrow> (case f rest of Inl e \<Rightarrow> Fails e | Inr cs \<Rightarrow> Calls (\<exists>a \<in> set args. json_switch a) cs)))"

section \<open>The hand-off\<close>

definition login_hub :: "string \<Rightarrow> string" where
  "login_hub hub0 =
     (let hub = trim_right (\<lambda>c. c = CHR ''/'') (trim_space hub0)
      in if contains_str hub ''://'' then hub else ''http://'' @ hub)"

definition login_page :: "string \<Rightarrow> int \<Rightarrow> string \<Rightarrow> string" where
  "login_page hub port state = hub @ ''/#cli?port='' @ itoa port @ ''&state='' @ state"

text \<open>The requests that come back to the port, each with its state and its code: the code of the first that is ours.\<close>

definition login_code :: "string \<Rightarrow> (string \<times> string) list \<Rightarrow> string option" where
  "login_code state reqs =
     map_option snd (List.find (\<lambda>(st, c). \<not> (st \<noteq> state \<or> c = '''')) reqs)"

definition signed_in :: "string \<Rightarrow> string \<times> string \<times> string \<Rightarrow> config" where
  "signed_in hub r = (case r of (token, name, role) \<Rightarrow>
     \<lparr>cf_hub = hub, cf_token = token, cf_name = name, cf_role = role\<rparr>)"

section \<open>A line of a table\<close>

definition first_line :: "string \<Rightarrow> string" where
  "first_line s0 =
     (let s = takeWhile (\<lambda>c. c \<noteq> newline) s0 in if length s > 72 then take 69 s @ ellipsis else s)"

end
