(* ===== verification/CliLaws.thy ===== *)
theory CliLaws
  imports Cli
begin

text \<open>
  What the command line sends: a name goes into the path as one segment that reads back as the name, and the
  words after \<open>--\<close> reach the panel as the command, less the two spellings of the JSON switch. The last section
  shows where a row of a table is cut.
\<close>

section \<open>Names in a path\<close>

definition unhex :: "char \<Rightarrow> nat option" where
  "unhex c =
     (if is_digit c then Some (digit_val c)
      else if 65 \<le> code c \<and> code c \<le> 70 then Some (code c - 55)
      else if 97 \<le> code c \<and> code c \<le> 102 then Some (code c - 87) else None)"

text \<open>How the server reads a segment of a path.\<close>

fun unesc :: "string \<Rightarrow> string option" where
  "unesc [] = Some []"
| "unesc (c # cs) =
     (if c \<noteq> CHR ''%'' then map_option (Cons c) (unesc cs)
      else case cs of
             a # b # ds \<Rightarrow>
               (case (unhex a, unhex b) of
                  (Some m, Some n) \<Rightarrow> map_option (Cons (char_of (16 * m + n))) (unesc ds)
                | _ \<Rightarrow> None)
           | _ \<Rightarrow> None)"

lemma hex_code:
  assumes "n < 16"
  shows "code (upper_char (hex_digit n)) = (if n < 10 then 48 + n else 55 + n)"
  using assms by (simp add: hex_digit_def upper_char_def is_lower_def)

lemma unhex_digit: "n < 16 \<Longrightarrow> unhex (upper_char (hex_digit n)) = Some n"
  by (simp add: unhex_def is_digit_def digit_val_def hex_code)

lemma hex_plain:
  assumes "n < 16"
  shows "upper_char (hex_digit n) \<noteq> CHR ''/''"
proof
  assume "upper_char (hex_digit n) = CHR ''/''"
  with hex_code [OF assms] have "code (CHR ''/'') = (if n < 10 then 48 + n else 55 + n)" by simp
  then show False by (simp split: if_split_asm)
qed

lemma code_halves: "code c div 16 < 16" "code c mod 16 < 16" "char_of (16 * (code c div 16) + code c mod 16) = c"
  using nat_of_char_less_256 [of c] by (simp_all add: less_mult_imp_div_less)

lemma unesc_percent: "unesc (percent_char c @ cs) = map_option (Cons c) (unesc cs)"
  by (simp add: percent_char_def unhex_digit code_halves)

text \<open>A name is one segment of the path, and the server reads it back.\<close>

lemma esc_reads_back: "unesc (esc s) = Some s"
proof (induction s)
  case (Cons c s)
  then show ?case by (auto simp: esc_def unesc_percent unreserved_def is_lower_def is_upper_def is_digit_def)
qed (simp add: esc_def)

lemma esc_one_segment: "CHR ''/'' \<notin> set (esc s)"
proof -
  have "CHR ''/'' \<notin> set (percent_char c)" for c
    using hex_plain [OF code_halves(1) [of c]] hex_plain [OF code_halves(2) [of c]]
    by (auto simp: percent_char_def)
  then show ?thesis by (auto simp: esc_def unreserved_def is_lower_def is_upper_def is_digit_def)
qed

section \<open>A command and its words\<close>

lemma run_line_parsed:
  assumes "\<not> is_flag ref" and "parse_int0 v = Inr n"
  shows "cli_parse [(''t'', FInt 120), (''forwards'', FBool False)] (ref # ''-t'' # v # ''--'' # ws) =
    Inr (ref # ws, [(''t'', FInt n), (''forwards'', FBool False)])"
proof -
  let ?fs = "[(''t'', FInt 120), (''forwards'', FBool False)]" and ?gs = "[(''t'', FInt n), (''forwards'', FBool False)]"
  have "parse_one ?fs (''-t'' # v # ''--'' # ws) = Next (''--'' # ws) ?gs"
    using assms(2) by (simp add: parse_one_def one_flag_def split_flag_def take_flag_def give_value_def set_flag_def)
  moreover have "parse_one ?gs (''--'' # ws) = Stop ws" by (simp add: parse_one_def)
  ultimately have "flag_parse ?fs (''-t'' # v # ''--'' # ws) = Inr (ws, ?gs)"
    by (simp add: flag_parse.simps [of ?fs] flag_parse.simps [of ?gs])
  then have "cli_parse ?fs (''-t'' # v # ''--'' # ws) = Inr (ws, ?gs)"
    by (simp add: cli_parse.simps(2) is_flag_def has_prefix_def)
  moreover have "ref \<noteq> ''--''" using assms(1) by (auto simp: is_flag_def has_prefix_def)
  ultimately show ?thesis using assms(1) by (simp add: cli_parse.simps(2) [of ?fs ref])
qed

lemma split_path: "split_on (CHR ''/'') (''/hosts/'' @ esc ref @ ''/run'') = ['''', ''hosts'', esc ref, ''run'']"
  using split_on_append [OF esc_one_segment [of ref], of "''run''"] by simp

text \<open>
  C38: A command typed for a machine reaches the panel as one request to run it: the path names the machine in one
  segment that reads back as the name given, the timeout is the number given, and the command is the words after
  \<open>--\<close> with a blank between them, whatever they are, except that the switch for JSON is taken out of them too.
\<close>

theorem run_line_reaches_panel:
  assumes "\<not> is_flag ref" and "parse_int0 v = Inr n" and "\<exists>w \<in> set words. \<not> json_switch w"
  shows "\<exists>path. cli_run ev (Inr c) (''run'' # ref # ''-t'' # v # ''--'' # words) =
      Calls (\<exists>w \<in> set words. json_switch w)
        [\<lparr>ca_method = ''POST'', ca_path = path,
          ca_body = Obj [(''command'', JStr (join '' '' (filter (\<lambda>w. \<not> json_switch w) words))),
                         (''timeoutSeconds'', JInt n), (''forwards'', JBool False)]\<rparr>] \<and>
    map unesc (split_on (CHR ''/'') path) = [Some '''', Some ''hosts'', Some ref, Some ''run'']"
proof -
  let ?ws = "filter (\<lambda>w. \<not> json_switch w) words"
  have ref: "\<not> json_switch ref" using assms(1) by (auto simp: json_switch_def is_flag_def has_prefix_def)
  have "parse_int0 ''--json'' = Inl BadSyntax" "parse_int0 ''-json'' = Inl BadSyntax" by code_simp+
  then have v: "\<not> json_switch v" using assms(2) by (auto simp: json_switch_def)
  have lits: "\<not> json_switch ''run''" "\<not> json_switch ''-t''" "\<not> json_switch ''--''" by (simp_all add: json_switch_def)
  have line: "filter (\<lambda>a. \<not> json_switch a) (''run'' # ref # ''-t'' # v # ''--'' # words) =
      ''run'' # ref # ''-t'' # v # ''--'' # ?ws"
    using ref v lits by simp
  have "?ws \<noteq> []" using assms(3) by (simp add: filter_empty_conv)
  then have "\<not> length (ref # ?ws) < 2" by (cases ?ws) simp_all
  then have "run_command (ref # ''-t'' # v # ''--'' # ?ws) =
      Inr [send_call ''POST'' (on_host_path ref ''/run'')
        (Obj [(''command'', JStr (join '' '' ?ws)), (''timeoutSeconds'', JInt n), (''forwards'', JBool False)])]"
    by (simp add: run_command_def with_flags_def run_line_parsed [OF assms(1,2)] need_def flag_int_def flag_bool_def)
  moreover have "map_of (commands ev) ''run'' = Some run_command" by (simp add: commands_def)
  moreover have "(\<exists>a \<in> set (''run'' # ref # ''-t'' # v # ''--'' # words). json_switch a) = (\<exists>w \<in> set words. json_switch w)"
    using ref v lits by simp
  ultimately have "cli_run ev (Inr c) (''run'' # ref # ''-t'' # v # ''--'' # words) =
      Calls (\<exists>w \<in> set words. json_switch w) [send_call ''POST'' (on_host_path ref ''/run'')
        (Obj [(''command'', JStr (join '' '' ?ws)), (''timeoutSeconds'', JInt n), (''forwards'', JBool False)])]"
    unfolding cli_run_def line by simp
  moreover have "map unesc (split_on (CHR ''/'') (on_host_path ref ''/run'')) = [Some '''', Some ''hosts'', Some ref, Some ''run'']"
    unfolding on_host_path_def split_path by (simp add: esc_reads_back)
  ultimately show ?thesis by (auto simp: send_call_def)
qed

definition quiet_env :: cli_env where
  "quiet_env = \<lparr>ce_file = (\<lambda>_. Inl ''no such file''), ce_terminal = True, ce_stdin = '''', ce_recode = Inr\<rparr>"

definition nas_config :: config where
  "nas_config = \<lparr>cf_hub = ''http://hub:7433'', cf_token = ''t'', cf_name = ''ada'', cf_role = ''admin''\<rparr>"

theorem run_line_reaches_panel_witness:
  "\<exists>path. cli_run quiet_env (Inr nas_config) [''run'', ''a/b'', ''-t'', ''30'', ''--'', ''docker'', ''info'', ''--json''] =
      Calls True [\<lparr>ca_method = ''POST'', ca_path = path,
        ca_body = Obj [(''command'', JStr ''docker info''), (''timeoutSeconds'', JInt 30), (''forwards'', JBool False)]\<rparr>] \<and>
    map unesc (split_on (CHR ''/'') path) = [Some '''', Some ''hosts'', Some ''a/b'', Some ''run'']"
proof -
  have n: "parse_int0 ''30'' = Inr 30"
    by (simp add: parse_int0_def base_prefix_def digit_of_def digit_val_def is_digit_def)
  have f: "\<not> is_flag ''a/b''" by (simp add: is_flag_def has_prefix_def)
  let ?words = "[''docker'', ''info'', ''--json'']"
  have some: "\<exists>w \<in> set ?words. \<not> json_switch w" and one: "(\<exists>w \<in> set ?words. json_switch w) = True"
    and words: "join '' '' (filter (\<lambda>w. \<not> json_switch w) ?words) = ''docker info''"
    by (simp_all add: json_switch_def)
  show ?thesis
    using run_line_reaches_panel [OF f n some, of quiet_env nas_config] unfolding one words .
qed

section \<open>A hand-off and a row\<close>

text \<open>Only a request with the state minted for this sign-in brings a code.\<close>

theorem login_code_is_ours:
  "login_code state reqs = Some c \<Longrightarrow> (state, c) \<in> set reqs \<and> c \<noteq> ''''"
proof -
  assume "login_code state reqs = Some c"
  then obtain p where "List.find (\<lambda>(st, c). \<not> (st \<noteq> state \<or> c = '''')) reqs = Some p" and "c = snd p"
    by (auto simp: login_code_def)
  then show "(state, c) \<in> set reqs \<and> c \<noteq> ''''" by (cases p) (auto simp: find_Some_iff in_set_conv_nth)
qed

text \<open>A row is cut after a number of bytes, in the middle of a letter of two.\<close>

theorem row_cut_inside_letter:
  "first_line (replicate 68 (CHR ''a'') @ [CHR 0xC3, CHR 0xA9] @ ''bcd'') = replicate 68 (CHR ''a'') @ [CHR 0xC3] @ ellipsis"
  by (simp add: first_line_def newline_def numeral_eq_Suc)

end
