(* ===== verification/Spec2Isabelle.thy ===== *)
theory Spec2Isabelle
  imports ComposeGate StoreLaws PoolLaws TaskLaws AddressLaws StorageLaws PeersLaws AgentJobsLaws PlacementLaws FleetLaws AppsLaws PanelAuthLaws NetworkLaws AgentWindowLaws ProposalsLaws BackupLaws ToolsLaws RemoteLaws HealthLaws CliLaws
begin

text \<open>
  The hub of HomeDash: a Go program that keeps the machines of a house behind one panel. It holds
  one SQLite file, runs commands on the machines over SSH, routes language-model requests to the
  machines that hold the model, and lends all of this to the hubs of other houses. Paths below are
  relative to \<open>src/hub/internal/\<close>.

  \<^bold>\<open>Layers.\<close>
  \<^item> \<open>Prelude\<close>, \<open>GoStrings\<close>, \<open>Regex\<close>: errors as values (\<open>'a res\<close>), instants in nanoseconds, 64-bit
    wrap-around, the contracts \<open>sort_order\<close>, \<open>slot_lock\<close> and \<open>single_use\<close> (locales), the Go string
    functions the code calls, and the backtracking matcher for the regular expressions of the gate.
  \<^item> \<open>Gate\<close>, \<open>ComposeGate\<close>: \<open>gate/gate.go\<close>, the refusal list every command and every compose file
    passes before it reaches a machine.
  \<^item> \<open>Tables\<close> and the \<open>Store*\<close> theories: \<open>store/*.go\<close>. The file is the record \<open>db\<close>, one list of rows
    per table; every exported method is a definition on it, and the UNIQUE, CHECK and REFERENCES
    clauses of the schema are its \<open>Inl\<close> branches. \<open>StoreSchema\<close> states the schema as an invariant,
    \<open>StoreKeys\<close> and \<open>StoreSteps\<close> prove that each operation keeps it, \<open>StoreLaws\<close> holds the claims.
  \<^item> \<open>Pool\<close>, \<open>PoolLaws\<close>: \<open>pool/pool.go\<close> and \<open>pool/meter.go\<close>, the router of model requests: the grid, the
    choice of a machine, the queue, conversation homes, the token meter.
  \<^item> \<open>TaskSched\<close>, \<open>TaskLaws\<close>: \<open>tasks/tasks.go\<close>, scheduled commands and their clock entries.
  \<^item> \<open>Address\<close>, \<open>AddressLaws\<close>: \<open>fleet/address.go\<close>, the change of a machine's address.
  \<^item> \<open>StorageClusters\<close>, \<open>StorageLaws\<close>: \<open>storage/*.go\<close>, pooled storage and shared workspaces.
  \<^item> \<open>Peers\<close>, \<open>PeersLaws\<close>: \<open>peers/*.go\<close>, the node of a space: settings, offers, jobs placed at and served
    for other hubs, services carried, the limits of both.
  \<^item> \<open>AgentJobs\<close>, \<open>AgentJobsLaws\<close>: \<open>agent/jobs.go\<close>, rounds of a machine's own agent.
  \<^item> \<open>Placement\<close>, \<open>PlacementLaws\<close>: \<open>apps/placement.go\<close>, which machine a stack fits on.
  \<^item> \<open>FleetDoor\<close>, \<open>Fleet\<close>, \<open>FleetLaws\<close>: \<open>fleet/fleet.go\<close>, \<open>mobile.go\<close>, \<open>hold.go\<close>: the gated command and the file
    written, enrollment and pairing, credentials and the vault, the heartbeat, the lock, held connections.
  \<^item> \<open>Remote\<close>, \<open>RemoteLaws\<close>: \<open>remote/remote.go\<close>, the pinned dial, kept connections, one command and its retry.
  \<^item> \<open>Apps\<close>, \<open>AppsLaws\<close>: \<open>apps/apps.go\<close> and \<open>mcp/apps.go\<close>, stacks and the catalog.
  \<^item> \<open>PanelAuth\<close>, \<open>PanelAuthLaws\<close>: \<open>auth/auth.go\<close> and \<open>server/auth.go\<close>, ceremonies, the guard, accounts, tokens.
  \<^item> \<open>Vendors\<close>, \<open>Network\<close>, \<open>NetworkLaws\<close>: \<open>fleet/oui.go\<close> and \<open>fleet/network.go\<close>, scans and guesses.
  \<^item> \<open>AgentWindow\<close>, \<open>AgentWindowLaws\<close>: the other files of \<open>agent/\<close>: sessions, their replay, usage, models.
  \<^item> \<open>Proposals\<close>, \<open>ProposalsLaws\<close>: \<open>agent/proposals.go\<close>, the redaction and the filing of an issue.
  \<^item> \<open>Backup\<close>, \<open>BackupLaws\<close>: \<open>backup/backup.go\<close>, the export, its staging and its application.
  \<^item> \<open>Panel\<close>, \<open>Fronts\<close>, \<open>PanelLaws\<close>: settings, the log, services and fronts of \<open>server/\<close>; \<open>PanelHosts\<close>, \<open>PanelWork\<close>
    and \<open>PanelDesk\<close>: its other handlers; \<open>Tools\<close>, \<open>ToolsLaws\<close>: \<open>mcp/\<close>; \<open>Health\<close>, \<open>HealthLaws\<close>: \<open>server/health.go\<close>.
  \<^item> \<open>Cli\<close>, \<open>CliLaws\<close>: \<open>cli/\<close>, the flags of a line and the calls it becomes.

  \<^bold>\<open>How the parts interact.\<close> Every component works on the one \<open>db\<close> and calls the store's
  operations as defined in the \<open>Store*\<close> theories. The records \<open>hub\<close> (machines), \<open>world\<close> (jobs), \<open>site\<close>
  (storage), \<open>desk\<close> (sessions) and \<open>panel\<close> (sign-in) hold the \<open>db\<close> beside what a component keeps in memory,
  the notifications it sent and the commands it gave to machines. The scheduler, the fleet, the stacks and
  the panel call the gate before a command leaves the hub; a handler of \<open>server/\<close> and a tool of \<open>mcp/\<close> are
  the component's operation with the errors turned into a status or an error. What is outside the
  repository is an argument: a machine's answer, a peer's answer, SHA-256, AES, age, WebAuthn, JSON, the SSH
  library, the cron library, the clock reading.

  \<^bold>\<open>What the lemmas show.\<close>
  \<^item> What may reach a machine: one refused command refuses its line (\<open>Gate\<close>), the panel's door passes it
    (\<open>ToolsLaws\<close>), a deployment sends its plan and for an agent's refused stack neither the file nor the start
    (\<open>AppsLaws\<close>, which also shows that setup files and commands come before the gate), a command is read by the shell as its words and sent once at most
    to a machine that showed the pinned key (\<open>RemoteLaws\<close>), a member of a pool carries no system (\<open>StorageLaws\<close>).
  \<^item> Who may do what: writes need an admin and accounts an invite (\<open>PanelAuthLaws\<close>), a revoked machine gets
    nothing of the vault until a token is minted for it or an older file restored (\<open>FleetLaws\<close>), a secret is read where it was granted and the tools tell none
    (\<open>StoreLaws\<close>, \<open>ToolsLaws\<close>), a proposal names no machine (\<open>ProposalsLaws\<close>), a certificate follows an approved
    front and a service is never the hub's own port (\<open>PanelLaws\<close>), codes are spent once (\<open>StoreLaws\<close>).
  \<^item> What is kept: the schema on every reachable file (\<open>StoreLaws\<close>), well-formed tasks, and clock entries for the enabled
    ones that alone do anything (\<open>TaskLaws\<close>), settings in canonical form (\<open>PanelLaws\<close>), sessions that are live with a
    process and, where no two are opened at once, named apart (\<open>AgentWindowLaws\<close>), the limits on peers (\<open>PeersLaws\<close>),
    one request on a machine and the machine of a conversation (\<open>PoolLaws\<close>), the address of a machine (\<open>AddressLaws\<close>).
  \<^item> What is told: the changes of a machine's status over the sweeps that ended in time and no more (\<open>FleetLaws\<close>), the worst line of the health
    page (\<open>HealthLaws\<close>), every event of the log once over its pages (\<open>PanelLaws\<close>), the tokens of a stream however
    it is cut and of a growing session file once (\<open>PoolLaws\<close>, \<open>AgentWindowLaws\<close>), what a scan saw (\<open>NetworkLaws\<close>).
  \<^item> What comes back: an export, and from any file only names below the state directory (\<open>BackupLaws\<close>), the settings as shown (\<open>PanelLaws\<close>), a name in a path (\<open>CliLaws\<close>),
    what an attached terminal is sent (\<open>AgentWindowLaws\<close>).
  \<^item> What ends: a request in the queue (\<open>PoolLaws\<close>), the round of a job (\<open>AgentJobsLaws\<close>), the pacing of a stream
    (\<open>PeersLaws\<close>).
  Theorems that show where the code does not do what it says stand at the end of the laws of their part.

  \<^bold>\<open>Correspondence.\<close> A Go struct is a record with the same fields, an \<open>error\<close> result the left side
  of \<open>'a res\<close>; a guard with an early return is a branch of the same \<open>if\<close>. Text is a list of bytes;
  \<open>int\<close> and \<open>int64\<close> are \<open>int\<close> where no value near the limits can occur and go through \<open>i64\<close> where one
  can. IP addresses are words of 32 and 128 bits. Time enters as an argument \<open>now\<close>: the store's
  timestamps are the truncated readings \<open>sql_stamp\<close> (milliseconds) and \<open>rfc3339\<close> (seconds), which
  order as the formatted text does.

  \<^bold>\<open>Bounds and fuel.\<close> The matcher takes the length of its input as fuel, which is enough because
  every step that recurses consumes a character or a node of the expression. The pool's waiting
  loop recurses over the list of turns, so any number of turns is covered; the claim on the
  deadline says that the first turn after it settles the request. A name for a session is drawn from a
  list of random pairs, any list; the pages of the log are asked for as often as there are events, which is
  enough as every page but the last has one; the loop that paces a stream is total for a burst that is not zero, its counter
  wrapping at 64 bits as Go's does.
  The retry of a command and the parsing of flags end by a measure: a connection fewer kept, a word fewer.

  \<^bold>\<open>Not modelled.\<close> Opening the database and its driver's texts; the copying of bytes in proxies and
  forwards; the table of routes; the tables the command line prints; the embedded scripts beyond their text,
  the TypeScript hook and the panel's assets; the key file of the hub and the post of a notification; the
  start of the process, which opens the parts and wires them together; and the concurrency of Go beyond the
  interleavings that the mutexes leave possible: an operation that runs under one lock is one step, and what
  holds no lock over its pieces (jobs served and carried for peers, requests in the pool, opening and ending
  a session) is taken in its pieces. A context that ends is modelled where the code goes on with it: the 45
  seconds of a sweep, the requests that open a session or save and delete a
  task, the deadline of a job's round. A read of the store that fails is
  modelled where the answer depends on it, as in the health report. A float is a real.
\<close>

end
